(* ===== verification/Prelude.thy ===== *)
theory Prelude
  imports Main "HOL-Library.AList"
begin

text \<open>
  Generic material shared by every component: rows of a table as lists (an update by
  predicate, sums over a table and how one row's update changes them), the insertion
  ordered duplicate removal of a JavaScript \<open>Set\<close>, and the collections the component
  proofs feed to the simplifier:
  \<^item> \<open>run_simps\<close>: the definitions a run on concrete inputs unfolds, so that
    \<open>simp add: run_simps\<close> evaluates an operation;
  \<^item> \<open>row_simps\<close>: what an update of one row does to a lookup, a sum or a membership;
  \<^item> \<open>prog_simps\<close>: the unfolding of the statement combinators (theory \<open>JsRuntime\<close>);
  \<^item> \<open>table_defs\<close>: the definitions of the table operations (theory \<open>Schema\<close>).
\<close>

named_theorems run_simps
named_theorems row_simps
named_theorems prog_simps
named_theorems table_defs

subsection \<open>Rows updated by a predicate\<close>

definition update_where :: "('r \<Rightarrow> bool) \<Rightarrow> ('r \<Rightarrow> 'r) \<Rightarrow> 'r list \<Rightarrow> 'r list" where
  "update_where P f rows = map (\<lambda>r. if P r then f r else r) rows"

lemma update_where_Nil [simp]: "update_where P f [] = []"
  by (simp add: update_where_def)

lemma update_where_Cons [simp]:
  "update_where P f (r # rows) = (if P r then f r else r) # update_where P f rows"
  by (simp add: update_where_def)

lemma update_where_append [simp]:
  "update_where P f (xs @ ys) = update_where P f xs @ update_where P f ys"
  by (simp add: update_where_def)

lemma length_update_where [simp]: "length (update_where P f rows) = length rows"
  by (simp add: update_where_def)

lemma set_update_where [row_simps]:
  "set (update_where P f rows) = (\<lambda>r. if P r then f r else r) ` set rows"
  by (simp add: update_where_def)

lemma update_where_none: "(\<And>r. r \<in> set rows \<Longrightarrow> \<not> P r) \<Longrightarrow> update_where P f rows = rows"
  by (induction rows) auto

lemma update_where_cong:
  "(\<And>r. r \<in> set rows \<Longrightarrow> P r \<Longrightarrow> f r = g r) \<Longrightarrow> update_where P f rows = update_where P g rows"
  by (induction rows) auto

lemma map_update_where_same [row_simps]:
  "(\<And>r. P r \<Longrightarrow> k (f r) = k r) \<Longrightarrow> map k (update_where P f rows) = map k rows"
  by (induction rows) auto

lemma sum_update_where_same [row_simps]:
  "(\<And>r. P r \<Longrightarrow> g (f r) = g r) \<Longrightarrow> sum_list (map g (update_where P f rows)) = sum_list (map g rows)"
  by (induction rows) auto

lemma sum_zero: "(\<And>r. r \<in> set rows \<Longrightarrow> g r = 0) \<Longrightarrow> sum_list (map g rows) = (0::int)"
  by (induction rows) auto

lemma distinct_key_eq:
  "distinct (map k rows) \<Longrightarrow> x \<in> set rows \<Longrightarrow> y \<in> set rows \<Longrightarrow> k x = k y \<Longrightarrow> x = y"
  by (auto simp: distinct_map dest: inj_onD)

text \<open>The effect of one keyed row update on a sum over the table.\<close>

lemma sum_update_row:
  fixes g :: "'r \<Rightarrow> int"
  assumes "distinct (map k rows)" and "x \<in> set rows"
  shows "sum_list (map g (update_where (\<lambda>r. k r = k x) f rows))
    = sum_list (map g rows) - g x + g (f x)"
  using assms
proof (induction rows)
  case Nil
  then show ?case by simp
next
  case (Cons r rows)
  show ?case
  proof (cases "k r = k x")
    case True
    with Cons.prems have "r = x"
      by (intro distinct_key_eq [of k "r # rows"]) auto
    moreover from True Cons.prems have "\<And>r'. r' \<in> set rows \<Longrightarrow> k r' \<noteq> k x"
      by (auto simp: image_iff)
    then have "update_where (\<lambda>r. k r = k x) f rows = rows"
      by (rule update_where_none)
    ultimately show ?thesis by simp
  next
    case False
    with Cons show ?thesis by auto
  qed
qed

lemma sum_part_le:
  fixes g :: "'r \<Rightarrow> int"
  assumes "\<And>r. r \<in> set rows \<Longrightarrow> 0 \<le> g r" and "x \<in> set rows"
  shows "g x \<le> sum_list (map g rows)"
  using assms
proof (induction rows)
  case Nil
  then show ?case by simp
next
  case (Cons r rows)
  have nonneg: "0 \<le> sum_list (map g rows)"
    using Cons.prems(1) by (intro sum_list_nonneg) auto
  have first: "0 \<le> g r"
    using Cons.prems(1) by simp
  show ?case
  proof (cases "x = r")
    case True
    with nonneg show ?thesis by simp
  next
    case False
    with Cons have "g x \<le> sum_list (map g rows)" by simp
    with first show ?thesis by simp
  qed
qed

subsection \<open>Lookups\<close>

lemma find_SomeD: "List.find P xs = Some x \<Longrightarrow> x \<in> set xs \<and> P x"
  by (induction xs) (auto split: if_splits)

lemma find_None_iff2: "List.find P xs = None \<longleftrightarrow> (\<forall>x \<in> set xs. \<not> P x)"
  by (induction xs) auto

lemma find_append: "List.find P (xs @ ys) = (case List.find P xs of None \<Rightarrow> List.find P ys | Some x \<Rightarrow> Some x)"
  by (induction xs) auto

lemma find_unique:
  assumes "x \<in> set xs" and "P x" and only: "\<And>y. y \<in> set xs \<Longrightarrow> P y \<Longrightarrow> y = x"
  shows "List.find P xs = Some x"
proof (cases "List.find P xs")
  case None
  with assms(1,2) show ?thesis by (simp add: find_None_iff2)
next
  case (Some y)
  with find_SomeD [OF this] show ?thesis by (auto dest: only)
qed

lemma find_keyed:
  "distinct (map k xs) \<Longrightarrow> x \<in> set xs \<Longrightarrow> k x = i \<Longrightarrow> List.find (\<lambda>y. k y = i) xs = Some x"
  by (rule find_unique) (auto dest: distinct_key_eq)

lemma filter_keyed:
  "distinct (map k xs) \<Longrightarrow> x \<in> set xs \<Longrightarrow> k x = i \<Longrightarrow> filter (\<lambda>y. k y = i) xs = [x]"
proof (induction xs)
  case Nil
  then show ?case by simp
next
  case (Cons y ys)
  then show ?case
    by (cases "y = x") (auto simp: filter_empty_conv image_iff)
qed

subsection \<open>Insertion ordered sets\<close>

text \<open>\<open>[...new Set(xs)]\<close>: the distinct elements, in the order of their first occurrence.\<close>

definition js_set :: "'a list \<Rightarrow> 'a list" where
  "js_set xs = rev (remdups (rev xs))"

lemma set_js_set [simp]: "set (js_set xs) = set xs"
  by (simp add: js_set_def)

lemma distinct_js_set [simp]: "distinct (js_set xs)"
  by (simp add: js_set_def)

lemma js_set_Nil [simp]: "js_set [] = []"
  by (simp add: js_set_def)

text \<open>
  A JavaScript \<open>Map\<close> is an association list in insertion order. \<open>AList.update\<close> is
  \<open>Map.prototype.set\<close>: it replaces the value of a present key in place and appends a new
  key at the end; \<open>map_of\<close> is \<open>get\<close>.
\<close>

definition map_get_or :: "('k \<times> 'v) list \<Rightarrow> 'k \<Rightarrow> 'v \<Rightarrow> 'v" where
  "map_get_or m k d = (case map_of m k of None \<Rightarrow> d | Some v \<Rightarrow> v)"

lemma map_get_or_update [simp]:
  "map_get_or (AList.update k v m) k' d = (if k' = k then v else map_get_or m k' d)"
  by (simp add: map_get_or_def update_conv')

subsection \<open>Nullable columns\<close>

text \<open>A constraint on a column that may be null holds of a null.\<close>

definition null_or :: "('a \<Rightarrow> bool) \<Rightarrow> 'a option \<Rightarrow> bool" where
  "null_or P x = (case x of None \<Rightarrow> True | Some i \<Rightarrow> P i)"

lemma null_or_simps [simp]: "null_or P None" "null_or P (Some i) = P i"
  by (simp_all add: null_or_def)

end
