(* ===== verification/JsRuntime.thy ===== *)
theory JsRuntime
  imports Prelude "HOL-Library.Char_ord" "HOL-Library.List_Lexorder" "HOL-Library.Product_Lexorder"
begin

text \<open>
  What the modelled code uses of JavaScript, Node and the PostgreSQL driver:
  \<^item> the error classes it throws, and database constraint violations, as one datatype;
  \<^item> a statement as a function of the state that returns a result or a thrown error,
    with sequencing, throw, catch, loops and \<open>db.transaction\<close> (a throw inside rolls the
    state back and is rethrown);
  \<^item> text functions (\<open>trim\<close>, \<open>toLowerCase\<close>, \<open>toUpperCase\<close>, number printing, the key
    pattern), over ASCII code units;
  \<^item> \<open>Number.isSafeInteger\<close>, JSON values, objects as association lists with spread;
  \<^item> dates as milliseconds since the epoch, and \<open>Date.prototype.toISOString\<close>.
\<close>

subsection \<open>Errors\<close>

datatype err =
    Error string
  | TypeError string
  | CreditCustomerNotFoundError
  | InsufficientCreditsError
  | CreditIdempotencyConflictError
  | CreditReservationNotFoundError
  | CreditReservationTerminalStateError string
  | CreditReservationEnvironmentMismatchError
  | EntitlementIdempotencyConflictError
  | EntitlementCustomerNotFoundError
  | UsageMeterNotFoundError
  | UsageCustomerNotFoundError
  | InvalidUsageEventError string
  | NoProviderRouteError string
  | InvalidNormalizedCommerceEventError string
  | CustomerNotFoundError
  | CallbackUrlNotAllowedError
  | InvalidCallbackUrlError string
  | CatalogProductNotFoundError
  | CommerceCustomerNotFoundError
  | CommerceCatalogError string
  | CommerceProviderConnectionError
  | CommerceEnvironmentMismatchError
  | ProviderConnectionNotFoundError
  | ProviderAdapterNotRegisteredError string
  | ProviderApplicationMismatchError
  | UnsupportedProviderCapabilityError string string
  | ProviderOperationError string bool
  | ProviderCatalogLookupUnsupportedError string
  | CatalogLinkError string string
  | CatalogProvisionError string string
  | TeamServiceError string nat string
  | WebhookEndpointNotFoundError
  | WebhookDeliveryNotFoundError
  | CheckViolation string
  | UniqueViolation string
  | ForeignKeyViolation string
  | NumericValueOutOfRange string

subsection \<open>Statements\<close>

type_synonym ('s, 'a) prog = "'s \<Rightarrow> (err + 'a) \<times> 's"

definition return :: "'a \<Rightarrow> ('s, 'a) prog" where
  "return a = (\<lambda>s. (Inr a, s))"

definition throw :: "err \<Rightarrow> ('s, 'a) prog" where
  "throw e = (\<lambda>s. (Inl e, s))"

definition bind :: "('s, 'a) prog \<Rightarrow> ('a \<Rightarrow> ('s, 'b) prog) \<Rightarrow> ('s, 'b) prog" where
  "bind m f = (\<lambda>s. case m s of (Inl e, s') \<Rightarrow> (Inl e, s') | (Inr a, s') \<Rightarrow> f a s')"

definition gets :: "('s \<Rightarrow> 'a) \<Rightarrow> ('s, 'a) prog" where
  "gets f = (\<lambda>s. (Inr (f s), s))"

definition modify :: "('s \<Rightarrow> 's) \<Rightarrow> ('s, unit) prog" where
  "modify f = (\<lambda>s. (Inr (), f s))"

definition throw_if :: "bool \<Rightarrow> err \<Rightarrow> ('s, unit) prog" where
  "throw_if b e = (if b then throw e else return ())"

text \<open>A value that must be there: \<open>if (!x) throw e\<close>.\<close>

definition require :: "err \<Rightarrow> 'a option \<Rightarrow> ('s, 'a) prog" where
  "require e x = (case x of None \<Rightarrow> throw e | Some a \<Rightarrow> return a)"

text \<open>\<open>db.transaction\<close>: commit on return, roll back and rethrow on a throw.\<close>

definition transaction :: "('s, 'a) prog \<Rightarrow> ('s, 'a) prog" where
  "transaction m = (\<lambda>s. case m s of (Inl e, _) \<Rightarrow> (Inl e, s) | (Inr a, s') \<Rightarrow> (Inr a, s'))"

text \<open>\<open>try { m } catch (e) { h(e) }\<close>.\<close>

definition try_catch :: "('s, 'a) prog \<Rightarrow> (err \<Rightarrow> ('s, 'a) prog) \<Rightarrow> ('s, 'a) prog" where
  "try_catch m h = (\<lambda>s. case m s of (Inl e, s') \<Rightarrow> h e s' | (Inr a, s') \<Rightarrow> (Inr a, s'))"

text \<open>\<open>for (const x of xs) acc = await f(acc, x)\<close>.\<close>

fun for_loop :: "('acc \<Rightarrow> 'x \<Rightarrow> ('s, 'acc) prog) \<Rightarrow> 'acc \<Rightarrow> 'x list \<Rightarrow> ('s, 'acc) prog" where
  "for_loop f acc [] = return acc"
| "for_loop f acc (x # xs) = bind (f acc x) (\<lambda>acc'. for_loop f acc' xs)"

lemma return_apply [simp, prog_simps]: "return a s = (Inr a, s)"
  by (simp add: return_def)

lemma throw_apply [simp, prog_simps]: "throw e s = (Inl e, s)"
  by (simp add: throw_def)

lemma gets_apply [simp, prog_simps]: "gets f s = (Inr (f s), s)"
  by (simp add: gets_def)

lemma modify_apply [simp, prog_simps]: "modify f s = (Inr (), f s)"
  by (simp add: modify_def)

lemma throw_if_apply [prog_simps]:
  "throw_if b e s = (if b then (Inl e, s) else (Inr (), s))"
  by (simp add: throw_if_def)

lemma require_apply [prog_simps]:
  "require e x s = (case x of None \<Rightarrow> (Inl e, s) | Some a \<Rightarrow> (Inr a, s))"
  by (simp add: require_def split: option.splits)

lemma require_eq_Inr [simp]: "require e x s = (Inr a, s') \<longleftrightarrow> x = Some a \<and> s' = s"
  by (auto simp: require_def split: option.splits)

lemma require_eq_Inl [simp]: "require e x s = (Inl e', s') \<longleftrightarrow> x = None \<and> e' = e \<and> s' = s"
  by (auto simp: require_def split: option.splits)

lemma throw_if_eq_Inr [simp]: "throw_if b e s = (Inr u, s') \<longleftrightarrow> \<not> b \<and> s' = s"
  by (auto simp: throw_if_def)

lemma throw_if_eq_Inl [simp]: "throw_if b e s = (Inl e', s') \<longleftrightarrow> b \<and> e' = e \<and> s' = s"
  by (auto simp: throw_if_def)

lemma bind_apply [prog_simps]:
  "bind m f s = (case m s of (Inl e, s') \<Rightarrow> (Inl e, s') | (Inr a, s') \<Rightarrow> f a s')"
  by (simp add: bind_def)

lemma bind_Inr_step [simp]: "m s = (Inr a, s') \<Longrightarrow> bind m f s = f a s'"
  by (simp add: bind_def)

lemma bind_Inl_step [simp]: "m s = (Inl e, s') \<Longrightarrow> bind m f s = (Inl e, s')"
  by (simp add: bind_def)

lemma bind_InrE:
  assumes "bind m f s = (Inr b, s')"
  obtains a s1 where "m s = (Inr a, s1)" and "f a s1 = (Inr b, s')"
  using assms by (auto simp: bind_def split: prod.splits sum.splits)

lemma bind_eq_Inr:
  "bind m f s = (Inr b, s') \<longleftrightarrow> (\<exists>a s1. m s = (Inr a, s1) \<and> f a s1 = (Inr b, s'))"
  by (auto simp: bind_def split: prod.splits sum.splits)

lemma bind_eq_Inl:
  "bind m f s = (Inl e, s') \<longleftrightarrow>
     m s = (Inl e, s') \<or> (\<exists>a s1. m s = (Inr a, s1) \<and> f a s1 = (Inl e, s'))"
  by (auto simp: bind_def split: prod.splits sum.splits)

lemma transaction_eq_Inr [simp]: "transaction m s = (Inr a, s') \<longleftrightarrow> m s = (Inr a, s')"
  by (auto simp: transaction_def split: prod.splits sum.splits)

lemma transaction_eq_Inl: "transaction m s = (Inl e, s') \<longleftrightarrow> s' = s \<and> (\<exists>t. m s = (Inl e, t))"
  by (auto simp: transaction_def split: prod.splits sum.splits)

lemma transaction_rollback: "transaction m s = (Inl e, s') \<Longrightarrow> s' = s"
  by (simp add: transaction_eq_Inl)

text \<open>
  A property of the state that a statement keeps whether it returns or throws; it composes
  along \<open>bind\<close>, and a loop keeps what its body keeps.
\<close>

definition keeps :: "('s \<Rightarrow> bool) \<Rightarrow> ('s, 'a) prog \<Rightarrow> bool" where
  "keeps P m \<longleftrightarrow> (\<forall>s. P s \<longrightarrow> P (snd (m s)))"

lemma keepsI: "(\<And>s. P s \<Longrightarrow> P (snd (m s))) \<Longrightarrow> keeps P m"
  by (simp add: keeps_def)

lemma keepsD: "keeps P m \<Longrightarrow> m s = (r, s') \<Longrightarrow> P s \<Longrightarrow> P s'"
  by (auto simp: keeps_def dest: spec [where x = s])

lemma keeps_bind: "keeps P m \<Longrightarrow> (\<And>a. keeps P (f a)) \<Longrightarrow> keeps P (bind m f)"
  unfolding keeps_def bind_def by (auto split: prod.splits sum.splits)

lemma keeps_transaction: "keeps P m \<Longrightarrow> keeps P (transaction m)"
  unfolding keeps_def transaction_def by (auto split: prod.splits sum.splits)

lemma keeps_committed:
  "(\<And>s a s'. P s \<Longrightarrow> m s = (Inr a, s') \<Longrightarrow> P s') \<Longrightarrow> keeps P (transaction m)"
  unfolding keeps_def transaction_def by (auto split: prod.splits sum.splits)

lemma keeps_pure [simp]:
  "keeps P (return a)" "keeps P (throw e)" "keeps P (gets f)" "keeps P (throw_if b e)" "keeps P (require e x)"
  by (simp_all add: keeps_def throw_if_apply require_apply split: option.splits)

lemma keeps_for_loop: "(\<And>acc x. keeps P (f acc x)) \<Longrightarrow> keeps P (for_loop f acc xs)"
  by (induction xs arbitrary: acc) (auto simp: keeps_bind intro: keepsI)

subsection \<open>Text\<close>

definition is_js_space :: "char \<Rightarrow> bool" where
  "is_js_space c = (let n = (of_char c :: nat) in (9 \<le> n \<and> n \<le> 13) \<or> n = 32)"

definition trim :: "string \<Rightarrow> string" where
  "trim t = rev (dropWhile is_js_space (rev (dropWhile is_js_space t)))"

definition lower_char :: "char \<Rightarrow> char" where
  "lower_char c = (let n = (of_char c :: nat) in if 65 \<le> n \<and> n \<le> 90 then char_of (n + 32) else c)"

definition upper_char :: "char \<Rightarrow> char" where
  "upper_char c = (let n = (of_char c :: nat) in if 97 \<le> n \<and> n \<le> 122 then char_of (n - 32) else c)"

definition toLowerCase :: "string \<Rightarrow> string" where
  "toLowerCase = map lower_char"

definition toUpperCase :: "string \<Rightarrow> string" where
  "toUpperCase = map upper_char"

text \<open>A text that is missing or empty counts as false: \<open>t || null\<close>.\<close>

definition truthy :: "string option \<Rightarrow> string option" where
  "truthy t = (case t of None \<Rightarrow> None | Some x \<Rightarrow> if x = [] then None else Some x)"

text \<open>The key pattern \<open>/^[a-z0-9][a-z0-9._-]*$/\<close>.\<close>

definition is_key_head :: "char \<Rightarrow> bool" where
  "is_key_head c = (let n = (of_char c :: nat) in (97 \<le> n \<and> n \<le> 122) \<or> (48 \<le> n \<and> n \<le> 57))"

definition is_key_char :: "char \<Rightarrow> bool" where
  "is_key_char c = (is_key_head c \<or> c = CHR ''.'' \<or> c = CHR ''_'' \<or> c = CHR ''-'')"

fun matches_key_pattern :: "string \<Rightarrow> bool" where
  "matches_key_pattern [] = False"
| "matches_key_pattern (c # cs) = (is_key_head c \<and> list_all is_key_char cs)"

lemma dropWhile_idem_last:
  "dropWhile P (rev (dropWhile P (rev (dropWhile P xs)))) = rev (dropWhile P (rev (dropWhile P xs)))"
proof (cases "dropWhile P xs")
  case Nil
  then show ?thesis by (simp only: rev.simps dropWhile.simps)
next
  case (Cons y ys)
  then have "\<not> P y"
    by (metis hd_dropWhile list.discI list.sel(1))
  then have "dropWhile P (rev (y # ys)) = dropWhile P (rev ys) @ [y]"
    by (simp add: dropWhile_append3)
  with Cons \<open>\<not> P y\<close> show ?thesis by simp
qed

lemma dropWhile_idem [simp]: "dropWhile P (dropWhile P xs) = dropWhile P xs"
  by (induction xs) auto

lemma trim_idem [simp]: "trim (trim t) = trim t"
  by (simp add: trim_def dropWhile_idem_last)

subsubsection \<open>Printing integers\<close>

definition digit_char :: "nat \<Rightarrow> char" where
  "digit_char d = char_of (48 + d)"

fun string_of_nat :: "nat \<Rightarrow> string" where
  "string_of_nat n =
     (if n < 10 then [digit_char n] else string_of_nat (n div 10) @ [digit_char (n mod 10)])"

declare string_of_nat.simps [simp del]

definition string_of_int :: "int \<Rightarrow> string" where
  "string_of_int i = (if i < 0 then CHR ''-'' # string_of_nat (nat (- i)) else string_of_nat (nat i))"

definition digit_value :: "char \<Rightarrow> nat" where
  "digit_value c = of_char c - 48"

definition nat_of_digits :: "string \<Rightarrow> nat" where
  "nat_of_digits ds = foldl (\<lambda>n c. 10 * n + digit_value c) 0 ds"

definition is_digit :: "char \<Rightarrow> bool" where
  "is_digit c = (let n = (of_char c :: nat) in 48 \<le> n \<and> n \<le> 57)"

lemma digit_value_char [simp]: "d < 10 \<Longrightarrow> digit_value (digit_char d) = d"
  by (simp add: digit_value_def digit_char_def)

lemma is_digit_char [simp]: "d < 10 \<Longrightarrow> is_digit (digit_char d)"
  by (simp add: is_digit_def digit_char_def)

lemma nat_of_digits_snoc [simp]: "nat_of_digits (ds @ [c]) = 10 * nat_of_digits ds + digit_value c"
  by (simp add: nat_of_digits_def)

lemma nat_of_digits_string_of_nat [simp]: "nat_of_digits (string_of_nat n) = n"
proof (induction n rule: string_of_nat.induct)
  case (1 n)
  show ?case
  proof (cases "n < 10")
    case True
    then show ?thesis by (simp add: string_of_nat.simps [of n] nat_of_digits_def)
  next
    case False
    with 1 show ?thesis by (simp add: string_of_nat.simps [of n])
  qed
qed

lemma string_of_nat_inject [simp]: "string_of_nat m = string_of_nat n \<longleftrightarrow> m = n"
  by (metis nat_of_digits_string_of_nat)

lemma string_of_nat_digits: "list_all is_digit (string_of_nat n)"
proof (induction n rule: string_of_nat.induct)
  case (1 n)
  then show ?case
    by (cases "n < 10") (simp_all add: string_of_nat.simps [of n])
qed

lemma string_of_nat_nonempty [simp]: "string_of_nat n \<noteq> []"
  by (simp add: string_of_nat.simps [of n])

subsection \<open>Numbers\<close>

definition MAX_SAFE_INTEGER :: int where
  "MAX_SAFE_INTEGER = 9007199254740991"

definition isSafeInteger :: "int \<Rightarrow> bool" where
  "isSafeInteger n \<longleftrightarrow> - MAX_SAFE_INTEGER \<le> n \<and> n \<le> MAX_SAFE_INTEGER"

text \<open>The ranges of PostgreSQL's \<open>bigint\<close> and \<open>integer\<close> columns.\<close>

definition fits_bigint :: "int \<Rightarrow> bool" where
  "fits_bigint n \<longleftrightarrow> - 9223372036854775808 \<le> n \<and> n \<le> 9223372036854775807"

definition fits_integer :: "int \<Rightarrow> bool" where
  "fits_integer n \<longleftrightarrow> - 2147483648 \<le> n \<and> n \<le> 2147483647"

lemma isSafeInteger_fits_bigint: "isSafeInteger n \<Longrightarrow> fits_bigint n"
  by (simp add: isSafeInteger_def fits_bigint_def MAX_SAFE_INTEGER_def)

subsection \<open>JSON values and objects\<close>

datatype json =
    JNull
  | JBool bool
  | JNum int
  | JStr string
  | JArr "json list"
  | JObj "(string \<times> json) list"

type_synonym json_object = "(string \<times> json) list"

text \<open>\<open>{ ...a, ...b }\<close>.\<close>

definition obj_spread :: "json_object \<Rightarrow> json_object \<Rightarrow> json_object" where
  "obj_spread a b = foldl (\<lambda>obj (k, v). AList.update k v obj) a b"

text \<open>\<open>x ?? y\<close> on values that may be missing.\<close>

fun nullish :: "json option \<Rightarrow> json option \<Rightarrow> json option" where
  "nullish None y = y"
| "nullish (Some JNull) y = y"
| "nullish (Some v) y = Some v"

text \<open>\<open>===\<close>: primitives by value; two objects or arrays read from different places are
  never the same reference.\<close>

fun js_strict_eq :: "json \<Rightarrow> json \<Rightarrow> bool" where
  "js_strict_eq (JArr _) _ = False"
| "js_strict_eq (JObj _) _ = False"
| "js_strict_eq a b = (a = b)"

lemma map_of_obj_spread: "map_of (obj_spread a b) k = (case map_of (rev b) k of None \<Rightarrow> map_of a k | Some v \<Rightarrow> Some v)"
proof (induction b rule: rev_induct)
  case Nil
  then show ?case by (simp add: obj_spread_def)
next
  case (snoc p b)
  then show ?case
    by (cases p) (auto simp: obj_spread_def update_conv')
qed

lemma obj_spread_Nil [simp]: "obj_spread a [] = a"
  by (simp add: obj_spread_def)

subsection \<open>Dates\<close>

text \<open>
  A \<open>Date\<close> is the number of milliseconds since the epoch. The civil date of a day number
  is computed with a 400-year cycle that starts on 1 March, as the proleptic Gregorian
  calendar of ECMAScript requires.
\<close>

definition civil_of_days :: "int \<Rightarrow> int \<times> int \<times> int" where
  "civil_of_days days =
     (let z = days + 719468;
          era = z div 146097;
          doe = z mod 146097;
          yoe = (doe - doe div 1460 + doe div 36524 - doe div 146096) div 365;
          doy = doe - (365 * yoe + yoe div 4 - yoe div 100);
          mp = (5 * doy + 2) div 153;
          d = doy - (153 * mp + 2) div 5 + 1;
          m = (if mp < 10 then mp + 3 else mp - 9);
          y = yoe + era * 400 + (if m \<le> 2 then 1 else 0)
      in (y, m, d))"

definition pad_left :: "nat \<Rightarrow> char \<Rightarrow> string \<Rightarrow> string" where
  "pad_left w c t = replicate (w - length t) c @ t"

definition iso_year :: "int \<Rightarrow> string" where
  "iso_year y =
     (if 0 \<le> y \<and> y \<le> 9999 then pad_left 4 (CHR ''0'') (string_of_int y)
      else (if y < 0 then CHR ''-'' else CHR ''+'') # pad_left 6 (CHR ''0'') (string_of_int \<bar>y\<bar>))"

definition two_digits :: "int \<Rightarrow> string" where
  "two_digits n = pad_left 2 (CHR ''0'') (string_of_int n)"

definition toISOString :: "int \<Rightarrow> string" where
  "toISOString ms =
     (case civil_of_days (ms div 86400000) of (y, m, d) \<Rightarrow>
        let r = ms mod 86400000
        in iso_year y @ ''-'' @ two_digits m @ ''-'' @ two_digits d @ ''T''
           @ two_digits (r div 3600000) @ '':'' @ two_digits (r div 60000 mod 60) @ '':''
           @ two_digits (r div 1000 mod 60) @ ''.''
           @ pad_left 3 (CHR ''0'') (string_of_int (r mod 1000)) @ ''Z'')"

text \<open>A \<open>Date\<close> object a caller hands in: its time, or none when the date is invalid.\<close>

type_synonym js_date = "int option"

text \<open>\<open>ORDER BY c ASC NULLS LAST\<close>: a nullable key whose missing value sorts last.\<close>

datatype nulls_last = At int | NullLast

instantiation nulls_last :: linorder
begin

fun less_eq_nulls_last :: "nulls_last \<Rightarrow> nulls_last \<Rightarrow> bool" where
  "less_eq_nulls_last (At a) (At b) = (a \<le> b)"
| "less_eq_nulls_last (At a) NullLast = True"
| "less_eq_nulls_last NullLast (At b) = False"
| "less_eq_nulls_last NullLast NullLast = True"

definition less_nulls_last :: "nulls_last \<Rightarrow> nulls_last \<Rightarrow> bool" where
  "less_nulls_last a b \<longleftrightarrow> a \<le> b \<and> \<not> b \<le> a"

instance
proof
  fix x y z :: nulls_last
  show "(x < y) = (x \<le> y \<and> \<not> y \<le> x)" by (rule less_nulls_last_def)
  show "x \<le> x" by (cases x) auto
  show "x \<le> y \<Longrightarrow> y \<le> z \<Longrightarrow> x \<le> z" by (cases x; cases y; cases z) auto
  show "x \<le> y \<Longrightarrow> y \<le> x \<Longrightarrow> x = y" by (cases x; cases y) auto
  show "x \<le> y \<or> y \<le> x" by (cases x; cases y) auto
qed

end

fun nulls_last_of :: "int option \<Rightarrow> nulls_last" where
  "nulls_last_of None = NullLast"
| "nulls_last_of (Some t) = At t"

subsection \<open>Evaluation\<close>

text \<open>What a run returns and the state it leaves, when it succeeds.\<close>

definition succeeds :: "('s, 'a) prog \<Rightarrow> 's \<Rightarrow> bool" where
  "succeeds m s \<longleftrightarrow> \<not> isl (fst (m s))"

definition result :: "('s, 'a) prog \<Rightarrow> 's \<Rightarrow> 'a" where
  "result m s = projr (fst (m s))"

definition after :: "('s, 'a) prog \<Rightarrow> 's \<Rightarrow> 's" where
  "after m s = snd (m s)"

lemma succeeds_run: "succeeds m s \<Longrightarrow> m s = (Inr (result m s), after m s)"
  by (cases "m s") (auto simp: succeeds_def result_def after_def isl_def split: sum.splits)

lemmas [run_simps] = succeeds_def result_def after_def

lemma digit_char_values [run_simps]:
  "digit_char 0 = CHR ''0''" "digit_char (Suc 0) = CHR ''1''" "digit_char 2 = CHR ''2''" "digit_char 3 = CHR ''3''"
  "digit_char 4 = CHR ''4''" "digit_char 5 = CHR ''5''" "digit_char 6 = CHR ''6''" "digit_char 7 = CHR ''7''"
  "digit_char 8 = CHR ''8''" "digit_char 9 = CHR ''9''"
  by code_simp+

lemmas [run_simps] = string_of_nat.simps numeral_2_eq_2 [symmetric]

text \<open>
  A statement is unfolded when it is applied to a state: the congruence rules keep the
  simplifier out of the statements that follow until the state they start in is known.
\<close>

lemma transaction_apply: "transaction m s = (case m s of (Inl e, _) \<Rightarrow> (Inl e, s) | (Inr a, s') \<Rightarrow> (Inr a, s'))"
  by (simp add: transaction_def)

lemma try_catch_apply: "try_catch m h s = (case m s of (Inl e, s') \<Rightarrow> h e s' | (Inr a, s') \<Rightarrow> (Inr a, s'))"
  by (simp add: try_catch_def)

lemma bind_run_cong: "s = s' \<Longrightarrow> bind m f s = bind m f s'"
  by simp

lemma transaction_run_cong: "s = s' \<Longrightarrow> transaction m s = transaction m s'"
  by simp

lemma try_catch_run_cong: "s = s' \<Longrightarrow> try_catch m h s = try_catch m h s'"
  by simp

lemmas run_congs = bind_run_cong transaction_run_cong try_catch_run_cong

lemmas [run_simps] = transaction_apply bind_apply throw_if_apply require_apply try_catch_apply Let_def trim_def is_js_space_def lower_char_def upper_char_def toLowerCase_def toUpperCase_def
  is_key_head_def is_key_char_def string_of_int_def isSafeInteger_def MAX_SAFE_INTEGER_def fits_bigint_def
  fits_integer_def obj_spread_def map_get_or_def js_set_def update_where_def less_nulls_last_def

end
