(* ===== verification/Schema.thy ===== *)
theory Schema
  imports JsRuntime
begin

text \<open>
  The database tables the modelled modules read and write (\<open>src/src/modules/*/schema.ts\<close>):
  one record per row, one datatype per text column with an \<open>IN\<close> check, the table
  constraints (checks, unique indexes, foreign keys between modelled tables), and the
  statements the query builder issues: insert, insert with \<open>onConflictDoNothing\<close>, update
  with \<open>returning\<close>. A statement that violates a constraint throws, and the enclosing
  transaction rolls back.

  The state also holds the clock (\<open>new Date()\<close> and the column default \<open>now()\<close>) and the
  supply of \<open>randomUUID()\<close>: each call returns the printed value of a counter that never
  repeats, which is what the code relies on.
\<close>

subsection \<open>Enumerated columns\<close>

datatype environment = Test | Live

datatype credit_tx_type =
    GrantPurchase | GrantSubscription | GrantPromotion | DebitUsage | ReserveUsage
  | CaptureUsage | ReleaseUsage | RefundUsage | AdjustmentAdmin | GrantExpired | GrantRevoked

datatype reservation_status = ResActive | ResCaptured | ResReleased | ResExpired

datatype bucket_source = SrcPurchase | SrcSubscription | SrcPromotion | SrcAdmin | SrcRefund

datatype bucket_status = BktActive | BktConsumed | BktExpired | BktReversed

datatype entitlement_source = EntOrder | EntSubscription | EntAdmin

datatype entitlement_status = EntActive | EntRevoked | EntExpired

datatype billing_scheme = PerUnit | IncludedOverage

datatype grant_type = GrantsEntitlement | GrantsCredit

datatype billing_mode = OneTimeMode | SubscriptionMode

datatype order_status = OrdPending | OrdPaid | OrdFailed | OrdRefunded

datatype checkout_status = ChkCreating | ChkOpen | ChkCompleted | ChkFailed | ChkExpired

datatype payment_status = PayPending | PaySucceeded | PayFailed | PayRefunded

datatype refund_status = RefPending | RefSucceeded | RefFailed | RefSuperseded

datatype subscription_status = SubPending | SubActive | SubPastDue | SubCancelled | SubExpired

datatype webhook_status = WhReceived | WhProcessed | WhIgnored | WhFailed

datatype active_status = StActive | StArchived

datatype connection_status = ConnActive | ConnRevoked

datatype billing_type = BillOneTime | BillRecurring

datatype interval = Week | Month | Year

datatype mapping_source = MapLinked | MapCreated

datatype mapping_status = MapPending | MapCreating | MapSynced | MapNeedsReconciliation | MapFailed

subsection \<open>Rows\<close>

record application_customer =
  ac_id :: string
  ac_applicationId :: string
  ac_customerId :: string
  ac_externalCustomerId :: string
  ac_email :: "string option"
  ac_metadata :: json_object

record credit_account =
  ca_id :: string
  ca_applicationId :: string
  ca_applicationCustomerId :: string
  ca_creditType :: string
  ca_environment :: environment
  ca_availableBalance :: int
  ca_reservedBalance :: int
  ca_version :: int
  ca_createdAt :: int
  ca_updatedAt :: int

record credit_transaction =
  ct_id :: string
  ct_applicationId :: string
  ct_applicationCustomerId :: string
  ct_creditAccountId :: string
  ct_type :: credit_tx_type
  ct_amount :: int
  ct_availableAfter :: int
  ct_reservedAfter :: int
  ct_sourceType :: string
  ct_sourceId :: string
  ct_idempotencyKey :: string
  ct_environment :: environment
  ct_metadata :: json_object
  ct_createdAt :: int

record credit_reservation =
  cr_id :: string
  cr_applicationId :: string
  cr_applicationCustomerId :: string
  cr_creditAccountId :: string
  cr_reservedAmount :: int
  cr_environment :: environment
  cr_capturedAmount :: int
  cr_status :: reservation_status
  cr_referenceType :: string
  cr_referenceId :: string
  cr_idempotencyKey :: string
  cr_expiresAt :: "int option"
  cr_createdAt :: int
  cr_updatedAt :: int

record credit_bucket =
  cb_id :: string
  cb_applicationId :: string
  cb_environment :: environment
  cb_applicationCustomerId :: string
  cb_creditAccountId :: string
  cb_creditType :: string
  cb_sourceType :: bucket_source
  cb_sourceId :: string
  cb_transactionId :: string
  cb_grantedAmount :: int
  cb_remainingAmount :: int
  cb_expiresAt :: "int option"
  cb_status :: bucket_status
  cb_createdAt :: int
  cb_updatedAt :: int

record entitlement_grant =
  eg_id :: string
  eg_applicationId :: string
  eg_applicationCustomerId :: string
  eg_featureKey :: string
  eg_environment :: environment
  eg_status :: entitlement_status
  eg_sourceType :: entitlement_source
  eg_sourceId :: string
  eg_sourceEventId :: "string option"
  eg_idempotencyKey :: string
  eg_validFrom :: int
  eg_validUntil :: "int option"
  eg_metadata :: json_object
  eg_updatedAt :: int

record usage_meter =
  um_id :: string
  um_applicationId :: string
  um_key :: string
  um_name :: string
  um_unit :: string
  um_billingScheme :: billing_scheme
  um_currency :: string
  um_includedQuantity :: "int option"
  um_perUnitAmountMinor :: "int option"
  um_overageUnitAmountMinor :: "int option"

record usage_event =
  ue_id :: string
  ue_applicationId :: string
  ue_environment :: environment
  ue_meterId :: string
  ue_applicationCustomerId :: string
  ue_quantity :: int
  ue_sourceType :: string
  ue_sourceId :: string
  ue_idempotencyKey :: string
  ue_occurredAt :: int

record product =
  pr_id :: string
  pr_applicationId :: string
  pr_key :: string
  pr_name :: string
  pr_description :: "string option"
  pr_status :: active_status
  pr_metadata :: json_object

record price =
  pp_id :: string
  pp_productId :: string
  pp_key :: string
  pp_currency :: string
  pp_amountMinor :: int
  pp_billingType :: billing_type
  pp_recurringInterval :: "interval option"
  pp_intervalCount :: "int option"
  pp_trialPeriodDays :: "int option"
  pp_status :: active_status
  pp_metadata :: json_object

record product_grant_config =
  pg_id :: string
  pg_productId :: string
  pg_grantType :: grant_type
  pg_referenceKey :: string
  pg_quantity :: "int option"
  pg_metadata :: json_object

record provider_connection =
  pc_id :: string
  pc_applicationId :: string
  pc_provider :: string
  pc_name :: string
  pc_mode :: environment
  pc_status :: connection_status
  pc_encryptedCredentials :: string
  pc_metadata :: json_object
  pc_updatedAt :: int
  pc_revokedAt :: "int option"

record callback_origin =
  co_id :: string
  co_applicationId :: string
  co_origin :: string

record catalog_mapping =
  cm_id :: string
  cm_applicationId :: string
  cm_providerConnectionId :: string
  cm_environment :: environment
  cm_monetplanePriceId :: string
  cm_provider :: string
  cm_providerProductId :: "string option"
  cm_source :: mapping_source
  cm_status :: mapping_status
  cm_verifiedSnapshot :: json_object
  cm_updatedAt :: int
  cm_lastVerifiedAt :: "int option"
  cm_attemptToken :: "string option"

record commerce_order =
  od_id :: string
  od_applicationId :: string
  od_applicationCustomerId :: string
  od_billingMode :: billing_mode
  od_status :: order_status
  od_currency :: string
  od_environment :: environment
  od_totalAmountMinor :: int
  od_updatedAt :: int

record order_item =
  oi_id :: string
  oi_orderId :: string
  oi_productId :: string
  oi_priceId :: string
  oi_quantity :: int
  oi_unitAmountMinor :: int

record checkout_session =
  cs_id :: string
  cs_applicationId :: string
  cs_orderId :: string
  cs_providerConnectionId :: string
  cs_environment :: environment
  cs_status :: checkout_status
  cs_providerCheckoutId :: "string option"
  cs_checkoutUrl :: "string option"
  cs_successUrl :: string
  cs_cancelUrl :: string
  cs_updatedAt :: int

record payment =
  py_id :: string
  py_applicationId :: string
  py_orderId :: "string option"
  py_customerId :: "string option"
  py_providerConnectionId :: string
  py_providerPaymentId :: string
  py_environment :: environment
  py_status :: payment_status
  py_amountMinor :: int
  py_currency :: string
  py_updatedAt :: int

record refund =
  rf_id :: string
  rf_applicationId :: string
  rf_orderId :: "string option"
  rf_paymentId :: string
  rf_providerConnectionId :: string
  rf_providerRefundId :: string
  rf_environment :: environment
  rf_status :: refund_status
  rf_amountMinor :: "int option"
  rf_updatedAt :: int

record subscription =
  sb_id :: string
  sb_applicationId :: string
  sb_applicationCustomerId :: string
  sb_providerConnectionId :: string
  sb_providerSubscriptionId :: string
  sb_environment :: environment
  sb_status :: subscription_status
  sb_currentPeriodStart :: "int option"
  sb_currentPeriodEnd :: "int option"
  sb_cancelAtPeriodEnd :: bool
  sb_updatedAt :: int

record subscription_item =
  st_id :: string
  st_subscriptionId :: string
  st_productId :: string
  st_priceId :: string
  st_quantity :: int
  st_unitAmountMinor :: int
  st_currency :: string
  st_recurringInterval :: "interval option"
  st_trialPeriodDays :: "int option"

text \<open>A provider's event after its adapter has normalized it, as the inbox stores it
  (\<open>src/src/modules/providers/contract.ts\<close>).\<close>

datatype event_type =
    PaymentSucceeded | PaymentFailed | PaymentRefunded
  | SubscriptionCreated | SubscriptionActivated | SubscriptionRenewed | SubscriptionUpdated
  | SubscriptionCancelled | SubscriptionExpired | UnknownEvent

record provider_event =
  ev_provider :: string
  ev_providerConnectionId :: string
  ev_providerEventId :: string
  ev_providerEventName :: string
  ev_type :: event_type
  ev_applicationId :: string
  ev_occurredAt :: string
  ev_providerPaymentId :: "string option"
  ev_providerRefundId :: "string option"
  ev_providerSubscriptionId :: "string option"
  ev_monetplaneOrderId :: "string option"
  ev_monetplaneCustomerId :: "string option"
  ev_amountMinor :: "int option"
  ev_currency :: "string option"
  ev_subscriptionStatus :: "subscription_status option"
  ev_subscriptionPeriodStart :: "string option"
  ev_subscriptionPeriodEnd :: "string option"
  ev_cancelAtPeriodEnd :: "bool option"

record webhook_event =
  wh_id :: string
  wh_applicationId :: string
  wh_providerConnectionId :: string
  wh_providerEventId :: string
  wh_environment :: environment
  wh_providerEventName :: string
  wh_normalizedType :: event_type
  wh_status :: webhook_status
  wh_rawBody :: string
  wh_normalizedEvent :: provider_event
  wh_errorMessage :: "string option"
  wh_occurredAt :: int
  wh_processedAt :: "int option"

subsection \<open>The database\<close>

record db =
  clock :: int
  uuids :: nat
  applicationCustomers :: "application_customer list"
  creditAccounts :: "credit_account list"
  creditTransactions :: "credit_transaction list"
  creditReservations :: "credit_reservation list"
  creditBuckets :: "credit_bucket list"
  entitlementGrants :: "entitlement_grant list"
  usageMeters :: "usage_meter list"
  usageEvents :: "usage_event list"
  products :: "product list"
  productGrantConfigs :: "product_grant_config list"
  customers :: "string list"
  prices :: "price list"
  providerConnections :: "provider_connection list"
  orders :: "commerce_order list"
  orderItems :: "order_item list"
  checkoutSessions :: "checkout_session list"
  payments :: "payment list"
  refunds :: "refund list"
  subscriptions :: "subscription list"
  subscriptionItems :: "subscription_item list"
  webhookEvents :: "webhook_event list"
  callbackOrigins :: "callback_origin list"
  catalogMappings :: "catalog_mapping list"

definition empty_db :: db where
  "empty_db = \<lparr>clock = 0, uuids = 0, applicationCustomers = [], creditAccounts = [],
     creditTransactions = [], creditReservations = [], creditBuckets = [],
     entitlementGrants = [], usageMeters = [], usageEvents = [], products = [],
     productGrantConfigs = [], customers = [], prices = [], providerConnections = [], orders = [],
     orderItems = [], checkoutSessions = [], payments = [], refunds = [], subscriptions = [],
     subscriptionItems = [], webhookEvents = [],
     callbackOrigins = [], catalogMappings = []\<rparr>"

text \<open>\<open>new Date()\<close>, and an id made of a prefix and \<open>randomUUID()\<close>.\<close>

abbreviation now_date :: "(db, int) prog" where
  "now_date \<equiv> gets clock"

definition new_id :: "string \<Rightarrow> (db, string) prog" where
  "new_id prefix = (\<lambda>s. (Inr (prefix @ string_of_nat (uuids s)), s\<lparr>uuids := Suc (uuids s)\<rparr>))"

lemma new_id_apply [simp, prog_simps]:
  "new_id prefix s = (Inr (prefix @ string_of_nat (uuids s)), s\<lparr>uuids := Suc (uuids s)\<rparr>)"
  by (simp add: new_id_def)

subsection \<open>Statements on a table\<close>

text \<open>
  An insert evaluates the column ranges, then the row's checks, then the unique indexes
  (\<open>clash\<close> of the new row with a stored one), then the foreign keys.
\<close>

definition insert_row ::
    "string \<Rightarrow> ('r \<Rightarrow> bool) \<Rightarrow> ('r \<Rightarrow> bool) \<Rightarrow> ('r \<Rightarrow> 'r \<Rightarrow> bool) \<Rightarrow> ('s \<Rightarrow> 'r \<Rightarrow> bool)
     \<Rightarrow> ('s \<Rightarrow> 'r list) \<Rightarrow> (('r list \<Rightarrow> 'r list) \<Rightarrow> 's \<Rightarrow> 's) \<Rightarrow> 'r \<Rightarrow> ('s, 'r) prog" where
  "insert_row table fits check clash fk rows rows_update r = (\<lambda>s.
     if \<not> fits r then (Inl (NumericValueOutOfRange table), s)
     else if \<not> check r then (Inl (CheckViolation table), s)
     else if \<exists>r' \<in> set (rows s). clash r r' then (Inl (UniqueViolation table), s)
     else if \<not> fk s r then (Inl (ForeignKeyViolation table), s)
     else (Inr r, rows_update (\<lambda>rs. rs @ [r]) s))"

text \<open>
  \<open>insert ... onConflictDoNothing({ target })\<close>: a row that clashes on the target index is
  dropped and nothing is returned; every other violation throws.
\<close>

definition insert_or_ignore ::
    "string \<Rightarrow> ('r \<Rightarrow> bool) \<Rightarrow> ('r \<Rightarrow> bool) \<Rightarrow> ('r \<Rightarrow> 'r \<Rightarrow> bool) \<Rightarrow> ('r \<Rightarrow> 'r \<Rightarrow> bool) \<Rightarrow> ('s \<Rightarrow> 'r \<Rightarrow> bool)
     \<Rightarrow> ('s \<Rightarrow> 'r list) \<Rightarrow> (('r list \<Rightarrow> 'r list) \<Rightarrow> 's \<Rightarrow> 's) \<Rightarrow> 'r \<Rightarrow> ('s, 'r option) prog" where
  "insert_or_ignore table fits check target clash fk rows rows_update r = (\<lambda>s.
     if \<not> fits r then (Inl (NumericValueOutOfRange table), s)
     else if \<not> check r then (Inl (CheckViolation table), s)
     else if \<exists>r' \<in> set (rows s). target r r' then (Inr None, s)
     else if \<exists>r' \<in> set (rows s). clash r r' then (Inl (UniqueViolation table), s)
     else if \<not> fk s r then (Inl (ForeignKeyViolation table), s)
     else (Inr (Some r), rows_update (\<lambda>rs. rs @ [r]) s))"

text \<open>\<open>update ... set f where P returning *\<close>: the updated rows, in table order.\<close>

definition update_rows ::
    "string \<Rightarrow> ('r \<Rightarrow> bool) \<Rightarrow> ('r \<Rightarrow> bool) \<Rightarrow> ('s \<Rightarrow> 'r list) \<Rightarrow> (('r list \<Rightarrow> 'r list) \<Rightarrow> 's \<Rightarrow> 's)
     \<Rightarrow> ('r \<Rightarrow> bool) \<Rightarrow> ('r \<Rightarrow> 'r) \<Rightarrow> ('s, 'r list) prog" where
  "update_rows table fits check rows rows_update P f = (\<lambda>s.
     let hit = map f (filter P (rows s))
     in if \<not> list_all fits hit then (Inl (NumericValueOutOfRange table), s)
        else if \<not> list_all check hit then (Inl (CheckViolation table), s)
        else (Inr hit, rows_update (update_where P f) s))"

text \<open>\<open>const [x] = rows\<close>: the first row, if any.\<close>

fun first_row :: "'r list \<Rightarrow> 'r option" where
  "first_row [] = None"
| "first_row (r # rs) = Some r"

lemma first_row_mem: "first_row rows = Some r \<Longrightarrow> r \<in> set rows"
  by (cases rows) auto

lemma first_row_None [simp]: "first_row rows = None \<longleftrightarrow> rows = []"
  by (cases rows) auto

subsection \<open>Foreign keys between modelled tables\<close>

definition customer_exists :: "db \<Rightarrow> string \<Rightarrow> bool" where
  "customer_exists s i \<longleftrightarrow> (\<exists>c \<in> set (applicationCustomers s). ac_id c = i)"

definition account_exists :: "db \<Rightarrow> string \<Rightarrow> bool" where
  "account_exists s i \<longleftrightarrow> (\<exists>a \<in> set (creditAccounts s). ca_id a = i)"

subsection \<open>The credit tables\<close>

definition account_fits :: "credit_account \<Rightarrow> bool" where
  "account_fits a \<longleftrightarrow> fits_bigint (ca_availableBalance a) \<and> fits_bigint (ca_reservedBalance a)
     \<and> fits_integer (ca_version a)"

definition account_check :: "credit_account \<Rightarrow> bool" where
  "account_check a \<longleftrightarrow> 0 \<le> ca_availableBalance a \<and> 0 \<le> ca_reservedBalance a"

definition same_account_scope :: "credit_account \<Rightarrow> credit_account \<Rightarrow> bool" where
  "same_account_scope a b \<longleftrightarrow> ca_applicationId a = ca_applicationId b
     \<and> ca_applicationCustomerId a = ca_applicationCustomerId b
     \<and> ca_creditType a = ca_creditType b \<and> ca_environment a = ca_environment b"

definition insert_account :: "credit_account \<Rightarrow> (db, credit_account option) prog" where
  "insert_account = insert_or_ignore ''credit_accounts'' account_fits account_check same_account_scope
     (\<lambda>a b. ca_id a = ca_id b) (\<lambda>s a. customer_exists s (ca_applicationCustomerId a))
     creditAccounts creditAccounts_update"

definition update_accounts ::
    "(credit_account \<Rightarrow> bool) \<Rightarrow> (credit_account \<Rightarrow> credit_account) \<Rightarrow> (db, credit_account list) prog" where
  "update_accounts = update_rows ''credit_accounts'' account_fits account_check
     creditAccounts creditAccounts_update"

definition transaction_fits :: "credit_transaction \<Rightarrow> bool" where
  "transaction_fits t \<longleftrightarrow> fits_bigint (ct_amount t) \<and> fits_bigint (ct_availableAfter t)
     \<and> fits_bigint (ct_reservedAfter t)"

definition transaction_check :: "credit_transaction \<Rightarrow> bool" where
  "transaction_check t \<longleftrightarrow> ct_amount t \<noteq> 0 \<and> 0 \<le> ct_availableAfter t \<and> 0 \<le> ct_reservedAfter t"

definition same_tx_key :: "credit_transaction \<Rightarrow> credit_transaction \<Rightarrow> bool" where
  "same_tx_key t u \<longleftrightarrow> ct_applicationId t = ct_applicationId u
     \<and> ct_environment t = ct_environment u \<and> ct_idempotencyKey t = ct_idempotencyKey u"

definition insert_transaction :: "credit_transaction \<Rightarrow> (db, credit_transaction) prog" where
  "insert_transaction = insert_row ''credit_transactions'' transaction_fits transaction_check
     (\<lambda>t u. ct_id t = ct_id u \<or> same_tx_key t u)
     (\<lambda>s t. customer_exists s (ct_applicationCustomerId t) \<and> account_exists s (ct_creditAccountId t))
     creditTransactions creditTransactions_update"

definition update_transactions ::
    "(credit_transaction \<Rightarrow> bool) \<Rightarrow> (credit_transaction \<Rightarrow> credit_transaction)
     \<Rightarrow> (db, credit_transaction list) prog" where
  "update_transactions = update_rows ''credit_transactions'' transaction_fits transaction_check
     creditTransactions creditTransactions_update"

definition reservation_fits :: "credit_reservation \<Rightarrow> bool" where
  "reservation_fits r \<longleftrightarrow> fits_bigint (cr_reservedAmount r) \<and> fits_bigint (cr_capturedAmount r)"

definition reservation_check :: "credit_reservation \<Rightarrow> bool" where
  "reservation_check r \<longleftrightarrow> 0 < cr_reservedAmount r \<and> 0 \<le> cr_capturedAmount r
     \<and> cr_capturedAmount r \<le> cr_reservedAmount r"

definition same_reservation_key :: "credit_reservation \<Rightarrow> credit_reservation \<Rightarrow> bool" where
  "same_reservation_key r q \<longleftrightarrow> cr_applicationId r = cr_applicationId q
     \<and> cr_environment r = cr_environment q \<and> cr_idempotencyKey r = cr_idempotencyKey q"

definition insert_reservation :: "credit_reservation \<Rightarrow> (db, credit_reservation) prog" where
  "insert_reservation = insert_row ''credit_reservations'' reservation_fits reservation_check
     (\<lambda>r q. cr_id r = cr_id q \<or> same_reservation_key r q)
     (\<lambda>s r. customer_exists s (cr_applicationCustomerId r) \<and> account_exists s (cr_creditAccountId r))
     creditReservations creditReservations_update"

definition update_reservations ::
    "(credit_reservation \<Rightarrow> bool) \<Rightarrow> (credit_reservation \<Rightarrow> credit_reservation)
     \<Rightarrow> (db, credit_reservation list) prog" where
  "update_reservations = update_rows ''credit_reservations'' reservation_fits reservation_check
     creditReservations creditReservations_update"

definition bucket_fits :: "credit_bucket \<Rightarrow> bool" where
  "bucket_fits b \<longleftrightarrow> fits_bigint (cb_grantedAmount b) \<and> fits_bigint (cb_remainingAmount b)"

definition bucket_check :: "credit_bucket \<Rightarrow> bool" where
  "bucket_check b \<longleftrightarrow> 0 < cb_grantedAmount b \<and> 0 \<le> cb_remainingAmount b
     \<and> cb_remainingAmount b \<le> cb_grantedAmount b"

definition insert_bucket :: "credit_bucket \<Rightarrow> (db, credit_bucket) prog" where
  "insert_bucket = insert_row ''credit_buckets'' bucket_fits bucket_check
     (\<lambda>b c. cb_id b = cb_id c \<or> cb_transactionId b = cb_transactionId c)
     (\<lambda>s b. customer_exists s (cb_applicationCustomerId b) \<and> account_exists s (cb_creditAccountId b))
     creditBuckets creditBuckets_update"

definition update_buckets ::
    "(credit_bucket \<Rightarrow> bool) \<Rightarrow> (credit_bucket \<Rightarrow> credit_bucket) \<Rightarrow> (db, credit_bucket list) prog" where
  "update_buckets = update_rows ''credit_buckets'' bucket_fits bucket_check
     creditBuckets creditBuckets_update"

lemmas credit_table_defs [table_defs] =
  insert_account_def update_accounts_def insert_transaction_def update_transactions_def
  insert_reservation_def update_reservations_def insert_bucket_def update_buckets_def

lemma update_rows_eq_Inr:
  "update_rows table fits check rows rows_update P f s = (Inr hit, s') \<longleftrightarrow>
     hit = map f (filter P (rows s)) \<and> list_all fits hit \<and> list_all check hit
     \<and> s' = rows_update (update_where P f) s"
  by (auto simp: update_rows_def Let_def)

lemma insert_row_eq_Inr:
  "insert_row table fits check clash fk rows rows_update r s = (Inr r', s') \<longleftrightarrow>
     r' = r \<and> fits r \<and> check r \<and> (\<forall>q \<in> set (rows s). \<not> clash r q) \<and> fk s r
     \<and> s' = rows_update (\<lambda>rs. rs @ [r]) s"
  by (auto simp: insert_row_def)

lemma insert_or_ignore_eq_Inr:
  "insert_or_ignore table fits check target clash fk rows rows_update r s = (Inr x, s') \<longleftrightarrow>
     fits r \<and> check r \<and> (if \<exists>q \<in> set (rows s). target r q then x = None \<and> s' = s
       else (\<forall>q \<in> set (rows s). \<not> clash r q) \<and> fk s r \<and> x = Some r \<and> s' = rows_update (\<lambda>rs. rs @ [r]) s)"
  by (auto simp: insert_or_ignore_def)

lemmas [run_simps] = empty_db_def new_id_def insert_row_def insert_or_ignore_def update_rows_def
  customer_exists_def account_exists_def account_fits_def account_check_def same_account_scope_def
  transaction_fits_def transaction_check_def same_tx_key_def reservation_fits_def reservation_check_def
  same_reservation_key_def bucket_fits_def bucket_check_def credit_table_defs

end
