(* ===== verification/CreditBuckets.thy ===== *)
theory CreditBuckets
  imports Schema
begin

text \<open>
  Credit buckets (\<open>src/src/modules/credits/buckets.ts\<close>): every grant creates one bucket;
  consumption drains the active buckets soonest-expiring first; expiry reverses the part of
  a due bucket that the account's available balance backs. \<open>consumption_key\<close> is the
  \<open>ORDER BY expiresAt ASC NULLS LAST, createdAt, id\<close> every bucket writer uses.
\<close>

fun bucketSourceForTransactionType :: "credit_tx_type \<Rightarrow> bucket_source" where
  "bucketSourceForTransactionType GrantPurchase = SrcPurchase"
| "bucketSourceForTransactionType GrantSubscription = SrcSubscription"
| "bucketSourceForTransactionType GrantPromotion = SrcPromotion"
| "bucketSourceForTransactionType RefundUsage = SrcRefund"
| "bucketSourceForTransactionType _ = SrcAdmin"

definition consumption_key :: "credit_bucket \<Rightarrow> nulls_last \<times> int \<times> string" where
  "consumption_key b = (nulls_last_of (cb_expiresAt b), cb_createdAt b, cb_id b)"

record bucket_input =
  bi_applicationId :: string
  bi_environment :: environment
  bi_applicationCustomerId :: string
  bi_creditAccountId :: string
  bi_creditType :: string
  bi_sourceType :: bucket_source
  bi_sourceId :: string
  bi_transactionId :: string
  bi_amount :: int
  bi_expiresAt :: "int option"

definition createBucketForGrant :: "bucket_input \<Rightarrow> (db, credit_bucket) prog" where
  "createBucketForGrant input =
     bind (new_id ''bucket_'') (\<lambda>i.
     bind now_date (\<lambda>now.
     insert_bucket
       \<lparr>cb_id = i, cb_applicationId = bi_applicationId input, cb_environment = bi_environment input,
        cb_applicationCustomerId = bi_applicationCustomerId input,
        cb_creditAccountId = bi_creditAccountId input, cb_creditType = bi_creditType input,
        cb_sourceType = bi_sourceType input, cb_sourceId = bi_sourceId input,
        cb_transactionId = bi_transactionId input, cb_grantedAmount = bi_amount input,
        cb_remainingAmount = bi_amount input, cb_expiresAt = bi_expiresAt input,
        cb_status = BktActive, cb_createdAt = now, cb_updatedAt = now\<rparr>))"

subsection \<open>Consumption\<close>

text \<open>A bucket new spending may draw on: no expiry, or one still ahead.\<close>

definition unexpired :: "int \<Rightarrow> credit_bucket \<Rightarrow> bool" where
  "unexpired now b = (case cb_expiresAt b of None \<Rightarrow> True | Some e \<Rightarrow> now < e)"

definition consumable :: "string \<Rightarrow> bool \<Rightarrow> int \<Rightarrow> credit_bucket \<Rightarrow> bool" where
  "consumable accountId allowExpired now b \<longleftrightarrow>
     cb_creditAccountId b = accountId \<and> cb_status b = BktActive \<and> (allowExpired \<or> unexpired now b)"

definition set_remaining :: "bucket_status \<Rightarrow> int \<Rightarrow> int \<Rightarrow> credit_bucket \<Rightarrow> credit_bucket" where
  "set_remaining drained n now b =
     b\<lparr>cb_remainingAmount := n, cb_status := (if n = 0 then drained else BktActive), cb_updatedAt := now\<rparr>"

text \<open>
  The consumption loop over the locked rows; \<open>break\<close> leaves the rest of the rows alone.
  It returns the amount that is still to be consumed.
\<close>

fun consume_loop :: "int \<Rightarrow> credit_bucket list \<Rightarrow> int \<Rightarrow> (db, int) prog" where
  "consume_loop now [] remaining = return remaining"
| "consume_loop now (b # rows) remaining =
     (if remaining \<le> 0 then return remaining
      else let take = min (cb_remainingAmount b) remaining;
               nextRemaining = cb_remainingAmount b - take
           in bind (update_buckets (\<lambda>r. cb_id r = cb_id b) (set_remaining BktConsumed nextRemaining now)) (\<lambda>_.
              consume_loop now rows (remaining - take)))"

definition consumeBuckets :: "string \<Rightarrow> int \<Rightarrow> bool \<Rightarrow> (db, unit) prog" where
  "consumeBuckets creditAccountId amount allowExpired =
     (if amount \<le> 0 then return ()
      else bind now_date (\<lambda>now.
           bind (gets (\<lambda>s. sort_key consumption_key
                             (filter (consumable creditAccountId allowExpired now) (creditBuckets s)))) (\<lambda>rows.
           bind (consume_loop now rows amount) (\<lambda>remaining.
           throw_if (remaining > 0)
             (Error ''Bucket allocation invariant violated: consumption exceeds active buckets'')))))"

subsection \<open>Expiry\<close>

definition due :: "int \<Rightarrow> credit_bucket \<Rightarrow> bool" where
  "due now b \<longleftrightarrow> cb_status b = BktActive
     \<and> (case cb_expiresAt b of None \<Rightarrow> False | Some e \<Rightarrow> e \<le> now) \<and> cb_remainingAmount b > 0"

definition expire_key :: "credit_bucket \<Rightarrow> string" where
  "expire_key b = ''expire:'' @ cb_id b @ '':before:'' @ string_of_int (cb_remainingAmount b)"

text \<open>The reversal row a stage of expiry inserts; its balances are filled in afterwards.\<close>

definition expiry_transaction :: "string \<Rightarrow> credit_bucket \<Rightarrow> int \<Rightarrow> int \<Rightarrow> credit_transaction" where
  "expiry_transaction i fresh reversible now =
     \<lparr>ct_id = i, ct_applicationId = cb_applicationId fresh,
      ct_applicationCustomerId = cb_applicationCustomerId fresh,
      ct_creditAccountId = cb_creditAccountId fresh, ct_type = GrantExpired, ct_amount = - reversible,
      ct_availableAfter = 0, ct_reservedAfter = 0, ct_sourceType = ''expiration'',
      ct_sourceId = cb_id fresh, ct_idempotencyKey = expire_key fresh,
      ct_environment = cb_environment fresh,
      ct_metadata = [(''bucketId'', JStr (cb_id fresh)), (''expiredAt'', JStr (toISOString now))],
      ct_createdAt = now\<rparr>"

definition reverse_available :: "int \<Rightarrow> int \<Rightarrow> credit_account \<Rightarrow> credit_account" where
  "reverse_available reversible now a =
     a\<lparr>ca_availableBalance := max (ca_availableBalance a - reversible) 0,
       ca_version := ca_version a + 1, ca_updatedAt := now\<rparr>"

definition fill_balances :: "credit_account \<Rightarrow> credit_transaction \<Rightarrow> credit_transaction" where
  "fill_balances a t = t\<lparr>ct_availableAfter := ca_availableBalance a, ct_reservedAfter := ca_reservedBalance a\<rparr>"

text \<open>
  The account-scoped sweep, which runs under the account lock of a reservation. A row of
  \<open>dueRows\<close> whose account has no available balance left is skipped; a missing account ends
  the sweep.
\<close>

fun expire_account_loop :: "string \<Rightarrow> int \<Rightarrow> credit_bucket list \<Rightarrow> (db, unit) prog" where
  "expire_account_loop accountId now [] = return ()"
| "expire_account_loop accountId now (fresh # dueRows) =
     bind (gets (\<lambda>s. first_row (filter (\<lambda>a. ca_id a = accountId) (creditAccounts s)))) (\<lambda>account.
     case account of
       None \<Rightarrow> return ()
     | Some acct \<Rightarrow>
         let reversible = min (cb_remainingAmount fresh) (ca_availableBalance acct);
             nextRemaining = cb_remainingAmount fresh - reversible
         in if reversible \<le> 0 then expire_account_loop accountId now dueRows
            else
              bind (new_id ''ctx_'') (\<lambda>i.
              bind (insert_transaction (expiry_transaction i fresh reversible now)) (\<lambda>_.
              bind (update_accounts (\<lambda>a. ca_id a = accountId) (reverse_available reversible now)) (\<lambda>updated.
              bind (case first_row updated of
                      None \<Rightarrow> return ()
                    | Some updatedAccount \<Rightarrow>
                        bind (update_transactions
                                (\<lambda>t. ct_creditAccountId t = accountId \<and> ct_idempotencyKey t = expire_key fresh)
                                (fill_balances updatedAccount)) (\<lambda>_. return ())) (\<lambda>_.
              bind (update_buckets (\<lambda>r. cb_id r = cb_id fresh)
                      (set_remaining BktExpired nextRemaining now)) (\<lambda>_.
              expire_account_loop accountId now dueRows))))))"

definition expireDueBucketsForAccount ::
    "string \<Rightarrow> string \<Rightarrow> environment \<Rightarrow> int \<Rightarrow> (db, unit) prog" where
  "expireDueBucketsForAccount applicationId accountId env now =
     bind (gets (\<lambda>s. sort_key consumption_key
             (filter (\<lambda>b. cb_creditAccountId b = accountId \<and> cb_applicationId b = applicationId
                          \<and> cb_environment b = env \<and> due now b) (creditBuckets s)))) (\<lambda>dueRows.
     expire_account_loop accountId now dueRows)"

text \<open>
  One transaction of the sweep over all accounts: the bucket of the unlocked scan is read
  again under the account lock, and nothing happens when it was settled in between.
\<close>

definition expire_bucket_tx :: "int \<Rightarrow> credit_bucket \<Rightarrow> (db, (string \<times> int) option) prog" where
  "expire_bucket_tx now bucket =
     bind (gets (\<lambda>s. List.find (\<lambda>a. ca_id a = cb_creditAccountId bucket) (creditAccounts s))) (\<lambda>lockedAccount.
     bind (gets (\<lambda>s. List.find (\<lambda>b. cb_id b = cb_id bucket) (creditBuckets s))) (\<lambda>freshRow.
     case lockedAccount of
       None \<Rightarrow> return None
     | Some locked \<Rightarrow>
       (case freshRow of
         None \<Rightarrow> return None
       | Some fresh \<Rightarrow>
         if cb_status fresh \<noteq> BktActive \<or> cb_remainingAmount fresh \<le> 0 then return None
         else
           let reversible = min (cb_remainingAmount fresh) (ca_availableBalance locked);
               nextRemaining = cb_remainingAmount fresh - reversible
           in if reversible \<le> 0 then return None
              else
                bind (new_id ''ctx_'') (\<lambda>i.
                bind (insert_transaction (expiry_transaction i fresh reversible now)) (\<lambda>reversal.
                bind (update_accounts (\<lambda>a. ca_id a = cb_creditAccountId fresh)
                        (reverse_available reversible now)) (\<lambda>updated.
                bind (case first_row updated of
                        None \<Rightarrow> return ()
                      | Some account \<Rightarrow>
                          bind (update_transactions (\<lambda>t. ct_id t = ct_id reversal)
                                  (fill_balances account)) (\<lambda>_. return ())) (\<lambda>_.
                bind (update_buckets (\<lambda>r. cb_id r = cb_id fresh)
                        (set_remaining BktExpired nextRemaining now)) (\<lambda>_.
                return (Some (cb_id fresh, reversible)))))))))) "

definition scan_due :: "int \<Rightarrow> db \<Rightarrow> credit_bucket list" where
  "scan_due now s = sort_key consumption_key (filter (due now) (creditBuckets s))"

text \<open>The cron sweep: an unlocked scan, then one transaction per scanned bucket.\<close>

definition expireDueCreditBuckets :: "int \<Rightarrow> (db, (string \<times> int) list) prog" where
  "expireDueCreditBuckets now =
     bind (gets (scan_due now)) (\<lambda>dueRows.
     for_loop (\<lambda>expired bucket.
       bind (transaction (expire_bucket_tx now bucket)) (\<lambda>r.
       return (case r of None \<Rightarrow> expired | Some x \<Rightarrow> expired @ [x]))) [] dueRows)"

subsection \<open>Console summary\<close>

record bucket_summary =
  bs_activeBuckets :: "(string \<times> bucket_source \<times> int \<times> int \<times> int option) list"
  bs_nextExpiries :: "(string \<times> int \<times> int option) list"

definition getBucketSummary :: "string \<Rightarrow> string \<Rightarrow> environment \<Rightarrow> (db, bucket_summary) prog" where
  "getBucketSummary applicationId applicationCustomerId env =
     bind (gets (\<lambda>s. sort_key (\<lambda>b. (nulls_last_of (cb_expiresAt b), cb_createdAt b))
             (filter (\<lambda>b. cb_applicationId b = applicationId
                          \<and> cb_applicationCustomerId b = applicationCustomerId \<and> cb_environment b = env
                          \<and> (cb_status b = BktActive \<or> cb_expiresAt b = None)) (creditBuckets s)))) (\<lambda>buckets.
     let active = filter (\<lambda>b. cb_status b = BktActive) buckets;
         expiringSoon = take 5 (filter (\<lambda>b. cb_expiresAt b \<noteq> None) active)
     in return \<lparr>bs_activeBuckets = map (\<lambda>b. (cb_id b, cb_sourceType b, cb_remainingAmount b,
                                               cb_grantedAmount b, cb_expiresAt b)) active,
                bs_nextExpiries = map (\<lambda>b. (cb_id b, cb_remainingAmount b, cb_expiresAt b)) expiringSoon\<rparr>)"

lemmas [run_simps] = consumption_key_def createBucketForGrant_def unexpired_def consumable_def set_remaining_def
  consumeBuckets_def due_def expire_key_def expiry_transaction_def reverse_available_def fill_balances_def
  expireDueBucketsForAccount_def expire_bucket_tx_def scan_due_def expireDueCreditBuckets_def

end
