(* ===== verification/CreditService.thy ===== *)
theory CreditService
  imports CreditBuckets
begin

text \<open>
  The credit ledger (\<open>src/src/modules/credits/service.ts\<close>): grant, debit, refund, reserve,
  capture and release, each idempotent under the (application, environment, key) of its
  ledger row. Advisory and row locks have no effect on the values a transaction computes:
  a transaction is one atomic step of the model, which is what they enforce.
\<close>

fun resolveCreditEnvironment :: "environment option \<Rightarrow> environment" where
  "resolveCreditEnvironment (Some Live) = Live"
| "resolveCreditEnvironment _ = Test"

lemma resolve_resolved [simp]: "resolveCreditEnvironment (Some e) = e"
  by (cases e) simp_all

definition normalizeCreditType :: "string \<Rightarrow> (db, string) prog" where
  "normalizeCreditType value =
     (let creditType = toLowerCase (trim value)
      in if creditType = [] \<or> \<not> matches_key_pattern creditType
         then throw (Error ''Credit type must use lowercase letters, numbers, dots, underscores, or hyphens'')
         else return creditType)"

definition requireText :: "string \<Rightarrow> string \<Rightarrow> (db, string) prog" where
  "requireText value label =
     (let normalized = trim value
      in if normalized = [] then throw (Error (label @ '' is required'')) else return normalized)"

definition assertPositiveAmount :: "int \<Rightarrow> string \<Rightarrow> (db, unit) prog" where
  "assertPositiveAmount amount label =
     throw_if (\<not> isSafeInteger amount \<or> amount \<le> 0) (Error (label @ '' must be a positive safe integer''))"

definition key_is :: "string \<Rightarrow> environment \<Rightarrow> string \<Rightarrow> credit_transaction \<Rightarrow> bool" where
  "key_is app env key t \<longleftrightarrow> ct_applicationId t = app \<and> ct_environment t = env \<and> ct_idempotencyKey t = key"

definition findTransaction ::
    "string \<Rightarrow> environment \<Rightarrow> string \<Rightarrow> (db, credit_transaction option) prog" where
  "findTransaction applicationId env idempotencyKey =
     gets (\<lambda>s. List.find (key_is applicationId env idempotencyKey) (creditTransactions s))"

definition assertMatchingTransaction ::
    "credit_transaction \<Rightarrow> credit_tx_type \<Rightarrow> int \<Rightarrow> string \<Rightarrow> string \<Rightarrow> string \<Rightarrow> (db, unit) prog" where
  "assertMatchingTransaction t ty amount applicationCustomerId sourceType sourceId =
     throw_if (ct_type t \<noteq> ty \<or> ct_amount t \<noteq> amount
               \<or> ct_applicationCustomerId t \<noteq> applicationCustomerId
               \<or> ct_sourceType t \<noteq> sourceType \<or> ct_sourceId t \<noteq> sourceId)
       CreditIdempotencyConflictError"

definition resolveApplicationCustomerId :: "string \<Rightarrow> string \<Rightarrow> (db, string) prog" where
  "resolveApplicationCustomerId applicationId externalCustomerId =
     bind (requireText externalCustomerId ''External customer ID'') (\<lambda>normalizedExternalId.
     bind (gets (\<lambda>s. List.find (\<lambda>c. ac_applicationId c = applicationId
                                 \<and> ac_externalCustomerId c = normalizedExternalId)
                       (applicationCustomers s))) (\<lambda>mapping.
     bind (require CreditCustomerNotFoundError mapping) (\<lambda>c.
     return (ac_id c))))"

definition account_scope :: "string \<Rightarrow> string \<Rightarrow> string \<Rightarrow> environment \<Rightarrow> credit_account \<Rightarrow> bool" where
  "account_scope applicationId applicationCustomerId creditType env a \<longleftrightarrow>
     ca_applicationId a = applicationId \<and> ca_applicationCustomerId a = applicationCustomerId
     \<and> ca_creditType a = creditType \<and> ca_environment a = env"

definition findAccount ::
    "string \<Rightarrow> string \<Rightarrow> string \<Rightarrow> environment \<Rightarrow> (db, credit_account option) prog" where
  "findAccount applicationId applicationCustomerId creditType env =
     gets (\<lambda>s. List.find (account_scope applicationId applicationCustomerId creditType env) (creditAccounts s))"

definition ensureAccount ::
    "string \<Rightarrow> string \<Rightarrow> string \<Rightarrow> environment \<Rightarrow> (db, credit_account) prog" where
  "ensureAccount applicationId applicationCustomerId creditType env =
     bind (new_id ''credit_'') (\<lambda>i.
     bind now_date (\<lambda>now.
     bind (insert_account
             \<lparr>ca_id = i, ca_applicationId = applicationId, ca_applicationCustomerId = applicationCustomerId,
              ca_creditType = creditType, ca_environment = env, ca_availableBalance = 0,
              ca_reservedBalance = 0, ca_version = 0, ca_createdAt = now, ca_updatedAt = now\<rparr>) (\<lambda>_.
     bind (findAccount applicationId applicationCustomerId creditType env) (\<lambda>account.
     require (Error ''Failed to create or resolve credit account'') account))))"

record tx_input =
  ti_applicationId :: string
  ti_applicationCustomerId :: string
  ti_creditAccountId :: string
  ti_type :: credit_tx_type
  ti_amount :: int
  ti_availableAfter :: int
  ti_reservedAfter :: int
  ti_sourceType :: string
  ti_sourceId :: string
  ti_idempotencyKey :: string
  ti_environment :: "environment option"
  ti_metadata :: "json_object option"

definition or_empty :: "json_object option \<Rightarrow> json_object" where
  "or_empty m = (case m of None \<Rightarrow> [] | Some obj \<Rightarrow> obj)"

definition appendTransaction :: "tx_input \<Rightarrow> (db, credit_transaction) prog" where
  "appendTransaction input =
     bind (new_id ''ctx_'') (\<lambda>i.
     bind now_date (\<lambda>now.
     insert_transaction
       \<lparr>ct_id = i, ct_applicationId = ti_applicationId input,
        ct_applicationCustomerId = ti_applicationCustomerId input,
        ct_creditAccountId = ti_creditAccountId input, ct_type = ti_type input,
        ct_amount = ti_amount input, ct_availableAfter = ti_availableAfter input,
        ct_reservedAfter = ti_reservedAfter input, ct_sourceType = ti_sourceType input,
        ct_sourceId = ti_sourceId input, ct_idempotencyKey = ti_idempotencyKey input,
        ct_environment = resolveCreditEnvironment (ti_environment input),
        ct_metadata = or_empty (ti_metadata input), ct_createdAt = now\<rparr>))"

text \<open>The validations read nothing of the state and change nothing.\<close>

definition normalized_key :: "string \<Rightarrow> string \<Rightarrow> bool" where
  "normalized_key value k \<longleftrightarrow> k = toLowerCase (trim value) \<and> k \<noteq> [] \<and> matches_key_pattern k"

definition valid_amount :: "int \<Rightarrow> bool" where
  "valid_amount n \<longleftrightarrow> isSafeInteger n \<and> 0 < n"

lemma validations_keep [simp]:
  "keeps P (normalizeCreditType v)" "keeps P (requireText v label)" "keeps P (assertPositiveAmount n label)"
  by (simp_all add: normalizeCreditType_def requireText_def assertPositiveAmount_def Let_def)

lemma normalizeCreditType_eq_Inr [simp]:
  "normalizeCreditType v s = (Inr k, s') \<longleftrightarrow> s' = s \<and> normalized_key v k"
  by (auto simp: normalizeCreditType_def normalized_key_def Let_def)

lemma requireText_eq_Inr [simp]:
  "requireText v label s = (Inr x, s') \<longleftrightarrow> s' = s \<and> x = trim v \<and> trim v \<noteq> []"
  by (auto simp: requireText_def Let_def)

lemma assertPositiveAmount_eq_Inr [simp]:
  "assertPositiveAmount n label s = (Inr u, s') \<longleftrightarrow> s' = s \<and> valid_amount n"
  by (auto simp: assertPositiveAmount_def valid_amount_def)

lemma findTransaction_apply [simp]:
  "findTransaction app env key s = (Inr (List.find (key_is app env key) (creditTransactions s)), s)"
  by (simp add: findTransaction_def)

lemma findAccount_apply [simp]:
  "findAccount app cust ty env s = (Inr (List.find (account_scope app cust ty env) (creditAccounts s)), s)"
  by (simp add: findAccount_def)

lemma assertMatchingTransaction_eq_Inr [simp]:
  "assertMatchingTransaction t ty n cust st si s = (Inr u, s') \<longleftrightarrow>
     s' = s \<and> ct_type t = ty \<and> ct_amount t = n \<and> ct_applicationCustomerId t = cust
     \<and> ct_sourceType t = st \<and> ct_sourceId t = si"
  by (auto simp: assertMatchingTransaction_def)

lemma resolveApplicationCustomerId_eq_Inr:
  "resolveApplicationCustomerId app ext s = (Inr c, s') \<longleftrightarrow> s' = s \<and> trim ext \<noteq> [] \<and>
     (\<exists>m. List.find (\<lambda>m. ac_applicationId m = app \<and> ac_externalCustomerId m = trim ext)
        (applicationCustomers s) = Some m \<and> c = ac_id m)"
  by (auto simp: resolveApplicationCustomerId_def bind_eq_Inr split: option.splits)

subsection \<open>Balances\<close>

record credit_balance =
  bal_creditType :: string
  bal_available :: int
  bal_reserved :: int

definition getCreditBalanceForApplicationCustomer ::
    "string \<Rightarrow> string \<Rightarrow> string \<Rightarrow> environment \<Rightarrow> (db, credit_balance) prog" where
  "getCreditBalanceForApplicationCustomer applicationId applicationCustomerId creditTypeInput env =
     bind (normalizeCreditType creditTypeInput) (\<lambda>creditType.
     bind (findAccount applicationId applicationCustomerId creditType env) (\<lambda>account.
     return \<lparr>bal_creditType = creditType,
             bal_available = (case account of None \<Rightarrow> 0 | Some a \<Rightarrow> ca_availableBalance a),
             bal_reserved = (case account of None \<Rightarrow> 0 | Some a \<Rightarrow> ca_reservedBalance a)\<rparr>))"

definition getCreditBalance ::
    "string \<Rightarrow> string \<Rightarrow> string \<Rightarrow> environment \<Rightarrow> (db, credit_balance) prog" where
  "getCreditBalance applicationId externalCustomerId creditType env =
     bind (resolveApplicationCustomerId applicationId externalCustomerId) (\<lambda>applicationCustomerId.
     getCreditBalanceForApplicationCustomer applicationId applicationCustomerId creditType env)"

subsection \<open>Grants\<close>

record grant_input =
  gi_applicationId :: string
  gi_applicationCustomerId :: string
  gi_creditType :: string
  gi_amount :: int
  gi_transactionType :: credit_tx_type
  gi_sourceType :: string
  gi_sourceId :: string
  gi_idempotencyKey :: string
  gi_environment :: "environment option"
  gi_expiresAt :: "int option"
  gi_metadata :: "json_object option"

text \<open>The transaction types a grant may book: the union type of \<open>transactionType\<close>.\<close>

fun is_grant_tx :: "credit_tx_type \<Rightarrow> bool" where
  "is_grant_tx GrantPurchase = True"
| "is_grant_tx GrantSubscription = True"
| "is_grant_tx GrantPromotion = True"
| "is_grant_tx RefundUsage = True"
| "is_grant_tx AdjustmentAdmin = True"
| "is_grant_tx _ = False"

record tx_result =
  tr_transaction :: credit_transaction
  tr_duplicate :: bool

definition metadata_expiry :: "json_object option \<Rightarrow> json option" where
  "metadata_expiry m = (case m of None \<Rightarrow> None | Some obj \<Rightarrow> map_of obj ''expiresAt'')"

definition iso_of :: "int option \<Rightarrow> json option" where
  "iso_of e = map_option (\<lambda>ms. JStr (toISOString ms)) e"

text \<open>\<open>a !== b\<close> on the two expiries, each with a final \<open>?? null\<close>.\<close>

definition expiry_differs :: "json option \<Rightarrow> json option \<Rightarrow> bool" where
  "expiry_differs a b = (case (nullish a (Some JNull), nullish b (Some JNull)) of
     (Some x, Some y) \<Rightarrow> \<not> js_strict_eq x y | _ \<Rightarrow> False)"

definition requested_expiry :: "grant_input \<Rightarrow> json option" where
  "requested_expiry input = nullish (metadata_expiry (gi_metadata input)) (iso_of (gi_expiresAt input))"

definition existing_expiry :: "credit_transaction \<Rightarrow> json option" where
  "existing_expiry t = metadata_expiry (Some (ct_metadata t))"

text \<open>The metadata a grant stores: its expiry, overridden by the caller's fields.\<close>

definition grant_metadata :: "grant_input \<Rightarrow> json_object" where
  "grant_metadata input =
     obj_spread (case gi_expiresAt input of None \<Rightarrow> [] | Some e \<Rightarrow> [(''expiresAt'', JStr (toISOString e))])
       (or_empty (gi_metadata input))"

definition add_available :: "int \<Rightarrow> int \<Rightarrow> credit_account \<Rightarrow> credit_account" where
  "add_available n now a =
     a\<lparr>ca_availableBalance := ca_availableBalance a + n, ca_version := ca_version a + 1, ca_updatedAt := now\<rparr>"

definition grantCreditsInTransaction :: "grant_input \<Rightarrow> (db, tx_result) prog" where
  "grantCreditsInTransaction input =
     bind (normalizeCreditType (gi_creditType input)) (\<lambda>creditType.
     bind (assertPositiveAmount (gi_amount input) ''Credit amount'') (\<lambda>_.
     bind (requireText (gi_sourceType input) ''Credit source type'') (\<lambda>sourceType.
     bind (requireText (gi_sourceId input) ''Credit source ID'') (\<lambda>sourceId.
     bind (requireText (gi_idempotencyKey input) ''Credit idempotency key'') (\<lambda>idempotencyKey.
     let env = resolveCreditEnvironment (gi_environment input) in
     bind (findTransaction (gi_applicationId input) env idempotencyKey) (\<lambda>found.
     case found of
       Some existing \<Rightarrow>
         bind (assertMatchingTransaction existing (gi_transactionType input) (gi_amount input)
                 (gi_applicationCustomerId input) sourceType sourceId) (\<lambda>_.
         bind (throw_if (expiry_differs (existing_expiry existing) (requested_expiry input))
                 CreditIdempotencyConflictError) (\<lambda>_.
         return \<lparr>tr_transaction = existing, tr_duplicate = True\<rparr>))
     | None \<Rightarrow>
         bind (ensureAccount (gi_applicationId input) (gi_applicationCustomerId input) creditType env) (\<lambda>account.
         bind now_date (\<lambda>now.
         bind (update_accounts (\<lambda>a. ca_id a = ca_id account) (add_available (gi_amount input) now)) (\<lambda>rows.
         bind (require (Error ''Failed to update credit balance for grant'') (first_row rows)) (\<lambda>updated.
         bind (appendTransaction
                 \<lparr>ti_applicationId = gi_applicationId input,
                  ti_applicationCustomerId = gi_applicationCustomerId input,
                  ti_creditAccountId = ca_id updated, ti_type = gi_transactionType input,
                  ti_amount = gi_amount input, ti_availableAfter = ca_availableBalance updated,
                  ti_reservedAfter = ca_reservedBalance updated, ti_sourceType = sourceType,
                  ti_sourceId = sourceId, ti_idempotencyKey = idempotencyKey,
                  ti_environment = Some env, ti_metadata = Some (grant_metadata input)\<rparr>) (\<lambda>t.
         bind (createBucketForGrant
                 \<lparr>bi_applicationId = gi_applicationId input, bi_environment = env,
                  bi_applicationCustomerId = gi_applicationCustomerId input,
                  bi_creditAccountId = ca_id updated, bi_creditType = creditType,
                  bi_sourceType = bucketSourceForTransactionType (gi_transactionType input),
                  bi_sourceId = sourceId, bi_transactionId = ct_id t, bi_amount = gi_amount input,
                  bi_expiresAt = gi_expiresAt input\<rparr>) (\<lambda>_.
         return \<lparr>tr_transaction = t, tr_duplicate = False\<rparr>)))))))))))) "

definition grantCredits :: "grant_input \<Rightarrow> (db, tx_result) prog" where
  "grantCredits input = transaction (grantCreditsInTransaction input)"

subsection \<open>Debits\<close>

record debit_input =
  di_applicationId :: string
  di_externalCustomerId :: string
  di_creditType :: string
  di_amount :: int
  di_sourceType :: string
  di_sourceId :: string
  di_idempotencyKey :: string
  di_environment :: "environment option"
  di_metadata :: "json_object option"

definition debitCreditsForApplicationCustomerInTransaction ::
    "debit_input \<Rightarrow> string \<Rightarrow> (db, tx_result) prog" where
  "debitCreditsForApplicationCustomerInTransaction input applicationCustomerId =
     bind (normalizeCreditType (di_creditType input)) (\<lambda>creditType.
     bind (assertPositiveAmount (di_amount input) ''Credit amount'') (\<lambda>_.
     bind (requireText (di_sourceType input) ''Credit source type'') (\<lambda>sourceType.
     bind (requireText (di_sourceId input) ''Credit source ID'') (\<lambda>sourceId.
     bind (requireText (di_idempotencyKey input) ''Credit idempotency key'') (\<lambda>idempotencyKey.
     let env = resolveCreditEnvironment (di_environment input) in
     bind (findTransaction (di_applicationId input) env idempotencyKey) (\<lambda>found.
     case found of
       Some existing \<Rightarrow>
         bind (assertMatchingTransaction existing DebitUsage (- di_amount input)
                 applicationCustomerId sourceType sourceId) (\<lambda>_.
         return \<lparr>tr_transaction = existing, tr_duplicate = True\<rparr>)
     | None \<Rightarrow>
         bind (findAccount (di_applicationId input) applicationCustomerId creditType env) (\<lambda>foundAccount.
         bind (require InsufficientCreditsError foundAccount) (\<lambda>account.
         bind now_date (\<lambda>now.
         bind (update_accounts
                 (\<lambda>a. ca_id a = ca_id account \<and> ca_availableBalance a \<ge> di_amount input)
                 (add_available (- di_amount input) now)) (\<lambda>rows.
         bind (require InsufficientCreditsError (first_row rows)) (\<lambda>updated.
         bind (consumeBuckets (ca_id updated) (di_amount input) False) (\<lambda>_.
         bind (appendTransaction
                 \<lparr>ti_applicationId = di_applicationId input,
                  ti_applicationCustomerId = applicationCustomerId,
                  ti_creditAccountId = ca_id updated, ti_type = DebitUsage,
                  ti_amount = - di_amount input, ti_availableAfter = ca_availableBalance updated,
                  ti_reservedAfter = ca_reservedBalance updated, ti_sourceType = sourceType,
                  ti_sourceId = sourceId, ti_idempotencyKey = idempotencyKey,
                  ti_environment = Some env, ti_metadata = di_metadata input\<rparr>) (\<lambda>t.
         return \<lparr>tr_transaction = t, tr_duplicate = False\<rparr>)))))))))))))"

definition debitCredits :: "debit_input \<Rightarrow> (db, tx_result) prog" where
  "debitCredits input = transaction (
     bind (resolveApplicationCustomerId (di_applicationId input) (di_externalCustomerId input))
       (debitCreditsForApplicationCustomerInTransaction input))"

text \<open>
  A refund grants with type \<open>refund.usage\<close>. The input's \<open>environment\<close> is not handed on:
  the grant's own default applies.
\<close>

definition refundCredits :: "debit_input \<Rightarrow> (db, tx_result) prog" where
  "refundCredits input = transaction (
     bind (resolveApplicationCustomerId (di_applicationId input) (di_externalCustomerId input)) (\<lambda>applicationCustomerId.
     grantCreditsInTransaction
       \<lparr>gi_applicationId = di_applicationId input, gi_applicationCustomerId = applicationCustomerId,
        gi_creditType = di_creditType input, gi_amount = di_amount input,
        gi_transactionType = RefundUsage, gi_sourceType = di_sourceType input,
        gi_sourceId = di_sourceId input, gi_idempotencyKey = di_idempotencyKey input,
        gi_environment = None, gi_expiresAt = None, gi_metadata = di_metadata input\<rparr>))"

lemmas [run_simps] = normalizeCreditType_def requireText_def assertPositiveAmount_def key_is_def findTransaction_def
  assertMatchingTransaction_def resolveApplicationCustomerId_def account_scope_def findAccount_def
  ensureAccount_def or_empty_def appendTransaction_def getCreditBalanceForApplicationCustomer_def
  getCreditBalance_def metadata_expiry_def iso_of_def expiry_differs_def requested_expiry_def
  existing_expiry_def grant_metadata_def add_available_def grantCreditsInTransaction_def grantCredits_def
  debitCreditsForApplicationCustomerInTransaction_def debitCredits_def refundCredits_def

end
