(* ===== verification/CreditReservations.thy ===== *)
theory CreditReservations
  imports CreditService
begin

text \<open>
  Reserve, capture and release (\<open>src/src/modules/credits/service.ts\<close>, second half). A
  reservation moves credits from available to reserved after the account's due buckets have
  been expired in the same transaction; capture settles the captured part against the
  buckets and gives the rest back; release gives everything back.
\<close>

subsection \<open>Reserve\<close>

record reserve_input =
  ri_applicationId :: string
  ri_externalCustomerId :: string
  ri_creditType :: string
  ri_amount :: int
  ri_referenceType :: string
  ri_referenceId :: string
  ri_idempotencyKey :: string
  ri_expiresAt :: "int option"
  ri_environment :: "environment option"
  ri_metadata :: "json_object option"

text \<open>The value the reservation transaction commits: a rejection is a value, not a throw.\<close>

datatype reserve_outcome = Insufficient | Reserved credit_reservation bool

record reserve_result =
  rr_reservation :: credit_reservation
  rr_duplicate :: bool

definition move_to_reserved :: "int \<Rightarrow> int \<Rightarrow> credit_account \<Rightarrow> credit_account" where
  "move_to_reserved n now a =
     a\<lparr>ca_availableBalance := ca_availableBalance a - n, ca_reservedBalance := ca_reservedBalance a + n,
       ca_version := ca_version a + 1, ca_updatedAt := now\<rparr>"

text \<open>The statements after the account was charged: the reservation and its ledger row.\<close>

definition reserve_commit ::
    "reserve_input \<Rightarrow> string \<Rightarrow> string \<Rightarrow> string \<Rightarrow> string \<Rightarrow> environment \<Rightarrow> int \<Rightarrow> credit_account
     \<Rightarrow> (db, reserve_outcome) prog" where
  "reserve_commit input applicationCustomerId referenceType referenceId idempotencyKey env now updated =
     bind (new_id ''cres_'') (\<lambda>i.
     bind (insert_reservation
             \<lparr>cr_id = i, cr_applicationId = ri_applicationId input,
              cr_applicationCustomerId = applicationCustomerId,
              cr_creditAccountId = ca_id updated, cr_reservedAmount = ri_amount input,
              cr_environment = env, cr_capturedAmount = 0, cr_status = ResActive,
              cr_referenceType = referenceType, cr_referenceId = referenceId,
              cr_idempotencyKey = idempotencyKey, cr_expiresAt = ri_expiresAt input,
              cr_createdAt = now, cr_updatedAt = now\<rparr>) (\<lambda>reservation.
     bind (appendTransaction
             \<lparr>ti_applicationId = ri_applicationId input,
              ti_applicationCustomerId = applicationCustomerId,
              ti_creditAccountId = ca_id updated, ti_type = ReserveUsage,
              ti_amount = - ri_amount input,
              ti_availableAfter = ca_availableBalance updated,
              ti_reservedAfter = ca_reservedBalance updated,
              ti_sourceType = ''reservation'', ti_sourceId = cr_id reservation,
              ti_idempotencyKey = idempotencyKey, ti_environment = Some env,
              ti_metadata = Some (obj_spread
                [(''referenceType'', JStr referenceType), (''referenceId'', JStr referenceId)]
                (or_empty (ri_metadata input)))\<rparr>) (\<lambda>_.
     return (Reserved reservation False))))"

text \<open>The statements under the account lock: expire, charge the account, commit.\<close>

definition reserve_locked ::
    "reserve_input \<Rightarrow> string \<Rightarrow> string \<Rightarrow> string \<Rightarrow> string \<Rightarrow> environment \<Rightarrow> credit_account
     \<Rightarrow> (db, reserve_outcome) prog" where
  "reserve_locked input applicationCustomerId referenceType referenceId idempotencyKey env account =
     bind now_date (\<lambda>now.
     bind (expireDueBucketsForAccount (ri_applicationId input) (ca_id account) env now) (\<lambda>_.
     bind (update_accounts
             (\<lambda>a. ca_id a = ca_id account \<and> ca_availableBalance a \<ge> ri_amount input)
             (move_to_reserved (ri_amount input) now)) (\<lambda>rows.
     case first_row rows of
       None \<Rightarrow> return Insufficient
     | Some updated \<Rightarrow>
         reserve_commit input applicationCustomerId referenceType referenceId idempotencyKey env now updated)))"

definition reserve_tx ::
    "reserve_input \<Rightarrow> string \<Rightarrow> string \<Rightarrow> string \<Rightarrow> string \<Rightarrow> environment \<Rightarrow> (db, reserve_outcome) prog" where
  "reserve_tx input creditType referenceType referenceId idempotencyKey env =
     bind (resolveApplicationCustomerId (ri_applicationId input) (ri_externalCustomerId input)) (\<lambda>applicationCustomerId.
     bind (gets (\<lambda>s. List.find (\<lambda>r. cr_applicationId r = ri_applicationId input \<and> cr_environment r = env
                                 \<and> cr_idempotencyKey r = idempotencyKey) (creditReservations s))) (\<lambda>found.
     case found of
       Some existing \<Rightarrow>
         bind (throw_if (cr_applicationCustomerId existing \<noteq> applicationCustomerId
                         \<or> cr_reservedAmount existing \<noteq> ri_amount input
                         \<or> cr_referenceType existing \<noteq> referenceType
                         \<or> cr_referenceId existing \<noteq> referenceId)
                 CreditIdempotencyConflictError) (\<lambda>_.
         return (Reserved existing True))
     | None \<Rightarrow>
         bind (findAccount (ri_applicationId input) applicationCustomerId creditType env) (\<lambda>foundAccount.
         case foundAccount of
           None \<Rightarrow> return Insufficient
         | Some account \<Rightarrow>
             reserve_locked input applicationCustomerId referenceType referenceId idempotencyKey env account)))"

definition reserveCredits :: "reserve_input \<Rightarrow> (db, reserve_result) prog" where
  "reserveCredits input =
     bind (normalizeCreditType (ri_creditType input)) (\<lambda>creditType.
     bind (assertPositiveAmount (ri_amount input) ''Reservation amount'') (\<lambda>_.
     bind (requireText (ri_referenceType input) ''Reservation reference type'') (\<lambda>referenceType.
     bind (requireText (ri_referenceId input) ''Reservation reference ID'') (\<lambda>referenceId.
     bind (requireText (ri_idempotencyKey input) ''Credit idempotency key'') (\<lambda>idempotencyKey.
     let env = resolveCreditEnvironment (ri_environment input) in
     bind (transaction (reserve_tx input creditType referenceType referenceId idempotencyKey env)) (\<lambda>outcome.
     case outcome of
       Insufficient \<Rightarrow> throw InsufficientCreditsError
     | Reserved reservation duplicate \<Rightarrow>
         return \<lparr>rr_reservation = reservation, rr_duplicate = duplicate\<rparr>))))))"

subsection \<open>Capture and release\<close>

definition lockReservation ::
    "string \<Rightarrow> string \<Rightarrow> environment \<Rightarrow> (db, credit_reservation) prog" where
  "lockReservation applicationId reservationId env =
     bind (gets (\<lambda>s. List.find (\<lambda>r. cr_id r = reservationId \<and> cr_applicationId r = applicationId)
                       (creditReservations s))) (\<lambda>found.
     bind (require CreditReservationNotFoundError found) (\<lambda>reservation.
     bind (throw_if (cr_environment reservation \<noteq> env) CreditReservationEnvironmentMismatchError) (\<lambda>_.
     return reservation)))"

record settle_input =
  si_applicationId :: string
  si_reservationId :: string
  si_amount :: int
  si_idempotencyKey :: string
  si_environment :: "environment option"
  si_metadata :: "json_object option"

text \<open>A replay of a key returns its transaction, a terminal reservation returns itself.\<close>

datatype settle_result =
    Replayed credit_transaction
  | AlreadyTerminal credit_reservation
  | Settled credit_reservation credit_transaction

fun status_text :: "reservation_status \<Rightarrow> string" where
  "status_text ResActive = ''active''"
| "status_text ResCaptured = ''captured''"
| "status_text ResReleased = ''released''"
| "status_text ResExpired = ''expired''"

definition settle_balances :: "int \<Rightarrow> int \<Rightarrow> int \<Rightarrow> credit_account \<Rightarrow> credit_account" where
  "settle_balances back held now a =
     a\<lparr>ca_availableBalance := ca_availableBalance a + back, ca_reservedBalance := ca_reservedBalance a - held,
       ca_version := ca_version a + 1, ca_updatedAt := now\<rparr>"

definition captureReservation :: "settle_input \<Rightarrow> (db, settle_result) prog" where
  "captureReservation input = transaction (
     bind (assertPositiveAmount (si_amount input) ''Capture amount'') (\<lambda>_.
     bind (requireText (si_idempotencyKey input) ''Credit idempotency key'') (\<lambda>idempotencyKey.
     let env = resolveCreditEnvironment (si_environment input) in
     bind (findTransaction (si_applicationId input) env idempotencyKey) (\<lambda>found.
     case found of
       Some existing \<Rightarrow>
         bind (throw_if (ct_type existing \<noteq> CaptureUsage \<or> ct_sourceId existing \<noteq> si_reservationId input
                         \<or> ct_amount existing \<noteq> - si_amount input)
                 CreditIdempotencyConflictError) (\<lambda>_.
         return (Replayed existing))
     | None \<Rightarrow>
         bind (lockReservation (si_applicationId input) (si_reservationId input) env) (\<lambda>reservation.
         if cr_status reservation = ResCaptured then return (AlreadyTerminal reservation)
         else if cr_status reservation \<noteq> ResActive then
           throw (CreditReservationTerminalStateError
                    (''Cannot capture a '' @ status_text (cr_status reservation) @ '' reservation''))
         else if si_amount input > cr_reservedAmount reservation then
           throw (Error ''Capture amount cannot exceed reserved amount'')
         else
           let unused = cr_reservedAmount reservation - si_amount input in
           bind now_date (\<lambda>now.
           bind (update_accounts
                   (\<lambda>a. ca_id a = cr_creditAccountId reservation
                        \<and> ca_reservedBalance a \<ge> cr_reservedAmount reservation)
                   (settle_balances unused (cr_reservedAmount reservation) now)) (\<lambda>accountRows.
           bind (require (Error ''Reserved credit balance is inconsistent'') (first_row accountRows)) (\<lambda>account.
           bind (update_reservations (\<lambda>r. cr_id r = cr_id reservation)
                   (\<lambda>r. r\<lparr>cr_status := ResCaptured, cr_capturedAmount := si_amount input,
                           cr_updatedAt := now\<rparr>)) (\<lambda>reservationRows.
           bind (require (Error ''Failed to capture reservation'') (first_row reservationRows)) (\<lambda>updatedReservation.
           bind (consumeBuckets (cr_creditAccountId reservation) (si_amount input) True) (\<lambda>_.
           bind (appendTransaction
                   \<lparr>ti_applicationId = si_applicationId input,
                    ti_applicationCustomerId = cr_applicationCustomerId reservation,
                    ti_creditAccountId = ca_id account, ti_type = CaptureUsage,
                    ti_amount = - si_amount input, ti_availableAfter = ca_availableBalance account,
                    ti_reservedAfter = ca_reservedBalance account, ti_sourceType = ''reservation'',
                    ti_sourceId = cr_id reservation, ti_idempotencyKey = idempotencyKey,
                    ti_environment = Some env,
                    ti_metadata = Some (obj_spread
                      [(''reservedAmount'', JNum (cr_reservedAmount reservation)), (''releasedUnused'', JNum unused)]
                      (or_empty (si_metadata input)))\<rparr>) (\<lambda>t.
           return (Settled updatedReservation t)))))))))))))"

definition releaseReservation :: "settle_input \<Rightarrow> (db, settle_result) prog" where
  "releaseReservation input = transaction (
     bind (requireText (si_idempotencyKey input) ''Credit idempotency key'') (\<lambda>idempotencyKey.
     let env = resolveCreditEnvironment (si_environment input) in
     bind (findTransaction (si_applicationId input) env idempotencyKey) (\<lambda>found.
     case found of
       Some existing \<Rightarrow>
         bind (throw_if (ct_type existing \<noteq> ReleaseUsage \<or> ct_sourceId existing \<noteq> si_reservationId input)
                 CreditIdempotencyConflictError) (\<lambda>_.
         return (Replayed existing))
     | None \<Rightarrow>
         bind (lockReservation (si_applicationId input) (si_reservationId input) env) (\<lambda>reservation.
         if cr_status reservation = ResReleased then return (AlreadyTerminal reservation)
         else if cr_status reservation \<noteq> ResActive then
           throw (CreditReservationTerminalStateError
                    (''Cannot release a '' @ status_text (cr_status reservation) @ '' reservation''))
         else
           bind now_date (\<lambda>now.
           bind (update_accounts
                   (\<lambda>a. ca_id a = cr_creditAccountId reservation
                        \<and> ca_reservedBalance a \<ge> cr_reservedAmount reservation)
                   (settle_balances (cr_reservedAmount reservation) (cr_reservedAmount reservation) now)) (\<lambda>accountRows.
           bind (require (Error ''Reserved credit balance is inconsistent'') (first_row accountRows)) (\<lambda>account.
           bind (update_reservations (\<lambda>r. cr_id r = cr_id reservation)
                   (\<lambda>r. r\<lparr>cr_status := ResReleased, cr_updatedAt := now\<rparr>)) (\<lambda>reservationRows.
           bind (require (Error ''Failed to release reservation'') (first_row reservationRows)) (\<lambda>updatedReservation.
           bind (appendTransaction
                   \<lparr>ti_applicationId = si_applicationId input,
                    ti_applicationCustomerId = cr_applicationCustomerId reservation,
                    ti_creditAccountId = ca_id account, ti_type = ReleaseUsage,
                    ti_amount = cr_reservedAmount reservation,
                    ti_availableAfter = ca_availableBalance account,
                    ti_reservedAfter = ca_reservedBalance account, ti_sourceType = ''reservation'',
                    ti_sourceId = cr_id reservation, ti_idempotencyKey = idempotencyKey,
                    ti_environment = Some env, ti_metadata = si_metadata input\<rparr>) (\<lambda>t.
           return (Settled updatedReservation t)))))))))))"

lemmas [run_simps] = move_to_reserved_def reserve_commit_def reserve_locked_def reserve_tx_def reserveCredits_def
  lockReservation_def settle_balances_def captureReservation_def releaseReservation_def

end
