(* ===== verification/CreditRevocation.thy ===== *)
theory CreditRevocation
  imports CreditReservations
begin

text \<open>
  Subscription credit clawback (\<open>src/src/modules/credits/revocation.ts\<close>): the unused
  credits of a subscription's buckets are revoked, bounded per account by the available
  balance read under the account locks. The three JavaScript maps of the loop are
  association lists in insertion order.
\<close>

datatype revoke_reason = ReasonCancelled | ReasonExpired

fun reason_text :: "revoke_reason \<Rightarrow> string" where
  "reason_text ReasonCancelled = ''subscription_cancelled''"
| "reason_text ReasonExpired = ''subscription_expired''"

record revoke_input =
  vi_applicationId :: string
  vi_subscriptionId :: string
  vi_environment :: "environment option"
  vi_reason :: "revoke_reason option"

text \<open>A bucket joined with its account: id, account, remaining, credit type, customer.\<close>

record locked_bucket =
  lb_id :: string
  lb_creditAccountId :: string
  lb_remaining :: int
  lb_creditType :: string
  lb_applicationCustomerId :: string

definition revocable :: "string \<Rightarrow> environment \<Rightarrow> string \<Rightarrow> credit_bucket \<Rightarrow> bool" where
  "revocable applicationId env subscriptionId b \<longleftrightarrow>
     cb_applicationId b = applicationId \<and> cb_environment b = env \<and> cb_status b = BktActive
     \<and> cb_remainingAmount b > 0 \<and> cb_sourceType b = SrcSubscription \<and> cb_sourceId b = subscriptionId"

definition join_account :: "credit_account list \<Rightarrow> credit_bucket \<Rightarrow> locked_bucket list" where
  "join_account accounts b =
     map (\<lambda>a. \<lparr>lb_id = cb_id b, lb_creditAccountId = cb_creditAccountId b,
               lb_remaining = cb_remainingAmount b, lb_creditType = ca_creditType a,
               lb_applicationCustomerId = ca_applicationCustomerId a\<rparr>)
       (filter (\<lambda>a. ca_id a = cb_creditAccountId b) accounts)"

definition lock_buckets :: "string list \<Rightarrow> db \<Rightarrow> locked_bucket list" where
  "lock_buckets ids s =
     concat (map (join_account (creditAccounts s))
       (sort_key consumption_key
         (filter (\<lambda>b. cb_id b \<in> set ids \<and> cb_status b = BktActive \<and> cb_remainingAmount b > 0)
           (creditBuckets s))))"

definition revoke_key :: "string \<Rightarrow> locked_bucket \<Rightarrow> string" where
  "revoke_key subscriptionId b =
     ''revoke:'' @ subscriptionId @ '':'' @ lb_id b @ '':before:'' @ string_of_int (lb_remaining b)"

type_synonym amounts = "(string \<times> int) list"

text \<open>The loop body; the accumulator is (\<open>takenByAccount\<close>, \<open>revokedByType\<close>).\<close>

definition revoke_step ::
    "revoke_input \<Rightarrow> environment \<Rightarrow> amounts \<Rightarrow> amounts \<times> amounts \<Rightarrow> locked_bucket
     \<Rightarrow> (db, amounts \<times> amounts) prog" where
  "revoke_step input env availableByAccount acc bucket =
     (case acc of (takenByAccount, revokedByType) \<Rightarrow>
      let alreadyTaken = map_get_or takenByAccount (lb_creditAccountId bucket) 0;
          allowance = map_get_or availableByAccount (lb_creditAccountId bucket) 0 - alreadyTaken
      in if allowance \<le> 0 then return acc
         else
           let tk = min (lb_remaining bucket) allowance
           in if tk \<le> 0 then return acc
              else
                bind now_date (\<lambda>now.
                bind (update_buckets (\<lambda>b. cb_id b = lb_id bucket)
                        (\<lambda>b. b\<lparr>cb_remainingAmount := cb_remainingAmount b - tk,
                                cb_status := (if tk = lb_remaining bucket then BktReversed else BktActive),
                                cb_updatedAt := now\<rparr>)) (\<lambda>_.
                bind (update_accounts (\<lambda>a. ca_id a = lb_creditAccountId bucket)
                        (add_available (- tk) now)) (\<lambda>_.
                bind (gets (\<lambda>s. List.find (\<lambda>a. ca_id a = lb_creditAccountId bucket) (creditAccounts s))) (\<lambda>account.
                bind (new_id ''ctx_'') (\<lambda>i.
                bind (insert_transaction
                        \<lparr>ct_id = i, ct_applicationId = vi_applicationId input,
                         ct_applicationCustomerId = lb_applicationCustomerId bucket,
                         ct_creditAccountId = lb_creditAccountId bucket, ct_type = GrantRevoked,
                         ct_amount = - tk,
                         ct_availableAfter = (case account of None \<Rightarrow> 0 | Some a \<Rightarrow> ca_availableBalance a),
                         ct_reservedAfter = (case account of None \<Rightarrow> 0 | Some a \<Rightarrow> ca_reservedBalance a),
                         ct_sourceType = ''subscription'', ct_sourceId = vi_subscriptionId input,
                         ct_idempotencyKey = revoke_key (vi_subscriptionId input) bucket,
                         ct_environment = env,
                         ct_metadata = [(''bucketId'', JStr (lb_id bucket)),
                           (''reason'', JStr (reason_text (case vi_reason input of
                              None \<Rightarrow> ReasonCancelled | Some r \<Rightarrow> r)))],
                         ct_createdAt = now\<rparr>) (\<lambda>_.
                return (AList.update (lb_creditAccountId bucket) (alreadyTaken + tk) takenByAccount,
                        AList.update (lb_creditType bucket)
                          (map_get_or revokedByType (lb_creditType bucket) 0 + tk) revokedByType))))))))"

definition revokeSubscriptionCreditsInTransaction :: "revoke_input \<Rightarrow> (db, amounts) prog" where
  "revokeSubscriptionCreditsInTransaction input =
     (let env = (case vi_environment input of None \<Rightarrow> Test | Some e \<Rightarrow> e) in
      bind (gets (\<lambda>s. map (\<lambda>b. (cb_id b, cb_creditAccountId b))
              (sort_key consumption_key
                (filter (revocable (vi_applicationId input) env (vi_subscriptionId input))
                  (creditBuckets s))))) (\<lambda>discovered.
      if discovered = [] then return []
      else
        let accountIds = sort (js_set (map snd discovered)) in
        bind (gets (\<lambda>s. sort_key ca_id (filter (\<lambda>a. ca_id a \<in> set accountIds) (creditAccounts s)))) (\<lambda>accountRows.
        let availableByAccount = map (\<lambda>a. (ca_id a, ca_availableBalance a)) accountRows in
        bind (gets (lock_buckets (map fst discovered))) (\<lambda>locked.
        bind (for_loop (revoke_step input env availableByAccount) ([], []) locked) (\<lambda>acc.
        return (snd acc))))))"

definition revokeSubscriptionCredits :: "revoke_input \<Rightarrow> (db, amounts) prog" where
  "revokeSubscriptionCredits input = transaction (revokeSubscriptionCreditsInTransaction input)"

lemmas [run_simps] = revocable_def join_account_def lock_buckets_def revoke_key_def revoke_step_def
  revokeSubscriptionCreditsInTransaction_def revokeSubscriptionCredits_def

end
