(* ===== verification/CreditCommerce.thy ===== *)
theory CreditCommerce
  imports CreditRevocation
begin

text \<open>
  Credits granted by a paid order or a subscription cycle
  (\<open>src/src/modules/credits/commerce.ts\<close>): item quantities are summed per product, the
  configured amounts are summed per credit type, and one grant is made per credit type
  under a key derived from the source, the period and the credit type.
\<close>

fun sum_quantities :: "(string \<times> int) list \<Rightarrow> (string \<times> int) list \<Rightarrow> (db, (string \<times> int) list) prog" where
  "sum_quantities quantityByProduct [] = return quantityByProduct"
| "sum_quantities quantityByProduct ((productId, quantity) # items) =
     (let next = map_get_or quantityByProduct productId 0 + quantity
      in if \<not> isSafeInteger next \<or> next \<le> 0
         then throw (Error ''Configured credit product quantity exceeds safe range'')
         else sum_quantities (AList.update productId next quantityByProduct) items)"

definition credit_configs :: "string \<Rightarrow> string list \<Rightarrow> db \<Rightarrow> product_grant_config list" where
  "credit_configs applicationId productIds s =
     filter (\<lambda>c. pg_productId c \<in> set productIds \<and> pg_grantType c = GrantsCredit
                 \<and> (\<exists>p \<in> set (products s). pr_id p = pg_productId c \<and> pr_applicationId p = applicationId))
       (productGrantConfigs s)"

fun sum_amounts ::
    "(string \<times> int) list \<Rightarrow> (string \<times> int) list \<Rightarrow> product_grant_config list \<Rightarrow> (db, (string \<times> int) list) prog" where
  "sum_amounts quantityByProduct amountByCreditType [] = return amountByCreditType"
| "sum_amounts quantityByProduct amountByCreditType (config # configs) =
     (case pg_quantity config of
        None \<Rightarrow> throw (Error ''Credit grant configuration requires a positive quantity'')
      | Some grantQuantity \<Rightarrow>
          if \<not> isSafeInteger grantQuantity \<or> grantQuantity \<le> 0
          then throw (Error ''Credit grant configuration requires a positive quantity'')
          else
            let itemQuantity = map_get_or quantityByProduct (pg_productId config) 0;
                grantAmount = grantQuantity * itemQuantity;
                next = map_get_or amountByCreditType (pg_referenceKey config) 0 + grantAmount
            in if \<not> isSafeInteger grantAmount \<or> \<not> isSafeInteger next
               then throw (Error ''Configured credit grant exceeds safe integer range'')
               else sum_amounts quantityByProduct
                      (AList.update (pg_referenceKey config) next amountByCreditType) configs)"

datatype commerce_source = OrderSource | SubscriptionSource

fun commerce_source_text :: "commerce_source \<Rightarrow> string" where
  "commerce_source_text OrderSource = ''order''"
| "commerce_source_text SubscriptionSource = ''subscription''"

record commerce_grant_input =
  cg_applicationId :: string
  cg_applicationCustomerId :: string
  cg_productItems :: "(string \<times> int) list"
  cg_transactionType :: credit_tx_type
  cg_sourceType :: commerce_source
  cg_sourceId :: string
  cg_periodKey :: string
  cg_sourceEventId :: "string option"
  cg_environment :: "environment option"
  cg_expiresAt :: "int option"
  cg_requireExpiry :: bool

definition grant_key :: "commerce_grant_input \<Rightarrow> string \<Rightarrow> string" where
  "grant_key input creditType =
     ''grant:'' @ commerce_source_text (cg_sourceType input) @ '':'' @ cg_sourceId input @ '':''
     @ cg_periodKey input @ '':'' @ creditType"

definition configured_grant :: "commerce_grant_input \<Rightarrow> string \<Rightarrow> int \<Rightarrow> grant_input" where
  "configured_grant input creditType amount =
     \<lparr>gi_applicationId = cg_applicationId input,
      gi_applicationCustomerId = cg_applicationCustomerId input,
      gi_creditType = creditType, gi_amount = amount,
      gi_transactionType = cg_transactionType input,
      gi_sourceType = commerce_source_text (cg_sourceType input), gi_sourceId = cg_sourceId input,
      gi_idempotencyKey = grant_key input creditType, gi_environment = cg_environment input,
      gi_expiresAt = cg_expiresAt input,
      gi_metadata = Some (
        (case cg_expiresAt input of None \<Rightarrow> [] | Some e \<Rightarrow> [(''expiresAt'', JStr (toISOString e))])
        @ (case cg_sourceEventId input of None \<Rightarrow> []
           | Some e \<Rightarrow> (if e = [] then [] else [(''sourceEventId'', JStr e)])))\<rparr>"

definition grantConfiguredCreditsInTransaction :: "commerce_grant_input \<Rightarrow> (db, tx_result list) prog" where
  "grantConfiguredCreditsInTransaction input =
     (if cg_productItems input = [] then return []
      else
        bind (sum_quantities [] (cg_productItems input)) (\<lambda>quantityByProduct.
        bind (gets (credit_configs (cg_applicationId input) (map fst quantityByProduct))) (\<lambda>configs.
        bind (sum_amounts quantityByProduct [] configs) (\<lambda>amountByCreditType.
        bind (throw_if (cg_requireExpiry input \<and> cg_expiresAt input = None \<and> amountByCreditType \<noteq> [])
                (Error ''Period-reset credit grants require an expiry boundary (subscription period end missing)'')) (\<lambda>_.
        for_loop (\<lambda>results (creditType, amount).
          if amount \<le> 0 then return results
          else bind (grantCreditsInTransaction (configured_grant input creditType amount)) (\<lambda>r.
               return (results @ [r]))) [] amountByCreditType)))))"

lemmas [run_simps] = credit_configs_def grant_key_def configured_grant_def grantConfiguredCreditsInTransaction_def

end
