(* ===== verification/CreditInvariant.thy ===== *)
theory CreditInvariant
  imports CreditCommerce
begin

text \<open>
  The ledger invariant of \<open>docs/credits-ledger.md\<close> over the credit tables, and one lemma per
  table statement. \<open>off i b l r s\<close> says that every row is well formed and every account is
  balanced, except that account \<open>i\<close> is short of its bucket sum by \<open>b\<close>, of its ledger sum by
  \<open>l\<close> and of its open reservations by \<open>r\<close>: a transaction leaves \<open>off i 0 0 0\<close>, moves one of
  the offsets with each statement, and must bring all three back to zero.
\<close>

subsection \<open>Sums per account\<close>

definition bucket_part :: "string \<Rightarrow> credit_bucket \<Rightarrow> int" where
  "bucket_part i b = (if cb_creditAccountId b = i \<and> cb_status b = BktActive then cb_remainingAmount b else 0)"

definition bucket_sum :: "string \<Rightarrow> credit_bucket list \<Rightarrow> int" where
  "bucket_sum i bs = sum_list (map (bucket_part i) bs)"

definition reserved_part :: "string \<Rightarrow> credit_reservation \<Rightarrow> int" where
  "reserved_part i r = (if cr_creditAccountId r = i \<and> cr_status r = ResActive then cr_reservedAmount r else 0)"

definition reserved_sum :: "string \<Rightarrow> credit_reservation list \<Rightarrow> int" where
  "reserved_sum i rs = sum_list (map (reserved_part i) rs)"

text \<open>What a ledger row does to available + reserved: reserving and releasing move credits
  between the two, every other row adds its amount.\<close>

definition ledger_effect :: "credit_transaction \<Rightarrow> int" where
  "ledger_effect t = (if ct_type t = ReserveUsage \<or> ct_type t = ReleaseUsage then 0 else ct_amount t)"

definition ledger_part :: "string \<Rightarrow> credit_transaction \<Rightarrow> int" where
  "ledger_part i t = (if ct_creditAccountId t = i then ledger_effect t else 0)"

definition ledger_sum :: "string \<Rightarrow> credit_transaction list \<Rightarrow> int" where
  "ledger_sum i ts = sum_list (map (ledger_part i) ts)"

definition total_balance :: "credit_account \<Rightarrow> int" where
  "total_balance a = ca_availableBalance a + ca_reservedBalance a"

subsection \<open>Well-formed tables\<close>

definition refers :: "db \<Rightarrow> string \<Rightarrow> string \<Rightarrow> string \<Rightarrow> environment \<Rightarrow> bool" where
  "refers s i applicationId applicationCustomerId env \<longleftrightarrow>
     (\<exists>a \<in> set (creditAccounts s). ca_id a = i \<and> ca_applicationId a = applicationId
        \<and> ca_applicationCustomerId a = applicationCustomerId \<and> ca_environment a = env)"

definition scope_of :: "credit_account \<Rightarrow> string \<times> string \<times> string \<times> environment" where
  "scope_of a = (ca_applicationId a, ca_applicationCustomerId a, ca_creditType a, ca_environment a)"

definition accounts_ok :: "db \<Rightarrow> bool" where
  "accounts_ok s \<longleftrightarrow> distinct (map ca_id (creditAccounts s)) \<and> distinct (map scope_of (creditAccounts s))
     \<and> (\<forall>a \<in> set (creditAccounts s). account_check a \<and> customer_exists s (ca_applicationCustomerId a))"

definition tx_key :: "credit_transaction \<Rightarrow> string \<times> environment \<times> string" where
  "tx_key t = (ct_applicationId t, ct_environment t, ct_idempotencyKey t)"

definition transactions_ok :: "db \<Rightarrow> bool" where
  "transactions_ok s \<longleftrightarrow> distinct (map ct_id (creditTransactions s))
     \<and> distinct (map tx_key (creditTransactions s))
     \<and> (\<forall>t \<in> set (creditTransactions s). transaction_check t
          \<and> refers s (ct_creditAccountId t) (ct_applicationId t) (ct_applicationCustomerId t) (ct_environment t))"

definition reservation_key :: "credit_reservation \<Rightarrow> string \<times> environment \<times> string" where
  "reservation_key r = (cr_applicationId r, cr_environment r, cr_idempotencyKey r)"

definition reservations_ok :: "db \<Rightarrow> bool" where
  "reservations_ok s \<longleftrightarrow> distinct (map cr_id (creditReservations s))
     \<and> distinct (map reservation_key (creditReservations s))
     \<and> (\<forall>r \<in> set (creditReservations s). reservation_check r
          \<and> refers s (cr_creditAccountId r) (cr_applicationId r) (cr_applicationCustomerId r) (cr_environment r))"

definition buckets_ok :: "db \<Rightarrow> bool" where
  "buckets_ok s \<longleftrightarrow> distinct (map cb_id (creditBuckets s))
     \<and> (\<forall>b \<in> set (creditBuckets s). bucket_check b
          \<and> (cb_status b = BktActive \<longleftrightarrow> 0 < cb_remainingAmount b)
          \<and> refers s (cb_creditAccountId b) (cb_applicationId b) (cb_applicationCustomerId b) (cb_environment b))"

definition off :: "string \<Rightarrow> int \<Rightarrow> int \<Rightarrow> int \<Rightarrow> db \<Rightarrow> bool" where
  "off i b l r s \<longleftrightarrow> accounts_ok s \<and> transactions_ok s \<and> reservations_ok s \<and> buckets_ok s
     \<and> (\<forall>a \<in> set (creditAccounts s).
          bucket_sum (ca_id a) (creditBuckets s) = total_balance a + (if ca_id a = i then b else 0)
          \<and> ledger_sum (ca_id a) (creditTransactions s) = total_balance a + (if ca_id a = i then l else 0)
          \<and> reserved_sum (ca_id a) (creditReservations s)
            = ca_reservedBalance a + (if ca_id a = i then r else 0))"

definition credit_inv :: "db \<Rightarrow> bool" where
  "credit_inv s \<longleftrightarrow> off [] 0 0 0 s"

lemma credit_inv_off: "credit_inv s \<longleftrightarrow> off i 0 0 0 s"
  by (simp add: credit_inv_def off_def)

lemmas tables_ok_defs = accounts_ok_def transactions_ok_def reservations_ok_def buckets_ok_def

subsection \<open>Frames\<close>

text \<open>The credit tables and the customers a state holds: all the invariant reads.\<close>

definition same_credit :: "db \<Rightarrow> db \<Rightarrow> bool" where
  "same_credit s t \<longleftrightarrow> applicationCustomers t = applicationCustomers s \<and> creditAccounts t = creditAccounts s
     \<and> creditTransactions t = creditTransactions s \<and> creditReservations t = creditReservations s
     \<and> creditBuckets t = creditBuckets s"

lemma off_same_credit: "same_credit s t \<Longrightarrow> off i b l r t = off i b l r s"
  by (simp add: same_credit_def off_def tables_ok_defs refers_def customer_exists_def)

lemma off_uuids [simp]: "off i b l r (s\<lparr>uuids := n\<rparr>) = off i b l r s"
  by (rule off_same_credit) (simp add: same_credit_def)

lemma refers_frame [simp]:
  "refers (creditTransactions_update f s) i p c e = refers s i p c e"
  "refers (creditReservations_update g s) i p c e = refers s i p c e"
  "refers (creditBuckets_update h s) i p c e = refers s i p c e"
  "refers (uuids_update k s) i p c e = refers s i p c e"
  by (simp_all add: refers_def)

lemma customer_exists_frame [simp]:
  "customer_exists (creditTransactions_update f s) c = customer_exists s c"
  "customer_exists (creditReservations_update g s) c = customer_exists s c"
  "customer_exists (creditBuckets_update h s) c = customer_exists s c"
  "customer_exists (creditAccounts_update k s) c = customer_exists s c"
  "customer_exists (uuids_update m s) c = customer_exists s c"
  by (simp_all add: customer_exists_def)

text \<open>An update of the balances of an account keeps what identifies it.\<close>

definition same_identity :: "credit_account \<Rightarrow> credit_account \<Rightarrow> bool" where
  "same_identity a b \<longleftrightarrow> ca_id b = ca_id a \<and> scope_of b = scope_of a"

lemma balance_updates_identity [simp]:
  "same_identity a (add_available n now a)"
  "same_identity a (move_to_reserved n now a)"
  "same_identity a (settle_balances back held now a)"
  "same_identity a (reverse_available n now a)"
  by (simp_all add: same_identity_def scope_of_def add_available_def move_to_reserved_def
      settle_balances_def reverse_available_def)

lemma refers_update_accounts:
  assumes "\<And>a. same_identity a (f a)"
  shows "refers (creditAccounts_update (update_where P f) s) i p c e = refers s i p c e"
proof -
  have "ca_id (f a) = ca_id a" "ca_applicationId (f a) = ca_applicationId a"
    "ca_applicationCustomerId (f a) = ca_applicationCustomerId a" "ca_environment (f a) = ca_environment a" for a
    using assms [of a] by (auto simp: same_identity_def scope_of_def)
  then show ?thesis
    by (auto simp: refers_def set_update_where simp del: if_image_distrib)
qed

subsection \<open>One lemma per statement\<close>

text \<open>An update of one account's balances moves the three offsets.\<close>

lemma off_update_account:
  assumes off: "off i b l r s"
    and upd: "update_accounts P f s = (Inr rows, s')"
    and u: "first_row rows = Some u"
    and P: "\<And>a. P a \<Longrightarrow> ca_id a = i"
    and same: "\<And>a. same_identity a (f a)"
    and avail: "\<And>a. a \<in> set (creditAccounts s) \<Longrightarrow> P a \<Longrightarrow>
          ca_availableBalance (f a) = ca_availableBalance a + da"
    and resv: "\<And>a. a \<in> set (creditAccounts s) \<Longrightarrow> P a \<Longrightarrow>
          ca_reservedBalance (f a) = ca_reservedBalance a + dr"
  shows "off i (b - da - dr) (l - da - dr) (r - dr) s'"
    and "s' = creditAccounts_update (update_where (\<lambda>a. ca_id a = i) f) s"
    and "\<exists>a \<in> set (creditAccounts s). ca_id a = i \<and> P a \<and> u = f a"
    and "ca_id u = i"
    and "account_check u"
proof -
  have s': "s' = creditAccounts_update (update_where P f) s" and rows: "rows = map f (filter P (creditAccounts s))"
    and chk: "list_all account_check rows"
    using upd unfolding update_accounts_def update_rows_eq_Inr by blast+
  obtain a where a: "a \<in> set (creditAccounts s)" "P a" "u = f a"
    using first_row_mem [OF u] rows by auto
  have ia: "ca_id a = i" using a P by simp
  have dist: "distinct (map ca_id (creditAccounts s))"
    using off by (simp add: off_def accounts_ok_def)
  have only: "\<And>x. x \<in> set (creditAccounts s) \<Longrightarrow> P x = (ca_id x = i)"
    using a ia P distinct_key_eq [OF dist] by blast
  have tab: "update_where P f (creditAccounts s) = update_where (\<lambda>x. ca_id x = i) f (creditAccounts s)"
    using only by (induction "creditAccounts s") (simp_all add: update_where_def)
  show eq: "s' = creditAccounts_update (update_where (\<lambda>a. ca_id a = i) f) s"
    using s' tab by simp
  show "\<exists>a \<in> set (creditAccounts s). ca_id a = i \<and> P a \<and> u = f a"
    using a ia by blast
  have fid: "ca_id (f x) = ca_id x" "scope_of (f x) = scope_of x" for x
    using same [of x] by (auto simp: same_identity_def)
  have fcust: "ca_applicationCustomerId (f x) = ca_applicationCustomerId x" for x
    using fid(2) [of x] by (simp add: scope_of_def)
  show "ca_id u = i" using a ia fid by simp
  show chk_u: "account_check u"
    using chk rows a by (auto simp: list_all_iff)
  have f_chk: "account_check (f x)" if "x \<in> set (creditAccounts s)" "ca_id x = i" for x
    using that chk rows only by (auto simp: list_all_iff)
  have acc: "accounts_ok s'"
    using off f_chk unfolding eq
    by (auto simp: off_def accounts_ok_def map_update_where_same fid set_update_where fcust)
  have rest: "transactions_ok s'" "reservations_ok s'" "buckets_ok s'"
    using off refers_update_accounts [OF same] unfolding eq
    by (simp_all add: off_def tables_ok_defs)
  show "off i (b - da - dr) (l - da - dr) (r - dr) s'"
    using off acc rest avail resv only unfolding eq off_def
    by (auto simp: set_update_where fid total_balance_def)
qed

text \<open>Appending a ledger row.\<close>

lemma ledger_sum_append [simp]: "ledger_sum i (ts @ [t]) = ledger_sum i ts + ledger_part i t"
  by (simp add: ledger_sum_def)

lemma off_insert_transaction:
  assumes off: "off i b l r s"
    and ins: "insert_transaction t s = (Inr t', s')"
    and ref: "refers s i (ct_applicationId t) (ct_applicationCustomerId t) (ct_environment t)"
    and acct: "ct_creditAccountId t = i"
  shows "off i b (l + ledger_effect t) r s'" and "t' = t"
    and "s' = creditTransactions_update (\<lambda>ts. ts @ [t]) s"
proof -
  show t': "t' = t" and s': "s' = creditTransactions_update (\<lambda>ts. ts @ [t]) s"
    using ins by (simp_all add: insert_transaction_def insert_row_eq_Inr)
  have chk: "transaction_check t" and new: "\<forall>q \<in> set (creditTransactions s). ct_id t \<noteq> ct_id q \<and> \<not> same_tx_key t q"
    using ins by (simp_all add: insert_transaction_def insert_row_eq_Inr)
  have keys: "tx_key t \<notin> tx_key ` set (creditTransactions s)"
    using new by (auto simp: tx_key_def same_tx_key_def)
  have ids: "ct_id t \<notin> ct_id ` set (creditTransactions s)"
    using new by auto
  have "transactions_ok s'"
    using off chk ref acct keys ids unfolding s' by (auto simp: off_def transactions_ok_def)
  then show "off i b (l + ledger_effect t) r s'"
    using off acct unfolding s' by (auto simp: off_def tables_ok_defs ledger_part_def)
qed

text \<open>Filling the balances of ledger rows in does not move any sum.\<close>

lemma ledger_part_fill [simp]: "ledger_part i (fill_balances a t) = ledger_part i t"
  by (simp add: ledger_part_def ledger_effect_def fill_balances_def)

lemma off_fill_transactions:
  assumes off: "off i b l r s"
    and upd: "update_transactions P (fill_balances a) s = (Inr rows, s')"
  shows "off i b l r s'" and "s' = creditTransactions_update (update_where P (fill_balances a)) s"
proof -
  show s': "s' = creditTransactions_update (update_where P (fill_balances a)) s"
    using upd by (simp add: update_transactions_def update_rows_eq_Inr)
  have chk: "\<forall>t \<in> set (creditTransactions s). P t \<longrightarrow> transaction_check (fill_balances a t)"
    using upd by (auto simp: update_transactions_def update_rows_eq_Inr list_all_iff)
  have same: "ct_id (fill_balances a t) = ct_id t" "tx_key (fill_balances a t) = tx_key t"
    "ct_creditAccountId (fill_balances a t) = ct_creditAccountId t"
    "ct_applicationId (fill_balances a t) = ct_applicationId t"
    "ct_applicationCustomerId (fill_balances a t) = ct_applicationCustomerId t"
    "ct_environment (fill_balances a t) = ct_environment t" for t
    by (simp_all add: fill_balances_def tx_key_def)
  have "transactions_ok s'"
    using off chk unfolding s'
    by (auto simp: off_def transactions_ok_def map_update_where_same same set_update_where)
  then show "off i b l r s'"
    using off unfolding s'
    by (auto simp: off_def tables_ok_defs ledger_sum_def sum_update_where_same)
qed

text \<open>Setting the remaining amount of one bucket.\<close>

lemma set_remaining_simps [simp]:
  "cb_id (set_remaining st n now b) = cb_id b"
  "cb_applicationId (set_remaining st n now b) = cb_applicationId b"
  "cb_applicationCustomerId (set_remaining st n now b) = cb_applicationCustomerId b"
  "cb_environment (set_remaining st n now b) = cb_environment b"
  "cb_creditAccountId (set_remaining st n now b) = cb_creditAccountId b"
  "cb_transactionId (set_remaining st n now b) = cb_transactionId b"
  "cb_remainingAmount (set_remaining st n now b) = n"
  "cb_grantedAmount (set_remaining st n now b) = cb_grantedAmount b"
  "cb_expiresAt (set_remaining st n now b) = cb_expiresAt b"
  "cb_createdAt (set_remaining st n now b) = cb_createdAt b"
  "cb_status (set_remaining st n now b) = (if n = 0 then st else BktActive)"
  by (simp_all add: set_remaining_def)

lemma off_set_remaining:
  assumes off: "off i b l r s"
    and x: "x \<in> set (creditBuckets s)" "cb_creditAccountId x = i" "cb_status x = BktActive"
    and st: "st \<noteq> BktActive"
    and upd: "update_buckets (\<lambda>y. cb_id y = cb_id x) (set_remaining st n now) s = (Inr rows, s')"
  shows "off i (b - (cb_remainingAmount x - n)) l r s'"
    and "s' = creditBuckets_update (update_where (\<lambda>y. cb_id y = cb_id x) (set_remaining st n now)) s"
    and "0 \<le> n" and "n \<le> cb_grantedAmount x"
proof -
  let ?f = "set_remaining st n now"
  have ex: "s' = creditBuckets_update (update_where (\<lambda>y. cb_id y = cb_id x) ?f) s
      \<and> list_all bucket_check rows \<and> rows = map ?f (filter (\<lambda>y. cb_id y = cb_id x) (creditBuckets s))"
    using upd unfolding update_buckets_def update_rows_eq_Inr by blast
  then show s': "s' = creditBuckets_update (update_where (\<lambda>y. cb_id y = cb_id x) ?f) s" by blast
  have dist: "distinct (map cb_id (creditBuckets s))"
    using off by (simp add: off_def buckets_ok_def)
  have chk: "bucket_check (?f x)"
    using ex x(1) by (auto simp: list_all_iff)
  then show n: "0 \<le> n" and "n \<le> cb_grantedAmount x" by (simp_all add: bucket_check_def)
  have only: "\<And>y. y \<in> set (creditBuckets s) \<Longrightarrow> cb_id y = cb_id x \<Longrightarrow> y = x"
    using distinct_key_eq [OF dist] x(1) by blast
  have "buckets_ok s'"
    using off chk only n st unfolding s'
    by (auto simp: off_def buckets_ok_def map_update_where_same set_update_where
        split: if_splits dest: only)
  moreover have "bucket_sum j (creditBuckets s') = bucket_sum j (creditBuckets s)
      - (if j = i then cb_remainingAmount x - n else 0)" for j
    using sum_update_row [OF dist x(1), of "bucket_part j" ?f] x st unfolding s'
    by (simp add: bucket_sum_def bucket_part_def)
  ultimately show "off i (b - (cb_remainingAmount x - n)) l r s'"
    using off unfolding s' by (auto simp: off_def tables_ok_defs)
qed

text \<open>A new bucket.\<close>

lemma off_insert_bucket:
  assumes off: "off i b l r s"
    and ins: "insert_bucket x s = (Inr x', s')"
    and ref: "refers s i (cb_applicationId x) (cb_applicationCustomerId x) (cb_environment x)"
    and x: "cb_creditAccountId x = i" "cb_status x = BktActive" "0 < cb_remainingAmount x"
  shows "off i (b + cb_remainingAmount x) l r s'" and "x' = x"
    and "s' = creditBuckets_update (\<lambda>bs. bs @ [x]) s"
proof -
  show x': "x' = x" and s': "s' = creditBuckets_update (\<lambda>bs. bs @ [x]) s"
    using ins by (simp_all add: insert_bucket_def insert_row_eq_Inr)
  have chk: "bucket_check x" and ids: "cb_id x \<notin> cb_id ` set (creditBuckets s)"
    using ins by (auto simp: insert_bucket_def insert_row_eq_Inr)
  have "buckets_ok s'"
    using off chk ids ref x unfolding s' by (auto simp: off_def buckets_ok_def)
  then show "off i (b + cb_remainingAmount x) l r s'"
    using off x unfolding s' by (auto simp: off_def tables_ok_defs bucket_sum_def bucket_part_def)
qed

text \<open>A new reservation, and the settlement of an open one.\<close>

lemma off_insert_reservation:
  assumes off: "off i b l r s"
    and ins: "insert_reservation x s = (Inr x', s')"
    and ref: "refers s i (cr_applicationId x) (cr_applicationCustomerId x) (cr_environment x)"
    and x: "cr_creditAccountId x = i" "cr_status x = ResActive"
  shows "off i b l (r + cr_reservedAmount x) s'" and "x' = x"
    and "s' = creditReservations_update (\<lambda>rs. rs @ [x]) s"
proof -
  show x': "x' = x" and s': "s' = creditReservations_update (\<lambda>rs. rs @ [x]) s"
    using ins by (simp_all add: insert_reservation_def insert_row_eq_Inr)
  have chk: "reservation_check x" and ids: "cr_id x \<notin> cr_id ` set (creditReservations s)"
    and key: "reservation_key x \<notin> reservation_key ` set (creditReservations s)"
    using ins by (auto simp: insert_reservation_def insert_row_eq_Inr same_reservation_key_def reservation_key_def)
  have "reservations_ok s'"
    using off chk ids key ref x unfolding s' by (auto simp: off_def reservations_ok_def)
  then show "off i b l (r + cr_reservedAmount x) s'"
    using off x unfolding s' by (auto simp: off_def tables_ok_defs reserved_sum_def reserved_part_def)
qed

lemma off_settle_reservation:
  assumes off: "off i b l r s"
    and x: "x \<in> set (creditReservations s)" "cr_creditAccountId x = i" "cr_status x = ResActive"
    and f: "\<And>y. cr_id (f y) = cr_id y \<and> reservation_key (f y) = reservation_key y
        \<and> cr_creditAccountId (f y) = cr_creditAccountId y
        \<and> cr_applicationId (f y) = cr_applicationId y
        \<and> cr_applicationCustomerId (f y) = cr_applicationCustomerId y
        \<and> cr_environment (f y) = cr_environment y" "cr_status (f x) \<noteq> ResActive"
    and upd: "update_reservations (\<lambda>y. cr_id y = cr_id x) f s = (Inr rows, s')"
  shows "off i b l (r - cr_reservedAmount x) s'"
    and "s' = creditReservations_update (update_where (\<lambda>y. cr_id y = cr_id x) f) s"
    and "rows = [f x]"
proof -
  have ex: "s' = creditReservations_update (update_where (\<lambda>y. cr_id y = cr_id x) f) s
      \<and> list_all reservation_check rows \<and> rows = map f (filter (\<lambda>y. cr_id y = cr_id x) (creditReservations s))"
    using upd unfolding update_reservations_def update_rows_eq_Inr by blast
  then show s': "s' = creditReservations_update (update_where (\<lambda>y. cr_id y = cr_id x) f) s" by blast
  have dist: "distinct (map cr_id (creditReservations s))"
    using off by (simp add: off_def reservations_ok_def)
  show rows: "rows = [f x]"
    using ex filter_keyed [OF dist x(1) refl] by simp
  have only: "\<And>y. y \<in> set (creditReservations s) \<Longrightarrow> cr_id y = cr_id x \<Longrightarrow> y = x"
    using distinct_key_eq [OF dist] x(1) by blast
  have chk: "reservation_check (f x)" using ex rows by simp
  have "reservations_ok s'"
    using off chk f unfolding s'
    by (auto simp: off_def reservations_ok_def map_update_where_same set_update_where dest: only)
  moreover have "reserved_sum j (creditReservations s') = reserved_sum j (creditReservations s)
      - (if j = i then cr_reservedAmount x else 0)" for j
    using sum_update_row [OF dist x(1), of "reserved_part j" f] x f unfolding s'
    by (simp add: reserved_sum_def reserved_part_def)
  ultimately show "off i b l (r - cr_reservedAmount x) s'"
    using off unfolding s' by (auto simp: off_def tables_ok_defs)
qed

text \<open>A new account starts balanced: no row can refer to an id that is not stored yet.\<close>

lemma refers_mem: "refers s j p c e \<Longrightarrow> j \<in> ca_id ` set (creditAccounts s)"
  by (auto simp: refers_def)

lemma rows_refer:
  assumes "off i b l r s"
  shows "x \<in> set (creditBuckets s) \<Longrightarrow> cb_creditAccountId x \<in> ca_id ` set (creditAccounts s)"
    and "t \<in> set (creditTransactions s) \<Longrightarrow> ct_creditAccountId t \<in> ca_id ` set (creditAccounts s)"
    and "q \<in> set (creditReservations s) \<Longrightarrow> cr_creditAccountId q \<in> ca_id ` set (creditAccounts s)"
  using assms unfolding off_def tables_ok_defs by (blast intro: refers_mem)+

lemma sums_of_absent_account:
  assumes off: "off i b l r s" and j: "j \<notin> ca_id ` set (creditAccounts s)"
  shows "bucket_sum j (creditBuckets s) = 0" and "ledger_sum j (creditTransactions s) = 0"
    and "reserved_sum j (creditReservations s) = 0"
  unfolding bucket_sum_def ledger_sum_def reserved_sum_def
  using rows_refer [OF off] j
  by (auto simp: bucket_part_def ledger_part_def reserved_part_def intro!: sum_zero)

lemma off_insert_account:
  assumes off: "off i 0 0 0 s"
    and ins: "insert_account a s = (Inr res, s')"
    and a: "ca_availableBalance a = 0" "ca_reservedBalance a = 0"
  shows "off i 0 0 0 s'"
    and "s' = s \<or> s' = creditAccounts_update (\<lambda>as. as @ [a]) s"
proof -
  consider "s' = s" | "s' = creditAccounts_update (\<lambda>as. as @ [a]) s"
      "\<forall>x \<in> set (creditAccounts s). ca_id a \<noteq> ca_id x \<and> \<not> same_account_scope a x"
      "customer_exists s (ca_applicationCustomerId a)"
    using ins by (auto simp: insert_account_def insert_or_ignore_def split: if_splits)
  then have both: "off i 0 0 0 s' \<and> (s' = s \<or> s' = creditAccounts_update (\<lambda>as. as @ [a]) s)"
  proof cases
    case 1
    then show ?thesis using off by simp
  next
    case 2
    have new: "ca_id a \<notin> ca_id ` set (creditAccounts s)"
      and scope: "scope_of a \<notin> scope_of ` set (creditAccounts s)"
      using 2 by (auto simp: same_account_scope_def scope_of_def)
    have mono: "refers s j p c e \<Longrightarrow> refers s' j p c e" for j p c e
      using 2(1) by (auto simp: refers_def)
    have "accounts_ok s'"
      using off new scope a 2(3) unfolding 2(1) by (auto simp: off_def accounts_ok_def account_check_def)
    moreover have "transactions_ok s'" "reservations_ok s'" "buckets_ok s'"
      using off mono unfolding 2(1) by (auto simp: off_def tables_ok_defs)
    ultimately have "off i 0 0 0 s'"
      using off sums_of_absent_account [OF off new] a unfolding 2(1)
      by (auto simp: off_def total_balance_def)
    then show ?thesis using 2(1) by blast
  qed
  then show "off i 0 0 0 s'" and "s' = s \<or> s' = creditAccounts_update (\<lambda>as. as @ [a]) s"
    by blast+
qed

end
