(* ===== verification/CreditPreserve.thy ===== *)
theory CreditPreserve
  imports CreditInvariant
begin

text \<open>
  Every credit operation keeps the ledger invariant. Each lemma follows the statements of
  the operation with the statement lemmas of \<open>CreditInvariant\<close>: the offsets a transaction
  opens on the account it touches are back at zero when it commits, and a throw rolls back.
\<close>

subsection \<open>Consumption\<close>

lemma buckets_frame [simp]:
  "\<exists>f. s = creditBuckets_update f s"
  by (rule exI [of _ id]) simp

lemma consume_loop_off:
  assumes "consume_loop now rows n s = (Inr rem, s')" and "off i b l r s" and "0 \<le> n"
    and "\<forall>x \<in> set rows. x \<in> set (creditBuckets s) \<and> cb_creditAccountId x = i \<and> cb_status x = BktActive"
    and "distinct (map cb_id rows)"
  shows "off i (b - (n - rem)) l r s' \<and> 0 \<le> rem \<and> (\<exists>f. s' = creditBuckets_update f s)"
  using assms
proof (induction rows arbitrary: s n b)
  case Nil
  then show ?case by auto
next
  case (Cons x rows)
  show ?case
  proof (cases "n \<le> 0")
    case True
    with Cons.prems show ?thesis by auto
  next
    case False
    let ?tk = "min (cb_remainingAmount x) n"
    let ?m = "cb_remainingAmount x - ?tk"
    obtain hit s1 where upd: "update_buckets (\<lambda>y. cb_id y = cb_id x) (set_remaining BktConsumed ?m now) s = (Inr hit, s1)"
      and rest: "consume_loop now rows (n - ?tk) s1 = (Inr rem, s')"
      using Cons.prems(1) False by (auto simp: Let_def bind_eq_Inr)
    have x: "x \<in> set (creditBuckets s)" "cb_creditAccountId x = i" "cb_status x = BktActive"
      using Cons.prems(4) by auto
    note step = off_set_remaining [OF Cons.prems(2) x _ upd]
    have o1: "off i (b - ?tk) l r s1"
      using step(1) by (simp add: algebra_simps)
    have s1: "s1 = creditBuckets_update (update_where (\<lambda>y. cb_id y = cb_id x) (set_remaining BktConsumed ?m now)) s"
      using step(2) by simp
    have mem: "\<forall>y \<in> set rows. y \<in> set (creditBuckets s1) \<and> cb_creditAccountId y = i \<and> cb_status y = BktActive"
      using Cons.prems(4,5) unfolding s1 by (force simp: set_update_where image_iff simp del: if_image_distrib)
    have "off i (b - ?tk - (n - ?tk - rem)) l r s' \<and> 0 \<le> rem \<and> (\<exists>f. s' = creditBuckets_update f s1)"
      using Cons.IH [OF rest o1 _ mem] Cons.prems(5) False by simp
    then obtain f where "off i (b - ?tk - (n - ?tk - rem)) l r s'" "0 \<le> rem" "s' = creditBuckets_update f s1"
      by blast
    moreover have "b - ?tk - (n - ?tk - rem) = b - (n - rem)" by simp
    ultimately show ?thesis unfolding s1 by (auto intro!: exI [of _ "f \<circ> _"])
  qed
qed

lemma consumeBuckets_off:
  assumes run: "consumeBuckets i n allow s = (Inr u, s')" and off: "off i b l r s" and n: "0 < n"
  shows "off i (b - n) l r s' \<and> (\<exists>f. s' = creditBuckets_update f s)"
proof -
  let ?rows = "sort_key consumption_key (filter (consumable i allow (clock s)) (creditBuckets s))"
  obtain rem where loop: "consume_loop (clock s) ?rows n s = (Inr rem, s')" and rem: "\<not> rem > 0"
    using run n by (auto simp: consumeBuckets_def bind_eq_Inr split: if_splits)
  have "distinct (map cb_id (creditBuckets s))"
    using off by (simp add: off_def buckets_ok_def)
  then have dist: "distinct (map cb_id ?rows)"
    by (simp add: distinct_map inj_on_def)
  have mem: "\<forall>x \<in> set ?rows. x \<in> set (creditBuckets s) \<and> cb_creditAccountId x = i \<and> cb_status x = BktActive"
    by (auto simp: consumable_def)
  have res: "off i (b - (n - rem)) l r s'" "0 \<le> rem" "\<exists>f. s' = creditBuckets_update f s"
    using consume_loop_off [OF loop off less_imp_le [OF n] mem dist] by blast+
  have "rem = 0" using res(2) rem by linarith
  then show ?thesis using res(1,3) by (simp only: diff_zero)
qed

subsection \<open>Expiry\<close>

lemma expiry_transaction_simps [simp]:
  "ct_id (expiry_transaction j x n now) = j"
  "ct_creditAccountId (expiry_transaction j x n now) = cb_creditAccountId x"
  "ct_applicationId (expiry_transaction j x n now) = cb_applicationId x"
  "ct_applicationCustomerId (expiry_transaction j x n now) = cb_applicationCustomerId x"
  "ct_environment (expiry_transaction j x n now) = cb_environment x"
  "ct_amount (expiry_transaction j x n now) = - n"
  "ct_type (expiry_transaction j x n now) = GrantExpired"
  "ct_idempotencyKey (expiry_transaction j x n now) = expire_key x"
  "ledger_effect (expiry_transaction j x n now) = - n"
  by (simp_all add: expiry_transaction_def ledger_effect_def)

lemma reverse_available_simps [simp]:
  "ca_id (reverse_available n now a) = ca_id a"
  "ca_availableBalance (reverse_available n now a) = max (ca_availableBalance a - n) 0"
  "ca_reservedBalance (reverse_available n now a) = ca_reservedBalance a"
  by (simp_all add: reverse_available_def)

text \<open>
  The four statements both sweeps share: the reversal row, the account, the row's balances
  (written through any predicate \<open>Q\<close>), the bucket.
\<close>

lemma expiry_stage_off:
  assumes off: "off i 0 0 0 s"
    and x: "x \<in> set (creditBuckets s)" "cb_creditAccountId x = i" "cb_status x = BktActive"
    and acct: "acct \<in> set (creditAccounts s)" "ca_id acct = i"
    and rv: "rv = min (cb_remainingAmount x) (ca_availableBalance acct)"
    and ins: "insert_transaction (expiry_transaction j x rv now) s = (Inr t, s1)"
    and upd: "update_accounts (\<lambda>a. ca_id a = i) (reverse_available rv now) s1 = (Inr hit, s2)"
    and fill: "(case first_row hit of None \<Rightarrow> return ()
        | Some u \<Rightarrow> bind (update_transactions Q (fill_balances u)) (\<lambda>_. return ())) s2 = (Inr v, s3)"
    and bkt: "update_buckets (\<lambda>y. cb_id y = cb_id x)
        (set_remaining BktExpired (cb_remainingAmount x - rv) now) s3 = (Inr hit', s')"
  shows "off i 0 0 0 s'"
    and "creditBuckets s' = update_where (\<lambda>y. cb_id y = cb_id x)
        (set_remaining BktExpired (cb_remainingAmount x - rv) now) (creditBuckets s)"
    and "creditAccounts s' = update_where (\<lambda>a. ca_id a = i) (reverse_available rv now) (creditAccounts s)"
    and "creditReservations s' = creditReservations s"
    and "clock s' = clock s"
proof -
  have ref: "refers s i (cb_applicationId x) (cb_applicationCustomerId x) (cb_environment x)"
    using off x by (auto simp: off_def buckets_ok_def)
  have ref': "refers s i (ct_applicationId (expiry_transaction j x rv now))
      (ct_applicationCustomerId (expiry_transaction j x rv now)) (ct_environment (expiry_transaction j x rv now))"
    using ref by simp
  have acct': "ct_creditAccountId (expiry_transaction j x rv now) = i" using x by simp
  note i1 = off_insert_transaction [OF off ins ref' acct']
  have o1: "off i 0 (- rv) 0 s1" and s1: "s1 = creditTransactions_update (\<lambda>ts. ts @ [expiry_transaction j x rv now]) s"
    using i1(1,3) by simp_all
  have only: "\<And>a. a \<in> set (creditAccounts s) \<Longrightarrow> ca_id a = i \<Longrightarrow> a = acct"
    using off acct distinct_key_eq by (metis accounts_ok_def off_def)
  have hit_ne: "hit \<noteq> []"
    using upd acct unfolding s1 by (auto simp: update_accounts_def update_rows_eq_Inr filter_empty_conv)
  then obtain u where u: "first_row hit = Some u" by (cases hit) auto
  have nonneg: "0 \<le> ca_availableBalance acct - rv" by (simp add: rv)
  have avail: "\<And>a. a \<in> set (creditAccounts s1) \<Longrightarrow> ca_id a = i \<Longrightarrow>
      ca_availableBalance (reverse_available rv now a) = ca_availableBalance a + (- rv)"
    using nonneg by (auto simp: s1 dest: only)
  have resv: "\<And>a. a \<in> set (creditAccounts s1) \<Longrightarrow> ca_id a = i \<Longrightarrow>
      ca_reservedBalance (reverse_available rv now a) = ca_reservedBalance a + 0"
    by simp
  have P: "\<And>a. ca_id a = i \<Longrightarrow> ca_id a = i" by assumption
  note a1 = off_update_account [OF o1 upd u P balance_updates_identity(4) avail resv]
  have o2: "off i rv 0 0 s2"
    using a1(1) by (simp only: diff_0_right minus_diff_eq diff_minus_eq_add add_0 diff_0 right_minus minus_minus diff_self ab_left_minus add.left_neutral)
  have s2: "s2 = creditAccounts_update (update_where (\<lambda>a. ca_id a = i) (reverse_available rv now)) s1"
    by (rule a1(2))
  obtain w where w: "update_transactions Q (fill_balances u) s2 = (Inr w, s3)"
    using fill u by (auto simp: bind_eq_Inr)
  note f1 = off_fill_transactions [OF o2 w]
  have b3: "creditBuckets s3 = creditBuckets s"
    using f1(2) s2 s1 by simp
  have x3: "x \<in> set (creditBuckets s3)" using x b3 by simp
  note b1 = off_set_remaining [OF f1(1) x3 x(2,3) _ bkt]
  show "off i 0 0 0 s'" using b1(1) by simp
  show "creditBuckets s' = update_where (\<lambda>y. cb_id y = cb_id x)
        (set_remaining BktExpired (cb_remainingAmount x - rv) now) (creditBuckets s)"
    using b1(2) b3 by simp
  show "creditAccounts s' = update_where (\<lambda>a. ca_id a = i) (reverse_available rv now) (creditAccounts s)"
    and "creditReservations s' = creditReservations s" and "clock s' = clock s"
    using b1(2) f1(2) s2 s1 by simp_all
qed

text \<open>One round of the account sweep: there is no account, or nothing of its balance is left,
  or the four statements run and leave the invariant behind.\<close>

lemma expire_account_loop_cases:
  assumes run: "expire_account_loop i now (x # rows) s = (Inr u, s')" and off: "off i 0 0 0 s"
    and x: "x \<in> set (creditBuckets s)" "cb_creditAccountId x = i" "cb_status x = BktActive"
  obtains (absent) "s' = s" "\<forall>a \<in> set (creditAccounts s). ca_id a \<noteq> i"
    | (dry) acct where "acct \<in> set (creditAccounts s)" "ca_id acct = i"
        "min (cb_remainingAmount x) (ca_availableBalance acct) \<le> 0" "expire_account_loop i now rows s = (Inr u, s')"
    | (stage) acct rv s4 where "acct \<in> set (creditAccounts s)" "ca_id acct = i"
        "rv = min (cb_remainingAmount x) (ca_availableBalance acct)" "0 < rv"
        "expire_account_loop i now rows s4 = (Inr u, s')" "off i 0 0 0 s4"
        "creditBuckets s4 = update_where (\<lambda>y. cb_id y = cb_id x)
          (set_remaining BktExpired (cb_remainingAmount x - rv) now) (creditBuckets s)"
        "creditAccounts s4 = update_where (\<lambda>a. ca_id a = i) (reverse_available rv now) (creditAccounts s)"
        "creditReservations s4 = creditReservations s" "clock s4 = clock s"
proof (cases "first_row (filter (\<lambda>a. ca_id a = i) (creditAccounts s))")
  case None
  then show thesis using run by (intro absent) (auto simp: bind_eq_Inr filter_empty_conv)
next
  case (Some acct)
  have acct: "acct \<in> set (creditAccounts s)" "ca_id acct = i"
    using first_row_mem [OF Some] by auto
  define rv where rv: "rv = min (cb_remainingAmount x) (ca_availableBalance acct)"
  show thesis
  proof (cases "rv \<le> 0")
    case True
    then have "expire_account_loop i now rows s = (Inr u, s')"
      using run Some by (simp add: bind_eq_Inr Let_def rv [symmetric])
    then show thesis using dry acct True rv by blast
  next
    case False
    obtain t s1 hit s2 v s3 hit' s4 where
      ins: "insert_transaction (expiry_transaction (''ctx_'' @ string_of_nat (uuids s)) x rv now)
              (s\<lparr>uuids := Suc (uuids s)\<rparr>) = (Inr t, s1)"
      and upd: "update_accounts (\<lambda>a. ca_id a = i) (reverse_available rv now) s1 = (Inr hit, s2)"
      and fill: "(case first_row hit of None \<Rightarrow> return ()
          | Some u \<Rightarrow> bind (update_transactions
              (\<lambda>t. ct_creditAccountId t = i \<and> ct_idempotencyKey t = expire_key x) (fill_balances u))
              (\<lambda>_. return ())) s2 = (Inr v, s3)"
      and bkt: "update_buckets (\<lambda>y. cb_id y = cb_id x)
          (set_remaining BktExpired (cb_remainingAmount x - rv) now) s3 = (Inr hit', s4)"
      and rest: "expire_account_loop i now rows s4 = (Inr u, s')"
      using run Some False by (auto simp: bind_eq_Inr Let_def rv [symmetric])
    have off0: "off i 0 0 0 (s\<lparr>uuids := Suc (uuids s)\<rparr>)" using off by simp
    note st = expiry_stage_off [OF off0 _ x(2,3) _ acct(2) rv ins upd fill bkt]
    show thesis
      by (rule stage [OF acct rv _ rest]) (use st x acct False in simp_all)
  qed
qed

lemma expire_rows_stored:
  assumes "\<forall>y \<in> set (x # rows). y \<in> set (creditBuckets s) \<and> cb_creditAccountId y = i \<and> cb_status y = BktActive"
    and "distinct (map cb_id (x # rows))"
    and "creditBuckets s4 = update_where (\<lambda>y. cb_id y = cb_id x) f (creditBuckets s)"
  shows "\<forall>y \<in> set rows. y \<in> set (creditBuckets s4) \<and> cb_creditAccountId y = i \<and> cb_status y = BktActive"
  using assms by (force simp: set_update_where image_iff simp del: if_image_distrib)

lemma expire_account_loop_off:
  assumes "expire_account_loop i now rows s = (Inr u, s')" and "off i 0 0 0 s"
    and "\<forall>x \<in> set rows. x \<in> set (creditBuckets s) \<and> cb_creditAccountId x = i \<and> cb_status x = BktActive"
    and "distinct (map cb_id rows)"
  shows "off i 0 0 0 s' \<and> creditReservations s' = creditReservations s \<and> clock s' = clock s
    \<and> (\<exists>f. creditAccounts s' = map f (creditAccounts s) \<and> (\<forall>a. same_identity a (f a)))"
  using assms
proof (induction rows arbitrary: s)
  case Nil
  then show ?case by (auto intro!: exI [of _ id] simp: same_identity_def)
next
  case (Cons x rows)
  have x: "x \<in> set (creditBuckets s)" "cb_creditAccountId x = i" "cb_status x = BktActive"
    using Cons.prems(3) by auto
  from Cons.prems(1,2) x show ?case
  proof (cases rule: expire_account_loop_cases)
    case absent
    then show ?thesis using Cons.prems(2) by (auto intro!: exI [of _ id] simp: same_identity_def)
  next
    case (dry acct)
    from Cons.IH [OF dry(4)] Cons.prems show ?thesis by simp
  next
    case (stage acct rv s4)
    from Cons.IH [OF stage(5,6) expire_rows_stored [OF Cons.prems(3,4) stage(7)]] Cons.prems(4) obtain f where
      f: "off i 0 0 0 s'" "creditReservations s' = creditReservations s4" "clock s' = clock s4"
        "creditAccounts s' = map f (creditAccounts s4)" "\<forall>a. same_identity a (f a)"
      by auto
    let ?g = "\<lambda>a. f (if ca_id a = i then reverse_available rv now a else a)"
    have "creditAccounts s' = map ?g (creditAccounts s)"
      by (simp add: f(4) stage(8) update_where_def)
    moreover have "\<forall>a. same_identity a (?g a)"
      using f(5) balance_updates_identity(4) [of _ rv now] by (auto simp: same_identity_def)
    ultimately have "\<exists>g. creditAccounts s' = map g (creditAccounts s) \<and> (\<forall>a. same_identity a (g a))"
      by (intro exI [of _ ?g]) simp
    then show ?thesis using f(1-3) stage(9,10) by simp
  qed
qed

text \<open>A sweep stops short of a due bucket only when the account has nothing available left.\<close>

lemma expire_dry:
  "expire_account_loop i now rows s = (Inr u, s') \<Longrightarrow>
   \<forall>a \<in> set (creditAccounts s). ca_id a = i \<longrightarrow> ca_availableBalance a = 0 \<Longrightarrow> s' = s"
proof (induction rows)
  case (Cons x rows)
  show ?case
  proof (cases "first_row (filter (\<lambda>a. ca_id a = i) (creditAccounts s))")
    case (Some acct)
    then have "min (cb_remainingAmount x) (ca_availableBalance acct) \<le> 0"
      using Cons.prems(2) first_row_mem [OF Some] by auto
    then show ?thesis using Cons Some by (simp add: bind_eq_Inr Let_def)
  qed (use Cons.prems(1) in \<open>simp add: bind_eq_Inr\<close>)
qed simp

lemma expire_account_loop_others:
  assumes "expire_account_loop i now rows s = (Inr u, s')" and "off i 0 0 0 s"
    and "\<forall>x \<in> set rows. x \<in> set (creditBuckets s) \<and> cb_creditAccountId x = i \<and> cb_status x = BktActive"
    and "distinct (map cb_id rows)"
  shows "\<forall>y \<in> set (creditBuckets s'). cb_id y \<notin> cb_id ` set rows \<longrightarrow> y \<in> set (creditBuckets s)"
  using assms
proof (induction rows arbitrary: s)
  case (Cons x rows)
  have x: "x \<in> set (creditBuckets s)" "cb_creditAccountId x = i" "cb_status x = BktActive"
    using Cons.prems(3) by auto
  from Cons.prems(1,2) x show ?case
  proof (cases rule: expire_account_loop_cases)
    case (dry acct)
    from Cons.IH [OF dry(4)] Cons.prems show ?thesis by simp
  next
    case (stage acct rv s4)
    from Cons.IH [OF stage(5,6) expire_rows_stored [OF Cons.prems(3,4) stage(7)]] Cons.prems(4)
    have "\<forall>y \<in> set (creditBuckets s'). cb_id y \<notin> cb_id ` set rows \<longrightarrow> y \<in> set (creditBuckets s4)" by simp
    then show ?thesis unfolding stage(7) by (auto simp: set_update_where split: if_splits simp del: if_image_distrib)
  qed simp
qed simp

lemma expire_account_loop_done:
  assumes "expire_account_loop i now rows s = (Inr u, s')" and "off i 0 0 0 s"
    and "\<forall>x \<in> set rows. x \<in> set (creditBuckets s) \<and> cb_creditAccountId x = i \<and> cb_status x = BktActive"
    and "distinct (map cb_id rows)" and "\<exists>a \<in> set (creditAccounts s). ca_id a = i"
  shows "(\<exists>a \<in> set (creditAccounts s'). ca_id a = i \<and> ca_availableBalance a = 0)
    \<or> (\<forall>y \<in> set (creditBuckets s'). cb_id y \<in> cb_id ` set rows \<longrightarrow> cb_status y \<noteq> BktActive)"
  using assms
proof (induction rows arbitrary: s)
  case (Cons x rows)
  have x: "x \<in> set (creditBuckets s)" "cb_creditAccountId x = i" "cb_status x = BktActive"
    using Cons.prems(3) by auto
  have one: "a = acct" if "a \<in> set (creditAccounts s)" "acct \<in> set (creditAccounts s)" "ca_id a = i" "ca_id acct = i" for a acct
    using that distinct_key_eq [of ca_id] Cons.prems(2) by (metis off_def accounts_ok_def)
  have pos: "0 < cb_remainingAmount x" and nonneg: "\<forall>a \<in> set (creditAccounts s). 0 \<le> ca_availableBalance a"
    using Cons.prems(2) x by (auto simp: off_def buckets_ok_def accounts_ok_def account_check_def)
  from Cons.prems(1,2) x show ?case
  proof (cases rule: expire_account_loop_cases)
    case absent
    then show ?thesis using Cons.prems(5) by blast
  next
    case (dry acct)
    have z: "ca_availableBalance acct = 0" using dry(1,3) pos nonneg by fastforce
    then have "s' = s" using expire_dry [OF dry(4)] one dry(1,2) by blast
    then show ?thesis using dry(1,2) z by blast
  next
    case (stage acct rv s4)
    note mem = expire_rows_stored [OF Cons.prems(3,4) stage(7)]
    have d: "distinct (map cb_id rows)" using Cons.prems(4) by simp
    show ?thesis
    proof (cases "rv = cb_remainingAmount x")
      case True
      have "\<exists>a \<in> set (creditAccounts s4). ca_id a = i"
        using stage(1,2) unfolding stage(8) by (force simp: set_update_where simp del: if_image_distrib)
      from Cons.IH [OF stage(5,6) mem d this] show ?thesis
      proof
        assume gone: "\<forall>y \<in> set (creditBuckets s'). cb_id y \<in> cb_id ` set rows \<longrightarrow> cb_status y \<noteq> BktActive"
        have "cb_status y \<noteq> BktActive" if y: "y \<in> set (creditBuckets s')" "cb_id y = cb_id x" for y
        proof -
          have "y \<in> set (creditBuckets s4)"
            using expire_account_loop_others [OF stage(5,6) mem d] y Cons.prems(4) by auto
          then show ?thesis
            using y(2) True unfolding stage(7) by (auto simp: set_update_where split: if_splits simp del: if_image_distrib)
        qed
        then show ?thesis using gone by auto
      qed simp
    next
      case False
      then have "rv = ca_availableBalance acct" using stage(3) by linarith
      then have z: "\<forall>a \<in> set (creditAccounts s4). ca_id a = i \<longrightarrow> ca_availableBalance a = 0"
        using one [OF _ stage(1) _ stage(2)] unfolding stage(8)
        by (auto simp: set_update_where split: if_splits simp del: if_image_distrib)
      have "s' = s4" by (rule expire_dry [OF stage(5) z])
      moreover have "\<exists>a \<in> set (creditAccounts s4). ca_id a = i"
        using stage(1,2) unfolding stage(8) by (force simp: set_update_where simp del: if_image_distrib)
      ultimately show ?thesis using z by blast
    qed
  qed
qed simp

lemma expireDueBucketsForAccount_off:
  assumes run: "expireDueBucketsForAccount app i env now s = (Inr u, s')" and off: "off i 0 0 0 s"
  shows "off i 0 0 0 s' \<and> creditReservations s' = creditReservations s \<and> clock s' = clock s
    \<and> (\<exists>f. creditAccounts s' = map f (creditAccounts s) \<and> (\<forall>a. same_identity a (f a)))"
proof -
  let ?rows = "sort_key consumption_key (filter (\<lambda>b. cb_creditAccountId b = i \<and> cb_applicationId b = app
      \<and> cb_environment b = env \<and> due now b) (creditBuckets s))"
  have loop: "expire_account_loop i now ?rows s = (Inr u, s')"
    using run by (simp add: expireDueBucketsForAccount_def bind_eq_Inr)
  have "distinct (map cb_id (creditBuckets s))"
    using off by (simp add: off_def buckets_ok_def)
  then have "distinct (map cb_id ?rows)" by (simp add: distinct_map inj_on_def)
  then show ?thesis
    using expire_account_loop_off [OF loop off] by (auto simp: due_def)
qed

text \<open>
  A scanned bucket names the account its stored row belongs to; rows never change accounts,
  so this holds for every earlier scan.
\<close>

definition names_account :: "db \<Rightarrow> credit_bucket \<Rightarrow> bool" where
  "names_account s bucket \<longleftrightarrow> (\<forall>x \<in> set (creditBuckets s). cb_id x = cb_id bucket
     \<longrightarrow> cb_creditAccountId x = cb_creditAccountId bucket)"

lemma expire_bucket_tx_off:
  assumes run: "expire_bucket_tx now bucket s = (Inr res, s')" and off: "credit_inv s"
    and names: "names_account s bucket"
  shows "credit_inv s'"
proof -
  let ?lock = "List.find (\<lambda>a. ca_id a = cb_creditAccountId bucket) (creditAccounts s)"
  let ?fresh = "List.find (\<lambda>b. cb_id b = cb_id bucket) (creditBuckets s)"
  show ?thesis
  proof (cases "s' = s")
    case True
    with off show ?thesis by simp
  next
    case False
    then obtain acct x where acct: "?lock = Some acct" and x: "?fresh = Some x"
      and go: "cb_status x = BktActive" "0 < cb_remainingAmount x" "0 < ca_availableBalance acct"
      using run by (auto simp: expire_bucket_tx_def bind_eq_Inr Let_def not_less split: option.splits if_splits)
    define rv where rv: "rv = min (cb_remainingAmount x) (ca_availableBalance acct)"
    have rv_pos: "\<not> rv \<le> 0" "\<not> cb_remainingAmount x \<le> 0" using go by (simp_all add: rv)
    have xs: "x \<in> set (creditBuckets s)" "cb_id x = cb_id bucket"
      using find_SomeD [OF x] by auto
    with names have xi: "cb_creditAccountId x = cb_creditAccountId bucket"
      by (simp add: names_account_def)
    have ac: "acct \<in> set (creditAccounts s)" "ca_id acct = cb_creditAccountId x"
      using find_SomeD [OF acct] xi by auto
    obtain t s1 hit s2 v s3 hit' where
      ins: "insert_transaction (expiry_transaction (''ctx_'' @ string_of_nat (uuids s)) x rv now)
              (s\<lparr>uuids := Suc (uuids s)\<rparr>) = (Inr t, s1)"
      and upd: "update_accounts (\<lambda>a. ca_id a = cb_creditAccountId x) (reverse_available rv now) s1 = (Inr hit, s2)"
      and fill: "(case first_row hit of None \<Rightarrow> return ()
          | Some u \<Rightarrow> bind (update_transactions (\<lambda>r. ct_id r = ct_id t) (fill_balances u))
              (\<lambda>_. return ())) s2 = (Inr v, s3)"
      and bkt: "update_buckets (\<lambda>y. cb_id y = cb_id x)
          (set_remaining BktExpired (cb_remainingAmount x - rv) now) s3 = (Inr hit', s')"
      using run acct x go by (auto simp: expire_bucket_tx_def bind_eq_Inr Let_def rv [symmetric] rv_pos)
    have off0: "off (cb_creditAccountId x) 0 0 0 (s\<lparr>uuids := Suc (uuids s)\<rparr>)"
      using off by (simp add: credit_inv_off [of s "cb_creditAccountId x"])
    have "off (cb_creditAccountId x) 0 0 0 s'"
      using expiry_stage_off(1) [OF off0 _ refl go(1) _ ac(2) rv ins upd fill bkt] xs ac by simp
    then show ?thesis by (simp add: credit_inv_off [symmetric])
  qed
qed

subsection \<open>Accounts, ledger rows and buckets\<close>

lemma ensureAccount_inv:
  assumes run: "ensureAccount app cust ty env s = (Inr a, s')" and inv: "credit_inv s"
  shows "credit_inv s'" and "a \<in> set (creditAccounts s')" and "account_scope app cust ty env a"
    and "clock s' = clock s"
proof -
  obtain row res where ins: "insert_account row (s\<lparr>uuids := Suc (uuids s)\<rparr>) = (Inr res, s')"
    and zero: "ca_availableBalance row = 0" "ca_reservedBalance row = 0"
    and find: "List.find (account_scope app cust ty env) (creditAccounts s') = Some a"
    using run by (fastforce simp: ensureAccount_def bind_eq_Inr split: option.splits)
  have "off [] 0 0 0 (s\<lparr>uuids := Suc (uuids s)\<rparr>)"
    using inv by (simp add: credit_inv_def)
  note i1 = off_insert_account [OF this ins zero]
  show "credit_inv s'" using i1(1) by (simp add: credit_inv_def)
  show "clock s' = clock s" using i1(2) by auto
  show "a \<in> set (creditAccounts s')" and "account_scope app cust ty env a"
    using find_SomeD [OF find] by auto
qed

lemma appendTransaction_off:
  assumes run: "appendTransaction input s = (Inr t, s')" and off: "off i b l r s"
    and ref: "refers s i (ti_applicationId input) (ti_applicationCustomerId input)
        (resolveCreditEnvironment (ti_environment input))"
    and acct: "ti_creditAccountId input = i"
  shows "off i b (l + (if ti_type input = ReserveUsage \<or> ti_type input = ReleaseUsage then 0 else ti_amount input)) r s'"
    and "creditTransactions s' = creditTransactions s @ [t]"
    and "s' = s\<lparr>uuids := Suc (uuids s), creditTransactions := creditTransactions s @ [t]\<rparr>"
    and "ct_type t = ti_type input" "ct_amount t = ti_amount input"
    and "ct_applicationId t = ti_applicationId input"
    and "ct_environment t = resolveCreditEnvironment (ti_environment input)"
    and "ct_idempotencyKey t = ti_idempotencyKey input"
proof -
  obtain row where ins: "insert_transaction row (s\<lparr>uuids := Suc (uuids s)\<rparr>) = (Inr t, s')"
    and row: "ct_applicationId row = ti_applicationId input"
      "ct_applicationCustomerId row = ti_applicationCustomerId input"
      "ct_environment row = resolveCreditEnvironment (ti_environment input)"
      "ct_creditAccountId row = i" "ct_type row = ti_type input" "ct_amount row = ti_amount input"
      "ct_idempotencyKey row = ti_idempotencyKey input"
    using run acct by (fastforce simp: appendTransaction_def bind_eq_Inr)
  have off0: "off i b l r (s\<lparr>uuids := Suc (uuids s)\<rparr>)" using off by simp
  have ref0: "refers (s\<lparr>uuids := Suc (uuids s)\<rparr>) i (ct_applicationId row) (ct_applicationCustomerId row) (ct_environment row)"
    using ref row by simp
  note i1 = off_insert_transaction [OF off0 ins ref0 row(4)]
  have "ledger_effect row = (if ti_type input = ReserveUsage \<or> ti_type input = ReleaseUsage then 0 else ti_amount input)"
    unfolding ledger_effect_def row ..
  with i1(1) show "off i b (l + (if ti_type input = ReserveUsage \<or> ti_type input = ReleaseUsage then 0 else ti_amount input)) r s'"
    by (simp only:)
  show "creditTransactions s' = creditTransactions s @ [t]"
    and "s' = s\<lparr>uuids := Suc (uuids s), creditTransactions := creditTransactions s @ [t]\<rparr>"
    using i1(2,3) by simp_all
  show "ct_type t = ti_type input" "ct_amount t = ti_amount input" "ct_applicationId t = ti_applicationId input"
    "ct_environment t = resolveCreditEnvironment (ti_environment input)"
    "ct_idempotencyKey t = ti_idempotencyKey input"
    using i1(2) row by simp_all
qed

lemma createBucketForGrant_off:
  assumes run: "createBucketForGrant input s = (Inr x, s')" and off: "off i b l r s"
    and ref: "refers s i (bi_applicationId input) (bi_applicationCustomerId input) (bi_environment input)"
    and acct: "bi_creditAccountId input = i" and pos: "0 < bi_amount input"
  shows "off i (b + bi_amount input) l r s'"
    and "s' = s\<lparr>uuids := Suc (uuids s), creditBuckets := creditBuckets s @ [x]\<rparr>"
    and "cb_remainingAmount x = bi_amount input" "cb_status x = BktActive" "cb_creditAccountId x = i"
      "cb_expiresAt x = bi_expiresAt input"
proof -
  obtain row where ins: "insert_bucket row (s\<lparr>uuids := Suc (uuids s)\<rparr>) = (Inr x, s')"
    and row: "cb_applicationId row = bi_applicationId input"
      "cb_applicationCustomerId row = bi_applicationCustomerId input"
      "cb_environment row = bi_environment input" "cb_creditAccountId row = i"
      "cb_status row = BktActive" "cb_remainingAmount row = bi_amount input"
      "cb_expiresAt row = bi_expiresAt input"
    using run acct by (fastforce simp: createBucketForGrant_def bind_eq_Inr)
  have off0: "off i b l r (s\<lparr>uuids := Suc (uuids s)\<rparr>)" using off by simp
  have ref0: "refers (s\<lparr>uuids := Suc (uuids s)\<rparr>) i (cb_applicationId row) (cb_applicationCustomerId row) (cb_environment row)"
    using ref row by simp
  have pos0: "0 < cb_remainingAmount row" using pos row by simp
  note i1 = off_insert_bucket [OF off0 ins ref0 row(4,5) pos0]
  show "off i (b + bi_amount input) l r s'" using i1(1) row by simp
  show "s' = s\<lparr>uuids := Suc (uuids s), creditBuckets := creditBuckets s @ [x]\<rparr>" using i1(2,3) by simp
  show "cb_remainingAmount x = bi_amount input" "cb_status x = BktActive" "cb_creditAccountId x = i"
    "cb_expiresAt x = bi_expiresAt input"
    using i1(2) row by simp_all
qed

lemma add_available_simps [simp]:
  "ca_id (add_available n now a) = ca_id a"
  "ca_availableBalance (add_available n now a) = ca_availableBalance a + n"
  "ca_reservedBalance (add_available n now a) = ca_reservedBalance a"
  by (simp_all add: add_available_def)

lemma refers_scope:
  "a \<in> set (creditAccounts s) \<Longrightarrow> account_scope app cust ty env a \<Longrightarrow> refers s (ca_id a) app cust env"
  by (auto simp: refers_def account_scope_def)

text \<open>Adding \<open>n\<close> to the available balance of a stored account.\<close>

lemma off_add_available:
  assumes off: "off i b l r s" and upd: "update_accounts P (add_available n now) s = (Inr rows, s')"
    and u: "first_row rows = Some u" and P: "\<And>a. P a \<Longrightarrow> ca_id a = i"
  shows "off i (b - n) (l - n) r s'" and "ca_id u = i"
    and "s' = creditAccounts_update (update_where (\<lambda>a. ca_id a = i) (add_available n now)) s"
    and "\<exists>a \<in> set (creditAccounts s). ca_id a = i \<and> P a \<and> u = add_available n now a"
    and "refers s' j p c e = refers s j p c e"
proof -
  note a1 = off_update_account [OF off upd u P balance_updates_identity(1), where da = n and dr = 0]
  show "off i (b - n) (l - n) r s'" using a1(1) by (simp only: add_available_simps add_0_right diff_zero)
  show "ca_id u = i" by (rule a1(4)) simp_all
  show s': "s' = creditAccounts_update (update_where (\<lambda>a. ca_id a = i) (add_available n now)) s"
    by (rule a1(2)) simp_all
  show "\<exists>a \<in> set (creditAccounts s). ca_id a = i \<and> P a \<and> u = add_available n now a"
    by (rule a1(3)) simp_all
  show "refers s' j p c e = refers s j p c e"
    unfolding s' by (rule refers_update_accounts) simp
qed

subsection \<open>Grants and debits\<close>

lemma grantCreditsInTransaction_inv:
  assumes run: "grantCreditsInTransaction input s = (Inr res, s')" and inv: "credit_inv s"
    and ty: "is_grant_tx (gi_transactionType input)"
  shows "credit_inv s'"
proof (cases "s' = s")
  case True
  with inv show ?thesis by simp
next
  case False
  let ?app = "gi_applicationId input" and ?cust = "gi_applicationCustomerId input"
    and ?env = "resolveCreditEnvironment (gi_environment input)" and ?n = "gi_amount input"
  obtain ty account s1 rows s2 u txi t s3 bki x where
    amount: "valid_amount ?n"
    and acc: "ensureAccount ?app ?cust ty ?env s = (Inr account, s1)"
    and upd: "update_accounts (\<lambda>a. ca_id a = ca_id account) (add_available ?n (clock s1)) s1 = (Inr rows, s2)"
    and u: "first_row rows = Some u"
    and tx: "appendTransaction txi s2 = (Inr t, s3)"
    and txi: "ti_applicationId txi = ?app" "ti_applicationCustomerId txi = ?cust"
      "ti_creditAccountId txi = ca_id u" "ti_type txi = gi_transactionType input" "ti_amount txi = ?n"
      "ti_environment txi = Some ?env"
    and bk: "createBucketForGrant bki s3 = (Inr x, s')"
    and bki: "bi_applicationId bki = ?app" "bi_environment bki = ?env" "bi_applicationCustomerId bki = ?cust"
      "bi_creditAccountId bki = ca_id u" "bi_amount bki = ?n"
    using run False
    by (auto simp: grantCreditsInTransaction_def bind_eq_Inr Let_def split: option.splits)
  note e = ensureAccount_inv [OF acc inv]
  have ref: "refers s1 (ca_id account) ?app ?cust ?env"
    using refers_scope [OF e(2,3)] .
  have off1: "off (ca_id account) 0 0 0 s1"
    using e(1) by (simp add: credit_inv_off [of s1 "ca_id account"])
  have P: "\<And>a. ca_id a = ca_id account \<Longrightarrow> ca_id a = ca_id account" by assumption
  note a1 = off_add_available [OF off1 upd u P]
  have ti: "ti_creditAccountId txi = ca_id account" and bi: "bi_creditAccountId bki = ca_id account"
    using a1(2) txi bki by simp_all
  have ref2: "refers s2 (ca_id account) (ti_applicationId txi) (ti_applicationCustomerId txi)
      (resolveCreditEnvironment (ti_environment txi))"
    using ref txi by (simp add: a1(5))
  note t1 = appendTransaction_off [OF tx a1(1) ref2 ti]
  have ref3: "refers s3 (ca_id account) (bi_applicationId bki) (bi_applicationCustomerId bki) (bi_environment bki)"
    using ref bki by (simp add: t1(3) a1(5))
  have pos: "0 < bi_amount bki" using amount bki by (simp add: valid_amount_def)
  note b1 = createBucketForGrant_off [OF bk t1(1) ref3 bi pos]
  have "gi_transactionType input \<noteq> ReserveUsage" "gi_transactionType input \<noteq> ReleaseUsage"
    using ty by auto
  then have "off (ca_id account) 0 0 0 s'"
    using b1(1) txi bki by simp
  then show ?thesis by (simp add: credit_inv_off [symmetric])
qed

lemma grantCredits_inv: "grantCredits input s = (r, s') \<Longrightarrow> credit_inv s \<Longrightarrow> is_grant_tx (gi_transactionType input)
    \<Longrightarrow> credit_inv s'"
  using grantCreditsInTransaction_inv
  by (cases r) (auto simp: grantCredits_def transaction_eq_Inl)

text \<open>The statements of a debit that is not a replay.\<close>

lemma debit_steps:
  assumes run: "debitCreditsForApplicationCustomerInTransaction input cust s = (Inr res, s')"
    and fresh: "\<not> tr_duplicate res"
  obtains ty account rows s2 u v s3 txi where
    "valid_amount (di_amount input)" and "normalized_key (di_creditType input) ty"
    and "List.find (account_scope (di_applicationId input) cust ty (resolveCreditEnvironment (di_environment input)))
        (creditAccounts s) = Some account"
    and "update_accounts (\<lambda>a. ca_id a = ca_id account \<and> ca_availableBalance a \<ge> di_amount input)
        (add_available (- di_amount input) (clock s)) s = (Inr rows, s2)"
    and "first_row rows = Some u"
    and "consumeBuckets (ca_id u) (di_amount input) False s2 = (Inr v, s3)"
    and "appendTransaction txi s3 = (Inr (tr_transaction res), s')"
    and "ti_applicationId txi = di_applicationId input" "ti_applicationCustomerId txi = cust"
      "ti_creditAccountId txi = ca_id u" "ti_type txi = DebitUsage" "ti_amount txi = - di_amount input"
      "ti_environment txi = Some (resolveCreditEnvironment (di_environment input))"
  using run fresh
  by (auto simp: debitCreditsForApplicationCustomerInTransaction_def bind_eq_Inr Let_def split: option.splits)

lemma debit_replay_state:
  "debitCreditsForApplicationCustomerInTransaction input cust s = (Inr res, s') \<Longrightarrow> tr_duplicate res \<Longrightarrow> s' = s"
  by (auto simp: debitCreditsForApplicationCustomerInTransaction_def bind_eq_Inr Let_def split: option.splits)

lemma debitInTransaction_inv:
  assumes run: "debitCreditsForApplicationCustomerInTransaction input cust s = (Inr res, s')" and inv: "credit_inv s"
  shows "credit_inv s'"
proof (cases "tr_duplicate res")
  case True
  with inv debit_replay_state [OF run] show ?thesis by simp
next
  case False
  let ?app = "di_applicationId input" and ?env = "resolveCreditEnvironment (di_environment input)"
    and ?n = "di_amount input"
  obtain ty account rows s2 u v s3 txi where amount: "valid_amount ?n"
    and acc: "List.find (account_scope ?app cust ty ?env) (creditAccounts s) = Some account"
    and upd: "update_accounts (\<lambda>a. ca_id a = ca_id account \<and> ca_availableBalance a \<ge> ?n)
        (add_available (- ?n) (clock s)) s = (Inr rows, s2)"
    and u: "first_row rows = Some u" and co: "consumeBuckets (ca_id u) ?n False s2 = (Inr v, s3)"
    and tx: "appendTransaction txi s3 = (Inr (tr_transaction res), s')"
    and txi: "ti_applicationId txi = ?app" "ti_applicationCustomerId txi = cust"
      "ti_creditAccountId txi = ca_id u" "ti_type txi = DebitUsage" "ti_amount txi = - ?n"
      "ti_environment txi = Some ?env"
    by (rule debit_steps [OF run False], rule that)
  have ref: "refers s (ca_id account) ?app cust ?env"
    using find_SomeD [OF acc] refers_scope by blast
  have off1: "off (ca_id account) 0 0 0 s"
    using inv by (simp add: credit_inv_off [of s "ca_id account"])
  have P: "\<And>a. ca_id a = ca_id account \<and> ca_availableBalance a \<ge> ?n \<Longrightarrow> ca_id a = ca_id account" by simp
  note a1 = off_add_available [OF off1 upd u P]
  have co': "consumeBuckets (ca_id account) ?n False s2 = (Inr v, s3)" using co a1(2) by simp
  have pos: "0 < ?n" using amount by (simp add: valid_amount_def)
  from consumeBuckets_off [OF co' a1(1) pos] obtain f where
    o3: "off (ca_id account) (0 - - ?n - ?n) (0 - - ?n) 0 s3" and s3: "s3 = creditBuckets_update f s2"
    by blast
  have ti: "ti_creditAccountId txi = ca_id account" using a1(2) txi by simp
  have ref3: "refers s3 (ca_id account) (ti_applicationId txi) (ti_applicationCustomerId txi)
      (resolveCreditEnvironment (ti_environment txi))"
    using ref txi by (simp add: s3 a1(5))
  note t1 = appendTransaction_off [OF tx o3 ref3 ti]
  have "off (ca_id account) 0 0 0 s'" using t1(1) txi by simp
  then show ?thesis by (simp add: credit_inv_off [symmetric])
qed

lemma debitCredits_inv: "debitCredits input s = (r, s') \<Longrightarrow> credit_inv s \<Longrightarrow> credit_inv s'"
  using debitInTransaction_inv
  by (cases r) (auto simp: debitCredits_def transaction_eq_Inl bind_eq_Inr resolveApplicationCustomerId_eq_Inr)

lemma refundCredits_inv: "refundCredits input s = (r, s') \<Longrightarrow> credit_inv s \<Longrightarrow> credit_inv s'"
  using grantCreditsInTransaction_inv
  by (cases r) (fastforce simp: refundCredits_def transaction_eq_Inl bind_eq_Inr resolveApplicationCustomerId_eq_Inr)+

subsection \<open>Reservations\<close>

lemma update_no_row: "update_accounts P f s = (Inr [], s') \<Longrightarrow> s' = s"
proof -
  assume u: "update_accounts P f s = (Inr [], s')"
  then have "\<And>a. a \<in> set (creditAccounts s) \<Longrightarrow> \<not> P a"
    by (auto simp: update_accounts_def update_rows_eq_Inr filter_empty_conv)
  then have "update_where P f (creditAccounts s) = creditAccounts s" by (rule update_where_none)
  with u show ?thesis by (simp add: update_accounts_def update_rows_eq_Inr)
qed

lemma balance_move_simps [simp]:
  "ca_id (move_to_reserved n now a) = ca_id a"
  "ca_availableBalance (move_to_reserved n now a) = ca_availableBalance a - n"
  "ca_reservedBalance (move_to_reserved n now a) = ca_reservedBalance a + n"
  "ca_id (settle_balances m h now a) = ca_id a"
  "ca_availableBalance (settle_balances m h now a) = ca_availableBalance a + m"
  "ca_reservedBalance (settle_balances m h now a) = ca_reservedBalance a - h"
  by (simp_all add: move_to_reserved_def settle_balances_def)

lemma refers_same_identity:
  assumes "creditAccounts t = map f (creditAccounts s)" and "\<forall>a. same_identity a (f a)"
  shows "refers t i p c e = refers s i p c e"
proof -
  have "ca_id (f a) = ca_id a" "ca_applicationId (f a) = ca_applicationId a"
    "ca_applicationCustomerId (f a) = ca_applicationCustomerId a" "ca_environment (f a) = ca_environment a" for a
    using assms(2) by (auto simp: same_identity_def scope_of_def)
  then show ?thesis by (simp add: refers_def assms(1))
qed

lemma reserve_commit_off:
  assumes run: "reserve_commit input cust rt ri key env now u s = (Inr res, s')"
    and off: "off (ca_id u) 0 0 (- ri_amount input) s"
    and ref: "refers s (ca_id u) (ri_applicationId input) cust env"
  shows "off (ca_id u) 0 0 0 s'"
proof -
  obtain row x s1 txi t where
    ins: "insert_reservation row (s\<lparr>uuids := Suc (uuids s)\<rparr>) = (Inr x, s1)"
    and tx: "appendTransaction txi s1 = (Inr t, s')"
    and row: "cr_applicationId row = ri_applicationId input" "cr_applicationCustomerId row = cust"
      "cr_environment row = env" "cr_creditAccountId row = ca_id u" "cr_status row = ResActive"
      "cr_reservedAmount row = ri_amount input"
    and txi: "ti_applicationId txi = ri_applicationId input" "ti_applicationCustomerId txi = cust"
      "resolveCreditEnvironment (ti_environment txi) = env" "ti_creditAccountId txi = ca_id u"
      "ti_type txi = ReserveUsage"
    using run by (auto simp: reserve_commit_def bind_eq_Inr)
  have off0: "off (ca_id u) 0 0 (- ri_amount input) (s\<lparr>uuids := Suc (uuids s)\<rparr>)" using off by simp
  have ref0: "refers (s\<lparr>uuids := Suc (uuids s)\<rparr>) (ca_id u) (cr_applicationId row)
      (cr_applicationCustomerId row) (cr_environment row)"
    using ref row by simp
  note i1 = off_insert_reservation [OF off0 ins ref0 row(4,5)]
  have ref1: "refers s1 (ca_id u) (ti_applicationId txi) (ti_applicationCustomerId txi)
      (resolveCreditEnvironment (ti_environment txi))"
    using ref txi by (simp add: i1(3))
  show ?thesis
    using appendTransaction_off(1) [OF tx i1(1) ref1 txi(4)] row txi by simp
qed

lemma reserve_tx_inv:
  assumes run: "reserve_tx input ty rt ri key env s = (Inr res, s')" and inv: "credit_inv s"
  shows "credit_inv s'"
proof (cases "s' = s")
  case True
  with inv show ?thesis by simp
next
  case False
  let ?app = "ri_applicationId input" and ?n = "ri_amount input"
  let ?P = "\<lambda>i a. ca_id a = i \<and> ca_availableBalance a \<ge> ?n"
  let ?found = "List.find (\<lambda>r. cr_applicationId r = ?app \<and> cr_environment r = env \<and> cr_idempotencyKey r = key)
      (creditReservations s)"
  have nf: "?found = None"
    using run False
    by (cases ?found) (auto simp: reserve_tx_def bind_eq_Inr resolveApplicationCustomerId_eq_Inr)
  obtain cust where head: "bind (findAccount ?app cust ty env) (\<lambda>foundAccount. case foundAccount of
        None \<Rightarrow> return Insufficient | Some account \<Rightarrow> reserve_locked input cust rt ri key env account) s = (Inr res, s')"
    using run nf by (auto simp: reserve_tx_def bind_eq_Inr resolveApplicationCustomerId_eq_Inr)
  then obtain account where
    acc: "List.find (account_scope ?app cust ty env) (creditAccounts s) = Some account"
    and locked: "reserve_locked input cust rt ri key env account s = (Inr res, s')"
    using False by (auto simp: bind_eq_Inr split: option.splits)
  then obtain v s1 rows s2 where
    acc: "List.find (account_scope ?app cust ty env) (creditAccounts s) = Some account"
    and exp: "expireDueBucketsForAccount ?app (ca_id account) env (clock s) s = (Inr v, s1)"
    and upd: "update_accounts (?P (ca_id account)) (move_to_reserved ?n (clock s)) s1 = (Inr rows, s2)"
    and rest: "(case first_row rows of None \<Rightarrow> return Insufficient
        | Some u \<Rightarrow> reserve_commit input cust rt ri key env (clock s) u) s2 = (Inr res, s')"
    by (auto simp: reserve_locked_def bind_eq_Inr)
  have off0: "off (ca_id account) 0 0 0 s"
    using inv by (simp add: credit_inv_off [of s "ca_id account"])
  from expireDueBucketsForAccount_off [OF exp off0] obtain f where
    o1: "off (ca_id account) 0 0 0 s1" and f: "creditAccounts s1 = map f (creditAccounts s)" "\<forall>a. same_identity a (f a)"
    by blast
  have ref1: "refers s1 (ca_id account) ?app cust env"
    using find_SomeD [OF acc] refers_scope refers_same_identity [OF f] by blast
  have "off (ca_id account) 0 0 0 s'"
  proof (cases "first_row rows")
    case None
    then show ?thesis using o1 upd rest by (auto dest: update_no_row)
  next
    case (Some u)
    note u = Some
    have co: "reserve_commit input cust rt ri key env (clock s) u s2 = (Inr res, s')"
      using rest u by simp
    have P: "\<And>a. ?P (ca_id account) a \<Longrightarrow> ca_id a = ca_id account" by simp
    note a1 = off_update_account [OF o1 upd u P balance_updates_identity(2), where da = "- ?n" and dr = ?n]
    have o2: "off (ca_id account) 0 0 (- ?n) s2" using a1(1) by simp
    have s2: "s2 = creditAccounts_update (update_where (\<lambda>a. ca_id a = ca_id account) (move_to_reserved ?n (clock s))) s1"
      by (rule a1(2)) simp_all
    have uid: "ca_id u = ca_id account" by (rule a1(4)) simp_all
    have "refers s2 (ca_id account) ?app cust env"
      unfolding s2 using ref1 by (simp add: refers_update_accounts)
    then show ?thesis using reserve_commit_off [OF co] o2 uid by simp
  qed
  then show ?thesis by (simp add: credit_inv_off [symmetric])
qed

lemma keeps_reserveCredits: "keeps credit_inv (reserveCredits input)"
proof -
  have T: "keeps credit_inv (transaction (reserve_tx input ty rt ri key env))" for ty rt ri key env
    by (rule keeps_committed) (rule reserve_tx_inv)
  show ?thesis
    unfolding reserveCredits_def Let_def
    by (intro keeps_bind validations_keep T) (auto split: reserve_outcome.split)
qed

text \<open>The two settlements: what a locked, active reservation goes through.\<close>

lemma lockReservation_eq_Inr:
  "lockReservation app i env s = (Inr q, s') \<longleftrightarrow> s' = s \<and> cr_environment q = env
    \<and> List.find (\<lambda>r. cr_id r = i \<and> cr_applicationId r = app) (creditReservations s) = Some q"
  by (auto simp: lockReservation_def bind_eq_Inr)

lemma settle_off:
  assumes off: "off i 0 0 0 s" and q: "q \<in> set (creditReservations s)" "cr_creditAccountId q = i"
    "cr_status q = ResActive"
    and upd: "update_accounts (\<lambda>a. ca_id a = i \<and> ca_reservedBalance a \<ge> cr_reservedAmount q)
        (settle_balances back (cr_reservedAmount q) now) s = (Inr rows, s1)"
    and u: "first_row rows = Some u"
    and f: "\<And>y. cr_id (f y) = cr_id y \<and> reservation_key (f y) = reservation_key y
        \<and> cr_creditAccountId (f y) = cr_creditAccountId y
        \<and> cr_applicationId (f y) = cr_applicationId y
        \<and> cr_applicationCustomerId (f y) = cr_applicationCustomerId y
        \<and> cr_environment (f y) = cr_environment y" "cr_status (f q) \<noteq> ResActive"
    and res: "update_reservations (\<lambda>y. cr_id y = cr_id q) f s1 = (Inr rows', s2)"
  shows "off i (cr_reservedAmount q - back) (cr_reservedAmount q - back) 0 s2" and "ca_id u = i"
    and "refers s2 j p c e = refers s j p c e" and "rows' = [f q]"
proof -
  let ?n = "cr_reservedAmount q"
  have P: "\<And>a. ca_id a = i \<and> ca_reservedBalance a \<ge> ?n \<Longrightarrow> ca_id a = i" by simp
  note a1 = off_update_account [OF off upd u P balance_updates_identity(3), where da = "back" and dr = "- ?n"]
  have o1: "off i (?n - back) (?n - back) ?n s1" using a1(1) by (simp add: algebra_simps)
  have s1: "s1 = creditAccounts_update (update_where (\<lambda>a. ca_id a = i) (settle_balances back ?n now)) s"
    by (rule a1(2)) simp_all
  show "ca_id u = i" by (rule a1(4)) simp_all
  have q1: "q \<in> set (creditReservations s1)" using q s1 by simp
  note rs = off_settle_reservation [OF o1 q1 q(2) q(3) f(1) f(2) res]
  show "off i (?n - back) (?n - back) 0 s2" using rs(1) by simp
  show "rows' = [f q]" by (rule rs(3))
  show "refers s2 j p c e = refers s j p c e"
    unfolding rs(2) s1 by (simp add: refers_update_accounts)
qed

lemma reservation_refers:
  "off i b l r s \<Longrightarrow> q \<in> set (creditReservations s) \<Longrightarrow>
   refers s (cr_creditAccountId q) (cr_applicationId q) (cr_applicationCustomerId q) (cr_environment q)"
  by (simp add: off_def reservations_ok_def)

text \<open>The statements of a capture and of a release that took effect.\<close>

lemma capture_steps:
  assumes run: "captureReservation input s = (r, s')" and change: "s' \<noteq> s"
  obtains q rows s1 u rows' s2 v s3 txi t where "valid_amount (si_amount input)"
    and "List.find (\<lambda>r. cr_id r = si_reservationId input \<and> cr_applicationId r = si_applicationId input)
        (creditReservations s) = Some q"
    and "cr_status q = ResActive" and "cr_environment q = resolveCreditEnvironment (si_environment input)"
    and "update_accounts (\<lambda>a. ca_id a = cr_creditAccountId q \<and> ca_reservedBalance a \<ge> cr_reservedAmount q)
        (settle_balances (cr_reservedAmount q - si_amount input) (cr_reservedAmount q) (clock s)) s = (Inr rows, s1)"
    and "first_row rows = Some u"
    and "update_reservations (\<lambda>y. cr_id y = cr_id q)
        (\<lambda>r. r\<lparr>cr_status := ResCaptured, cr_capturedAmount := si_amount input, cr_updatedAt := clock s\<rparr>) s1 = (Inr rows', s2)"
    and "consumeBuckets (cr_creditAccountId q) (si_amount input) True s2 = (Inr v, s3)"
    and "appendTransaction txi s3 = (Inr t, s')"
    and "ti_applicationId txi = si_applicationId input" "ti_applicationCustomerId txi = cr_applicationCustomerId q"
      "ti_creditAccountId txi = ca_id u" "ti_type txi = CaptureUsage" "ti_amount txi = - si_amount input"
      "ti_environment txi = Some (resolveCreditEnvironment (si_environment input))"
    and "si_amount input \<le> cr_reservedAmount q" and "\<exists>p. first_row rows' = Some p \<and> r = Inr (Settled p t)"
  using run change
  by (cases r) (auto simp: captureReservation_def bind_eq_Inr transaction_eq_Inl Let_def lockReservation_eq_Inr not_less
    split: option.splits if_splits)

lemma release_steps:
  assumes run: "releaseReservation input s = (r, s')" and change: "s' \<noteq> s"
  obtains q rows s1 u rows' s2 txi t where
    "List.find (\<lambda>r. cr_id r = si_reservationId input \<and> cr_applicationId r = si_applicationId input)
        (creditReservations s) = Some q"
    and "cr_status q = ResActive" and "cr_environment q = resolveCreditEnvironment (si_environment input)"
    and "update_accounts (\<lambda>a. ca_id a = cr_creditAccountId q \<and> ca_reservedBalance a \<ge> cr_reservedAmount q)
        (settle_balances (cr_reservedAmount q) (cr_reservedAmount q) (clock s)) s = (Inr rows, s1)"
    and "first_row rows = Some u"
    and "update_reservations (\<lambda>y. cr_id y = cr_id q) (\<lambda>r. r\<lparr>cr_status := ResReleased, cr_updatedAt := clock s\<rparr>) s1
        = (Inr rows', s2)"
    and "appendTransaction txi s2 = (Inr t, s')"
    and "ti_applicationId txi = si_applicationId input" "ti_applicationCustomerId txi = cr_applicationCustomerId q"
      "ti_creditAccountId txi = ca_id u" "ti_type txi = ReleaseUsage"
      "ti_environment txi = Some (resolveCreditEnvironment (si_environment input))"
    and "\<exists>p. first_row rows' = Some p \<and> r = Inr (Settled p t)"
  using run change
  by (cases r) (auto simp: releaseReservation_def bind_eq_Inr transaction_eq_Inl Let_def lockReservation_eq_Inr
    split: option.splits if_splits)

lemma captureReservation_inv:
  assumes run: "captureReservation input s = (r, s')" and inv: "credit_inv s"
  shows "credit_inv s'"
proof (cases "s' = s")
  case True
  with inv show ?thesis by simp
next
  case False
  let ?app = "si_applicationId input" and ?env = "resolveCreditEnvironment (si_environment input)"
    and ?n = "si_amount input"
  let ?f = "\<lambda>now r. r\<lparr>cr_status := ResCaptured, cr_capturedAmount := ?n, cr_updatedAt := now\<rparr>"
  obtain q rows s1 u rows' s2 v s3 txi t where amount: "valid_amount ?n"
    and lock: "List.find (\<lambda>r. cr_id r = si_reservationId input \<and> cr_applicationId r = ?app) (creditReservations s) = Some q"
    and active: "cr_status q = ResActive" and env: "cr_environment q = ?env"
    and upd: "update_accounts (\<lambda>a. ca_id a = cr_creditAccountId q \<and> ca_reservedBalance a \<ge> cr_reservedAmount q)
        (settle_balances (cr_reservedAmount q - ?n) (cr_reservedAmount q) (clock s)) s = (Inr rows, s1)"
    and u: "first_row rows = Some u"
    and res: "update_reservations (\<lambda>y. cr_id y = cr_id q) (?f (clock s)) s1 = (Inr rows', s2)"
    and co: "consumeBuckets (cr_creditAccountId q) ?n True s2 = (Inr v, s3)"
    and tx: "appendTransaction txi s3 = (Inr t, s')"
    and txi: "ti_applicationId txi = ?app" "ti_applicationCustomerId txi = cr_applicationCustomerId q"
      "ti_creditAccountId txi = ca_id u" "ti_type txi = CaptureUsage" "ti_amount txi = - ?n"
      "ti_environment txi = Some ?env"
    by (rule capture_steps [OF run False], rule that)
  have q: "q \<in> set (creditReservations s)" "cr_applicationId q = ?app"
    using find_SomeD [OF lock] by auto
  have off0: "off (cr_creditAccountId q) 0 0 0 s"
    using inv by (simp add: credit_inv_off [of s "cr_creditAccountId q"])
  have ref: "refers s (cr_creditAccountId q) ?app (cr_applicationCustomerId q) ?env"
    using reservation_refers [OF off0 q(1)] q env by simp
  note se = settle_off [OF off0 q(1) refl active upd u _ _ res]
  have o2: "off (cr_creditAccountId q) ?n ?n 0 s2" and uid: "ca_id u = cr_creditAccountId q"
    and r2: "refers s2 (cr_creditAccountId q) ?app (cr_applicationCustomerId q) ?env"
    using se(1-3) ref by (simp_all add: reservation_key_def)
  have pos: "0 < ?n" using amount by (simp add: valid_amount_def)
  from consumeBuckets_off [OF co o2 pos] obtain g where
    o3: "off (cr_creditAccountId q) (?n - ?n) ?n 0 s3" and s3: "s3 = creditBuckets_update g s2" by blast
  have ti: "ti_creditAccountId txi = cr_creditAccountId q" using uid txi by simp
  have ref3: "refers s3 (cr_creditAccountId q) (ti_applicationId txi) (ti_applicationCustomerId txi)
      (resolveCreditEnvironment (ti_environment txi))"
    using r2 txi by (simp add: s3)
  have "off (cr_creditAccountId q) 0 0 0 s'"
    using appendTransaction_off(1) [OF tx o3 ref3 ti] txi by simp
  then show ?thesis by (simp add: credit_inv_off [symmetric])
qed

lemma releaseReservation_inv:
  assumes run: "releaseReservation input s = (r, s')" and inv: "credit_inv s"
  shows "credit_inv s'"
proof (cases "s' = s")
  case True
  with inv show ?thesis by simp
next
  case False
  let ?app = "si_applicationId input" and ?env = "resolveCreditEnvironment (si_environment input)"
  let ?f = "\<lambda>now r. r\<lparr>cr_status := ResReleased, cr_updatedAt := now\<rparr>"
  obtain q rows s1 u rows' s2 txi t where
    lock: "List.find (\<lambda>r. cr_id r = si_reservationId input \<and> cr_applicationId r = ?app) (creditReservations s) = Some q"
    and active: "cr_status q = ResActive" and env: "cr_environment q = ?env"
    and upd: "update_accounts (\<lambda>a. ca_id a = cr_creditAccountId q \<and> ca_reservedBalance a \<ge> cr_reservedAmount q)
        (settle_balances (cr_reservedAmount q) (cr_reservedAmount q) (clock s)) s = (Inr rows, s1)"
    and u: "first_row rows = Some u"
    and res: "update_reservations (\<lambda>y. cr_id y = cr_id q) (?f (clock s)) s1 = (Inr rows', s2)"
    and tx: "appendTransaction txi s2 = (Inr t, s')"
    and txi: "ti_applicationId txi = ?app" "ti_applicationCustomerId txi = cr_applicationCustomerId q"
      "ti_creditAccountId txi = ca_id u" "ti_type txi = ReleaseUsage" "ti_environment txi = Some ?env"
    by (rule release_steps [OF run False], rule that)
  have q: "q \<in> set (creditReservations s)" "cr_applicationId q = ?app"
    using find_SomeD [OF lock] by auto
  have off0: "off (cr_creditAccountId q) 0 0 0 s"
    using inv by (simp add: credit_inv_off [of s "cr_creditAccountId q"])
  have ref: "refers s (cr_creditAccountId q) ?app (cr_applicationCustomerId q) ?env"
    using reservation_refers [OF off0 q(1)] q env by simp
  note se = settle_off [OF off0 q(1) refl active upd u _ _ res]
  have o2: "off (cr_creditAccountId q) 0 0 0 s2" and uid: "ca_id u = cr_creditAccountId q"
    and r2: "refers s2 (cr_creditAccountId q) ?app (cr_applicationCustomerId q) ?env"
    using se(1-3) ref by (simp_all add: reservation_key_def)
  have ti: "ti_creditAccountId txi = cr_creditAccountId q" using uid txi by simp
  have ref3: "refers s2 (cr_creditAccountId q) (ti_applicationId txi) (ti_applicationCustomerId txi)
      (resolveCreditEnvironment (ti_environment txi))"
    using r2 txi by simp
  have "off (cr_creditAccountId q) 0 0 0 s'"
    using appendTransaction_off(1) [OF tx o2 ref3 ti] txi by simp
  then show ?thesis by (simp add: credit_inv_off [symmetric])
qed

subsection \<open>Revocation\<close>

lemma update_buckets_cong:
  assumes "\<And>b. b \<in> set (creditBuckets s) \<Longrightarrow> P b \<Longrightarrow> f b = g b"
  shows "update_buckets P f s = update_buckets P g s"
proof -
  have "map f (filter P (creditBuckets s)) = map g (filter P (creditBuckets s))"
    using assms by simp
  moreover have "update_where P f (creditBuckets s) = update_where P g (creditBuckets s)"
    using assms by (rule update_where_cong)
  then have "creditBuckets_update (update_where P f) s = creditBuckets_update (update_where P g) s"
    by (metis db.surjective db.update_convs(7))
  ultimately show ?thesis unfolding update_buckets_def update_rows_def by (simp only:)
qed

text \<open>A joined row agrees with the stored bucket it was read from.\<close>

definition locked_ok :: "string \<Rightarrow> environment \<Rightarrow> db \<Rightarrow> locked_bucket \<Rightarrow> bool" where
  "locked_ok app env s l \<longleftrightarrow> (\<exists>x \<in> set (creditBuckets s). cb_id x = lb_id l \<and> cb_status x = BktActive
     \<and> cb_creditAccountId x = lb_creditAccountId l \<and> cb_remainingAmount x = lb_remaining l)
     \<and> refers s (lb_creditAccountId l) app (lb_applicationCustomerId l) env"

lemma revoke_step_inv:
  assumes run: "revoke_step input env av acc l s = (Inr res, s')" and inv: "credit_inv s"
    and ok: "locked_ok (vi_applicationId input) env s l"
  shows "credit_inv s' \<and> (\<forall>m. locked_ok (vi_applicationId input) env s m \<longrightarrow> lb_id m \<noteq> lb_id l
    \<longrightarrow> locked_ok (vi_applicationId input) env s' m)"
proof (cases "s' = s")
  case True
  with inv show ?thesis by simp
next
  case False
  let ?i = "lb_creditAccountId l"
  let ?g = "\<lambda>tk now b. b\<lparr>cb_remainingAmount := cb_remainingAmount b - tk,
      cb_status := (if tk = lb_remaining l then BktReversed else BktActive), cb_updatedAt := now\<rparr>"
  obtain taken revoked where acc: "acc = (taken, revoked)" by (cases acc)
  define tk where tk: "tk = min (lb_remaining l) (map_get_or av ?i 0 - map_get_or taken ?i 0)"
  obtain hit s1 rows s2 row t where
    bkt: "update_buckets (\<lambda>b. cb_id b = lb_id l) (?g tk (clock s)) s = (Inr hit, s1)"
    and upd: "update_accounts (\<lambda>a. ca_id a = ?i) (add_available (- tk) (clock s)) s1 = (Inr rows, s2)"
    and ins: "insert_transaction row (s2\<lparr>uuids := Suc (uuids s2)\<rparr>) = (Inr t, s')"
    and row: "ct_applicationId row = vi_applicationId input"
      "ct_applicationCustomerId row = lb_applicationCustomerId l" "ct_environment row = env"
      "ct_creditAccountId row = ?i" "ct_type row = GrantRevoked" "ct_amount row = - tk"
    using run False by (auto simp: revoke_step_def acc bind_eq_Inr Let_def tk [symmetric] split: if_splits)
  obtain x where x: "x \<in> set (creditBuckets s)" "cb_id x = lb_id l" "cb_creditAccountId x = ?i"
      "cb_status x = BktActive" "cb_remainingAmount x = lb_remaining l"
    and ref: "refers s ?i (vi_applicationId input) (lb_applicationCustomerId l) env"
    using ok by (auto simp: locked_ok_def)
  have off0: "off ?i 0 0 0 s" using inv by (simp add: credit_inv_off [of s ?i])
  have dist: "distinct (map cb_id (creditBuckets s))" using off0 by (simp add: off_def buckets_ok_def)
  let ?m = "cb_remainingAmount x - tk"
  have same: "?g tk (clock s) b = set_remaining BktReversed ?m (clock s) b"
    if "b \<in> set (creditBuckets s)" "cb_id b = lb_id l" for b
  proof -
    have "b = x" using distinct_key_eq [OF dist that(1) x(1)] that(2) x(2) by simp
    then show ?thesis using x(5) by (auto simp: set_remaining_def)
  qed
  have bkt': "update_buckets (\<lambda>y. cb_id y = cb_id x) (set_remaining BktReversed ?m (clock s)) s = (Inr hit, s1)"
    using bkt update_buckets_cong [OF same, of s "\<lambda>b. cb_id b = lb_id l"] x(2) by simp
  note b1 = off_set_remaining [OF off0 x(1,3,4) _ bkt']
  have o1: "off ?i (- tk) 0 0 s1" using b1(1) by simp
  have s1: "s1 = creditBuckets_update (update_where (\<lambda>y. cb_id y = cb_id x) (set_remaining BktReversed ?m (clock s))) s"
    by (rule b1(2)) simp
  have "\<exists>a \<in> set (creditAccounts s1). ca_id a = ?i" using ref s1 by (auto simp: refers_def)
  then have "rows \<noteq> []" using upd by (auto simp: update_accounts_def update_rows_eq_Inr filter_empty_conv)
  then obtain u where u: "first_row rows = Some u" by (cases rows) auto
  have P: "\<And>a. ca_id a = ?i \<Longrightarrow> ca_id a = ?i" by assumption
  note a1 = off_add_available [OF o1 upd u P]
  have o2: "off ?i 0 tk 0 (s2\<lparr>uuids := Suc (uuids s2)\<rparr>)" using a1(1) by simp
  have refs2: "refers s2 j p c e = refers s j p c e" for j p c e using a1(5) s1 by simp
  have ref2: "refers (s2\<lparr>uuids := Suc (uuids s2)\<rparr>) ?i (ct_applicationId row) (ct_applicationCustomerId row) (ct_environment row)"
    using ref row refs2 by simp
  note t1 = off_insert_transaction [OF o2 ins ref2 row(4)]
  have "off ?i 0 0 0 s'" using t1(1) row by (simp add: ledger_effect_def)
  then have inv': "credit_inv s'" by (simp add: credit_inv_off [symmetric])
  have bs: "creditBuckets s' = update_where (\<lambda>y. cb_id y = cb_id x) (set_remaining BktReversed ?m (clock s)) (creditBuckets s)"
    using t1(3) a1(3) s1 by simp
  have refs: "refers s' j p c e = refers s j p c e" for j p c e using t1(3) refs2 by simp
  have "locked_ok (vi_applicationId input) env s' m"
    if "locked_ok (vi_applicationId input) env s m" "lb_id m \<noteq> lb_id l" for m
    using that x(2) unfolding locked_ok_def refs bs
    by (force simp: set_update_where image_iff simp del: if_image_distrib)
  with inv' show ?thesis by blast
qed

lemma revoke_loop_inv:
  assumes "for_loop (revoke_step input env av) acc ls s = (Inr res, s')" and "credit_inv s"
    and "\<forall>l \<in> set ls. locked_ok (vi_applicationId input) env s l" and "distinct (map lb_id ls)"
  shows "credit_inv s'"
  using assms
proof (induction ls arbitrary: acc s)
  case Nil
  then show ?case by simp
next
  case (Cons l ls)
  then obtain acc' s1 where st: "revoke_step input env av acc l s = (Inr acc', s1)"
    and rest: "for_loop (revoke_step input env av) acc' ls s1 = (Inr res, s')"
    by (auto simp: bind_eq_Inr)
  have inv: "credit_inv s1 \<and> (\<forall>m. locked_ok (vi_applicationId input) env s m \<longrightarrow> lb_id m \<noteq> lb_id l
    \<longrightarrow> locked_ok (vi_applicationId input) env s1 m)"
    using revoke_step_inv [OF st] Cons.prems by simp
  have "\<forall>m \<in> set ls. locked_ok (vi_applicationId input) env s1 m"
  proof
    fix m assume "m \<in> set ls"
    moreover from this have "lb_id m \<noteq> lb_id l" using Cons.prems(4) by (auto simp: image_iff)
    ultimately show "locked_ok (vi_applicationId input) env s1 m" using inv Cons.prems(3) by simp
  qed
  then show ?case
    using Cons.IH [OF rest] inv Cons.prems(4) by simp
qed

lemma concat_singletons: "(\<And>b. b \<in> set bs \<Longrightarrow> f b = [h b]) \<Longrightarrow> concat (map f bs) = map h bs"
  by (induction bs) auto

lemma join_account_stored:
  assumes inv: "credit_inv s" and b: "b \<in> set (creditBuckets s)"
  shows "join_account (creditAccounts s) b = [hd (join_account (creditAccounts s) b)]"
    and "lb_id (hd (join_account (creditAccounts s) b)) = cb_id b"
    and "lb_creditAccountId (hd (join_account (creditAccounts s) b)) = cb_creditAccountId b"
    and "lb_remaining (hd (join_account (creditAccounts s) b)) = cb_remainingAmount b"
    and "refers s (cb_creditAccountId b) (cb_applicationId b)
        (lb_applicationCustomerId (hd (join_account (creditAccounts s) b))) (cb_environment b)"
proof -
  obtain a where a: "a \<in> set (creditAccounts s)" "ca_id a = cb_creditAccountId b"
    and ref: "ca_applicationId a = cb_applicationId b" "ca_environment a = cb_environment b"
    using inv b by (auto simp: credit_inv_def off_def buckets_ok_def refers_def)
  have "distinct (map ca_id (creditAccounts s))"
    using inv by (simp add: credit_inv_def off_def accounts_ok_def)
  then have "filter (\<lambda>x. ca_id x = cb_creditAccountId b) (creditAccounts s) = [a]"
    using a by (rule filter_keyed)
  then have j: "join_account (creditAccounts s) b = [\<lparr>lb_id = cb_id b, lb_creditAccountId = cb_creditAccountId b,
      lb_remaining = cb_remainingAmount b, lb_creditType = ca_creditType a,
      lb_applicationCustomerId = ca_applicationCustomerId a\<rparr>]"
    by (simp add: join_account_def)
  then show "join_account (creditAccounts s) b = [hd (join_account (creditAccounts s) b)]"
    and "lb_id (hd (join_account (creditAccounts s) b)) = cb_id b"
    and "lb_creditAccountId (hd (join_account (creditAccounts s) b)) = cb_creditAccountId b"
    and "lb_remaining (hd (join_account (creditAccounts s) b)) = cb_remainingAmount b"
    by simp_all
  show "refers s (cb_creditAccountId b) (cb_applicationId b)
      (lb_applicationCustomerId (hd (join_account (creditAccounts s) b))) (cb_environment b)"
    using a ref by (auto simp: j refers_def)
qed

lemma lock_buckets_ok:
  assumes inv: "credit_inv s"
    and ids: "\<forall>i \<in> set ids. \<exists>b \<in> set (creditBuckets s). cb_id b = i \<and> cb_applicationId b = app \<and> cb_environment b = env"
  shows "(\<forall>l \<in> set (lock_buckets ids s). locked_ok app env s l) \<and> distinct (map lb_id (lock_buckets ids s))"
proof -
  let ?bs = "sort_key consumption_key (filter (\<lambda>b. cb_id b \<in> set ids \<and> cb_status b = BktActive
      \<and> cb_remainingAmount b > 0) (creditBuckets s))"
  let ?h = "\<lambda>b. hd (join_account (creditAccounts s) b)"
  have mem: "b \<in> set (creditBuckets s)" if "b \<in> set ?bs" for b using that by simp
  have lk: "lock_buckets ids s = map ?h ?bs"
    unfolding lock_buckets_def by (rule concat_singletons) (rule join_account_stored(1) [OF inv mem])
  have dist: "distinct (map cb_id (creditBuckets s))"
    using inv by (simp add: credit_inv_def off_def buckets_ok_def)
  have "map lb_id (map ?h ?bs) = map cb_id ?bs"
    using join_account_stored(2) [OF inv mem] by simp
  moreover have "distinct (map cb_id ?bs)" using dist by (simp add: distinct_map inj_on_def)
  ultimately have d: "distinct (map lb_id (lock_buckets ids s))" by (simp only: lk)
  have "locked_ok app env s (?h b)" if b: "b \<in> set ?bs" for b
  proof -
    have "cb_id b \<in> set ids" "cb_status b = BktActive" using b by auto
    moreover from this obtain b' where "b' \<in> set (creditBuckets s)" "cb_id b' = cb_id b"
      "cb_applicationId b' = app" "cb_environment b' = env" using ids by blast
    then have "cb_applicationId b = app \<and> cb_environment b = env"
      using distinct_key_eq [OF dist _ mem [OF b]] by blast
    ultimately show ?thesis
      using join_account_stored [OF inv mem [OF b]] mem [OF b] unfolding locked_ok_def by auto
  qed
  then have "\<forall>l \<in> set (lock_buckets ids s). locked_ok app env s l" unfolding lk by auto
  with d show ?thesis by blast
qed

lemma revokeInTransaction_inv:
  assumes run: "revokeSubscriptionCreditsInTransaction input s = (Inr res, s')" and inv: "credit_inv s"
  shows "credit_inv s'"
proof -
  let ?env = "case vi_environment input of None \<Rightarrow> Test | Some e \<Rightarrow> e"
  let ?rows = "sort_key consumption_key (filter (revocable (vi_applicationId input) ?env (vi_subscriptionId input)) (creditBuckets s))"
  let ?ids = "map fst (map (\<lambda>b. (cb_id b, cb_creditAccountId b)) ?rows)"
  have ids: "\<forall>i \<in> set ?ids. \<exists>b \<in> set (creditBuckets s). cb_id b = i
      \<and> cb_applicationId b = vi_applicationId input \<and> cb_environment b = ?env"
    by (auto simp: revocable_def)
  consider "s' = s" | av acc where
      "for_loop (revoke_step input ?env av) ([], []) (lock_buckets ?ids s) s = (Inr acc, s')"
    using run by (auto simp: revokeSubscriptionCreditsInTransaction_def bind_eq_Inr Let_def split: if_splits)
  then show ?thesis
  proof cases
    case 1
    with inv show ?thesis by simp
  next
    case 2
    show ?thesis
      using revoke_loop_inv [OF 2 inv] lock_buckets_ok [OF inv ids] by blast
  qed
qed

lemma keeps_revoke: "keeps credit_inv (revokeSubscriptionCredits input)"
  unfolding revokeSubscriptionCredits_def
  by (rule keeps_committed) (rule revokeInTransaction_inv)

subsection \<open>Commerce grants\<close>

lemma sum_quantities_state: "sum_quantities q items s = (Inr r, s') \<Longrightarrow> s' = s"
  by (induction items arbitrary: q) (auto simp: Let_def split: if_splits)

lemma sum_amounts_state: "sum_amounts q m cs s = (Inr r, s') \<Longrightarrow> s' = s"
  by (induction cs arbitrary: m) (auto simp: Let_def split: if_splits option.splits)

lemma for_loop_keeps_ok:
  assumes "for_loop f acc xs s = (Inr r, s')" and "P s"
    and "\<And>acc x s a s'. x \<in> set xs \<Longrightarrow> f acc x s = (Inr a, s') \<Longrightarrow> P s \<Longrightarrow> P s'"
  shows "P s'"
  using assms
proof (induction xs arbitrary: acc s)
  case Nil
  then show ?case by simp
next
  case (Cons x xs)
  from Cons.prems(1) obtain a s1 where st: "f acc x s = (Inr a, s1)" "for_loop f a xs s1 = (Inr r, s')"
    by (auto simp: bind_eq_Inr)
  have "P s1" using Cons.prems(3) [OF _ st(1)] Cons.prems(2) by simp
  with Cons.IH [OF st(2)] show ?case by (meson Cons.prems(3) list.set_intros(2))
qed

lemma grantConfigured_inv:
  assumes run: "grantConfiguredCreditsInTransaction input s = (Inr res, s')" and inv: "credit_inv s"
    and ty: "is_grant_tx (cg_transactionType input)"
  shows "credit_inv s'"
proof (cases "cg_productItems input = []")
  case True
  with run inv show ?thesis by (simp add: grantConfiguredCreditsInTransaction_def)
next
  case False
  let ?body = "\<lambda>results (creditType, amount). if amount \<le> 0 then return results
          else bind (grantCreditsInTransaction (configured_grant input creditType amount)) (\<lambda>r. return (results @ [r]))"
  obtain amounts where loop: "for_loop ?body [] amounts s = (Inr res, s')"
    using run False
    by (auto simp: grantConfiguredCreditsInTransaction_def bind_eq_Inr dest!: sum_quantities_state sum_amounts_state)
  show ?thesis
    using loop inv
  proof (rule for_loop_keeps_ok)
    fix acc x s a s'
    assume st: "?body acc x s = (Inr a, s')" and i: "credit_inv s"
    show "credit_inv s'"
      using st i ty grantCreditsInTransaction_inv [of _ s _ s']
      by (cases x) (fastforce simp: bind_eq_Inr configured_grant_def split: if_splits)
  qed
qed

end
