(* ===== verification/Idempotency.thy ===== *)
theory Idempotency
  imports Schema
begin

text \<open>
  Exactly-once mutations. The locale \<open>keyed_mutation\<close> is the contract a client of an
  idempotency key relies on: once a request has succeeded, the same request succeeds again at
  every later state with the stored answer and leaves the state as good as unchanged
  (\<open>quiet\<close>: equal, or equal up to the fresh identifiers it drew). The locale
  \<open>stored_answer\<close> says how the modules keep that contract: a success leaves a row under the
  key that matches the request, later states still find it, and a matching row is the answer.
  They are interpreted for the credit, entitlement and usage operations.
\<close>

subsection \<open>The contract\<close>

locale keyed_mutation =
  fixes run :: "'i \<Rightarrow> ('s, 'r) prog" and later :: "'s \<Rightarrow> 's \<Rightarrow> bool"
    and ok :: "'i \<Rightarrow> 'r \<Rightarrow> bool" and replayed :: "'r \<Rightarrow> 'r \<Rightarrow> bool" and quiet :: "'s \<Rightarrow> 's \<Rightarrow> bool"
  assumes later_refl: "later s s"
    and replay: "ok i r \<Longrightarrow> run i s = (Inr r, s') \<Longrightarrow> later s' t
      \<Longrightarrow> \<exists>r' t'. run i t = (Inr r', t') \<and> quiet t t' \<and> replayed r r'"
    and quiet_refl: "quiet s s"
    and quiet_trans: "quiet s t \<Longrightarrow> quiet t u \<Longrightarrow> quiet s u"
    and quiet_later: "later s t \<Longrightarrow> quiet t u \<Longrightarrow> later s u"
begin

lemma never_applied_twice: "ok i r \<Longrightarrow> run i s = (Inr r, s') \<Longrightarrow> later s' t \<Longrightarrow> quiet t (snd (run i t))"
  using replay by fastforce

text \<open>Any number of retries of a succeeded request leaves what the first run left.\<close>

lemma retries:
  assumes "ok i r" and "run i s = (Inr r, s')" and "later s' t"
  shows "quiet t (snd (for_loop (\<lambda>n _. bind (run i) (\<lambda>_. return (Suc n))) m (replicate k ()) t))"
  using assms(3)
proof (induction k arbitrary: m t)
  case 0
  then show ?case by (simp add: quiet_refl)
next
  case (Suc k)
  obtain r' t' where t': "run i t = (Inr r', t')" "quiet t t'"
    using replay [OF assms(1,2) Suc.prems] by blast
  let ?loop = "\<lambda>m xs. for_loop (\<lambda>n _. bind (run i) (\<lambda>_. return (Suc n))) m xs"
  have eq: "?loop m (replicate (Suc k) ()) t = ?loop (Suc m) (replicate k ()) t'"
    using t'(1) by simp
  have "quiet t' (snd (?loop (Suc m) (replicate k ()) t'))"
    using Suc.IH quiet_later [OF Suc.prems t'(2)] .
  then show ?case unfolding eq by (rule quiet_trans [OF t'(2)])
qed

end

text \<open>A batch of keyed mutations, run one after the other, is itself replayed quietly.\<close>

definition batch :: "('i \<Rightarrow> ('s, 'r) prog) \<Rightarrow> 'r list \<Rightarrow> 'i list \<Rightarrow> ('s, 'r list) prog" where
  "batch run = for_loop (\<lambda>rs i. bind (run i) (\<lambda>r. return (rs @ [r])))"

locale keyed_batch = keyed_mutation run later ok replayed quiet
  for run :: "'i \<Rightarrow> ('s, 'r) prog" and later ok replayed quiet +
  assumes run_later: "run i s = (x, s') \<Longrightarrow> later s s'"
    and later_trans: "later s t \<Longrightarrow> later t u \<Longrightarrow> later s u"
    and always_ok: "ok i r"
begin

lemma batch_later: "batch run acc is s = (r, s') \<Longrightarrow> later s s'"
proof (induction "is" arbitrary: acc s)
  case Nil
  then show ?case by (auto simp: batch_def intro: later_refl)
next
  case (Cons i "is")
  then show ?case
    by (auto simp: batch_def bind_def split: prod.splits sum.splits dest!: run_later intro: later_trans)
qed

lemma replay_batch:
  assumes "batch run acc is s = (Inr rs, s')" and "later s' t"
  shows "\<exists>rs' t'. batch run acc' is t = (Inr (acc' @ rs'), t') \<and> quiet t t' \<and> list_all2 replayed (drop (length acc) rs) rs'"
  using assms
proof (induction "is" arbitrary: acc s acc' t)
  case Nil
  then show ?case by (auto simp: batch_def intro: quiet_refl)
next
  case (Cons i "is")
  obtain r s1 where r: "run i s = (Inr r, s1)" and rest: "batch run (acc @ [r]) is s1 = (Inr rs, s')"
    using Cons.prems(1) by (auto simp: batch_def bind_eq_Inr)
  have later: "later s1 t" using batch_later [OF rest] Cons.prems(2) later_trans by blast
  obtain r' t1 where r': "run i t = (Inr r', t1)" "quiet t t1" "replayed r r'"
    using replay [OF always_ok r later] by blast
  obtain rs' t' where rs': "batch run (acc' @ [r']) is t1 = (Inr (acc' @ [r'] @ rs'), t')" "quiet t1 t'"
      "list_all2 replayed (drop (Suc (length acc)) rs) rs'"
    using Cons.IH [OF rest quiet_later [OF Cons.prems(2) r'(2)], of "acc' @ [r']"] by auto
  have "\<exists>zs. rs = acc @ r # zs"
  proof -
    have "\<exists>zs. qs = as @ zs" if "batch run as is u = (Inr qs, u')" for as qs u u'
      using that by (induction "is" arbitrary: as u) (fastforce simp: batch_def bind_eq_Inr)+
    from this [OF rest] show ?thesis by auto
  qed
  then obtain zs where zs: "rs = acc @ r # zs" by blast
  have "batch run acc' (i # is) t = (Inr (acc' @ r' # rs'), t')"
    using r'(1) rs'(1) by (simp add: batch_def)
  then show ?case
    using r'(2,3) rs'(2,3) zs by (auto intro: quiet_trans)
qed

end

subsection \<open>A stored row answers\<close>

locale stored_answer =
  fixes run :: "'i \<Rightarrow> ('s, 'r) prog" and later :: "'s \<Rightarrow> 's \<Rightarrow> bool" and ok :: "'i \<Rightarrow> 'r \<Rightarrow> bool"
    and found :: "'i \<Rightarrow> 's \<Rightarrow> 'row option" and matches :: "'i \<Rightarrow> 'row \<Rightarrow> bool"
    and same :: "'row \<Rightarrow> 'row \<Rightarrow> bool" and row_of :: "'r \<Rightarrow> 'row \<Rightarrow> bool" and answer :: "'row \<Rightarrow> 'r"
    and quiet :: "'s \<Rightarrow> 's \<Rightarrow> bool"
  assumes later_same: "later s s"
    and stores: "ok i r \<Longrightarrow> run i s = (Inr r, s') \<Longrightarrow> \<exists>x. found i s' = Some x \<and> matches i x \<and> row_of r x"
    and persists: "later s t \<Longrightarrow> found i s = Some x \<Longrightarrow> \<exists>y. found i t = Some y \<and> same x y"
    and still_matches: "matches i x \<Longrightarrow> same x y \<Longrightarrow> matches i y"
    and answers: "found i t = Some y \<Longrightarrow> matches i y \<Longrightarrow> \<exists>t'. run i t = (Inr (answer y), t') \<and> quiet t t'"
    and quiet_same: "quiet s s"
    and quiet_compose: "quiet s t \<Longrightarrow> quiet t u \<Longrightarrow> quiet s u"
    and quiet_is_later: "later s t \<Longrightarrow> quiet t u \<Longrightarrow> later s u"

sublocale stored_answer \<subseteq> keyed_mutation run later ok "\<lambda>r r'. \<exists>x y. row_of r x \<and> same x y \<and> r' = answer y" quiet
proof
  fix s t u
  show "later s s" by (rule later_same)
  show "quiet s s" by (rule quiet_same)
  show "quiet s t \<Longrightarrow> quiet t u \<Longrightarrow> quiet s u" by (rule quiet_compose)
  show "later s t \<Longrightarrow> quiet t u \<Longrightarrow> later s u" by (rule quiet_is_later)
next
  fix i r s s' t
  assume "ok i r" and "run i s = (Inr r, s')" and l: "later s' t"
  then obtain x where x: "found i s' = Some x" "matches i x" "row_of r x" using stores by blast
  obtain y where y: "found i t = Some y" "same x y" using persists [OF l x(1)] by blast
  then obtain t' where "run i t = (Inr (answer y), t')" "quiet t t'"
    using answers still_matches x(2) by blast
  then show "\<exists>r' t'. run i t = (Inr r', t') \<and> quiet t t' \<and> (\<exists>x y. row_of r x \<and> same x y \<and> r' = answer y)"
    using x(3) y(2) by blast
qed

text \<open>The only thing a quiet run may change: how many identifiers were drawn.\<close>

definition only_ids :: "db \<Rightarrow> db \<Rightarrow> bool" where
  "only_ids s t \<longleftrightarrow> t = s\<lparr>uuids := uuids t\<rparr>"

lemma only_ids_refl [simp]: "only_ids s s"
  by (simp add: only_ids_def)

lemma only_ids_drawn [simp]: "only_ids s (s\<lparr>uuids := n\<rparr>)"
  by (simp add: only_ids_def)

lemma only_ids_trans: "only_ids s t \<Longrightarrow> only_ids t u \<Longrightarrow> only_ids s u"
  by (cases s; cases t; cases u) (simp add: only_ids_def)

end
