(* ===== verification/Frames.thy ===== *)
theory Frames
  imports Idempotency
begin

text \<open>
  What an operation leaves alone. A frame is a reflexive and transitive relation between the
  state before and after; a program honours it when it relates the two whether the program
  returns or throws. The locale \<open>frame\<close> composes it along the statement combinators; the
  theories of the components extend it with their tables' statements. \<open>table_kept\<close> is the
  frame of one table: its rows stay in place, related by what may change of a row, and new
  rows are appended.
\<close>

subsection \<open>Frames and the statement combinators\<close>

definition honours :: "('s \<Rightarrow> 's \<Rightarrow> bool) \<Rightarrow> ('s, 'a) prog \<Rightarrow> bool" where
  "honours R m \<longleftrightarrow> (\<forall>s. R s (snd (m s)))"

lemma honoursD: "honours R m \<Longrightarrow> m s = (r, s') \<Longrightarrow> R s s'"
  by (auto simp: honours_def dest: spec [where x = s])

locale frame =
  fixes R :: "'s \<Rightarrow> 's \<Rightarrow> bool"
  assumes refl: "R s s"
    and trans: "R s t \<Longrightarrow> R t u \<Longrightarrow> R s u"
begin

lemma pure [simp]:
  "honours R (return a)" "honours R (throw e)" "honours R (gets f)" "honours R (throw_if b e)"
  "honours R (require e x)" "honours R (Pair r)"
  using refl by (simp_all add: honours_def throw_if_apply require_apply split: option.splits)

lemma bind: "honours R m \<Longrightarrow> (\<And>a. honours R (f a)) \<Longrightarrow> honours R (bind m f)"
  unfolding honours_def JsRuntime.bind_def
  by (auto split: prod.splits sum.splits) (metis snd_conv trans)+

lemma transaction: "honours R m \<Longrightarrow> honours R (transaction m)"
  using refl unfolding honours_def JsRuntime.transaction_def
  by (auto split: prod.splits sum.splits) (metis snd_conv)+

lemma for_loop: "(\<And>acc x. honours R (f acc x)) \<Longrightarrow> honours R (for_loop f acc xs)"
  by (induction xs arbitrary: acc) (auto intro: bind)

lemma case_opt: "honours R m \<Longrightarrow> (\<And>a. honours R (f a)) \<Longrightarrow> honours R (case x of None \<Rightarrow> m | Some a \<Rightarrow> f a)"
  by (cases x) auto

lemma cond: "honours R m \<Longrightarrow> honours R n \<Longrightarrow> honours R (if b then m else n)"
  by simp

lemmas compose = bind for_loop transaction case_opt cond

end

subsection \<open>Rows of a table are kept\<close>

definition table_kept :: "('r \<Rightarrow> 'r \<Rightarrow> bool) \<Rightarrow> 'r list \<Rightarrow> 'r list \<Rightarrow> bool" where
  "table_kept same xs ys \<longleftrightarrow> list_all2 same xs (take (length xs) ys)"

lemma table_kept_refl: "(\<And>x. same x x) \<Longrightarrow> table_kept same xs xs"
  by (simp add: table_kept_def list_all2_same)

lemma table_kept_append [simp]: "(\<And>x. same x x) \<Longrightarrow> table_kept same xs (xs @ ys)"
  by (simp add: table_kept_def list_all2_same)

lemma table_kept_update: "(\<And>x. same x x) \<Longrightarrow> (\<And>x. same x (f x)) \<Longrightarrow> table_kept same xs (update_where P f xs)"
  by (simp add: table_kept_def update_where_def list_all2_map2 list_all2_same)

lemma table_kept_update_where:
  "(\<And>x. same x x) \<Longrightarrow> (\<And>x. P x \<Longrightarrow> same x (f x)) \<Longrightarrow> table_kept same xs (update_where P f xs)"
  by (auto simp: table_kept_def update_where_def list_all2_map2 list_all2_same)

lemma table_kept_trans:
  assumes tr: "\<And>x y z. same x y \<Longrightarrow> same y z \<Longrightarrow> same x z"
    and xy: "table_kept same xs ys" and yz: "table_kept same ys zs"
  shows "table_kept same xs zs"
proof -
  have len: "length xs \<le> length ys" using list_all2_lengthD [OF xy [unfolded table_kept_def]] by simp
  have "list_all2 same (take (length xs) ys) (take (length xs) (take (length ys) zs))"
    using yz unfolding table_kept_def by (rule list_all2_takeI)
  with len have tl: "list_all2 same (take (length xs) ys) (take (length xs) zs)" by (simp add: min_def)
  show ?thesis
    unfolding table_kept_def
  proof (rule list_all2_all_nthI)
    show "length xs = length (take (length xs) zs)"
      using list_all2_lengthD [OF xy [unfolded table_kept_def]] list_all2_lengthD [OF tl] by simp
    fix n assume "n < length xs"
    then show "same (xs ! n) (take (length xs) zs ! n)"
      using list_all2_nthD [OF xy [unfolded table_kept_def], of n] list_all2_nthD2 [OF tl, of n]
        list_all2_lengthD [OF xy [unfolded table_kept_def]] list_all2_lengthD [OF tl] tr by simp
  qed
qed

lemma table_kept_find:
  assumes "table_kept same xs ys" and "List.find P xs = Some x" and P: "\<And>x y. same x y \<Longrightarrow> P y = P x"
  shows "\<exists>y. List.find P ys = Some y \<and> same x y"
proof -
  have "\<exists>y. List.find P zs = Some y \<and> same x y" if "list_all2 same xs zs" for zs
    using that assms(2) by (induction xs zs rule: list_all2_induct) (auto simp: P split: if_splits)
  then obtain y where "List.find P (take (length xs) ys) = Some y" "same x y"
    using assms(1) unfolding table_kept_def by blast
  moreover have "List.find P ys = (case List.find P (take (length xs) ys) of
      None \<Rightarrow> List.find P (drop (length xs) ys) | Some x \<Rightarrow> Some x)"
    by (metis append_take_drop_id find_append)
  ultimately show ?thesis by simp
qed

lemma table_kept_mem:
  "table_kept same xs ys \<Longrightarrow> x \<in> set xs \<Longrightarrow> \<exists>y \<in> set ys. same x y"
proof -
  assume k: "table_kept same xs ys" and x: "x \<in> set xs"
  have "\<exists>y \<in> set zs. same x y" if "list_all2 same xs zs" for zs
    using that x by (induction xs zs rule: list_all2_induct) auto
  then show ?thesis using k unfolding table_kept_def by (meson in_set_takeD)
qed

lemma insert_row_kept:
  assumes "\<And>s. R s (up (\<lambda>rs. rs @ [r]) s)" and "\<And>s. R s s"
  shows "honours R (insert_row table fits check clash fk rows up r)"
  using assms by (auto simp: honours_def insert_row_def)

lemma insert_or_ignore_kept:
  assumes "\<And>s. R s (up (\<lambda>rs. rs @ [r]) s)" and "\<And>s. R s s"
  shows "honours R (insert_or_ignore table fits check target clash fk rows up r)"
  using assms by (auto simp: honours_def insert_or_ignore_def)

lemma update_rows_kept:
  assumes "\<And>s. R s (up (update_where P f) s)" and "\<And>s. R s s"
  shows "honours R (update_rows table fits check rows up P f)"
  using assms by (auto simp: honours_def update_rows_def Let_def)

end
