(* ===== verification/CreditFrames.thy ===== *)
theory CreditFrames
  imports CreditCommerce Frames
begin

text \<open>
  Frames of the credit operations. The locale \<open>credit_frame\<close> extends \<open>frame\<close> with the
  credit tables' statements and concludes that every credit operation but the reservations'
  honours it, which \<open>reservation_frame\<close> adds. They are interpreted for three relations: the
  stored rows of every credit table keep their identifying columns and are never removed
  (\<open>rows_kept\<close>, which makes the ledger append-only), the tables of the other modules are
  untouched (\<open>others_untouched\<close>), and no reservation is written (\<open>same_reservations\<close>).
\<close>

subsection \<open>Credit frames\<close>

definition same_account :: "credit_account \<Rightarrow> credit_account \<Rightarrow> bool" where
  "same_account a b \<longleftrightarrow> ca_id b = ca_id a \<and> ca_applicationId b = ca_applicationId a
     \<and> ca_applicationCustomerId b = ca_applicationCustomerId a \<and> ca_creditType b = ca_creditType a
     \<and> ca_environment b = ca_environment a"

definition same_bucket :: "credit_bucket \<Rightarrow> credit_bucket \<Rightarrow> bool" where
  "same_bucket b c \<longleftrightarrow> c = b\<lparr>cb_remainingAmount := cb_remainingAmount c, cb_status := cb_status c,
     cb_updatedAt := cb_updatedAt c\<rparr>"

definition same_reservation :: "credit_reservation \<Rightarrow> credit_reservation \<Rightarrow> bool" where
  "same_reservation r q \<longleftrightarrow> q = r\<lparr>cr_capturedAmount := cr_capturedAmount q, cr_status := cr_status q,
     cr_updatedAt := cr_updatedAt q\<rparr>"

definition same_transaction :: "credit_transaction \<Rightarrow> credit_transaction \<Rightarrow> bool" where
  "same_transaction t u \<longleftrightarrow> u = t\<lparr>ct_availableAfter := ct_availableAfter u, ct_reservedAfter := ct_reservedAfter u\<rparr>"

locale credit_frame = frame R for R :: "db \<Rightarrow> db \<Rightarrow> bool" +
  assumes ids: "R s (s\<lparr>uuids := Suc (uuids s)\<rparr>)"
    and new_account: "honours R (insert_account a)"
    and new_transaction: "honours R (insert_transaction t)"
    and new_bucket: "honours R (insert_bucket b)"
    and accounts: "(\<And>a. same_account a (f a)) \<Longrightarrow> honours R (update_accounts P f)"
    and transactions: "(\<And>t. same_transaction t (g t)) \<Longrightarrow> honours R (update_transactions Q g)"
    and buckets: "(\<And>b. same_bucket b (k b)) \<Longrightarrow> honours R (update_buckets U k)"
begin

lemma fresh_id [simp]: "honours R (new_id p)"
  using ids by (simp add: honours_def)

lemma validations [simp]:
  "honours R (normalizeCreditType v)" "honours R (requireText v label)"
  "honours R (assertPositiveAmount n label)" "honours R (findTransaction app env key)"
  "honours R (findAccount app cust ty env)" "honours R (assertMatchingTransaction t tt n cust st si)"
  by (simp_all add: normalizeCreditType_def requireText_def assertPositiveAmount_def Let_def
      findTransaction_def findAccount_def assertMatchingTransaction_def)

lemma resolve_customer [simp]: "honours R (resolveApplicationCustomerId app ext)"
  unfolding resolveApplicationCustomerId_def by (intro bind) simp_all

lemma account_updates [simp]:
  "honours R (update_accounts P (add_available n now))"
  "honours R (update_accounts P (move_to_reserved n now))"
  "honours R (update_accounts P (settle_balances m n now))"
  "honours R (update_accounts P (reverse_available n now))"
  by (rule accounts, simp add: same_account_def add_available_def move_to_reserved_def
      settle_balances_def reverse_available_def)+

lemma fill [simp]: "honours R (update_transactions P (fill_balances a))"
  by (rule transactions) (simp add: same_transaction_def fill_balances_def)

lemma remaining [simp]: "honours R (update_buckets P (set_remaining st n now))"
  by (rule buckets) (simp add: same_bucket_def set_remaining_def)

lemmas statements = new_account new_transaction new_bucket

lemma ensureAccount [simp]: "honours R (ensureAccount app cust ty env)"
  unfolding ensureAccount_def by (intro compose statements) simp_all

lemma appendTransaction [simp]: "honours R (appendTransaction input)"
  unfolding appendTransaction_def by (intro compose statements) simp_all

lemma createBucketForGrant [simp]: "honours R (createBucketForGrant input)"
  unfolding createBucketForGrant_def by (intro compose statements) simp_all

lemma consume_loop [simp]: "honours R (consume_loop now rows n)"
proof (induction rows arbitrary: n)
  case (Cons b rows)
  then show ?case unfolding consume_loop.simps Let_def by (intro compose) simp_all
qed simp

lemma consumeBuckets [simp]: "honours R (consumeBuckets i n allow)"
  unfolding consumeBuckets_def by (auto intro!: compose)

lemma expire_account_loop [simp]: "honours R (expire_account_loop i now rows)"
proof (induction rows)
  case (Cons b rows)
  then show ?case unfolding expire_account_loop.simps Let_def by (intro compose statements) simp_all
qed simp

lemma expireDueBucketsForAccount [simp]: "honours R (expireDueBucketsForAccount app i env now)"
  unfolding expireDueBucketsForAccount_def by (intro compose) simp_all

lemma expire_bucket_tx [simp]: "honours R (expire_bucket_tx now b)"
  unfolding expire_bucket_tx_def Let_def by (intro compose statements) simp_all

lemma expireDueCreditBuckets [simp]: "honours R (expireDueCreditBuckets now)"
  unfolding expireDueCreditBuckets_def by (intro compose) (auto split: option.split)

lemma grantCreditsInTransaction [simp]: "honours R (grantCreditsInTransaction input)"
  unfolding grantCreditsInTransaction_def Let_def by (intro compose) simp_all

lemma debitInTransaction [simp]: "honours R (debitCreditsForApplicationCustomerInTransaction input cust)"
  unfolding debitCreditsForApplicationCustomerInTransaction_def Let_def by (intro compose) simp_all

lemma grantCredits: "honours R (grantCredits input)"
  unfolding grantCredits_def by (intro compose) simp_all

lemma debitCredits: "honours R (debitCredits input)"
  unfolding debitCredits_def by (intro compose) simp_all

lemma refundCredits: "honours R (refundCredits input)"
  unfolding refundCredits_def by (intro compose) simp_all

lemma revoke_step [simp]: "honours R (revoke_step input env av acc b)"
  unfolding revoke_step_def Let_def
  by (cases acc) (auto intro!: compose statements buckets simp: same_bucket_def)

lemma revokeInTransaction [simp]: "honours R (revokeSubscriptionCreditsInTransaction input)"
  unfolding revokeSubscriptionCreditsInTransaction_def Let_def by (intro compose) simp_all

lemma revokeSubscriptionCredits: "honours R (revokeSubscriptionCredits input)"
  unfolding revokeSubscriptionCredits_def by (intro compose) simp_all

lemma sum_quantities [simp]: "honours R (sum_quantities q items)"
proof (induction items arbitrary: q)
  case (Cons x items)
  then show ?case by (cases x) (simp add: Let_def)
qed simp

lemma sum_amounts [simp]: "honours R (sum_amounts q m configs)"
  by (induction configs arbitrary: m) (auto simp: Let_def split: option.split)

lemma grantConfigured: "honours R (grantConfiguredCreditsInTransaction input)"
  unfolding grantConfiguredCreditsInTransaction_def
  by (intro compose) (auto intro!: compose)

end

text \<open>The operations that also write reservations need two more statements.\<close>

locale reservation_frame = credit_frame R for R :: "db \<Rightarrow> db \<Rightarrow> bool" +
  assumes new_reservation: "honours R (insert_reservation q)"
    and reservations: "(\<And>q. same_reservation q (h q)) \<Longrightarrow> honours R (update_reservations T h)"
begin

lemma reserve_commit [simp]: "honours R (reserve_commit input cust rt ri key env now u)"
  unfolding reserve_commit_def by (intro compose statements new_reservation) simp_all

lemma reserve_locked [simp]: "honours R (reserve_locked input cust rt ri key env account)"
  unfolding reserve_locked_def by (intro compose statements new_reservation) simp_all

lemma reserve_tx [simp]: "honours R (reserve_tx input ty rt ri key env)"
  unfolding reserve_tx_def by (intro compose statements new_reservation) simp_all

lemma reserveCredits: "honours R (reserveCredits input)"
  unfolding reserveCredits_def Let_def by (intro compose) (auto split: reserve_outcome.split)

lemma lockReservation [simp]: "honours R (lockReservation app i env)"
  unfolding lockReservation_def by (intro compose) simp_all

lemma captureReservation: "honours R (captureReservation input)"
  unfolding captureReservation_def Let_def
  by (intro compose) (auto intro!: reservations simp: same_reservation_def)

lemma releaseReservation: "honours R (releaseReservation input)"
  unfolding releaseReservation_def Let_def
  by (intro compose) (auto intro!: reservations simp: same_reservation_def)

end

subsection \<open>Credit rows are kept\<close>

definition rows_kept :: "db \<Rightarrow> db \<Rightarrow> bool" where
  "rows_kept s t \<longleftrightarrow> table_kept same_account (creditAccounts s) (creditAccounts t)
     \<and> table_kept same_transaction (creditTransactions s) (creditTransactions t)
     \<and> table_kept same_reservation (creditReservations s) (creditReservations t)
     \<and> table_kept same_bucket (creditBuckets s) (creditBuckets t)
     \<and> table_kept (=) (applicationCustomers s) (applicationCustomers t)"

lemma same_refl [simp]:
  "same_account a a" "same_transaction t t" "same_reservation q q" "same_bucket b b"
  by (simp_all add: same_account_def same_transaction_def same_reservation_def same_bucket_def)

lemma same_trans:
  "same_account a b \<Longrightarrow> same_account b c \<Longrightarrow> same_account a c"
  "same_transaction t u \<Longrightarrow> same_transaction u v \<Longrightarrow> same_transaction t v"
  "same_reservation q r \<Longrightarrow> same_reservation r p \<Longrightarrow> same_reservation q p"
  "same_bucket x y \<Longrightarrow> same_bucket y z \<Longrightarrow> same_bucket x z"
  subgoal by (simp add: same_account_def)
  subgoal by (cases t; cases u; cases v) (simp add: same_transaction_def)
  subgoal by (cases q; cases r; cases p) (simp add: same_reservation_def)
  subgoal by (cases x; cases y; cases z) (simp add: same_bucket_def)
  done

lemma same_accountD: "same_account a b \<Longrightarrow> ca_id b = ca_id a \<and> ca_applicationId b = ca_applicationId a
    \<and> ca_applicationCustomerId b = ca_applicationCustomerId a \<and> ca_creditType b = ca_creditType a
    \<and> ca_environment b = ca_environment a"
  by (simp add: same_account_def)

lemma same_transactionD: "same_transaction t u \<Longrightarrow> ct_id u = ct_id t \<and> ct_applicationId u = ct_applicationId t
    \<and> ct_applicationCustomerId u = ct_applicationCustomerId t \<and> ct_creditAccountId u = ct_creditAccountId t
    \<and> ct_type u = ct_type t \<and> ct_amount u = ct_amount t \<and> ct_sourceType u = ct_sourceType t
    \<and> ct_sourceId u = ct_sourceId t \<and> ct_idempotencyKey u = ct_idempotencyKey t
    \<and> ct_environment u = ct_environment t \<and> ct_metadata u = ct_metadata t"
  by (cases t; cases u) (simp add: same_transaction_def)

lemma same_reservationD: "same_reservation q r \<Longrightarrow> cr_id r = cr_id q \<and> cr_applicationId r = cr_applicationId q
    \<and> cr_applicationCustomerId r = cr_applicationCustomerId q \<and> cr_creditAccountId r = cr_creditAccountId q
    \<and> cr_reservedAmount r = cr_reservedAmount q \<and> cr_environment r = cr_environment q
    \<and> cr_referenceType r = cr_referenceType q \<and> cr_referenceId r = cr_referenceId q
    \<and> cr_idempotencyKey r = cr_idempotencyKey q"
  by (cases q; cases r) (simp add: same_reservation_def)

lemma same_bucketD: "same_bucket b c \<Longrightarrow> cb_id c = cb_id b \<and> cb_creditAccountId c = cb_creditAccountId b
    \<and> cb_applicationId c = cb_applicationId b \<and> cb_grantedAmount c = cb_grantedAmount b
    \<and> cb_expiresAt c = cb_expiresAt b \<and> cb_transactionId c = cb_transactionId b"
  by (cases b; cases c) (simp add: same_bucket_def)

lemma rows_kept_refl [simp]: "rows_kept s s"
  by (simp add: rows_kept_def table_kept_refl)

lemma rows_kept_trans: "rows_kept s t \<Longrightarrow> rows_kept t u \<Longrightarrow> rows_kept s u"
  unfolding rows_kept_def using same_trans
  by (intro conjI) (rule table_kept_trans; blast)+

lemma kept_inserts: "honours rows_kept (insert_account a)" "honours rows_kept (insert_transaction t)"
  "honours rows_kept (insert_reservation q)" "honours rows_kept (insert_bucket b)"
  unfolding credit_table_defs
  by (rule insert_or_ignore_kept insert_row_kept, simp_all add: rows_kept_def table_kept_refl)+

lemma kept_updates:
  "(\<And>a. same_account a (f a)) \<Longrightarrow> honours rows_kept (update_accounts P f)"
  "(\<And>t. same_transaction t (g t)) \<Longrightarrow> honours rows_kept (update_transactions Q g)"
  "(\<And>q. same_reservation q (h q)) \<Longrightarrow> honours rows_kept (update_reservations T h)"
  "(\<And>b. same_bucket b (k b)) \<Longrightarrow> honours rows_kept (update_buckets U k)"
  unfolding credit_table_defs
  by (rule update_rows_kept, simp_all add: rows_kept_def table_kept_refl table_kept_update)+

lemma kept_ids: "rows_kept s (s\<lparr>uuids := Suc (uuids s)\<rparr>)"
  by (simp add: rows_kept_def table_kept_refl)

interpretation kept: reservation_frame rows_kept
  by unfold_locales
    (rule rows_kept_refl kept_ids kept_inserts | erule (1) rows_kept_trans | (rule kept_updates, assumption))+

subsection \<open>The other modules' tables are untouched\<close>

definition others_untouched :: "db \<Rightarrow> db \<Rightarrow> bool" where
  "others_untouched s t \<longleftrightarrow> clock t = clock s \<and> uuids s \<le> uuids t
     \<and> applicationCustomers t = applicationCustomers s \<and> entitlementGrants t = entitlementGrants s
     \<and> usageMeters t = usageMeters s \<and> usageEvents t = usageEvents s \<and> products t = products s
     \<and> productGrantConfigs t = productGrantConfigs s \<and> customers t = customers s \<and> prices t = prices s
     \<and> providerConnections t = providerConnections s \<and> orders t = orders s \<and> orderItems t = orderItems s
     \<and> checkoutSessions t = checkoutSessions s \<and> payments t = payments s \<and> refunds t = refunds s
     \<and> subscriptions t = subscriptions s \<and> subscriptionItems t = subscriptionItems s
     \<and> webhookEvents t = webhookEvents s"

lemma others_untouched_refl [simp]: "others_untouched s s"
  by (simp add: others_untouched_def)

lemma others_insert: "honours others_untouched (insert_account a)" "honours others_untouched (insert_transaction t)"
  "honours others_untouched (insert_reservation q)" "honours others_untouched (insert_bucket b)"
  unfolding credit_table_defs
  by (rule insert_or_ignore_kept insert_row_kept, simp_all add: others_untouched_def)+

lemma others_update: "honours others_untouched (update_accounts P f)" "honours others_untouched (update_transactions Q g)"
  "honours others_untouched (update_reservations T h)" "honours others_untouched (update_buckets U k)"
  unfolding credit_table_defs
  by (rule update_rows_kept, simp_all add: others_untouched_def)+

interpretation others: reservation_frame others_untouched
  by unfold_locales (auto simp: others_insert others_update others_untouched_def)

subsection \<open>Only the reservation operations write reservations\<close>

definition same_reservations :: "db \<Rightarrow> db \<Rightarrow> bool" where
  "same_reservations s t \<longleftrightarrow> creditReservations t = creditReservations s"

lemma reservations_insert: "honours same_reservations (insert_account a)" "honours same_reservations (insert_transaction t)"
  "honours same_reservations (insert_bucket b)"
  unfolding credit_table_defs
  by (rule insert_or_ignore_kept insert_row_kept, simp_all add: same_reservations_def)+

lemma reservations_update: "honours same_reservations (update_accounts P f)"
  "honours same_reservations (update_transactions Q g)" "honours same_reservations (update_buckets U k)"
  unfolding credit_table_defs
  by (rule update_rows_kept, simp_all add: same_reservations_def)+

interpretation unreserved: credit_frame same_reservations
  by unfold_locales (auto simp: reservations_insert reservations_update same_reservations_def)

end
