(* ===== verification/CreditLedger.thy ===== *)
theory CreditLedger
  imports CreditPreserve CreditFrames StateMachine
begin

text \<open>
  The credit subsystem as a state machine. A state is the database and the rows a running
  expiry sweep has scanned; a step is one committed or rolled back operation, one bucket of
  a sweep, a new scan, or a step of another module. Every interleaving of concurrent
  requests whose transactions the database serialises is such a sequence of steps: the
  sweep's rows may be arbitrarily stale when their turn comes.
  The credit steps interpret \<open>invariant_system\<close> with the ledger invariant.
\<close>

subsection \<open>The credit steps\<close>

record credit_system =
  database :: db
  scanned :: "credit_bucket list"

text \<open>
  What the other modules may do to a state of the credit subsystem: register customers, let
  time pass, draw ids, write their own tables. Rows of the credit tables are written by the
  credit module only.
\<close>

definition elsewhere :: "db \<Rightarrow> db \<Rightarrow> bool" where
  "elsewhere s t \<longleftrightarrow> creditAccounts t = creditAccounts s \<and> creditTransactions t = creditTransactions s
     \<and> creditReservations t = creditReservations s \<and> creditBuckets t = creditBuckets s
     \<and> table_kept (=) (applicationCustomers s) (applicationCustomers t)
     \<and> clock s \<le> clock t \<and> uuids s \<le> uuids t"

inductive credit_step :: "credit_system \<Rightarrow> credit_system \<Rightarrow> bool" where
  grant: "is_grant_tx (gi_transactionType i) \<Longrightarrow> grantCredits i (database c) = (r, s')
    \<Longrightarrow> credit_step c (c\<lparr>database := s'\<rparr>)"
| grant_configured: "is_grant_tx (cg_transactionType g)
    \<Longrightarrow> transaction (grantConfiguredCreditsInTransaction g) (database c) = (rs, s')
    \<Longrightarrow> credit_step c (c\<lparr>database := s'\<rparr>)"
| debit: "debitCredits d (database c) = (r, s') \<Longrightarrow> credit_step c (c\<lparr>database := s'\<rparr>)"
| refund: "refundCredits d (database c) = (r, s') \<Longrightarrow> credit_step c (c\<lparr>database := s'\<rparr>)"
| reserve: "reserveCredits v (database c) = (rr, s') \<Longrightarrow> credit_step c (c\<lparr>database := s'\<rparr>)"
| capture: "captureReservation w (database c) = (x, s') \<Longrightarrow> credit_step c (c\<lparr>database := s'\<rparr>)"
| release: "releaseReservation w (database c) = (x, s') \<Longrightarrow> credit_step c (c\<lparr>database := s'\<rparr>)"
| revoke: "revokeSubscriptionCredits k (database c) = (am, s') \<Longrightarrow> credit_step c (c\<lparr>database := s'\<rparr>)"
| scan: "credit_step c (c\<lparr>scanned := scan_due now (database c)\<rparr>)"
| expire: "b \<in> set (scanned c) \<Longrightarrow> transaction (expire_bucket_tx now b) (database c) = (e, s')
    \<Longrightarrow> credit_step c (c\<lparr>database := s'\<rparr>)"
| other: "elsewhere (database c) s' \<Longrightarrow> credit_step c (c\<lparr>database := s'\<rparr>)"

inductive_cases credit_stepE: "credit_step c c'"

text \<open>The system starts with empty credit tables.\<close>

definition credit_init :: "credit_system \<Rightarrow> bool" where
  "credit_init c \<longleftrightarrow> creditAccounts (database c) = [] \<and> creditTransactions (database c) = []
     \<and> creditReservations (database c) = [] \<and> creditBuckets (database c) = [] \<and> scanned c = []"

abbreviation credit_reachable :: "credit_system \<Rightarrow> bool" where
  "credit_reachable \<equiv> reachable credit_init credit_step"

text \<open>A scanned row still names a stored bucket.\<close>

definition scanned_ok :: "credit_system \<Rightarrow> bool" where
  "scanned_ok c \<longleftrightarrow> (\<forall>b \<in> set (scanned c). \<exists>x \<in> set (creditBuckets (database c)). same_bucket b x)"

definition system_inv :: "credit_system \<Rightarrow> bool" where
  "system_inv c \<longleftrightarrow> credit_inv (database c) \<and> scanned_ok c"

definition later_system :: "credit_system \<Rightarrow> credit_system \<Rightarrow> bool" where
  "later_system c d \<longleftrightarrow> rows_kept (database c) (database d)"

lemma credit_inv_init: "credit_init c \<Longrightarrow> system_inv c"
  by (simp add: credit_init_def system_inv_def scanned_ok_def credit_inv_def off_def tables_ok_defs)

lemma scanned_ok_later: "scanned_ok c \<Longrightarrow> rows_kept (database c) s' \<Longrightarrow> scanned_ok (c\<lparr>database := s'\<rparr>)"
  unfolding scanned_ok_def rows_kept_def
  by (simp, meson table_kept_mem same_trans(4))

lemma scanned_names:
  assumes "system_inv c" and "b \<in> set (scanned c)"
  shows "names_account (database c) b"
proof -
  obtain x where x: "x \<in> set (creditBuckets (database c))" "same_bucket b x"
    using assms by (auto simp: system_inv_def scanned_ok_def)
  have "cb_id x = cb_id b" "cb_creditAccountId x = cb_creditAccountId b"
    using same_bucketD [OF x(2)] by simp_all
  moreover have "distinct (map cb_id (creditBuckets (database c)))"
    using assms by (simp add: system_inv_def credit_inv_def off_def buckets_ok_def)
  ultimately show ?thesis
    unfolding names_account_def using x(1) by (metis distinct_key_eq)
qed

lemma table_kept_ids: "table_kept (=) xs ys \<Longrightarrow> x \<in> set xs \<Longrightarrow> x \<in> set ys"
  by (auto dest: table_kept_mem)

lemma elsewhere_inv:
  assumes e: "elsewhere s t" and inv: "credit_inv s"
  shows "credit_inv t"
proof -
  have tabs: "creditAccounts t = creditAccounts s" "creditTransactions t = creditTransactions s"
    "creditReservations t = creditReservations s" "creditBuckets t = creditBuckets s"
    using e by (simp_all add: elsewhere_def)
  have cust: "customer_exists s i \<Longrightarrow> customer_exists t i" for i
    using e table_kept_ids unfolding elsewhere_def customer_exists_def by meson
  have ref: "refers t i p c v = refers s i p c v" for i p c v
    unfolding refers_def tabs ..
  have "accounts_ok t"
    using inv cust unfolding credit_inv_def off_def accounts_ok_def tabs by blast
  then show ?thesis
    using inv unfolding credit_inv_def off_def tables_ok_defs tabs ref by blast
qed

lemma elsewhere_kept: "elsewhere s t \<Longrightarrow> rows_kept s t"
  by (simp add: elsewhere_def rows_kept_def table_kept_refl)

lemma credit_step_kept: "credit_step c d \<Longrightarrow> rows_kept (database c) (database d)"
  by (elim credit_stepE)
    (auto dest: honoursD [OF kept.grantCredits] honoursD [OF kept.transaction [OF kept.grantConfigured]]
      honoursD [OF kept.debitCredits] honoursD [OF kept.refundCredits] honoursD [OF kept.reserveCredits]
      honoursD [OF kept.captureReservation] honoursD [OF kept.releaseReservation]
      honoursD [OF kept.revokeSubscriptionCredits] honoursD [OF kept.transaction [OF kept.expire_bucket_tx]]
      elsewhere_kept)

lemma expire_bucket_inv:
  "transaction (expire_bucket_tx now b) s = (e, s') \<Longrightarrow> credit_inv s \<Longrightarrow> names_account s b \<Longrightarrow> credit_inv s'"
  by (cases e) (auto simp: transaction_eq_Inl intro: expire_bucket_tx_off)

lemma grantConfigured_tx_inv:
  "transaction (grantConfiguredCreditsInTransaction g) s = (r, s') \<Longrightarrow> credit_inv s
   \<Longrightarrow> is_grant_tx (cg_transactionType g) \<Longrightarrow> credit_inv s'"
  by (cases r) (auto simp: transaction_eq_Inl intro: grantConfigured_inv)

lemma credit_step_inv:
  assumes inv: "system_inv c" and step: "credit_step c d"
  shows "system_inv d"
proof -
  have "credit_inv (database d)"
    using step inv scanned_names [OF inv]
    by (elim credit_stepE)
      (auto simp: system_inv_def dest: grantCredits_inv grantConfigured_tx_inv debitCredits_inv refundCredits_inv
        keepsD [OF keeps_reserveCredits] captureReservation_inv releaseReservation_inv
        keepsD [OF keeps_revoke] expire_bucket_inv elsewhere_inv)
  moreover have "scanned_ok d"
    using step
  proof (cases rule: credit_step.cases)
    case (scan now)
    then show ?thesis by (auto simp: scanned_ok_def scan_due_def intro: same_refl)
  qed (use inv scanned_ok_later credit_step_kept [OF step] in \<open>auto simp: system_inv_def\<close>)
  ultimately show ?thesis by (simp add: system_inv_def)
qed

interpretation ledger: invariant_system credit_init credit_step system_inv later_system
proof (unfold_locales, goal_cases)
  case (1 c) then show ?case by (rule credit_inv_init)
next
  case (2 c d) then show ?case by (rule credit_step_inv)
next
  case (3 c d) then show ?case by (simp add: later_system_def credit_step_kept)
next
  case (4 c) show ?case by (simp add: later_system_def)
next
  case (5 c d e) then show ?case unfolding later_system_def by (rule rows_kept_trans)
qed

end
