(* ===== verification/CreditReplay.thy ===== *)
theory CreditReplay
  imports CreditLedger
begin

text \<open>
  The exactly-once contract of the credit operations: \<open>stored_answer\<close> is interpreted for
  granting, debiting, reserving, capturing and releasing credits. A replay leaves the state
  exactly as it was.
\<close>

subsection \<open>Lookups by key\<close>

lemma find_later:
  assumes "rows_kept s t" and "List.find (key_is app env key) (creditTransactions s) = Some x"
  shows "\<exists>y. List.find (key_is app env key) (creditTransactions t) = Some y \<and> same_transaction x y"
proof (rule table_kept_find [OF _ assms(2)])
  show "table_kept same_transaction (creditTransactions s) (creditTransactions t)"
    using assms(1) by (simp add: rows_kept_def)
qed (simp add: key_is_def same_transactionD)

lemma ensureAccount_ledger:
  "ensureAccount app cust ty env s = (Inr a, s') \<Longrightarrow> creditTransactions s' = creditTransactions s"
  by (auto simp: ensureAccount_def bind_eq_Inr insert_account_def insert_or_ignore_def split: if_splits)

lemma update_accounts_ledger:
  "update_accounts P f s = (Inr rows, s') \<Longrightarrow> creditTransactions s' = creditTransactions s"
  by (auto simp: update_accounts_def update_rows_eq_Inr)

lemma createBucket_ledger:
  "createBucketForGrant input s = (Inr b, s') \<Longrightarrow> creditTransactions s' = creditTransactions s"
  by (auto simp: createBucketForGrant_def bind_eq_Inr insert_bucket_def insert_row_eq_Inr)

lemma consume_loop_ledger:
  "consume_loop now rows n s = (Inr r, s') \<Longrightarrow> creditTransactions s' = creditTransactions s"
  by (induction rows arbitrary: n s)
    (fastforce simp: bind_eq_Inr Let_def update_buckets_def update_rows_eq_Inr split: if_splits)+

lemma consumeBuckets_ledger:
  "consumeBuckets i n allow s = (Inr u, s') \<Longrightarrow> creditTransactions s' = creditTransactions s"
  by (auto simp: consumeBuckets_def bind_eq_Inr dest: consume_loop_ledger split: if_splits)

lemma appendTransaction_row:
  assumes "appendTransaction input s = (Inr t, s')"
  shows "creditTransactions s' = creditTransactions s @ [t]"
    and "ct_applicationId t = ti_applicationId input" "ct_applicationCustomerId t = ti_applicationCustomerId input"
    and "ct_environment t = resolveCreditEnvironment (ti_environment input)"
    and "ct_type t = ti_type input" "ct_amount t = ti_amount input"
    and "ct_sourceType t = ti_sourceType input" "ct_sourceId t = ti_sourceId input"
    and "ct_idempotencyKey t = ti_idempotencyKey input" "ct_metadata t = or_empty (ti_metadata input)"
  using assms by (auto simp: appendTransaction_def bind_eq_Inr insert_transaction_def insert_row_eq_Inr)

subsection \<open>Grants\<close>

text \<open>The caller's metadata does not contradict the grant's own expiry.\<close>

definition consistent_expiry :: "grant_input \<Rightarrow> bool" where
  "consistent_expiry input \<longleftrightarrow> distinct (map fst (or_empty (gi_metadata input)))
     \<and> (metadata_expiry (gi_metadata input) = None
        \<or> metadata_expiry (gi_metadata input) = iso_of (gi_expiresAt input))"

lemma map_of_rev_distinct: "distinct (map fst xs) \<Longrightarrow> map_of (rev xs) = map_of xs"
  by (rule map_of_inject_set [THEN iffD2]) (simp_all flip: rev_map)

lemma consistent_grant:
  assumes "consistent_expiry input"
  shows "\<not> expiry_differs (metadata_expiry (Some (grant_metadata input))) (requested_expiry input)"
proof -
  let ?m = "or_empty (gi_metadata input)"
  have d: "map_of (rev ?m) ''expiresAt'' = map_of ?m ''expiresAt''"
    using assms by (simp only: consistent_expiry_def map_of_rev_distinct)
  have me: "metadata_expiry (gi_metadata input) = map_of ?m ''expiresAt''"
    by (simp add: metadata_expiry_def or_empty_def split: option.split)
  have "metadata_expiry (Some (grant_metadata input)) = iso_of (gi_expiresAt input)"
    using assms d me
    by (auto simp: consistent_expiry_def metadata_expiry_def grant_metadata_def map_of_obj_spread iso_of_def
        split: option.splits)
  moreover have "requested_expiry input = iso_of (gi_expiresAt input)"
    using assms by (cases "gi_expiresAt input") (auto simp: consistent_expiry_def requested_expiry_def iso_of_def)
  ultimately show ?thesis
    by (cases "gi_expiresAt input") (simp_all add: expiry_differs_def iso_of_def)
qed

definition grant_row :: "grant_input \<Rightarrow> credit_transaction \<Rightarrow> bool" where
  "grant_row input t \<longleftrightarrow> (\<exists>ty. normalized_key (gi_creditType input) ty) \<and> valid_amount (gi_amount input)
     \<and> trim (gi_sourceType input) \<noteq> [] \<and> trim (gi_sourceId input) \<noteq> [] \<and> trim (gi_idempotencyKey input) \<noteq> []
     \<and> ct_type t = gi_transactionType input \<and> ct_amount t = gi_amount input
     \<and> ct_applicationCustomerId t = gi_applicationCustomerId input
     \<and> ct_sourceType t = trim (gi_sourceType input) \<and> ct_sourceId t = trim (gi_sourceId input)
     \<and> \<not> expiry_differs (existing_expiry t) (requested_expiry input)"

definition grant_found :: "grant_input \<Rightarrow> db \<Rightarrow> credit_transaction option" where
  "grant_found input s = List.find (key_is (gi_applicationId input)
     (resolveCreditEnvironment (gi_environment input)) (trim (gi_idempotencyKey input))) (creditTransactions s)"

text \<open>A first grant appends a matching row; what the statements before and after it write is
  in other tables.\<close>

lemma grant_appends:
  assumes run: "grantCreditsInTransaction input s = (Inr r, s')" and new: "grant_found input s = None"
  obtains ty txi s2 s3 where "normalized_key (gi_creditType input) ty"
    and "appendTransaction txi s2 = (Inr (tr_transaction r), s3)"
    and "creditTransactions s2 = creditTransactions s" "creditTransactions s' = creditTransactions s3"
    and "ti_applicationId txi = gi_applicationId input"
      "ti_applicationCustomerId txi = gi_applicationCustomerId input"
      "resolveCreditEnvironment (ti_environment txi) = resolveCreditEnvironment (gi_environment input)"
      "ti_type txi = gi_transactionType input" "ti_amount txi = gi_amount input"
      "ti_sourceType txi = trim (gi_sourceType input)" "ti_sourceId txi = trim (gi_sourceId input)"
      "ti_idempotencyKey txi = trim (gi_idempotencyKey input)" "ti_metadata txi = Some (grant_metadata input)"
    and "valid_amount (gi_amount input)"
      "trim (gi_sourceType input) \<noteq> []" "trim (gi_sourceId input) \<noteq> []" "trim (gi_idempotencyKey input) \<noteq> []"
    and "\<not> tr_duplicate r"
  using run new
  by (auto simp: grantCreditsInTransaction_def bind_eq_Inr Let_def grant_found_def
      dest!: ensureAccount_ledger update_accounts_ledger createBucket_ledger)

lemma grant_stores:
  assumes run: "grantCreditsInTransaction input s = (Inr r, s')" and ok: "consistent_expiry input"
  shows "grant_found input s' = Some (tr_transaction r) \<and> grant_row input (tr_transaction r)"
proof (cases "grant_found input s")
  case (Some t)
  then show ?thesis
    using run by (auto simp: grantCreditsInTransaction_def bind_eq_Inr Let_def grant_found_def grant_row_def)
next
  case None
  show ?thesis
    using run None
  proof (rule grant_appends, goal_cases)
    case (1 ty txi s2 s3)
    show ?case
      using None appendTransaction_row [OF 1(2)] consistent_grant [OF ok] 1
      by (auto simp: grant_found_def find_append key_is_def grant_row_def existing_expiry_def or_empty_def)
  qed
qed

lemma grant_answers:
  "grant_found input s = Some t \<Longrightarrow> grant_row input t \<Longrightarrow>
   grantCreditsInTransaction input s = (Inr \<lparr>tr_transaction = t, tr_duplicate = True\<rparr>, s)"
  by (auto simp: grantCreditsInTransaction_def bind_eq_Inr Let_def grant_found_def grant_row_def)

definition duplicate_of :: "credit_transaction \<Rightarrow> tx_result" where
  "duplicate_of t = \<lparr>tr_transaction = t, tr_duplicate = True\<rparr>"

interpretation grants: stored_answer grantCredits rows_kept "\<lambda>i _. consistent_expiry i" grant_found grant_row
  same_transaction "\<lambda>r x. tr_transaction r = x" duplicate_of "(=)"
proof (unfold_locales, goal_cases)
  case (1 s) show ?case by simp
next
  case (2 i r s s') then show ?case by (simp add: grantCredits_def grant_stores)
next
  case (3 s t i x) then show ?case unfolding grant_found_def by (rule find_later)
next
  case (4 i x y) then show ?case
    by (auto simp: grant_row_def existing_expiry_def dest: same_transactionD)
next
  case (5 i t y) then show ?case by (simp add: grantCredits_def grant_answers duplicate_of_def)
qed auto

subsection \<open>Debits\<close>

definition customer_found :: "string \<Rightarrow> string \<Rightarrow> db \<Rightarrow> string option" where
  "customer_found app ext s =
     (if trim ext = [] then None
      else map_option ac_id (List.find (\<lambda>m. ac_applicationId m = app \<and> ac_externalCustomerId m = trim ext)
        (applicationCustomers s)))"

lemma resolve_found: "resolveApplicationCustomerId app ext s = (Inr c, s') \<longleftrightarrow> s' = s \<and> customer_found app ext s = Some c"
  by (auto simp: resolveApplicationCustomerId_eq_Inr customer_found_def)

lemma customer_found_later:
  assumes "rows_kept s t" and "customer_found app ext s = Some c"
  shows "customer_found app ext t = Some c"
proof -
  let ?P = "\<lambda>m. ac_applicationId m = app \<and> ac_externalCustomerId m = trim ext"
  obtain m where m: "List.find ?P (applicationCustomers s) = Some m" and c: "c = ac_id m" "trim ext \<noteq> []"
    using assms(2) by (auto simp: customer_found_def split: if_splits)
  have "table_kept (=) (applicationCustomers s) (applicationCustomers t)"
    using assms(1) by (simp add: rows_kept_def)
  from table_kept_find [OF this m] have "List.find ?P (applicationCustomers t) = Some m" by simp
  then show ?thesis using c by (simp add: customer_found_def)
qed

definition debit_found :: "debit_input \<Rightarrow> db \<Rightarrow> (string \<times> credit_transaction) option" where
  "debit_found input s = (case customer_found (di_applicationId input) (di_externalCustomerId input) s of
       None \<Rightarrow> None
     | Some c \<Rightarrow> map_option (Pair c) (List.find (key_is (di_applicationId input)
         (resolveCreditEnvironment (di_environment input)) (trim (di_idempotencyKey input))) (creditTransactions s)))"

fun debit_row :: "debit_input \<Rightarrow> string \<times> credit_transaction \<Rightarrow> bool" where
  "debit_row input (c, t) \<longleftrightarrow> (\<exists>ty. normalized_key (di_creditType input) ty) \<and> valid_amount (di_amount input)
     \<and> trim (di_sourceType input) \<noteq> [] \<and> trim (di_sourceId input) \<noteq> [] \<and> trim (di_idempotencyKey input) \<noteq> []
     \<and> ct_type t = DebitUsage \<and> ct_amount t = - di_amount input \<and> ct_applicationCustomerId t = c
     \<and> ct_sourceType t = trim (di_sourceType input) \<and> ct_sourceId t = trim (di_sourceId input)"

lemma debit_appends:
  assumes run: "debitCreditsForApplicationCustomerInTransaction input c s = (Inr r, s')"
    and new: "List.find (key_is (di_applicationId input) (resolveCreditEnvironment (di_environment input))
        (trim (di_idempotencyKey input))) (creditTransactions s) = None"
  obtains ty txi s2 where "normalized_key (di_creditType input) ty"
    and "appendTransaction txi s2 = (Inr (tr_transaction r), s')"
    and "creditTransactions s2 = creditTransactions s"
    and "ti_applicationId txi = di_applicationId input" "ti_applicationCustomerId txi = c"
      "resolveCreditEnvironment (ti_environment txi) = resolveCreditEnvironment (di_environment input)"
      "ti_type txi = DebitUsage" "ti_amount txi = - di_amount input"
      "ti_sourceType txi = trim (di_sourceType input)" "ti_sourceId txi = trim (di_sourceId input)"
      "ti_idempotencyKey txi = trim (di_idempotencyKey input)"
    and "valid_amount (di_amount input)"
      "trim (di_sourceType input) \<noteq> []" "trim (di_sourceId input) \<noteq> []" "trim (di_idempotencyKey input) \<noteq> []"
    and "\<not> tr_duplicate r"
  using run new
  by (auto simp: debitCreditsForApplicationCustomerInTransaction_def bind_eq_Inr Let_def
      dest!: update_accounts_ledger consumeBuckets_ledger)

lemma debit_stores:
  assumes run: "debitCredits input s = (Inr r, s')"
  shows "\<exists>c. debit_found input s' = Some (c, tr_transaction r) \<and> debit_row input (c, tr_transaction r)"
proof -
  let ?P = "key_is (di_applicationId input) (resolveCreditEnvironment (di_environment input)) (trim (di_idempotencyKey input))"
  obtain c where c: "customer_found (di_applicationId input) (di_externalCustomerId input) s = Some c"
    and d: "debitCreditsForApplicationCustomerInTransaction input c s = (Inr r, s')"
    using run by (auto simp: debitCredits_def bind_eq_Inr resolve_found)
  have c': "customer_found (di_applicationId input) (di_externalCustomerId input) s' = Some c"
    using customer_found_later [OF honoursD [OF kept.debitInTransaction d] c] .
  show ?thesis
  proof (cases "List.find ?P (creditTransactions s)")
    case (Some t)
    then show ?thesis
      using d c' by (auto simp: debitCreditsForApplicationCustomerInTransaction_def bind_eq_Inr Let_def debit_found_def)
  next
    case None
    show ?thesis
      using d None
    proof (rule debit_appends, goal_cases)
      case (1 ty txi s2)
      show ?case
        using None appendTransaction_row [OF 1(2)] 1 c'
        by (auto simp: debit_found_def find_append key_is_def)
    qed
  qed
qed

lemma debit_answers:
  "debit_found input s = Some (c, t) \<Longrightarrow> debit_row input (c, t) \<Longrightarrow>
   debitCredits input s = (Inr (duplicate_of t), s)"
  by (auto simp: debitCredits_def bind_eq_Inr resolve_found Let_def debit_found_def duplicate_of_def
      debitCreditsForApplicationCustomerInTransaction_def split: option.splits)

lemma debit_found_later:
  assumes "rows_kept s t" and "debit_found input s = Some (c, x)"
  shows "\<exists>y. debit_found input t = Some (c, y) \<and> same_transaction x y"
  using assms customer_found_later [OF assms(1)] find_later [OF assms(1)]
  by (fastforce simp: debit_found_def split: option.splits)

interpretation debits: stored_answer debitCredits rows_kept "\<lambda>_ _. True" debit_found debit_row
  "\<lambda>x y. fst y = fst x \<and> same_transaction (snd x) (snd y)" "\<lambda>r x. tr_transaction r = snd x"
  "\<lambda>x. duplicate_of (snd x)" "(=)"
proof (unfold_locales, goal_cases)
  case (1 s) show ?case by simp
next
  case (2 i r s s') then show ?case using debit_stores by fastforce
next
  case (3 s t i x) then show ?case by (cases x) (auto dest: debit_found_later)
next
  case (4 i x y) then show ?case by (cases x; cases y) (auto dest: same_transactionD)
next
  case (5 i t y) then show ?case by (cases y) (simp add: debit_answers)
qed auto

subsection \<open>Captures and releases\<close>

definition settle_found :: "settle_input \<Rightarrow> db \<Rightarrow> credit_transaction option" where
  "settle_found input s = List.find (key_is (si_applicationId input)
     (resolveCreditEnvironment (si_environment input)) (trim (si_idempotencyKey input))) (creditTransactions s)"

definition capture_row :: "settle_input \<Rightarrow> credit_transaction \<Rightarrow> bool" where
  "capture_row input t \<longleftrightarrow> valid_amount (si_amount input) \<and> trim (si_idempotencyKey input) \<noteq> []
     \<and> ct_type t = CaptureUsage \<and> ct_sourceId t = si_reservationId input \<and> ct_amount t = - si_amount input"

definition release_row :: "settle_input \<Rightarrow> credit_transaction \<Rightarrow> bool" where
  "release_row input t \<longleftrightarrow> trim (si_idempotencyKey input) \<noteq> []
     \<and> ct_type t = ReleaseUsage \<and> ct_sourceId t = si_reservationId input"

fun settled_row :: "settle_result \<Rightarrow> credit_transaction \<Rightarrow> bool" where
  "settled_row (Replayed t) x = (x = t)"
| "settled_row (Settled q t) x = (x = t)"
| "settled_row (AlreadyTerminal q) x = False"

fun took_effect :: "settle_result \<Rightarrow> bool" where
  "took_effect (AlreadyTerminal q) = False"
| "took_effect _ = True"

lemma update_reservations_ledger:
  "update_reservations P f s = (Inr rows, s') \<Longrightarrow> creditTransactions s' = creditTransactions s"
  by (auto simp: update_reservations_def update_rows_eq_Inr)

lemma lockReservation_id: "lockReservation app i env s = (Inr q, s') \<Longrightarrow> s' = s \<and> cr_id q = i"
  by (auto simp: lockReservation_eq_Inr dest: find_SomeD)

lemma capture_stores:
  assumes run: "captureReservation input s = (Inr r, s')" and eff: "took_effect r"
  shows "\<exists>x. settle_found input s' = Some x \<and> capture_row input x \<and> settled_row r x"
proof (cases "settle_found input s")
  case (Some t)
  then show ?thesis
    using run by (auto simp: captureReservation_def bind_eq_Inr Let_def settle_found_def capture_row_def)
next
  case None
  obtain q t txi s2 where app: "appendTransaction txi s2 = (Inr t, s')"
    and eqs: "r = Settled q t" "creditTransactions s2 = creditTransactions s"
    and "ti_applicationId txi = si_applicationId input"
      "resolveCreditEnvironment (ti_environment txi) = resolveCreditEnvironment (si_environment input)"
      "ti_type txi = CaptureUsage" "ti_amount txi = - si_amount input" "ti_sourceId txi = si_reservationId input"
      "ti_idempotencyKey txi = trim (si_idempotencyKey input)"
    and valid: "valid_amount (si_amount input)" "trim (si_idempotencyKey input) \<noteq> []"
    using run None eff
    by (auto simp: captureReservation_def bind_eq_Inr Let_def settle_found_def split: if_splits
        dest!: lockReservation_id update_accounts_ledger update_reservations_ledger consumeBuckets_ledger)
  then show ?thesis
    using None appendTransaction_row [OF app] eqs valid
    by (auto simp: settle_found_def find_append key_is_def capture_row_def)
qed

lemma release_stores:
  assumes run: "releaseReservation input s = (Inr r, s')" and eff: "took_effect r"
  shows "\<exists>x. settle_found input s' = Some x \<and> release_row input x \<and> settled_row r x"
proof (cases "settle_found input s")
  case (Some t)
  then show ?thesis
    using run by (auto simp: releaseReservation_def bind_eq_Inr Let_def settle_found_def release_row_def)
next
  case None
  obtain q t txi s2 where app: "appendTransaction txi s2 = (Inr t, s')"
    and eqs: "r = Settled q t" "creditTransactions s2 = creditTransactions s"
    and "ti_applicationId txi = si_applicationId input"
      "resolveCreditEnvironment (ti_environment txi) = resolveCreditEnvironment (si_environment input)"
      "ti_type txi = ReleaseUsage" "ti_sourceId txi = si_reservationId input"
      "ti_idempotencyKey txi = trim (si_idempotencyKey input)"
    and valid: "trim (si_idempotencyKey input) \<noteq> []"
    using run None eff
    by (auto simp: releaseReservation_def bind_eq_Inr Let_def settle_found_def split: if_splits
        dest!: lockReservation_id update_accounts_ledger update_reservations_ledger)
  then show ?thesis
    using None appendTransaction_row [OF app] eqs valid
    by (auto simp: settle_found_def find_append key_is_def release_row_def)
qed

interpretation captures: stored_answer captureReservation rows_kept "\<lambda>_. took_effect" settle_found capture_row
  same_transaction settled_row Replayed "(=)"
proof (unfold_locales, goal_cases)
  case (1 s) show ?case by simp
next
  case (2 i r s s') then show ?case by (rule capture_stores [rotated])
next
  case (3 s t i x) then show ?case unfolding settle_found_def by (rule find_later)
next
  case (4 i x y) then show ?case by (auto simp: capture_row_def dest: same_transactionD)
next
  case (5 i t y) then show ?case
    by (auto simp: captureReservation_def transaction_eq_Inr bind_eq_Inr Let_def settle_found_def capture_row_def)
qed auto

interpretation releases: stored_answer releaseReservation rows_kept "\<lambda>_. took_effect" settle_found release_row
  same_transaction settled_row Replayed "(=)"
proof (unfold_locales, goal_cases)
  case (1 s) show ?case by simp
next
  case (2 i r s s') then show ?case by (rule release_stores [rotated])
next
  case (3 s t i x) then show ?case unfolding settle_found_def by (rule find_later)
next
  case (4 i x y) then show ?case by (auto simp: release_row_def dest: same_transactionD)
next
  case (5 i t y) then show ?case
    by (auto simp: releaseReservation_def bind_eq_Inr Let_def settle_found_def release_row_def)
qed auto

subsection \<open>Reservations\<close>

definition reservation_is :: "string \<Rightarrow> environment \<Rightarrow> string \<Rightarrow> credit_reservation \<Rightarrow> bool" where
  "reservation_is app env key q \<longleftrightarrow>
     cr_applicationId q = app \<and> cr_environment q = env \<and> cr_idempotencyKey q = key"

definition reserve_found :: "reserve_input \<Rightarrow> db \<Rightarrow> (string \<times> credit_reservation) option" where
  "reserve_found input s = (case customer_found (ri_applicationId input) (ri_externalCustomerId input) s of
       None \<Rightarrow> None
     | Some c \<Rightarrow> map_option (Pair c) (List.find (reservation_is (ri_applicationId input)
         (resolveCreditEnvironment (ri_environment input)) (trim (ri_idempotencyKey input))) (creditReservations s)))"

fun reserve_row :: "reserve_input \<Rightarrow> string \<times> credit_reservation \<Rightarrow> bool" where
  "reserve_row input (c, q) \<longleftrightarrow> (\<exists>ty. normalized_key (ri_creditType input) ty) \<and> valid_amount (ri_amount input)
     \<and> trim (ri_referenceType input) \<noteq> [] \<and> trim (ri_referenceId input) \<noteq> [] \<and> trim (ri_idempotencyKey input) \<noteq> []
     \<and> cr_applicationCustomerId q = c \<and> cr_reservedAmount q = ri_amount input
     \<and> cr_referenceType q = trim (ri_referenceType input) \<and> cr_referenceId q = trim (ri_referenceId input)"

definition duplicate_reservation :: "credit_reservation \<Rightarrow> reserve_result" where
  "duplicate_reservation q = \<lparr>rr_reservation = q, rr_duplicate = True\<rparr>"

lemma expire_loop_reservations:
  "expire_account_loop i now rows s = (Inr u, s') \<Longrightarrow> creditReservations s' = creditReservations s"
proof (induction rows arbitrary: s)
  case Nil
  then show ?case by simp
next
  case (Cons b rows)
  then show ?case
    by (fastforce simp: bind_eq_Inr Let_def insert_transaction_def insert_row_eq_Inr update_accounts_def
        update_transactions_def update_buckets_def update_rows_eq_Inr split: option.splits if_splits)
qed

lemma expire_reservations:
  "expireDueBucketsForAccount app i env now s = (Inr u, s') \<Longrightarrow> creditReservations s' = creditReservations s"
  by (auto simp: expireDueBucketsForAccount_def bind_eq_Inr dest: expire_loop_reservations)

lemma update_accounts_reservations:
  "update_accounts P f s = (Inr rows, s') \<Longrightarrow> creditReservations s' = creditReservations s"
  by (auto simp: update_accounts_def update_rows_eq_Inr)

lemma appendTransaction_reservations:
  "appendTransaction input s = (Inr t, s') \<Longrightarrow> creditReservations s' = creditReservations s"
  by (auto simp: appendTransaction_def bind_eq_Inr insert_transaction_def insert_row_eq_Inr)

lemma reserve_commit_row:
  assumes "reserve_commit input c rt ri key env now u s = (Inr (Reserved q dup), s')"
  shows "creditReservations s' = creditReservations s @ [q]" and "\<not> dup" and "cr_applicationId q = ri_applicationId input"
    and "cr_applicationCustomerId q = c" "cr_environment q = env" "cr_idempotencyKey q = key"
    and "cr_reservedAmount q = ri_amount input" "cr_referenceType q = rt" "cr_referenceId q = ri"
    and "cr_creditAccountId q = ca_id u" "cr_status q = ResActive"
  using assms by (auto simp: reserve_commit_def bind_eq_Inr insert_reservation_def insert_row_eq_Inr
      dest!: appendTransaction_reservations)

lemma reserve_tx_found:
  assumes run: "reserve_tx input ty rt ri key env s = (Inr (Reserved q dup), s')"
  shows "\<exists>c. customer_found (ri_applicationId input) (ri_externalCustomerId input) s = Some c
    \<and> List.find (reservation_is (ri_applicationId input) env key) (creditReservations s') = Some q
    \<and> cr_applicationCustomerId q = c \<and> cr_reservedAmount q = ri_amount input
    \<and> cr_referenceType q = rt \<and> cr_referenceId q = ri"
proof -
  let ?find = "List.find (reservation_is (ri_applicationId input) env key)"
  have abs: "(\<lambda>r. cr_applicationId r = ri_applicationId input \<and> cr_environment r = env \<and> cr_idempotencyKey r = key)
      = reservation_is (ri_applicationId input) env key"
    by (simp add: fun_eq_iff reservation_is_def)
  obtain c where c: "customer_found (ri_applicationId input) (ri_externalCustomerId input) s = Some c"
    using run by (auto simp: reserve_tx_def bind_eq_Inr resolve_found)
  show ?thesis
  proof (cases "?find (creditReservations s)")
    case (Some x)
    then show ?thesis
      using run c by (auto simp: reserve_tx_def bind_eq_Inr resolve_found abs)
  next
    case None
    then obtain account where "reserve_locked input c rt ri key env account s = (Inr (Reserved q dup), s')"
      using run c by (auto simp: reserve_tx_def bind_eq_Inr resolve_found abs split: option.splits)
    then obtain u s2 where co: "reserve_commit input c rt ri key env (clock s) u s2 = (Inr (Reserved q dup), s')"
      and "creditReservations s2 = creditReservations s"
      by (auto simp: reserve_locked_def elim!: bind_InrE split: option.splits
          dest!: expire_reservations update_accounts_reservations)
    then show ?thesis
      using reserve_commit_row [OF co] None c by (simp add: find_append reservation_is_def)
  qed
qed

lemma reserve_stores:
  assumes run: "reserveCredits input s = (Inr r, s')"
  shows "\<exists>c. reserve_found input s' = Some (c, rr_reservation r) \<and> reserve_row input (c, rr_reservation r)"
proof -
  obtain ty q dup where r: "r = \<lparr>rr_reservation = q, rr_duplicate = dup\<rparr>"
    and ty: "normalized_key (ri_creditType input) ty"
    and valid: "valid_amount (ri_amount input)" "trim (ri_referenceType input) \<noteq> []"
      "trim (ri_referenceId input) \<noteq> []" "trim (ri_idempotencyKey input) \<noteq> []"
    and tx: "reserve_tx input ty (trim (ri_referenceType input)) (trim (ri_referenceId input))
      (trim (ri_idempotencyKey input)) (resolveCreditEnvironment (ri_environment input)) s = (Inr (Reserved q dup), s')"
    using run by (auto simp: reserveCredits_def Let_def elim!: bind_InrE split: reserve_outcome.splits)
  show ?thesis
    using reserve_tx_found [OF tx] customer_found_later [OF honoursD [OF kept.reserve_tx tx]] ty valid
    by (auto simp: reserve_found_def r)
qed

lemma reserve_answers:
  assumes found: "reserve_found input s = Some (c, q)" and row: "reserve_row input (c, q)"
  shows "reserveCredits input s = (Inr (duplicate_reservation q), s)"
proof -
  let ?env = "resolveCreditEnvironment (ri_environment input)"
  obtain ty where ty: "normalized_key (ri_creditType input) ty" using row by auto
  have f: "List.find (\<lambda>r. cr_applicationId r = ri_applicationId input \<and> cr_environment r = ?env
      \<and> cr_idempotencyKey r = trim (ri_idempotencyKey input)) (creditReservations s) = Some q"
    and c: "customer_found (ri_applicationId input) (ri_externalCustomerId input) s = Some c"
    using found by (auto simp: reserve_found_def reservation_is_def [abs_def] split: option.splits)
  have "reserve_tx input ty (trim (ri_referenceType input)) (trim (ri_referenceId input))
      (trim (ri_idempotencyKey input)) ?env s = (Inr (Reserved q True), s)"
    using row f c by (auto simp: reserve_tx_def bind_eq_Inr resolve_found)
  then show ?thesis
    using row ty
    by (auto simp: reserveCredits_def bind_eq_Inr Let_def duplicate_reservation_def transaction_eq_Inr
      intro!: exI [of _ ty] exI [of _ "Reserved q True"])
qed

interpretation reserves: stored_answer reserveCredits rows_kept "\<lambda>_ _. True" reserve_found reserve_row
  "\<lambda>x y. fst y = fst x \<and> same_reservation (snd x) (snd y)" "\<lambda>r x. rr_reservation r = snd x"
  "\<lambda>x. duplicate_reservation (snd x)" "(=)"
proof (unfold_locales, goal_cases)
  case (1 s) show ?case by simp
next
  case (2 i r s s') then show ?case using reserve_stores by fastforce
next
  case (3 s t i x)
  obtain c q where x: "x = (c, q)" by (cases x)
  have "table_kept same_reservation (creditReservations s) (creditReservations t)"
    using 3(1) by (simp add: rows_kept_def)
  note find = table_kept_find [OF this, of "reservation_is (ri_applicationId i)
      (resolveCreditEnvironment (ri_environment i)) (trim (ri_idempotencyKey i))"]
  show ?case
    using 3(2) x customer_found_later [OF 3(1)] find
    by (fastforce simp: reserve_found_def reservation_is_def dest: same_reservationD split: option.splits)
next
  case (4 i x y) then show ?case by (cases x; cases y) (auto dest: same_reservationD)
next
  case (5 i t y) then show ?case by (cases y) (simp add: reserve_answers)
qed auto

end
