(* ===== verification/CreditConsumption.thy ===== *)
theory CreditConsumption
  imports CreditReplay
begin

text \<open>
  What consumption promises, as a function of the bucket rows: \<open>drained\<close> takes an amount
  from the rows in order, \<open>overlay\<close> writes the result back by id, and the statement loop of
  \<open>consumeBuckets\<close> computes exactly that. The spending order and the amounts of every
  debit and capture follow from facts about \<open>drained\<close> alone.
\<close>

subsection \<open>The specification\<close>

fun drained :: "int \<Rightarrow> int \<Rightarrow> credit_bucket list \<Rightarrow> credit_bucket list" where
  "drained now n [] = []"
| "drained now n (b # bs) =
     (if n \<le> 0 then []
      else let tk = min (cb_remainingAmount b) n
           in set_remaining BktConsumed (cb_remainingAmount b - tk) now b # drained now (n - tk) bs)"

definition overlay :: "credit_bucket list \<Rightarrow> credit_bucket list \<Rightarrow> credit_bucket list" where
  "overlay ds bs = map (\<lambda>b. case List.find (\<lambda>d. cb_id d = cb_id b) ds of None \<Rightarrow> b | Some d \<Rightarrow> d) bs"

lemma overlay_Nil [simp]: "overlay [] bs = bs"
  by (simp add: overlay_def)

lemma drained_ids: "set (map cb_id (drained now n rows)) \<subseteq> set (map cb_id rows)"
  by (induction rows arbitrary: n) (auto simp: Let_def)

lemma overlay_Cons:
  assumes "cb_id d = cb_id x" and "x \<in> set bs" and "distinct (map cb_id bs)"
    and "cb_id x \<notin> cb_id ` set ds"
  shows "overlay (d # ds) bs = overlay ds (update_where (\<lambda>y. cb_id y = cb_id x) (\<lambda>_. d) bs)"
proof -
  have none: "List.find (\<lambda>e. cb_id e = cb_id x) ds = None"
    unfolding find_None_iff2 using assms(4) by (metis imageI)
  show ?thesis
    using assms(1) none unfolding overlay_def update_where_def
    by (auto simp: eq_commute [of "cb_id x"])
qed

lemma consume_loop_drains:
  assumes "consume_loop now rows n s = (Inr r, s')" and "distinct (map cb_id rows)"
    and "set rows \<subseteq> set (creditBuckets s)" and "distinct (map cb_id (creditBuckets s))"
  shows "creditBuckets s' = overlay (drained now n rows) (creditBuckets s)"
  using assms
proof (induction rows arbitrary: n s)
  case Nil
  then show ?case by simp
next
  case (Cons x rows)
  show ?case
  proof (cases "n \<le> 0")
    case True
    then show ?thesis using Cons.prems(1) by simp
  next
    case False
    define d where d: "d = set_remaining BktConsumed (cb_remainingAmount x - min (cb_remainingAmount x) n) now x"
    obtain hit s1 where upd: "update_buckets (\<lambda>y. cb_id y = cb_id x)
        (set_remaining BktConsumed (cb_remainingAmount x - min (cb_remainingAmount x) n) now) s = (Inr hit, s1)"
      and rest: "consume_loop now rows (n - min (cb_remainingAmount x) n) s1 = (Inr r, s')"
      using Cons.prems(1) False by (auto simp: Let_def bind_eq_Inr)
    have b1: "creditBuckets s1 = update_where (\<lambda>y. cb_id y = cb_id x) (\<lambda>_. d) (creditBuckets s)"
    proof -
      have "creditBuckets s1 = update_where (\<lambda>y. cb_id y = cb_id x)
          (set_remaining BktConsumed (cb_remainingAmount x - min (cb_remainingAmount x) n) now) (creditBuckets s)"
        using upd by (auto simp: update_buckets_def update_rows_eq_Inr)
      also have "\<dots> = update_where (\<lambda>y. cb_id y = cb_id x) (\<lambda>_. d) (creditBuckets s)"
      proof (rule update_where_cong)
        fix y assume "y \<in> set (creditBuckets s)" "cb_id y = cb_id x"
        then have "y = x" using distinct_key_eq [OF Cons.prems(4)] Cons.prems(3) by auto
        then show "set_remaining BktConsumed (cb_remainingAmount x - min (cb_remainingAmount x) n) now y = d"
          by (simp add: d)
      qed
      finally show ?thesis .
    qed
    have sub: "set rows \<subseteq> set (creditBuckets s1)"
      using Cons.prems(2,3) unfolding b1 by (force simp: set_update_where image_iff simp del: if_image_distrib)
    have dist: "distinct (map cb_id (creditBuckets s1))"
      using Cons.prems(4) unfolding b1 by (subst map_update_where_same) (simp_all add: d)
    have out: "cb_id x \<notin> cb_id ` set (drained now (n - min (cb_remainingAmount x) n) rows)"
      using drained_ids [of now "n - min (cb_remainingAmount x) n" rows] Cons.prems(2) by auto
    have "creditBuckets s' = overlay (drained now (n - min (cb_remainingAmount x) n) rows) (creditBuckets s1)"
      using Cons.IH [OF rest _ sub dist] Cons.prems(2) by simp
    also have "\<dots> = overlay (d # drained now (n - min (cb_remainingAmount x) n) rows) (creditBuckets s)"
      unfolding b1 by (rule overlay_Cons [symmetric]) (use Cons.prems out in \<open>auto simp: d\<close>)
    finally show ?thesis using False by (simp add: Let_def d)
  qed
qed

text \<open>The rows a consumption may draw on, in the order it draws on them.\<close>

definition spendable :: "string \<Rightarrow> bool \<Rightarrow> db \<Rightarrow> credit_bucket list" where
  "spendable i allow s = sort_key consumption_key (filter (consumable i allow (clock s)) (creditBuckets s))"

definition remaining_sum :: "credit_bucket list \<Rightarrow> int" where
  "remaining_sum bs = sum_list (map cb_remainingAmount bs)"

lemma consume_loop_rest:
  "consume_loop now rows n s = (Inr r, s') \<Longrightarrow> 0 \<le> n \<Longrightarrow> \<forall>b \<in> set rows. 0 \<le> cb_remainingAmount b \<Longrightarrow>
   r = max 0 (n - remaining_sum rows)"
proof (induction rows arbitrary: n s)
  case Nil
  then show ?case by (simp add: remaining_sum_def)
next
  case (Cons b rows)
  show ?case
  proof (cases "n \<le> 0")
    case True
    moreover have "0 \<le> remaining_sum (b # rows)"
      using Cons.prems(3) unfolding remaining_sum_def by (intro sum_list_nonneg) auto
    ultimately show ?thesis using Cons.prems by simp
  next
    case False
    then obtain s1 where "consume_loop now rows (n - min (cb_remainingAmount b) n) s1 = (Inr r, s')"
      using Cons.prems(1) by (auto simp: Let_def bind_eq_Inr)
    from Cons.IH [OF this] Cons.prems
    have r: "r = max 0 (n - min (cb_remainingAmount b) n - remaining_sum rows)" by simp
    have "0 \<le> remaining_sum rows" using Cons.prems(3) unfolding remaining_sum_def by (intro sum_list_nonneg) auto
    then show ?thesis unfolding r by (simp add: remaining_sum_def)
  qed
qed

subsection \<open>Facts about drained rows\<close>

text \<open>A row that is drawn on leaves nothing in any row before it.\<close>

lemma drained_prefix:
  assumes "drained now n (xs @ x # ys) = ds" and "length xs < length ds"
    and "\<forall>b \<in> set (xs @ x # ys). 0 \<le> cb_remainingAmount b"
  shows "\<forall>d \<in> set (take (length xs) ds). cb_remainingAmount d = 0"
  using assms
proof (induction xs arbitrary: n ds)
  case Nil
  then show ?case by simp
next
  case (Cons b xs)
  let ?tk = "min (cb_remainingAmount b) n"
  have n: "\<not> n \<le> 0" using Cons.prems(1,2) by auto
  obtain es where ds: "ds = set_remaining BktConsumed (cb_remainingAmount b - ?tk) now b # es"
    and es: "drained now (n - ?tk) (xs @ x # ys) = es"
    by (rule that [OF _ refl]) (use Cons.prems(1) n in \<open>auto simp: Let_def\<close>)
  have "es \<noteq> []" using Cons.prems(2) ds by auto
  then have "0 < n - ?tk" using es by (cases "xs @ x # ys") (auto split: if_splits)
  then have "cb_remainingAmount b - ?tk = 0" by simp
  moreover have "\<forall>d \<in> set (take (length xs) es). cb_remainingAmount d = 0"
    using Cons.IH [OF es] Cons.prems(2,3) ds by simp
  ultimately show ?case by (simp add: ds)
qed

lemma drained_prefix_ids: "map cb_id (drained now n rows) = take (length (drained now n rows)) (map cb_id rows)"
  by (induction rows arbitrary: n) (auto simp: Let_def)

lemma drained_order:
  assumes dist: "distinct (map cb_id (xs @ x # ys))" and pos: "\<forall>b \<in> set (xs @ x # ys). 0 \<le> cb_remainingAmount b"
    and drawn: "cb_id x \<in> cb_id ` set (drained now n (xs @ x # ys))" and b: "b \<in> set xs"
  shows "\<exists>d \<in> set (drained now n (xs @ x # ys)). cb_id d = cb_id b \<and> cb_remainingAmount d = 0"
proof -
  let ?ds = "drained now n (xs @ x # ys)"
  have ids: "map cb_id ?ds = take (length ?ds) (map cb_id (xs @ x # ys))" by (rule drained_prefix_ids)
  have len: "length xs < length ?ds"
  proof (rule ccontr)
    assume "\<not> length xs < length ?ds"
    then have "map cb_id ?ds = take (length ?ds) (map cb_id xs)" using ids by simp
    then have "cb_id x \<in> cb_id ` set xs" using drawn by (metis image_set in_set_takeD list.set_map)
    then show False using dist by auto
  qed
  have zero: "\<forall>d \<in> set (take (length xs) ?ds). cb_remainingAmount d = 0"
    by (rule drained_prefix [OF refl len pos])
  have "map cb_id (take (length xs) ?ds) = map cb_id xs"
    using ids len by (simp add: take_map [symmetric] min_def)
  then have "cb_id b \<in> cb_id ` set (take (length xs) ?ds)" using b by (metis image_eqI list.set_map)
  then show ?thesis using zero by (auto dest: in_set_takeD)
qed

lemma overlay_unchanged: "b \<in> set bs \<Longrightarrow> cb_id b \<notin> cb_id ` set ds \<Longrightarrow> b \<in> set (overlay ds bs)"
proof -
  assume b: "b \<in> set bs" and "cb_id b \<notin> cb_id ` set ds"
  then have "List.find (\<lambda>d. cb_id d = cb_id b) ds = None"
    unfolding find_None_iff2 by (metis imageI)
  then show ?thesis unfolding overlay_def using b by (force simp: image_iff)
qed

lemma overlay_mem:
  assumes "d \<in> set ds" and "distinct (map cb_id ds)" and "b \<in> set bs" and "cb_id b = cb_id d"
  shows "d \<in> set (overlay ds bs)"
proof -
  have "List.find (\<lambda>e. cb_id e = cb_id b) ds = Some d"
    using assms by (intro find_keyed) auto
  then show ?thesis unfolding overlay_def using assms(3) by (force simp: image_iff)
qed

subsection \<open>Consumption in a state that satisfies the invariant\<close>

lemma spendable_facts:
  assumes inv: "off i b l r s"
  shows "distinct (map cb_id (spendable j allow s))" and "set (spendable j allow s) \<subseteq> set (creditBuckets s)"
    and "distinct (map cb_id (creditBuckets s))" and "\<forall>b \<in> set (spendable j allow s). 0 < cb_remainingAmount b"
proof -
  show d: "distinct (map cb_id (creditBuckets s))" using inv by (simp add: off_def buckets_ok_def)
  then show "distinct (map cb_id (spendable j allow s))"
    by (simp add: spendable_def distinct_map inj_on_def)
  show sub: "set (spendable j allow s) \<subseteq> set (creditBuckets s)" by (auto simp: spendable_def)
  show "\<forall>b \<in> set (spendable j allow s). 0 < cb_remainingAmount b"
    using inv by (auto simp: spendable_def consumable_def off_def buckets_ok_def)
qed

lemma consumeBuckets_drains:
  assumes run: "consumeBuckets j n allow s = (Inr u, s')" and inv: "off i b l r s"
  shows "creditBuckets s' = overlay (drained (clock s) n (spendable j allow s)) (creditBuckets s)"
    and "0 < n \<Longrightarrow> n \<le> remaining_sum (spendable j allow s)"
proof -
  note f = spendable_facts [OF inv]
  show "creditBuckets s' = overlay (drained (clock s) n (spendable j allow s)) (creditBuckets s)"
  proof (cases "n \<le> 0")
    case True
    then show ?thesis using run by (cases "spendable j allow s") (simp_all add: consumeBuckets_def)
  next
    case False
    then obtain rem where "consume_loop (clock s) (spendable j allow s) n s = (Inr rem, s')"
      using run by (auto simp: consumeBuckets_def spendable_def bind_eq_Inr)
    from consume_loop_drains [OF this f(1,2,3)] show ?thesis .
  qed
  assume n: "0 < n"
  then obtain rem where "consume_loop (clock s) (spendable j allow s) n s = (Inr rem, s')" "\<not> 0 < rem"
    using run by (auto simp: consumeBuckets_def spendable_def bind_eq_Inr)
  then show "n \<le> remaining_sum (spendable j allow s)"
    using consume_loop_rest [of "clock s" "spendable j allow s" n s rem s'] n f(4) [of j allow] by fastforce
qed

lemma sorted_before:
  assumes b: "b \<in> set rows" "x \<in> set rows" and less: "(k b :: 'k :: linorder) < k x" and sorted: "sorted (map k rows)"
  shows "\<exists>xs ys. rows = xs @ x # ys \<and> b \<in> set xs"
proof -
  obtain xs ys where rows: "rows = xs @ x # ys" using b(2) by (meson split_list)
  have "b \<notin> set (x # ys)"
    using sorted less unfolding rows by (auto simp: sorted_append)
  then show ?thesis using rows b(1) by auto
qed

lemma consumed_is_spendable:
  assumes run: "consumeBuckets j n allow s = (Inr u, s')" and inv: "off i bo l r s"
    and x: "x \<in> set (creditBuckets s)" and drawn: "x \<notin> set (creditBuckets s')"
  shows "consumable j allow (clock s) x" and "cb_id x \<in> cb_id ` set (drained (clock s) n (spendable j allow s))"
    and "x \<in> set (spendable j allow s)"
proof -
  let ?rows = "spendable j allow s"
  note f = spendable_facts [OF inv]
  show xd: "cb_id x \<in> cb_id ` set (drained (clock s) n ?rows)"
    using drawn overlay_unchanged [OF x] unfolding consumeBuckets_drains(1) [OF run inv] by blast
  then have "cb_id x \<in> cb_id ` set ?rows" using drained_ids [of "clock s" n ?rows] by auto
  then obtain y where y: "y \<in> set ?rows" "cb_id y = cb_id x" by auto
  then have "y \<in> set (creditBuckets s)" using f(2) [of j allow] by blast
  then have "y = x" using distinct_key_eq [OF f(3) _ x] y(2) by blast
  then show "x \<in> set ?rows" using y(1) by simp
  then show "consumable j allow (clock s) x" by (simp add: spendable_def)
qed

text \<open>Soonest-expiring first.\<close>

lemma consumption_order:
  assumes run: "consumeBuckets j n allow s = (Inr u, s')" and inv: "off i bo l r s"
    and b: "b \<in> set (creditBuckets s)" "consumable j allow (clock s) b"
    and x: "x \<in> set (creditBuckets s)" and less: "consumption_key b < consumption_key x"
    and drawn: "x \<notin> set (creditBuckets s')"
  shows "\<exists>d \<in> set (creditBuckets s'). cb_id d = cb_id b \<and> cb_remainingAmount d = 0"
proof -
  let ?rows = "spendable j allow s"
  let ?ds = "drained (clock s) n ?rows"
  note f = spendable_facts [OF inv]
  note xs = consumed_is_spendable [OF run inv x drawn]
  have br: "b \<in> set ?rows" using b by (simp add: spendable_def)
  have "sorted (map consumption_key ?rows)" by (simp add: spendable_def)
  from sorted_before [OF br xs(3) less this] obtain ps ys where rows: "?rows = ps @ x # ys" "b \<in> set ps" by blast
  have pos: "\<forall>b \<in> set ?rows. 0 \<le> cb_remainingAmount b" using f(4) [of j allow] by fastforce
  obtain d where d: "d \<in> set ?ds" "cb_id d = cb_id b" "cb_remainingAmount d = 0"
    using drained_order [of ps x ys "clock s" n b] f(1) [of j allow] pos xs(2) rows by auto
  have "distinct (map cb_id ?ds)"
    using f(1) [of j allow] unfolding drained_prefix_ids [of "clock s" n ?rows] by (rule distinct_take)
  then show ?thesis
    using overlay_mem [OF d(1) _ b(1)] d unfolding consumeBuckets_drains(1) [OF run inv] by auto
qed

end
