(* ===== verification/CreditExamples.thy ===== *)
theory CreditExamples
  imports CreditConsumption
begin

text \<open>
  Concrete inputs and runs of the credit operations: one customer, a purchase of credits in
  one or two buckets, and what is then spent. The properties of the credit components are
  instantiated on these runs, which the simplifier evaluates with \<open>run_simps\<close>.
\<close>

definition demo_db :: db where
  "demo_db = empty_db\<lparr>clock := 1000, applicationCustomers :=
     [\<lparr>ac_id = ''cu'', ac_applicationId = ''app'', ac_customerId = ''c'',
       ac_externalCustomerId = ''user'', ac_email = None, ac_metadata = []\<rparr>]\<rparr>"

definition demo_grant :: "int \<Rightarrow> int option \<Rightarrow> string \<Rightarrow> grant_input" where
  "demo_grant n e key = \<lparr>gi_applicationId = ''app'', gi_applicationCustomerId = ''cu'', gi_creditType = ''img'',
     gi_amount = n, gi_transactionType = GrantPurchase, gi_sourceType = ''order'', gi_sourceId = ''o'',
     gi_idempotencyKey = key, gi_environment = Some Live, gi_expiresAt = e, gi_metadata = None\<rparr>"

definition demo_debit :: "int \<Rightarrow> string \<Rightarrow> debit_input" where
  "demo_debit n key = \<lparr>di_applicationId = ''app'', di_externalCustomerId = ''user'', di_creditType = ''img'',
     di_amount = n, di_sourceType = ''use'', di_sourceId = ''u'', di_idempotencyKey = key,
     di_environment = Some Live, di_metadata = None\<rparr>"

definition demo_reserve :: "int \<Rightarrow> string \<Rightarrow> reserve_input" where
  "demo_reserve n key = \<lparr>ri_applicationId = ''app'', ri_externalCustomerId = ''user'', ri_creditType = ''img'',
     ri_amount = n, ri_referenceType = ''job'', ri_referenceId = ''j'', ri_idempotencyKey = key,
     ri_expiresAt = None, ri_environment = Some Live, ri_metadata = None\<rparr>"

definition demo_settle :: "int \<Rightarrow> string \<Rightarrow> settle_input" where
  "demo_settle n key = \<lparr>si_applicationId = ''app'', si_reservationId = ''cres_3'', si_amount = n,
     si_idempotencyKey = key, si_environment = Some Live, si_metadata = None\<rparr>"

lemmas [run_simps] = demo_db_def demo_grant_def demo_debit_def demo_reserve_def demo_settle_def

text \<open>After a purchase of 100 credits, after a second one of 50 that expire first, after a
  reservation of 40 out of the 100.\<close>

definition demo_one :: db where
  "demo_one = after (grantCredits (demo_grant 100 None ''g'')) demo_db"

definition demo_two :: db where
  "demo_two = after (grantCredits (demo_grant 50 (Some 5000) ''h'')) demo_one"

definition demo_held :: db where
  "demo_held = after (reserveCredits (demo_reserve 40 ''r'')) demo_one"

text \<open>The states these runs end in, row by row.\<close>

definition demo_account :: "int \<Rightarrow> int \<Rightarrow> int \<Rightarrow> credit_account" where
  "demo_account available reserved version =
     \<lparr>ca_id = ''credit_0'', ca_applicationId = ''app'', ca_applicationCustomerId = ''cu'', ca_creditType = ''img'',
      ca_environment = Live, ca_availableBalance = available, ca_reservedBalance = reserved,
      ca_version = version, ca_createdAt = 1000, ca_updatedAt = 1000\<rparr>"

definition demo_row :: "string \<Rightarrow> credit_tx_type \<Rightarrow> int \<Rightarrow> int \<Rightarrow> int \<Rightarrow> string \<Rightarrow> string \<Rightarrow> string \<Rightarrow> json_object
    \<Rightarrow> credit_transaction" where
  "demo_row i ty n available reserved source source_id key meta =
     \<lparr>ct_id = i, ct_applicationId = ''app'', ct_applicationCustomerId = ''cu'', ct_creditAccountId = ''credit_0'',
      ct_type = ty, ct_amount = n, ct_availableAfter = available, ct_reservedAfter = reserved,
      ct_sourceType = source, ct_sourceId = source_id, ct_idempotencyKey = key, ct_environment = Live,
      ct_metadata = meta, ct_createdAt = 1000\<rparr>"

definition demo_bucket :: "string \<Rightarrow> string \<Rightarrow> int \<Rightarrow> int option \<Rightarrow> credit_bucket" where
  "demo_bucket i tx n expires =
     \<lparr>cb_id = i, cb_applicationId = ''app'', cb_environment = Live, cb_applicationCustomerId = ''cu'',
      cb_creditAccountId = ''credit_0'', cb_creditType = ''img'', cb_sourceType = SrcPurchase, cb_sourceId = ''o'',
      cb_transactionId = tx, cb_grantedAmount = n, cb_remainingAmount = n, cb_expiresAt = expires,
      cb_status = BktActive, cb_createdAt = 1000, cb_updatedAt = 1000\<rparr>"

definition demo_reservation :: credit_reservation where
  "demo_reservation = \<lparr>cr_id = ''cres_3'', cr_applicationId = ''app'', cr_applicationCustomerId = ''cu'',
     cr_creditAccountId = ''credit_0'', cr_reservedAmount = 40, cr_environment = Live, cr_capturedAmount = 0,
     cr_status = ResActive, cr_referenceType = ''job'', cr_referenceId = ''j'', cr_idempotencyKey = ''r'',
     cr_expiresAt = None, cr_createdAt = 1000, cr_updatedAt = 1000\<rparr>"

lemmas [run_simps] = demo_account_def demo_row_def demo_bucket_def demo_reservation_def

lemma demo_one_state:
  "demo_one = demo_db\<lparr>uuids := 3, creditAccounts := [demo_account 100 0 1],
     creditTransactions := [demo_row ''ctx_1'' GrantPurchase 100 100 0 ''order'' ''o'' ''g'' []],
     creditBuckets := [demo_bucket ''bucket_2'' ''ctx_1'' 100 None]\<rparr>"
  by (simp add: demo_one_def run_simps cong: run_congs)

lemma demo_two_state:
  "demo_two = demo_db\<lparr>uuids := 6, creditAccounts := [demo_account 150 0 2],
     creditTransactions := [demo_row ''ctx_1'' GrantPurchase 100 100 0 ''order'' ''o'' ''g'' [],
       demo_row ''ctx_4'' GrantPurchase 50 150 0 ''order'' ''o'' ''h''
         [(''expiresAt'', JStr (toISOString 5000))]],
     creditBuckets := [demo_bucket ''bucket_2'' ''ctx_1'' 100 None, demo_bucket ''bucket_5'' ''ctx_4'' 50 (Some 5000)]\<rparr>"
  by (simp add: demo_two_def demo_one_state run_simps cong: run_congs)

lemma demo_held_state:
  "demo_held = demo_db\<lparr>uuids := 5, creditAccounts := [demo_account 60 40 2],
     creditTransactions := [demo_row ''ctx_1'' GrantPurchase 100 100 0 ''order'' ''o'' ''g'' [],
       demo_row ''ctx_4'' ReserveUsage (- 40) 60 40 ''reservation'' ''cres_3'' ''r''
         [(''referenceType'', JStr ''job''), (''referenceId'', JStr ''j'')]],
     creditReservations := [demo_reservation],
     creditBuckets := [demo_bucket ''bucket_2'' ''ctx_1'' 100 None]\<rparr>"
  by (simp add: demo_held_def demo_one_state run_simps cong: run_congs)

lemmas [run_simps] = demo_one_state demo_two_state demo_held_state

definition demo_system :: "db \<Rightarrow> credit_system" where
  "demo_system s = \<lparr>database = s, scanned = []\<rparr>"

lemma demo_system_simps [simp]: "database (demo_system s) = s" "scanned (demo_system s) = []"
  "(demo_system s)\<lparr>database := t\<rparr> = demo_system t"
  by (simp_all add: demo_system_def)

lemma demo_start: "credit_reachable (demo_system demo_db)"
  by (rule reachable.start) (simp add: credit_init_def demo_db_def empty_db_def)

lemma demo_step_grant:
  "credit_reachable (demo_system s) \<Longrightarrow> credit_reachable (demo_system (after (grantCredits (demo_grant n e k)) s))"
  by (erule reachable.next_state)
    (use credit_step.grant [of "demo_grant n e k" "demo_system s"] in
      \<open>simp add: after_def demo_grant_def prod_eq_iff\<close>)

lemma demo_one_reachable: "credit_reachable (demo_system demo_one)"
  unfolding demo_one_def by (intro demo_step_grant demo_start)

lemma demo_two_reachable: "credit_reachable (demo_system demo_two)"
  unfolding demo_two_def by (intro demo_step_grant demo_one_reachable)

lemma demo_held_reachable: "credit_reachable (demo_system demo_held)"
  using reachable.next_state [OF demo_one_reachable credit_step.reserve, of "demo_reserve 40 ''r''"]
  by (simp add: demo_held_def after_def prod_eq_iff)

end
