(* ===== verification/CreditProperties.thy ===== *)
theory CreditProperties
  imports CreditExamples
begin

text \<open>
  The properties of the credit subsystem: the ledger invariants in every reachable state,
  exactly-once mutations, what each operation does to balances, buckets and reservations,
  and the order credits are spent in.
\<close>

subsection \<open>Invariants of every reachable state\<close>

lemma reachable_credit_inv: "credit_reachable c \<Longrightarrow> credit_inv (database c)"
  using ledger.reachable_inv by (simp add: system_inv_def)

lemma reachable_off: "credit_reachable c \<Longrightarrow> off i 0 0 0 (database c)"
  using credit_inv_off reachable_credit_inv by blast

text \<open>C1. Backing: in every state the credit operations can reach, under any interleaving
  with a running expiry sweep, the active buckets of an account hold exactly what it has
  available plus what it has reserved, and neither balance is negative.\<close>

theorem credits_are_backed_by_buckets:
  assumes "credit_reachable c" and "a \<in> set (creditAccounts (database c))"
  shows "bucket_sum (ca_id a) (creditBuckets (database c)) = ca_availableBalance a + ca_reservedBalance a
    \<and> 0 \<le> ca_availableBalance a \<and> 0 \<le> ca_reservedBalance a"
  using reachable_credit_inv [OF assms(1)] assms(2)
  by (auto simp: credit_inv_def off_def accounts_ok_def account_check_def total_balance_def)

theorem credits_are_backed_by_buckets_witness:
  "\<exists>a. a \<in> set (creditAccounts demo_held) \<and> ca_availableBalance a = 60 \<and> ca_reservedBalance a = 40
     \<and> bucket_sum (ca_id a) (creditBuckets demo_held) = 100"
proof -
  have a: "hd (creditAccounts demo_held) \<in> set (creditAccounts demo_held)"
    and v: "ca_availableBalance (hd (creditAccounts demo_held)) = 60" "ca_reservedBalance (hd (creditAccounts demo_held)) = 40"
    by (simp_all add: run_simps cong: run_congs)
  show ?thesis
    using credits_are_backed_by_buckets [OF demo_held_reachable, of "hd (creditAccounts demo_held)"] a v by auto
qed

text \<open>C2. The ledger explains the balances: the signed amounts of an account's ledger rows,
  reserve and release rows aside, add up to available plus reserved, and its reserved
  balance is the total of its open reservations.\<close>

theorem ledger_explains_balances:
  assumes "credit_reachable c" and "a \<in> set (creditAccounts (database c))"
  shows "ledger_sum (ca_id a) (creditTransactions (database c)) = ca_availableBalance a + ca_reservedBalance a
    \<and> reserved_sum (ca_id a) (creditReservations (database c)) = ca_reservedBalance a"
  using reachable_credit_inv [OF assms(1)] assms(2)
  by (auto simp: credit_inv_def off_def total_balance_def)

theorem ledger_explains_balances_witness:
  "\<exists>a. a \<in> set (creditAccounts demo_held) \<and> reserved_sum (ca_id a) (creditReservations demo_held) = 40
     \<and> ledger_sum (ca_id a) (creditTransactions demo_held) = 100"
proof -
  have a: "hd (creditAccounts demo_held) \<in> set (creditAccounts demo_held)"
    and v: "ca_availableBalance (hd (creditAccounts demo_held)) = 60" "ca_reservedBalance (hd (creditAccounts demo_held)) = 40"
    by (simp_all add: run_simps cong: run_congs)
  show ?thesis
    using ledger_explains_balances [OF demo_held_reachable, of "hd (creditAccounts demo_held)"] a v by auto
qed

text \<open>C3. The ledger is append-only: whatever steps follow, every stored ledger row keeps its
  position, account, type, amount, source, key and metadata, and no row is removed.\<close>

theorem ledger_is_append_only:
  assumes "credit_reachable c" and "credit_step\<^sup>*\<^sup>* c d" and "n < length (creditTransactions (database c))"
  shows "n < length (creditTransactions (database d))
    \<and> same_transaction (creditTransactions (database c) ! n) (creditTransactions (database d) ! n)"
proof -
  have "rows_kept (database c) (database d)"
    using ledger.steps_later [OF assms(2)] ledger.reachable_inv [OF assms(1)] by (simp add: later_system_def)
  then have l: "list_all2 same_transaction (creditTransactions (database c))
      (take (length (creditTransactions (database c))) (creditTransactions (database d)))"
    by (simp add: rows_kept_def table_kept_def)
  show ?thesis
    using list_all2_lengthD [OF l] list_all2_nthD [OF l assms(3)] assms(3) by simp
qed

text \<open>The step of a reservation against the example system.\<close>

lemma demo_held_step: "credit_step\<^sup>*\<^sup>* (demo_system demo_one) (demo_system demo_held)"
  using credit_step.reserve [of "demo_reserve 40 ''r''" "demo_system demo_one"]
  by (intro r_into_rtranclp) (simp add: demo_held_def after_def prod_eq_iff)

theorem ledger_is_append_only_witness:
  "same_transaction (creditTransactions demo_one ! 0) (creditTransactions demo_held ! 0)"
proof -
  have "0 < length (creditTransactions demo_one)"
    by (simp add: run_simps cong: run_congs)
  then show ?thesis
    using ledger_is_append_only [OF demo_one_reachable demo_held_step, of 0] by simp
qed

subsection \<open>Exactly once\<close>

lemma later_rows: "credit_reachable c \<Longrightarrow> credit_step\<^sup>*\<^sup>* c d \<Longrightarrow> rows_kept (database c) (database d)"
  using ledger.steps_later ledger.reachable_inv by (fastforce simp: later_system_def)

lemma later_rows_after:
  assumes "credit_reachable c" and "credit_step c (c\<lparr>database := s'\<rparr>)" and "credit_step\<^sup>*\<^sup>* (c\<lparr>database := s'\<rparr>) d"
  shows "rows_kept s' (database d)"
  using later_rows [OF reachable.next_state [OF assms(1,2)] assms(3)] by simp

text \<open>C4. A grant is applied once: when a grant has succeeded whose metadata do not contradict its
  expiry (they have no \<open>expiresAt\<close>, or the ISO text of the grant's own, and no key twice), the
  same request made again in any later state, whatever happened in between, returns the stored
  transaction as a duplicate and changes nothing. With a contradicting \<open>expiresAt\<close>, such as an
  explicit null beside a date, the replay may throw the conflict error instead.\<close>

theorem grant_applies_once:
  assumes "credit_reachable c" and "is_grant_tx (gi_transactionType i)" and "consistent_expiry i"
    and "grantCredits i (database c) = (Inr r, s')" and "credit_step\<^sup>*\<^sup>* (c\<lparr>database := s'\<rparr>) d"
  shows "\<exists>t. grantCredits i (database d) = (Inr \<lparr>tr_transaction = t, tr_duplicate = True\<rparr>, database d)
    \<and> same_transaction (tr_transaction r) t"
proof -
  have "rows_kept s' (database d)"
    using later_rows_after [OF assms(1) credit_step.grant [OF assms(2,4)] assms(5)] .
  from grants.replay [OF assms(3,4) this] show ?thesis by (auto simp: duplicate_of_def)
qed

theorem grant_applies_once_witness:
  "\<exists>t. grantCredits (demo_grant 100 None ''g'') demo_held
     = (Inr \<lparr>tr_transaction = t, tr_duplicate = True\<rparr>, demo_held)"
proof -
  let ?i = "demo_grant 100 None ''g''"
  have "succeeds (grantCredits ?i) demo_db" by (simp add: run_simps cong: run_congs)
  then have run: "grantCredits ?i (database (demo_system demo_db)) = (Inr (result (grantCredits ?i) demo_db), demo_one)"
    using succeeds_run by (simp add: demo_one_def)
  have ok: "is_grant_tx (gi_transactionType ?i)" "consistent_expiry ?i"
    by (simp_all add: demo_grant_def consistent_expiry_def or_empty_def metadata_expiry_def)
  have later: "credit_step\<^sup>*\<^sup>* ((demo_system demo_db)\<lparr>database := demo_one\<rparr>) (demo_system demo_held)"
    using demo_held_step by simp
  show ?thesis using grant_applies_once [OF demo_start ok run later] by auto
qed

text \<open>A debit is applied once, by the same contract: a repeated debit never spends again.\<close>

theorem debit_applies_once:
  assumes "credit_reachable c" and "debitCredits i (database c) = (Inr r, s')"
    and "credit_step\<^sup>*\<^sup>* (c\<lparr>database := s'\<rparr>) d"
  shows "\<exists>t. debitCredits i (database d) = (Inr \<lparr>tr_transaction = t, tr_duplicate = True\<rparr>, database d)
    \<and> same_transaction (tr_transaction r) t"
proof -
  have "rows_kept s' (database d)"
    using later_rows_after [OF assms(1) credit_step.debit [OF assms(2)] assms(3)] .
  from debits.replay [OF TrueI assms(2) this] show ?thesis by (auto simp: duplicate_of_def)
qed

theorem debit_applies_once_witness:
  "\<exists>t. debitCredits (demo_debit 30 ''d'') (after (debitCredits (demo_debit 30 ''d'')) demo_one)
     = (Inr \<lparr>tr_transaction = t, tr_duplicate = True\<rparr>, after (debitCredits (demo_debit 30 ''d'')) demo_one)"
proof -
  let ?i = "demo_debit 30 ''d''"
  have "succeeds (debitCredits ?i) demo_one" by (simp add: run_simps cong: run_congs)
  then have run: "debitCredits ?i (database (demo_system demo_one))
      = (Inr (result (debitCredits ?i) demo_one), after (debitCredits ?i) demo_one)"
    using succeeds_run by simp
  show ?thesis using debit_applies_once [OF demo_one_reachable run rtranclp.rtrancl_refl] by auto
qed

text \<open>A reservation is made once: a repeated reservation returns the stored one.\<close>

theorem reserve_applies_once:
  assumes "credit_reachable c" and "reserveCredits i (database c) = (Inr r, s')"
    and "credit_step\<^sup>*\<^sup>* (c\<lparr>database := s'\<rparr>) d"
  shows "\<exists>q. reserveCredits i (database d) = (Inr \<lparr>rr_reservation = q, rr_duplicate = True\<rparr>, database d)
    \<and> same_reservation (rr_reservation r) q"
proof -
  have "rows_kept s' (database d)"
    using later_rows_after [OF assms(1) credit_step.reserve [OF assms(2)] assms(3)] .
  from reserves.replay [OF TrueI assms(2) this] show ?thesis by (auto simp: duplicate_reservation_def)
qed

theorem reserve_applies_once_witness:
  "\<exists>q. reserveCredits (demo_reserve 40 ''r'') demo_held
     = (Inr \<lparr>rr_reservation = q, rr_duplicate = True\<rparr>, demo_held)"
proof -
  let ?i = "demo_reserve 40 ''r''"
  have "succeeds (reserveCredits ?i) demo_one" by (simp add: run_simps cong: run_congs)
  then have run: "reserveCredits ?i (database (demo_system demo_one))
      = (Inr (result (reserveCredits ?i) demo_one), demo_held)"
    using succeeds_run by (simp add: demo_held_def)
  have "credit_step\<^sup>*\<^sup>* ((demo_system demo_one)\<lparr>database := demo_held\<rparr>) (demo_system demo_held)" by simp
  from reserve_applies_once [OF demo_one_reachable run this] show ?thesis by auto
qed

text \<open>A capture is settled once: repeating a capture that took effect returns its ledger
  row at every later state; it can never be charged again.\<close>

theorem capture_applies_once:
  assumes "credit_reachable c" and "captureReservation i (database c) = (Inr r, s')" and "took_effect r"
    and "credit_step\<^sup>*\<^sup>* (c\<lparr>database := s'\<rparr>) d"
  shows "\<exists>t. captureReservation i (database d) = (Inr (Replayed t), database d)
    \<and> ct_type t = CaptureUsage \<and> ct_amount t = - si_amount i \<and> ct_sourceId t = si_reservationId i"
proof -
  have kept: "rows_kept s' (database d)"
    using later_rows_after [OF assms(1) credit_step.capture [OF assms(2)] assms(4)] .
  obtain x where x: "settle_found i s' = Some x" "capture_row i x"
    using captures.stores [OF assms(3,2)] by blast
  obtain t where t: "settle_found i (database d) = Some t" "same_transaction x t"
    using captures.persists [OF kept x(1)] by blast
  show ?thesis
    using captures.answers [OF t(1) captures.still_matches [OF x(2) t(2)]] captures.still_matches [OF x(2) t(2)]
    by (auto simp: capture_row_def)
qed

theorem capture_applies_once_witness:
  "\<exists>t. captureReservation (demo_settle 25 ''s'') (after (captureReservation (demo_settle 25 ''s'')) demo_held)
     = (Inr (Replayed t), after (captureReservation (demo_settle 25 ''s'')) demo_held)"
proof -
  let ?i = "demo_settle 25 ''s''"
  have "succeeds (captureReservation ?i) demo_held" and eff: "took_effect (result (captureReservation ?i) demo_held)"
    by (simp_all add: run_simps cong: run_congs)
  then have run: "captureReservation ?i (database (demo_system demo_held))
      = (Inr (result (captureReservation ?i) demo_held), after (captureReservation ?i) demo_held)"
    using succeeds_run by simp
  show ?thesis using capture_applies_once [OF demo_held_reachable run eff rtranclp.rtrancl_refl] by auto
qed

subsection \<open>Debits\<close>

lemma bucket_sum_backing:
  "off i b l r s \<Longrightarrow> a \<in> set (creditAccounts s) \<Longrightarrow>
   bucket_sum (ca_id a) (creditBuckets s) = total_balance a + (if ca_id a = i then b else 0)"
  by (simp add: off_def)

text \<open>What a debit that is not a replay did, in terms of the account it found.\<close>

lemma debit_run:
  assumes inv: "credit_inv s" and run: "debitCredits i s = (Inr r, s')" and fresh: "\<not> tr_duplicate r"
  obtains cust ty a s2 v s3 where
    "customer_found (di_applicationId i) (di_externalCustomerId i) s = Some cust"
    and "normalized_key (di_creditType i) ty" and "a \<in> set (creditAccounts s)"
    and "account_scope (di_applicationId i) cust ty (resolveCreditEnvironment (di_environment i)) a"
    and "di_amount i \<le> ca_availableBalance a" and "valid_amount (di_amount i)"
    and "s2 = creditAccounts_update (update_where (\<lambda>x. ca_id x = ca_id a) (add_available (- di_amount i) (clock s))) s"
    and "consumeBuckets (ca_id a) (di_amount i) False s2 = (Inr v, s3)"
    and "off (ca_id a) (di_amount i) (di_amount i) 0 s2"
    and "s' = s3\<lparr>uuids := Suc (uuids s3), creditTransactions := creditTransactions s3 @ [tr_transaction r]\<rparr>"
proof -
  obtain cust where cust: "customer_found (di_applicationId i) (di_externalCustomerId i) s = Some cust"
    and d: "debitCreditsForApplicationCustomerInTransaction i cust s = (Inr r, s')"
    using run by (auto simp: debitCredits_def bind_eq_Inr resolve_found)
  from d fresh show thesis
  proof (rule debit_steps)
    fix ty a rows s2 u v s3 txi
    let ?n = "di_amount i"
    assume amount: "valid_amount ?n" and ty: "normalized_key (di_creditType i) ty"
      and acc: "List.find (account_scope (di_applicationId i) cust ty (resolveCreditEnvironment (di_environment i)))
        (creditAccounts s) = Some a"
      and upd: "update_accounts (\<lambda>x. ca_id x = ca_id a \<and> ca_availableBalance x \<ge> ?n)
        (add_available (- ?n) (clock s)) s = (Inr rows, s2)"
      and u: "first_row rows = Some u" and co: "consumeBuckets (ca_id u) ?n False s2 = (Inr v, s3)"
      and tx: "appendTransaction txi s3 = (Inr (tr_transaction r), s')"
    have a: "a \<in> set (creditAccounts s)"
      "account_scope (di_applicationId i) cust ty (resolveCreditEnvironment (di_environment i)) a"
      using find_SomeD [OF acc] by auto
    have off1: "off (ca_id a) 0 0 0 s" using inv by (simp add: credit_inv_off [of s "ca_id a"])
    have P: "\<And>x. ca_id x = ca_id a \<and> ca_availableBalance x \<ge> ?n \<Longrightarrow> ca_id x = ca_id a" by simp
    note a1 = off_add_available [OF off1 upd u P]
    have o2: "off (ca_id a) ?n ?n 0 s2" using a1(1) by simp
    have co': "consumeBuckets (ca_id a) ?n False s2 = (Inr v, s3)" using co a1(2) by simp
    obtain x where x: "x \<in> set (creditAccounts s)" "ca_id x = ca_id a" "?n \<le> ca_availableBalance x"
      using a1(4) by auto
    have "distinct (map ca_id (creditAccounts s))" using off1 by (simp add: off_def accounts_ok_def)
    then have "x = a" by (rule distinct_key_eq [OF _ x(1) a(1) x(2)])
    then have le: "?n \<le> ca_availableBalance a" using x(3) by simp
    have s': "s' = s3\<lparr>uuids := Suc (uuids s3), creditTransactions := creditTransactions s3 @ [tr_transaction r]\<rparr>"
      using tx by (auto simp: appendTransaction_def bind_eq_Inr insert_transaction_def insert_row_eq_Inr)
    show thesis by (rule that [OF cust ty a le amount a1(3) co' o2 s'])
  qed
qed

text \<open>C8. A debit charges exactly its amount, and only when it is there: a debit that is not a
  replay found an account of the customer and credit type with at least that much available,
  lowers that account's available balance by the amount and touches no other account and no
  reservation, takes the same amount out of the account's buckets, and appends one ledger
  row of the negated amount.\<close>

theorem debit_charges_exactly:
  assumes reach: "credit_reachable c" and run: "debitCredits i (database c) = (Inr r, s')" and fresh: "\<not> tr_duplicate r"
  shows "\<exists>cust ty a. customer_found (di_applicationId i) (di_externalCustomerId i) (database c) = Some cust
    \<and> normalized_key (di_creditType i) ty \<and> a \<in> set (creditAccounts (database c))
    \<and> account_scope (di_applicationId i) cust ty (resolveCreditEnvironment (di_environment i)) a
    \<and> 0 < di_amount i \<and> di_amount i \<le> ca_availableBalance a
    \<and> creditAccounts s' = update_where (\<lambda>x. ca_id x = ca_id a)
        (add_available (- di_amount i) (clock (database c))) (creditAccounts (database c))
    \<and> bucket_sum (ca_id a) (creditBuckets s') = bucket_sum (ca_id a) (creditBuckets (database c)) - di_amount i
    \<and> creditReservations s' = creditReservations (database c)
    \<and> creditTransactions s' = creditTransactions (database c) @ [tr_transaction r]
    \<and> ct_amount (tr_transaction r) = - di_amount i"
  using reachable_credit_inv [OF reach] run fresh
proof (rule debit_run)
  fix cust ty a s2 v s3
  let ?s = "database c" and ?n = "di_amount i"
  assume cust: "customer_found (di_applicationId i) (di_externalCustomerId i) ?s = Some cust"
    and a: "normalized_key (di_creditType i) ty" "a \<in> set (creditAccounts ?s)"
      "account_scope (di_applicationId i) cust ty (resolveCreditEnvironment (di_environment i)) a"
      "?n \<le> ca_availableBalance a" and amount: "valid_amount ?n"
    and s2: "s2 = creditAccounts_update (update_where (\<lambda>x. ca_id x = ca_id a) (add_available (- ?n) (clock ?s))) ?s"
    and co: "consumeBuckets (ca_id a) ?n False s2 = (Inr v, s3)" and o2: "off (ca_id a) ?n ?n 0 s2"
    and s': "s' = s3\<lparr>uuids := Suc (uuids s3), creditTransactions := creditTransactions s3 @ [tr_transaction r]\<rparr>"
  have pos: "0 < ?n" using amount by (simp add: valid_amount_def)
  from consumeBuckets_off [OF co o2 pos] obtain f where o3: "off (ca_id a) 0 ?n 0 s3"
    and s3: "s3 = creditBuckets_update f s2" by auto
  let ?a = "add_available (- ?n) (clock ?s) a"
  have "?a \<in> set (creditAccounts s3)" using a(2) by (force simp: s3 s2 set_update_where simp del: if_image_distrib)
  from bucket_sum_backing [OF o3 this] bucket_sum_backing [OF reachable_off [OF reach] a(2), of "[]"]
  have sum: "bucket_sum (ca_id a) (creditBuckets s3) = bucket_sum (ca_id a) (creditBuckets ?s) - ?n"
    by (simp add: total_balance_def)
  have amt: "ct_amount (tr_transaction r) = - ?n"
    using debit_stores [OF run] by auto
  show ?thesis using cust a pos sum s3 s2 s' amt by auto
qed

theorem debit_charges_exactly_witness:
  "\<exists>a. a \<in> set (creditAccounts demo_one) \<and> bucket_sum (ca_id a) (creditBuckets (after (debitCredits (demo_debit 30 ''d'')) demo_one))
     = bucket_sum (ca_id a) (creditBuckets demo_one) - 30"
proof -
  let ?i = "demo_debit 30 ''d''"
  have "succeeds (debitCredits ?i) demo_one" and fresh: "\<not> tr_duplicate (result (debitCredits ?i) demo_one)"
    by (simp_all add: run_simps cong: run_congs)
  then have run: "debitCredits ?i (database (demo_system demo_one))
      = (Inr (result (debitCredits ?i) demo_one), after (debitCredits ?i) demo_one)"
    using succeeds_run by simp
  have "di_amount ?i = 30" by (simp add: demo_debit_def)
  then show ?thesis using debit_charges_exactly [OF demo_one_reachable run fresh] by auto
qed

text \<open>C9. Credits are spent soonest-expiring first, and expired credits are never spent: if a
  debit drew on a bucket \<open>x\<close>, then \<open>x\<close> is an unexpired active bucket of the debited
  account, and every such bucket that comes before it in the order (expiry with open-ended
  last, creation time, id) is left empty.\<close>

theorem debit_spends_soonest_first:
  assumes reach: "credit_reachable c" and run: "debitCredits i (database c) = (Inr r, s')" and fresh: "\<not> tr_duplicate r"
    and x: "x \<in> set (creditBuckets (database c))" "x \<notin> set (creditBuckets s')"
  shows "consumable (cb_creditAccountId x) False (clock (database c)) x
    \<and> (\<forall>b \<in> set (creditBuckets (database c)). consumable (cb_creditAccountId x) False (clock (database c)) b
         \<and> consumption_key b < consumption_key x
         \<longrightarrow> (\<exists>d \<in> set (creditBuckets s'). cb_id d = cb_id b \<and> cb_remainingAmount d = 0))"
  using reachable_credit_inv [OF reach] run fresh
proof (rule debit_run)
  fix cust ty a s2 v s3
  let ?s = "database c" and ?n = "di_amount i"
  assume s2: "s2 = creditAccounts_update (update_where (\<lambda>x. ca_id x = ca_id a) (add_available (- ?n) (clock ?s))) ?s"
    and co: "consumeBuckets (ca_id a) ?n False s2 = (Inr v, s3)" and o2: "off (ca_id a) ?n ?n 0 s2"
    and s': "s' = s3\<lparr>uuids := Suc (uuids s3), creditTransactions := creditTransactions s3 @ [tr_transaction r]\<rparr>"
  have x2: "x \<in> set (creditBuckets s2)" "x \<notin> set (creditBuckets s3)" using x s2 s' by simp_all
  have cx: "consumable (ca_id a) False (clock ?s) x"
    using consumed_is_spendable [OF co o2 x2] s2 by simp
  have id: "cb_creditAccountId x = ca_id a" using cx by (simp add: consumable_def)
  have "\<exists>d \<in> set (creditBuckets s'). cb_id d = cb_id b \<and> cb_remainingAmount d = 0"
    if "b \<in> set (creditBuckets ?s)" "consumable (ca_id a) False (clock ?s) b" "consumption_key b < consumption_key x" for b
    using consumption_order [OF co o2 _ _ x2(1) that(3) x2(2)] that s2 s' by simp
  with cx show ?thesis unfolding id by blast
qed

theorem debit_spends_soonest_first_witness:
  "\<exists>d \<in> set (creditBuckets (after (debitCredits (demo_debit 70 ''d'')) demo_two)). cb_expiresAt d = Some 5000 \<and> cb_remainingAmount d = 0"
proof -
  let ?i = "demo_debit 70 ''d''" and ?s = "demo_two" and ?t = "after (debitCredits (demo_debit 70 ''d'')) demo_two"
  let ?x = "creditBuckets demo_two ! 0" and ?b = "creditBuckets demo_two ! 1"
  have ev: "succeeds (debitCredits ?i) ?s" "\<not> tr_duplicate (result (debitCredits ?i) ?s)"
    "?x \<in> set (creditBuckets ?s)" "?b \<in> set (creditBuckets ?s)" "?x \<notin> set (creditBuckets ?t)"
    "consumable (cb_creditAccountId ?x) False (clock ?s) ?b" "consumption_key ?b < consumption_key ?x"
    by (simp_all add: run_simps cong: run_congs)
  have run: "debitCredits ?i (database (demo_system ?s)) = (Inr (result (debitCredits ?i) ?s), ?t)"
    using succeeds_run [OF ev(1)] by simp
  from debit_spends_soonest_first [OF demo_two_reachable run ev(2), of ?x] ev
  have "\<exists>d \<in> set (creditBuckets ?t). cb_id d = cb_id ?b \<and> cb_remainingAmount d = 0" by auto
  moreover have "\<forall>d \<in> set (creditBuckets ?t). cb_id d = cb_id ?b \<longrightarrow> cb_expiresAt d = Some 5000"
    by (simp add: run_simps cong: run_congs)
  ultimately show ?thesis by blast
qed

text \<open>C10. No overdraft: a valid debit whose key is new and whose customer has no account of the
  credit type with that much available is rejected with \<open>InsufficientCreditsError\<close>, and the
  database is exactly as before.\<close>

theorem debit_overdraft_rejected:
  assumes "customer_found (di_applicationId i) (di_externalCustomerId i) (database c) = Some cust"
    and "normalized_key (di_creditType i) ty" and "valid_amount (di_amount i)"
    and "trim (di_sourceType i) \<noteq> []" "trim (di_sourceId i) \<noteq> []" "trim (di_idempotencyKey i) \<noteq> []"
    and "\<forall>t \<in> set (creditTransactions (database c)). \<not> key_is (di_applicationId i)
           (resolveCreditEnvironment (di_environment i)) (trim (di_idempotencyKey i)) t"
    and "\<forall>a \<in> set (creditAccounts (database c)).
           account_scope (di_applicationId i) cust ty (resolveCreditEnvironment (di_environment i)) a
           \<longrightarrow> ca_availableBalance a < di_amount i"
    and reach: "credit_reachable c"
  shows "debitCredits i (database c) = (Inl InsufficientCreditsError, database c)"
proof -
  let ?s = "database c" and ?env = "resolveCreditEnvironment (di_environment i)"
  have res: "resolveApplicationCustomerId (di_applicationId i) (di_externalCustomerId i) ?s = (Inr cust, ?s)"
    using assms(1) by (simp add: resolve_found)
  have key: "List.find (key_is (di_applicationId i) ?env (trim (di_idempotencyKey i))) (creditTransactions ?s) = None"
    using assms(7) unfolding find_None_iff2 .
  have norm: "normalizeCreditType (di_creditType i) ?s = (Inr ty, ?s)"
    "assertPositiveAmount (di_amount i) ''Credit amount'' ?s = (Inr (), ?s)"
    "\<And>l. requireText (di_sourceType i) l ?s = (Inr (trim (di_sourceType i)), ?s)"
    "\<And>l. requireText (di_sourceId i) l ?s = (Inr (trim (di_sourceId i)), ?s)"
    "\<And>l. requireText (di_idempotencyKey i) l ?s = (Inr (trim (di_idempotencyKey i)), ?s)"
    using assms(2-6) by simp_all
  have dist: "distinct (map ca_id (creditAccounts ?s))"
    using reachable_credit_inv [OF reach] by (simp add: credit_inv_def off_def accounts_ok_def)
  have "\<exists>t. debitCreditsForApplicationCustomerInTransaction i cust ?s = (Inl InsufficientCreditsError, t)"
  proof (cases "List.find (account_scope (di_applicationId i) cust ty ?env) (creditAccounts ?s)")
    case None
    then show ?thesis
      using norm key by (simp add: debitCreditsForApplicationCustomerInTransaction_def Let_def require_apply)
  next
    case (Some a)
    have a: "a \<in> set (creditAccounts ?s)" "ca_availableBalance a < di_amount i"
      using find_SomeD [OF Some] assms(8) by auto
    have no: "\<not> (ca_id x = ca_id a \<and> ca_availableBalance x \<ge> di_amount i)" if "x \<in> set (creditAccounts ?s)" for x
      using distinct_key_eq [OF dist that a(1)] a(2) by auto
    have "update_accounts (\<lambda>x. ca_id x = ca_id a \<and> ca_availableBalance x \<ge> di_amount i) f ?s = (Inr [], ?s)" for f
      using update_where_none [of "creditAccounts ?s", OF no] no
      by (simp add: update_accounts_def update_rows_def Let_def filter_empty_conv filter_False)
    then show ?thesis
      using norm key Some
      by (simp add: debitCreditsForApplicationCustomerInTransaction_def Let_def require_apply)
  qed
  then show ?thesis
    using res by (auto simp: debitCredits_def transaction_def)
qed

theorem debit_overdraft_rejected_witness:
  "debitCredits (demo_debit 101 ''d'') demo_one = (Inl InsufficientCreditsError, demo_one)"
proof -
  let ?i = "demo_debit 101 ''d''"
  have "customer_found (di_applicationId ?i) (di_externalCustomerId ?i) (database (demo_system demo_one)) = Some ''cu''"
    "normalized_key (di_creditType ?i) ''img''" "valid_amount (di_amount ?i)"
    "trim (di_sourceType ?i) \<noteq> []" "trim (di_sourceId ?i) \<noteq> []" "trim (di_idempotencyKey ?i) \<noteq> []"
    "\<forall>t \<in> set (creditTransactions (database (demo_system demo_one))). \<not> key_is (di_applicationId ?i)
       (resolveCreditEnvironment (di_environment ?i)) (trim (di_idempotencyKey ?i)) t"
    "\<forall>a \<in> set (creditAccounts (database (demo_system demo_one))).
       account_scope (di_applicationId ?i) ''cu'' ''img'' (resolveCreditEnvironment (di_environment ?i)) a
       \<longrightarrow> ca_availableBalance a < di_amount ?i"
    by (simp_all add: customer_found_def normalized_key_def valid_amount_def run_simps cong: run_congs)
  from debit_overdraft_rejected [OF this demo_one_reachable] show ?thesis by simp
qed

subsection \<open>Reservations\<close>

lemma expireDue_done:
  assumes run: "expireDueBucketsForAccount app i env now s = (Inr u, s')" and off: "off i 0 0 0 s"
    and acct: "\<exists>a \<in> set (creditAccounts s). ca_id a = i"
  shows "(\<exists>a \<in> set (creditAccounts s'). ca_id a = i \<and> ca_availableBalance a = 0)
    \<or> (\<forall>y \<in> set (creditBuckets s'). cb_creditAccountId y = i \<and> cb_applicationId y = app
         \<and> cb_environment y = env \<longrightarrow> \<not> due now y)"
proof -
  let ?rows = "sort_key consumption_key (filter (\<lambda>b. cb_creditAccountId b = i \<and> cb_applicationId b = app
      \<and> cb_environment b = env \<and> due now b) (creditBuckets s))"
  have loop: "expire_account_loop i now ?rows s = (Inr u, s')"
    using run by (simp add: expireDueBucketsForAccount_def bind_eq_Inr)
  have mem: "\<forall>x \<in> set ?rows. x \<in> set (creditBuckets s) \<and> cb_creditAccountId x = i \<and> cb_status x = BktActive"
    by (auto simp: due_def)
  have "distinct (map cb_id (creditBuckets s))" using off by (simp add: off_def buckets_ok_def)
  then have d: "distinct (map cb_id ?rows)" by (simp add: distinct_map inj_on_def)
  from expire_account_loop_done [OF loop off mem d acct] show ?thesis
  proof
    assume gone: "\<forall>y \<in> set (creditBuckets s'). cb_id y \<in> cb_id ` set ?rows \<longrightarrow> cb_status y \<noteq> BktActive"
    have "\<not> due now y" if y: "y \<in> set (creditBuckets s')" "cb_creditAccountId y = i" "cb_applicationId y = app"
        "cb_environment y = env" for y
    proof (cases "cb_id y \<in> cb_id ` set ?rows")
      case True
      then show ?thesis using gone y(1) by (auto simp: due_def)
    next
      case False
      then have "y \<in> set (creditBuckets s)" using expire_account_loop_others [OF loop off mem d] y(1) by blast
      then show ?thesis using False y by auto
    qed
    then show ?thesis by blast
  qed simp
qed

text \<open>What a reservation that is not a replay did.\<close>

lemma reserve_run:
  assumes inv: "credit_inv s" and run: "reserveCredits i s = (Inr r, s')" and fresh: "\<not> rr_duplicate r"
  obtains a s1 s2 where "a \<in> set (creditAccounts s)"
    and "expireDueBucketsForAccount (ri_applicationId i) (ca_id a) (resolveCreditEnvironment (ri_environment i)) (clock s) s
      = (Inr (), s1)"
    and "s2 = creditAccounts_update (update_where (\<lambda>x. ca_id x = ca_id a) (move_to_reserved (ri_amount i) (clock s))) s1"
    and "\<exists>x \<in> set (creditAccounts s1). ca_id x = ca_id a \<and> ri_amount i \<le> ca_availableBalance x"
    and "creditAccounts s' = creditAccounts s2" "creditBuckets s' = creditBuckets s2"
    and "creditReservations s' = creditReservations s @ [rr_reservation r]"
    and "cr_creditAccountId (rr_reservation r) = ca_id a" "cr_reservedAmount (rr_reservation r) = ri_amount i"
      "cr_status (rr_reservation r) = ResActive" "0 < ri_amount i"
    and "account_scope (ri_applicationId i) (cr_applicationCustomerId (rr_reservation r)) (toLowerCase (trim (ri_creditType i)))
      (resolveCreditEnvironment (ri_environment i)) a"
proof -
  let ?app = "ri_applicationId i" and ?env = "resolveCreditEnvironment (ri_environment i)" and ?n = "ri_amount i"
    and ?rt = "trim (ri_referenceType i)" and ?ri = "trim (ri_referenceId i)" and ?key = "trim (ri_idempotencyKey i)"
  obtain ty q where q: "rr_reservation r = q" and ty: "normalized_key (ri_creditType i) ty"
    and pos: "valid_amount ?n" and tx: "reserve_tx i ty ?rt ?ri ?key ?env s = (Inr (Reserved q False), s')"
    using run fresh by (auto simp: reserveCredits_def Let_def elim!: bind_InrE split: reserve_outcome.splits)
  obtain c a where acc: "List.find (account_scope ?app c ty ?env) (creditAccounts s) = Some a"
    and lk: "reserve_locked i c ?rt ?ri ?key ?env a s = (Inr (Reserved q False), s')"
    using tx by (auto simp: reserve_tx_def resolve_found elim!: bind_InrE split: option.splits)
  obtain s1 rows s2 u where ex: "expireDueBucketsForAccount ?app (ca_id a) ?env (clock s) s = (Inr (), s1)"
    and upd: "update_accounts (\<lambda>x. ca_id x = ca_id a \<and> ca_availableBalance x \<ge> ?n) (move_to_reserved ?n (clock s)) s1
      = (Inr rows, s2)"
    and u: "first_row rows = Some u"
    and co: "reserve_commit i c ?rt ?ri ?key ?env (clock s) u s2 = (Inr (Reserved q False), s')"
    using lk by (auto simp: reserve_locked_def elim!: bind_InrE split: option.splits)
  have off0: "off (ca_id a) 0 0 0 s" using inv by (simp add: credit_inv_off [of s "ca_id a"])
  have ex': "off (ca_id a) 0 0 0 s1" "creditReservations s1 = creditReservations s"
    using expireDueBucketsForAccount_off [OF ex off0] by blast+
  have P: "\<And>x. ca_id x = ca_id a \<and> ca_availableBalance x \<ge> ?n \<Longrightarrow> ca_id x = ca_id a" by simp
  note a1 = off_update_account [OF ex'(1) upd u P balance_updates_identity(2), where da = "- ?n" and dr = ?n]
  have s2: "s2 = creditAccounts_update (update_where (\<lambda>x. ca_id x = ca_id a) (move_to_reserved ?n (clock s))) s1"
    by (rule a1(2)) simp_all
  have hit: "\<exists>x \<in> set (creditAccounts s1). ca_id x = ca_id a \<and> ?n \<le> ca_availableBalance x"
    using a1(3) by auto
  have uid: "ca_id u = ca_id a" by (rule a1(4)) simp_all
  have after_commit: "creditAccounts s' = creditAccounts s2 \<and> creditBuckets s' = creditBuckets s2"
    using co by (auto simp: reserve_commit_def bind_eq_Inr insert_reservation_def appendTransaction_def
        insert_transaction_def insert_row_eq_Inr)
  note row = reserve_commit_row [OF co]
  have scope: "account_scope ?app c ty ?env a" and a: "a \<in> set (creditAccounts s)"
    using find_SomeD [OF acc] by auto
  have "account_scope ?app (cr_applicationCustomerId q) (toLowerCase (trim (ri_creditType i))) ?env a"
    using scope row(4) ty by (simp add: normalized_key_def)
  then show thesis
    using that [OF a ex s2 hit] after_commit row uid ex'(2) s2 pos q by (simp add: valid_amount_def)
qed

text \<open>A reservation holds exactly its amount, and never expired credits: after the due
  buckets of the account were expired, the amount moves from available to reserved (which
  requires it to be available), no bucket is drawn on, one active reservation is stored,
  and no due bucket of the account is left.\<close>

theorem reserve_holds_exactly:
  assumes reach: "credit_reachable c" and run: "reserveCredits i (database c) = (Inr r, s')" and fresh: "\<not> rr_duplicate r"
  shows "\<exists>a s1. a \<in> set (creditAccounts (database c))
    \<and> expireDueBucketsForAccount (ri_applicationId i) (ca_id a) (resolveCreditEnvironment (ri_environment i))
        (clock (database c)) (database c) = (Inr (), s1)
    \<and> creditAccounts s' = update_where (\<lambda>x. ca_id x = ca_id a) (move_to_reserved (ri_amount i) (clock (database c))) (creditAccounts s1)
    \<and> (\<exists>x \<in> set (creditAccounts s1). ca_id x = ca_id a \<and> ri_amount i \<le> ca_availableBalance x)
    \<and> creditBuckets s' = creditBuckets s1
    \<and> creditReservations s' = creditReservations (database c) @ [rr_reservation r]
    \<and> cr_creditAccountId (rr_reservation r) = ca_id a \<and> cr_reservedAmount (rr_reservation r) = ri_amount i
    \<and> cr_status (rr_reservation r) = ResActive
    \<and> (\<forall>y \<in> set (creditBuckets s'). cb_creditAccountId y = ca_id a \<longrightarrow> \<not> due (clock (database c)) y)"
  using reachable_credit_inv [OF reach] run fresh
proof (rule reserve_run)
  fix a s1 s2
  let ?s = "database c" and ?n = "ri_amount i" and ?env = "resolveCreditEnvironment (ri_environment i)"
  assume a: "a \<in> set (creditAccounts ?s)"
    and ex: "expireDueBucketsForAccount (ri_applicationId i) (ca_id a) ?env (clock ?s) ?s = (Inr (), s1)"
    and s2: "s2 = creditAccounts_update (update_where (\<lambda>x. ca_id x = ca_id a) (move_to_reserved ?n (clock ?s))) s1"
    and hit: "\<exists>x \<in> set (creditAccounts s1). ca_id x = ca_id a \<and> ?n \<le> ca_availableBalance x"
    and eqs: "creditAccounts s' = creditAccounts s2" "creditBuckets s' = creditBuckets s2"
    and res: "creditReservations s' = creditReservations ?s @ [rr_reservation r]"
    and row: "cr_creditAccountId (rr_reservation r) = ca_id a" "cr_reservedAmount (rr_reservation r) = ?n"
      "cr_status (rr_reservation r) = ResActive" "0 < ?n"
    and scope: "account_scope (ri_applicationId i) (cr_applicationCustomerId (rr_reservation r))
      (toLowerCase (trim (ri_creditType i))) ?env a"
  have o1: "off (ca_id a) 0 0 0 s1"
    using expireDueBucketsForAccount_off [OF ex reachable_off [OF reach]] by blast
  have dist: "distinct (map ca_id (creditAccounts s1))" using o1 by (simp add: off_def accounts_ok_def)
  obtain x where x: "x \<in> set (creditAccounts s1)" "ca_id x = ca_id a" "?n \<le> ca_availableBalance x" using hit by blast
  have "\<not> (\<exists>y \<in> set (creditAccounts s1). ca_id y = ca_id a \<and> ca_availableBalance y = 0)"
  proof
    assume "\<exists>y \<in> set (creditAccounts s1). ca_id y = ca_id a \<and> ca_availableBalance y = 0"
    then obtain y where y: "y \<in> set (creditAccounts s1)" "ca_id y = ca_id x" "ca_availableBalance y = 0"
      using x(2) by auto
    then have "y = x" by (intro distinct_key_eq [OF dist _ x(1)])
    then show False using y(3) x(3) row(4) by simp
  qed
  then have "\<forall>y \<in> set (creditBuckets s1). cb_creditAccountId y = ca_id a \<and> cb_applicationId y = ri_applicationId i
      \<and> cb_environment y = ?env \<longrightarrow> \<not> due (clock ?s) y"
    using expireDue_done [OF ex reachable_off [OF reach]] a by blast
  moreover have "cb_applicationId y = ri_applicationId i \<and> cb_environment y = ?env"
    if y: "y \<in> set (creditBuckets s1)" "cb_creditAccountId y = ca_id a" for y
  proof -
    have "table_kept same_account (creditAccounts ?s) (creditAccounts s1)"
      using honoursD [OF kept.expireDueBucketsForAccount ex] by (simp add: rows_kept_def)
    from table_kept_mem [OF this a] obtain a' where a': "a' \<in> set (creditAccounts s1)" "same_account a a'" by blast
    have "refers s1 (ca_id a) (cb_applicationId y) (cb_applicationCustomerId y) (cb_environment y)"
      using o1 y by (auto simp: off_def buckets_ok_def)
    then obtain b where b: "b \<in> set (creditAccounts s1)" "ca_id b = ca_id a'"
        "ca_applicationId b = cb_applicationId y" "ca_environment b = cb_environment y"
      using same_accountD [OF a'(2)] by (auto simp: refers_def)
    then have "b = a'" by (intro distinct_key_eq [OF dist _ a'(1)])
    then show ?thesis using b same_accountD [OF a'(2)] scope by (simp add: account_scope_def)
  qed
  ultimately have "\<forall>y \<in> set (creditBuckets s'). cb_creditAccountId y = ca_id a \<longrightarrow> \<not> due (clock ?s) y"
    using eqs s2 by auto
  then show ?thesis using a ex hit eqs s2 res row by auto
qed

theorem reserve_holds_exactly_witness:
  "\<exists>a. a \<in> set (creditAccounts demo_one) \<and> creditReservations demo_held \<noteq> []
     \<and> cr_creditAccountId (last (creditReservations demo_held)) = ca_id a"
proof -
  let ?i = "demo_reserve 40 ''r''"
  have "succeeds (reserveCredits ?i) demo_one" and fresh: "\<not> rr_duplicate (result (reserveCredits ?i) demo_one)"
    by (simp_all add: run_simps cong: run_congs)
  then have run: "reserveCredits ?i (database (demo_system demo_one))
      = (Inr (result (reserveCredits ?i) demo_one), demo_held)"
    using succeeds_run by (simp add: demo_held_def)
  show ?thesis using reserve_holds_exactly [OF demo_one_reachable run fresh] by auto
qed

text \<open>A rejected reservation still commits the expiry it triggered: when the sweep of the
  account's due buckets leaves less than the requested amount available, the call throws
  \<open>InsufficientCreditsError\<close> and the database is the one after the sweep, not the one before.\<close>

theorem rejected_reserve_keeps_sweep:
  assumes valid: "normalized_key (ri_creditType i) ty" "valid_amount (ri_amount i)"
      "trim (ri_referenceType i) \<noteq> []" "trim (ri_referenceId i) \<noteq> []" "trim (ri_idempotencyKey i) \<noteq> []"
    and cust: "customer_found (ri_applicationId i) (ri_externalCustomerId i) s = Some cust"
    and new: "\<forall>q \<in> set (creditReservations s). \<not> reservation_is (ri_applicationId i)
        (resolveCreditEnvironment (ri_environment i)) (trim (ri_idempotencyKey i)) q"
    and acct: "List.find (account_scope (ri_applicationId i) cust ty (resolveCreditEnvironment (ri_environment i)))
        (creditAccounts s) = Some a"
    and sweep: "expireDueBucketsForAccount (ri_applicationId i) (ca_id a) (resolveCreditEnvironment (ri_environment i))
        (clock s) s = (Inr (), s1)"
    and short: "\<forall>x \<in> set (creditAccounts s1). ca_id x = ca_id a \<longrightarrow> ca_availableBalance x < ri_amount i"
  shows "reserveCredits i s = (Inl InsufficientCreditsError, s1)"
proof -
  let ?env = "resolveCreditEnvironment (ri_environment i)" and ?key = "trim (ri_idempotencyKey i)"
  let ?upd = "update_accounts (\<lambda>x. ca_id x = ca_id a \<and> ca_availableBalance x \<ge> ri_amount i)
      (move_to_reserved (ri_amount i) (clock s))"
  have no: "\<not> (ca_id x = ca_id a \<and> ca_availableBalance x \<ge> ri_amount i)" if "x \<in> set (creditAccounts s1)" for x
    using short that by force
  have "?upd s1 = (Inr [], s1)"
    using update_where_none [of "creditAccounts s1", OF no] no
    by (simp add: update_accounts_def update_rows_def Let_def filter_empty_conv filter_False)
  then have lk: "reserve_locked i cust rt ri ?key ?env a s = (Inr Insufficient, s1)" for rt ri
    using sweep by (simp add: reserve_locked_def)
  have nf: "List.find (\<lambda>r. cr_applicationId r = ri_applicationId i \<and> cr_environment r = ?env \<and> cr_idempotencyKey r = ?key)
      (creditReservations s) = None"
    using new unfolding find_None_iff2 reservation_is_def .
  have res: "resolveApplicationCustomerId (ri_applicationId i) (ri_externalCustomerId i) s = (Inr cust, s)"
    using cust by (simp add: resolve_found)
  have tx: "reserve_tx i ty rt ri ?key ?env s = (Inr Insufficient, s1)" for rt ri
    using res nf acct lk by (simp add: reserve_tx_def)
  have norm: "normalizeCreditType (ri_creditType i) s = (Inr ty, s)"
    "assertPositiveAmount (ri_amount i) ''Reservation amount'' s = (Inr (), s)"
    "\<And>l. requireText (ri_referenceType i) l s = (Inr (trim (ri_referenceType i)), s)"
    "\<And>l. requireText (ri_referenceId i) l s = (Inr (trim (ri_referenceId i)), s)"
    "\<And>l. requireText (ri_idempotencyKey i) l s = (Inr ?key, s)"
    using valid by simp_all
  have "transaction (reserve_tx i ty rt ri ?key ?env) s = (Inr Insufficient, s1)" for rt ri
    using tx by simp
  then show ?thesis using norm by (simp add: reserveCredits_def Let_def)
qed

text \<open>At time 6000 the bucket of 50 credits of the example has expired, and 120 are asked for.\<close>

definition demo_late :: db where
  "demo_late = demo_two\<lparr>clock := 6000\<rparr>"

theorem rejected_reserve_keeps_sweep_witness:
  "\<exists>s1. reserveCredits (demo_reserve 120 ''r'') demo_late = (Inl InsufficientCreditsError, s1)
     \<and> map ca_availableBalance (creditAccounts s1) = [100]"
proof -
  let ?i = "demo_reserve 120 ''r''" and ?s = demo_late and ?a = "hd (creditAccounts demo_late)"
  let ?m = "expireDueBucketsForAccount (ri_applicationId ?i) (ca_id ?a) (resolveCreditEnvironment (ri_environment ?i)) (clock ?s)"
  note ev = demo_late_def run_simps toISOString_def
  have pre: "normalized_key (ri_creditType ?i) ''img''" "valid_amount (ri_amount ?i)"
      "trim (ri_referenceType ?i) \<noteq> []" "trim (ri_referenceId ?i) \<noteq> []" "trim (ri_idempotencyKey ?i) \<noteq> []"
    "customer_found (ri_applicationId ?i) (ri_externalCustomerId ?i) ?s = Some ''cu''"
    "\<forall>q \<in> set (creditReservations ?s). \<not> reservation_is (ri_applicationId ?i)
        (resolveCreditEnvironment (ri_environment ?i)) (trim (ri_idempotencyKey ?i)) q"
    "List.find (account_scope (ri_applicationId ?i) ''cu'' ''img'' (resolveCreditEnvironment (ri_environment ?i)))
        (creditAccounts ?s) = Some ?a"
    by (simp_all add: demo_late_def customer_found_def normalized_key_def valid_amount_def run_simps cong: run_congs)
  have "succeeds ?m ?s" and bal: "map ca_availableBalance (creditAccounts (after ?m ?s)) = [100]"
    by (simp_all add: demo_late_def run_simps cong: run_congs)
  then have run: "?m ?s = (Inr (), after ?m ?s)" using succeeds_run by (metis (full_types) old.unit.exhaust)
  have "\<forall>x \<in> set (creditAccounts (after ?m ?s)). ca_id x = ca_id ?a \<longrightarrow> ca_availableBalance x < ri_amount ?i"
    using bal by (auto simp: demo_reserve_def)
  from rejected_reserve_keeps_sweep [OF pre run this] bal show ?thesis by (intro exI conjI)
qed

lemma settled_appends:
  "captureReservation i s = (Inr (Settled p t), s') \<Longrightarrow> creditTransactions s' = creditTransactions s @ [t]"
  "releaseReservation i s = (Inr (Settled p t), s') \<Longrightarrow> creditTransactions s' = creditTransactions s @ [t]"
  by (auto simp: captureReservation_def releaseReservation_def bind_eq_Inr Let_def lockReservation_eq_Inr
    split: option.splits if_splits
    dest!: update_accounts_ledger update_reservations_ledger consumeBuckets_ledger appendTransaction_row(1))

lemma capture_run:
  assumes inv: "credit_inv s" and run: "captureReservation i s = (Inr (Settled p t), s')"
  obtains q s1 s2 s3 v where "q \<in> set (creditReservations s)" "cr_id q = si_reservationId i" "cr_status q = ResActive"
    and "0 < si_amount i" "si_amount i \<le> cr_reservedAmount q"
    and "p = q\<lparr>cr_status := ResCaptured, cr_capturedAmount := si_amount i, cr_updatedAt := clock s\<rparr>"
    and "s1 = creditAccounts_update (update_where (\<lambda>a. ca_id a = cr_creditAccountId q)
        (settle_balances (cr_reservedAmount q - si_amount i) (cr_reservedAmount q) (clock s))) s"
    and "s2 = creditReservations_update (update_where (\<lambda>y. cr_id y = cr_id q)
        (\<lambda>r. r\<lparr>cr_status := ResCaptured, cr_capturedAmount := si_amount i, cr_updatedAt := clock s\<rparr>)) s1"
    and "consumeBuckets (cr_creditAccountId q) (si_amount i) True s2 = (Inr v, s3)"
    and "off (cr_creditAccountId q) (si_amount i) (si_amount i) 0 s2"
    and "s' = s3\<lparr>uuids := Suc (uuids s3), creditTransactions := creditTransactions s3 @ [t]\<rparr>"
    and "ct_amount t = - si_amount i"
proof -
  have change: "s' \<noteq> s" using settled_appends(1) [OF run] by auto
  from run change show thesis
  proof (rule capture_steps)
    fix q :: credit_reservation and rows s1 u rows' s2 v s3 txi t'
    let ?n = "si_amount i" and ?i = "cr_creditAccountId q"
    let ?f = "\<lambda>r. r\<lparr>cr_status := ResCaptured, cr_capturedAmount := ?n, cr_updatedAt := clock s\<rparr>"
    assume amount: "valid_amount ?n"
      and lock: "List.find (\<lambda>r. cr_id r = si_reservationId i \<and> cr_applicationId r = si_applicationId i)
        (creditReservations s) = Some q" and active: "cr_status q = ResActive"
      and upd: "update_accounts (\<lambda>a. ca_id a = ?i \<and> ca_reservedBalance a \<ge> cr_reservedAmount q)
        (settle_balances (cr_reservedAmount q - ?n) (cr_reservedAmount q) (clock s)) s = (Inr rows, s1)"
      and u: "first_row rows = Some u"
      and res: "update_reservations (\<lambda>y. cr_id y = cr_id q) ?f s1 = (Inr rows', s2)"
      and co: "consumeBuckets ?i ?n True s2 = (Inr v, s3)" and tx: "appendTransaction txi s3 = (Inr t', s')"
      and amt: "ti_amount txi = - ?n" and le: "?n \<le> cr_reservedAmount q"
      and r: "\<exists>p'. first_row rows' = Some p' \<and> Inr (Settled p t) = (Inr (Settled p' t') :: err + settle_result)"
    have q: "q \<in> set (creditReservations s)" "cr_id q = si_reservationId i"
      using find_SomeD [OF lock] by auto
    have off0: "off ?i 0 0 0 s" using inv by (simp add: credit_inv_off [of s ?i])
    note se = settle_off [OF off0 q(1) refl active upd u _ _ res]
    have o2: "off ?i ?n ?n 0 s2" and row: "rows' = [?f q]"
      using se(1,4) by (simp_all add: reservation_key_def)
    have P: "\<And>a. ca_id a = ?i \<and> ca_reservedBalance a \<ge> cr_reservedAmount q \<Longrightarrow> ca_id a = ?i" by simp
    have s1: "s1 = creditAccounts_update (update_where (\<lambda>a. ca_id a = ?i)
        (settle_balances (cr_reservedAmount q - ?n) (cr_reservedAmount q) (clock s))) s"
      by (rule off_update_account(2) [OF off0 upd u P balance_updates_identity(3),
            where da = "cr_reservedAmount q - ?n" and dr = "- cr_reservedAmount q"]) simp_all
    have s2: "s2 = creditReservations_update (update_where (\<lambda>y. cr_id y = cr_id q) ?f) s1"
      using res by (simp add: update_reservations_def update_rows_eq_Inr)
    have tt: "t' = t" "p = ?f q" using r row by auto
    have s': "s' = s3\<lparr>uuids := Suc (uuids s3), creditTransactions := creditTransactions s3 @ [t]\<rparr>"
      and "ct_amount t = - ?n"
      using tx tt amt by (auto simp: appendTransaction_def bind_eq_Inr insert_transaction_def insert_row_eq_Inr)
    then show thesis
      using that [OF q active _ le tt(2) s1 s2 co o2 s'] amount by (simp add: valid_amount_def)
  qed
qed

text \<open>C13. A capture settles an active reservation exactly: at most the reserved amount is
  charged, the whole hold is dropped, the unused part becomes available again, the captured
  amount leaves the account's buckets (expired ones included), the reservation is stored as
  captured with that amount, and one ledger row of the negated amount is appended.\<close>

theorem capture_settles_exactly:
  assumes reach: "credit_reachable c" and run: "captureReservation i (database c) = (Inr (Settled p t), s')"
  shows "\<exists>q. q \<in> set (creditReservations (database c)) \<and> cr_id q = si_reservationId i \<and> cr_status q = ResActive
    \<and> 0 < si_amount i \<and> si_amount i \<le> cr_reservedAmount q
    \<and> p = q\<lparr>cr_status := ResCaptured, cr_capturedAmount := si_amount i, cr_updatedAt := clock (database c)\<rparr>
    \<and> p \<in> set (creditReservations s')
    \<and> creditAccounts s' = update_where (\<lambda>a. ca_id a = cr_creditAccountId q)
        (settle_balances (cr_reservedAmount q - si_amount i) (cr_reservedAmount q) (clock (database c)))
        (creditAccounts (database c))
    \<and> bucket_sum (cr_creditAccountId q) (creditBuckets s')
      = bucket_sum (cr_creditAccountId q) (creditBuckets (database c)) - si_amount i
    \<and> creditTransactions s' = creditTransactions (database c) @ [t] \<and> ct_amount t = - si_amount i"
  using reachable_credit_inv [OF reach] run
proof (rule capture_run)
  fix q :: credit_reservation and s1 s2 s3 v
  let ?s = "database c" and ?n = "si_amount i" and ?i = "cr_creditAccountId q"
  assume q: "q \<in> set (creditReservations ?s)" "cr_id q = si_reservationId i" "cr_status q = ResActive"
    and n: "0 < ?n" "?n \<le> cr_reservedAmount q"
    and p: "p = q\<lparr>cr_status := ResCaptured, cr_capturedAmount := ?n, cr_updatedAt := clock ?s\<rparr>"
    and s1: "s1 = creditAccounts_update (update_where (\<lambda>a. ca_id a = ?i)
        (settle_balances (cr_reservedAmount q - ?n) (cr_reservedAmount q) (clock ?s))) ?s"
    and s2: "s2 = creditReservations_update (update_where (\<lambda>y. cr_id y = cr_id q)
        (\<lambda>r. r\<lparr>cr_status := ResCaptured, cr_capturedAmount := ?n, cr_updatedAt := clock ?s\<rparr>)) s1"
    and co: "consumeBuckets ?i ?n True s2 = (Inr v, s3)" and o2: "off ?i ?n ?n 0 s2"
    and s': "s' = s3\<lparr>uuids := Suc (uuids s3), creditTransactions := creditTransactions s3 @ [t]\<rparr>"
    and amt: "ct_amount t = - ?n"
  from consumeBuckets_off [OF co o2 n(1)] obtain f where o3: "off ?i 0 ?n 0 s3" and s3: "s3 = creditBuckets_update f s2"
    by auto
  obtain a where a: "a \<in> set (creditAccounts ?s)" "ca_id a = ?i"
    using rows_refer(3) [OF reachable_off [OF reach] q(1)] by auto
  let ?a = "settle_balances (cr_reservedAmount q - ?n) (cr_reservedAmount q) (clock ?s) a"
  have "?a \<in> set (creditAccounts s3)" using a by (force simp: s3 s2 s1 set_update_where simp del: if_image_distrib)
  from bucket_sum_backing [OF o3 this] bucket_sum_backing [OF reachable_off [OF reach] a(1), of "[]"] a(2)
  have sum: "bucket_sum ?i (creditBuckets s3) = bucket_sum ?i (creditBuckets ?s) - ?n"
    by (simp add: total_balance_def)
  have "p \<in> set (creditReservations s3)"
    using q(1) by (force simp: p s3 s2 s1 set_update_where simp del: if_image_distrib)
  then show ?thesis using q n p sum amt by (auto simp: s' s3 s2 s1)
qed

theorem capture_settles_exactly_witness:
  "\<exists>q. q \<in> set (creditReservations demo_held) \<and> cr_reservedAmount q = 40
     \<and> bucket_sum (cr_creditAccountId q) (creditBuckets (after (captureReservation (demo_settle 25 ''s'')) demo_held))
       = bucket_sum (cr_creditAccountId q) (creditBuckets demo_held) - 25"
proof -
  let ?i = "demo_settle 25 ''s''" and ?r = "result (captureReservation (demo_settle 25 ''s'')) demo_held"
  obtain p t where r: "?r = Settled p t" by (simp add: run_simps cong: run_congs)
  have "succeeds (captureReservation ?i) demo_held" by (simp add: run_simps cong: run_congs)
  from succeeds_run [OF this] have run: "captureReservation ?i (database (demo_system demo_held))
      = (Inr (Settled p t), after (captureReservation ?i) demo_held)"
    by (simp only: r demo_system_simps)
  have all: "\<forall>q \<in> set (creditReservations demo_held). cr_reservedAmount q = 40" by (simp add: run_simps cong: run_congs)
  have "si_amount ?i = 25" by (simp add: demo_settle_def)
  then show ?thesis using capture_settles_exactly [OF demo_held_reachable run] all by auto
qed

lemma release_run:
  assumes inv: "credit_inv s" and run: "releaseReservation i s = (Inr (Settled p t), s')"
  obtains q where "q \<in> set (creditReservations s)" "cr_id q = si_reservationId i" "cr_status q = ResActive"
    and "p = q\<lparr>cr_status := ResReleased, cr_updatedAt := clock s\<rparr>"
    and "creditAccounts s' = update_where (\<lambda>a. ca_id a = cr_creditAccountId q)
        (settle_balances (cr_reservedAmount q) (cr_reservedAmount q) (clock s)) (creditAccounts s)"
    and "creditReservations s' = update_where (\<lambda>y. cr_id y = cr_id q)
        (\<lambda>r. r\<lparr>cr_status := ResReleased, cr_updatedAt := clock s\<rparr>) (creditReservations s)"
    and "creditBuckets s' = creditBuckets s"
proof -
  have change: "s' \<noteq> s" using settled_appends(2) [OF run] by auto
  from run change show thesis
  proof (rule release_steps)
    fix q :: credit_reservation and rows s1 u rows' s2 txi t'
    let ?i = "cr_creditAccountId q" and ?n = "cr_reservedAmount q"
    let ?f = "\<lambda>r. r\<lparr>cr_status := ResReleased, cr_updatedAt := clock s\<rparr>"
    assume lock: "List.find (\<lambda>r. cr_id r = si_reservationId i \<and> cr_applicationId r = si_applicationId i)
        (creditReservations s) = Some q" and active: "cr_status q = ResActive"
      and upd: "update_accounts (\<lambda>a. ca_id a = ?i \<and> ca_reservedBalance a \<ge> ?n)
        (settle_balances ?n ?n (clock s)) s = (Inr rows, s1)"
      and u: "first_row rows = Some u"
      and res: "update_reservations (\<lambda>y. cr_id y = cr_id q) ?f s1 = (Inr rows', s2)"
      and tx: "appendTransaction txi s2 = (Inr t', s')"
      and r: "\<exists>p'. first_row rows' = Some p' \<and> Inr (Settled p t) = (Inr (Settled p' t') :: err + settle_result)"
    have q: "q \<in> set (creditReservations s)" "cr_id q = si_reservationId i"
      using find_SomeD [OF lock] by auto
    have off0: "off ?i 0 0 0 s" using inv by (simp add: credit_inv_off [of s ?i])
    note se = settle_off [OF off0 q(1) refl active upd u _ _ res]
    have row: "rows' = [?f q]" using se(4) by (simp_all add: reservation_key_def)
    have P: "\<And>a. ca_id a = ?i \<and> ca_reservedBalance a \<ge> ?n \<Longrightarrow> ca_id a = ?i" by simp
    have s1: "s1 = creditAccounts_update (update_where (\<lambda>a. ca_id a = ?i) (settle_balances ?n ?n (clock s))) s"
      by (rule off_update_account(2) [OF off0 upd u P balance_updates_identity(3), where da = ?n and dr = "- ?n"]) simp_all
    have s2: "s2 = creditReservations_update (update_where (\<lambda>y. cr_id y = cr_id q) ?f) s1"
      using res by (simp add: update_reservations_def update_rows_eq_Inr)
    have s': "creditAccounts s' = creditAccounts s2 \<and> creditReservations s' = creditReservations s2
        \<and> creditBuckets s' = creditBuckets s2"
      using tx by (auto simp: appendTransaction_def bind_eq_Inr insert_transaction_def insert_row_eq_Inr)
    show thesis by (rule that [OF q active]) (use r row s' s1 s2 in auto)
  qed
qed

definition balances :: "db \<Rightarrow> (string \<times> int \<times> int) list" where
  "balances s = map (\<lambda>a. (ca_id a, ca_availableBalance a, ca_reservedBalance a)) (creditAccounts s)"

text \<open>C14. Reserve then release is a round trip: when the release of a reservation directly
  follows the reservation and no bucket of the account is due for expiry, every balance and
  every bucket is what it was before the reservation; buckets that are due are swept by the
  reservation first, and then the balances and buckets are those after that sweep. The
  reservation is stored as released.\<close>

theorem reserve_release_roundtrip:
  assumes reach: "credit_reachable c" and res: "reserveCredits i (database c) = (Inr r, s1)" and fresh: "\<not> rr_duplicate r"
    and rel: "releaseReservation w s1 = (Inr (Settled p t), s2)"
    and same: "si_reservationId w = cr_id (rr_reservation r)"
  shows "\<exists>s0. expireDueBucketsForAccount (ri_applicationId i) (cr_creditAccountId (rr_reservation r))
        (resolveCreditEnvironment (ri_environment i)) (clock (database c)) (database c) = (Inr (), s0)
    \<and> balances s2 = balances s0 \<and> creditBuckets s2 = creditBuckets s0
    \<and> ((\<forall>b \<in> set (creditBuckets (database c)). cb_creditAccountId b = cr_creditAccountId (rr_reservation r)
          \<longrightarrow> \<not> due (clock (database c)) b)
        \<longrightarrow> balances s2 = balances (database c) \<and> creditBuckets s2 = creditBuckets (database c))
    \<and> cr_id (rr_reservation r) \<in> cr_id ` set (creditReservations s2)
    \<and> (\<forall>q \<in> set (creditReservations s2). cr_id q = cr_id (rr_reservation r) \<longrightarrow> cr_status q = ResReleased)"
proof -
  have reach1: "credit_reachable (c\<lparr>database := s1\<rparr>)"
    by (rule reachable.next_state [OF reach credit_step.reserve [OF res]])
  have inv1: "credit_inv s1" using reachable_credit_inv [OF reach1] by simp
  from reachable_credit_inv [OF reach] res fresh show ?thesis
  proof (rule reserve_run)
    fix a sa sb
    let ?n = "ri_amount i" and ?s = "database c"
    assume a: "a \<in> set (creditAccounts ?s)"
      and ex: "expireDueBucketsForAccount (ri_applicationId i) (ca_id a) (resolveCreditEnvironment (ri_environment i))
        (clock ?s) ?s = (Inr (), sa)"
      and sb: "sb = creditAccounts_update (update_where (\<lambda>x. ca_id x = ca_id a) (move_to_reserved ?n (clock ?s))) sa"
      and s1: "creditAccounts s1 = creditAccounts sb" "creditBuckets s1 = creditBuckets sb"
      and rs: "creditReservations s1 = creditReservations ?s @ [rr_reservation r]"
      and row: "cr_creditAccountId (rr_reservation r) = ca_id a" "cr_reservedAmount (rr_reservation r) = ?n"
    from inv1 rel show ?thesis
    proof (rule release_run)
      fix q :: credit_reservation
      assume q: "q \<in> set (creditReservations s1)" "cr_id q = si_reservationId w"
        and acc: "creditAccounts s2 = update_where (\<lambda>x. ca_id x = cr_creditAccountId q)
          (settle_balances (cr_reservedAmount q) (cr_reservedAmount q) (clock s1)) (creditAccounts s1)"
        and rv: "creditReservations s2 = update_where (\<lambda>y. cr_id y = cr_id q)
          (\<lambda>r. r\<lparr>cr_status := ResReleased, cr_updatedAt := clock s1\<rparr>) (creditReservations s1)"
        and bk: "creditBuckets s2 = creditBuckets s1"
      have "distinct (map cr_id (creditReservations s1))"
        using inv1 by (simp add: credit_inv_def off_def reservations_ok_def)
      then have qr: "q = rr_reservation r"
        using distinct_key_eq [OF _ q(1), of cr_id "rr_reservation r"] q(2) same rs by simp
      have "balances s2 = balances sa"
        unfolding balances_def acc s1 sb qr row by (simp add: update_where_def)
      moreover have "creditBuckets s2 = creditBuckets sa" using bk s1 sb by simp
      moreover have "\<forall>p \<in> set (creditReservations s2). cr_id p = cr_id (rr_reservation r) \<longrightarrow> cr_status p = ResReleased"
        unfolding rv by (auto simp: set_update_where qr simp del: if_image_distrib)
      moreover have "cr_id (rr_reservation r) \<in> cr_id ` set (creditReservations s2)"
      proof -
        have "map cr_id (creditReservations s2) = map cr_id (creditReservations s1)" unfolding rv by (simp add: update_where_def)
        then have "cr_id ` set (creditReservations s2) = cr_id ` set (creditReservations s1)" by (metis list.set_map)
        then show ?thesis using q(1) qr by blast
      qed
      moreover have "sa = ?s" if "\<forall>b \<in> set (creditBuckets ?s). cb_creditAccountId b = ca_id a \<longrightarrow> \<not> due (clock ?s) b"
      proof -
        have none: "filter (\<lambda>b. cb_creditAccountId b = ca_id a \<and> cb_applicationId b = ri_applicationId i
            \<and> cb_environment b = resolveCreditEnvironment (ri_environment i) \<and> due (clock ?s) b) (creditBuckets ?s) = []"
          using that by (auto simp: filter_empty_conv)
        show ?thesis using ex unfolding expireDueBucketsForAccount_def by (simp add: bind_apply none)
      qed
      ultimately show ?thesis using ex row(1) by auto
    qed
  qed
qed

theorem reserve_release_roundtrip_witness:
  "\<exists>p t s2. releaseReservation (demo_settle 0 ''z'') demo_held = (Inr (Settled p t), s2)
     \<and> balances s2 = [(''credit_0'', 100, 0)] \<and> creditBuckets s2 = [demo_bucket ''bucket_2'' ''ctx_1'' 100 None]"
proof -
  let ?i = "demo_reserve 40 ''r''" and ?w = "demo_settle 0 ''z''"
  have "succeeds (reserveCredits ?i) demo_one" and fresh: "\<not> rr_duplicate (result (reserveCredits ?i) demo_one)"
    and same: "si_reservationId ?w = cr_id (rr_reservation (result (reserveCredits ?i) demo_one))"
    by (simp_all add: run_simps cong: run_congs)
  then have run: "reserveCredits ?i (database (demo_system demo_one))
      = (Inr (result (reserveCredits ?i) demo_one), demo_held)"
    using succeeds_run by (simp add: demo_held_def)
  obtain p t where r: "result (releaseReservation ?w) demo_held = Settled p t" by (simp add: run_simps cong: run_congs)
  have ok: "succeeds (releaseReservation ?w) demo_held" by (simp add: run_simps cong: run_congs)
  have rel: "releaseReservation ?w demo_held = (Inr (Settled p t), after (releaseReservation ?w) demo_held)"
    using succeeds_run [OF ok] by (simp only: r)
  have "\<forall>b \<in> set (creditBuckets demo_one). \<not> due (clock demo_one) b" by (simp add: run_simps)
  moreover have "balances demo_one = [(''credit_0'', 100, 0)]"
    "creditBuckets demo_one = [demo_bucket ''bucket_2'' ''ctx_1'' 100 None]"
    by (simp_all add: balances_def run_simps)
  ultimately show ?thesis
    using reserve_release_roundtrip [OF demo_one_reachable run fresh rel same] rel by auto
qed

subsection \<open>Settled reservations are final\<close>

lemma update_keeps_settled:
  assumes inv: "off i b l r s" and q: "q \<in> set (creditReservations s)" "cr_status q \<noteq> ResActive"
    and p: "p \<in> set (creditReservations s)" "cr_status p = ResActive"
  shows "q \<in> set (update_where (\<lambda>y. cr_id y = cr_id p) f (creditReservations s))"
proof -
  have "cr_id q \<noteq> cr_id p"
    using distinct_key_eq [OF _ q(1) p(1), of cr_id] inv q(2) p(2) by (auto simp: off_def reservations_ok_def)
  then show ?thesis using q(1) by (force simp: set_update_where simp del: if_image_distrib)
qed

lemma reserve_keeps_settled:
  assumes run: "reserveCredits i s = (r, s')" and inv: "credit_inv s"
  shows "\<exists>new. creditReservations s' = creditReservations s @ new"
proof -
  have kept: "keeps (\<lambda>t. \<exists>new. creditReservations t = creditReservations s @ new)
      (transaction (reserve_tx i ty rt ri key env))" for ty rt ri key env
  proof (rule keeps_committed)
    fix t a t'
    assume "\<exists>new. creditReservations t = creditReservations s @ new" and "reserve_tx i ty rt ri key env t = (Inr a, t')"
    then show "\<exists>new. creditReservations t' = creditReservations s @ new"
      by (auto simp: reserve_tx_def reserve_locked_def reserve_commit_def resolve_found insert_reservation_def
          insert_row_eq_Inr elim!: bind_InrE split: option.splits
          dest!: expire_reservations update_accounts_reservations appendTransaction_reservations)
  qed
  have "keeps (\<lambda>t. \<exists>new. creditReservations t = creditReservations s @ new) (reserveCredits i)"
    unfolding reserveCredits_def Let_def
    by (intro keeps_bind validations_keep kept) (auto split: reserve_outcome.split)
  from keepsD [OF this run] show ?thesis by simp
qed

lemma capture_keeps_settled:
  assumes run: "captureReservation i s = (r, s')" and inv: "credit_inv s"
    and q: "q \<in> set (creditReservations s)" "cr_status q \<noteq> ResActive"
  shows "q \<in> set (creditReservations s')"
proof (cases "s' = s")
  case True
  with q show ?thesis by simp
next
  case False
  with run show ?thesis
  proof (rule capture_steps)
    fix p :: credit_reservation and rows s1 u rows' s2 v s3 txi t
    assume lock: "List.find (\<lambda>r. cr_id r = si_reservationId i \<and> cr_applicationId r = si_applicationId i)
        (creditReservations s) = Some p" and active: "cr_status p = ResActive"
      and upd: "update_accounts (\<lambda>a. ca_id a = cr_creditAccountId p \<and> ca_reservedBalance a \<ge> cr_reservedAmount p)
        (settle_balances (cr_reservedAmount p - si_amount i) (cr_reservedAmount p) (clock s)) s = (Inr rows, s1)"
      and res: "update_reservations (\<lambda>y. cr_id y = cr_id p)
        (\<lambda>r. r\<lparr>cr_status := ResCaptured, cr_capturedAmount := si_amount i, cr_updatedAt := clock s\<rparr>) s1 = (Inr rows', s2)"
      and co: "consumeBuckets (cr_creditAccountId p) (si_amount i) True s2 = (Inr v, s3)"
      and tx: "appendTransaction txi s3 = (Inr t, s')"
    have s2: "creditReservations s2 = update_where (\<lambda>y. cr_id y = cr_id p)
        (\<lambda>r. r\<lparr>cr_status := ResCaptured, cr_capturedAmount := si_amount i, cr_updatedAt := clock s\<rparr>) (creditReservations s)"
      using res update_accounts_reservations [OF upd] by (simp add: update_reservations_def update_rows_eq_Inr)
    have "creditReservations s' = creditReservations s2"
      using honoursD [OF unreserved.consumeBuckets co] honoursD [OF unreserved.appendTransaction tx]
      by (simp add: same_reservations_def)
    then show ?thesis
      unfolding s2 using update_keeps_settled [OF inv [unfolded credit_inv_def] q _ active] find_SomeD [OF lock] by metis
  qed
qed

lemma release_keeps_settled:
  assumes run: "releaseReservation i s = (r, s')" and inv: "credit_inv s"
    and q: "q \<in> set (creditReservations s)" "cr_status q \<noteq> ResActive"
  shows "q \<in> set (creditReservations s')"
proof (cases "s' = s")
  case True
  with q show ?thesis by simp
next
  case False
  obtain p t where "r = Inr (Settled p t)" by (rule release_steps [OF run False]) blast
  with run have run': "releaseReservation i s = (Inr (Settled p t), s')" by simp
  show ?thesis
    by (rule release_run [OF inv run']) (use update_keeps_settled [OF inv [unfolded credit_inv_def] q] in metis)
qed

lemma step_keeps_settled:
  assumes step: "credit_step c d" and inv: "credit_inv (database c)"
    and q: "q \<in> set (creditReservations (database c))" "cr_status q \<noteq> ResActive"
  shows "q \<in> set (creditReservations (database d))"
  using step
proof (cases rule: credit_step.cases)
  case (reserve v rr s')
  then show ?thesis using q(1) reserve_keeps_settled [OF reserve(2) inv] by auto
next
  case (capture w x s')
  then show ?thesis using capture_keeps_settled [OF capture(2) inv q] by simp
next
  case (release w x s')
  then show ?thesis using release_keeps_settled [OF release(2) inv q] by simp
next
  case (other s')
  then show ?thesis using q(1) by (simp add: elsewhere_def)
qed (use q(1) in \<open>auto simp: same_reservations_def
      dest: honoursD [OF unreserved.grantCredits] honoursD [OF unreserved.transaction [OF unreserved.grantConfigured]]
        honoursD [OF unreserved.debitCredits] honoursD [OF unreserved.refundCredits]
        honoursD [OF unreserved.revokeSubscriptionCredits] honoursD [OF unreserved.transaction [OF unreserved.expire_bucket_tx]]\<close>)

text \<open>A settled reservation is final: once captured or released, its row is the same in
  every later state; it is never charged, released or reopened again.\<close>

theorem settled_reservation_is_final:
  assumes reach: "credit_reachable c" and steps: "credit_step\<^sup>*\<^sup>* c d"
    and q: "q \<in> set (creditReservations (database c))" "cr_status q \<noteq> ResActive"
  shows "q \<in> set (creditReservations (database d))"
  using steps
proof (induction rule: rtranclp_induct)
  case base
  show ?case by (rule q(1))
next
  case (step d e)
  have "system_inv d" using ledger.steps_inv [OF step(1)] ledger.reachable_inv [OF reach] by blast
  then show ?case using step_keeps_settled [OF step(2) _ step(3) q(2)] by (simp add: system_inv_def)
qed

theorem settled_reservation_is_final_witness:
  "\<exists>q. cr_status q = ResReleased
     \<and> q \<in> set (creditReservations (after (debitCredits (demo_debit 5 ''e'')) (after (releaseReservation (demo_settle 0 ''z'')) demo_held)))"
proof -
  let ?s = "after (releaseReservation (demo_settle 0 ''z'')) demo_held"
  let ?t = "after (debitCredits (demo_debit 5 ''e'')) ?s" and ?q = "hd (creditReservations ?s)"
  have ev: "?q \<in> set (creditReservations ?s)" "cr_status ?q = ResReleased" by (simp_all add: run_simps cong: run_congs)
  have reach: "credit_reachable (demo_system ?s)"
    using reachable.next_state [OF demo_held_reachable credit_step.release, of "demo_settle 0 ''z''"]
    by (simp add: after_def prod_eq_iff)
  have step: "credit_step\<^sup>*\<^sup>* (demo_system ?s) (demo_system ?t)"
    using credit_step.debit [of "demo_debit 5 ''e''" "demo_system ?s"]
    by (intro r_into_rtranclp) (simp add: after_def prod_eq_iff)
  have "?q \<in> set (creditReservations (database (demo_system ?t)))"
    by (rule settled_reservation_is_final [OF reach step]) (use ev in simp_all)
  then show ?thesis using ev(2) by auto
qed

subsection \<open>Expired credits that no sweep has taken yet\<close>

lemma consume_fails_generic:
  assumes "consumeBuckets j n allow s = (Inl e, s')" and "0 < n"
  shows "e \<noteq> InsufficientCreditsError"
proof -
  have loop: "consume_loop now rows m t = (Inl e', t') \<Longrightarrow> e' \<noteq> InsufficientCreditsError" for now rows m t e' t'
    by (induction rows arbitrary: m t)
      (auto simp: Let_def bind_eq_Inl update_buckets_def update_rows_def split: if_splits)
  show ?thesis using assms by (auto simp: consumeBuckets_def bind_eq_Inl dest: loop)
qed

text \<open>C16. Debits do not sweep: when the balance of the account is large enough but part of it is
  expired credits that are still in active buckets, so that the spendable buckets hold less
  than the amount, a valid new debit fails, leaves the database as it was, and the error is
  not the \<open>InsufficientCreditsError\<close> callers handle.\<close>

theorem debit_of_unswept_credits_fails:
  assumes cust: "customer_found (di_applicationId i) (di_externalCustomerId i) s = Some cust"
    and valid: "normalized_key (di_creditType i) ty" "valid_amount (di_amount i)"
      "trim (di_sourceType i) \<noteq> []" "trim (di_sourceId i) \<noteq> []" "trim (di_idempotencyKey i) \<noteq> []"
    and new: "\<forall>t \<in> set (creditTransactions s). \<not> key_is (di_applicationId i)
           (resolveCreditEnvironment (di_environment i)) (trim (di_idempotencyKey i)) t"
    and acct: "List.find (account_scope (di_applicationId i) cust ty (resolveCreditEnvironment (di_environment i)))
        (creditAccounts s) = Some a" and enough: "di_amount i \<le> ca_availableBalance a"
    and expired: "remaining_sum (spendable (ca_id a) False s) < di_amount i"
    and reach: "credit_reachable c" "s = database c"
  shows "\<exists>e. debitCredits i s = (Inl e, s) \<and> e \<noteq> InsufficientCreditsError"
proof -
  let ?env = "resolveCreditEnvironment (di_environment i)" and ?n = "di_amount i"
  let ?upd = "update_accounts (\<lambda>x. ca_id x = ca_id a \<and> ca_availableBalance x \<ge> ?n) (add_available (- ?n) (clock s))"
  have off0: "off (ca_id a) 0 0 0 s" using reachable_off [OF reach(1)] reach(2) by simp
  have res: "resolveApplicationCustomerId (di_applicationId i) (di_externalCustomerId i) s = (Inr cust, s)"
    using cust by (simp add: resolve_found)
  have key: "List.find (key_is (di_applicationId i) ?env (trim (di_idempotencyKey i))) (creditTransactions s) = None"
    using new unfolding find_None_iff2 .
  have norm: "normalizeCreditType (di_creditType i) s = (Inr ty, s)"
    "assertPositiveAmount ?n ''Credit amount'' s = (Inr (), s)"
    "\<And>l. requireText (di_sourceType i) l s = (Inr (trim (di_sourceType i)), s)"
    "\<And>l. requireText (di_sourceId i) l s = (Inr (trim (di_sourceId i)), s)"
    "\<And>l. requireText (di_idempotencyKey i) l s = (Inr (trim (di_idempotencyKey i)), s)"
    using valid by simp_all
  have a: "a \<in> set (creditAccounts s)" using find_SomeD [OF acct] by simp
  note unfold_debit = debitCreditsForApplicationCustomerInTransaction_def Let_def require_apply
  have "\<exists>e t. debitCreditsForApplicationCustomerInTransaction i cust s = (Inl e, t) \<and> e \<noteq> InsufficientCreditsError"
  proof (cases "?upd s")
    case (Pair r s2)
    show ?thesis
    proof (cases r)
      case (Inl e)
      then have "e \<noteq> InsufficientCreditsError"
        using Pair by (auto simp: update_accounts_def update_rows_def Let_def split: if_splits)
      then show ?thesis using norm key acct Pair Inl by (simp add: unfold_debit)
    next
      case (Inr rows)
      have upd: "?upd s = (Inr rows, s2)" using Pair Inr by simp
      have "rows \<noteq> []"
        using upd a enough by (auto simp: update_accounts_def update_rows_eq_Inr filter_empty_conv)
      then obtain u where u: "first_row rows = Some u" by (cases rows) auto
      have P: "\<And>x. ca_id x = ca_id a \<and> ca_availableBalance x \<ge> ?n \<Longrightarrow> ca_id x = ca_id a" by simp
      note a1 = off_add_available [OF off0 upd u P]
      have sp: "spendable (ca_id a) False s2 = spendable (ca_id a) False s"
        by (simp add: spendable_def a1(3))
      have pos: "0 < ?n" using valid(2) by (simp add: valid_amount_def)
      have nok: "consumeBuckets (ca_id u) ?n False s2 \<noteq> (Inr v, s3)" for v s3
        using consumeBuckets_drains(2) [OF _ a1(1) pos, of "ca_id a" False v s3] expired a1(2) sp by auto
      obtain e s3 where co: "consumeBuckets (ca_id u) ?n False s2 = (Inl e, s3)"
        using nok by (cases "consumeBuckets (ca_id u) ?n False s2") (metis old.sum.exhaust)
      have "e \<noteq> InsufficientCreditsError" by (rule consume_fails_generic [OF co pos])
      then show ?thesis using norm key acct upd u co by (simp add: unfold_debit)
    qed
  qed
  then show ?thesis using res by (auto simp: debitCredits_def transaction_def)
qed

theorem debit_of_unswept_credits_fails_witness:
  "\<exists>e. debitCredits (demo_debit 120 ''d'') demo_late = (Inl e, demo_late) \<and> e \<noteq> InsufficientCreditsError"
proof -
  let ?i = "demo_debit 120 ''d''" and ?s = demo_late and ?a = "hd (creditAccounts demo_late)"
  have pre: "customer_found (di_applicationId ?i) (di_externalCustomerId ?i) ?s = Some ''cu''"
    "normalized_key (di_creditType ?i) ''img''" "valid_amount (di_amount ?i)"
    "trim (di_sourceType ?i) \<noteq> []" "trim (di_sourceId ?i) \<noteq> []" "trim (di_idempotencyKey ?i) \<noteq> []"
    "\<forall>t \<in> set (creditTransactions ?s). \<not> key_is (di_applicationId ?i)
           (resolveCreditEnvironment (di_environment ?i)) (trim (di_idempotencyKey ?i)) t"
    "List.find (account_scope (di_applicationId ?i) ''cu'' ''img'' (resolveCreditEnvironment (di_environment ?i)))
        (creditAccounts ?s) = Some ?a" "di_amount ?i \<le> ca_availableBalance ?a"
    "remaining_sum (spendable (ca_id ?a) False ?s) < di_amount ?i"
    by (simp_all add: demo_late_def customer_found_def normalized_key_def valid_amount_def remaining_sum_def
        spendable_def run_simps cong: run_congs)
  have "elsewhere demo_two demo_late"
    by (simp add: elsewhere_def demo_late_def table_kept_refl run_simps cong: run_congs)
  then have "credit_step (demo_system demo_two) ((demo_system demo_two)\<lparr>database := demo_late\<rparr>)"
    by (intro credit_step.other) simp
  from reachable.next_state [OF demo_two_reachable this] have "credit_reachable (demo_system demo_late)" by simp
  from debit_of_unswept_credits_fails [OF pre this] show ?thesis by simp
qed

subsection \<open>Refunds and configured grants\<close>

text \<open>C17. A refund is always booked to the test environment, whatever environment the request
  names: the ledger row it returns, first or replayed, is a test row.\<close>

theorem refund_books_to_test:
  assumes "refundCredits i s = (Inr r, s')"
  shows "ct_environment (tr_transaction r) = Test"
proof -
  obtain g where run: "grantCreditsInTransaction g s = (Inr r, s')" and env: "gi_environment g = None"
    using assms by (fastforce simp: refundCredits_def bind_eq_Inr resolve_found)
  show ?thesis
  proof (cases "grant_found g s")
    case (Some t)
    then have "tr_transaction r = t"
      using run by (auto simp: grantCreditsInTransaction_def bind_eq_Inr Let_def grant_found_def)
    then show ?thesis using Some env by (auto simp: grant_found_def key_is_def dest: find_SomeD)
  next
    case None
    from run None show ?thesis
      by (rule grant_appends) (use env in \<open>auto dest: appendTransaction_row(4)\<close>)
  qed
qed

theorem refund_books_to_test_witness:
  "di_environment (demo_debit 7 ''f'') = Some Live
   \<and> ct_environment (tr_transaction (result (refundCredits (demo_debit 7 ''f'')) demo_one)) = Test"
proof -
  have ok: "succeeds (refundCredits (demo_debit 7 ''f'')) demo_one" by (simp add: run_simps cong: run_congs)
  show ?thesis using refund_books_to_test [OF succeeds_run [OF ok]] by (simp add: demo_debit_def)
qed

text \<open>The amount a list of pairs holds for a key.\<close>

definition total_for :: "'k \<Rightarrow> ('k \<times> int) list \<Rightarrow> int" where
  "total_for k items = sum_list (map snd (filter (\<lambda>(j, n). j = k) items))"

lemma sum_quantities_total:
  "sum_quantities q items s = (Inr m, s') \<Longrightarrow> map_get_or m p 0 = map_get_or q p 0 + total_for p items"
proof (induction items arbitrary: q)
  case Nil
  then show ?case by (simp add: total_for_def)
next
  case (Cons x items)
  obtain j n where x: "x = (j, n)" by (cases x)
  have "sum_quantities (AList.update j (map_get_or q j 0 + n) q) items s = (Inr m, s')"
    using Cons.prems by (simp add: x Let_def split: if_splits)
  from Cons.IH [OF this] show ?case by (simp add: x total_for_def)
qed

lemma sum_amounts_total:
  "sum_amounts q m cs s = (Inr r, s') \<Longrightarrow> map_get_or r k 0 = map_get_or m k 0
     + sum_list (map (\<lambda>c. the (pg_quantity c) * map_get_or q (pg_productId c) 0) (filter (\<lambda>c. pg_referenceKey c = k) cs))"
proof (induction cs arbitrary: m)
  case Nil
  then show ?case by simp
next
  case (Cons c cs)
  obtain g where g: "pg_quantity c = Some g"
    and rest: "sum_amounts q (AList.update (pg_referenceKey c)
      (map_get_or m (pg_referenceKey c) 0 + g * map_get_or q (pg_productId c) 0) m) cs s = (Inr r, s')"
    using Cons.prems by (auto simp: Let_def split: option.splits if_splits)
  from Cons.IH [OF rest] g show ?case by simp
qed

text \<open>C18. A purchase grants, per credit type, exactly the configured quantity of every product
  times the quantity bought of it, over all the items and all the configurations, whatever
  the order and the repetition of products among them.\<close>

theorem configured_amounts_are_exact:
  assumes "sum_quantities [] items s = (Inr q, s)" and "sum_amounts q [] configs s = (Inr amounts, s')"
  shows "map_get_or amounts creditType 0
    = sum_list (map (\<lambda>c. the (pg_quantity c) * total_for (pg_productId c) items)
        (filter (\<lambda>c. pg_referenceKey c = creditType) configs))"
  using sum_amounts_total [OF assms(2)] sum_quantities_total [OF assms(1)]
  by (simp add: map_get_or_def)

theorem configured_amounts_are_exact_witness:
  "let items = [(''p'', 2), (''q'', 1), (''p'', 3)];
       configs = [\<lparr>pg_id = ''g'', pg_productId = ''p'', pg_grantType = GrantsCredit, pg_referenceKey = ''img'', pg_quantity = Some 10, pg_metadata = []\<rparr>,
         \<lparr>pg_id = ''g'', pg_productId = ''q'', pg_grantType = GrantsCredit, pg_referenceKey = ''img'', pg_quantity = Some 7, pg_metadata = []\<rparr>];
       q = [(''p'', 5), (''q'', 1)]
   in map_get_or (result (sum_amounts q [] configs) empty_db) ''img'' 0 = 57"
proof -
  let ?items = "[(''p'', 2), (''q'', 1), (''p'', 3)]" and ?q = "[(''p'', 5), (''q'', 1)]"
    and ?configs = "[\<lparr>pg_id = ''g'', pg_productId = ''p'', pg_grantType = GrantsCredit, pg_referenceKey = ''img'', pg_quantity = Some 10, pg_metadata = []\<rparr>,
         \<lparr>pg_id = ''g'', pg_productId = ''q'', pg_grantType = GrantsCredit, pg_referenceKey = ''img'', pg_quantity = Some 7, pg_metadata = []\<rparr>]"
  have q: "sum_quantities [] ?items empty_db = (Inr ?q, empty_db)" by (simp add: run_simps)
  have ok: "succeeds (sum_amounts ?q [] ?configs) empty_db" by (simp add: run_simps)
  from configured_amounts_are_exact [OF q succeeds_run [OF ok], of "''img''"]
  show ?thesis by (simp add: total_for_def)
qed

end
