(* ===== verification/Entitlements.thy ===== *)
theory Entitlements
  imports CreditCommerce
begin

text \<open>
  Entitlements (\<open>src/src/modules/entitlements/service.ts\<close>): a grant gives a customer a
  feature for a half-open window of time, on behalf of a source (an order, a subscription or
  an administrator) that can later revoke or expire it; access is granted when an active
  grant of the feature covers the instant.
\<close>

subsection \<open>The table\<close>

definition entitlement_check :: "entitlement_grant \<Rightarrow> bool" where
  "entitlement_check g \<longleftrightarrow> (case eg_validUntil g of None \<Rightarrow> True | Some u \<Rightarrow> eg_validFrom g < u)"

definition same_grant_key :: "entitlement_grant \<Rightarrow> entitlement_grant \<Rightarrow> bool" where
  "same_grant_key g h \<longleftrightarrow> eg_applicationId g = eg_applicationId h \<and> eg_environment g = eg_environment h
     \<and> eg_idempotencyKey g = eg_idempotencyKey h"

definition insert_entitlement :: "entitlement_grant \<Rightarrow> (db, entitlement_grant option) prog" where
  "insert_entitlement = insert_or_ignore ''entitlement_grants'' (\<lambda>_. True) entitlement_check same_grant_key
     (\<lambda>g h. eg_id g = eg_id h) (\<lambda>s g. customer_exists s (eg_applicationCustomerId g))
     entitlementGrants entitlementGrants_update"

definition update_entitlements ::
    "(entitlement_grant \<Rightarrow> bool) \<Rightarrow> (entitlement_grant \<Rightarrow> entitlement_grant) \<Rightarrow> (db, entitlement_grant list) prog" where
  "update_entitlements = update_rows ''entitlement_grants'' (\<lambda>_. True) entitlement_check
     entitlementGrants entitlementGrants_update"

lemmas entitlement_table_defs [table_defs] = insert_entitlement_def update_entitlements_def

subsection \<open>Validation\<close>

definition normalizeFeatureKey :: "string \<Rightarrow> (db, string) prog" where
  "normalizeFeatureKey value =
     (let featureKey = toLowerCase (trim value)
      in if featureKey = [] \<or> \<not> matches_key_pattern featureKey
         then throw (Error ''Feature key must use lowercase letters, numbers, dots, underscores, or hyphens'')
         else return featureKey)"

fun resolveEntitlementEnvironment :: "environment option \<Rightarrow> environment" where
  "resolveEntitlementEnvironment (Some Live) = Live"
| "resolveEntitlementEnvironment _ = Test"

text \<open>A \<open>Date\<close> argument is an instant or an invalid date (\<open>None\<close>, whose \<open>getTime()\<close> is
  \<open>NaN\<close>). The check hands on the instants it has found valid.\<close>

definition assertValidWindow :: "js_date \<Rightarrow> js_date option \<Rightarrow> (db, int \<times> int option) prog" where
  "assertValidWindow validFrom validUntil =
     bind (require (Error ''Entitlement validFrom must be a valid date'') validFrom) (\<lambda>start.
     case validUntil of
       None \<Rightarrow> return (start, None)
     | Some until \<Rightarrow>
         bind (require (Error ''Entitlement validUntil must be a valid date'') until) (\<lambda>end.
         bind (throw_if (end \<le> start) (Error ''Entitlement validUntil must be after validFrom'')) (\<lambda>_.
         return (start, Some end))))"

subsection \<open>Granting\<close>

record entitlement_input =
  ge_applicationId :: string
  ge_applicationCustomerId :: string
  ge_featureKey :: string
  ge_sourceType :: entitlement_source
  ge_sourceId :: string
  ge_sourceEventId :: "string option"
  ge_environment :: "environment option"
  ge_idempotencyKey :: string
  ge_validFrom :: js_date
  ge_validUntil :: "js_date option"
  ge_metadata :: "json_object option"

definition trimmed_or_null :: "string option \<Rightarrow> string option" where
  "trimmed_or_null t = (case t of None \<Rightarrow> None | Some x \<Rightarrow> if trim x = [] then None else Some (trim x))"

definition grant_is :: "string \<Rightarrow> environment \<Rightarrow> string \<Rightarrow> entitlement_grant \<Rightarrow> bool" where
  "grant_is app env key g \<longleftrightarrow> eg_applicationId g = app \<and> eg_environment g = env \<and> eg_idempotencyKey g = key"

definition grantEntitlement :: "entitlement_input \<Rightarrow> (db, entitlement_grant) prog" where
  "grantEntitlement input =
     bind (normalizeFeatureKey (ge_featureKey input)) (\<lambda>featureKey.
     let sourceId = trim (ge_sourceId input);
         idempotencyKey = trim (ge_idempotencyKey input);
         env = resolveEntitlementEnvironment (ge_environment input)
     in
     bind (throw_if (sourceId = []) (Error ''Entitlement sourceId is required'')) (\<lambda>_.
     bind (throw_if (idempotencyKey = []) (Error ''Entitlement idempotencyKey is required'')) (\<lambda>_.
     bind (assertValidWindow (ge_validFrom input) (ge_validUntil input)) (\<lambda>(validFrom, validUntil).
     bind (new_id ''ent_'') (\<lambda>i.
     bind now_date (\<lambda>now.
     bind (insert_entitlement
             \<lparr>eg_id = i, eg_applicationId = ge_applicationId input,
              eg_applicationCustomerId = ge_applicationCustomerId input, eg_featureKey = featureKey,
              eg_environment = env, eg_status = EntActive, eg_sourceType = ge_sourceType input,
              eg_sourceId = sourceId, eg_sourceEventId = trimmed_or_null (ge_sourceEventId input),
              eg_idempotencyKey = idempotencyKey, eg_validFrom = validFrom, eg_validUntil = validUntil,
              eg_metadata = or_empty (ge_metadata input), eg_updatedAt = now\<rparr>) (\<lambda>inserted.
     case inserted of
       Some grant \<Rightarrow> return grant
     | None \<Rightarrow>
         bind (gets (\<lambda>s. List.find (grant_is (ge_applicationId input) env idempotencyKey) (entitlementGrants s)))
           (\<lambda>existing.
         bind (require (Error ''Entitlement grant conflict occurred without a stored grant'') existing) (\<lambda>grant.
         bind (throw_if (eg_applicationCustomerId grant \<noteq> ge_applicationCustomerId input
                         \<or> eg_featureKey grant \<noteq> featureKey \<or> eg_sourceType grant \<noteq> ge_sourceType input
                         \<or> eg_sourceId grant \<noteq> sourceId \<or> eg_validFrom grant \<noteq> validFrom
                         \<or> eg_validUntil grant \<noteq> validUntil) EntitlementIdempotencyConflictError) (\<lambda>_.
         return grant))))))))))"

text \<open>The entitlements a purchase or a subscription period configures: one grant per feature
  of its products.\<close>

record configured_entitlements =
  ce_applicationId :: string
  ce_applicationCustomerId :: string
  ce_productIds :: "string list"
  ce_sourceType :: commerce_source
  ce_sourceId :: string
  ce_sourceEventId :: "string option"
  ce_validFrom :: js_date
  ce_validUntil :: "js_date option"
  ce_periodKey :: string
  ce_environment :: "environment option"

fun entitlement_source_of :: "commerce_source \<Rightarrow> entitlement_source" where
  "entitlement_source_of OrderSource = EntOrder"
| "entitlement_source_of SubscriptionSource = EntSubscription"

definition entitlement_configs :: "string \<Rightarrow> string list \<Rightarrow> db \<Rightarrow> product_grant_config list" where
  "entitlement_configs applicationId productIds s =
     filter (\<lambda>c. pg_productId c \<in> set productIds \<and> pg_grantType c = GrantsEntitlement
                 \<and> (\<exists>p \<in> set (products s). pr_id p = pg_productId c \<and> pr_applicationId p = applicationId))
       (productGrantConfigs s)"

definition entitlement_key :: "configured_entitlements \<Rightarrow> string \<Rightarrow> string" where
  "entitlement_key input featureKey =
     commerce_source_text (ce_sourceType input) @ '':'' @ ce_sourceId input @ '':'' @ ce_periodKey input
     @ '':'' @ featureKey"

definition configured_entitlement :: "configured_entitlements \<Rightarrow> string \<Rightarrow> entitlement_input" where
  "configured_entitlement input featureKey =
     \<lparr>ge_applicationId = ce_applicationId input, ge_applicationCustomerId = ce_applicationCustomerId input,
      ge_featureKey = featureKey, ge_sourceType = entitlement_source_of (ce_sourceType input),
      ge_sourceId = ce_sourceId input, ge_sourceEventId = ce_sourceEventId input,
      ge_environment = ce_environment input, ge_idempotencyKey = entitlement_key input featureKey,
      ge_validFrom = ce_validFrom input, ge_validUntil = ce_validUntil input, ge_metadata = None\<rparr>"

definition grantConfiguredEntitlements :: "configured_entitlements \<Rightarrow> (db, entitlement_grant list) prog" where
  "grantConfiguredEntitlements input =
     (if ce_productIds input = [] then return []
      else
        bind (gets (entitlement_configs (ce_applicationId input) (ce_productIds input))) (\<lambda>rows.
        for_loop (\<lambda>grants featureKey.
            bind (grantEntitlement (configured_entitlement input featureKey)) (\<lambda>g. return (grants @ [g])))
          [] (js_set (map pg_referenceKey rows))))"

subsection \<open>Ending\<close>

definition active_from_source :: "string \<Rightarrow> entitlement_source \<Rightarrow> string \<Rightarrow> entitlement_grant \<Rightarrow> bool" where
  "active_from_source app ty i g \<longleftrightarrow> eg_applicationId g = app \<and> eg_sourceType g = ty \<and> eg_sourceId g = i
     \<and> eg_status g = EntActive"

definition end_grant :: "entitlement_status \<Rightarrow> int \<Rightarrow> entitlement_grant \<Rightarrow> entitlement_grant" where
  "end_grant st now g = g\<lparr>eg_status := st, eg_updatedAt := now\<rparr>"

definition revokeEntitlementsBySource :: "string \<Rightarrow> commerce_source \<Rightarrow> string \<Rightarrow> (db, entitlement_grant list) prog" where
  "revokeEntitlementsBySource applicationId sourceType sourceId =
     bind now_date (\<lambda>now.
     update_entitlements (active_from_source applicationId (entitlement_source_of sourceType) sourceId)
       (end_grant EntRevoked now))"

definition expireEntitlementsBySource :: "string \<Rightarrow> string \<Rightarrow> (db, entitlement_grant list) prog" where
  "expireEntitlementsBySource applicationId sourceId =
     bind now_date (\<lambda>now.
     update_entitlements (active_from_source applicationId EntSubscription sourceId) (end_grant EntExpired now))"

subsection \<open>Checking\<close>

definition covers :: "int \<Rightarrow> entitlement_grant \<Rightarrow> bool" where
  "covers at g \<longleftrightarrow> eg_validFrom g \<le> at \<and> (case eg_validUntil g of None \<Rightarrow> True | Some u \<Rightarrow> at < u)"

definition gives_access :: "string \<Rightarrow> environment \<Rightarrow> string \<Rightarrow> string \<Rightarrow> int \<Rightarrow> entitlement_grant \<Rightarrow> bool" where
  "gives_access app env cust featureKey at g \<longleftrightarrow> eg_applicationId g = app \<and> eg_environment g = env
     \<and> eg_applicationCustomerId g = cust \<and> eg_featureKey g = featureKey \<and> eg_status g = EntActive \<and> covers at g"

definition hasEntitlementForApplicationCustomer ::
    "string \<Rightarrow> string \<Rightarrow> string \<Rightarrow> js_date \<Rightarrow> environment \<Rightarrow> (db, bool) prog" where
  "hasEntitlementForApplicationCustomer applicationId applicationCustomerId featureKey at env =
     bind (normalizeFeatureKey featureKey) (\<lambda>normalizedFeatureKey.
     bind (require (Error ''Entitlement check date is invalid'') at) (\<lambda>t.
     bind (gets (\<lambda>s. List.find (gives_access applicationId env applicationCustomerId normalizedFeatureKey t)
             (entitlementGrants s))) (\<lambda>grant.
     return (grant \<noteq> None))))"

definition hasEntitlement ::
    "string \<Rightarrow> string \<Rightarrow> string \<Rightarrow> js_date \<Rightarrow> environment \<Rightarrow> (db, bool) prog" where
  "hasEntitlement applicationId externalCustomerId featureKey at env =
     bind (gets (\<lambda>s. List.find (\<lambda>c. ac_applicationId c = applicationId
                                 \<and> ac_externalCustomerId c = externalCustomerId)
             (applicationCustomers s))) (\<lambda>mapping.
     case mapping of
       None \<Rightarrow> return False
     | Some c \<Rightarrow> hasEntitlementForApplicationCustomer applicationId (ac_id c) featureKey at env)"

lemmas [run_simps] = entitlement_check_def same_grant_key_def entitlement_table_defs normalizeFeatureKey_def
  assertValidWindow_def trimmed_or_null_def grant_is_def grantEntitlement_def entitlement_configs_def
  entitlement_key_def configured_entitlement_def grantConfiguredEntitlements_def active_from_source_def
  end_grant_def revokeEntitlementsBySource_def expireEntitlementsBySource_def covers_def gives_access_def
  hasEntitlementForApplicationCustomer_def hasEntitlement_def or_empty_def

end
