(* ===== verification/EntitlementFacts.thy ===== *)
theory EntitlementFacts
  imports Entitlements Frames StateMachine
begin

text \<open>
  Facts about entitlements: what a grant run returns and appends, frames of the operations
  (grants are never removed, and an ended grant stays ended), the exactly-once contract, the
  state machine of the module with its table invariant.
\<close>

subsection \<open>Validation\<close>

lemma normalizeFeatureKey_eq_Inr [simp]:
  "normalizeFeatureKey v s = (Inr k, s') \<longleftrightarrow> s' = s \<and> normalized_key v k"
  by (auto simp: normalizeFeatureKey_def normalized_key_def Let_def)

lemma normalized_key_unique: "normalized_key v k \<Longrightarrow> normalized_key v k' \<Longrightarrow> k' = k"
  by (simp add: normalized_key_def)

definition valid_window :: "js_date \<Rightarrow> js_date option \<Rightarrow> int \<Rightarrow> int option \<Rightarrow> bool" where
  "valid_window validFrom validUntil a b \<longleftrightarrow> validFrom = Some a
     \<and> (case validUntil of None \<Rightarrow> b = None | Some u \<Rightarrow> \<exists>e. u = Some e \<and> a < e \<and> b = Some e)"

lemma assertValidWindow_eq_Inr [simp]:
  "assertValidWindow f u s = (Inr (a, b), s') \<longleftrightarrow> s' = s \<and> valid_window f u a b"
  by (auto simp: assertValidWindow_def valid_window_def bind_eq_Inr split: option.splits)

lemma valid_window_unique: "valid_window f u a b \<Longrightarrow> valid_window f u c d \<longleftrightarrow> c = a \<and> d = b"
  by (auto simp: valid_window_def split: option.splits)

subsection \<open>A grant run\<close>

definition grant_found_for :: "entitlement_input \<Rightarrow> db \<Rightarrow> entitlement_grant option" where
  "grant_found_for input s = List.find (grant_is (ge_applicationId input)
     (resolveEntitlementEnvironment (ge_environment input)) (trim (ge_idempotencyKey input))) (entitlementGrants s)"

definition represents :: "entitlement_input \<Rightarrow> entitlement_grant \<Rightarrow> bool" where
  "represents input g \<longleftrightarrow> normalized_key (ge_featureKey input) (eg_featureKey g)
     \<and> trim (ge_sourceId input) \<noteq> [] \<and> eg_sourceId g = trim (ge_sourceId input)
     \<and> trim (ge_idempotencyKey input) \<noteq> []
     \<and> valid_window (ge_validFrom input) (ge_validUntil input) (eg_validFrom g) (eg_validUntil g)
     \<and> eg_applicationCustomerId g = ge_applicationCustomerId input \<and> eg_sourceType g = ge_sourceType input"

lemma same_grant_key_is:
  "same_grant_key g h \<longleftrightarrow> grant_is (eg_applicationId g) (eg_environment g) (eg_idempotencyKey g) h"
  by (auto simp: same_grant_key_def grant_is_def)

lemma find_Some_iff_ex: "(\<exists>y. List.find P xs = Some y) \<longleftrightarrow> (\<exists>x \<in> set xs. P x)"
  by (induction xs) auto

lemma find_None_no: "List.find P xs = None \<longleftrightarrow> \<not> (\<exists>x \<in> set xs. P x)"
  by (auto simp: find_None_iff)

lemma grant_new:
  assumes "grantEntitlement input s = (Inr g, s')" and "grant_found_for input s = None"
  shows "represents input g" and "eg_status g = EntActive" and "eg_applicationId g = ge_applicationId input"
    and "eg_environment g = resolveEntitlementEnvironment (ge_environment input)"
    and "eg_idempotencyKey g = trim (ge_idempotencyKey input)"
    and "s' = s\<lparr>uuids := Suc (uuids s), entitlementGrants := entitlementGrants s @ [g]\<rparr>"
  using assms
  by (auto simp: grantEntitlement_def bind_eq_Inr Let_def insert_entitlement_def insert_or_ignore_eq_Inr
      same_grant_key_is grant_found_for_def find_None_no represents_def split: if_splits)

lemma grant_replayed:
  assumes "grantEntitlement input s = (Inr g, s')" and "grant_found_for input s = Some h"
  shows "g = h" and "represents input h" and "s' = s\<lparr>uuids := Suc (uuids s)\<rparr>"
proof -
  have h: "h \<in> set (entitlementGrants s)" "grant_is (ge_applicationId input)
     (resolveEntitlementEnvironment (ge_environment input)) (trim (ge_idempotencyKey input)) h"
    using assms(2) by (auto simp: grant_found_for_def dest: find_SomeD)
  then show "g = h" "represents input h" "s' = s\<lparr>uuids := Suc (uuids s)\<rparr>"
    using assms
    by (auto simp: grantEntitlement_def bind_eq_Inr Let_def insert_entitlement_def insert_or_ignore_eq_Inr
      same_grant_key_is grant_found_for_def represents_def split: if_splits)
qed

text \<open>A stored grant that matches is the answer; one that does not is a conflict.\<close>

lemma grant_answer:
  assumes found: "grant_found_for input s = Some h" and rep: "represents input h"
  shows "grantEntitlement input s = (Inr h, s\<lparr>uuids := Suc (uuids s)\<rparr>)"
proof -
  have h: "h \<in> set (entitlementGrants s)" "grant_is (ge_applicationId input)
     (resolveEntitlementEnvironment (ge_environment input)) (trim (ge_idempotencyKey input)) h"
    using found by (auto simp: grant_found_for_def dest: find_SomeD)
  have chk: "entitlement_check g" if "eg_validFrom g = eg_validFrom h" "eg_validUntil g = eg_validUntil h" for g
    using rep that by (auto simp: represents_def valid_window_def entitlement_check_def split: option.splits)
  have fk: "normalizeFeatureKey (ge_featureKey input) s = (Inr (eg_featureKey h), s)"
    and win: "assertValidWindow (ge_validFrom input) (ge_validUntil input) s = (Inr (eg_validFrom h, eg_validUntil h), s)"
    using rep by (auto simp: represents_def)
  show ?thesis
    using rep found h
    by (auto simp: fk win grantEntitlement_def Let_def insert_entitlement_def insert_or_ignore_def bind_apply
      same_grant_key_is grant_found_for_def represents_def chk throw_if_apply require_apply)
qed

subsection \<open>Frames of the entitlement operations\<close>

locale entitlement_frame = frame R for R :: "db \<Rightarrow> db \<Rightarrow> bool" +
  assumes draws_id: "R s (s\<lparr>uuids := Suc (uuids s)\<rparr>)"
    and new_entitlement: "eg_status g = EntActive \<Longrightarrow> honours R (insert_entitlement g)"
    and ends: "(\<And>g. P g \<Longrightarrow> eg_status g = EntActive) \<Longrightarrow> honours R (update_entitlements P (end_grant st now))"
begin

lemma id_drawn [simp]: "honours R (new_id p)"
  using draws_id by (simp add: honours_def)

lemma checks [simp]:
  "honours R (normalizeFeatureKey v)" "honours R (assertValidWindow f u)"
  by (auto simp: normalizeFeatureKey_def assertValidWindow_def Let_def intro!: compose)

lemma grantEntitlement [simp]: "honours R (grantEntitlement input)"
  unfolding grantEntitlement_def Let_def
  by (intro bind) (auto intro!: bind new_entitlement split: option.split)

lemma grantConfigured [simp]: "honours R (grantConfiguredEntitlements input)"
  unfolding grantConfiguredEntitlements_def by (auto intro!: compose)

lemma revokeBySource [simp]: "honours R (revokeEntitlementsBySource app ty i)"
  unfolding revokeEntitlementsBySource_def by (auto intro!: compose ends simp: active_from_source_def)

lemma expireBySource [simp]: "honours R (expireEntitlementsBySource app i)"
  unfolding expireEntitlementsBySource_def by (auto intro!: compose ends simp: active_from_source_def)

end

text \<open>A stored grant changes only by being ended, once.\<close>

definition same_entitlement :: "entitlement_grant \<Rightarrow> entitlement_grant \<Rightarrow> bool" where
  "same_entitlement g h \<longleftrightarrow> h = g\<lparr>eg_status := eg_status h, eg_updatedAt := eg_updatedAt h\<rparr>
     \<and> (eg_status g \<noteq> EntActive \<longrightarrow> h = g)"

lemma same_entitlement_refl [simp]: "same_entitlement g g"
  by (simp add: same_entitlement_def)

lemma same_entitlement_trans: "same_entitlement g h \<Longrightarrow> same_entitlement h k \<Longrightarrow> same_entitlement g k"
  by (cases g; cases h; cases k) (auto simp: same_entitlement_def)

lemma same_entitlementD: "same_entitlement g h \<Longrightarrow> eg_id h = eg_id g \<and> eg_applicationId h = eg_applicationId g
    \<and> eg_applicationCustomerId h = eg_applicationCustomerId g \<and> eg_featureKey h = eg_featureKey g
    \<and> eg_environment h = eg_environment g \<and> eg_sourceType h = eg_sourceType g \<and> eg_sourceId h = eg_sourceId g
    \<and> eg_idempotencyKey h = eg_idempotencyKey g \<and> eg_validFrom h = eg_validFrom g
    \<and> eg_validUntil h = eg_validUntil g"
  by (cases g; cases h) (auto simp: same_entitlement_def)

lemma end_grant_same: "eg_status g = EntActive \<Longrightarrow> same_entitlement g (end_grant st now g)"
  by (cases g) (simp add: same_entitlement_def end_grant_def)

definition entitlements_kept :: "db \<Rightarrow> db \<Rightarrow> bool" where
  "entitlements_kept s t \<longleftrightarrow> table_kept same_entitlement (entitlementGrants s) (entitlementGrants t)"

lemma entitlements_kept_refl [simp]: "entitlements_kept s s"
  by (simp add: entitlements_kept_def table_kept_refl)

lemma entitlements_kept_trans: "entitlements_kept s t \<Longrightarrow> entitlements_kept t u \<Longrightarrow> entitlements_kept s u"
  unfolding entitlements_kept_def by (rule table_kept_trans [OF same_entitlement_trans])

interpretation ent_kept: entitlement_frame entitlements_kept
proof (unfold_locales, goal_cases)
  case (4 g)
  show ?case unfolding insert_entitlement_def
    by (rule insert_or_ignore_kept) (simp_all add: entitlements_kept_def)
next
  case (5 P st now)
  then show ?case unfolding update_entitlements_def
    by (intro update_rows_kept)
      (simp_all add: entitlements_kept_def table_kept_refl table_kept_update_where end_grant_same)
qed (auto simp: entitlements_kept_def table_kept_refl intro: table_kept_trans same_entitlement_trans)

text \<open>No other table is written.\<close>

definition only_entitlements :: "db \<Rightarrow> db \<Rightarrow> bool" where
  "only_entitlements s t \<longleftrightarrow> t = s\<lparr>uuids := uuids t, entitlementGrants := entitlementGrants t\<rparr> \<and> uuids s \<le> uuids t"

lemma only_entitlements_trans: "only_entitlements s t \<Longrightarrow> only_entitlements t u \<Longrightarrow> only_entitlements s u"
  by (cases s; cases t; cases u) (auto simp: only_entitlements_def)

interpretation ent_only: entitlement_frame only_entitlements
proof (unfold_locales, goal_cases)
  case (2 s t u) then show ?case by (rule only_entitlements_trans)
next
  case (4 g)
  show ?case unfolding insert_entitlement_def
    by (rule insert_or_ignore_kept) (simp_all add: only_entitlements_def)
next
  case (5 P st now)
  show ?case unfolding update_entitlements_def
    by (rule update_rows_kept) (simp_all add: only_entitlements_def)
qed (simp_all add: only_entitlements_def)

subsection \<open>The exactly-once contract\<close>

lemma grant_found_later:
  assumes "entitlements_kept s t" and "grant_found_for input s = Some g"
  shows "\<exists>h. grant_found_for input t = Some h \<and> same_entitlement g h"
  using assms unfolding grant_found_for_def entitlements_kept_def
  by (rule table_kept_find) (auto simp: grant_is_def dest: same_entitlementD)

lemma grant_stored:
  assumes "grantEntitlement input s = (Inr g, s')"
  shows "grant_found_for input s' = Some g \<and> represents input g"
proof (cases "grant_found_for input s")
  case None
  from grant_new [OF assms None] None show ?thesis
    by (simp add: grant_found_for_def find_append grant_is_def)
next
  case (Some h)
  from grant_replayed [OF assms Some] Some show ?thesis by (simp add: grant_found_for_def)
qed

interpretation entitlement_grants: stored_answer grantEntitlement entitlements_kept "\<lambda>_ _. True" grant_found_for
  represents same_entitlement "(=)" "\<lambda>g. g" only_ids
proof (unfold_locales, goal_cases)
  case (2 i r s s') then show ?case using grant_stored by blast
next
  case (3 s t i x) then show ?case by (rule grant_found_later)
next
  case (4 i x y) then show ?case by (auto simp: represents_def dest: same_entitlementD)
next
  case (5 i t y) then show ?case using grant_answer by fastforce
next
  case (7 s t u) then show ?case by (rule only_ids_trans)
next
  case (8 s t u)
  moreover from 8(2) have "entitlementGrants u = entitlementGrants t"
    by (cases t; cases u) (simp add: only_ids_def)
  ultimately show ?case by (simp add: entitlements_kept_def)
qed simp_all

subsection \<open>The state machine\<close>

definition grant_slot :: "entitlement_grant \<Rightarrow> string \<times> environment \<times> string" where
  "grant_slot g = (eg_applicationId g, eg_environment g, eg_idempotencyKey g)"

lemma same_grant_key_slot: "same_grant_key g h \<longleftrightarrow> grant_slot h = grant_slot g"
  by (auto simp: same_grant_key_def grant_slot_def)

text \<open>One grant per idempotency key, and every window is a proper one.\<close>

definition entitlement_inv :: "db \<Rightarrow> bool" where
  "entitlement_inv s \<longleftrightarrow> distinct (map grant_slot (entitlementGrants s))
     \<and> list_all entitlement_check (entitlementGrants s)"

lemma end_grant_inv:
  "entitlement_inv s \<Longrightarrow> entitlement_inv (entitlementGrants_update (update_where P (end_grant st now)) s)"
  by (auto simp: entitlement_inv_def map_update_where_same grant_slot_def end_grant_def set_update_where
      list_all_iff entitlement_check_def split: option.splits)

interpretation ent_inv: entitlement_frame "\<lambda>s t. entitlement_inv s \<longrightarrow> entitlement_inv t"
proof (unfold_locales, goal_cases)
  case (4 g)
  show ?case
    by (auto simp: honours_def insert_entitlement_def insert_or_ignore_def entitlement_inv_def
        same_grant_key_slot image_iff list_all_iff)
next
  case (5 P st now)
  show ?case unfolding update_entitlements_def
    by (rule update_rows_kept) (simp_all add: end_grant_inv)
qed (auto simp: entitlement_inv_def)

inductive entitlement_step :: "db \<Rightarrow> db \<Rightarrow> bool" where
  grant: "grantEntitlement i s = (g, s') \<Longrightarrow> entitlement_step s s'"
| configured: "transaction (grantConfiguredEntitlements c) s = (gs, s') \<Longrightarrow> entitlement_step s s'"
| revoke: "revokeEntitlementsBySource app ty src s = (rs, s') \<Longrightarrow> entitlement_step s s'"
| expire: "expireEntitlementsBySource app src s = (rs, s') \<Longrightarrow> entitlement_step s s'"
| other: "entitlementGrants s' = entitlementGrants s \<Longrightarrow> entitlement_step s s'"

inductive_cases entitlement_stepE: "entitlement_step s t"

definition entitlement_init :: "db \<Rightarrow> bool" where
  "entitlement_init s \<longleftrightarrow> entitlementGrants s = []"

abbreviation entitlement_reachable :: "db \<Rightarrow> bool" where
  "entitlement_reachable \<equiv> reachable entitlement_init entitlement_step"

interpretation access: invariant_system entitlement_init entitlement_step entitlement_inv entitlements_kept
proof (unfold_locales, goal_cases)
  case (1 s) then show ?case by (simp add: entitlement_init_def entitlement_inv_def)
next
  case (2 s t)
  from 2(2,1) show ?case
    by (elim entitlement_stepE)
      (auto dest: honoursD [OF ent_inv.grantEntitlement] honoursD [OF ent_inv.transaction [OF ent_inv.grantConfigured]]
        honoursD [OF ent_inv.revokeBySource] honoursD [OF ent_inv.expireBySource] simp: entitlement_inv_def)
next
  case (3 s t)
  from 3(2) show ?case
    by (elim entitlement_stepE)
      (auto dest: honoursD [OF ent_kept.grantEntitlement] honoursD [OF ent_kept.transaction [OF ent_kept.grantConfigured]]
        honoursD [OF ent_kept.revokeBySource] honoursD [OF ent_kept.expireBySource]
        simp: entitlements_kept_def table_kept_refl)
next
  case (4 s) show ?case by simp
next
  case (5 s t u) then show ?case by (rule entitlements_kept_trans)
qed

interpretation configured: keyed_batch grantEntitlement entitlements_kept "\<lambda>_ _. True"
  "\<lambda>r r'. \<exists>x y. r = x \<and> same_entitlement x y \<and> r' = y" only_ids
  by unfold_locales (auto dest: honoursD [OF ent_kept.grantEntitlement] intro: entitlements_kept_trans)

text \<open>Which grants give access after an operation.\<close>

lemma check_answer:
  "normalized_key f k \<Longrightarrow> hasEntitlementForApplicationCustomer app cust f (Some at) env s
     = (Inr (\<exists>g \<in> set (entitlementGrants s). gives_access app env cust k at g), s)"
  by (auto simp: hasEntitlementForApplicationCustomer_def bind_eq_Inr find_Some_iff_ex)

subsection \<open>Configured grants as a batch\<close>

lemma configured_batch:
  "ce_productIds c \<noteq> [] \<Longrightarrow> grantConfiguredEntitlements c s =
     batch grantEntitlement [] (map (configured_entitlement c)
       (js_set (map pg_referenceKey (entitlement_configs (ce_applicationId c) (ce_productIds c) s)))) s"
proof -
  have loop: "for_loop (\<lambda>grants k. bind (grantEntitlement (configured_entitlement c k)) (\<lambda>g. return (grants @ [g]))) acc ks u
      = batch grantEntitlement acc (map (configured_entitlement c) ks) u" for acc ks u
    by (induction ks arbitrary: acc u) (auto simp: batch_def bind_def split: prod.split sum.split)
  show "ce_productIds c \<noteq> [] \<Longrightarrow> ?thesis"
    by (simp add: grantConfiguredEntitlements_def loop)
qed

lemma batch_grants:
  assumes "batch grantEntitlement acc is s = (Inr gs, s')"
  shows "\<exists>hs. gs = acc @ hs \<and> list_all2 (\<lambda>i g. represents i g \<and> (\<exists>h \<in> set (entitlementGrants s'). same_entitlement g h)) is hs"
  using assms
proof (induction "is" arbitrary: acc s)
  case Nil
  then show ?case by (simp add: batch_def)
next
  case (Cons i "is")
  obtain g s1 where g: "grantEntitlement i s = (Inr g, s1)" and rest: "batch grantEntitlement (acc @ [g]) is s1 = (Inr gs, s')"
    using Cons.prems by (auto simp: batch_def bind_eq_Inr)
  have "g \<in> set (entitlementGrants s1)"
    using grant_stored [OF g] by (auto simp: grant_found_for_def dest: find_SomeD)
  then have "\<exists>h \<in> set (entitlementGrants s'). same_entitlement g h"
    using configured.batch_later [OF rest] unfolding entitlements_kept_def by (rule table_kept_mem [rotated])
  then show ?case
    using Cons.IH [OF rest] grant_stored [OF g] by auto
qed

text \<open>A batch only adds grants: what it finds stays as it is, and what it adds is active.\<close>

lemma grant_adds:
  assumes "grantEntitlement i s = (Inr g, s')"
  shows "(g \<in> set (entitlementGrants s) \<and> entitlementGrants s' = entitlementGrants s
      \<or> eg_status g = EntActive \<and> entitlementGrants s' = entitlementGrants s @ [g])
    \<and> represents i g \<and> grant_is (ge_applicationId i) (resolveEntitlementEnvironment (ge_environment i))
        (trim (ge_idempotencyKey i)) g"
proof (cases "grant_found_for i s")
  case None
  then show ?thesis using grant_new [OF assms None] by (simp add: grant_is_def)
next
  case (Some h)
  then show ?thesis using grant_replayed [OF assms Some] by (auto simp: grant_found_for_def dest: find_SomeD)
qed

lemma batch_adds:
  assumes "batch grantEntitlement acc is s = (Inr gs, s')"
  shows "(\<exists>new. entitlementGrants s' = entitlementGrants s @ new \<and> (\<forall>g \<in> set new. eg_status g = EntActive))
    \<and> (\<forall>i \<in> set is. \<exists>g \<in> set (entitlementGrants s'). represents i g
         \<and> grant_is (ge_applicationId i) (resolveEntitlementEnvironment (ge_environment i)) (trim (ge_idempotencyKey i)) g)"
  using assms
proof (induction "is" arbitrary: acc s)
  case Nil
  then show ?case by (simp add: batch_def)
next
  case (Cons i "is")
  obtain g s1 where g: "grantEntitlement i s = (Inr g, s1)" and rest: "batch grantEntitlement (acc @ [g]) is s1 = (Inr gs, s')"
    using Cons.prems by (auto simp: batch_def bind_eq_Inr)
  obtain new where new: "entitlementGrants s' = entitlementGrants s1 @ new" "\<forall>g \<in> set new. eg_status g = EntActive"
    and all: "\<forall>i \<in> set is. \<exists>g \<in> set (entitlementGrants s'). represents i g
      \<and> grant_is (ge_applicationId i) (resolveEntitlementEnvironment (ge_environment i)) (trim (ge_idempotencyKey i)) g"
    using Cons.IH [OF rest] by blast
  note this' = grant_adds [OF g]
  have "g \<in> set (entitlementGrants s1)" using this' by auto
  then have "g \<in> set (entitlementGrants s')" using new(1) by simp
  moreover obtain new1 where "entitlementGrants s1 = entitlementGrants s @ new1" "\<forall>g \<in> set new1. eg_status g = EntActive"
    using this' by auto
  ultimately show ?case using this' new all by (intro conjI exI [of _ "new1 @ new"]) auto
qed

text \<open>A stored grant that does not match stops the batch.\<close>

lemma batch_conflict:
  assumes "batch grantEntitlement acc is s = (Inr gs, s')" and "i \<in> set is" and "grant_found_for i s = Some h"
  shows "represents i h"
  using assms
proof (induction "is" arbitrary: acc s h)
  case Nil
  then show ?case by simp
next
  case (Cons j "is")
  obtain g s1 where g: "grantEntitlement j s = (Inr g, s1)" and rest: "batch grantEntitlement (acc @ [g]) is s1 = (Inr gs, s')"
    using Cons.prems(1) by (auto simp: batch_def bind_eq_Inr)
  show ?case
  proof (cases "i = j")
    case True
    then show ?thesis using grant_replayed(2) g Cons.prems(3) by blast
  next
    case False
    have "entitlements_kept s s1" using honoursD [OF ent_kept.grantEntitlement g] .
    from grant_found_later [OF this Cons.prems(3)] obtain h' where "grant_found_for i s1 = Some h'" "same_entitlement h h'" by blast
    moreover from this False Cons.prems(2) have "represents i h'" using Cons.IH [OF rest] by simp
    ultimately show ?thesis by (auto simp: represents_def dest: same_entitlementD)
  qed
qed

end
