(* ===== verification/EntitlementProperties.thy ===== *)
theory EntitlementProperties
  imports EntitlementFacts CreditExamples
begin

text \<open>
  The properties of the entitlement module: access is exactly what the active grants cover,
  a grant gives access for its half-open window and applies once, ending a source takes its
  access away for good, and a purchase's configured grants are replayed as a whole.
\<close>

subsection \<open>A concrete run\<close>

definition demo_feature :: "string \<Rightarrow> entitlement_input" where
  "demo_feature key = \<lparr>ge_applicationId = ''app'', ge_applicationCustomerId = ''cu'', ge_featureKey = '' hd '',
     ge_sourceType = EntOrder, ge_sourceId = ''o'', ge_sourceEventId = None, ge_environment = Some Live,
     ge_idempotencyKey = key, ge_validFrom = Some 1000, ge_validUntil = Some (Some 5000), ge_metadata = None\<rparr>"

definition demo_entitled :: entitlement_grant where
  "demo_entitled = \<lparr>eg_id = ''ent_0'', eg_applicationId = ''app'', eg_applicationCustomerId = ''cu'',
     eg_featureKey = ''hd'', eg_environment = Live, eg_status = EntActive, eg_sourceType = EntOrder,
     eg_sourceId = ''o'', eg_sourceEventId = None, eg_idempotencyKey = ''k'', eg_validFrom = 1000,
     eg_validUntil = Some 5000, eg_metadata = [], eg_updatedAt = 1000\<rparr>"

lemmas [run_simps] = demo_feature_def demo_entitled_def

abbreviation demo_access :: db where
  "demo_access \<equiv> demo_db\<lparr>uuids := 1, entitlementGrants := [demo_entitled]\<rparr>"

lemma demo_feature_run: "grantEntitlement (demo_feature ''k'') demo_db = (Inr demo_entitled, demo_access)"
  by (simp add: run_simps cong: run_congs)

lemma demo_feature_new: "grant_found_for (demo_feature ''k'') demo_db = None"
  by (simp add: grant_found_for_def run_simps)

lemma demo_key: "normalized_key ''hd'' ''hd''" "normalized_key '' hd '' ''hd''"
  by (simp_all add: normalized_key_def run_simps)

subsection \<open>Access\<close>

text \<open>Access follows the grants: the check answers whether the external customer is
  registered with the application and has an active grant of the (normalized) feature, in the
  environment asked for, whose window \<open>[validFrom, validUntil)\<close> contains the instant; it
  never changes anything.\<close>

lemma access_is_a_covering_grant:
  assumes "normalized_key f k"
  shows "hasEntitlement app ext f (Some at) env s =
    (Inr (case List.find (\<lambda>c. ac_applicationId c = app \<and> ac_externalCustomerId c = ext) (applicationCustomers s) of
       None \<Rightarrow> False
     | Some c \<Rightarrow> \<exists>g \<in> set (entitlementGrants s). eg_applicationId g = app \<and> eg_environment g = env
         \<and> eg_applicationCustomerId g = ac_id c \<and> eg_featureKey g = k \<and> eg_status g = EntActive
         \<and> eg_validFrom g \<le> at \<and> (\<forall>u. eg_validUntil g = Some u \<longrightarrow> at < u)), s)"
proof -
  have "gives_access app env cust k at g \<longleftrightarrow> eg_applicationId g = app \<and> eg_environment g = env
      \<and> eg_applicationCustomerId g = cust \<and> eg_featureKey g = k \<and> eg_status g = EntActive
      \<and> eg_validFrom g \<le> at \<and> (\<forall>u. eg_validUntil g = Some u \<longrightarrow> at < u)" for cust g
    by (auto simp: gives_access_def covers_def split: option.splits)
  then show ?thesis
    using check_answer [OF assms]
    by (simp add: hasEntitlement_def split: option.split)
qed

text \<open>C19. A fresh grant gives access to its feature for exactly its window: after it, a check
  answers yes where it did before, and additionally for the granted customer, feature and
  environment from \<open>validFrom\<close> on and strictly before \<open>validUntil\<close>.\<close>

theorem grant_gives_access_in_window:
  assumes run: "grantEntitlement i s = (Inr g, s')" and fresh: "grant_found_for i s = None"
    and key: "normalized_key f k"
  shows "\<exists>had. hasEntitlementForApplicationCustomer app cust f (Some at) env s = (Inr had, s)
    \<and> hasEntitlementForApplicationCustomer app cust f (Some at) env s'
      = (Inr (had \<or> app = ge_applicationId i \<and> cust = ge_applicationCustomerId i
           \<and> env = resolveEntitlementEnvironment (ge_environment i) \<and> normalized_key (ge_featureKey i) k
           \<and> (\<exists>a b. valid_window (ge_validFrom i) (ge_validUntil i) a b \<and> a \<le> at \<and> (\<forall>u. b = Some u \<longrightarrow> at < u))), s')"
proof -
  note g = grant_new [OF run fresh]
  have k: "normalized_key (ge_featureKey i) k \<longleftrightarrow> eg_featureKey g = k"
    using g(1) by (auto simp: represents_def normalized_key_def)
  have w: "(\<exists>a b. valid_window (ge_validFrom i) (ge_validUntil i) a b \<and> a \<le> at \<and> (\<forall>u. b = Some u \<longrightarrow> at < u))
      \<longleftrightarrow> covers at g"
    using g(1) valid_window_unique unfolding represents_def covers_def by (fastforce split: option.splits)
  have c: "ge_applicationCustomerId i = eg_applicationCustomerId g" using g(1) by (simp add: represents_def)
  show ?thesis
    unfolding check_answer [OF key] w k using g c by (auto simp: gives_access_def)
qed

theorem grant_gives_access_in_window_witness:
  "hasEntitlementForApplicationCustomer ''app'' ''cu'' ''hd'' (Some 4999) Live demo_access = (Inr True, demo_access)
   \<and> hasEntitlementForApplicationCustomer ''app'' ''cu'' ''hd'' (Some 5000) Live demo_access = (Inr False, demo_access)"
proof -
  have w: "valid_window (Some 1000) (Some (Some 5000)) a b \<longleftrightarrow> a = 1000 \<and> b = Some 5000" for a b
    by (auto simp: valid_window_def)
  have s: "hasEntitlementForApplicationCustomer ''app'' ''cu'' ''hd'' (Some at) Live demo_db = (Inr False, demo_db)" for at
    by (simp add: check_answer [OF demo_key(1)] run_simps)
  show ?thesis
    using grant_gives_access_in_window [OF demo_feature_run demo_feature_new demo_key(1), of "''app''" "''cu''" 4999 Live]
      grant_gives_access_in_window [OF demo_feature_run demo_feature_new demo_key(1), of "''app''" "''cu''" 5000 Live]
      demo_key(2)
    by (auto simp: s w demo_feature_def)
qed

subsection \<open>Ending a source\<close>

lemma revoked_access:
  "gives_access app' env cust k at (if active_from_source app ty src g then end_grant EntRevoked now g else g)
   \<longleftrightarrow> gives_access app' env cust k at g
     \<and> \<not> (eg_applicationId g = app \<and> eg_sourceType g = ty \<and> eg_sourceId g = src)"
  by (auto simp: gives_access_def end_grant_def active_from_source_def)

text \<open>C20. Revoking a source takes away exactly its access: afterwards a check of any
  application answers yes only for an active covering grant that is not of the revoking
  application and source; exactly the active grants of that application and source become
  revoked, every other row is as it was; and the revoked grants stay ended in every state the
  module can reach from there, whatever grants, replays and revocations follow.\<close>

theorem revocation_is_exact_and_final:
  assumes run: "revokeEntitlementsBySource app ty src s = (Inr rows, s')" and key: "normalized_key f k"
    and inv: "entitlement_reachable s" and later: "entitlement_step\<^sup>*\<^sup>* s' t"
  shows "hasEntitlementForApplicationCustomer app' cust f (Some at) env s' =
      (Inr (\<exists>g \<in> set (entitlementGrants s). gives_access app' env cust k at g
         \<and> \<not> (eg_applicationId g = app \<and> eg_sourceType g = entitlement_source_of ty \<and> eg_sourceId g = src)), s')
    \<and> entitlementGrants s' = map (\<lambda>g. if eg_applicationId g = app \<and> eg_sourceType g = entitlement_source_of ty
          \<and> eg_sourceId g = src \<and> eg_status g = EntActive
        then g\<lparr>eg_status := EntRevoked, eg_updatedAt := clock s\<rparr> else g) (entitlementGrants s)
    \<and> (\<forall>g \<in> set rows. eg_status g = EntRevoked \<and> g \<in> set (entitlementGrants t))"
proof (intro conjI)
  let ?P = "active_from_source app (entitlement_source_of ty) src" and ?f = "end_grant EntRevoked (clock s)"
  have s': "s' = entitlementGrants_update (update_where ?P ?f) s"
    and rows: "rows = map ?f (filter ?P (entitlementGrants s))"
    using run by (simp_all add: revokeEntitlementsBySource_def update_entitlements_def update_rows_eq_Inr)
  show "hasEntitlementForApplicationCustomer app' cust f (Some at) env s' =
      (Inr (\<exists>g \<in> set (entitlementGrants s). gives_access app' env cust k at g
         \<and> \<not> (eg_applicationId g = app \<and> eg_sourceType g = entitlement_source_of ty \<and> eg_sourceId g = src)), s')"
    unfolding check_answer [OF key] s' by (simp add: set_update_where revoked_access del: if_image_distrib)
  show "entitlementGrants s' = map (\<lambda>g. if eg_applicationId g = app \<and> eg_sourceType g = entitlement_source_of ty
          \<and> eg_sourceId g = src \<and> eg_status g = EntActive
        then g\<lparr>eg_status := EntRevoked, eg_updatedAt := clock s\<rparr> else g) (entitlementGrants s)"
    by (simp add: s' update_where_def active_from_source_def end_grant_def)
  have "entitlement_inv s'" using access.reachable_inv [OF inv] s' end_grant_inv by simp
  then have kept: "table_kept same_entitlement (entitlementGrants s') (entitlementGrants t)"
    using access.steps_later [OF later] by (simp add: entitlements_kept_def)
  show "\<forall>g \<in> set rows. eg_status g = EntRevoked \<and> g \<in> set (entitlementGrants t)"
  proof
    fix g assume "g \<in> set rows"
    then have st: "eg_status g = EntRevoked" and "g \<in> set (entitlementGrants s')"
      by (auto simp: rows s' end_grant_def set_update_where)
    then obtain h where "h \<in> set (entitlementGrants t)" "same_entitlement g h"
      using table_kept_mem [OF kept] by blast
    with st show "eg_status g = EntRevoked \<and> g \<in> set (entitlementGrants t)"
      by (auto simp: same_entitlement_def)
  qed
qed

lemma demo_entitlement_start: "entitlement_reachable demo_db"
  by (rule reachable.start) (simp add: entitlement_init_def demo_db_def empty_db_def)

lemma demo_access_reachable: "entitlement_reachable demo_access"
  by (rule reachable.next_state [where s = demo_db, OF demo_entitlement_start])
    (rule entitlement_step.grant [OF demo_feature_run])

theorem revocation_is_exact_and_final_witness:
  "\<exists>t. revokeEntitlementsBySource ''app'' OrderSource ''o'' demo_access
       = (Inr [demo_entitled\<lparr>eg_status := EntRevoked\<rparr>], t)
     \<and> hasEntitlementForApplicationCustomer ''app'' ''cu'' ''hd'' (Some 2000) Live t = (Inr False, t)
     \<and> demo_entitled\<lparr>eg_status := EntRevoked\<rparr> \<in> set (entitlementGrants t)"
proof -
  let ?r = "revokeEntitlementsBySource ''app'' OrderSource ''o''"
  have run: "?r demo_access = (Inr [demo_entitled\<lparr>eg_status := EntRevoked\<rparr>], after ?r demo_access)"
    by (simp add: run_simps cong: run_congs)
  note p = revocation_is_exact_and_final [OF run demo_key(1) demo_access_reachable rtranclp.rtrancl_refl]
  show ?thesis
    using run p [of "''app''" "''cu''" 2000 Live]
    by (intro exI [of _ "after ?r demo_access"]) (auto simp: demo_entitled_def)
qed

subsection \<open>Exactly once\<close>

text \<open>A grant applies once: after a success, the same request at any later state of the
  module returns the stored grant (its identity, feature, source and window unchanged) and
  writes nothing.\<close>

theorem entitlement_applies_once:
  assumes run: "grantEntitlement i s = (Inr g, s')" and reach: "entitlement_reachable s"
    and later: "entitlement_step\<^sup>*\<^sup>* s' t"
  shows "\<exists>h t'. grantEntitlement i t = (Inr h, t') \<and> same_entitlement g h \<and> only_ids t t'"
proof -
  have "entitlement_inv s'"
    using honoursD [OF ent_inv.grantEntitlement run] access.reachable_inv [OF reach] by simp
  then have "entitlements_kept s' t" by (rule access.steps_later [OF later])
  from entitlement_grants.replay [OF TrueI run this] show ?thesis by blast
qed

theorem entitlement_applies_once_witness:
  "\<exists>h t'. grantEntitlement (demo_feature ''k'') demo_access = (Inr h, t') \<and> same_entitlement demo_entitled h
     \<and> only_ids demo_access t'"
  by (rule entitlement_applies_once [OF demo_feature_run demo_entitlement_start rtranclp.rtrancl_refl])

text \<open>A key cannot be used for another grant: if the key already stands for a grant that
  the valid request does not match, the request throws the conflict error and the stored
  grants are as they were.\<close>

theorem reused_entitlement_key_conflicts:
  assumes found: "grant_found_for i s = Some h"
    and valid: "normalized_key (ge_featureKey i) k" "trim (ge_sourceId i) \<noteq> []" "trim (ge_idempotencyKey i) \<noteq> []"
      "valid_window (ge_validFrom i) (ge_validUntil i) a b"
    and other: "\<not> represents i h"
  shows "\<exists>t. grantEntitlement i s = (Inl EntitlementIdempotencyConflictError, t) \<and> only_ids s t"
proof -
  have h: "h \<in> set (entitlementGrants s)" "grant_is (ge_applicationId i)
     (resolveEntitlementEnvironment (ge_environment i)) (trim (ge_idempotencyKey i)) h"
    using found by (auto simp: grant_found_for_def dest: find_SomeD)
  have fk: "normalizeFeatureKey (ge_featureKey i) s = (Inr k, s)"
    and win: "assertValidWindow (ge_validFrom i) (ge_validUntil i) s = (Inr (a, b), s)"
    using valid by simp_all
  have chk: "entitlement_check g" if "eg_validFrom g = a" "eg_validUntil g = b" for g
    using valid(4) that by (auto simp: valid_window_def entitlement_check_def split: option.splits)
  have differs: "\<not> (eg_applicationCustomerId h = ge_applicationCustomerId i \<and> eg_featureKey h = k
      \<and> eg_sourceType h = ge_sourceType i \<and> eg_sourceId h = trim (ge_sourceId i)
      \<and> eg_validFrom h = a \<and> eg_validUntil h = b)"
    using other valid by (auto simp: represents_def)
  then show ?thesis
    using found h valid(2,3)
    by (auto simp: fk win grantEntitlement_def Let_def insert_entitlement_def insert_or_ignore_def bind_apply
      same_grant_key_is grant_found_for_def chk throw_if_apply require_apply)
qed

theorem reused_entitlement_key_conflicts_witness:
  "\<exists>t. grantEntitlement ((demo_feature ''k'')\<lparr>ge_validUntil := None\<rparr>) demo_access
     = (Inl EntitlementIdempotencyConflictError, t) \<and> only_ids demo_access t"
proof (rule reused_entitlement_key_conflicts [of _ _ demo_entitled _ 1000 None])
  show "normalized_key (ge_featureKey ((demo_feature ''k'')\<lparr>ge_validUntil := None\<rparr>)) ''hd''"
    using demo_key(2) by (simp add: demo_feature_def)
qed (simp_all add: grant_found_for_def represents_def valid_window_def run_simps)

subsection \<open>Configured entitlements\<close>

text \<open>The entitlements of a purchase are granted as a set, once: a successful run returns
  one stored grant per distinct configured feature, in configuration order, each for the
  purchase's customer, source and window; running it again at a later state of the module with
  the same product configuration (a redelivered event) returns the same grants and writes
  nothing.\<close>

theorem configured_entitlements_apply_once:
  assumes run: "grantConfiguredEntitlements c s = (Inr gs, s')" and some: "ce_productIds c \<noteq> []"
    and later: "entitlements_kept s' t"
    and config: "entitlement_configs (ce_applicationId c) (ce_productIds c) t
      = entitlement_configs (ce_applicationId c) (ce_productIds c) s"
  shows "list_all2 (\<lambda>k g. represents (configured_entitlement c k) g
        \<and> (\<exists>h \<in> set (entitlementGrants s'). same_entitlement g h))
      (js_set (map pg_referenceKey (entitlement_configs (ce_applicationId c) (ce_productIds c) s))) gs
    \<and> (\<exists>hs t'. grantConfiguredEntitlements c t = (Inr hs, t') \<and> list_all2 same_entitlement gs hs \<and> only_ids t t')"
proof (intro conjI)
  note r = run [unfolded configured_batch [OF some]]
  from batch_grants [OF r] show "list_all2 (\<lambda>k g. represents (configured_entitlement c k) g
        \<and> (\<exists>h \<in> set (entitlementGrants s'). same_entitlement g h))
      (js_set (map pg_referenceKey (entitlement_configs (ce_applicationId c) (ce_productIds c) s))) gs"
    by (simp add: list_all2_map1)
  from configured.replay_batch [OF r later, of "[]"]
  show "\<exists>hs t'. grantConfiguredEntitlements c t = (Inr hs, t') \<and> list_all2 same_entitlement gs hs \<and> only_ids t t'"
    unfolding configured_batch [OF some] config by auto
qed

definition demo_catalog :: db where
  "demo_catalog = demo_db\<lparr>products := [\<lparr>pr_id = ''p'', pr_applicationId = ''app'', pr_key = ''pro'', pr_name = ''Pro'', pr_description = None,
       pr_status = StActive, pr_metadata = []\<rparr>],
     productGrantConfigs := [\<lparr>pg_id = ''g'', pg_productId = ''p'', pg_grantType = GrantsEntitlement, pg_referenceKey = ''hd'', pg_quantity = None, pg_metadata = []\<rparr>,
       \<lparr>pg_id = ''g'', pg_productId = ''p'', pg_grantType = GrantsCredit, pg_referenceKey = ''img'', pg_quantity = Some 10, pg_metadata = []\<rparr>]\<rparr>"

definition demo_purchase :: configured_entitlements where
  "demo_purchase = \<lparr>ce_applicationId = ''app'', ce_applicationCustomerId = ''cu'', ce_productIds = [''p''],
     ce_sourceType = OrderSource, ce_sourceId = ''o'', ce_sourceEventId = None, ce_validFrom = Some 1000,
     ce_validUntil = None, ce_periodKey = ''durable'', ce_environment = Some Live\<rparr>"

theorem configured_entitlements_apply_once_witness:
  "\<exists>g hs t'. result (grantConfiguredEntitlements demo_purchase) demo_catalog = [g]
     \<and> grantConfiguredEntitlements demo_purchase
          (after (grantConfiguredEntitlements demo_purchase) demo_catalog) = (Inr hs, t')
     \<and> list_all2 same_entitlement [g] hs"
proof -
  let ?r = "grantConfiguredEntitlements demo_purchase" and ?s = demo_catalog
  have ev: "succeeds ?r ?s" "\<exists>g. result ?r ?s = [g]"
    "entitlement_configs ''app'' [''p''] (after ?r ?s) = entitlement_configs ''app'' [''p''] ?s"
    by (simp_all add: run_simps demo_purchase_def demo_catalog_def cong: run_congs)
  then obtain g where g: "result ?r ?s = [g]" by blast
  have run: "?r ?s = (Inr [g], after ?r ?s)" using succeeds_run [OF ev(1)] g by simp
  have "ce_productIds demo_purchase \<noteq> []" by (simp add: demo_purchase_def)
  from configured_entitlements_apply_once [OF run this entitlements_kept_refl] ev(3) g
  show ?thesis by (auto simp: demo_purchase_def)
qed

end
