(* ===== verification/Usage.thy ===== *)
theory Usage
  imports CreditCommerce
begin

text \<open>
  Usage metering (\<open>src/src/modules/usage/service.ts\<close>): meters, idempotent usage reports per
  environment, the billing quantity of a period (per-unit, or an included allowance with
  overage) and the period summary. The code sums, subtracts and multiplies doubles without a
  safe-integer check: \<open>to_double\<close> is the rounding of an integer to the nearest one.
\<close>

subsection \<open>Integers as doubles\<close>

text \<open>
  A double has 53 significant bits: below \<open>2 ^ 53\<close> every integer is one, and the spacing
  doubles with each further bit. A result is rounded to the nearest multiple of the spacing,
  ties to an even multiple. Amounts stay far below the largest double.
\<close>

fun spacing :: "nat \<Rightarrow> nat" where
  "spacing n = (if n < 9007199254740992 then 1 else 2 * spacing (n div 2))"

declare spacing.simps [simp del]

definition round_magnitude :: "nat \<Rightarrow> nat" where
  "round_magnitude n = (let u = spacing n; q = n div u; r = n mod u
     in (if 2 * r < u \<or> 2 * r = u \<and> even q then q else Suc q) * u)"

definition to_double :: "int \<Rightarrow> int" where
  "to_double z = (if z < 0 then - int (round_magnitude (nat (- z))) else int (round_magnitude (nat z)))"

lemma spacing_power:
  "\<exists>k. spacing n = 2 ^ k \<and> (k = 0 \<longrightarrow> n < 2 ^ 53) \<and> (0 < k \<longrightarrow> 2 ^ (52 + k) \<le> n \<and> n < 2 ^ (53 + k))"
proof (induction n rule: spacing.induct)
  case (1 n)
  show ?case
  proof (cases "n < 9007199254740992")
    case True
    then show ?thesis by (intro exI [of _ 0]) (simp add: spacing.simps)
  next
    case False
    from 1 [OF this] obtain k where k: "spacing (n div 2) = 2 ^ k" "k = 0 \<longrightarrow> n div 2 < 2 ^ 53"
      "0 < k \<longrightarrow> 2 ^ (52 + k) \<le> n div 2 \<and> n div 2 < 2 ^ (53 + k)" by blast
    have up: "n < 2 * y" if "n div 2 < y" for y using that by linarith
    have down: "2 * y \<le> n" if "y \<le> n div 2" for y using that by linarith
    have "spacing n = 2 ^ Suc k" using False k(1) by (simp add: spacing.simps [of n])
    moreover have "n < 2 * 2 ^ (53 + k)" using k(2,3) by (intro up) (cases "k = 0"; simp)
    moreover have "2 ^ (52 + Suc k) \<le> n"
    proof (cases "k = 0")
      case True
      then show ?thesis using False by simp
    next
      case False
      then have "2 * 2 ^ (52 + k) \<le> n" using k(3) by (intro down) simp
      then show ?thesis by (simp add: power_add)
    qed
    ultimately show ?thesis by (intro exI [of _ "Suc k"]) (simp add: power_add)
  qed
qed

lemma round_magnitude_between:
  "n div spacing n * spacing n \<le> round_magnitude n \<and> round_magnitude n \<le> Suc (n div spacing n) * spacing n"
  by (simp add: round_magnitude_def Let_def)

lemma round_magnitude_small: "n < 9007199254740992 \<Longrightarrow> round_magnitude n = n"
  by (simp add: round_magnitude_def Let_def spacing.simps)

lemma round_magnitude_mono:
  assumes "n \<le> m" shows "round_magnitude n \<le> round_magnitude m"
proof -
  obtain k where k: "spacing n = 2 ^ k" "k = 0 \<longrightarrow> n < 2 ^ 53" "0 < k \<longrightarrow> 2 ^ (52 + k) \<le> n \<and> n < 2 ^ (53 + k)"
    using spacing_power [of n] by blast
  obtain j where j: "spacing m = 2 ^ j" "j = 0 \<longrightarrow> m < 2 ^ 53" "0 < j \<longrightarrow> 2 ^ (52 + j) \<le> m \<and> m < 2 ^ (53 + j)"
    using spacing_power [of m] by blast
  have nk: "n < 2 ^ (53 + k)" using k(2,3) by (cases "k = 0") auto
  have mj: "m < 2 ^ (53 + j)" using j(2,3) by (cases "j = 0") auto
  consider "k = j" | "k < j" | "j < k" by linarith
  then show ?thesis
  proof cases
    case 1
    let ?u = "spacing n"
    have u: "spacing m = ?u" "0 < ?u" using 1 k(1) j(1) by simp_all
    show ?thesis
    proof (cases "n div ?u = m div ?u")
      case True
      have "n mod ?u \<le> m mod ?u" using assms True
        by (metis add_le_cancel_left div_mult_mod_eq)
      then show ?thesis using True u by (auto simp: round_magnitude_def Let_def)
    next
      case False
      then have "Suc (n div ?u) \<le> m div ?u" using div_le_mono [OF assms, of ?u] by simp
      then have "Suc (n div ?u) * ?u \<le> m div ?u * ?u" by (rule mult_le_mono1)
      then show ?thesis using round_magnitude_between [of n] round_magnitude_between [of m] u by simp
    qed
  next
    case 2
    have "n div 2 ^ k < 2 ^ 53" using nk by (simp add: less_mult_imp_div_less power_add)
    then have "Suc (n div spacing n) * spacing n \<le> 2 ^ 53 * 2 ^ k" unfolding k(1) by (intro mult_le_mono1) simp
    also have "\<dots> = 2 ^ (53 + k)" by (simp only: power_add)
    also have "\<dots> \<le> 2 ^ (52 + j)" using 2 by (intro power_increasing) simp_all
    also have "\<dots> = 2 ^ (52 + j) div 2 ^ j * 2 ^ j" by (simp add: power_add)
    also have "\<dots> \<le> m div spacing m * spacing m" unfolding j(1) using 2 j(3) by (intro mult_le_mono1 div_le_mono) simp
    finally show ?thesis using round_magnitude_between [of n] round_magnitude_between [of m] by linarith
  next
    case 3
    then have "(2::nat) ^ (53 + j) \<le> 2 ^ (52 + k)" by (intro power_increasing) simp_all
    then have "m < n" using 3 k(3) mj by linarith
    then show ?thesis using assms by simp
  qed
qed

lemma to_double_mono: "0 \<le> x \<Longrightarrow> x \<le> y \<Longrightarrow> to_double x \<le> to_double y"
  by (simp add: to_double_def round_magnitude_mono nat_mono)

lemma to_double_nonneg: "0 \<le> x \<Longrightarrow> 0 \<le> to_double x"
  by (simp add: to_double_def)

lemma to_double_safe: "isSafeInteger z \<Longrightarrow> to_double z = z"
  by (auto simp: to_double_def isSafeInteger_def MAX_SAFE_INTEGER_def round_magnitude_small nat_less_iff)

text \<open>A double within the safe range is the integer it was rounded from.\<close>

lemma to_double_exact:
  assumes "isSafeInteger (to_double z)" shows "to_double z = z"
proof -
  have big: "9007199254740992 \<le> round_magnitude n" if "9007199254740992 \<le> n" for n
  proof -
    have "round_magnitude 9007199254740992 = 9007199254740992"
      by (simp add: round_magnitude_def Let_def spacing.simps)
    then show ?thesis using round_magnitude_mono [OF that] by simp
  qed
  have "isSafeInteger z"
  proof (rule ccontr)
    assume "\<not> isSafeInteger z"
    then have "9007199254740992 \<le> nat (- z) \<and> z < 0 \<or> 9007199254740992 \<le> nat z \<and> 0 \<le> z"
      by (auto simp: isSafeInteger_def MAX_SAFE_INTEGER_def)
    then show False using assms big [of "nat (- z)"] big [of "nat z"]
      by (auto simp: to_double_def isSafeInteger_def MAX_SAFE_INTEGER_def)
  qed
  then show ?thesis by (rule to_double_safe)
qed

lemma to_double_add:
  "isSafeInteger (to_double a) \<Longrightarrow> isSafeInteger (to_double (a + b)) \<Longrightarrow> to_double (a + b) = to_double a + b"
  using to_double_exact [of a] to_double_exact [of "a + b"] by simp

subsection \<open>The tables\<close>

definition meter_fits :: "usage_meter \<Rightarrow> bool" where
  "meter_fits m \<longleftrightarrow> null_or fits_integer (um_includedQuantity m)
     \<and> null_or fits_bigint (um_perUnitAmountMinor m) \<and> null_or fits_bigint (um_overageUnitAmountMinor m)"

definition insert_meter :: "usage_meter \<Rightarrow> (db, usage_meter) prog" where
  "insert_meter = insert_row ''usage_meters'' meter_fits (\<lambda>_. True)
     (\<lambda>m n. um_id m = um_id n \<or> um_applicationId m = um_applicationId n \<and> um_key m = um_key n)
     (\<lambda>_ _. True) usageMeters usageMeters_update"

definition same_event_key :: "usage_event \<Rightarrow> usage_event \<Rightarrow> bool" where
  "same_event_key e f \<longleftrightarrow> ue_applicationId e = ue_applicationId f \<and> ue_environment e = ue_environment f
     \<and> ue_idempotencyKey e = ue_idempotencyKey f"

definition event_check :: "usage_event \<Rightarrow> bool" where
  "event_check e \<longleftrightarrow> 0 < ue_quantity e"

definition event_fits :: "usage_event \<Rightarrow> bool" where
  "event_fits e \<longleftrightarrow> fits_integer (ue_quantity e)"

text \<open>\<open>onConflictDoNothing()\<close> without a target: a clash on any unique index drops the row.\<close>

definition insert_event :: "usage_event \<Rightarrow> (db, usage_event option) prog" where
  "insert_event = insert_or_ignore ''usage_events'' event_fits event_check
     (\<lambda>e f. ue_id e = ue_id f \<or> same_event_key e f) (\<lambda>_ _. False)
     (\<lambda>s e. (\<exists>m \<in> set (usageMeters s). um_id m = ue_meterId e) \<and> customer_exists s (ue_applicationCustomerId e))
     usageEvents usageEvents_update"

lemmas usage_table_defs [table_defs] = insert_meter_def insert_event_def

subsection \<open>Meters\<close>

definition requireUsageText :: "string \<Rightarrow> string \<Rightarrow> (db, string) prog" where
  "requireUsageText value label =
     (let normalized = trim value
      in if normalized = [] then throw (InvalidUsageEventError (label @ '' is required'')) else return normalized)"

record meter_input =
  mi_applicationId :: string
  mi_key :: string
  mi_name :: string
  mi_unit :: string
  mi_currency :: string
  mi_billingScheme :: billing_scheme
  mi_includedQuantity :: "int option"
  mi_perUnitAmountMinor :: "int option"
  mi_overageUnitAmountMinor :: "int option"

definition nonnegative_amount :: "int option \<Rightarrow> bool" where
  "nonnegative_amount a = (case a of None \<Rightarrow> False | Some n \<Rightarrow> isSafeInteger n \<and> 0 \<le> n)"

definition assertMeterRates :: "meter_input \<Rightarrow> (db, unit) prog" where
  "assertMeterRates input =
     (case mi_billingScheme input of
        PerUnit \<Rightarrow> throw_if (\<not> nonnegative_amount (mi_perUnitAmountMinor input))
          (InvalidUsageEventError ''per_unit meters require a non-negative per-unit amount'')
      | IncludedOverage \<Rightarrow>
          throw_if (\<not> nonnegative_amount (mi_includedQuantity input)
                    \<or> \<not> nonnegative_amount (mi_overageUnitAmountMinor input))
            (InvalidUsageEventError
               ''included_overage meters require an included quantity and a non-negative overage unit amount''))"

definition createUsageMeter :: "meter_input \<Rightarrow> (db, usage_meter) prog" where
  "createUsageMeter input =
     bind (requireUsageText (mi_key input) ''Meter key'') (\<lambda>text.
     let key = toLowerCase text; included = mi_billingScheme input = IncludedOverage in
     bind (throw_if (\<not> matches_key_pattern key)
       (InvalidUsageEventError ''Meter key must use lowercase letters, numbers, dots, underscores, or hyphens'')) (\<lambda>_.
     bind (assertMeterRates input) (\<lambda>_.
     bind (new_id ''meter_'') (\<lambda>i.
     bind (requireUsageText (mi_name input) ''Meter name'') (\<lambda>name.
     bind (requireUsageText (mi_unit input) ''Meter unit'') (\<lambda>unit.
     insert_meter
       \<lparr>um_id = i, um_applicationId = mi_applicationId input, um_key = key, um_name = name, um_unit = unit,
        um_billingScheme = mi_billingScheme input, um_currency = toUpperCase (trim (mi_currency input)),
        um_includedQuantity = (if included then mi_includedQuantity input else None),
        um_perUnitAmountMinor = (if \<not> included then mi_perUnitAmountMinor input else None),
        um_overageUnitAmountMinor = (if included then mi_overageUnitAmountMinor input else None)\<rparr>))))))"

definition meter_is :: "string \<Rightarrow> string \<Rightarrow> usage_meter \<Rightarrow> bool" where
  "meter_is app key m \<longleftrightarrow> um_applicationId m = app \<and> um_key m = key"

definition getUsageMeterByKey :: "string \<Rightarrow> string \<Rightarrow> (db, usage_meter option) prog" where
  "getUsageMeterByKey applicationId meterKey =
     gets (\<lambda>s. List.find (meter_is applicationId (toLowerCase (trim meterKey))) (usageMeters s))"

subsection \<open>Reports\<close>

record usage_input =
  ui_applicationId :: string
  ui_environment :: environment
  ui_meterKey :: string
  ui_externalCustomerId :: string
  ui_quantity :: int
  ui_sourceType :: string
  ui_sourceId :: string
  ui_idempotencyKey :: string
  ui_occurredAt :: "int option"

record usage_result =
  ur_event :: usage_event
  ur_duplicate :: bool

definition event_is :: "string \<Rightarrow> environment \<Rightarrow> string \<Rightarrow> usage_event \<Rightarrow> bool" where
  "event_is app env key e \<longleftrightarrow> ue_applicationId e = app \<and> ue_environment e = env \<and> ue_idempotencyKey e = key"

definition customer_is :: "string \<Rightarrow> string \<Rightarrow> application_customer \<Rightarrow> bool" where
  "customer_is app ext c \<longleftrightarrow> ac_applicationId c = app \<and> ac_externalCustomerId c = ext"

definition given_or :: "int \<Rightarrow> int option \<Rightarrow> int" where
  "given_or d x = (case x of None \<Rightarrow> d | Some n \<Rightarrow> n)"

text \<open>The stored row is keyed by the trimmed key; the lookup after a conflict uses the key as
  it was given.\<close>

definition reportUsage :: "usage_input \<Rightarrow> (db, usage_result) prog" where
  "reportUsage input =
     bind (throw_if (\<not> isSafeInteger (ui_quantity input) \<or> ui_quantity input \<le> 0)
       (InvalidUsageEventError ''Usage quantity must be a positive integer'')) (\<lambda>_.
     bind (getUsageMeterByKey (ui_applicationId input) (ui_meterKey input)) (\<lambda>found.
     bind (require UsageMeterNotFoundError found) (\<lambda>meter.
     bind (requireUsageText (ui_externalCustomerId input) ''externalCustomerId'') (\<lambda>externalId.
     bind (gets (\<lambda>s. List.find (customer_is (ui_applicationId input) externalId) (applicationCustomers s))) (\<lambda>mapping.
     bind (require UsageCustomerNotFoundError mapping) (\<lambda>customer.
     bind (new_id ''usage_'') (\<lambda>i.
     bind (requireUsageText (ui_sourceType input) ''sourceType'') (\<lambda>sourceType.
     bind (requireUsageText (ui_sourceId input) ''sourceId'') (\<lambda>sourceId.
     bind (requireUsageText (ui_idempotencyKey input) ''idempotencyKey'') (\<lambda>idempotencyKey.
     bind now_date (\<lambda>now.
     bind (insert_event
             \<lparr>ue_id = i, ue_applicationId = ui_applicationId input, ue_environment = ui_environment input,
              ue_meterId = um_id meter, ue_applicationCustomerId = ac_id customer,
              ue_quantity = ui_quantity input, ue_sourceType = sourceType, ue_sourceId = sourceId,
              ue_idempotencyKey = idempotencyKey,
              ue_occurredAt = given_or now (ui_occurredAt input)\<rparr>) (\<lambda>inserted.
     case inserted of
       Some e \<Rightarrow> return \<lparr>ur_event = e, ur_duplicate = False\<rparr>
     | None \<Rightarrow>
         bind (gets (\<lambda>s. List.find (event_is (ui_applicationId input) (ui_environment input) (ui_idempotencyKey input))
                 (usageEvents s))) (\<lambda>existing.
         bind (require (Error ''Usage idempotency conflict without a stored event'') existing) (\<lambda>e.
         return \<lparr>ur_event = e, ur_duplicate = True\<rparr>))))))))))))))"

subsection \<open>Billing\<close>

text \<open>The column \<open>sum(quantity)\<close> comes back as text; \<open>Number\<close> reads it as a double.\<close>

record billed =
  bl_billingQuantity :: int
  bl_includedQuantity :: int
  bl_overageQuantity :: int
  bl_amountMinor :: int

definition computeBillingQuantity :: "usage_meter \<Rightarrow> int \<Rightarrow> billed" where
  "computeBillingQuantity meter measuredQuantity =
     (if um_billingScheme meter = PerUnit
      then \<lparr>bl_billingQuantity = measuredQuantity, bl_includedQuantity = 0, bl_overageQuantity = 0,
            bl_amountMinor = to_double (measuredQuantity * given_or 0 (um_perUnitAmountMinor meter))\<rparr>
      else
        let included = given_or 0 (um_includedQuantity meter);
            overage = max (to_double (measuredQuantity - included)) 0
        in \<lparr>bl_billingQuantity = (if to_double (included + overage) = 0 then 0 else overage),
            bl_includedQuantity = min measuredQuantity included, bl_overageQuantity = overage,
            bl_amountMinor = to_double (overage * given_or 0 (um_overageUnitAmountMinor meter))\<rparr>)"

record summary_input =
  su_applicationId :: string
  su_environment :: environment
  su_meterKey :: string
  su_externalCustomerId :: "string option"
  su_periodStart :: int
  su_periodEnd :: int

record usage_summary =
  us_meterId :: string
  us_meterKey :: string
  us_unit :: string
  us_currency :: string
  us_billingScheme :: billing_scheme
  us_periodStart :: int
  us_periodEnd :: int
  us_measuredQuantity :: int
  us_billing :: billed

definition summary_customer :: "summary_input \<Rightarrow> db \<Rightarrow> string option" where
  "summary_customer input s =
     (case su_externalCustomerId input of
        None \<Rightarrow> None
      | Some ext \<Rightarrow> if ext = [] then None
          else Some (case List.find (customer_is (su_applicationId input) ext) (applicationCustomers s) of
                       None \<Rightarrow> ''__none__'' | Some c \<Rightarrow> ac_id c))"

definition in_summary :: "summary_input \<Rightarrow> usage_meter \<Rightarrow> string option \<Rightarrow> usage_event \<Rightarrow> bool" where
  "in_summary input meter customerId e \<longleftrightarrow> ue_applicationId e = su_applicationId input
     \<and> ue_environment e = su_environment input \<and> ue_meterId e = um_id meter
     \<and> (case customerId of None \<Rightarrow> True | Some c \<Rightarrow> c = [] \<or> ue_applicationCustomerId e = c)
     \<and> su_periodStart input \<le> ue_occurredAt e \<and> ue_occurredAt e < su_periodEnd input"

definition getUsageSummary :: "summary_input \<Rightarrow> (db, usage_summary) prog" where
  "getUsageSummary input =
     bind (getUsageMeterByKey (su_applicationId input) (su_meterKey input)) (\<lambda>found.
     bind (require UsageMeterNotFoundError found) (\<lambda>meter.
     bind (gets (summary_customer input)) (\<lambda>customerId.
     bind (gets (\<lambda>s. to_double (sum_list (map ue_quantity (filter (in_summary input meter customerId) (usageEvents s))))))
       (\<lambda>measuredQuantity.
     return \<lparr>us_meterId = um_id meter, us_meterKey = um_key meter, us_unit = um_unit meter,
       us_currency = um_currency meter, us_billingScheme = um_billingScheme meter,
       us_periodStart = su_periodStart input, us_periodEnd = su_periodEnd input,
       us_measuredQuantity = measuredQuantity, us_billing = computeBillingQuantity meter measuredQuantity\<rparr>))))"

lemmas [run_simps] = meter_fits_def same_event_key_def event_check_def event_fits_def usage_table_defs
  requireUsageText_def nonnegative_amount_def assertMeterRates_def createUsageMeter_def meter_is_def
  getUsageMeterByKey_def event_is_def customer_is_def reportUsage_def given_or_def computeBillingQuantity_def
  summary_customer_def in_summary_def getUsageSummary_def

end
