(* ===== verification/UsageProperties.thy ===== *)
theory UsageProperties
  imports Usage Frames StateMachine CreditExamples
begin

text \<open>
  The properties of usage metering: a report is counted once, adds its quantity to exactly the
  summaries it belongs to, and a period's quantity is billed once, split between the
  allowance and the overage.
\<close>

subsection \<open>Report runs\<close>

lemma requireUsageText_eq_Inr [simp]:
  "requireUsageText v label s = (Inr x, s') \<longleftrightarrow> s' = s \<and> x = trim v \<and> trim v \<noteq> []"
  by (auto simp: requireUsageText_def Let_def)

definition meter_for :: "usage_input \<Rightarrow> db \<Rightarrow> usage_meter option" where
  "meter_for i s = List.find (meter_is (ui_applicationId i) (toLowerCase (trim (ui_meterKey i)))) (usageMeters s)"

definition customer_for :: "usage_input \<Rightarrow> db \<Rightarrow> application_customer option" where
  "customer_for i s = List.find (customer_is (ui_applicationId i) (trim (ui_externalCustomerId i))) (applicationCustomers s)"

text \<open>The stored event a key stands for, with the references the report resolves on its way.\<close>

definition event_for :: "usage_input \<Rightarrow> db \<Rightarrow> usage_event option" where
  "event_for i s = (if meter_for i s = None \<or> customer_for i s = None then None
     else List.find (event_is (ui_applicationId i) (ui_environment i) (trim (ui_idempotencyKey i))) (usageEvents s))"

definition valid_report :: "usage_input \<Rightarrow> bool" where
  "valid_report i \<longleftrightarrow> 0 < ui_quantity i \<and> isSafeInteger (ui_quantity i) \<and> fits_integer (ui_quantity i)
     \<and> trim (ui_externalCustomerId i) \<noteq> [] \<and> trim (ui_sourceType i) \<noteq> [] \<and> trim (ui_sourceId i) \<noteq> []
     \<and> trim (ui_idempotencyKey i) \<noteq> []"

lemma same_event_key_is: "same_event_key e f \<longleftrightarrow> event_is (ue_applicationId e) (ue_environment e) (ue_idempotencyKey e) f"
  by (auto simp: same_event_key_def event_is_def)

lemma event_slot_taken:
  "(\<exists>f \<in> set es. event_is app env key f) \<longleftrightarrow> List.find (event_is app env key) es \<noteq> None"
  by (auto simp: find_None_iff)

lemma report_fresh:
  assumes "reportUsage i s = (Inr r, s')" and "\<not> ur_duplicate r"
  obtains m c where "meter_for i s = Some m" "customer_for i s = Some c" "valid_report i"
    and "ue_meterId (ur_event r) = um_id m" "ue_applicationCustomerId (ur_event r) = ac_id c"
    and "ue_applicationId (ur_event r) = ui_applicationId i" "ue_environment (ur_event r) = ui_environment i"
    and "ue_quantity (ur_event r) = ui_quantity i" "ue_idempotencyKey (ur_event r) = trim (ui_idempotencyKey i)"
    and "ue_occurredAt (ur_event r) = given_or (clock s) (ui_occurredAt i)"
    and "List.find (event_is (ui_applicationId i) (ui_environment i) (trim (ui_idempotencyKey i))) (usageEvents s) = None"
    and "s' = s\<lparr>uuids := Suc (uuids s), usageEvents := usageEvents s @ [ur_event r]\<rparr>"
  using assms
  by (auto simp: reportUsage_def getUsageMeterByKey_def bind_eq_Inr Let_def insert_event_def insert_or_ignore_eq_Inr
      same_event_key_is event_slot_taken meter_for_def customer_for_def valid_report_def event_fits_def event_check_def
      not_le find_None_iff split: if_splits)

lemma report_replayed:
  assumes "reportUsage i s = (Inr r, s')" and "ur_duplicate r"
  shows "s' = s\<lparr>uuids := Suc (uuids s)\<rparr>" and "valid_report i" and "meter_for i s \<noteq> None" and "customer_for i s \<noteq> None"
    and "List.find (event_is (ui_applicationId i) (ui_environment i) (ui_idempotencyKey i)) (usageEvents s) = Some (ur_event r)"
  using assms
  by (auto simp: reportUsage_def getUsageMeterByKey_def bind_eq_Inr Let_def insert_event_def insert_or_ignore_eq_Inr
      meter_for_def customer_for_def valid_report_def event_fits_def not_le split: if_splits)

text \<open>A stored event answers a well-formed report under its trimmed key.\<close>

lemma report_answer:
  assumes found: "event_for i s = Some e" and valid: "valid_report i" and trimmed: "trim (ui_idempotencyKey i) = ui_idempotencyKey i"
  shows "reportUsage i s = (Inr \<lparr>ur_event = e, ur_duplicate = True\<rparr>, s\<lparr>uuids := Suc (uuids s)\<rparr>)"
proof -
  obtain m c where mc: "meter_for i s = Some m" "customer_for i s = Some c"
    and e: "List.find (event_is (ui_applicationId i) (ui_environment i) (trim (ui_idempotencyKey i))) (usageEvents s) = Some e"
    using found by (auto simp: event_for_def split: if_splits)
  have taken: "\<exists>f \<in> set (usageEvents s). event_is (ui_applicationId i) (ui_environment i) (trim (ui_idempotencyKey i)) f"
    using e by (simp only: event_slot_taken) simp
  have required: "requireUsageText v lab u = (Inr (trim v), u)" if "trim v \<noteq> []" for v lab u
    using that by simp
  show ?thesis
    using valid mc e taken
    by (simp add: reportUsage_def getUsageMeterByKey_def bind_apply required throw_if_apply require_apply
        insert_event_def insert_or_ignore_def same_event_key_is meter_for_def customer_for_def valid_report_def
        event_fits_def event_check_def trimmed bex_disj_distrib del: requireUsageText_eq_Inr)
qed

subsection \<open>The state machine\<close>

definition event_slot :: "usage_event \<Rightarrow> string \<times> environment \<times> string" where
  "event_slot e = (ue_applicationId e, ue_environment e, ue_idempotencyKey e)"

definition usage_inv :: "db \<Rightarrow> bool" where
  "usage_inv s \<longleftrightarrow> distinct (map event_slot (usageEvents s)) \<and> (\<forall>e \<in> set (usageEvents s). 0 < ue_quantity e)"

definition usage_kept :: "db \<Rightarrow> db \<Rightarrow> bool" where
  "usage_kept s t \<longleftrightarrow> table_kept (=) (usageMeters s) (usageMeters t)
     \<and> table_kept (=) (usageEvents s) (usageEvents t)
     \<and> table_kept (=) (applicationCustomers s) (applicationCustomers t)"

inductive usage_step :: "db \<Rightarrow> db \<Rightarrow> bool" where
  create: "createUsageMeter m s = (x, s') \<Longrightarrow> usage_step s s'"
| report: "reportUsage i s = (r, s') \<Longrightarrow> usage_step s s'"
| other: "usageMeters s' = usageMeters s \<Longrightarrow> usageEvents s' = usageEvents s
    \<Longrightarrow> table_kept (=) (applicationCustomers s) (applicationCustomers s') \<Longrightarrow> usage_step s s'"

inductive_cases usage_stepE: "usage_step s t"

locale usage_frame = frame R for R :: "db \<Rightarrow> db \<Rightarrow> bool" +
  assumes draws_id: "R s (s\<lparr>uuids := Suc (uuids s)\<rparr>)"
    and new_meter: "honours R (insert_meter m)"
    and new_event: "honours R (insert_event e)"
begin

lemma id_drawn [simp]: "honours R (new_id p)"
  using draws_id by (simp add: honours_def)

lemma required_text [simp]: "honours R (requireUsageText v l)"
  by (simp add: requireUsageText_def Let_def)

lemma rates [simp]: "honours R (assertMeterRates i)"
  by (simp add: assertMeterRates_def split: billing_scheme.split)

lemma createUsageMeter: "honours R (createUsageMeter i)"
  unfolding createUsageMeter_def Let_def by (intro compose new_meter) simp_all

lemma reportUsage: "honours R (reportUsage i)"
  unfolding reportUsage_def getUsageMeterByKey_def by (intro compose new_event) simp_all

end

interpretation usage_rows: usage_frame usage_kept
proof (unfold_locales, goal_cases)
  case (2 s t u) then show ?case unfolding usage_kept_def by (blast intro: table_kept_trans)
next
  case (4 m) show ?case unfolding insert_meter_def by (rule insert_row_kept) (simp_all add: usage_kept_def table_kept_refl)
next
  case (5 e) show ?case unfolding insert_event_def
    by (rule insert_or_ignore_kept) (simp_all add: usage_kept_def table_kept_refl)
next
  case (1 s) show ?case by (simp add: usage_kept_def table_kept_refl)
next
  case (3 s) show ?case by (simp add: usage_kept_def table_kept_refl)
qed

interpretation usage_one: usage_frame "\<lambda>s t. usage_inv s \<longrightarrow> usage_inv t"
proof (unfold_locales, goal_cases)
  case (4 m) show ?case unfolding insert_meter_def by (rule insert_row_kept) (simp_all add: usage_inv_def)
next
  case (5 e)
  show ?case
    by (auto simp: honours_def insert_event_def insert_or_ignore_def usage_inv_def event_slot_def same_event_key_def
        event_check_def image_iff)
next
  case (3 s) show ?case by (simp add: usage_inv_def)
qed blast+

interpretation metering: invariant_system "\<lambda>s. usageEvents s = []" usage_step usage_inv usage_kept
proof (unfold_locales, goal_cases)
  case (1 s) then show ?case by (simp add: usage_inv_def)
next
  case (2 s t)
  from 2(2,1) show ?case
    by (elim usage_stepE)
      (auto dest: honoursD [OF usage_one.createUsageMeter] honoursD [OF usage_one.reportUsage] simp: usage_inv_def)
next
  case (3 s t)
  from 3(2) show ?case
    by (elim usage_stepE)
      (auto dest: honoursD [OF usage_rows.createUsageMeter] honoursD [OF usage_rows.reportUsage]
        simp: usage_kept_def table_kept_refl)
next
  case (4 s) show ?case by (simp add: usage_kept_def table_kept_refl)
next
  case (5 s t u) then show ?case by (rule usage_rows.trans)
qed

lemma find_later_eq:
  "table_kept (=) xs ys \<Longrightarrow> List.find P xs = Some x \<Longrightarrow> List.find P ys = Some x"
  using table_kept_find [of "(=)" xs ys P x] by auto

interpretation reports: stored_answer reportUsage usage_kept "\<lambda>i _. trim (ui_idempotencyKey i) = ui_idempotencyKey i"
  event_for "\<lambda>i e. valid_report i \<and> trim (ui_idempotencyKey i) = ui_idempotencyKey i" "(=)" "\<lambda>r e. ur_event r = e"
  "\<lambda>e. \<lparr>ur_event = e, ur_duplicate = True\<rparr>" only_ids
proof (unfold_locales, goal_cases)
  case (1 s) show ?case by (simp add: usage_kept_def table_kept_refl)
next
  case (2 i r s s')
  have kept: "usage_kept s s'" using honoursD [OF usage_rows.reportUsage 2(2)] .
  then have mc: "meter_for i s = Some m \<Longrightarrow> meter_for i s' = Some m"
    "customer_for i s = Some c \<Longrightarrow> customer_for i s' = Some c" for m c
    unfolding usage_kept_def meter_for_def customer_for_def by (auto intro: find_later_eq)
  show ?case
  proof (cases "ur_duplicate r")
    case False
    show ?thesis
      by (rule report_fresh [OF 2(2) False])
        (use 2(1) mc in \<open>auto simp: event_for_def find_append event_is_def\<close>)
  next
    case True
    then show ?thesis using report_replayed [OF 2(2) True] 2(1) mc by (auto simp: event_for_def)
  qed
next
  case (3 s t i x)
  then show ?case
    unfolding usage_kept_def event_for_def meter_for_def customer_for_def
    by (auto split: if_splits dest!: find_later_eq)
next
  case (5 i t y) then show ?case using report_answer [of i t y] by auto
next
  case (7 s t u) then show ?case by (rule only_ids_trans)
next
  case (8 s t u)
  moreover from 8(2) have "usageEvents u = usageEvents t" "usageMeters u = usageMeters t"
    "applicationCustomers u = applicationCustomers t"
    by (cases t; cases u; simp add: only_ids_def)+
  ultimately show ?case by (simp add: usage_kept_def)
qed simp_all

subsection \<open>A concrete meter\<close>

definition demo_meter :: usage_meter where
  "demo_meter = \<lparr>um_id = ''m'', um_applicationId = ''app'', um_key = ''calls'', um_name = ''Calls'', um_unit = ''call'',
     um_billingScheme = IncludedOverage, um_currency = ''USD'', um_includedQuantity = Some 100,
     um_perUnitAmountMinor = None, um_overageUnitAmountMinor = Some 7\<rparr>"

definition demo_metered :: db where
  "demo_metered = demo_db\<lparr>usageMeters := [demo_meter]\<rparr>"

definition demo_report :: "int \<Rightarrow> string \<Rightarrow> usage_input" where
  "demo_report n key = \<lparr>ui_applicationId = ''app'', ui_environment = Live, ui_meterKey = ''calls'',
     ui_externalCustomerId = ''user'', ui_quantity = n, ui_sourceType = ''job'', ui_sourceId = ''j'',
     ui_idempotencyKey = key, ui_occurredAt = Some 2000\<rparr>"

definition demo_event :: usage_event where
  "demo_event = \<lparr>ue_id = ''usage_0'', ue_applicationId = ''app'', ue_environment = Live, ue_meterId = ''m'',
     ue_applicationCustomerId = ''cu'', ue_quantity = 120, ue_sourceType = ''job'', ue_sourceId = ''j'',
     ue_idempotencyKey = ''k'', ue_occurredAt = 2000\<rparr>"

definition demo_reported :: db where
  "demo_reported = demo_metered\<lparr>uuids := 1, usageEvents := [demo_event]\<rparr>"

lemmas [run_simps] = demo_meter_def demo_metered_def demo_report_def demo_event_def

lemma demo_report_run:
  "reportUsage (demo_report 120 ''k'') demo_metered = (Inr \<lparr>ur_event = demo_event, ur_duplicate = False\<rparr>, demo_reported)"
  by (simp add: run_simps demo_reported_def cong: run_congs)

lemmas [run_simps] = demo_reported_def

subsection \<open>Counted once\<close>

text \<open>C24. Usage is counted once: after a report under a key without surrounding blanks has
  succeeded, at any later state of the module every well-formed report under that application,
  environment and key (the same request again, or one with another meter, customer or quantity
  that exist) returns the same event, flagged as a duplicate, and writes nothing; in every
  reachable state there is one event per (application, environment, key).\<close>

theorem usage_counted_once:
  assumes run: "reportUsage i s = (Inr r, s')" and key: "trim (ui_idempotencyKey i) = ui_idempotencyKey i"
    and reach: "reachable (\<lambda>s. usageEvents s = []) usage_step s" and later: "usage_step\<^sup>*\<^sup>* s' t"
  shows "(\<forall>j. ui_applicationId j = ui_applicationId i \<and> ui_environment j = ui_environment i
      \<and> ui_idempotencyKey j = ui_idempotencyKey i
      \<and> (j = i \<or> valid_report j \<and> meter_for j t \<noteq> None \<and> customer_for j t \<noteq> None) \<longrightarrow>
      (\<exists>t'. reportUsage j t = (Inr \<lparr>ur_event = ur_event r, ur_duplicate = True\<rparr>, t') \<and> only_ids t t'))
    \<and> distinct (map event_slot (usageEvents t))"
proof -
  have inv: "usage_inv s'"
    using honoursD [OF usage_one.reportUsage run] metering.reachable_inv [OF reach] by simp
  then have kept: "usage_kept s' t" by (rule metering.steps_later [OF later])
  have i: "event_for i t = Some (ur_event r)" "valid_report i"
    using reports.stores [OF key run] reports.persists [OF kept] by blast+
  show ?thesis
  proof (intro conjI allI impI)
    fix j
    assume j: "ui_applicationId j = ui_applicationId i \<and> ui_environment j = ui_environment i
      \<and> ui_idempotencyKey j = ui_idempotencyKey i
      \<and> (j = i \<or> valid_report j \<and> meter_for j t \<noteq> None \<and> customer_for j t \<noteq> None)"
    then have "event_for j t = Some (ur_event r)" "valid_report j"
      using i by (auto simp: event_for_def split: if_splits)
    from report_answer [OF this] key j
    show "\<exists>t'. reportUsage j t = (Inr \<lparr>ur_event = ur_event r, ur_duplicate = True\<rparr>, t') \<and> only_ids t t'"
      by (simp add: only_ids_def)
  next
    show "distinct (map event_slot (usageEvents t))"
      using metering.steps_inv [OF later inv] by (simp add: usage_inv_def)
  qed
qed

text \<open>At the state after a report of 120 calls, a report of 5 under the same key is a duplicate.\<close>

theorem usage_counted_once_witness:
  "\<exists>t'. reportUsage (demo_report 5 ''k'') demo_reported = (Inr \<lparr>ur_event = demo_event, ur_duplicate = True\<rparr>, t')"
proof -
  have "reachable (\<lambda>s. usageEvents s = []) usage_step demo_metered"
    by (rule reachable.start) (simp add: demo_metered_def demo_db_def empty_db_def)
  moreover have "trim (ui_idempotencyKey (demo_report 120 ''k'')) = ui_idempotencyKey (demo_report 120 ''k'')"
    by (simp add: run_simps)
  moreover have "valid_report (demo_report 5 ''k'')" "meter_for (demo_report 5 ''k'') demo_reported \<noteq> None"
    "customer_for (demo_report 5 ''k'') demo_reported \<noteq> None"
    by (simp_all add: valid_report_def meter_for_def customer_for_def run_simps)
  ultimately show ?thesis
    using usage_counted_once [OF demo_report_run _ _ rtranclp.rtrancl_refl, THEN conjunct1, rule_format, of "demo_report 5 ''k''"]
    by (fastforce simp: demo_report_def)
qed

text \<open>A report belongs to a summary when it names the same application, environment and meter
  key, its own customer unless the summary is of all of them, and a time in \<open>[start, end)\<close>;
  \<open>moment\<close> is the time of a report that gives none. Rows are found by their primary keys:\<close>

definition report_in_summary :: "summary_input \<Rightarrow> usage_input \<Rightarrow> int \<Rightarrow> bool" where
  "report_in_summary q i moment \<longleftrightarrow> su_applicationId q = ui_applicationId i \<and> su_environment q = ui_environment i
     \<and> toLowerCase (trim (su_meterKey q)) = toLowerCase (trim (ui_meterKey i))
     \<and> (su_externalCustomerId q \<in> {None, Some [], Some (trim (ui_externalCustomerId i))})
     \<and> su_periodStart q \<le> given_or moment (ui_occurredAt i) \<and> given_or moment (ui_occurredAt i) < su_periodEnd q"

definition primary_keys :: "db \<Rightarrow> bool" where
  "primary_keys s \<longleftrightarrow> distinct (map um_id (usageMeters s)) \<and> distinct (map ac_id (applicationCustomers s))
     \<and> [] \<notin> ac_id ` set (applicationCustomers s) \<and> ''__none__'' \<notin> ac_id ` set (applicationCustomers s)"

lemma found_ids_eq:
  assumes "distinct (map f xs)" and "List.find P xs = Some x" and "List.find Q xs = Some y"
  shows "f x = f y \<longleftrightarrow> x = y"
proof -
  have "x \<in> set xs" "y \<in> set xs" using assms(2,3) by (blast dest: find_SomeD)+
  then show ?thesis using assms(1) by (auto simp: distinct_map dest: inj_onD)
qed

lemma summary_customer_iff:
  assumes c: "customer_for i s = Some c" and keys: "primary_keys s" and app: "su_applicationId q = ui_applicationId i"
    and named: "trim (ui_externalCustomerId i) \<noteq> []"
  shows "(case summary_customer q s of None \<Rightarrow> True | Some d \<Rightarrow> d = [] \<or> ac_id c = d)
    \<longleftrightarrow> su_externalCustomerId q \<in> {None, Some [], Some (trim (ui_externalCustomerId i))}"
proof (cases "su_externalCustomerId q")
  case (Some ext)
  have c': "c \<in> set (applicationCustomers s)" "ac_externalCustomerId c = trim (ui_externalCustomerId i)"
    using find_SomeD [OF c [unfolded customer_for_def]] by (auto simp: customer_is_def)
  show ?thesis
  proof (cases "List.find (customer_is (su_applicationId q) ext) (applicationCustomers s)")
    case None
    then have "ext \<noteq> trim (ui_externalCustomerId i)" using c app by (auto simp: customer_for_def)
    moreover have "ac_id c \<noteq> ''__none__''" using keys c' by (metis image_eqI primary_keys_def)
    ultimately show ?thesis using Some None by (simp add: summary_customer_def)
  next
    case d: (Some d)
    have d': "d \<in> set (applicationCustomers s)" "ac_externalCustomerId d = ext"
      using find_SomeD [OF d] by (auto simp: customer_is_def)
    have "ac_id d = ac_id c \<longleftrightarrow> d = c"
      using found_ids_eq [OF _ d c [unfolded customer_for_def], of ac_id] keys by (simp add: primary_keys_def)
    moreover have "d = c \<longleftrightarrow> ext = trim (ui_externalCustomerId i)"
      using d d' c c' app by (auto simp: customer_for_def)
    moreover have "ac_id d \<noteq> []" using d' keys by (metis image_eqI primary_keys_def)
    ultimately show ?thesis using Some d by (auto simp: summary_customer_def)
  qed
qed (simp add: summary_customer_def)

lemma in_summary_iff:
  assumes run: "reportUsage i s = (Inr r, s')" and fresh: "\<not> ur_duplicate r" and keys: "primary_keys s"
    and m: "List.find (meter_is (su_applicationId q) (toLowerCase (trim (su_meterKey q)))) (usageMeters s) = Some m"
  shows "in_summary q m (summary_customer q s) (ur_event r) \<longleftrightarrow> report_in_summary q i (clock s)"
proof (rule report_fresh [OF run fresh])
  fix n c
  assume n: "meter_for i s = Some n" and c: "customer_for i s = Some c" and valid: "valid_report i"
    and e: "ue_meterId (ur_event r) = um_id n" "ue_applicationCustomerId (ur_event r) = ac_id c"
      "ue_applicationId (ur_event r) = ui_applicationId i" "ue_environment (ur_event r) = ui_environment i"
      "ue_occurredAt (ur_event r) = given_or (clock s) (ui_occurredAt i)"
  have mk: "meter_is (su_applicationId q) (toLowerCase (trim (su_meterKey q))) m"
    "meter_is (ui_applicationId i) (toLowerCase (trim (ui_meterKey i))) n"
    using find_SomeD [OF m] find_SomeD [OF n [unfolded meter_for_def]] by blast+
  have meter: "um_id n = um_id m \<longleftrightarrow> toLowerCase (trim (su_meterKey q)) = toLowerCase (trim (ui_meterKey i))"
    if "su_applicationId q = ui_applicationId i"
  proof -
    have "um_id n = um_id m \<longleftrightarrow> n = m"
      using found_ids_eq [OF _ n [unfolded meter_for_def] m, of um_id] keys by (simp add: primary_keys_def)
    then show ?thesis using that mk m n by (auto simp: meter_is_def meter_for_def)
  qed
  show ?thesis
  proof (cases "su_applicationId q = ui_applicationId i")
    case True
    have "trim (ui_externalCustomerId i) \<noteq> []" using valid by (simp add: valid_report_def)
    from summary_customer_iff [OF c keys True this] meter [OF True] e
    show ?thesis unfolding in_summary_def report_in_summary_def e True by (simp only: simp_thms) argo
  next
    case False
    then show ?thesis unfolding in_summary_def report_in_summary_def e by presburger
  qed
qed

text \<open>C25. A fresh report adds its quantity to exactly the summaries it belongs to: those of
  the application, environment and meter key it names, of its customer or of all of them, and
  of a period that contains the time it occurred at (\<open>[start, end)\<close>), while the sums are safe
  integers; every other summary, and everything else in the database (credit balances in
  particular), stays as it was.\<close>

theorem report_adds_its_quantity:
  assumes run: "reportUsage i s = (Inr r, s')" and fresh: "\<not> ur_duplicate r" and keys: "primary_keys s"
    and meter: "List.find (meter_is (su_applicationId q) (toLowerCase (trim (su_meterKey q)))) (usageMeters s) \<noteq> None"
  shows "\<exists>u v. getUsageSummary q s = (Inr u, s) \<and> getUsageSummary q s' = (Inr v, s')
    \<and> (report_in_summary q i (clock s) \<longrightarrow> isSafeInteger (us_measuredQuantity u) \<longrightarrow> isSafeInteger (us_measuredQuantity v)
        \<longrightarrow> us_measuredQuantity v = us_measuredQuantity u + ui_quantity i)
    \<and> (\<not> report_in_summary q i (clock s) \<longrightarrow> v = u)
    \<and> s' = s\<lparr>uuids := uuids s', usageEvents := usageEvents s'\<rparr>"
proof -
  obtain m where m: "List.find (meter_is (su_applicationId q) (toLowerCase (trim (su_meterKey q)))) (usageMeters s) = Some m"
    using meter by blast
  obtain s1 where s': "s' = s\<lparr>uuids := s1, usageEvents := usageEvents s @ [ur_event r]\<rparr>"
    and q: "ue_quantity (ur_event r) = ui_quantity i"
    using report_fresh [OF run fresh] by metis
  have sc: "summary_customer q s' = summary_customer q s" by (auto simp: s' summary_customer_def split: option.split)
  let ?sum = "\<lambda>t. sum_list (map ue_quantity (filter (in_summary q m (summary_customer q s)) (usageEvents t)))"
  let ?row = "\<lambda>n. \<lparr>us_meterId = um_id m, us_meterKey = um_key m, us_unit = um_unit m,
       us_currency = um_currency m, us_billingScheme = um_billingScheme m, us_periodStart = su_periodStart q,
       us_periodEnd = su_periodEnd q, us_measuredQuantity = n, us_billing = computeBillingQuantity m n\<rparr>"
  have read: "getUsageSummary q t = (Inr (?row (to_double (?sum t))), t)"
    if "usageMeters t = usageMeters s" "summary_customer q t = summary_customer q s" for t
    using that m by (simp add: getUsageSummary_def getUsageMeterByKey_def bind_apply require_apply)
  have sums: "?sum s' = ?sum s + (if report_in_summary q i (clock s) then ui_quantity i else 0)"
    using in_summary_iff [OF run fresh keys m] q by (simp add: s')
  show ?thesis
  proof (intro exI conjI)
    show "getUsageSummary q s = (Inr (?row (to_double (?sum s))), s)" by (rule read) simp_all
    show "getUsageSummary q s' = (Inr (?row (to_double (?sum s'))), s')" by (rule read) (simp_all add: s' sc [unfolded s'])
    show "report_in_summary q i (clock s) \<longrightarrow> isSafeInteger (us_measuredQuantity (?row (to_double (?sum s)))) \<longrightarrow>
        isSafeInteger (us_measuredQuantity (?row (to_double (?sum s')))) \<longrightarrow>
        us_measuredQuantity (?row (to_double (?sum s'))) = us_measuredQuantity (?row (to_double (?sum s))) + ui_quantity i"
      unfolding usage_summary.simps sums using to_double_add by simp
    show "\<not> report_in_summary q i (clock s) \<longrightarrow> ?row (to_double (?sum s')) = ?row (to_double (?sum s))"
      using sums by simp
  qed (simp add: s')
qed

definition demo_period :: "int \<Rightarrow> int \<Rightarrow> summary_input" where
  "demo_period a b = \<lparr>su_applicationId = ''app'', su_environment = Live, su_meterKey = ''calls'',
     su_externalCustomerId = Some ''user'', su_periodStart = a, su_periodEnd = b\<rparr>"

theorem report_adds_its_quantity_witness:
  "\<exists>u v. getUsageSummary (demo_period 2000 3000) demo_reported = (Inr u, demo_reported) \<and> us_measuredQuantity u = 120
     \<and> getUsageSummary (demo_period 1000 2000) demo_reported = (Inr v, demo_reported) \<and> us_measuredQuantity v = 0"
proof -
  have m: "List.find (meter_is (su_applicationId (demo_period a b)) (toLowerCase (trim (su_meterKey (demo_period a b)))))
      (usageMeters demo_metered) \<noteq> None" for a b
    by (simp add: run_simps demo_period_def)
  have k: "primary_keys demo_metered" by (simp add: primary_keys_def run_simps)
  have z: "getUsageSummary (demo_period a b) demo_metered = (Inr u, demo_metered) \<Longrightarrow> us_measuredQuantity u = 0" for a b u
    by (auto simp: getUsageSummary_def bind_eq_Inr demo_metered_def demo_db_def empty_db_def to_double_safe isSafeInteger_def
        MAX_SAFE_INTEGER_def)
  have safe: "isSafeInteger (us_measuredQuantity u)" if "getUsageSummary (demo_period 2000 3000) demo_reported = (Inr u, t)" for u t
    using that by (auto simp: getUsageSummary_def getUsageMeterByKey_def bind_eq_Inr demo_reported_def demo_metered_def demo_db_def empty_db_def
        demo_event_def to_double_safe isSafeInteger_def MAX_SAFE_INTEGER_def)
  have i: "report_in_summary (demo_period 2000 3000) (demo_report 120 ''k'') (clock demo_metered)"
    "\<not> report_in_summary (demo_period 1000 2000) (demo_report 120 ''k'') (clock demo_metered)"
    by (simp_all add: run_simps demo_period_def report_in_summary_def)
  obtain u v where u: "getUsageSummary (demo_period 2000 3000) demo_metered = (Inr u, demo_metered)"
    "getUsageSummary (demo_period 2000 3000) demo_reported = (Inr v, demo_reported)"
    "isSafeInteger (us_measuredQuantity u) \<longrightarrow> isSafeInteger (us_measuredQuantity v)
      \<longrightarrow> us_measuredQuantity v = us_measuredQuantity u + 120"
    using report_adds_its_quantity [OF demo_report_run _ k m [of 2000 3000]] i(1) by (auto simp: demo_report_def)
  obtain w where w: "getUsageSummary (demo_period 1000 2000) demo_metered = (Inr w, demo_metered)"
    "getUsageSummary (demo_period 1000 2000) demo_reported = (Inr w, demo_reported)"
    using report_adds_its_quantity [OF demo_report_run _ k m [of 1000 2000]] i(2) by auto
  have "us_measuredQuantity v = 120"
    using u(3) z [OF u(1)] safe [OF u(2)] by (simp add: isSafeInteger_def MAX_SAFE_INTEGER_def)
  with u(2) w(2) z [OF w(1)] show ?thesis by blast
qed

subsection \<open>Billed once\<close>

text \<open>C26. A period's quantity is billed without gap or overlap: for a meter the module created
  and a measured quantity within the safe range, a per-unit meter bills every unit at its rate;
  an included-allowance meter splits the measured quantity into the part within the allowance
  and the overage, which add up to it, bills only the overage at its rate, and starts billing
  only when the allowance is used up. The amount is the exact product while that is a safe
  integer and its nearest double otherwise; it is never negative and never falls when more is
  used.\<close>

theorem billing_splits_the_period:
  assumes meter: "createUsageMeter i s = (Inr m, s')" and n: "0 \<le> n" "isSafeInteger n"
  shows "(um_billingScheme m = PerUnit \<longrightarrow> (\<exists>rate. mi_perUnitAmountMinor i = Some rate \<and>
        computeBillingQuantity m n = \<lparr>bl_billingQuantity = n, bl_includedQuantity = 0, bl_overageQuantity = 0,
          bl_amountMinor = to_double (n * rate)\<rparr> \<and> (isSafeInteger (n * rate) \<longrightarrow> to_double (n * rate) = n * rate)))
    \<and> (um_billingScheme m = IncludedOverage \<longrightarrow> (\<exists>allowance rate b. mi_includedQuantity i = Some allowance
        \<and> mi_overageUnitAmountMinor i = Some rate \<and> computeBillingQuantity m n = b
        \<and> bl_includedQuantity b + bl_overageQuantity b = n \<and> bl_includedQuantity b \<le> allowance
        \<and> (0 < bl_overageQuantity b \<longrightarrow> bl_includedQuantity b = allowance)
        \<and> bl_billingQuantity b = bl_overageQuantity b \<and> bl_amountMinor b = to_double (bl_overageQuantity b * rate)
        \<and> (isSafeInteger (bl_overageQuantity b * rate) \<longrightarrow> bl_amountMinor b = bl_overageQuantity b * rate)))
    \<and> 0 \<le> bl_amountMinor (computeBillingQuantity m n)
    \<and> (\<forall>k \<ge> n. isSafeInteger k \<longrightarrow>
        bl_amountMinor (computeBillingQuantity m n) \<le> bl_amountMinor (computeBillingQuantity m k))"
proof -
  have m: "um_billingScheme m = mi_billingScheme i"
    "um_includedQuantity m = (if mi_billingScheme i = IncludedOverage then mi_includedQuantity i else None)"
    "um_perUnitAmountMinor m = (if mi_billingScheme i = IncludedOverage then None else mi_perUnitAmountMinor i)"
    "um_overageUnitAmountMinor m = (if mi_billingScheme i = IncludedOverage then mi_overageUnitAmountMinor i else None)"
    using meter by (auto simp: createUsageMeter_def bind_eq_Inr Let_def insert_meter_def insert_row_eq_Inr)
  have rates: "case mi_billingScheme i of PerUnit \<Rightarrow> nonnegative_amount (mi_perUnitAmountMinor i)
      | IncludedOverage \<Rightarrow> nonnegative_amount (mi_includedQuantity i) \<and> nonnegative_amount (mi_overageUnitAmountMinor i)"
    using meter by (auto simp: createUsageMeter_def assertMeterRates_def bind_eq_Inr Let_def split: billing_scheme.splits)
  show ?thesis
  proof (cases "mi_billingScheme i")
    case PerUnit
    then obtain rate where "mi_perUnitAmountMinor i = Some rate" "0 \<le> rate"
      using rates by (auto simp: nonnegative_amount_def split: option.splits)
    then show ?thesis using n m PerUnit
      by (auto simp: computeBillingQuantity_def given_or_def mult_right_mono to_double_safe to_double_mono to_double_nonneg)
  next
    case IncludedOverage
    then obtain allowance rate where ar: "mi_includedQuantity i = Some allowance" "mi_overageUnitAmountMinor i = Some rate"
      "0 \<le> allowance" "isSafeInteger allowance" "0 \<le> rate"
      using rates by (auto simp: nonnegative_amount_def split: option.splits)
    have bill: "computeBillingQuantity m k = \<lparr>bl_billingQuantity = max (k - allowance) 0,
        bl_includedQuantity = min k allowance, bl_overageQuantity = max (k - allowance) 0,
        bl_amountMinor = to_double (max (k - allowance) 0 * rate)\<rparr>" if "0 \<le> k" "isSafeInteger k" for k
    proof -
      have "isSafeInteger (k - allowance)" using that ar by (simp add: isSafeInteger_def MAX_SAFE_INTEGER_def)
      then have d: "to_double (k - allowance) = k - allowance" by (rule to_double_safe)
      have "isSafeInteger (allowance + max (k - allowance) 0)" using that ar by (auto simp: isSafeInteger_def max_def)
      then have "to_double (allowance + max (k - allowance) 0) = allowance + max (k - allowance) 0" by (rule to_double_safe)
      then show ?thesis using ar m IncludedOverage that to_double_safe [of k]
        by (auto simp: computeBillingQuantity_def given_or_def Let_def d max_def)
    qed
    have mono: "to_double (max (n - allowance) 0 * rate) \<le> to_double (max (k - allowance) 0 * rate)" if "n \<le> k" for k
      using that ar by (intro to_double_mono mult_right_mono mult_nonneg_nonneg) (auto simp: max_def)
    show ?thesis using ar m IncludedOverage bill [OF n] bill mono n(1)
      by (auto simp: to_double_safe to_double_nonneg max_def min_def)
  qed
qed

theorem billing_splits_the_period_witness:
  "bl_includedQuantity (computeBillingQuantity demo_meter 120) = 100
     \<and> bl_overageQuantity (computeBillingQuantity demo_meter 120) = 20
     \<and> bl_amountMinor (computeBillingQuantity demo_meter 120) = 140 \<and> 140 \<le> bl_amountMinor (computeBillingQuantity demo_meter 130)"
proof -
  let ?i = "\<lparr>mi_applicationId = ''app'', mi_key = ''calls'', mi_name = ''Calls'', mi_unit = ''call'', mi_currency = ''USD'',
    mi_billingScheme = IncludedOverage, mi_includedQuantity = Some 100, mi_perUnitAmountMinor = None,
    mi_overageUnitAmountMinor = Some 7\<rparr>"
  let ?m = "result (createUsageMeter ?i) demo_db"
  have "succeeds (createUsageMeter ?i) demo_db" and m: "?m = demo_meter\<lparr>um_id := ''meter_0''\<rparr>"
    by (simp_all add: run_simps cong: run_congs)
  then have run: "createUsageMeter ?i demo_db = (Inr ?m, after (createUsageMeter ?i) demo_db)" by (simp add: succeeds_run)
  have c: "computeBillingQuantity ?m k = computeBillingQuantity demo_meter k" for k
    by (simp add: m computeBillingQuantity_def)
  have o: "mi_billingScheme ?i = IncludedOverage" and u: "um_billingScheme ?m = IncludedOverage"
    by (simp_all add: m demo_meter_def)
  have n: "(0::int) \<le> k" "isSafeInteger k" if "k \<in> {120, 130}" for k
    using that by (auto simp: isSafeInteger_def MAX_SAFE_INTEGER_def)
  from billing_splits_the_period [OF run n [of 120], THEN conjunct2, THEN conjunct1, THEN mp, OF _ _ u]
  have v: "bl_includedQuantity (computeBillingQuantity demo_meter 120) = 100"
    "bl_overageQuantity (computeBillingQuantity demo_meter 120) = 20"
    "bl_amountMinor (computeBillingQuantity demo_meter 120) = 140"
    by (auto simp: c isSafeInteger_def MAX_SAFE_INTEGER_def)
  from billing_splits_the_period [OF run n [of 120], THEN conjunct2, THEN conjunct2, THEN conjunct2, rule_format, of 130]
  have "140 \<le> bl_amountMinor (computeBillingQuantity demo_meter 130)" using n [of 130] by (simp add: c v)
  with v show ?thesis by simp
qed

text \<open>The product is not checked: three units at the largest safe rate bill one minor unit less.\<close>

lemma unsafe_amount_is_rounded:
  "bl_amountMinor (computeBillingQuantity (demo_meter\<lparr>um_includedQuantity := Some 0,
     um_overageUnitAmountMinor := Some 9007199254740991\<rparr>) 3) = 3 * 9007199254740991 - 1"
proof -
  have "spacing 27021597764222973 = 4"
    by (simp add: spacing.simps [of 27021597764222973] spacing.simps [of 13510798882111486] spacing.simps [of 6755399441055743])
  then have "round_magnitude 27021597764222973 = 27021597764222972" by (simp add: round_magnitude_def Let_def)
  then have "to_double 27021597764222973 = 27021597764222972" by (simp add: to_double_def)
  moreover have "to_double 3 = 3" by (rule to_double_safe) (simp add: isSafeInteger_def MAX_SAFE_INTEGER_def)
  ultimately show ?thesis by (simp add: computeBillingQuantity_def demo_meter_def given_or_def)
qed

subsection \<open>Padded keys\<close>

text \<open>C27. A retry under a padded key fails: an event is stored under the trimmed key but the
  lookup after a conflict uses the key as given, so when a well-formed report with blanks
  around its key meets the stored event, it throws a generic error instead of returning it.\<close>

theorem padded_key_retry_fails:
  assumes found: "event_for i s = Some e" and valid: "valid_report i"
    and padded: "trim (ui_idempotencyKey i) \<noteq> ui_idempotencyKey i"
    and stored: "\<forall>x \<in> set (usageEvents s). trim (ue_idempotencyKey x) = ue_idempotencyKey x"
  shows "\<exists>t. reportUsage i s = (Inl (Error ''Usage idempotency conflict without a stored event''), t)"
proof -
  obtain m c where mc: "meter_for i s = Some m" "customer_for i s = Some c"
    and e: "List.find (event_is (ui_applicationId i) (ui_environment i) (trim (ui_idempotencyKey i))) (usageEvents s) = Some e"
    using found by (auto simp: event_for_def split: if_splits)
  have taken: "\<exists>f \<in> set (usageEvents s). event_is (ui_applicationId i) (ui_environment i) (trim (ui_idempotencyKey i)) f"
    using e by (simp only: event_slot_taken) simp
  have none: "List.find (event_is (ui_applicationId i) (ui_environment i) (ui_idempotencyKey i)) (usageEvents s) = None"
    using stored padded by (auto simp: find_None_iff event_is_def)
  have required: "requireUsageText v lab u = (Inr (trim v), u)" if "trim v \<noteq> []" for v lab u
    using that by simp
  show ?thesis
    using valid mc taken none
    by (simp add: reportUsage_def getUsageMeterByKey_def bind_apply required throw_if_apply require_apply
        insert_event_def insert_or_ignore_def same_event_key_is meter_for_def customer_for_def valid_report_def
        event_fits_def event_check_def bex_disj_distrib del: requireUsageText_eq_Inr)
qed

theorem padded_key_retry_fails_witness:
  "\<exists>t. reportUsage (demo_report 120 '' k'') demo_reported
     = (Inl (Error ''Usage idempotency conflict without a stored event''), t)"
  by (rule padded_key_retry_fails [of _ _ demo_event])
    (simp_all add: event_for_def meter_for_def customer_for_def valid_report_def run_simps)

end
