(* ===== verification/CommerceSchema.thy ===== *)
theory CommerceSchema
  imports Schema
begin

text \<open>
  The commerce tables (\<open>src/src/modules/commerce/schema.ts\<close>): column ranges, checks, unique
  indexes and foreign keys, and the statements the checkout and the webhook handlers issue on
  them, \<open>insert ... onConflictDoUpdate\<close> among them. Every text column with an \<open>IN\<close> check is
  a datatype, so those checks hold by construction.
\<close>

subsection \<open>Upserts\<close>

text \<open>
  \<open>insert r onConflictDoUpdate({ target, set: f })\<close>: ranges and checks of the new row are
  evaluated first; a row that clashes on the target index is updated instead, and must meet
  the ranges and checks again.
\<close>

definition upsert_row ::
    "string \<Rightarrow> ('r \<Rightarrow> bool) \<Rightarrow> ('r \<Rightarrow> bool) \<Rightarrow> ('r \<Rightarrow> 'r \<Rightarrow> bool) \<Rightarrow> ('r \<Rightarrow> 'r \<Rightarrow> bool) \<Rightarrow> (db \<Rightarrow> 'r \<Rightarrow> bool)
     \<Rightarrow> (db \<Rightarrow> 'r list) \<Rightarrow> (('r list \<Rightarrow> 'r list) \<Rightarrow> db \<Rightarrow> db) \<Rightarrow> 'r \<Rightarrow> ('r \<Rightarrow> 'r) \<Rightarrow> (db, 'r) prog" where
  "upsert_row table fits check target clash fk rows rows_update r f = (\<lambda>s.
     if \<not> fits r then (Inl (NumericValueOutOfRange table), s)
     else if \<not> check r then (Inl (CheckViolation table), s)
     else case List.find (target r) (rows s) of
       Some q \<Rightarrow>
         if \<not> fits (f q) then (Inl (NumericValueOutOfRange table), s)
         else if \<not> check (f q) then (Inl (CheckViolation table), s)
         else if \<not> fk s (f q) then (Inl (ForeignKeyViolation table), s)
         else (Inr (f q), rows_update (update_where (target r) f) s)
     | None \<Rightarrow>
         if \<exists>q \<in> set (rows s). clash r q then (Inl (UniqueViolation table), s)
         else if \<not> fk s r then (Inl (ForeignKeyViolation table), s)
         else (Inr r, rows_update (\<lambda>rs. rs @ [r]) s))"

lemma upsert_row_eq_Inr:
  "upsert_row table fits check target clash fk rows rows_update r f s = (Inr x, s') \<longleftrightarrow>
     fits r \<and> check r \<and> (case List.find (target r) (rows s) of
         Some q \<Rightarrow> fits (f q) \<and> check (f q) \<and> fk s (f q) \<and> x = f q \<and> s' = rows_update (update_where (target r) f) s
       | None \<Rightarrow> (\<forall>q \<in> set (rows s). \<not> clash r q) \<and> fk s r \<and> x = r \<and> s' = rows_update (\<lambda>rs. rs @ [r]) s)"
  by (auto simp: upsert_row_def split: option.splits)

subsection \<open>Foreign keys\<close>

definition connection_exists :: "db \<Rightarrow> string \<Rightarrow> bool" where
  "connection_exists s i \<longleftrightarrow> (\<exists>c \<in> set (providerConnections s). pc_id c = i)"

definition order_exists :: "db \<Rightarrow> string \<Rightarrow> bool" where
  "order_exists s i \<longleftrightarrow> (\<exists>r \<in> set (orders s). od_id r = i)"

definition product_exists :: "db \<Rightarrow> string \<Rightarrow> bool" where
  "product_exists s i \<longleftrightarrow> (\<exists>p \<in> set (products s). pr_id p = i)"

definition price_exists :: "db \<Rightarrow> string \<Rightarrow> bool" where
  "price_exists s i \<longleftrightarrow> (\<exists>p \<in> set (prices s). pp_id p = i)"

subsection \<open>Orders and checkout sessions\<close>

definition order_fits :: "commerce_order \<Rightarrow> bool" where
  "order_fits r \<longleftrightarrow> fits_bigint (od_totalAmountMinor r)"

definition order_check :: "commerce_order \<Rightarrow> bool" where
  "order_check r \<longleftrightarrow> 0 \<le> od_totalAmountMinor r"

definition insert_order :: "commerce_order \<Rightarrow> (db, commerce_order) prog" where
  "insert_order = insert_row ''orders'' order_fits order_check (\<lambda>r q. od_id r = od_id q)
     (\<lambda>s r. customer_exists s (od_applicationCustomerId r)) orders orders_update"

definition update_orders ::
    "(commerce_order \<Rightarrow> bool) \<Rightarrow> (commerce_order \<Rightarrow> commerce_order) \<Rightarrow> (db, commerce_order list) prog" where
  "update_orders = update_rows ''orders'' order_fits order_check orders orders_update"

definition order_item_fits :: "order_item \<Rightarrow> bool" where
  "order_item_fits r \<longleftrightarrow> fits_integer (oi_quantity r) \<and> fits_bigint (oi_unitAmountMinor r)"

definition order_item_check :: "order_item \<Rightarrow> bool" where
  "order_item_check r \<longleftrightarrow> 0 < oi_quantity r \<and> 0 \<le> oi_unitAmountMinor r"

definition insert_order_item :: "order_item \<Rightarrow> (db, order_item) prog" where
  "insert_order_item = insert_row ''order_items'' order_item_fits order_item_check (\<lambda>r q. oi_id r = oi_id q)
     (\<lambda>s r. order_exists s (oi_orderId r) \<and> product_exists s (oi_productId r) \<and> price_exists s (oi_priceId r))
     orderItems orderItems_update"

definition same_provider_checkout :: "checkout_session \<Rightarrow> checkout_session \<Rightarrow> bool" where
  "same_provider_checkout c d \<longleftrightarrow> cs_providerConnectionId c = cs_providerConnectionId d
     \<and> cs_providerCheckoutId c \<noteq> None \<and> cs_providerCheckoutId c = cs_providerCheckoutId d"

definition insert_checkout_session :: "checkout_session \<Rightarrow> (db, checkout_session) prog" where
  "insert_checkout_session = insert_row ''checkout_sessions'' (\<lambda>_. True) (\<lambda>_. True)
     (\<lambda>c d. cs_id c = cs_id d \<or> same_provider_checkout c d)
     (\<lambda>s c. order_exists s (cs_orderId c) \<and> connection_exists s (cs_providerConnectionId c))
     checkoutSessions checkoutSessions_update"

text \<open>An update of sessions that leaves the provider's checkout id alone.\<close>

definition update_checkout_sessions ::
    "(checkout_session \<Rightarrow> bool) \<Rightarrow> (checkout_session \<Rightarrow> checkout_session) \<Rightarrow> (db, checkout_session list) prog" where
  "update_checkout_sessions = update_rows ''checkout_sessions'' (\<lambda>_. True) (\<lambda>_. True)
     checkoutSessions checkoutSessions_update"

subsection \<open>Payments and refunds\<close>

definition payment_fits :: "payment \<Rightarrow> bool" where
  "payment_fits r \<longleftrightarrow> fits_bigint (py_amountMinor r)"

definition payment_check :: "payment \<Rightarrow> bool" where
  "payment_check r \<longleftrightarrow> 0 \<le> py_amountMinor r"

definition same_provider_payment :: "payment \<Rightarrow> payment \<Rightarrow> bool" where
  "same_provider_payment r q \<longleftrightarrow> py_providerConnectionId r = py_providerConnectionId q
     \<and> py_providerPaymentId r = py_providerPaymentId q"

definition payment_refers :: "db \<Rightarrow> payment \<Rightarrow> bool" where
  "payment_refers s r \<longleftrightarrow> null_or (order_exists s) (py_orderId r)
     \<and> null_or (\<lambda>i. i \<in> set (customers s)) (py_customerId r)
     \<and> connection_exists s (py_providerConnectionId r)"

definition upsert_payment :: "payment \<Rightarrow> (payment \<Rightarrow> payment) \<Rightarrow> (db, payment) prog" where
  "upsert_payment = upsert_row ''payments'' payment_fits payment_check same_provider_payment
     (\<lambda>r q. py_id r = py_id q) payment_refers payments payments_update"

definition refund_fits :: "refund \<Rightarrow> bool" where
  "refund_fits r \<longleftrightarrow> null_or fits_bigint (rf_amountMinor r)"

definition refund_check :: "refund \<Rightarrow> bool" where
  "refund_check r \<longleftrightarrow> null_or (\<lambda>n. 0 \<le> n) (rf_amountMinor r)"

definition same_provider_refund :: "refund \<Rightarrow> refund \<Rightarrow> bool" where
  "same_provider_refund r q \<longleftrightarrow> rf_providerConnectionId r = rf_providerConnectionId q
     \<and> rf_providerRefundId r = rf_providerRefundId q"

definition refund_refers :: "db \<Rightarrow> refund \<Rightarrow> bool" where
  "refund_refers s r \<longleftrightarrow> null_or (order_exists s) (rf_orderId r)
     \<and> (\<exists>p \<in> set (payments s). py_id p = rf_paymentId r) \<and> connection_exists s (rf_providerConnectionId r)"

definition upsert_refund :: "refund \<Rightarrow> (refund \<Rightarrow> refund) \<Rightarrow> (db, refund) prog" where
  "upsert_refund = upsert_row ''refunds'' refund_fits refund_check same_provider_refund
     (\<lambda>r q. rf_id r = rf_id q) refund_refers refunds refunds_update"

definition update_refunds :: "(refund \<Rightarrow> bool) \<Rightarrow> (refund \<Rightarrow> refund) \<Rightarrow> (db, refund list) prog" where
  "update_refunds = update_rows ''refunds'' refund_fits refund_check refunds refunds_update"

subsection \<open>Subscriptions\<close>

definition same_provider_subscription :: "subscription \<Rightarrow> subscription \<Rightarrow> bool" where
  "same_provider_subscription r q \<longleftrightarrow> sb_providerConnectionId r = sb_providerConnectionId q
     \<and> sb_providerSubscriptionId r = sb_providerSubscriptionId q"

definition upsert_subscription :: "subscription \<Rightarrow> (subscription \<Rightarrow> subscription) \<Rightarrow> (db, subscription) prog" where
  "upsert_subscription = upsert_row ''subscriptions'' (\<lambda>_. True) (\<lambda>_. True) same_provider_subscription
     (\<lambda>r q. sb_id r = sb_id q)
     (\<lambda>s r. customer_exists s (sb_applicationCustomerId r) \<and> connection_exists s (sb_providerConnectionId r))
     subscriptions subscriptions_update"

definition subscription_item_fits :: "subscription_item \<Rightarrow> bool" where
  "subscription_item_fits r \<longleftrightarrow> fits_integer (st_quantity r) \<and> fits_bigint (st_unitAmountMinor r)
     \<and> null_or fits_integer (st_trialPeriodDays r)"

definition subscription_item_check :: "subscription_item \<Rightarrow> bool" where
  "subscription_item_check r \<longleftrightarrow> 0 < st_quantity r"

definition insert_subscription_item :: "subscription_item \<Rightarrow> (db, subscription_item option) prog" where
  "insert_subscription_item = insert_or_ignore ''subscription_items'' subscription_item_fits subscription_item_check
     (\<lambda>r q. st_id r = st_id q \<or> st_subscriptionId r = st_subscriptionId q \<and> st_priceId r = st_priceId q)
     (\<lambda>_ _. False)
     (\<lambda>s r. (\<exists>u \<in> set (subscriptions s). sb_id u = st_subscriptionId r)
        \<and> product_exists s (st_productId r) \<and> price_exists s (st_priceId r))
     subscriptionItems subscriptionItems_update"

subsection \<open>The webhook inbox\<close>

definition same_provider_event :: "webhook_event \<Rightarrow> webhook_event \<Rightarrow> bool" where
  "same_provider_event r q \<longleftrightarrow> wh_providerConnectionId r = wh_providerConnectionId q
     \<and> wh_providerEventId r = wh_providerEventId q"

definition insert_webhook_event :: "webhook_event \<Rightarrow> (db, webhook_event option) prog" where
  "insert_webhook_event = insert_or_ignore ''webhook_events'' (\<lambda>_. True) (\<lambda>_. True)
     (\<lambda>r q. wh_id r = wh_id q \<or> same_provider_event r q) (\<lambda>_ _. False)
     (\<lambda>s r. connection_exists s (wh_providerConnectionId r)) webhookEvents webhookEvents_update"

definition update_webhook_events ::
    "(webhook_event \<Rightarrow> bool) \<Rightarrow> (webhook_event \<Rightarrow> webhook_event) \<Rightarrow> (db, webhook_event list) prog" where
  "update_webhook_events = update_rows ''webhook_events'' (\<lambda>_. True) (\<lambda>_. True) webhookEvents webhookEvents_update"

lemmas commerce_table_defs [table_defs] =
  insert_order_def update_orders_def insert_order_item_def insert_checkout_session_def
  update_checkout_sessions_def upsert_payment_def upsert_refund_def update_refunds_def
  upsert_subscription_def insert_subscription_item_def insert_webhook_event_def update_webhook_events_def

lemmas [run_simps] = upsert_row_def connection_exists_def order_exists_def product_exists_def price_exists_def
  order_fits_def order_check_def order_item_fits_def order_item_check_def same_provider_checkout_def
  payment_fits_def payment_check_def same_provider_payment_def payment_refers_def refund_fits_def refund_check_def
  same_provider_refund_def refund_refers_def same_provider_subscription_def subscription_item_fits_def
  subscription_item_check_def same_provider_event_def commerce_table_defs

end
