(* ===== verification/JsDate.thy ===== *)
theory JsDate
  imports JsRuntime
begin

text \<open>
  \<open>new Date(text)\<close>: the ECMAScript date-time string format, which \<open>toISOString\<close> prints. A
  text has a year (four digits, or a sign and six), optionally a month and a day, optionally a
  time with minutes, seconds and a fraction of which three digits count, and an offset (\<open>Z\<close>
  or hours and minutes; a time without one is local time, and the server's zone is UTC). Days
  up to 31 are accepted in every month and roll over into the next, as V8 does; a time outside
  the range of \<open>Date\<close> is invalid. Texts in any other format are implementation defined in
  ECMAScript and invalid here.
\<close>

definition days_of_civil :: "int \<Rightarrow> int \<Rightarrow> int \<Rightarrow> int" where
  "days_of_civil y m d =
     (let y' = (if m \<le> 2 then y - 1 else y);
          era = y' div 400;
          yoe = y' mod 400;
          doy = (153 * ((m + 9) mod 12) + 2) div 5 + d - 1;
          doe = yoe * 365 + yoe div 4 - yoe div 100 + doy
      in era * 146097 + doe - 719468)"

definition digits :: "nat \<Rightarrow> string \<Rightarrow> (int \<times> string) option" where
  "digits n t = (if n \<le> length t \<and> list_all is_digit (take n t)
     then Some (int (nat_of_digits (take n t)), drop n t) else None)"

definition after_char :: "char \<Rightarrow> string \<Rightarrow> string option" where
  "after_char c t = (case t of [] \<Rightarrow> None | x # xs \<Rightarrow> if x = c then Some xs else None)"

text \<open>Two digits after a separator, within bounds.\<close>

definition field :: "char \<Rightarrow> int \<Rightarrow> int \<Rightarrow> string \<Rightarrow> (int \<times> string) option" where
  "field c lo hi t = (case after_char c t of None \<Rightarrow> None | Some u \<Rightarrow>
     (case digits 2 u of None \<Rightarrow> None | Some (n, rest) \<Rightarrow> if lo \<le> n \<and> n \<le> hi then Some (n, rest) else None))"

definition year_field :: "string \<Rightarrow> (int \<times> string) option" where
  "year_field t = (case t of [] \<Rightarrow> None
     | c # u \<Rightarrow> if c = CHR ''+'' then digits 6 u
                 else if c = CHR ''-'' then
                   (case digits 6 u of None \<Rightarrow> None | Some (n, rest) \<Rightarrow> if n = 0 then None else Some (- n, rest))
                 else digits 4 t)"

definition optional_field :: "char \<Rightarrow> int \<Rightarrow> int \<Rightarrow> int \<Rightarrow> string \<Rightarrow> int \<times> string" where
  "optional_field c lo hi d t = (case field c lo hi t of None \<Rightarrow> (d, t) | Some r \<Rightarrow> r)"

definition fraction_field :: "string \<Rightarrow> int \<times> string" where
  "fraction_field t = (case after_char (CHR ''.'') t of None \<Rightarrow> (0, t) | Some u \<Rightarrow>
     let ds = takeWhile is_digit u
     in if ds = [] then (0, t)
        else (int (nat_of_digits (take 3 (ds @ replicate 3 (CHR ''0'')))), dropWhile is_digit u))"

definition offset_field :: "string \<Rightarrow> int option" where
  "offset_field t =
     (if t = [] \<or> t = ''Z'' then Some 0
      else
        let sign = (if hd t = CHR ''-'' then - 1 else 1)
        in if hd t \<noteq> CHR ''+'' \<and> hd t \<noteq> CHR ''-'' then None
           else case digits 2 (tl t) of None \<Rightarrow> None | Some (h, u) \<Rightarrow>
             (case field (CHR '':'') 0 59 u of None \<Rightarrow> None | Some (mi, rest) \<Rightarrow>
               if rest = [] \<and> h \<le> 23 then Some (sign * (h * 3600000 + mi * 60000)) else None))"

definition time_part :: "string \<Rightarrow> int option" where
  "time_part t =
     (if t = [] then Some 0
      else case field (CHR ''T'') 0 24 t of None \<Rightarrow> None | Some (h, u) \<Rightarrow>
        (case field (CHR '':'') 0 59 u of None \<Rightarrow> None | Some (mi, v) \<Rightarrow>
           (case optional_field (CHR '':'') 0 59 0 v of (sec, w) \<Rightarrow>
             (case fraction_field w of (ms, z) \<Rightarrow>
               let time = h * 3600000 + mi * 60000 + sec * 1000 + ms
               in if 86400000 < time then None
                  else map_option (\<lambda>off. time - off) (offset_field z)))))"

definition dateParse :: "string \<Rightarrow> js_date" where
  "dateParse t = (case year_field t of None \<Rightarrow> None | Some (y, u) \<Rightarrow>
     (case optional_field (CHR ''-'') 1 12 1 u of (m, v) \<Rightarrow>
       (case (if v = u then (1, v) else optional_field (CHR ''-'') 1 31 1 v) of (d, w) \<Rightarrow>
         (case time_part w of None \<Rightarrow> None | Some time \<Rightarrow>
           let ms = days_of_civil y m d * 86400000 + time
           in if \<bar>ms\<bar> \<le> 8640000000000000 then Some ms else None))))"

end
