(* ===== verification/WebhookPayments.thy ===== *)
theory WebhookPayments
  imports CommerceSchema CreditCommerce Entitlements JsDate
begin

text \<open>
  Payment events of a provider webhook
  (\<open>src/src/modules/commerce/webhook-payment-events.ts\<close>, \<open>webhook-shared.ts\<close>): one delivery
  is one transaction, so the advisory and row locks are the atomicity of the step. The body of
  \<open>applyPaymentEvent\<close> is cut where its comments cut it: validation, the reads under the lock,
  the binding and currency guards, the amount, the refund plan, the settled-payment guards, the
  payment row, the order and its grants, and the refund row.
\<close>

subsection \<open>Shared kernel\<close>

definition parseEventDate :: "string option \<Rightarrow> (db, int option) prog" where
  "parseEventDate value =
     (case truthy value of
        None \<Rightarrow> return None
      | Some t \<Rightarrow>
          (case dateParse t of
             None \<Rightarrow> throw (InvalidNormalizedCommerceEventError ''Invalid provider event date'')
           | Some d \<Rightarrow> return (Some d)))"

text \<open>A value in a template string.\<close>

definition printed :: "string option \<Rightarrow> string" where
  "printed t = (case t of None \<Rightarrow> ''undefined'' | Some x \<Rightarrow> x)"

definition or_else :: "'a option \<Rightarrow> 'a option \<Rightarrow> 'a option" where
  "or_else a b = (case a of None \<Rightarrow> b | Some x \<Rightarrow> Some x)"

record webhook_context =
  wc_applicationId :: string
  wc_providerConnectionId :: string
  wc_environment :: environment
  wc_webhookEventId :: string
  wc_event :: provider_event
  wc_occurredAt :: int
  wc_inserted :: bool
  wc_order :: "commerce_order option"
  wc_customer :: "application_customer option"

record webhook_outcome =
  wo_webhookEventId :: string
  wo_duplicate :: bool
  wo_status :: webhook_status
  wo_normalizedType :: event_type

definition mark_event :: "webhook_status \<Rightarrow> string option \<Rightarrow> int \<Rightarrow> webhook_event \<Rightarrow> webhook_event" where
  "mark_event st msg now w = w\<lparr>wh_status := st, wh_errorMessage := msg, wh_processedAt := Some now\<rparr>"

text \<open>Acknowledge the event without applying it.\<close>

definition ignoreEvent :: "webhook_context \<Rightarrow> string \<Rightarrow> (db, webhook_outcome) prog" where
  "ignoreEvent ctx msg =
     bind now_date (\<lambda>now.
     bind (update_webhook_events (\<lambda>w. wh_id w = wc_webhookEventId ctx) (mark_event WhIgnored (Some msg) now)) (\<lambda>_.
     return \<lparr>wo_webhookEventId = wc_webhookEventId ctx, wo_duplicate = (\<not> wc_inserted ctx),
             wo_status = WhIgnored, wo_normalizedType = ev_type (wc_event ctx)\<rparr>))"

definition find_order :: "string \<Rightarrow> string \<Rightarrow> db \<Rightarrow> commerce_order option" where
  "find_order applicationId i s = List.find (\<lambda>r. od_id r = i \<and> od_applicationId r = applicationId) (orders s)"

definition find_mapped_customer :: "string \<Rightarrow> string \<Rightarrow> db \<Rightarrow> application_customer option" where
  "find_mapped_customer applicationId customerId s =
     List.find (\<lambda>c. ac_applicationId c = applicationId \<and> ac_customerId c = customerId) (applicationCustomers s)"

definition resolve_order :: "string \<Rightarrow> provider_event \<Rightarrow> commerce_order option \<Rightarrow> (db, commerce_order option) prog" where
  "resolve_order applicationId event snapshot =
     (case truthy (ev_monetplaneOrderId event) of
        None \<Rightarrow> return snapshot | Some i \<Rightarrow> gets (find_order applicationId i))"

definition resolve_customer ::
    "string \<Rightarrow> provider_event \<Rightarrow> application_customer option \<Rightarrow> (db, application_customer option) prog" where
  "resolve_customer applicationId event snapshot =
     (case truthy (ev_monetplaneCustomerId event) of
        None \<Rightarrow> return snapshot | Some i \<Rightarrow> gets (find_mapped_customer applicationId i))"

subsection \<open>Guards\<close>

definition checkPaymentAmount :: "provider_event \<Rightarrow> (db, unit) prog" where
  "checkPaymentAmount event =
     (case ev_amountMinor event of
        None \<Rightarrow> return ()
      | Some n \<Rightarrow> throw_if (\<not> isSafeInteger n \<or> n < 0)
          (InvalidNormalizedCommerceEventError
             (''payment amount must be a non-negative whole number, got '' @ string_of_int n)))"

definition find_payment :: "string \<Rightarrow> string \<Rightarrow> db \<Rightarrow> payment option" where
  "find_payment connection i s =
     List.find (\<lambda>p. py_providerConnectionId p = connection \<and> py_providerPaymentId p = i) (payments s)"

text \<open>A payment's order and customer bindings are immutable.\<close>

definition conflicting :: "string option \<Rightarrow> string option \<Rightarrow> bool" where
  "conflicting recorded given = (case (truthy recorded, truthy given) of (Some a, Some b) \<Rightarrow> b \<noteq> a | _ \<Rightarrow> False)"

definition checkBindings :: "provider_event \<Rightarrow> payment option \<Rightarrow> (db, unit) prog" where
  "checkBindings event existing =
     (case existing of
        None \<Rightarrow> return ()
      | Some p \<Rightarrow>
          bind (throw_if (conflicting (py_orderId p) (ev_monetplaneOrderId event))
            (InvalidNormalizedCommerceEventError
               (''payment '' @ printed (ev_providerPaymentId event) @ '' is already bound to order ''
                @ printed (py_orderId p) @ ''; event references order ''
                @ printed (ev_monetplaneOrderId event)))) (\<lambda>_.
          throw_if (conflicting (py_customerId p) (ev_monetplaneCustomerId event))
            (InvalidNormalizedCommerceEventError
               (''payment '' @ printed (ev_providerPaymentId event) @ '' is already bound to customer ''
                @ printed (py_customerId p) @ ''; event references customer ''
                @ printed (ev_monetplaneCustomerId event)))))"

text \<open>With no order resolved from the event, the recorded binding is the association.\<close>

definition recordedOrder :: "string \<Rightarrow> payment option \<Rightarrow> commerce_order option \<Rightarrow> (db, commerce_order option) prog" where
  "recordedOrder applicationId existing order =
     (case order of
        Some r \<Rightarrow> return (Some r)
      | None \<Rightarrow>
          (case existing of
             None \<Rightarrow> return None
           | Some p \<Rightarrow>
               (case truthy (py_orderId p) of
                  None \<Rightarrow> return None | Some i \<Rightarrow> gets (find_order applicationId i))))"

definition checkCurrency :: "provider_event \<Rightarrow> commerce_order option \<Rightarrow> payment option \<Rightarrow> (db, unit) prog" where
  "checkCurrency event order existing =
     (let eventCurrency = truthy (map_option (\<lambda>c. toUpperCase (trim c)) (ev_currency event));
          expectedCurrency = truthy (map_option toUpperCase
            (or_else (map_option od_currency order) (map_option py_currency existing)))
      in case (eventCurrency, expectedCurrency) of
           (Some a, Some b) \<Rightarrow> throw_if (a \<noteq> b)
             (InvalidNormalizedCommerceEventError (''currency mismatch: event currency '' @ a
                @ '' does not match recorded currency '' @ b))
         | _ \<Rightarrow> return ())"

definition paymentAmount ::
    "provider_event \<Rightarrow> commerce_order option \<Rightarrow> payment option \<Rightarrow> (db, int \<times> string) prog" where
  "paymentAmount event order existing =
     (let total = map_option od_totalAmountMinor order;
          amountMinor =
            (if ev_type event = PaymentRefunded \<and> existing = None then or_else total (ev_amountMinor event)
             else or_else (ev_amountMinor event) (or_else total (map_option py_amountMinor existing)));
          currency = map_option toUpperCase (or_else (ev_currency event)
            (or_else (map_option od_currency order) (map_option py_currency existing)))
      in case (amountMinor, truthy currency) of
           (Some a, Some c) \<Rightarrow> return (a, c)
         | _ \<Rightarrow> throw (InvalidNormalizedCommerceEventError ''Payment event is missing amount or currency''))"

subsection \<open>The refund plan\<close>

record refund_plan =
  rp_amountMinor :: int
  rp_fullyRefunded :: bool

datatype refund_decision = RefundAcknowledged webhook_outcome | RefundPlanned refund_plan

definition checkRefundAmount :: "provider_event \<Rightarrow> (db, unit) prog" where
  "checkRefundAmount event =
     (case ev_amountMinor event of
        None \<Rightarrow> return ()
      | Some n \<Rightarrow> throw_if (\<not> isSafeInteger n \<or> n \<le> 0)
          (InvalidNormalizedCommerceEventError
             (''refund amount must be a positive whole number, got '' @ string_of_int n)))"

text \<open>A refund fact is identified by the connection and the provider's refund id, and belongs
  to one payment.\<close>

definition find_refund :: "string \<Rightarrow> string \<Rightarrow> db \<Rightarrow> refund option" where
  "find_refund connection i s =
     List.find (\<lambda>r. rf_providerConnectionId r = connection \<and> rf_providerRefundId r = i) (refunds s)"

definition recordedFact :: "webhook_context \<Rightarrow> payment option \<Rightarrow> (db, refund option) prog" where
  "recordedFact ctx existing =
     (case truthy (ev_providerRefundId (wc_event ctx)) of
        None \<Rightarrow> return None
      | Some i \<Rightarrow>
          bind (gets (find_refund (wc_providerConnectionId ctx) i)) (\<lambda>known.
          bind (throw_if (known \<noteq> None \<and> map_option rf_paymentId known \<noteq> map_option py_id existing)
            (InvalidNormalizedCommerceEventError
               (''refund fact '' @ i @ '' conflict: already recorded for a different payment''))) (\<lambda>_.
          return known)))"

text \<open>The journal records a refund it cannot name yet under \<open>refund:<paymentId>\<close>; when the
  provider's own refund id arrives, such pending rows are superseded.\<close>

definition is_synthetic :: "string \<Rightarrow> refund \<Rightarrow> bool" where
  "is_synthetic paymentId r \<longleftrightarrow> rf_paymentId r = paymentId \<and> rf_status r = RefPending
     \<and> take 7 (rf_providerRefundId r) = ''refund:''"

definition supersede :: "int \<Rightarrow> refund \<Rightarrow> refund" where
  "supersede now r = r\<lparr>rf_status := RefSuperseded, rf_updatedAt := now\<rparr>"

definition supersedeSynthetic :: "provider_event \<Rightarrow> refund option \<Rightarrow> payment option \<Rightarrow> (db, unit) prog" where
  "supersedeSynthetic event known existing =
     (case (truthy (ev_providerRefundId event), known, existing) of
        (Some _, None, Some p) \<Rightarrow>
          bind (gets (\<lambda>s. map rf_id (filter (is_synthetic (py_id p)) (refunds s)))) (\<lambda>supersededFactIds.
          if supersededFactIds = [] then return ()
          else bind now_date (\<lambda>now.
               bind (update_refunds (\<lambda>r. rf_id r \<in> set supersededFactIds) (supersede now)) (\<lambda>_. return ())))
      | _ \<Rightarrow> return ())"

record refund_totals =
  rt_reserved :: int
  rt_confirmed :: int
  rt_unknown :: bool

fun refund_sums :: "(refund \<Rightarrow> bool) \<Rightarrow> refund list \<Rightarrow> refund_totals" where
  "refund_sums own [] = \<lparr>rt_reserved = 0, rt_confirmed = 0, rt_unknown = False\<rparr>"
| "refund_sums own (row # rows) =
     (let t = refund_sums own rows in
      if rf_status row = RefFailed \<or> rf_status row = RefSuperseded \<or> own row then t
      else case rf_amountMinor row of
        None \<Rightarrow> t\<lparr>rt_unknown := True\<rparr>
      | Some n \<Rightarrow> t\<lparr>rt_reserved := rt_reserved t + n,
                    rt_confirmed := rt_confirmed t + (if rf_status row = RefSucceeded then n else 0)\<rparr>)"

text \<open>The pending fact this event confirms: its provisional amount is not refunded headroom.\<close>

definition own_fact :: "refund option \<Rightarrow> refund \<Rightarrow> bool" where
  "own_fact known r = (case known of None \<Rightarrow> False | Some f \<Rightarrow> rf_status f = RefPending \<and> rf_id r = rf_id f)"

definition refund_rows :: "payment option \<Rightarrow> db \<Rightarrow> refund list" where
  "refund_rows existing s =
     (case existing of None \<Rightarrow> [] | Some p \<Rightarrow> filter (\<lambda>r. rf_paymentId r = py_id p) (refunds s))"

text \<open>A pending fact is confirmed at the provider's amount; a new fact is capped at what is
  left of the captured amount, and nothing is left to plan when that is not positive.\<close>

definition plan_amount :: "provider_event \<Rightarrow> refund option \<Rightarrow> int \<Rightarrow> refund_totals \<Rightarrow> refund_plan option" where
  "plan_amount event known captured totals =
     (let remaining = (if rt_unknown totals then 0 else captured - rt_reserved totals);
          upgrading = (known \<noteq> None \<and> map_option rf_status known = Some RefPending)
      in if upgrading then
           let confirmedAmount = (case ev_amountMinor event of
                 Some n \<Rightarrow> n
               | None \<Rightarrow> (case Option.bind known rf_amountMinor of Some n \<Rightarrow> n | None \<Rightarrow> remaining))
           in Some \<lparr>rp_amountMinor = confirmedAmount,
                    rp_fullyRefunded = captured \<le> rt_confirmed totals + confirmedAmount\<rparr>
         else if remaining \<le> 0 then None
         else
           let applied = (case ev_amountMinor event of None \<Rightarrow> remaining | Some n \<Rightarrow> min n remaining)
           in Some \<lparr>rp_amountMinor = applied, rp_fullyRefunded = captured \<le> rt_confirmed totals + applied\<rparr>)"

text \<open>A fact that is not settled yet: synthetic rows of the payment give way to it, and its amount
  is planned against what the rows then hold.\<close>

definition planUnsettled ::
    "webhook_context \<Rightarrow> payment option \<Rightarrow> int \<Rightarrow> refund option \<Rightarrow> (db, refund_decision) prog" where
  "planUnsettled ctx existing amountMinor known =
     bind (supersedeSynthetic (wc_event ctx) known existing) (\<lambda>_.
     bind (gets (refund_rows existing)) (\<lambda>rows.
     let captured = (case existing of None \<Rightarrow> amountMinor | Some p \<Rightarrow> py_amountMinor p);
         totals = refund_sums (own_fact known) rows
     in case plan_amount (wc_event ctx) known captured totals of
          Some plan \<Rightarrow> return (RefundPlanned plan)
        | None \<Rightarrow>
            bind (ignoreEvent ctx ''refund exceeds payment amount'') (\<lambda>out. return (RefundAcknowledged out))))"

definition planRefund :: "webhook_context \<Rightarrow> payment option \<Rightarrow> int \<Rightarrow> (db, refund_decision) prog" where
  "planRefund ctx existing amountMinor =
     (let event = wc_event ctx; refundId = printed (ev_providerRefundId event) in
      bind (checkRefundAmount event) (\<lambda>_.
      bind (recordedFact ctx existing) (\<lambda>known.
      if map_option rf_status known = Some RefSucceeded then
        (if Option.bind known rf_amountMinor = None \<or> ev_amountMinor event = None
            \<or> Option.bind known rf_amountMinor = ev_amountMinor event
         then bind (ignoreEvent ctx (''refund fact '' @ refundId @ '' already recorded (idempotent replay)''))
                (\<lambda>out. return (RefundAcknowledged out))
         else throw (InvalidNormalizedCommerceEventError
                (''refund fact '' @ refundId @ '' conflict: recorded amountMinor ''
                 @ printed (map_option string_of_int (Option.bind known rf_amountMinor)) @ '', event reports ''
                 @ printed (map_option string_of_int (ev_amountMinor event)) @ '' - requires reconciliation'')))
      else planUnsettled ctx existing amountMinor known)))"

subsection \<open>Settled payments\<close>

text \<open>Late and duplicate notifications of a settled payment are acknowledged, not applied.\<close>

definition settled_message ::
    "event_type \<Rightarrow> commerce_order option \<Rightarrow> payment option \<Rightarrow> string option" where
  "settled_message ty order existing =
     (let settled = map_option py_status existing in
      if ty = PaymentSucceeded \<and> settled = Some PaySucceeded
         \<and> (case order of None \<Rightarrow> True | Some r \<Rightarrow> od_status r = OrdPaid \<or> od_status r = OrdRefunded)
      then Some ''success event replayed for an already-succeeded payment''
      else if ty = PaymentSucceeded \<and> settled = Some PayRefunded
      then Some ''success event arrived after terminal refund''
      else if ty = PaymentFailed \<and> (settled = Some PaySucceeded \<or> settled = Some PayRefunded)
      then Some ''failure event for an already-settled payment (succeeded/refunded)''
      else None)"

definition fully_refunded :: "refund_plan option \<Rightarrow> bool" where
  "fully_refunded plan = (case plan of None \<Rightarrow> False | Some p \<Rightarrow> rp_fullyRefunded p)"

definition next_payment_status :: "event_type \<Rightarrow> payment option \<Rightarrow> refund_plan option \<Rightarrow> payment_status" where
  "next_payment_status ty existing plan =
     (if ty = PaymentSucceeded then PaySucceeded
      else if ty = PaymentFailed then
        (case existing of None \<Rightarrow> PayFailed
         | Some p \<Rightarrow> if py_status p = PayPending then PayFailed else py_status p)
      else if fully_refunded plan then PayRefunded
      else (case existing of None \<Rightarrow> PaySucceeded | Some p \<Rightarrow> py_status p))"

definition next_order_status :: "event_type \<Rightarrow> commerce_order \<Rightarrow> refund_plan option \<Rightarrow> order_status" where
  "next_order_status ty order plan =
     (if ty = PaymentSucceeded then (if od_status order = OrdRefunded then OrdRefunded else OrdPaid)
      else if ty = PaymentFailed then (if od_status order = OrdPending then OrdFailed else od_status order)
      else if fully_refunded plan then OrdRefunded else od_status order)"

fun allowed_sources :: "order_status \<Rightarrow> order_status list" where
  "allowed_sources OrdPaid = [OrdPending, OrdFailed]"
| "allowed_sources OrdFailed = [OrdPending]"
| "allowed_sources OrdRefunded = [OrdPending, OrdPaid, OrdRefunded]"
| "allowed_sources OrdPending = []"

subsection \<open>Applying\<close>

definition settle_payment :: "payment_status \<Rightarrow> payment \<Rightarrow> int \<Rightarrow> payment \<Rightarrow> payment" where
  "settle_payment st new now old = old\<lparr>py_status := st, py_orderId := or_else (py_orderId new) (py_orderId old),
     py_customerId := or_else (py_customerId new) (py_customerId old), py_updatedAt := now\<rparr>"

definition persistPayment ::
    "webhook_context \<Rightarrow> string \<Rightarrow> payment_status \<Rightarrow> int \<Rightarrow> string \<Rightarrow> (db, payment) prog" where
  "persistPayment ctx providerPaymentId st amountMinor currency =
     bind (new_id ''pay_'') (\<lambda>i.
     bind now_date (\<lambda>now.
     let row = \<lparr>py_id = i, py_applicationId = wc_applicationId ctx, py_orderId = map_option od_id (wc_order ctx),
           py_customerId = map_option ac_customerId (wc_customer ctx),
           py_providerConnectionId = wc_providerConnectionId ctx, py_providerPaymentId = providerPaymentId,
           py_environment = wc_environment ctx, py_status = st, py_amountMinor = amountMinor,
           py_currency = currency, py_updatedAt = now\<rparr>
     in upsert_payment row (settle_payment st row now)))"

definition set_order_status :: "order_status \<Rightarrow> int \<Rightarrow> commerce_order \<Rightarrow> commerce_order" where
  "set_order_status st now r = r\<lparr>od_status := st, od_updatedAt := now\<rparr>"

text \<open>A monotonic, conditional transition: only from the statuses that may lead to the next.\<close>

definition moveOrder :: "string \<Rightarrow> commerce_order \<Rightarrow> order_status \<Rightarrow> (db, unit) prog" where
  "moveOrder applicationId order next =
     (if next = od_status order \<or> allowed_sources next = [] then return ()
      else
        bind now_date (\<lambda>now.
        bind (update_orders (\<lambda>r. od_id r = od_id order \<and> od_applicationId r = applicationId
                              \<and> od_status r \<in> set (allowed_sources next)) (set_order_status next now)) (\<lambda>_.
        return ())))"

definition set_session_status :: "checkout_status \<Rightarrow> int \<Rightarrow> checkout_session \<Rightarrow> checkout_session" where
  "set_session_status st now c = c\<lparr>cs_status := st, cs_updatedAt := now\<rparr>"

definition items_of :: "string \<Rightarrow> db \<Rightarrow> order_item list" where
  "items_of orderId s = filter (\<lambda>i. oi_orderId i = orderId) (orderItems s)"

text \<open>What a one-time purchase delivers: its products' entitlements, for good, and credits.\<close>

definition order_entitlements :: "webhook_context \<Rightarrow> commerce_order \<Rightarrow> order_item list \<Rightarrow> configured_entitlements" where
  "order_entitlements ctx order items =
     \<lparr>ce_applicationId = wc_applicationId ctx, ce_applicationCustomerId = od_applicationCustomerId order,
      ce_productIds = map oi_productId items, ce_sourceType = OrderSource, ce_sourceId = od_id order,
      ce_sourceEventId = Some (ev_providerEventId (wc_event ctx)), ce_validFrom = Some (wc_occurredAt ctx),
      ce_validUntil = None, ce_periodKey = ''durable'', ce_environment = Some (wc_environment ctx)\<rparr>"

definition deliverOrder :: "webhook_context \<Rightarrow> commerce_order \<Rightarrow> (db, unit) prog" where
  "deliverOrder ctx order =
     bind (gets (items_of (od_id order))) (\<lambda>items.
     bind (grantConfiguredEntitlements (order_entitlements ctx order items)) (\<lambda>_.
     bind (grantConfiguredCreditsInTransaction
       \<lparr>cg_applicationId = wc_applicationId ctx, cg_applicationCustomerId = od_applicationCustomerId order,
        cg_productItems = map (\<lambda>i. (oi_productId i, oi_quantity i)) items, cg_transactionType = GrantPurchase,
        cg_sourceType = OrderSource, cg_sourceId = od_id order, cg_periodKey = ''durable'',
        cg_sourceEventId = Some (ev_providerEventId (wc_event ctx)), cg_environment = Some (wc_environment ctx),
        cg_expiresAt = None, cg_requireExpiry = False\<rparr>) (\<lambda>_.
     return ())))"

definition applyOrder :: "webhook_context \<Rightarrow> commerce_order \<Rightarrow> refund_plan option \<Rightarrow> (db, unit) prog" where
  "applyOrder ctx order plan =
     (let ty = ev_type (wc_event ctx) in
      bind (moveOrder (wc_applicationId ctx) order (next_order_status ty order plan)) (\<lambda>_.
      if ty = PaymentSucceeded then
        bind now_date (\<lambda>now.
        bind (update_checkout_sessions
                (\<lambda>c. cs_orderId c = od_id order \<and> cs_applicationId c = wc_applicationId ctx)
                (set_session_status ChkCompleted now)) (\<lambda>_.
        if od_billingMode order = OneTimeMode then deliverOrder ctx order else return ()))
      else return ()))"

definition confirm_refund :: "int \<Rightarrow> int \<Rightarrow> refund \<Rightarrow> refund" where
  "confirm_refund amount now r = r\<lparr>rf_status := RefSucceeded, rf_amountMinor := Some amount, rf_updatedAt := now\<rparr>"

definition recordRefund :: "webhook_context \<Rightarrow> payment \<Rightarrow> refund_plan \<Rightarrow> (db, unit) prog" where
  "recordRefund ctx payment plan =
     (let event = wc_event ctx;
          providerRefundId = (case ev_providerRefundId event of Some i \<Rightarrow> i | None \<Rightarrow> ''event:'' @ ev_providerEventId event)
      in
      bind (new_id ''ref_'') (\<lambda>i.
      bind now_date (\<lambda>now.
      bind (upsert_refund
        \<lparr>rf_id = i, rf_applicationId = wc_applicationId ctx, rf_orderId = map_option od_id (wc_order ctx),
         rf_paymentId = py_id payment, rf_providerConnectionId = wc_providerConnectionId ctx,
         rf_providerRefundId = providerRefundId, rf_environment = wc_environment ctx, rf_status = RefSucceeded,
         rf_amountMinor = Some (rp_amountMinor plan), rf_updatedAt = now\<rparr>
        (confirm_refund (rp_amountMinor plan) now)) (\<lambda>_.
      case wc_order ctx of
        Some order \<Rightarrow>
          if rp_fullyRefunded plan
          then bind (revokeEntitlementsBySource (wc_applicationId ctx) OrderSource (od_id order)) (\<lambda>_. return ())
          else return ()
      | None \<Rightarrow> return ()))))"

definition applyPlanned ::
    "webhook_context \<Rightarrow> string \<Rightarrow> payment option \<Rightarrow> int \<Rightarrow> string \<Rightarrow> refund_plan option
     \<Rightarrow> (db, webhook_outcome option \<times> webhook_context) prog" where
  "applyPlanned ctx providerPaymentId existing amountMinor currency plan =
     (let ty = ev_type (wc_event ctx) in
      case settled_message ty (wc_order ctx) existing of
        Some msg \<Rightarrow> bind (ignoreEvent ctx msg) (\<lambda>out. return (Some out, ctx))
      | None \<Rightarrow>
          bind (persistPayment ctx providerPaymentId (next_payment_status ty existing plan) amountMinor currency)
            (\<lambda>payment.
          bind (case wc_order ctx of None \<Rightarrow> return () | Some order \<Rightarrow> applyOrder ctx order plan) (\<lambda>_.
          bind (case plan of None \<Rightarrow> return () | Some p \<Rightarrow> recordRefund ctx payment p) (\<lambda>_.
          return (None, ctx)))))"

definition applyResolved ::
    "webhook_context \<Rightarrow> string \<Rightarrow> payment option \<Rightarrow> int \<Rightarrow> string
     \<Rightarrow> (db, webhook_outcome option \<times> webhook_context) prog" where
  "applyResolved ctx providerPaymentId existing amountMinor currency =
     (if ev_type (wc_event ctx) = PaymentRefunded then
        bind (planRefund ctx existing amountMinor) (\<lambda>decision.
        case decision of
          RefundAcknowledged out \<Rightarrow> return (Some out, ctx)
        | RefundPlanned plan \<Rightarrow> applyPlanned ctx providerPaymentId existing amountMinor currency (Some plan))
      else applyPlanned ctx providerPaymentId existing amountMinor currency None)"

text \<open>The early outcome, if the event is acknowledged, and the context with the order and the
  customer as read under the lock.\<close>

definition applyPaymentEvent :: "webhook_context \<Rightarrow> (db, webhook_outcome option \<times> webhook_context) prog" where
  "applyPaymentEvent ctx0 =
     (let event = wc_event ctx0 in
      bind (checkPaymentAmount event) (\<lambda>_.
      bind (require (InvalidNormalizedCommerceEventError ''Payment event is missing providerPaymentId'')
              (truthy (ev_providerPaymentId event))) (\<lambda>providerPaymentId.
      bind (resolve_order (wc_applicationId ctx0) event (wc_order ctx0)) (\<lambda>order1.
      bind (resolve_customer (wc_applicationId ctx0) event (wc_customer ctx0)) (\<lambda>customer.
      bind (gets (find_payment (wc_providerConnectionId ctx0) providerPaymentId)) (\<lambda>existing.
      bind (checkBindings event existing) (\<lambda>_.
      bind (recordedOrder (wc_applicationId ctx0) existing order1) (\<lambda>order.
      bind (checkCurrency event order existing) (\<lambda>_.
      bind (paymentAmount event order existing) (\<lambda>(amountMinor, currency).
      applyResolved (ctx0\<lparr>wc_order := order, wc_customer := customer\<rparr>) providerPaymentId existing amountMinor
        currency))))))))))"

lemmas webhook_payment_defs [run_simps] = truthy_def parseEventDate_def printed_def or_else_def mark_event_def
  ignoreEvent_def find_order_def find_mapped_customer_def resolve_order_def resolve_customer_def
  checkPaymentAmount_def find_payment_def conflicting_def checkBindings_def recordedOrder_def checkCurrency_def
  paymentAmount_def checkRefundAmount_def find_refund_def recordedFact_def is_synthetic_def supersede_def
  supersedeSynthetic_def refund_rows_def own_fact_def plan_amount_def planUnsettled_def planRefund_def settled_message_def fully_refunded_def
  next_payment_status_def next_order_status_def settle_payment_def persistPayment_def set_order_status_def
  moveOrder_def set_session_status_def items_of_def order_entitlements_def deliverOrder_def applyOrder_def confirm_refund_def
  recordRefund_def applyPlanned_def applyResolved_def applyPaymentEvent_def

end
