(* ===== verification/WebhookSubscriptions.thy ===== *)
theory WebhookSubscriptions
  imports WebhookPayments CreditRevocation
begin

text \<open>
  Subscription events of a provider webhook
  (\<open>src/src/modules/commerce/webhook-subscription-events.ts\<close>): the subscription row follows
  the event, an active period grants its entitlements and credits under a key of the period,
  and a cancellation or an expiry takes them back.
\<close>

definition is_subscription_event :: "event_type \<Rightarrow> bool" where
  "is_subscription_event ty \<longleftrightarrow> ty \<in> {SubscriptionCreated, SubscriptionActivated, SubscriptionRenewed,
     SubscriptionUpdated, SubscriptionCancelled, SubscriptionExpired}"

definition find_subscription :: "string \<Rightarrow> string \<Rightarrow> string \<Rightarrow> db \<Rightarrow> subscription option" where
  "find_subscription applicationId connection i s =
     List.find (\<lambda>r. sb_providerConnectionId r = connection \<and> sb_providerSubscriptionId r = i
                     \<and> sb_applicationId r = applicationId) (subscriptions s)"

definition inferred_status :: "provider_event \<Rightarrow> subscription option \<Rightarrow> subscription_status" where
  "inferred_status event existing =
     (let given = ev_subscriptionStatus event;
          default = (\<lambda>st. case given of Some x \<Rightarrow> x | None \<Rightarrow> st)
      in if ev_type event = PaymentFailed \<and> truthy (ev_providerSubscriptionId event) \<noteq> None then SubPastDue
         else if ev_type event = SubscriptionCreated then default SubPending
         else if ev_type event = SubscriptionActivated \<or> ev_type event = SubscriptionRenewed then default SubActive
         else if ev_type event = SubscriptionCancelled then SubCancelled
         else if ev_type event = SubscriptionExpired then SubExpired
         else default (case existing of Some r \<Rightarrow> sb_status r | None \<Rightarrow> SubPending))"

definition follow_event ::
    "subscription_status \<Rightarrow> int option \<Rightarrow> int option \<Rightarrow> bool \<Rightarrow> int \<Rightarrow> subscription \<Rightarrow> subscription" where
  "follow_event st start end cancel now r = r\<lparr>sb_status := st, sb_currentPeriodStart := start,
     sb_currentPeriodEnd := end, sb_cancelAtPeriodEnd := cancel, sb_updatedAt := now\<rparr>"

definition subscriptionId_for :: "subscription option \<Rightarrow> (db, string) prog" where
  "subscriptionId_for existing =
     (case existing of Some r \<Rightarrow> return (sb_id r) | None \<Rightarrow> new_id ''sub_'')"

text \<open>The commercial terms of a new subscription, from its order's items.\<close>

definition priced_items :: "string \<Rightarrow> db \<Rightarrow> (order_item \<times> price) list" where
  "priced_items orderId s = concat (map (\<lambda>i. map (Pair i) (filter (\<lambda>p. pp_id p = oi_priceId i) (prices s)))
     (items_of orderId s))"

definition snapshotItems :: "string \<Rightarrow> string \<Rightarrow> (db, unit) prog" where
  "snapshotItems subscriptionId orderId =
     bind (gets (priced_items orderId)) (\<lambda>items.
     for_loop (\<lambda>_ (item, price).
       bind (new_id ''subitem_'') (\<lambda>i.
       bind (insert_subscription_item
         \<lparr>st_id = i, st_subscriptionId = subscriptionId, st_productId = oi_productId item,
          st_priceId = oi_priceId item, st_quantity = oi_quantity item, st_unitAmountMinor = oi_unitAmountMinor item,
          st_currency = pp_currency price, st_recurringInterval = pp_recurringInterval price,
          st_trialPeriodDays = pp_trialPeriodDays price\<rparr>) (\<lambda>_. return ()))) () items)"

definition grants_access :: "event_type \<Rightarrow> subscription_status \<Rightarrow> bool" where
  "grants_access ty st \<longleftrightarrow> st = SubActive \<and> ty \<in> {SubscriptionCreated, SubscriptionActivated, SubscriptionRenewed,
     SubscriptionUpdated}"

text \<open>A renewal without its own period start is keyed by the event, not by the stored period.\<close>

definition grant_period_key :: "provider_event \<Rightarrow> int option \<Rightarrow> int \<Rightarrow> string" where
  "grant_period_key event eventPeriodStart periodStart =
     (if ev_type event = SubscriptionRenewed \<and> eventPeriodStart = None
      then ''event:'' @ ev_providerEventId event else toISOString periodStart)"

definition subscription_items_of :: "string \<Rightarrow> db \<Rightarrow> subscription_item list" where
  "subscription_items_of i s = filter (\<lambda>r. st_subscriptionId r = i) (subscriptionItems s)"

definition deliverPeriod ::
    "webhook_context \<Rightarrow> string \<Rightarrow> string \<Rightarrow> int option \<Rightarrow> int option \<Rightarrow> int \<Rightarrow> int \<Rightarrow> (db, unit) prog" where
  "deliverPeriod ctx applicationCustomerId subscriptionId eventPeriodStart eventPeriodEnd periodStart periodEnd =
     (let event = wc_event ctx; key = grant_period_key event eventPeriodStart periodStart in
      bind (gets (subscription_items_of subscriptionId)) (\<lambda>items.
      bind (grantConfiguredEntitlements
        \<lparr>ce_applicationId = wc_applicationId ctx, ce_applicationCustomerId = applicationCustomerId,
         ce_productIds = map st_productId items, ce_sourceType = SubscriptionSource, ce_sourceId = subscriptionId,
         ce_sourceEventId = Some (ev_providerEventId event), ce_validFrom = Some periodStart,
         ce_validUntil = Some (Some periodEnd), ce_periodKey = key, ce_environment = Some (wc_environment ctx)\<rparr>) (\<lambda>_.
      if ev_type event = SubscriptionActivated \<or> ev_type event = SubscriptionRenewed then
        bind (grantConfiguredCreditsInTransaction
          \<lparr>cg_applicationId = wc_applicationId ctx, cg_applicationCustomerId = applicationCustomerId,
           cg_productItems = map (\<lambda>i. (st_productId i, st_quantity i)) items,
           cg_transactionType = GrantSubscription, cg_sourceType = SubscriptionSource,
           cg_sourceId = subscriptionId, cg_periodKey = key, cg_sourceEventId = Some (ev_providerEventId event),
           cg_environment = Some (wc_environment ctx), cg_expiresAt = eventPeriodEnd,
           cg_requireExpiry = (ev_type event = SubscriptionRenewed)\<rparr>) (\<lambda>_. return ())
      else return ())))"

definition endSubscription :: "webhook_context \<Rightarrow> string \<Rightarrow> bool \<Rightarrow> (db, unit) prog" where
  "endSubscription ctx subscriptionId cancelAtPeriodEnd =
     (let ty = ev_type (wc_event ctx) in
      bind (if ty = SubscriptionCancelled \<and> \<not> cancelAtPeriodEnd then
              bind (revokeEntitlementsBySource (wc_applicationId ctx) SubscriptionSource subscriptionId) (\<lambda>_.
              bind (revokeSubscriptionCreditsInTransaction
                \<lparr>vi_applicationId = wc_applicationId ctx, vi_subscriptionId = subscriptionId,
                 vi_environment = Some (wc_environment ctx), vi_reason = Some ReasonCancelled\<rparr>) (\<lambda>_. return ()))
            else return ()) (\<lambda>_.
      if ty = SubscriptionExpired then
        bind (expireEntitlementsBySource (wc_applicationId ctx) subscriptionId) (\<lambda>_. return ())
      else return ()))"

definition applySubscriptionEvent :: "webhook_context \<Rightarrow> (db, unit) prog" where
  "applySubscriptionEvent ctx =
     (let event = wc_event ctx in
      bind (require (InvalidNormalizedCommerceEventError ''Subscription event is missing providerSubscriptionId'')
              (truthy (ev_providerSubscriptionId event))) (\<lambda>providerSubscriptionId.
      bind (gets (find_subscription (wc_applicationId ctx) (wc_providerConnectionId ctx) providerSubscriptionId))
        (\<lambda>existing.
      bind (require (InvalidNormalizedCommerceEventError ''Subscription event cannot be mapped to an application customer'')
              (truthy (or_else (map_option sb_applicationCustomerId existing)
                 (or_else (map_option ac_id (wc_customer ctx)) (map_option od_applicationCustomerId (wc_order ctx))))))
        (\<lambda>applicationCustomerId.
      let st = inferred_status event existing in
      bind (parseEventDate (ev_subscriptionPeriodStart event)) (\<lambda>eventPeriodStart.
      bind (parseEventDate (ev_subscriptionPeriodEnd event)) (\<lambda>eventPeriodEnd.
      let periodStart = or_else eventPeriodStart (Option.bind existing sb_currentPeriodStart);
          periodEnd = or_else eventPeriodEnd (Option.bind existing sb_currentPeriodEnd);
          cancelAtPeriodEnd = (case ev_cancelAtPeriodEnd event of Some b \<Rightarrow> b
            | None \<Rightarrow> (case existing of Some r \<Rightarrow> sb_cancelAtPeriodEnd r | None \<Rightarrow> False))
      in
      bind (subscriptionId_for existing) (\<lambda>i.
      bind now_date (\<lambda>now.
      bind (upsert_subscription
        \<lparr>sb_id = i, sb_applicationId = wc_applicationId ctx, sb_applicationCustomerId = applicationCustomerId,
         sb_providerConnectionId = wc_providerConnectionId ctx, sb_providerSubscriptionId = providerSubscriptionId,
         sb_environment = wc_environment ctx, sb_status = st, sb_currentPeriodStart = periodStart,
         sb_currentPeriodEnd = periodEnd, sb_cancelAtPeriodEnd = cancelAtPeriodEnd, sb_updatedAt = now\<rparr>
        (follow_event st periodStart periodEnd cancelAtPeriodEnd now)) (\<lambda>subscription.
      bind (case wc_order ctx of
              Some order \<Rightarrow> if existing = None then snapshotItems (sb_id subscription) (od_id order) else return ()
            | None \<Rightarrow> return ()) (\<lambda>_.
      bind (if grants_access (ev_type event) st then
              bind (require (InvalidNormalizedCommerceEventError
                       ''Active subscription entitlement requires period boundaries'') periodStart) (\<lambda>a.
              bind (require (InvalidNormalizedCommerceEventError
                       ''Active subscription entitlement requires period boundaries'') periodEnd) (\<lambda>b.
              deliverPeriod ctx applicationCustomerId (sb_id subscription) eventPeriodStart eventPeriodEnd a b))
            else return ()) (\<lambda>_.
      endSubscription ctx (sb_id subscription) cancelAtPeriodEnd)))))))))))"

lemmas webhook_subscription_defs [run_simps] = is_subscription_event_def find_subscription_def inferred_status_def
  follow_event_def subscriptionId_for_def priced_items_def snapshotItems_def grants_access_def grant_period_key_def
  subscription_items_of_def deliverPeriod_def endSubscription_def applySubscriptionEvent_def

end
