(* ===== verification/Webhooks.thy ===== *)
theory Webhooks
  imports WebhookSubscriptions
begin

text \<open>
  The webhook inbox (\<open>src/src/modules/commerce/webhook.ts\<close>). A delivery is normalized by the
  provider's adapter (the argument \<open>adapter\<close>: signature check and translation, which reads
  the database and changes nothing), written to the inbox once per provider event, and applied
  in one transaction; a throw rolls the transaction back, marks the inbox row failed and is
  rethrown, and the provider's redelivery applies it again.
\<close>

record delivery =
  dl_rawBody :: string
  dl_headers :: "(string \<times> string) list"

text \<open>\<open>error.message\<close>: the message a class gives itself or was thrown with; \<open>driver\<close> is the
  text of a database driver's error.\<close>

fun error_message :: "(err \<Rightarrow> string) \<Rightarrow> err \<Rightarrow> string" where
  "error_message driver (Error m) = m"
| "error_message driver (TypeError m) = m"
| "error_message driver CreditCustomerNotFoundError = ''Application customer not found for credits''"
| "error_message driver InsufficientCreditsError = ''Insufficient available credits''"
| "error_message driver CreditIdempotencyConflictError =
     ''Credit idempotency key already represents another mutation''"
| "error_message driver CreditReservationNotFoundError = ''Credit reservation not found''"
| "error_message driver (CreditReservationTerminalStateError m) = m"
| "error_message driver CreditReservationEnvironmentMismatchError =
     ''Credit reservation belongs to a different environment''"
| "error_message driver EntitlementIdempotencyConflictError =
     ''Entitlement idempotency key already represents another grant''"
| "error_message driver EntitlementCustomerNotFoundError =
     ''Application customer not found for entitlement check''"
| "error_message driver UsageMeterNotFoundError = ''Usage meter not found''"
| "error_message driver UsageCustomerNotFoundError = ''Application customer not found for usage''"
| "error_message driver (InvalidUsageEventError m) = m"
| "error_message driver (NoProviderRouteError m) = m"
| "error_message driver (InvalidNormalizedCommerceEventError m) = m"
| "error_message driver CustomerNotFoundError = ''Customer not found''"
| "error_message driver CallbackUrlNotAllowedError = ''Callback URL is not allowed for this application''"
| "error_message driver (InvalidCallbackUrlError m) = m"
| "error_message driver CatalogProductNotFoundError = ''Product not found for application''"
| "error_message driver CommerceCustomerNotFoundError = ''Application customer not found''"
| "error_message driver (CommerceCatalogError m) = m"
| "error_message driver CommerceProviderConnectionError = ''Active provider connection not found''"
| "error_message driver CommerceEnvironmentMismatchError =
     ''Provider connection does not belong to the requested environment''"
| "error_message driver ProviderConnectionNotFoundError = ''Provider connection not found''"
| "error_message driver (ProviderAdapterNotRegisteredError p) = ''Provider adapter is not registered: '' @ p"
| "error_message driver ProviderApplicationMismatchError = ''Provider request application context mismatch''"
| "error_message driver (UnsupportedProviderCapabilityError p c) = ''Provider '' @ p @ '' does not support '' @ c"
| "error_message driver (ProviderOperationError m rejected) = m"
| "error_message driver (ProviderCatalogLookupUnsupportedError p) =
     ''Provider '' @ p @ '' does not support catalog product lookup''"
| "error_message driver (CatalogLinkError m code) = m"
| "error_message driver (CatalogProvisionError m code) = m"
| "error_message driver (TeamServiceError m status code) = m"
| "error_message driver WebhookEndpointNotFoundError = ''Webhook endpoint not found''"
| "error_message driver WebhookDeliveryNotFoundError = ''Webhook delivery not found''"
| "error_message driver e = driver e"

definition eventErrorMessage :: "(err \<Rightarrow> string) \<Rightarrow> err \<Rightarrow> string" where
  "eventErrorMessage driver e = take 1000 (error_message driver e)"

definition get_connection :: "string \<Rightarrow> string \<Rightarrow> db \<Rightarrow> provider_connection option" where
  "get_connection applicationId i s =
     List.find (\<lambda>c. pc_id c = i \<and> pc_applicationId c = applicationId) (providerConnections s)"

text \<open>The durable row of a provider event, and whether this delivery wrote it.\<close>

definition receiveEvent ::
    "string \<Rightarrow> string \<Rightarrow> delivery \<Rightarrow> provider_event \<Rightarrow> environment \<Rightarrow> int \<Rightarrow> (db, string \<times> bool) prog" where
  "receiveEvent applicationId connection input normalized env occurredAt =
     bind (new_id ''wh_'') (\<lambda>i.
     bind (insert_webhook_event
       \<lparr>wh_id = i, wh_applicationId = applicationId, wh_providerConnectionId = connection,
        wh_providerEventId = ev_providerEventId normalized, wh_environment = env,
        wh_providerEventName = ev_providerEventName normalized, wh_normalizedType = ev_type normalized,
        wh_status = WhReceived, wh_rawBody = dl_rawBody input, wh_normalizedEvent = normalized,
        wh_errorMessage = None, wh_occurredAt = occurredAt, wh_processedAt = None\<rparr>) (\<lambda>inserted.
     case inserted of
       Some w \<Rightarrow> return (wh_id w, True)
     | None \<Rightarrow>
         bind (gets (\<lambda>s. List.find (\<lambda>w. wh_providerConnectionId w = connection
                                       \<and> wh_providerEventId w = ev_providerEventId normalized) (webhookEvents s)))
           (\<lambda>stored.
         bind (require (Error ''Failed to persist provider webhook event'') (truthy (map_option wh_id stored))) (\<lambda>w.
         return (w, False)))))"

definition rearm :: "delivery \<Rightarrow> provider_event \<Rightarrow> webhook_event \<Rightarrow> webhook_event" where
  "rearm input normalized w = w\<lparr>wh_rawBody := dl_rawBody input, wh_normalizedEvent := normalized,
     wh_normalizedType := ev_type normalized, wh_providerEventName := ev_providerEventName normalized,
     wh_errorMessage := None\<rparr>"

definition finishEvent :: "string \<Rightarrow> webhook_status \<Rightarrow> (db, unit) prog" where
  "finishEvent eventId st =
     bind now_date (\<lambda>now.
     bind (update_webhook_events (\<lambda>w. wh_id w = eventId) (mark_event st None now)) (\<lambda>_. return ()))"

text \<open>Dispatch: payment events first, which may acknowledge early; then the subscription's.\<close>

definition is_payment_event :: "event_type \<Rightarrow> bool" where
  "is_payment_event ty \<longleftrightarrow> ty \<in> {PaymentSucceeded, PaymentFailed, PaymentRefunded}"

definition afterPayment :: "webhook_context \<Rightarrow> webhook_context \<Rightarrow> (db, webhook_outcome) prog" where
  "afterPayment ctx0 ctx =
     (let event = wc_event ctx0 in
      bind (if is_subscription_event (ev_type event)
               \<or> ev_type event = PaymentFailed \<and> truthy (ev_providerSubscriptionId event) \<noteq> None
            then applySubscriptionEvent ctx else return ()) (\<lambda>_.
      bind (finishEvent (wc_webhookEventId ctx0) WhProcessed) (\<lambda>_.
      return \<lparr>wo_webhookEventId = wc_webhookEventId ctx0, wo_duplicate = False, wo_status = WhProcessed,
              wo_normalizedType = ev_type event\<rparr>)))"

definition dispatchEvent :: "webhook_context \<Rightarrow> (db, webhook_outcome) prog" where
  "dispatchEvent ctx0 =
     bind (if is_payment_event (ev_type (wc_event ctx0)) then applyPaymentEvent ctx0 else return (None, ctx0))
       (\<lambda>(early, ctx).
     case early of Some out \<Rightarrow> return out | None \<Rightarrow> afterPayment ctx0 ctx)"

text \<open>The event as stored, once its inbox row is locked and known to be unsettled.\<close>

definition applyStored ::
    "string \<Rightarrow> string \<Rightarrow> environment \<Rightarrow> int \<Rightarrow> string \<Rightarrow> bool \<Rightarrow> provider_event \<Rightarrow> (db, webhook_outcome) prog" where
  "applyStored applicationId connection env occurredAt eventId inserted event =
     (if ev_type event = UnknownEvent then
        bind (finishEvent eventId WhIgnored) (\<lambda>_.
        return \<lparr>wo_webhookEventId = eventId, wo_duplicate = (\<not> inserted), wo_status = WhIgnored,
                wo_normalizedType = ev_type event\<rparr>)
      else
        bind (resolve_order applicationId event None) (\<lambda>order.
        bind (resolve_customer applicationId event None) (\<lambda>customer.
        dispatchEvent
          \<lparr>wc_applicationId = applicationId, wc_providerConnectionId = connection, wc_environment = env,
           wc_webhookEventId = eventId, wc_event = event, wc_occurredAt = occurredAt, wc_inserted = inserted,
           wc_order = order, wc_customer = customer\<rparr>)))"

definition applyDelivery ::
    "string \<Rightarrow> string \<Rightarrow> delivery \<Rightarrow> provider_event \<Rightarrow> environment \<Rightarrow> int \<Rightarrow> string \<Rightarrow> bool
     \<Rightarrow> (db, webhook_outcome) prog" where
  "applyDelivery applicationId connection input normalized env occurredAt eventId inserted =
     bind (gets (\<lambda>s. List.find (\<lambda>w. wh_id w = eventId) (webhookEvents s))) (\<lambda>found.
     bind (require (Error ''Webhook inbox row disappeared'') found) (\<lambda>locked.
     bind (throw_if (wh_applicationId locked \<noteq> applicationId)
       (InvalidNormalizedCommerceEventError ''Webhook inbox application mismatch'')) (\<lambda>_.
     if wh_status locked = WhProcessed \<or> wh_status locked = WhIgnored then
       return \<lparr>wo_webhookEventId = eventId, wo_duplicate = True, wo_status = wh_status locked,
               wo_normalizedType = wh_normalizedType locked\<rparr>
     else
       bind (if wh_status locked = WhFailed
             then bind (update_webhook_events (\<lambda>w. wh_id w = eventId) (rearm input normalized)) (\<lambda>_. return normalized)
             else return (wh_normalizedEvent locked))
         (applyStored applicationId connection env occurredAt eventId inserted))))"

definition fail_event :: "string \<Rightarrow> webhook_event \<Rightarrow> webhook_event" where
  "fail_event msg w = w\<lparr>wh_status := WhFailed, wh_errorMessage := Some msg\<rparr>"

definition processProviderWebhook ::
    "(string \<Rightarrow> string \<Rightarrow> delivery \<Rightarrow> db \<Rightarrow> err + provider_event) \<Rightarrow> (err \<Rightarrow> string)
     \<Rightarrow> string \<Rightarrow> string \<Rightarrow> delivery \<Rightarrow> (db, webhook_outcome) prog" where
  "processProviderWebhook adapter driver applicationId connection input =
     bind (\<lambda>s. (adapter applicationId connection input s, s)) (\<lambda>normalized.
     bind (throw_if (ev_applicationId normalized \<noteq> applicationId \<or> ev_providerConnectionId normalized \<noteq> connection)
       (InvalidNormalizedCommerceEventError ''Normalized provider event context mismatch'')) (\<lambda>_.
     bind (gets (get_connection applicationId connection)) (\<lambda>found.
     bind (require (Error ''Active provider connection not found'') found) (\<lambda>providerConnection.
     bind (parseEventDate (Some (ev_occurredAt normalized))) (\<lambda>parsed.
     bind (require (InvalidNormalizedCommerceEventError ''Provider event occurrence time is required'') parsed)
       (\<lambda>occurredAt.
     bind (receiveEvent applicationId connection input normalized (pc_mode providerConnection) occurredAt)
       (\<lambda>(eventId, inserted).
     try_catch
       (transaction (applyDelivery applicationId connection input normalized (pc_mode providerConnection) occurredAt
          eventId inserted))
       (\<lambda>e. bind (update_webhook_events (\<lambda>w. wh_id w = eventId) (fail_event (eventErrorMessage driver e)))
              (\<lambda>_. throw e)))))))))"

lemmas webhook_defs [run_simps] = eventErrorMessage_def get_connection_def receiveEvent_def rearm_def finishEvent_def
  is_payment_event_def afterPayment_def dispatchEvent_def applyStored_def applyDelivery_def fail_event_def processProviderWebhook_def

end
