(* ===== verification/WebhookFrames.thy ===== *)
theory WebhookFrames
  imports Webhooks CreditFrames EntitlementFacts
begin

text \<open>
  Frames of the webhook handlers. The locale \<open>webhook_frame\<close> composes a frame along every
  statement but the payment row's, for the deliveries of one inbox row; \<open>payment_frame\<close> adds
  that one. They are interpreted for: the payments are untouched by everything but
  \<open>persistPayment\<close>; the orders only move along the allowed transitions; the inbox rows of
  other events are untouched and stored rows keep their identity.
\<close>

locale webhook_frame = credit_frame R + ent: entitlement_frame R
  for R :: "db \<Rightarrow> db \<Rightarrow> bool" and eventId :: string +
  assumes moves_order: "honours R (update_orders (\<lambda>r. od_id r = i \<and> od_applicationId r = app
      \<and> od_status r \<in> set (allowed_sources next)) (set_order_status next now))"
    and sessions: "honours R (update_checkout_sessions P (set_session_status st now))"
    and supersedes: "honours R (update_refunds Q (supersede now))"
    and confirms: "honours R (upsert_refund r (confirm_refund n now))"
    and follows: "honours R (upsert_subscription u (follow_event sst a b c now))"
    and new_item: "honours R (insert_subscription_item it)"
    and own_event: "honours R (update_webhook_events (\<lambda>w. wh_id w = eventId) (mark_event wst msg now))"
begin

lemma dates [simp]: "honours R (parseEventDate v)"
  by (simp add: parseEventDate_def split: option.split)

lemma ignore [simp]: "wc_webhookEventId ctx = eventId \<Longrightarrow> honours R (ignoreEvent ctx msg)"
  unfolding ignoreEvent_def by (intro bind) (simp_all add: own_event)

lemma guards [simp]:
  "honours R (resolve_order app e x)" "honours R (resolve_customer app e y)" "honours R (checkPaymentAmount e)"
  "honours R (checkBindings e p)" "honours R (recordedOrder app p x)" "honours R (checkCurrency e x p)"
  "honours R (paymentAmount e x p)" "honours R (checkRefundAmount e)"
  by (auto simp: resolve_order_def resolve_customer_def checkPaymentAmount_def checkBindings_def recordedOrder_def
      checkCurrency_def paymentAmount_def checkRefundAmount_def Let_def intro!: bind split: option.split)

lemma planRefund [simp]: "wc_webhookEventId ctx = eventId \<Longrightarrow> honours R (planRefund ctx existing n)"
  unfolding planRefund_def planUnsettled_def recordedFact_def supersedeSynthetic_def Let_def
  by (auto intro!: bind supersedes split: option.split)

lemma moveOrder [simp]: "honours R (moveOrder app x next)"
  unfolding moveOrder_def by (auto intro!: bind moves_order)

lemma deliverOrder [simp]: "honours R (deliverOrder ctx x)"
  unfolding deliverOrder_def by (intro bind) (simp_all add: grantConfigured)

lemma applyOrder [simp]: "honours R (applyOrder ctx x plan)"
  unfolding applyOrder_def Let_def by (auto intro!: bind sessions)

lemma recordRefund [simp]: "honours R (recordRefund ctx p plan)"
  unfolding recordRefund_def Let_def by (auto intro!: bind confirms split: option.split)

lemma snapshotItems [simp]: "honours R (snapshotItems i x)"
  unfolding snapshotItems_def by (auto intro!: compose new_item)

lemma deliverPeriod [simp]: "honours R (deliverPeriod ctx cust i a b c d)"
  unfolding deliverPeriod_def Let_def by (auto intro!: bind grantConfigured)

lemma endSubscription [simp]: "honours R (endSubscription ctx i c)"
  unfolding endSubscription_def Let_def by (auto intro!: bind)

lemma applySubscriptionEvent [simp]: "honours R (applySubscriptionEvent ctx)"
  unfolding applySubscriptionEvent_def subscriptionId_for_def Let_def
  by (auto intro!: bind follows split: option.split)

lemma finishEvent [intro!]: "i = eventId \<Longrightarrow> honours R (finishEvent i st)"
  unfolding finishEvent_def by (auto intro!: bind own_event)

lemma afterPayment [simp]: "wc_webhookEventId ctx = eventId \<Longrightarrow> honours R (afterPayment ctx ctx')"
  unfolding afterPayment_def Let_def by (auto intro!: bind)

end

locale payment_frame = webhook_frame R eventId for R :: "db \<Rightarrow> db \<Rightarrow> bool" and eventId +
  assumes settles: "honours R (upsert_payment p (settle_payment pst p now))"
begin

lemma applyPlanned [simp]: "wc_webhookEventId ctx = eventId \<Longrightarrow> honours R (applyPlanned ctx pid existing n c plan)"
  unfolding applyPlanned_def persistPayment_def Let_def by (auto intro!: bind settles split: option.split)

lemma applyResolved [simp]: "wc_webhookEventId ctx = eventId \<Longrightarrow> honours R (applyResolved ctx pid existing n c)"
  unfolding applyResolved_def by (auto intro!: bind split: refund_decision.split)

lemma applyPaymentEvent [simp]: "wc_webhookEventId ctx = eventId \<Longrightarrow> honours R (applyPaymentEvent ctx)"
  unfolding applyPaymentEvent_def Let_def by (auto intro!: bind)

lemma dispatchEvent [simp]: "wc_webhookEventId ctx = eventId \<Longrightarrow> honours R (dispatchEvent ctx)"
  unfolding dispatchEvent_def by (auto intro!: bind split: option.split)

lemma applyStored [simp]: "i = eventId \<Longrightarrow> honours R (applyStored app conn env d i fresh ev)"
  unfolding applyStored_def by (auto intro!: bind)

end

subsection \<open>Only \<open>persistPayment\<close> writes payments\<close>

lemma upsert_row_kept:
  assumes "\<And>s. R s (up (\<lambda>rs. rs @ [r]) s)" and "\<And>s. R s (up (update_where (target r) f) s)" and "\<And>s. R s s"
  shows "honours R (upsert_row table fits check target clash fk rows up r f)"
  using assms by (auto simp: honours_def upsert_row_def split: option.splits)

definition same_payments :: "db \<Rightarrow> db \<Rightarrow> bool" where
  "same_payments s t \<longleftrightarrow> payments t = payments s"

lemma same_payments_credit: "honours same_payments (insert_account a)" "honours same_payments (insert_transaction t)"
  "honours same_payments (insert_bucket b)" "honours same_payments (update_accounts P f)"
  "honours same_payments (update_transactions Q g)" "honours same_payments (update_buckets U k)"
  unfolding credit_table_defs
  by (rule insert_or_ignore_kept insert_row_kept update_rows_kept, simp_all add: same_payments_def)+

lemma same_payments_entitlements: "honours same_payments (insert_entitlement g)"
  "honours same_payments (update_entitlements P f)"
  unfolding entitlement_table_defs by (rule insert_or_ignore_kept update_rows_kept, simp_all add: same_payments_def)+

lemma same_payments_commerce: "honours same_payments (update_orders P f)"
  "honours same_payments (update_checkout_sessions Q g)" "honours same_payments (update_refunds U h)"
  "honours same_payments (upsert_refund r k)" "honours same_payments (upsert_subscription u m)"
  "honours same_payments (insert_subscription_item i)" "honours same_payments (update_webhook_events W n)"
  unfolding commerce_table_defs
  by (rule insert_or_ignore_kept update_rows_kept upsert_row_kept, simp_all add: same_payments_def)+

interpretation unpaid: webhook_frame same_payments eventId for eventId
  by unfold_locales
    (simp_all add: same_payments_credit same_payments_entitlements same_payments_commerce, simp_all add: same_payments_def)

subsection \<open>Orders move along the allowed transitions\<close>

fun order_moves :: "order_status \<Rightarrow> order_status \<Rightarrow> bool" where
  "order_moves OrdPending b = True"
| "order_moves OrdFailed b = (b \<noteq> OrdPending)"
| "order_moves OrdPaid b = (b = OrdPaid \<or> b = OrdRefunded)"
| "order_moves OrdRefunded b = (b = OrdRefunded)"

lemma order_moves_refl [simp]: "order_moves a a"
  by (cases a) simp_all

lemma order_moves_trans: "order_moves a b \<Longrightarrow> order_moves b c \<Longrightarrow> order_moves a c"
  by (cases a; cases b; cases c) simp_all

lemma allowed_moves: "a \<in> set (allowed_sources b) \<Longrightarrow> order_moves a b"
  by (cases b) auto

definition same_order :: "commerce_order \<Rightarrow> commerce_order \<Rightarrow> bool" where
  "same_order r q \<longleftrightarrow> q = r\<lparr>od_status := od_status q, od_updatedAt := od_updatedAt q\<rparr>
     \<and> order_moves (od_status r) (od_status q)"

lemma same_order_refl [simp]: "same_order r r"
  by (simp add: same_order_def)

lemma same_order_trans: "same_order r q \<Longrightarrow> same_order q p \<Longrightarrow> same_order r p"
  by (cases r; cases q; cases p) (auto simp: same_order_def intro: order_moves_trans)

definition orders_kept :: "db \<Rightarrow> db \<Rightarrow> bool" where
  "orders_kept s t \<longleftrightarrow> table_kept same_order (orders s) (orders t)"

lemma orders_kept_refl [simp]: "orders_kept s s"
  by (simp add: orders_kept_def table_kept_refl)

lemma orders_kept_eq: "orders t = orders s \<Longrightarrow> orders_kept s t"
  by (simp add: orders_kept_def table_kept_refl)

lemma orders_kept_credit: "honours orders_kept (insert_account a)" "honours orders_kept (insert_transaction t)"
  "honours orders_kept (insert_bucket b)" "honours orders_kept (update_accounts P f)"
  "honours orders_kept (update_transactions Q g)" "honours orders_kept (update_buckets U k)"
  unfolding credit_table_defs
  by (rule insert_or_ignore_kept insert_row_kept update_rows_kept, simp_all add: orders_kept_eq)+

lemma orders_kept_entitlements: "honours orders_kept (insert_entitlement g)" "honours orders_kept (update_entitlements P f)"
  unfolding entitlement_table_defs by (rule insert_or_ignore_kept update_rows_kept, simp_all add: orders_kept_eq)+

lemma orders_kept_commerce: "honours orders_kept (update_checkout_sessions Q g)" "honours orders_kept (update_refunds U h)"
  "honours orders_kept (upsert_refund r k)" "honours orders_kept (upsert_subscription u m)"
  "honours orders_kept (upsert_payment p l)"
  "honours orders_kept (insert_subscription_item i)" "honours orders_kept (update_webhook_events W n)"
  "honours orders_kept (insert_webhook_event w)"
  unfolding commerce_table_defs
  by (rule insert_or_ignore_kept update_rows_kept upsert_row_kept, simp_all add: orders_kept_eq)+

lemma orders_kept_move: "honours orders_kept (update_orders (\<lambda>r. od_id r = i \<and> od_applicationId r = app
    \<and> od_status r \<in> set (allowed_sources next)) (set_order_status next now))"
  unfolding update_orders_def
  by (rule update_rows_kept)
    (auto simp: orders_kept_def set_order_status_def same_order_def allowed_moves table_kept_refl
      intro!: table_kept_update_where)

interpretation ordered: payment_frame orders_kept eventId for eventId
  by unfold_locales
    (simp_all add: orders_kept_credit orders_kept_entitlements orders_kept_commerce orders_kept_move orders_kept_eq,
     auto simp: orders_kept_def intro: table_kept_trans same_order_trans)

subsection \<open>Inbox rows of other events\<close>

definition same_event :: "webhook_event \<Rightarrow> webhook_event \<Rightarrow> bool" where
  "same_event w x \<longleftrightarrow> wh_id x = wh_id w \<and> wh_applicationId x = wh_applicationId w
     \<and> wh_providerConnectionId x = wh_providerConnectionId w \<and> wh_providerEventId x = wh_providerEventId w"

definition inbox_kept :: "string \<Rightarrow> db \<Rightarrow> db \<Rightarrow> bool" where
  "inbox_kept e s t \<longleftrightarrow> list_all2 (\<lambda>w x. same_event w x \<and> (wh_id w \<noteq> e \<longrightarrow> x = w)) (webhookEvents s) (webhookEvents t)
     \<and> providerConnections t = providerConnections s"

lemma inbox_kept_refl [simp]: "inbox_kept e s s"
  by (simp add: inbox_kept_def list_all2_same same_event_def)

lemma inbox_kept_trans: "inbox_kept e s t \<Longrightarrow> inbox_kept e t u \<Longrightarrow> inbox_kept e s u"
  unfolding inbox_kept_def by (elim conjE, intro conjI, erule (1) list_all2_trans [rotated]) (auto simp: same_event_def)

lemma inbox_kept_eq:
  "webhookEvents t = webhookEvents s \<Longrightarrow> providerConnections t = providerConnections s \<Longrightarrow> inbox_kept e s t"
  by (simp add: inbox_kept_def list_all2_same same_event_def)

lemma inbox_kept_credit: "honours (inbox_kept e) (insert_account a)" "honours (inbox_kept e) (insert_transaction t)"
  "honours (inbox_kept e) (insert_bucket b)" "honours (inbox_kept e) (update_accounts P f)"
  "honours (inbox_kept e) (update_transactions Q g)" "honours (inbox_kept e) (update_buckets U k)"
  unfolding credit_table_defs
  by (rule insert_or_ignore_kept insert_row_kept update_rows_kept, simp_all add: inbox_kept_eq)+

lemma inbox_kept_entitlements: "honours (inbox_kept e) (insert_entitlement g)"
  "honours (inbox_kept e) (update_entitlements P f)"
  unfolding entitlement_table_defs by (rule insert_or_ignore_kept update_rows_kept, simp_all add: inbox_kept_eq)+

lemma inbox_kept_commerce: "honours (inbox_kept e) (update_checkout_sessions Q g)"
  "honours (inbox_kept e) (update_refunds U h)" "honours (inbox_kept e) (update_orders P f)"
  "honours (inbox_kept e) (upsert_refund r k)" "honours (inbox_kept e) (upsert_subscription u m)"
  "honours (inbox_kept e) (upsert_payment p l)" "honours (inbox_kept e) (insert_subscription_item i)"
  unfolding commerce_table_defs
  by (rule insert_or_ignore_kept update_rows_kept upsert_row_kept, simp_all add: inbox_kept_eq)+

lemma inbox_kept_own:
  "(\<And>w. same_event w (f w)) \<Longrightarrow> honours (inbox_kept e) (update_webhook_events (\<lambda>w. wh_id w = e) f)"
  unfolding update_webhook_events_def
  by (rule update_rows_kept)
    (auto simp: inbox_kept_def update_where_def list_all2_map2 list_all2_same same_event_def)

lemma own_updates [simp]: "same_event w (mark_event st msg now w)" "same_event w (rearm inp ev w)"
  "same_event w (fail_event m w)"
  by (simp_all add: same_event_def mark_event_def rearm_def fail_event_def)

interpretation inbox: payment_frame "inbox_kept eventId" eventId for eventId
  by unfold_locales
    (simp_all add: inbox_kept_credit inbox_kept_entitlements inbox_kept_commerce inbox_kept_own inbox_kept_eq,
     rule inbox_kept_trans)

end
