(* ===== verification/WebhookFacts.thy ===== *)
theory WebhookFacts
  imports WebhookFrames
begin

text \<open>
  What the webhook handlers do: the steps of a payment event that is applied, how it may
  change a stored payment, the inbox around a delivery, and the state machine of deliveries
  with its invariant (one payment per provider payment, one inbox row per provider event, and
  each inbox row belongs to the application of its connection).
\<close>

subsection \<open>An applied payment event\<close>

text \<open>The plan of a refund event, and the state it is made in.\<close>

definition decided ::
    "webhook_context \<Rightarrow> payment option \<Rightarrow> int \<Rightarrow> db \<Rightarrow> refund_plan option \<Rightarrow> db \<Rightarrow> bool" where
  "decided ctx existing amount s plan s1 \<longleftrightarrow>
     (if ev_type (wc_event ctx) = PaymentRefunded
      then \<exists>p. plan = Some p \<and> planRefund ctx existing amount s = (Inr (RefundPlanned p), s1)
      else plan = None \<and> s1 = s)"

definition recorded :: "webhook_context \<Rightarrow> payment \<Rightarrow> refund_plan option \<Rightarrow> db \<Rightarrow> db \<Rightarrow> bool" where
  "recorded ctx p plan s s' \<longleftrightarrow> (case plan of None \<Rightarrow> s' = s | Some x \<Rightarrow> recordRefund ctx p x s = (Inr (), s'))"

definition moved :: "webhook_context \<Rightarrow> refund_plan option \<Rightarrow> db \<Rightarrow> db \<Rightarrow> bool" where
  "moved ctx plan s s' \<longleftrightarrow> (case wc_order ctx of None \<Rightarrow> s' = s | Some x \<Rightarrow> applyOrder ctx x plan s = (Inr (), s'))"

definition pure_run :: "('s, 'a) prog \<Rightarrow> 's \<Rightarrow> 'a \<Rightarrow> bool" where
  "pure_run m s x \<longleftrightarrow> m s = (Inr x, s)"

lemma guards_pure:
  "resolve_order a e x s = (Inr y, t) \<longleftrightarrow> t = s \<and> pure_run (resolve_order a e x) s y"
  "resolve_customer a e c s = (Inr d, t) \<longleftrightarrow> t = s \<and> pure_run (resolve_customer a e c) s d"
  "checkBindings e p s = (Inr u, t) \<longleftrightarrow> t = s \<and> pure_run (checkBindings e p) s u"
  "recordedOrder a p x s = (Inr y, t) \<longleftrightarrow> t = s \<and> pure_run (recordedOrder a p x) s y"
  "checkCurrency e x p s = (Inr u, t) \<longleftrightarrow> t = s \<and> pure_run (checkCurrency e x p) s u"
  "paymentAmount e x p s = (Inr z, t) \<longleftrightarrow> t = s \<and> pure_run (paymentAmount e x p) s z"
  "checkPaymentAmount e s = (Inr u, t) \<longleftrightarrow> t = s \<and> pure_run (checkPaymentAmount e) s u"
  by (auto simp: pure_run_def resolve_order_def resolve_customer_def checkBindings_def recordedOrder_def
      checkCurrency_def paymentAmount_def checkPaymentAmount_def Let_def bind_def throw_if_def split: option.splits)

lemma payment_run:
  assumes run: "applyPaymentEvent ctx s = (Inr (early, ctx'), s')"
  obtains pid order1 customer order amount cur where
    "truthy (ev_providerPaymentId (wc_event ctx)) = Some pid"
    and "pure_run (checkPaymentAmount (wc_event ctx)) s ()"
    and "pure_run (resolve_order (wc_applicationId ctx) (wc_event ctx) (wc_order ctx)) s order1"
    and "pure_run (resolve_customer (wc_applicationId ctx) (wc_event ctx) (wc_customer ctx)) s customer"
    and "pure_run (checkBindings (wc_event ctx) (find_payment (wc_providerConnectionId ctx) pid s)) s ()"
    and "pure_run (recordedOrder (wc_applicationId ctx) (find_payment (wc_providerConnectionId ctx) pid s) order1) s order"
    and "pure_run (checkCurrency (wc_event ctx) order (find_payment (wc_providerConnectionId ctx) pid s)) s ()"
    and "pure_run (paymentAmount (wc_event ctx) order (find_payment (wc_providerConnectionId ctx) pid s)) s (amount, cur)"
    and "applyResolved (ctx\<lparr>wc_order := order, wc_customer := customer\<rparr>) pid
      (find_payment (wc_providerConnectionId ctx) pid s) amount cur s = (Inr (early, ctx'), s')"
  using run by (auto simp: applyPaymentEvent_def Let_def bind_eq_Inr guards_pure)

lemma resolved_run:
  assumes "applyResolved ctx pid existing amount cur s = (Inr (early, ctx'), s')"
  shows "ctx' = ctx"
    and "(\<exists>out. early = Some out \<and> ev_type (wc_event ctx) = PaymentRefunded
            \<and> planRefund ctx existing amount s = (Inr (RefundAcknowledged out), s'))
       \<or> (\<exists>plan s1. decided ctx existing amount s plan s1
            \<and> applyPlanned ctx pid existing amount cur plan s1 = (Inr (early, ctx), s'))"
proof -
  have planned: "applyPlanned ctx pid existing amount cur plan s = (Inr (e, c'), t) \<Longrightarrow> c' = ctx" for plan s e c' t
    by (auto simp: applyPlanned_def Let_def elim!: bind_InrE split: option.splits)
  show "ctx' = ctx"
    using assms planned by (auto simp: applyResolved_def elim!: bind_InrE split: if_splits refund_decision.splits)
  then show "(\<exists>out. early = Some out \<and> ev_type (wc_event ctx) = PaymentRefunded
            \<and> planRefund ctx existing amount s = (Inr (RefundAcknowledged out), s'))
       \<or> (\<exists>plan s1. decided ctx existing amount s plan s1
            \<and> applyPlanned ctx pid existing amount cur plan s1 = (Inr (early, ctx), s'))"
    using assms by (auto simp: applyResolved_def decided_def elim!: bind_InrE split: if_splits refund_decision.splits)
qed

lemma planned_run:
  assumes "applyPlanned ctx pid existing amount cur plan s = (Inr (None, ctx'), s')"
  obtains p s1 s2 where "settled_message (ev_type (wc_event ctx)) (wc_order ctx) existing = None"
    and "persistPayment ctx pid (next_payment_status (ev_type (wc_event ctx)) existing plan) amount cur s = (Inr p, s1)"
    and "moved ctx plan s1 s2" and "recorded ctx p plan s2 s'"
proof -
  have none: "settled_message (ev_type (wc_event ctx)) (wc_order ctx) existing = None"
    using assms by (auto simp: applyPlanned_def Let_def bind_eq_Inr split: option.splits)
  obtain p s1 s2 where p: "persistPayment ctx pid (next_payment_status (ev_type (wc_event ctx)) existing plan) amount cur s
      = (Inr p, s1)"
    and m: "(case wc_order ctx of None \<Rightarrow> return () | Some order \<Rightarrow> applyOrder ctx order plan) s1 = (Inr (), s2)"
    and r: "(case plan of None \<Rightarrow> return () | Some x \<Rightarrow> recordRefund ctx p x) s2 = (Inr (), s')"
    using assms none by (auto simp: applyPlanned_def Let_def bind_eq_Inr)
  from m have "moved ctx plan s1 s2" by (auto simp: moved_def split: option.splits)
  moreover from r have "recorded ctx p plan s2 s'" by (auto simp: recorded_def split: option.splits)
  ultimately show ?thesis using that none p by blast
qed

subsection \<open>What happens to the payments\<close>

lemma decided_unpaid: "decided ctx existing amount s plan s1 \<Longrightarrow> payments s1 = payments s"
  using honoursD [OF unpaid.planRefund [OF refl]]
  by (fastforce simp: decided_def same_payments_def split: if_splits)

lemma moved_unpaid: "moved ctx plan s s' \<Longrightarrow> payments s' = payments s"
  using honoursD [OF unpaid.applyOrder] by (fastforce simp: moved_def same_payments_def split: option.splits)

lemma recorded_unpaid: "recorded ctx p plan s s' \<Longrightarrow> payments s' = payments s"
  using honoursD [OF unpaid.recordRefund] by (fastforce simp: recorded_def same_payments_def split: option.splits)

lemma same_provider_payment_is:
  "same_provider_payment r = (\<lambda>q. py_providerConnectionId q = py_providerConnectionId r
     \<and> py_providerPaymentId q = py_providerPaymentId r)"
  by (auto simp: same_provider_payment_def fun_eq_iff)

lemma persisted:
  assumes "persistPayment ctx pid st amount cur s = (Inr p, s')"
  obtains row now where "py_status row = st" "py_orderId row = map_option od_id (wc_order ctx)"
    and "py_customerId row = map_option ac_customerId (wc_customer ctx)" "py_amountMinor row = amount" "py_currency row = cur"
    and "py_providerConnectionId row = wc_providerConnectionId ctx" "py_providerPaymentId row = pid"
    and "py_applicationId row = wc_applicationId ctx" "0 \<le> amount"
    and "case find_payment (wc_providerConnectionId ctx) pid s of
        None \<Rightarrow> p = row \<and> s' = s\<lparr>uuids := Suc (uuids s), payments := payments s @ [row]\<rparr>
      | Some q \<Rightarrow> p = settle_payment st row now q
          \<and> s' = s\<lparr>uuids := Suc (uuids s), payments := update_where (same_provider_payment row) (settle_payment st row now) (payments s)\<rparr>"
proof -
  let ?row = "\<lparr>py_id = ''pay_'' @ string_of_nat (uuids s), py_applicationId = wc_applicationId ctx,
    py_orderId = map_option od_id (wc_order ctx), py_customerId = map_option ac_customerId (wc_customer ctx),
    py_providerConnectionId = wc_providerConnectionId ctx, py_providerPaymentId = pid,
    py_environment = wc_environment ctx, py_status = st, py_amountMinor = amount, py_currency = cur,
    py_updatedAt = clock s\<rparr>"
  show ?thesis
    by (rule that [of ?row "clock s"])
      (use assms in \<open>auto simp: persistPayment_def bind_eq_Inr Let_def upsert_payment_def upsert_row_eq_Inr
        find_payment_def same_provider_payment_is payment_check_def split: option.splits\<close>)
qed

lemma applied_payment:
  assumes run: "applyPaymentEvent ctx s = (Inr (None, ctx'), s')"
  obtains pid order1 plan row now where
    "truthy (ev_providerPaymentId (wc_event ctx)) = Some pid"
    and "pure_run (resolve_order (wc_applicationId ctx) (wc_event ctx) (wc_order ctx)) s order1"
    and "pure_run (resolve_customer (wc_applicationId ctx) (wc_event ctx) (wc_customer ctx)) s (wc_customer ctx')"
    and "pure_run (checkBindings (wc_event ctx) (find_payment (wc_providerConnectionId ctx) pid s)) s ()"
    and "pure_run (recordedOrder (wc_applicationId ctx) (find_payment (wc_providerConnectionId ctx) pid s) order1) s (wc_order ctx')"
    and "settled_message (ev_type (wc_event ctx)) (wc_order ctx') (find_payment (wc_providerConnectionId ctx) pid s) = None"
    and "py_status row = next_payment_status (ev_type (wc_event ctx)) (find_payment (wc_providerConnectionId ctx) pid s) plan"
    and "py_orderId row = map_option od_id (wc_order ctx')" "py_customerId row = map_option ac_customerId (wc_customer ctx')"
    and "py_providerConnectionId row = wc_providerConnectionId ctx" "py_providerPaymentId row = pid"
    and "payments s' = (if find_payment (wc_providerConnectionId ctx) pid s = None then payments s @ [row]
      else update_where (same_provider_payment row) (settle_payment (py_status row) row now) (payments s))"
  using run
proof (rule payment_run)
  fix pid order1 customer order amount cur
  let ?ex = "find_payment (wc_providerConnectionId ctx) pid s" and ?c = "ctx\<lparr>wc_order := order, wc_customer := customer\<rparr>"
  assume pid: "truthy (ev_providerPaymentId (wc_event ctx)) = Some pid"
    and order1: "pure_run (resolve_order (wc_applicationId ctx) (wc_event ctx) (wc_order ctx)) s order1"
    and customer: "pure_run (resolve_customer (wc_applicationId ctx) (wc_event ctx) (wc_customer ctx)) s customer"
    and bound: "pure_run (checkBindings (wc_event ctx) ?ex) s ()"
    and order: "pure_run (recordedOrder (wc_applicationId ctx) ?ex order1) s order"
    and app: "applyResolved ?c pid ?ex amount cur s = (Inr (None, ctx'), s')"
  have c: "ctx' = ?c" by (rule resolved_run(1) [OF app])
  obtain plan s1 where d: "decided ?c ?ex amount s plan s1"
    and ap: "applyPlanned ?c pid ?ex amount cur plan s1 = (Inr (None, ?c), s')"
    using resolved_run(2) [OF app] by auto
  from ap show thesis
  proof (rule planned_run)
    fix p s2 s3
    assume none: "settled_message (ev_type (wc_event ?c)) (wc_order ?c) ?ex = None"
      and pers: "persistPayment ?c pid (next_payment_status (ev_type (wc_event ?c)) ?ex plan) amount cur s1 = (Inr p, s2)"
      and m: "moved ?c plan s2 s3" and r: "recorded ?c p plan s3 s'"
    have ex1: "find_payment (wc_providerConnectionId ctx) pid s1 = ?ex"
      using decided_unpaid [OF d] by (simp add: find_payment_def)
    from pers show thesis
    proof (rule persisted, goal_cases)
      case (1 row now)
      show ?case
        by (rule that [of pid order1 row plan now])
          (use 1 pid order1 bound customer order none c ex1 decided_unpaid [OF d] moved_unpaid [OF m] recorded_unpaid [OF r]
            in \<open>auto split: option.splits\<close>)
    qed
  qed
qed

text \<open>A stored payment: its identity, amount and currency are immutable, its bindings are set
  once, and its status only moves forward; \<open>refunded\<close> is terminal.\<close>

fun payment_moves :: "payment_status \<Rightarrow> payment_status \<Rightarrow> bool" where
  "payment_moves PayPending b = True"
| "payment_moves PayFailed b = (b \<noteq> PayPending)"
| "payment_moves PaySucceeded b = (b = PaySucceeded \<or> b = PayRefunded)"
| "payment_moves PayRefunded b = (b = PayRefunded)"

lemma payment_moves_refl [simp]: "payment_moves a a"
  by (cases a) simp_all

lemma payment_moves_trans: "payment_moves a b \<Longrightarrow> payment_moves b c \<Longrightarrow> payment_moves a c"
  by (cases a; cases b; cases c) simp_all

definition same_payment :: "payment \<Rightarrow> payment \<Rightarrow> bool" where
  "same_payment p q \<longleftrightarrow> q = p\<lparr>py_status := py_status q, py_orderId := py_orderId q, py_customerId := py_customerId q,
       py_updatedAt := py_updatedAt q\<rparr>
     \<and> payment_moves (py_status p) (py_status q)
     \<and> (truthy (py_orderId p) \<noteq> None \<longrightarrow> py_orderId q = py_orderId p)
     \<and> (truthy (py_customerId p) \<noteq> None \<longrightarrow> py_customerId q = py_customerId p)"

lemma same_payment_refl [simp]: "same_payment p p"
  by (simp add: same_payment_def)

lemma same_payment_trans: "same_payment p q \<Longrightarrow> same_payment q r \<Longrightarrow> same_payment p r"
  unfolding same_payment_def
  by (cases p; cases q; cases r) (auto intro: payment_moves_trans)

lemma next_payment_moves:
  "settled_message ty order (Some p) = None \<Longrightarrow> payment_moves (py_status p) (next_payment_status ty (Some p) plan)"
  by (cases "py_status p") (auto simp: settled_message_def next_payment_status_def Let_def split: if_splits)

definition payment_slot :: "payment \<Rightarrow> string \<times> string" where
  "payment_slot p = (py_providerConnectionId p, py_providerPaymentId p)"

definition payments_ok :: "db \<Rightarrow> bool" where
  "payments_ok s \<longleftrightarrow> distinct (map payment_slot (payments s))"

definition payments_kept :: "db \<Rightarrow> db \<Rightarrow> bool" where
  "payments_kept s t \<longleftrightarrow> table_kept same_payment (payments s) (payments t)"

lemma payments_kept_eq: "payments t = payments s \<Longrightarrow> payments_kept s t"
  by (simp add: payments_kept_def table_kept_refl)

lemma payments_kept_trans: "payments_kept s t \<Longrightarrow> payments_kept t u \<Longrightarrow> payments_kept s u"
  unfolding payments_kept_def by (rule table_kept_trans [OF same_payment_trans])

lemma truthy_Some: "truthy x = Some a \<longleftrightarrow> x = Some a \<and> a \<noteq> []"
  by (auto simp: truthy_def split: option.splits)

lemma truthy_None: "truthy x = None \<longleftrightarrow> x = None \<or> x = Some []"
  by (auto simp: truthy_def split: option.splits)

lemma find_order_id: "find_order app i s = Some r \<Longrightarrow> od_id r = i \<and> r \<in> set (orders s) \<and> od_applicationId r = app"
  by (auto simp: find_order_def dest: find_SomeD)

lemma find_mapped_customer_id: "find_mapped_customer app i s = Some c \<Longrightarrow> ac_customerId c = i"
  by (auto simp: find_mapped_customer_def dest: find_SomeD)

text \<open>The order an event settles is the one it names, or else the one the payment is bound to.\<close>

lemma bound_order:
  assumes pre: "pure_run (resolve_order app ev None) s order0" and res: "pure_run (resolve_order app ev order0) s order1"
    and chk: "pure_run (checkBindings ev (Some p)) s ()" and rec: "pure_run (recordedOrder app (Some p) order1) s order"
    and bound: "truthy (py_orderId p) = Some a"
  shows "order = None \<or> map_option od_id order = Some a"
proof (cases "truthy (ev_monetplaneOrderId ev)")
  case None
  then have "order1 = None" using pre res by (simp add: pure_run_def resolve_order_def)
  then show ?thesis using rec bound by (cases order) (auto simp: pure_run_def recordedOrder_def dest: find_order_id)
next
  case (Some i)
  then have "i = a" using chk bound by (auto simp: pure_run_def checkBindings_def bind_eq_Inr conflicting_def)
  moreover have "order1 = None \<or> map_option od_id order1 = Some i"
    using res Some by (cases order1) (auto simp: pure_run_def resolve_order_def dest: find_order_id)
  ultimately show ?thesis
    using rec bound by (cases order) (auto simp: pure_run_def recordedOrder_def dest: find_order_id split: option.splits)
qed

lemma bound_customer:
  assumes pre: "pure_run (resolve_customer app ev None) s c0" and res: "pure_run (resolve_customer app ev c0) s c"
    and chk: "pure_run (checkBindings ev (Some p)) s ()" and bound: "truthy (py_customerId p) = Some a"
  shows "c = None \<or> map_option ac_customerId c = Some a"
proof (cases "truthy (ev_monetplaneCustomerId ev)")
  case None
  then show ?thesis using pre res by (simp add: pure_run_def resolve_customer_def)
next
  case (Some i)
  then have "i = a" using chk bound by (auto simp: pure_run_def checkBindings_def bind_eq_Inr conflicting_def)
  then show ?thesis
    using res Some by (cases c) (auto simp: pure_run_def resolve_customer_def dest: find_mapped_customer_id)
qed

lemma settled_row_same:
  assumes st: "payment_moves (py_status p) st"
    and o: "\<And>a. truthy (py_orderId p) = Some a \<Longrightarrow> py_orderId row = None \<or> py_orderId row = Some a"
    and c: "\<And>a. truthy (py_customerId p) = Some a \<Longrightarrow> py_customerId row = None \<or> py_customerId row = Some a"
  shows "same_payment p (settle_payment st row now p)"
proof -
  have "or_else (py_orderId row) (py_orderId p) = py_orderId p" if "truthy (py_orderId p) \<noteq> None"
    using that o by (auto simp: truthy_Some or_else_def split: option.splits)
  moreover have "or_else (py_customerId row) (py_customerId p) = py_customerId p" if "truthy (py_customerId p) \<noteq> None"
    using that c by (auto simp: truthy_Some or_else_def split: option.splits)
  ultimately show ?thesis using st by (simp add: same_payment_def settle_payment_def)
qed

lemma acknowledged_unpaid:
  assumes "applyPaymentEvent ctx s = (Inr (Some out, ctx'), s')"
  shows "payments s' = payments s"
  using assms
proof (rule payment_run)
  fix pid order1 customer order amount cur
  let ?ex = "find_payment (wc_providerConnectionId ctx) pid s" and ?c = "ctx\<lparr>wc_order := order, wc_customer := customer\<rparr>"
  assume "applyResolved ?c pid ?ex amount cur s = (Inr (Some out, ctx'), s')"
  from resolved_run(2) [OF this] show ?thesis
  proof
    assume "\<exists>out'. Some out = Some out' \<and> ev_type (wc_event ?c) = PaymentRefunded
      \<and> planRefund ?c ?ex amount s = (Inr (RefundAcknowledged out'), s')"
    then show ?thesis
      using honoursD [OF unpaid.planRefund [OF refl]] by (fastforce simp: same_payments_def)
  next
    assume "\<exists>plan s1. decided ?c ?ex amount s plan s1 \<and> applyPlanned ?c pid ?ex amount cur plan s1 = (Inr (Some out, ?c), s')"
    then obtain plan s1 where d: "decided ?c ?ex amount s plan s1"
      and a: "applyPlanned ?c pid ?ex amount cur plan s1 = (Inr (Some out, ?c), s')" by blast
    have "payments s' = payments s1"
      using a honoursD [OF unpaid.ignore [OF refl]]
      by (fastforce simp: applyPlanned_def Let_def bind_eq_Inr same_payments_def split: option.splits)
    then show ?thesis using decided_unpaid [OF d] by simp
  qed
qed

lemma applied_kept:
  assumes run: "applyPaymentEvent ctx s = (Inr (early, ctx'), s')" and ok: "payments_ok s"
    and order: "pure_run (resolve_order (wc_applicationId ctx) (wc_event ctx) None) s (wc_order ctx)"
    and customer: "pure_run (resolve_customer (wc_applicationId ctx) (wc_event ctx) None) s (wc_customer ctx)"
  shows "payments_kept s s'"
proof (cases early)
  case (Some out)
  then show ?thesis using acknowledged_unpaid run payments_kept_eq by blast
next
  case None
  show ?thesis
    using run [unfolded None]
  proof (rule applied_payment)
    fix pid order1 plan row now
    let ?ex = "find_payment (wc_providerConnectionId ctx) pid s"
    assume o1: "pure_run (resolve_order (wc_applicationId ctx) (wc_event ctx) (wc_order ctx)) s order1"
      and c1: "pure_run (resolve_customer (wc_applicationId ctx) (wc_event ctx) (wc_customer ctx)) s (wc_customer ctx')"
      and chk: "pure_run (checkBindings (wc_event ctx) ?ex) s ()"
      and rec: "pure_run (recordedOrder (wc_applicationId ctx) ?ex order1) s (wc_order ctx')"
      and none: "settled_message (ev_type (wc_event ctx)) (wc_order ctx') ?ex = None"
      and st: "py_status row = next_payment_status (ev_type (wc_event ctx)) ?ex plan"
      and ids: "py_orderId row = map_option od_id (wc_order ctx')" "py_customerId row = map_option ac_customerId (wc_customer ctx')"
        "py_providerConnectionId row = wc_providerConnectionId ctx" "py_providerPaymentId row = pid"
      and s': "payments s' = (if ?ex = None then payments s @ [row]
        else update_where (same_provider_payment row) (settle_payment (py_status row) row now) (payments s))"
    show ?thesis
    proof (cases ?ex)
      case None
      then show ?thesis using s' by (simp add: payments_kept_def)
    next
      case (Some p)
      have p: "p \<in> set (payments s)" "payment_slot p = payment_slot row"
        using Some ids by (auto simp: find_payment_def payment_slot_def dest: find_SomeD)
      have "same_payment p (settle_payment (py_status row) row now p)"
      proof (rule settled_row_same)
        show "payment_moves (py_status p) (py_status row)" using none st next_payment_moves by (simp add: Some)
        show "truthy (py_orderId p) = Some a \<Longrightarrow> py_orderId row = None \<or> py_orderId row = Some a" for a
          using bound_order [OF order o1] chk rec ids by (auto simp: Some)
        show "truthy (py_customerId p) = Some a \<Longrightarrow> py_customerId row = None \<or> py_customerId row = Some a" for a
          using bound_customer [OF customer c1] chk ids by (auto simp: Some)
      qed
      moreover have "x = p" if "x \<in> set (payments s)" "same_provider_payment row x" for x
        using that p ok unfolding payments_ok_def
        by (intro distinct_key_eq [of payment_slot]) (auto simp: same_provider_payment_def payment_slot_def)
      ultimately have "\<forall>x \<in> set (payments s). same_provider_payment row x
          \<longrightarrow> same_payment x (settle_payment (py_status row) row now x)" by blast
      then show ?thesis
        using Some s' by (auto simp: payments_kept_def table_kept_def update_where_def list_all2_map2 list_all2_same)
    qed
  qed
qed

end
