(* ===== verification/WebhookInbox.thy ===== *)
theory WebhookInbox
  imports WebhookFacts StateMachine
begin

text \<open>
  The inbox around a delivery: what a run of \<open>processProviderWebhook\<close> does to the row of its
  event, and how deliveries keep the tables' invariant.
\<close>

subsection \<open>Receiving\<close>

definition event_key_is :: "string \<Rightarrow> string \<Rightarrow> webhook_event \<Rightarrow> bool" where
  "event_key_is conn i w \<longleftrightarrow> wh_providerConnectionId w = conn \<and> wh_providerEventId w = i"

lemma receive_run:
  assumes "receiveEvent app conn input ev env d s = (Inr (e, fresh), s')"
  obtains (stored) w where "\<not> fresh" "List.find (event_key_is conn (ev_providerEventId ev)) (webhookEvents s) = Some w"
      "e = wh_id w" "s' = s\<lparr>uuids := Suc (uuids s)\<rparr>"
  | (inserted) w where fresh "e = wh_id w" "wh_applicationId w = app" "wh_providerConnectionId w = conn"
      "wh_providerEventId w = ev_providerEventId ev" "wh_status w = WhReceived" "wh_normalizedEvent w = ev" "wh_id w \<noteq> []"
      "\<forall>x \<in> set (webhookEvents s). wh_id x \<noteq> wh_id w \<and> \<not> event_key_is conn (ev_providerEventId ev) x"
      "s' = s\<lparr>uuids := Suc (uuids s), webhookEvents := webhookEvents s @ [w]\<rparr>"
proof -
  have k: "(\<lambda>w. wh_providerConnectionId w = conn \<and> wh_providerEventId w = i) = event_key_is conn i" for i
    by (simp add: event_key_is_def fun_eq_iff)
  show ?thesis
  proof (cases fresh)
    case False
    then show ?thesis
      using assms stored
      by (auto simp: receiveEvent_def bind_eq_Inr insert_webhook_event_def insert_or_ignore_eq_Inr k truthy_Some
          split: if_splits)
  next
    case True
    show ?thesis
      by (rule inserted [of "\<lparr>wh_id = ''wh_'' @ string_of_nat (uuids s), wh_applicationId = app, wh_providerConnectionId = conn,
        wh_providerEventId = ev_providerEventId ev, wh_environment = env,
        wh_providerEventName = ev_providerEventName ev, wh_normalizedType = ev_type ev,
        wh_status = WhReceived, wh_rawBody = dl_rawBody input, wh_normalizedEvent = ev,
        wh_errorMessage = None, wh_occurredAt = d, wh_processedAt = None\<rparr>"])
        (use assms True in \<open>auto simp: receiveEvent_def bind_eq_Inr insert_webhook_event_def insert_or_ignore_eq_Inr
          same_provider_event_def event_key_is_def split: if_splits\<close>)
  qed
qed

subsection \<open>A delivery\<close>

text \<open>The delivery reaches the inbox: it verifies, names this application and connection, the
  connection exists and the event has a date.\<close>

definition accepted ::
    "(string \<Rightarrow> string \<Rightarrow> delivery \<Rightarrow> db \<Rightarrow> err + provider_event) \<Rightarrow> string \<Rightarrow> string \<Rightarrow> delivery \<Rightarrow> db
     \<Rightarrow> provider_event \<Rightarrow> provider_connection \<Rightarrow> int \<Rightarrow> bool" where
  "accepted adapter app conn input s ev c d \<longleftrightarrow> adapter app conn input s = Inr ev \<and> ev_applicationId ev = app
     \<and> ev_providerConnectionId ev = conn \<and> get_connection app conn s = Some c
     \<and> ev_occurredAt ev \<noteq> [] \<and> dateParse (ev_occurredAt ev) = Some d"

lemma parseEventDate_Some:
  "parseEventDate (Some t) s = (Inr (Some d), s') \<longleftrightarrow> s' = s \<and> t \<noteq> [] \<and> dateParse t = Some d"
  by (auto simp: parseEventDate_def truthy_def split: option.splits)

lemma parseEventDate_state: "parseEventDate t s = (r, s') \<Longrightarrow> s' = s"
  by (auto simp: parseEventDate_def split: option.splits)

definition failed_at :: "string \<Rightarrow> string \<Rightarrow> db \<Rightarrow> db" where
  "failed_at e msg s = webhookEvents_update (update_where (\<lambda>w. wh_id w = e) (fail_event msg)) s"

text \<open>What an accepted delivery returns and leaves, in terms of its transaction.\<close>

lemma process_accepted:
  assumes "accepted adapter app conn input s ev c d"
  shows "processProviderWebhook adapter driver app conn input s =
    (case receiveEvent app conn input ev (pc_mode c) d s of
       (Inl er, s1) \<Rightarrow> (Inl er, s1)
     | (Inr (e, fresh), s1) \<Rightarrow>
         (case applyDelivery app conn input ev (pc_mode c) d e fresh s1 of
            (Inr out, s2) \<Rightarrow> (Inr out, s2)
          | (Inl er, _) \<Rightarrow> (Inl er, failed_at e (eventErrorMessage driver er) s1)))"
proof -
  have date: "parseEventDate (Some (ev_occurredAt ev)) s = (Inr (Some d), s)"
    using assms by (simp add: parseEventDate_Some accepted_def)
  have fail: "(try_catch (transaction m) (\<lambda>x. bind (update_webhook_events (\<lambda>w. wh_id w = e) (fail_event (eventErrorMessage driver x)))
      (\<lambda>_. throw x))) t = (case m t of (Inr out, t2) \<Rightarrow> (Inr out, t2)
        | (Inl x, _) \<Rightarrow> (Inl x, failed_at e (eventErrorMessage driver x) t))" for m :: "(db, webhook_outcome) prog" and e t
    by (simp add: try_catch_apply transaction_apply bind_apply update_webhook_events_def update_rows_def failed_at_def
        Let_def list_all_iff split: prod.split sum.split)
  show ?thesis
    using assms
    by (simp add: processProviderWebhook_def accepted_def bind_apply date throw_if_apply require_apply fail
        split: prod.split sum.split)
qed

lemma process_rejected:
  assumes "\<nexists>ev c d. accepted adapter app conn input s ev c d"
  shows "\<exists>er. processProviderWebhook adapter driver app conn input s = (Inl er, s)"
proof (cases "adapter app conn input s")
  case (Inl er)
  then show ?thesis by (simp add: processProviderWebhook_def bind_apply)
next
  case (Inr ev)
  have parse: "parseEventDate (Some t) s = (if t = [] then (Inr None, s) else case dateParse t of
      None \<Rightarrow> (Inl (InvalidNormalizedCommerceEventError ''Invalid provider event date''), s) | Some d \<Rightarrow> (Inr (Some d), s))" for t
    by (simp add: parseEventDate_def truthy_def split: option.split)
  show ?thesis
  proof (cases "ev_applicationId ev = app \<and> ev_providerConnectionId ev = conn")
    case False
    then show ?thesis using Inr by (auto simp: processProviderWebhook_def bind_apply throw_if_apply)
  next
    case ctx: True
    show ?thesis
    proof (cases "get_connection app conn s")
      case None
      then show ?thesis using Inr ctx by (simp add: processProviderWebhook_def bind_apply throw_if_apply require_apply)
    next
      case (Some c)
      then have "ev_occurredAt ev = [] \<or> dateParse (ev_occurredAt ev) = None"
        using assms Inr ctx by (fastforce simp: accepted_def)
      then show ?thesis
        using Inr ctx Some by (auto simp: processProviderWebhook_def bind_apply throw_if_apply require_apply parse)
    qed
  qed
qed

subsection \<open>The inbox invariant\<close>

definition inbox_slot :: "webhook_event \<Rightarrow> string \<times> string" where
  "inbox_slot w = (wh_providerConnectionId w, wh_providerEventId w)"

definition settled :: "webhook_event \<Rightarrow> bool" where
  "settled w \<longleftrightarrow> wh_status w = WhProcessed \<or> wh_status w = WhIgnored"

definition inbox_ok :: "db \<Rightarrow> bool" where
  "inbox_ok s \<longleftrightarrow> distinct (map wh_id (webhookEvents s)) \<and> [] \<notin> set (map wh_id (webhookEvents s))
     \<and> distinct (map inbox_slot (webhookEvents s))
     \<and> distinct (map pc_id (providerConnections s))
     \<and> (\<forall>w \<in> set (webhookEvents s). \<exists>c \<in> set (providerConnections s).
          pc_id c = wh_providerConnectionId w \<and> pc_applicationId c = wh_applicationId w)"

definition same_connection :: "provider_connection \<Rightarrow> provider_connection \<Rightarrow> bool" where
  "same_connection c d \<longleftrightarrow> pc_id d = pc_id c \<and> pc_applicationId d = pc_applicationId c"

definition inbox_later :: "db \<Rightarrow> db \<Rightarrow> bool" where
  "inbox_later s t \<longleftrightarrow> table_kept same_event (webhookEvents s) (webhookEvents t)
     \<and> table_kept same_connection (providerConnections s) (providerConnections t)"

lemma inbox_later_refl [simp]: "inbox_later s s"
  by (simp add: inbox_later_def table_kept_refl same_event_def same_connection_def)

lemma inbox_later_trans: "inbox_later s t \<Longrightarrow> inbox_later t u \<Longrightarrow> inbox_later s u"
  unfolding inbox_later_def
  by (intro conjI; elim conjE; erule (1) table_kept_trans [rotated]) (auto simp: same_event_def same_connection_def)

lemma same_event_columns:
  "list_all2 (\<lambda>w x. same_event w x \<and> P w x) ws xs \<Longrightarrow> map wh_id xs = map wh_id ws \<and> map inbox_slot xs = map inbox_slot ws
    \<and> (\<forall>x \<in> set xs. \<exists>w \<in> set ws. same_event w x)"
  by (induction rule: list_all2_induct) (auto simp: same_event_def inbox_slot_def)

lemma inbox_ok_kept:
  assumes k: "inbox_kept e s t" and ok: "inbox_ok s"
  shows "inbox_ok t"
proof -
  have c: "providerConnections t = providerConnections s" using k by (simp add: inbox_kept_def)
  have l: "list_all2 (\<lambda>w x. same_event w x \<and> (wh_id w \<noteq> e \<longrightarrow> x = w)) (webhookEvents s) (webhookEvents t)"
    using k by (simp only: inbox_kept_def)
  have cols: "map wh_id (webhookEvents t) = map wh_id (webhookEvents s)"
    "map inbox_slot (webhookEvents t) = map inbox_slot (webhookEvents s)"
    "\<forall>x \<in> set (webhookEvents t). \<exists>w \<in> set (webhookEvents s). same_event w x"
    using same_event_columns [OF l] by blast+
  have "\<exists>d \<in> set (providerConnections t). pc_id d = wh_providerConnectionId x \<and> pc_applicationId d = wh_applicationId x"
    if "x \<in> set (webhookEvents t)" for x
  proof -
    from bspec [OF cols(3) that] obtain w where w: "w \<in> set (webhookEvents s)" "same_event w x" by (elim bexE)
    have "\<exists>d \<in> set (providerConnections s). pc_id d = wh_providerConnectionId w \<and> pc_applicationId d = wh_applicationId w"
      using ok w(1) unfolding inbox_ok_def by blast
    then show ?thesis using c w(2) unfolding same_event_def by simp
  qed
  then show ?thesis using ok cols(1,2) c by (simp add: inbox_ok_def)
qed

lemma delivery_inbox: "honours (inbox_kept e) (applyDelivery app conn input ev env d e fresh)"
  unfolding applyDelivery_def
  by (auto intro!: inbox.bind inbox_kept_own)

lemma delivery_orders: "honours orders_kept (applyDelivery app conn input ev env d e fresh)"
proof -
  have "honours orders_kept (update_webhook_events P f)" for P f by (rule orders_kept_commerce)
  then show ?thesis
    unfolding applyDelivery_def by (auto intro!: ordered.bind ordered.applyStored [where eventId = e])
qed

text \<open>A delivery whose row is settled answers from it.\<close>

lemma settled_delivery:
  assumes "List.find (\<lambda>w. wh_id w = e) (webhookEvents s) = Some w" and "wh_applicationId w = app" and "settled w"
  shows "applyDelivery app conn input ev env d e fresh s =
    (Inr \<lparr>wo_webhookEventId = e, wo_duplicate = True, wo_status = wh_status w, wo_normalizedType = wh_normalizedType w\<rparr>, s)"
  using assms by (simp add: applyDelivery_def bind_apply require_apply throw_if_apply settled_def)

subsection \<open>The row of a delivery\<close>

lemma own_connection:
  assumes "inbox_ok s" and "get_connection app conn s = Some c" and "w \<in> set (webhookEvents s)"
    and "wh_providerConnectionId w = conn"
  shows "wh_applicationId w = app"
proof -
  have c: "c \<in> set (providerConnections s)" "pc_id c = conn" "pc_applicationId c = app"
    using assms(2) by (auto simp: get_connection_def dest: find_SomeD)
  obtain d where d: "d \<in> set (providerConnections s)" "pc_id d = conn" "pc_applicationId d = wh_applicationId w"
    using assms(1,3,4) unfolding inbox_ok_def by metis
  have "d = c"
    by (rule distinct_key_eq [of pc_id, OF _ d(1) c(1)]) (use assms(1) c d in \<open>simp_all add: inbox_ok_def\<close>)
  then show ?thesis using c d by simp
qed

lemma find_by_id:
  "distinct (map wh_id ws) \<Longrightarrow> w \<in> set ws \<Longrightarrow> List.find (\<lambda>x. wh_id x = wh_id w) ws = Some w"
  by (induction ws) (auto simp: image_iff)

lemma received:
  assumes ok: "inbox_ok s" and acc: "accepted adapter app conn input s ev c d"
    and rec: "receiveEvent app conn input ev env d s = (Inr (e, fresh), s1)"
  obtains w where "List.find (\<lambda>x. wh_id x = e) (webhookEvents s1) = Some w" "wh_applicationId w = app"
    and "event_key_is conn (ev_providerEventId ev) w"
    and "inbox_ok s1" "inbox_later s s1" "s1 = s\<lparr>uuids := uuids s1, webhookEvents := webhookEvents s1\<rparr>"
    and "fresh \<longrightarrow> wh_status w = WhReceived \<and> wh_normalizedEvent w = ev"
  using rec
proof (rule receive_run)
  fix w
  assume w: "\<not> fresh" "List.find (event_key_is conn (ev_providerEventId ev)) (webhookEvents s) = Some w"
    "e = wh_id w" "s1 = s\<lparr>uuids := Suc (uuids s)\<rparr>"
  have m: "w \<in> set (webhookEvents s)" "event_key_is conn (ev_providerEventId ev) w"
    using find_SomeD [OF w(2)] by simp_all
  have a: "wh_applicationId w = app"
    using ok m acc by (intro own_connection) (auto simp: accepted_def event_key_is_def)
  show thesis
    using that [OF _ a m(2)] w m ok find_by_id [of "webhookEvents s" w]
    by (simp add: inbox_ok_def inbox_later_def table_kept_refl same_event_def same_connection_def)
next
  fix w
  assume w: fresh "e = wh_id w" "wh_applicationId w = app" "wh_providerConnectionId w = conn"
    "wh_providerEventId w = ev_providerEventId ev" "wh_status w = WhReceived" "wh_normalizedEvent w = ev" "wh_id w \<noteq> []"
    "\<forall>x \<in> set (webhookEvents s). wh_id x \<noteq> wh_id w \<and> \<not> event_key_is conn (ev_providerEventId ev) x"
    "s1 = s\<lparr>uuids := Suc (uuids s), webhookEvents := webhookEvents s @ [w]\<rparr>"
  have c: "c \<in> set (providerConnections s)" "pc_id c = conn" "pc_applicationId c = app"
    using acc by (auto simp: accepted_def get_connection_def dest: find_SomeD)
  have new: "List.find (\<lambda>x. wh_id x = wh_id w) (webhookEvents s) = None"
    using w(9) by (simp add: find_None_iff)
  have "inbox_ok s1"
    using ok w c by (auto simp: inbox_ok_def inbox_slot_def event_key_is_def image_iff)
  moreover have "inbox_later s s1"
    using w(10) by (simp add: inbox_later_def table_kept_refl same_event_def same_connection_def)
  ultimately show thesis
    using that [of w] w new by (simp add: find_append event_key_is_def)
qed

subsection \<open>Payments along a delivery\<close>

lemma dispatch_payments:
  assumes run: "dispatchEvent ctx s = (Inr out, s')" and ok: "payments_ok s"
    and order: "pure_run (resolve_order (wc_applicationId ctx) (wc_event ctx) None) s (wc_order ctx)"
    and customer: "pure_run (resolve_customer (wc_applicationId ctx) (wc_event ctx) None) s (wc_customer ctx)"
  shows "payments_kept s s'"
proof -
  obtain z s1 where a: "(if is_payment_event (ev_type (wc_event ctx)) then applyPaymentEvent ctx
        else return (None, ctx)) s = (Inr z, s1)"
    and r: "(case z of (early, ctx') \<Rightarrow> case early of Some out \<Rightarrow> return out | None \<Rightarrow> afterPayment ctx ctx') s1 = (Inr out, s')"
    using run unfolding dispatchEvent_def by (rule bind_InrE)
  obtain early ctx' where z: "z = (early, ctx')" by (cases z)
  have k: "payments_kept s s1"
    using a applied_kept [OF _ ok order customer] by (auto simp: z payments_kept_eq split: if_splits)
  show ?thesis
  proof (cases early)
    case None
    then have "payments s' = payments s1"
      using r honoursD [OF unpaid.afterPayment [OF refl]] by (simp add: z same_payments_def)
    then show ?thesis using k by (simp add: payments_kept_def)
  next
    case (Some o')
    then show ?thesis using k r by (simp add: z)
  qed
qed

lemma resolve_here:
  "resolve_order app ev None s = (Inr x, s') \<longleftrightarrow> s' = s \<and> pure_run (resolve_order app ev None) s x"
  "resolve_customer app ev None s = (Inr y, s') \<longleftrightarrow> s' = s \<and> pure_run (resolve_customer app ev None) s y"
  by (rule guards_pure(1), rule guards_pure(2))

lemma delivery_payments:
  assumes run: "applyDelivery app conn input ev env d e fresh s = (Inr out, s')" and ok: "payments_ok s"
  shows "payments_kept s s'"
proof -
  obtain w where w: "List.find (\<lambda>w. wh_id w = e) (webhookEvents s) = Some w" "wh_applicationId w = app"
    using run by (auto simp: applyDelivery_def bind_eq_Inr)
  have fin: "finishEvent e st t = (Inr u, t') \<Longrightarrow> payments t' = payments t" for st t u t'
    using honoursD [OF unpaid.finishEvent [OF refl]] by (simp add: same_payments_def)
  show ?thesis
  proof (cases "settled w")
    case True
    then show ?thesis using settled_delivery [OF w] run by (simp add: payments_kept_eq)
  next
    case False
    with run w have "bind (if wh_status w = WhFailed
             then bind (update_webhook_events (\<lambda>w. wh_id w = e) (rearm input ev)) (\<lambda>_. return ev)
             else return (wh_normalizedEvent w)) (applyStored app conn env d e fresh) s = (Inr out, s')"
      by (simp add: applyDelivery_def settled_def require_apply throw_if_apply)
    then obtain ev' s1 where a: "(if wh_status w = WhFailed
             then bind (update_webhook_events (\<lambda>w. wh_id w = e) (rearm input ev)) (\<lambda>_. return ev)
             else return (wh_normalizedEvent w)) s = (Inr ev', s1)"
      and r: "applyStored app conn env d e fresh ev' s1 = (Inr out, s')"
      by (rule bind_InrE)
    have p: "payments s1 = payments s"
      using a by (auto simp: update_webhook_events_def update_rows_eq_Inr bind_eq_Inr split: if_splits)
    have ok1: "payments_ok s1" using ok p by (simp add: payments_ok_def)
    have "payments_kept s1 s'"
    proof (cases "ev_type ev' = UnknownEvent")
      case True
      then show ?thesis using r fin by (auto simp: applyStored_def bind_eq_Inr intro: payments_kept_eq)
    next
      case False
      with r obtain x y where "pure_run (resolve_order app ev' None) s1 x" "pure_run (resolve_customer app ev' None) s1 y"
        and "dispatchEvent \<lparr>wc_applicationId = app, wc_providerConnectionId = conn, wc_environment = env,
            wc_webhookEventId = e, wc_event = ev', wc_occurredAt = d, wc_inserted = fresh,
            wc_order = x, wc_customer = y\<rparr> s1 = (Inr out, s')"
        by (auto simp: applyStored_def bind_eq_Inr resolve_here)
      then show ?thesis using dispatch_payments [OF _ ok1] by simp
    qed
    then show ?thesis using p by (simp add: payments_kept_def)
  qed
qed

subsection \<open>One payment per provider payment\<close>

lemma honours_weaken: "honours R m \<Longrightarrow> (\<And>s t. R s t \<Longrightarrow> Q s t) \<Longrightarrow> honours Q m"
  by (simp add: honours_def)

lemma unpaid_ok: "same_payments s t \<Longrightarrow> payments_ok s \<longrightarrow> payments_ok t"
  by (simp add: same_payments_def payments_ok_def)

lemma settles_ok: "honours (\<lambda>s t. payments_ok s \<longrightarrow> payments_ok t) (upsert_payment p (settle_payment st q now))"
  unfolding upsert_payment_def
  by (auto simp: honours_def upsert_row_def payments_ok_def payment_slot_def same_provider_payment_def
      find_None_iff image_iff map_update_where_same settle_payment_def split: option.splits)

lemmas unpaid_statements = same_payments_credit [THEN honours_weaken, OF unpaid_ok]
  same_payments_entitlements [THEN honours_weaken, OF unpaid_ok] same_payments_commerce [THEN honours_weaken, OF unpaid_ok]

interpretation one_payment: payment_frame "\<lambda>s t. payments_ok s \<longrightarrow> payments_ok t" eventId for eventId
  by unfold_locales (rule unpaid_statements settles_ok | simp add: payments_ok_def)+

lemma delivery_one_payment:
  "honours (\<lambda>s t. payments_ok s \<longrightarrow> payments_ok t) (applyDelivery app conn input ev env d e fresh)"
  unfolding applyDelivery_def
  by (auto intro!: one_payment.bind unpaid_statements
      one_payment.applyStored [where eventId = e])

subsection \<open>The runs of a delivery\<close>

text \<open>Three ways a delivery can go: refused before the inbox, applied, or failed.\<close>

lemma process_cases:
  assumes run: "processProviderWebhook adapter driver app conn input s = (r, s')" and ok: "inbox_ok s"
  obtains (refused) er where "r = Inl er" "only_ids s s'"
  | (applied) ev c d e fresh s1 w out where "accepted adapter app conn input s ev c d"
      "receiveEvent app conn input ev (pc_mode c) d s = (Inr (e, fresh), s1)"
      "List.find (\<lambda>x. wh_id x = e) (webhookEvents s1) = Some w" "wh_applicationId w = app"
      "event_key_is conn (ev_providerEventId ev) w" "inbox_ok s1" "inbox_later s s1"
      "s1 = s\<lparr>uuids := uuids s1, webhookEvents := webhookEvents s1\<rparr>"
      "applyDelivery app conn input ev (pc_mode c) d e fresh s1 = (Inr out, s')" "r = Inr out"
  | (failed) ev c d e fresh s1 w er s2 where "accepted adapter app conn input s ev c d"
      "receiveEvent app conn input ev (pc_mode c) d s = (Inr (e, fresh), s1)"
      "List.find (\<lambda>x. wh_id x = e) (webhookEvents s1) = Some w" "\<not> settled w"
      "event_key_is conn (ev_providerEventId ev) w" "inbox_ok s1" "inbox_later s s1"
      "s1 = s\<lparr>uuids := uuids s1, webhookEvents := webhookEvents s1\<rparr>"
      "applyDelivery app conn input ev (pc_mode c) d e fresh s1 = (Inl er, s2)" "r = Inl er"
      "s' = failed_at e (eventErrorMessage driver er) s1"
proof (cases "\<exists>ev c d. accepted adapter app conn input s ev c d")
  case False
  then obtain er where "processProviderWebhook adapter driver app conn input s = (Inl er, s)"
    using process_rejected by blast
  with run have "r = Inl er" "s' = s" by simp_all
  then show thesis using refused by simp
next
  case True
  then obtain ev c d where acc: "accepted adapter app conn input s ev c d" by blast
  note eq = run [unfolded process_accepted [OF acc]]
  show thesis
  proof (cases "receiveEvent app conn input ev (pc_mode c) d s")
    case rec: (Pair x s1)
    show thesis
    proof (cases x)
      case (Inl er)
      then have "r = Inl er" "s' = s1" using eq rec by auto
      moreover have "only_ids s s1"
        using rec Inl by (auto simp: receiveEvent_def bind_eq_Inl insert_webhook_event_def insert_or_ignore_def
            require_def split: if_splits option.splits)
      ultimately show thesis using refused by blast
    next
      case (Inr y)
      obtain e fresh where y: "y = (e, fresh)" by (cases y)
      note rec' = rec [unfolded Inr y]
      show thesis
      proof (rule received [OF ok acc rec'])
        fix w
        assume w: "List.find (\<lambda>x. wh_id x = e) (webhookEvents s1) = Some w" "wh_applicationId w = app"
          "event_key_is conn (ev_providerEventId ev) w"
          and s1: "inbox_ok s1" "inbox_later s s1" "s1 = s\<lparr>uuids := uuids s1, webhookEvents := webhookEvents s1\<rparr>"
        show thesis
        proof (cases "applyDelivery app conn input ev (pc_mode c) d e fresh s1")
          case del: (Pair z s2)
          show thesis
          proof (cases z)
            case (Inr out)
            then show thesis using applied [OF acc rec' w s1] del eq rec' by simp
          next
            case (Inl er)
            have "\<not> settled w" using settled_delivery [OF w(1,2)] del Inl by auto
            then show thesis using failed [OF acc rec' w(1) _ w(3) s1] del eq rec' Inl by simp
          qed
        qed
      qed
    qed
  qed
qed

subsection \<open>A delivery settles its row\<close>

definition row_settled :: "string \<Rightarrow> db \<Rightarrow> bool" where
  "row_settled e s \<longleftrightarrow> (\<forall>w \<in> set (webhookEvents s). wh_id w = e \<longrightarrow> settled w)"

lemma update_settles:
  "(\<And>w. settled (f w)) \<Longrightarrow> row_settled e (webhookEvents_update (update_where (\<lambda>w. wh_id w = e) f) s)"
  by (auto simp: row_settled_def set_update_where simp del: if_image_distrib split: if_splits)

lemma mark_settles:
  "update_webhook_events (\<lambda>w. wh_id w = e) (mark_event WhProcessed msg now) s = (Inr r, s') \<Longrightarrow> row_settled e s'"
  "update_webhook_events (\<lambda>w. wh_id w = e) (mark_event WhIgnored msg now) s = (Inr r, s') \<Longrightarrow> row_settled e s'"
  by (simp_all add: update_webhook_events_def update_rows_eq_Inr update_settles mark_event_def settled_def)

lemma ignore_settles: "ignoreEvent ctx msg s = (Inr out, s') \<Longrightarrow>
    row_settled (wc_webhookEventId ctx) s' \<and> wo_webhookEventId out = wc_webhookEventId ctx"
  by (auto simp: ignoreEvent_def bind_eq_Inr dest: mark_settles(2))

lemma finish_settles:
  "finishEvent e WhProcessed s = (Inr u, s') \<Longrightarrow> row_settled e s'"
  "finishEvent e WhIgnored s = (Inr u, s') \<Longrightarrow> row_settled e s'"
  by (auto simp: finishEvent_def bind_eq_Inr dest: mark_settles)

lemma plan_settles:
  assumes "planRefund ctx existing n s = (Inr (RefundAcknowledged out), s')"
  shows "row_settled (wc_webhookEventId ctx) s' \<and> wo_webhookEventId out = wc_webhookEventId ctx"
proof -
  obtain msg t where "ignoreEvent ctx msg t = (Inr out, s')"
    using assms by (auto simp: planRefund_def planUnsettled_def Let_def bind_eq_Inr split: if_splits option.splits)
  then show ?thesis by (rule ignore_settles)
qed

lemma payment_settles:
  assumes "applyPaymentEvent ctx s = (Inr (Some out, ctx'), s')"
  shows "row_settled (wc_webhookEventId ctx) s' \<and> wo_webhookEventId out = wc_webhookEventId ctx"
  using assms
proof (rule payment_run)
  fix pid order1 customer order amount cur
  let ?ex = "find_payment (wc_providerConnectionId ctx) pid s" and ?c = "ctx\<lparr>wc_order := order, wc_customer := customer\<rparr>"
  assume "applyResolved ?c pid ?ex amount cur s = (Inr (Some out, ctx'), s')"
  from resolved_run(2) [OF this] show ?thesis
    by (auto simp: applyPlanned_def Let_def bind_eq_Inr dest!: plan_settles ignore_settles split: option.splits)
qed

lemma stored_settles:
  assumes "applyStored app conn env d e fresh ev s = (Inr out, s')"
  shows "row_settled e s' \<and> wo_webhookEventId out = e"
proof -
  have after: "row_settled (wc_webhookEventId ctx) t' \<and> wo_webhookEventId out' = wc_webhookEventId ctx"
    if "afterPayment ctx ctx' t = (Inr out', t')" for ctx ctx' t out' t'
    using that by (auto simp: afterPayment_def Let_def bind_eq_Inr dest: finish_settles)
  have "row_settled (wc_webhookEventId ctx) t' \<and> wo_webhookEventId out' = wc_webhookEventId ctx"
    if "dispatchEvent ctx t = (Inr out', t')" for ctx t out' t'
    using that by (auto simp: dispatchEvent_def bind_eq_Inr dest: payment_settles after split: if_splits option.splits)
  then show ?thesis
    using assms by (fastforce simp: applyStored_def bind_eq_Inr dest: finish_settles split: if_splits)
qed

lemma delivery_settles:
  assumes run: "applyDelivery app conn input ev env d e fresh s = (Inr out, s')" and ok: "inbox_ok s"
  shows "row_settled e s' \<and> wo_webhookEventId out = e"
proof -
  obtain w where w: "List.find (\<lambda>w. wh_id w = e) (webhookEvents s) = Some w" "wh_applicationId w = app"
    using run by (auto simp: applyDelivery_def bind_eq_Inr)
  show ?thesis
  proof (cases "settled w")
    case True
    have "x = w" if "x \<in> set (webhookEvents s)" "wh_id x = e" for x
      using ok find_SomeD [OF w(1)] that unfolding inbox_ok_def
      by (intro distinct_key_eq [of wh_id "webhookEvents s"]) simp_all
    then show ?thesis using settled_delivery [OF w True] run True by (auto simp: row_settled_def)
  next
    case False
    with run w have "bind (if wh_status w = WhFailed
             then bind (update_webhook_events (\<lambda>w. wh_id w = e) (rearm input ev)) (\<lambda>_. return ev)
             else return (wh_normalizedEvent w)) (applyStored app conn env d e fresh) s = (Inr out, s')"
      by (simp add: applyDelivery_def settled_def require_apply throw_if_apply)
    then show ?thesis using stored_settles by (rule bind_InrE)
  qed
qed

end
