(* ===== verification/CatalogSchema.thy ===== *)
theory CatalogSchema
  imports CommerceSchema
begin

text \<open>
  The tables of customers, the product catalog, provider connections, their catalog mappings
  and the callback origins (\<open>schema.ts\<close> of the modules \<open>customers\<close>, \<open>catalog\<close>, \<open>providers\<close>
  and \<open>applications\<close>): ranges, checks, unique indexes, foreign keys between modelled tables, and
  the statements the services issue. A check that PostgreSQL evaluates to NULL passes, so a
  nullable column is checked only where it is set.
\<close>

subsection \<open>Customers\<close>

text \<open>A customer row is its id (the creation time is read nowhere).\<close>

definition insert_customer :: "string \<Rightarrow> (db, string) prog" where
  "insert_customer = insert_row ''customers'' (\<lambda>_. True) (\<lambda>_. True) (=) (\<lambda>_ _. True) customers customers_update"

definition same_external_customer :: "application_customer \<Rightarrow> application_customer \<Rightarrow> bool" where
  "same_external_customer r q \<longleftrightarrow> ac_applicationId r = ac_applicationId q
     \<and> ac_externalCustomerId r = ac_externalCustomerId q"

definition insert_application_customer :: "application_customer \<Rightarrow> (db, application_customer) prog" where
  "insert_application_customer = insert_row ''application_customers'' (\<lambda>_. True) (\<lambda>_. True)
     (\<lambda>r q. ac_id r = ac_id q \<or> same_external_customer r q) (\<lambda>s r. ac_customerId r \<in> set (customers s))
     applicationCustomers applicationCustomers_update"

subsection \<open>Products, prices and configured grants\<close>

definition same_product_key :: "product \<Rightarrow> product \<Rightarrow> bool" where
  "same_product_key r q \<longleftrightarrow> pr_applicationId r = pr_applicationId q \<and> pr_key r = pr_key q"

definition insert_product :: "product \<Rightarrow> (db, product) prog" where
  "insert_product = insert_row ''products'' (\<lambda>_. True) (\<lambda>_. True) (\<lambda>r q. pr_id r = pr_id q \<or> same_product_key r q)
     (\<lambda>_ _. True) products products_update"

definition price_fits :: "price \<Rightarrow> bool" where
  "price_fits r \<longleftrightarrow> fits_bigint (pp_amountMinor r) \<and> null_or fits_integer (pp_intervalCount r)
     \<and> null_or fits_integer (pp_trialPeriodDays r)"

definition billing_shape :: "price \<Rightarrow> bool" where
  "billing_shape r \<longleftrightarrow> (case pp_billingType r of
       BillOneTime \<Rightarrow> pp_recurringInterval r = None \<and> pp_intervalCount r = None
     | BillRecurring \<Rightarrow> null_or (\<lambda>n. 1 \<le> n) (pp_intervalCount r))"

definition price_check :: "price \<Rightarrow> bool" where
  "price_check r \<longleftrightarrow> 0 \<le> pp_amountMinor r
     \<and> length (pp_currency r) = 3 \<and> pp_currency r = toUpperCase (pp_currency r)
     \<and> null_or (\<lambda>n. 1 \<le> n) (pp_trialPeriodDays r) \<and> billing_shape r"

definition same_price_key :: "price \<Rightarrow> price \<Rightarrow> bool" where
  "same_price_key r q \<longleftrightarrow> pp_productId r = pp_productId q \<and> pp_key r = pp_key q"

definition insert_price :: "price \<Rightarrow> (db, price) prog" where
  "insert_price = insert_row ''prices'' price_fits price_check (\<lambda>r q. pp_id r = pp_id q \<or> same_price_key r q)
     (\<lambda>s r. product_exists s (pp_productId r)) prices prices_update"

definition update_prices :: "(price \<Rightarrow> bool) \<Rightarrow> (price \<Rightarrow> price) \<Rightarrow> (db, price list) prog" where
  "update_prices = update_rows ''prices'' price_fits price_check prices prices_update"

definition grant_config_fits :: "product_grant_config \<Rightarrow> bool" where
  "grant_config_fits r \<longleftrightarrow> null_or fits_bigint (pg_quantity r)"

definition grant_config_check :: "product_grant_config \<Rightarrow> bool" where
  "grant_config_check r \<longleftrightarrow> (case pg_grantType r of
       GrantsEntitlement \<Rightarrow> pg_quantity r = None
     | GrantsCredit \<Rightarrow> null_or (\<lambda>n. 0 < n) (pg_quantity r))"

definition same_grant_config :: "product_grant_config \<Rightarrow> product_grant_config \<Rightarrow> bool" where
  "same_grant_config r q \<longleftrightarrow> pg_productId r = pg_productId q \<and> pg_grantType r = pg_grantType q
     \<and> pg_referenceKey r = pg_referenceKey q"

definition insert_grant_config :: "product_grant_config \<Rightarrow> (db, product_grant_config) prog" where
  "insert_grant_config = insert_row ''product_grant_configs'' grant_config_fits grant_config_check
     (\<lambda>r q. pg_id r = pg_id q \<or> same_grant_config r q) (\<lambda>s r. product_exists s (pg_productId r))
     productGrantConfigs productGrantConfigs_update"

subsection \<open>Callback origins and provider connections\<close>

definition same_callback_origin :: "callback_origin \<Rightarrow> callback_origin \<Rightarrow> bool" where
  "same_callback_origin r q \<longleftrightarrow> co_applicationId r = co_applicationId q \<and> co_origin r = co_origin q"

definition insert_callback_origin :: "callback_origin \<Rightarrow> (db, callback_origin option) prog" where
  "insert_callback_origin = insert_or_ignore ''application_callback_origins'' (\<lambda>_. True) (\<lambda>_. True)
     (\<lambda>r q. co_id r = co_id q \<or> same_callback_origin r q) (\<lambda>_ _. False) (\<lambda>_ _. True)
     callbackOrigins callbackOrigins_update"

definition same_connection_name :: "provider_connection \<Rightarrow> provider_connection \<Rightarrow> bool" where
  "same_connection_name r q \<longleftrightarrow> pc_applicationId r = pc_applicationId q \<and> pc_provider r = pc_provider q
     \<and> pc_name r = pc_name q"

definition insert_connection :: "provider_connection \<Rightarrow> (db, provider_connection) prog" where
  "insert_connection = insert_row ''provider_connections'' (\<lambda>_. True) (\<lambda>_. True)
     (\<lambda>r q. pc_id r = pc_id q \<or> same_connection_name r q) (\<lambda>_ _. True)
     providerConnections providerConnections_update"

text \<open>An update of connections: a changed name may clash with another row's.\<close>

definition update_connections ::
    "(provider_connection \<Rightarrow> bool) \<Rightarrow> (provider_connection \<Rightarrow> provider_connection) \<Rightarrow> (db, provider_connection list) prog" where
  "update_connections P f = (\<lambda>s.
     if \<exists>r \<in> set (filter P (providerConnections s)). \<exists>q \<in> set (providerConnections s).
          pc_id q \<noteq> pc_id r \<and> same_connection_name (f r) q
     then (Inl (UniqueViolation ''provider_connections''), s)
     else update_rows ''provider_connections'' (\<lambda>_. True) (\<lambda>_. True)
       providerConnections providerConnections_update P f s)"

subsection \<open>Provider catalog mappings\<close>

definition same_mapping_scope :: "catalog_mapping \<Rightarrow> catalog_mapping \<Rightarrow> bool" where
  "same_mapping_scope r q \<longleftrightarrow> cm_applicationId r = cm_applicationId q \<and> cm_environment r = cm_environment q
     \<and> cm_providerConnectionId r = cm_providerConnectionId q \<and> cm_monetplanePriceId r = cm_monetplanePriceId q"

definition mapping_check :: "catalog_mapping \<Rightarrow> bool" where
  "mapping_check r \<longleftrightarrow> cm_providerProductId r \<noteq> None \<or> cm_status r \<noteq> MapSynced"

definition mapping_refers :: "db \<Rightarrow> catalog_mapping \<Rightarrow> bool" where
  "mapping_refers s r \<longleftrightarrow>
     (\<exists>c \<in> set (providerConnections s). pc_id c = cm_providerConnectionId r \<and> pc_applicationId c = cm_applicationId r)
     \<and> (\<exists>c \<in> set (providerConnections s). pc_id c = cm_providerConnectionId r \<and> pc_mode c = cm_environment r)
     \<and> price_exists s (cm_monetplanePriceId r)"

definition insert_mapping :: "catalog_mapping \<Rightarrow> (db, catalog_mapping option) prog" where
  "insert_mapping = insert_or_ignore ''provider_catalog_mappings'' (\<lambda>_. True) mapping_check same_mapping_scope
     (\<lambda>r q. cm_id r = cm_id q) mapping_refers catalogMappings catalogMappings_update"

definition update_mappings ::
    "(catalog_mapping \<Rightarrow> bool) \<Rightarrow> (catalog_mapping \<Rightarrow> catalog_mapping) \<Rightarrow> (db, catalog_mapping list) prog" where
  "update_mappings = update_rows ''provider_catalog_mappings'' (\<lambda>_. True) mapping_check
     catalogMappings catalogMappings_update"

lemmas catalog_table_defs [table_defs] = insert_customer_def insert_application_customer_def insert_product_def
  insert_price_def update_prices_def insert_grant_config_def insert_callback_origin_def insert_connection_def
  update_connections_def insert_mapping_def update_mappings_def

lemmas [run_simps] = catalog_table_defs same_external_customer_def same_product_key_def price_fits_def
  billing_shape_def price_check_def same_price_key_def grant_config_fits_def grant_config_check_def
  same_grant_config_def same_callback_origin_def same_connection_name_def same_mapping_scope_def
  mapping_check_def mapping_refers_def

end
