(* ===== verification/Connections.thy ===== *)
theory Connections
  imports CatalogSchema
begin

text \<open>
  Provider connections (\<open>src/src/modules/providers/service.ts\<close>) and what a provider can do
  (\<open>contract.ts\<close>, and the capability tables of the three adapters). Credentials are stored
  encrypted: \<open>encryptProviderCredentials\<close> and \<open>decryptProviderCredentials\<close>, calls of Node's
  \<open>crypto\<close>, are the arguments \<open>encrypt\<close> and \<open>decrypt\<close>, which return a result or the error they
  throw.
\<close>

subsection \<open>Capabilities\<close>

datatype capability =
    One_time_checkout | Recurring_subscription | Monthly_interval | Annual_interval | Weekly_interval
  | Trial_periods | Refund | Subscription_cancel | Subscription_update | Customer_portal
  | Provider_hosted_checkout | Catalog_provisioning

fun capability_name :: "capability \<Rightarrow> string" where
  "capability_name One_time_checkout = ''one_time_checkout''"
| "capability_name Recurring_subscription = ''recurring_subscription''"
| "capability_name Monthly_interval = ''monthly_interval''"
| "capability_name Annual_interval = ''annual_interval''"
| "capability_name Weekly_interval = ''weekly_interval''"
| "capability_name Trial_periods = ''trial_periods''"
| "capability_name Refund = ''refund''"
| "capability_name Subscription_cancel = ''subscription_cancel''"
| "capability_name Subscription_update = ''subscription_update''"
| "capability_name Customer_portal = ''customer_portal''"
| "capability_name Provider_hosted_checkout = ''provider_hosted_checkout''"
| "capability_name Catalog_provisioning = ''catalog_provisioning''"

type_synonym capabilities = "capability \<Rightarrow> bool"

fun CREEM_CAPABILITIES :: capabilities where
  "CREEM_CAPABILITIES One_time_checkout = True"
| "CREEM_CAPABILITIES Recurring_subscription = True"
| "CREEM_CAPABILITIES Monthly_interval = True"
| "CREEM_CAPABILITIES Annual_interval = True"
| "CREEM_CAPABILITIES Weekly_interval = False"
| "CREEM_CAPABILITIES Trial_periods = False"
| "CREEM_CAPABILITIES Refund = True"
| "CREEM_CAPABILITIES Subscription_cancel = True"
| "CREEM_CAPABILITIES Subscription_update = False"
| "CREEM_CAPABILITIES Customer_portal = False"
| "CREEM_CAPABILITIES Provider_hosted_checkout = True"
| "CREEM_CAPABILITIES Catalog_provisioning = True"

fun PAYPAL_CAPABILITIES :: capabilities where
  "PAYPAL_CAPABILITIES One_time_checkout = True"
| "PAYPAL_CAPABILITIES Recurring_subscription = True"
| "PAYPAL_CAPABILITIES Monthly_interval = True"
| "PAYPAL_CAPABILITIES Annual_interval = True"
| "PAYPAL_CAPABILITIES Weekly_interval = True"
| "PAYPAL_CAPABILITIES Trial_periods = True"
| "PAYPAL_CAPABILITIES Refund = True"
| "PAYPAL_CAPABILITIES Subscription_cancel = True"
| "PAYPAL_CAPABILITIES Subscription_update = False"
| "PAYPAL_CAPABILITIES Customer_portal = False"
| "PAYPAL_CAPABILITIES Provider_hosted_checkout = True"
| "PAYPAL_CAPABILITIES Catalog_provisioning = False"

fun WAFFO_CAPABILITIES :: capabilities where
  "WAFFO_CAPABILITIES One_time_checkout = True"
| "WAFFO_CAPABILITIES Recurring_subscription = True"
| "WAFFO_CAPABILITIES Monthly_interval = True"
| "WAFFO_CAPABILITIES Annual_interval = True"
| "WAFFO_CAPABILITIES Weekly_interval = True"
| "WAFFO_CAPABILITIES Trial_periods = True"
| "WAFFO_CAPABILITIES Refund = False"
| "WAFFO_CAPABILITIES Subscription_cancel = True"
| "WAFFO_CAPABILITIES Subscription_update = False"
| "WAFFO_CAPABILITIES Customer_portal = False"
| "WAFFO_CAPABILITIES Provider_hosted_checkout = True"
| "WAFFO_CAPABILITIES Catalog_provisioning = False"

subsection \<open>Connections\<close>

type_synonym credentials = "(string \<times> string) list"

record connection_input =
  in_applicationId :: string
  in_provider :: string
  in_name :: string
  in_mode :: environment
  in_credentials :: credentials
  in_metadata :: "json_object option"

text \<open>A result of a pure call that may throw.\<close>

definition lift_result :: "err + 'a \<Rightarrow> ('s, 'a) prog" where
  "lift_result r = (case r of Inl e \<Rightarrow> throw e | Inr a \<Rightarrow> return a)"

definition createProviderConnection ::
    "(credentials \<Rightarrow> err + string) \<Rightarrow> connection_input \<Rightarrow> (db, provider_connection) prog" where
  "createProviderConnection encrypt input =
     (let provider = toLowerCase (trim (in_provider input)); name = trim (in_name input)
      in bind (throw_if (provider = []) (Error ''Provider is required'')) (\<lambda>_.
         bind (throw_if (name = []) (Error ''Provider connection name is required'')) (\<lambda>_.
         bind (throw_if (in_credentials input = []) (Error ''Provider credentials are required'')) (\<lambda>_.
         bind (new_id ''pconn_'') (\<lambda>i.
         bind (lift_result (encrypt (in_credentials input))) (\<lambda>encrypted.
         bind now_date (\<lambda>now.
         insert_connection \<lparr>pc_id = i, pc_applicationId = in_applicationId input, pc_provider = provider,
           pc_name = name, pc_mode = in_mode input, pc_status = ConnActive, pc_encryptedCredentials = encrypted,
           pc_metadata = (case in_metadata input of None \<Rightarrow> [] | Some m \<Rightarrow> m), pc_updatedAt = now,
           pc_revokedAt = None\<rparr>)))))))"

definition getProviderConnectionApplicationId :: "string \<Rightarrow> db \<Rightarrow> string option" where
  "getProviderConnectionApplicationId connectionId s =
     map_option pc_applicationId (List.find (\<lambda>c. pc_id c = connectionId) (providerConnections s))"

definition getProviderConnection :: "string \<Rightarrow> string \<Rightarrow> db \<Rightarrow> provider_connection option" where
  "getProviderConnection applicationId connectionId s =
     List.find (\<lambda>c. pc_id c = connectionId \<and> pc_applicationId c = applicationId) (providerConnections s)"

definition listProviderConnections :: "string \<Rightarrow> db \<Rightarrow> provider_connection list" where
  "listProviderConnections applicationId s =
     filter (\<lambda>c. pc_applicationId c = applicationId) (providerConnections s)"

definition updateProviderConnection ::
    "(credentials \<Rightarrow> err + string) \<Rightarrow> string \<Rightarrow> string \<Rightarrow> string option \<Rightarrow> credentials option
     \<Rightarrow> (db, provider_connection option) prog" where
  "updateProviderConnection encrypt applicationId connectionId name creds =
     bind now_date (\<lambda>now.
     bind (case name of
         None \<Rightarrow> return id
       | Some n \<Rightarrow>
           bind (throw_if (trim n = []) (Error ''Provider connection name is required'')) (\<lambda>_.
           return (pc_name_update (\<lambda>_. trim n)))) (\<lambda>set_name.
     bind (case creds of
         None \<Rightarrow> return id
       | Some c \<Rightarrow>
           bind (throw_if (c = []) (Error ''Provider credentials are required'')) (\<lambda>_.
           bind (lift_result (encrypt c)) (\<lambda>encrypted.
           return (pc_encryptedCredentials_update (\<lambda>_. encrypted))))) (\<lambda>set_credentials.
     bind (throw_if (name = None \<and> creds = None)
       (Error ''No provider connection changes were supplied'')) (\<lambda>_.
     bind (update_connections
             (\<lambda>c. pc_id c = connectionId \<and> pc_applicationId c = applicationId \<and> pc_status c = ConnActive)
             (\<lambda>c. set_credentials (set_name (c\<lparr>pc_updatedAt := now\<rparr>)))) (\<lambda>rows.
     return (first_row rows))))))"

definition revokeProviderConnection :: "string \<Rightarrow> string \<Rightarrow> (db, bool) prog" where
  "revokeProviderConnection applicationId connectionId =
     bind now_date (\<lambda>now.
     bind (update_connections (\<lambda>c. pc_id c = connectionId \<and> pc_applicationId c = applicationId)
             (\<lambda>c. c\<lparr>pc_status := ConnRevoked, pc_revokedAt := Some now, pc_updatedAt := now\<rparr>)) (\<lambda>rows.
     return (first_row rows \<noteq> None)))"

subsection \<open>The context handed to an adapter\<close>

record connection_context =
  cx_id :: string
  cx_applicationId :: string
  cx_provider :: string
  cx_mode :: environment
  cx_metadata :: json_object
  cx_credentials :: credentials

definition loadProviderConnectionContext ::
    "(string \<Rightarrow> err + credentials) \<Rightarrow> string \<Rightarrow> string \<Rightarrow> (db, connection_context) prog" where
  "loadProviderConnectionContext decrypt applicationId connectionId =
     bind (gets (\<lambda>s. List.find (\<lambda>c. pc_id c = connectionId \<and> pc_applicationId c = applicationId
                                  \<and> pc_status c = ConnActive) (providerConnections s))) (\<lambda>found.
     bind (require ProviderConnectionNotFoundError found) (\<lambda>row.
     bind (lift_result (decrypt (pc_encryptedCredentials row))) (\<lambda>creds.
     return \<lparr>cx_id = pc_id row, cx_applicationId = pc_applicationId row, cx_provider = pc_provider row,
       cx_mode = pc_mode row, cx_metadata = pc_metadata row, cx_credentials = creds\<rparr>)))"

lemmas connection_defs [run_simps] = lift_result_def createProviderConnection_def
  getProviderConnectionApplicationId_def getProviderConnection_def listProviderConnections_def
  updateProviderConnection_def revokeProviderConnection_def loadProviderConnectionContext_def

end
