(* ===== verification/CatalogMapping.thy ===== *)
theory CatalogMapping
  imports Connections
begin

text \<open>
  The mapping of prices to provider products (\<open>src/src/modules/providers/catalog-mapping.ts\<close>):
  the comparison of a provider's product with a price, the guarded link of an existing product
  and the lookup a checkout makes. A product as an adapter normalizes it is a record
  (\<open>NormalizedProviderCatalogProduct\<close> of \<open>contract.ts\<close>); the \<open>details\<close> an error carries for the
  console are left out, its message and code are kept.
\<close>

subsection \<open>A provider's product\<close>

datatype product_status = ProdActive | ProdArchived | ProdUnknown

datatype product_mode = KnownMode environment | UnknownMode

record provider_product =
  np_providerProductId :: string
  np_name :: "string option"
  np_status :: product_status
  np_mode :: product_mode
  np_billingType :: billing_type
  np_amountMinor :: int
  np_currency :: string
  np_recurringInterval :: "interval option"
  np_intervalCount :: "int option"
  np_taxCategory :: "string option"

definition environment_text :: "environment \<Rightarrow> string" where
  "environment_text m = (case m of Test \<Rightarrow> ''test'' | Live \<Rightarrow> ''live'')"

definition mode_text :: "product_mode \<Rightarrow> string" where
  "mode_text m = (case m of KnownMode e \<Rightarrow> environment_text e | UnknownMode \<Rightarrow> ''unknown'')"

definition product_status_text :: "product_status \<Rightarrow> string" where
  "product_status_text st = (case st of ProdActive \<Rightarrow> ''active'' | ProdArchived \<Rightarrow> ''archived'' | ProdUnknown \<Rightarrow> ''unknown'')"

definition billing_text :: "billing_type \<Rightarrow> string" where
  "billing_text b = (case b of BillOneTime \<Rightarrow> ''one_time'' | BillRecurring \<Rightarrow> ''recurring'')"

definition interval_text :: "interval \<Rightarrow> string" where
  "interval_text i = (case i of Week \<Rightarrow> ''week'' | Month \<Rightarrow> ''month'' | Year \<Rightarrow> ''year'')"

text \<open>\<open>`${interval ?? "?"} x${count ?? "?"}`\<close>.\<close>

definition interval_label :: "interval option \<Rightarrow> int option \<Rightarrow> string" where
  "interval_label i n = (case i of None \<Rightarrow> ''?'' | Some x \<Rightarrow> interval_text x) @ '' x''
     @ (case n of None \<Rightarrow> ''?'' | Some k \<Rightarrow> string_of_int k)"

subsection \<open>Comparison with a price\<close>

datatype comparison_field = FieldCurrency | FieldAmountMinor | FieldBillingType | FieldBillingInterval | FieldMode | FieldStatus

record mismatch =
  mm_field :: comparison_field
  mm_monetplane :: string
  mm_provider :: string

definition compare_interval :: "price \<Rightarrow> provider_product \<Rightarrow> mismatch list" where
  "compare_interval price product =
     (if np_billingType product \<noteq> pp_billingType price
      then [\<lparr>mm_field = FieldBillingType, mm_monetplane = billing_text (pp_billingType price),
             mm_provider = billing_text (np_billingType product)\<rparr>]
      else if pp_billingType price = BillRecurring then
        (if np_recurringInterval product \<noteq> pp_recurringInterval price \<or> np_intervalCount product \<noteq> pp_intervalCount price
         then [\<lparr>mm_field = FieldBillingInterval,
                mm_monetplane = interval_label (pp_recurringInterval price) (pp_intervalCount price),
                mm_provider = interval_label (np_recurringInterval product) (np_intervalCount product)\<rparr>]
         else [])
      else if np_recurringInterval product \<noteq> None \<or> np_intervalCount product \<noteq> None
      then [\<lparr>mm_field = FieldBillingInterval, mm_monetplane = ''one-time (no interval)'',
             mm_provider = interval_label (np_recurringInterval product) (np_intervalCount product)\<rparr>]
      else [])"

definition compareProviderProductWithPrice :: "price \<Rightarrow> provider_product \<Rightarrow> environment \<Rightarrow> mismatch list" where
  "compareProviderProductWithPrice price product expectedMode =
     (if np_currency product \<noteq> toUpperCase (pp_currency price)
      then [\<lparr>mm_field = FieldCurrency, mm_monetplane = toUpperCase (pp_currency price), mm_provider = np_currency product\<rparr>]
      else [])
     @ (if np_amountMinor product \<noteq> pp_amountMinor price
        then [\<lparr>mm_field = FieldAmountMinor, mm_monetplane = string_of_int (pp_amountMinor price),
               mm_provider = string_of_int (np_amountMinor product)\<rparr>]
        else [])
     @ compare_interval price product
     @ (if np_mode product \<noteq> KnownMode expectedMode
        then [\<lparr>mm_field = FieldMode, mm_monetplane = environment_text expectedMode, mm_provider = mode_text (np_mode product)\<rparr>]
        else [])
     @ (if np_status product \<noteq> ProdActive
        then [\<lparr>mm_field = FieldStatus, mm_monetplane = ''active'', mm_provider = product_status_text (np_status product)\<rparr>]
        else [])"

definition json_text :: "string option \<Rightarrow> json" where
  "json_text t = (case t of None \<Rightarrow> JNull | Some x \<Rightarrow> JStr x)"

definition json_number :: "int option \<Rightarrow> json" where
  "json_number n = (case n of None \<Rightarrow> JNull | Some k \<Rightarrow> JNum k)"

definition verifiedSnapshotFor :: "int \<Rightarrow> price \<Rightarrow> provider_product \<Rightarrow> json_object" where
  "verifiedSnapshotFor now price product =
     [(''verifiedAt'', JStr (toISOString now)),
      (''providerProduct'', JObj
        [(''providerProductId'', JStr (np_providerProductId product)), (''name'', json_text (np_name product)),
         (''status'', JStr (product_status_text (np_status product))), (''mode'', JStr (mode_text (np_mode product))),
         (''billingType'', JStr (billing_text (np_billingType product))), (''amountMinor'', JNum (np_amountMinor product)),
         (''currency'', JStr (np_currency product)),
         (''recurringInterval'', json_text (map_option interval_text (np_recurringInterval product))),
         (''intervalCount'', json_number (np_intervalCount product)), (''taxCategory'', json_text (np_taxCategory product))]),
      (''monetplanePrice'', JObj
        [(''amountMinor'', JNum (pp_amountMinor price)), (''currency'', JStr (toUpperCase (pp_currency price))),
         (''billingType'', JStr (billing_text (pp_billingType price))),
         (''recurringInterval'', json_text (map_option interval_text (pp_recurringInterval price))),
         (''intervalCount'', json_number (pp_intervalCount price))])]"

text \<open>The catalog of the connection's metadata, which the adapters read before mappings existed.\<close>

definition legacyCatalogProductId :: "json_object \<Rightarrow> string \<Rightarrow> string option" where
  "legacyCatalogProductId metadata monetplanePriceId =
     (case map_of metadata ''catalog'' of
       Some (JObj catalog) \<Rightarrow>
         (case map_of catalog monetplanePriceId of
           Some (JStr mapping) \<Rightarrow> truthy (Some (trim mapping))
         | Some (JObj mapping) \<Rightarrow>
             (case map_of mapping ''productId'' of Some (JStr productId) \<Rightarrow> truthy (Some (trim productId)) | _ \<Rightarrow> None)
         | _ \<Rightarrow> None)
     | _ \<Rightarrow> None)"

definition loadOwnedPrice :: "string \<Rightarrow> string \<Rightarrow> db \<Rightarrow> (price \<times> product) option" where
  "loadOwnedPrice applicationId monetplanePriceId s =
     first_row (concat (map (\<lambda>price. map (\<lambda>product. (price, product))
         (filter (\<lambda>product. pr_id product = pp_productId price \<and> pr_applicationId product = applicationId) (products s)))
       (filter (\<lambda>price. pp_id price = monetplanePriceId) (prices s))))"

definition mapping_in_scope :: "string \<Rightarrow> environment \<Rightarrow> string \<Rightarrow> string \<Rightarrow> catalog_mapping \<Rightarrow> bool" where
  "mapping_in_scope applicationId env connectionId priceId m \<longleftrightarrow> cm_applicationId m = applicationId \<and> cm_environment m = env
     \<and> cm_providerConnectionId m = connectionId \<and> cm_monetplanePriceId m = priceId"

subsection \<open>Linking an existing product\<close>

record link_input =
  lk_applicationId :: string
  lk_environment :: environment
  lk_providerConnectionId :: string
  lk_monetplanePriceId :: string
  lk_providerProductId :: string
  lk_product :: provider_product

datatype link_outcome = Linked | AlreadyLinked | Recovered

text \<open>The guards before any row is written: the connection, the price and the trimmed product id.\<close>

definition link_guards :: "link_input \<Rightarrow> (db, string \<times> provider_connection \<times> price) prog" where
  "link_guards input =
     (let providerProductId = trim (lk_providerProductId input)
      in bind (throw_if (providerProductId = []) (CatalogLinkError ''Provider product ID is required'' ''invalid_input'')) (\<lambda>_.
         bind (gets (getProviderConnection (lk_applicationId input) (lk_providerConnectionId input))) (\<lambda>found.
         bind (require (CatalogLinkError ''Provider connection not found in the selected project'' ''connection_not_found'') found) (\<lambda>connection.
         bind (throw_if (pc_status connection \<noteq> ConnActive) (CatalogLinkError ''Provider connection is revoked'' ''connection_revoked'')) (\<lambda>_.
         bind (throw_if (pc_mode connection \<noteq> lk_environment input)
           (CatalogLinkError (''Provider connection belongs to the '' @ environment_text (pc_mode connection)
              @ '' environment, not '' @ environment_text (lk_environment input)) ''connection_environment_mismatch'')) (\<lambda>_.
         bind (gets (loadOwnedPrice (lk_applicationId input) (lk_monetplanePriceId input))) (\<lambda>row.
         bind (require (CatalogLinkError ''MonetPlane price not found in the selected project'' ''price_not_found'') row) (\<lambda>owned.
         bind (throw_if (pp_status (fst owned) \<noteq> StActive)
           (CatalogLinkError ''MonetPlane price is archived and cannot be linked'' ''price_inactive'')) (\<lambda>_.
         bind (throw_if (np_providerProductId (lk_product input) \<noteq> providerProductId)
           (CatalogLinkError ''Provider returned a different product than the requested ID'' ''provider_product_mismatch'')) (\<lambda>_.
         bind (throw_if (compareProviderProductWithPrice (fst owned) (lk_product input) (pc_mode connection) \<noteq> [])
           (CatalogLinkError ''Provider product does not match the MonetPlane price'' ''product_mismatch'')) (\<lambda>_.
         bind (throw_if (case legacyCatalogProductId (pc_metadata connection) (lk_monetplanePriceId input) of
               None \<Rightarrow> False | Some legacy \<Rightarrow> legacy \<noteq> providerProductId)
           (CatalogLinkError ''The connection's legacy metadata catalog already maps this price to a different provider product''
             ''legacy_mapping_conflict'')) (\<lambda>_.
         return (providerProductId, connection, fst owned)))))))))))))"

definition linked_row :: "string \<Rightarrow> link_input \<Rightarrow> string \<Rightarrow> string \<Rightarrow> json_object \<Rightarrow> int \<Rightarrow> catalog_mapping" where
  "linked_row i input provider productId snapshot now =
     \<lparr>cm_id = i, cm_applicationId = lk_applicationId input, cm_providerConnectionId = lk_providerConnectionId input,
      cm_environment = lk_environment input, cm_monetplanePriceId = lk_monetplanePriceId input, cm_provider = provider,
      cm_providerProductId = Some productId, cm_source = MapLinked, cm_status = MapSynced,
      cm_verifiedSnapshot = snapshot, cm_updatedAt = now, cm_lastVerifiedAt = Some now, cm_attemptToken = None\<rparr>"

definition mapping_conflict :: err where
  "mapping_conflict = CatalogLinkError ''This price already maps to a different provider product or is mid-provisioning; rebinding requires an explicit audited flow'' ''mapping_conflict''"

text \<open>A row that was there first: the same link is refreshed, a parked or failed intent adopted.\<close>

definition adopt_row :: "string \<Rightarrow> json_object \<Rightarrow> int \<Rightarrow> catalog_mapping \<Rightarrow> (db, link_outcome \<times> catalog_mapping) prog" where
  "adopt_row productId snapshot now existing =
     (if cm_providerProductId existing = Some productId \<and> cm_status existing = MapSynced then
        bind (update_mappings (\<lambda>m. cm_id m = cm_id existing)
          (\<lambda>m. m\<lparr>cm_verifiedSnapshot := snapshot, cm_lastVerifiedAt := Some now, cm_updatedAt := now\<rparr>)) (\<lambda>updated.
        return (AlreadyLinked, case first_row updated of None \<Rightarrow> existing | Some m \<Rightarrow> m))
      else if cm_status existing = MapNeedsReconciliation \<or> cm_status existing = MapFailed then
        bind (update_mappings
          (\<lambda>m. cm_id m = cm_id existing \<and> (cm_status m = MapNeedsReconciliation \<or> cm_status m = MapFailed))
          (\<lambda>m. m\<lparr>cm_providerProductId := Some productId, cm_status := MapSynced, cm_verifiedSnapshot := snapshot,
                 cm_lastVerifiedAt := Some now, cm_updatedAt := now\<rparr>)) (\<lambda>adopted.
        case first_row adopted of Some m \<Rightarrow> return (Recovered, m) | None \<Rightarrow> throw mapping_conflict)
      else throw mapping_conflict)"

definition linkProviderCatalogProduct :: "link_input \<Rightarrow> (db, link_outcome \<times> catalog_mapping) prog" where
  "linkProviderCatalogProduct input =
     bind (link_guards input) (\<lambda>(productId, connection, price).
     bind now_date (\<lambda>now.
     let snapshot = verifiedSnapshotFor now price (lk_product input)
     in bind (new_id ''pcmap_'') (\<lambda>i.
        bind (insert_mapping (linked_row i input (pc_provider connection) productId snapshot now)) (\<lambda>inserted.
        case inserted of
          Some m \<Rightarrow> return (Linked, m)
        | None \<Rightarrow>
            bind (gets (\<lambda>s. List.find (mapping_in_scope (lk_applicationId input) (lk_environment input)
                      (lk_providerConnectionId input) (lk_monetplanePriceId input)) (catalogMappings s))) (\<lambda>found.
            case found of
              None \<Rightarrow> throw mapping_conflict
            | Some existing \<Rightarrow> adopt_row productId snapshot now existing)))))"

subsection \<open>Lookups\<close>

text \<open>The mappings of a plane; the console orders them by age, newest first (the table is in
  insertion order).\<close>

definition listCatalogMappings :: "string \<Rightarrow> environment \<Rightarrow> db \<Rightarrow> catalog_mapping list" where
  "listCatalogMappings applicationId env s =
     rev (filter (\<lambda>m. cm_applicationId m = applicationId \<and> cm_environment m = env) (catalogMappings s))"

text \<open>A \<open>Map\<close> built from pairs keeps the last value of a key, so the pairs are read from the end.\<close>

definition resolveCheckoutProviderProductIds :: "string \<Rightarrow> string \<Rightarrow> string list \<Rightarrow> db \<Rightarrow> (string \<times> string) list" where
  "resolveCheckoutProviderProductIds applicationId connectionId priceIds s =
     (if priceIds = [] then []
      else rev (concat (map (\<lambda>m. case truthy (cm_providerProductId m) of
                 Some productId \<Rightarrow> [(cm_monetplanePriceId m, productId)] | None \<Rightarrow> [])
             (filter (\<lambda>m. cm_applicationId m = applicationId \<and> cm_providerConnectionId m = connectionId
                \<and> cm_monetplanePriceId m \<in> set priceIds \<and> cm_status m = MapSynced) (catalogMappings s)))))"

lemmas mapping_defs [run_simps] = environment_text_def mode_text_def product_status_text_def billing_text_def
  interval_text_def interval_label_def compare_interval_def compareProviderProductWithPrice_def json_text_def
  json_number_def verifiedSnapshotFor_def legacyCatalogProductId_def loadOwnedPrice_def mapping_in_scope_def
  link_guards_def linked_row_def mapping_conflict_def adopt_row_def linkProviderCatalogProduct_def
  listCatalogMappings_def resolveCheckoutProviderProductIds_def

end
