(* ===== verification/ProviderRuntime.thy ===== *)
theory ProviderRuntime
  imports CatalogMapping
begin

text \<open>
  The provider runtime (\<open>src/src/modules/providers/runtime.ts\<close>, \<open>registry.ts\<close>): it loads a
  connection, finds the adapter of its provider and calls it behind a capability gate. An
  adapter (\<open>PaymentProviderAdapter\<close>) is a record of its operations; an operation is a call to the
  provider's service, so it is a parameter: a function to a result or the error it throws. The
  argument \<open>env\<close> holds what the runtime does not compute: the decryption, the adapters registered
  at run time and the operations of the three built-in adapters. Registering a built-in adapter
  on first use only caches it, and the cache is left out.
\<close>

subsection \<open>What an adapter takes and returns\<close>

record checkout_line =
  kl_productId :: string
  kl_productName :: "string option"
  kl_priceId :: string
  kl_quantity :: int
  kl_unitAmountMinor :: int
  kl_providerProductId :: "string option"

record checkout_request =
  kq_applicationId :: string
  kq_monetplaneOrderId :: string
  kq_monetplaneCustomerId :: string
  kq_customerEmail :: "string option"
  kq_billingMode :: billing_mode
  kq_interval :: "interval option"
  kq_trialPeriodDays :: "int option"
  kq_currency :: string
  kq_items :: "checkout_line list"
  kq_successUrl :: string
  kq_cancelUrl :: string

record checkout_result =
  kr_providerCheckoutId :: string
  kr_checkoutUrl :: string

record catalog_product_input =
  kc_name :: string
  kc_description :: "string option"
  kc_amountMinor :: int
  kc_currency :: string
  kc_billingType :: billing_type
  kc_recurringInterval :: "interval option"
  kc_intervalCount :: "int option"
  kc_taxCategory :: "string option"
  kc_idempotencyKey :: string

record normalized_payment =
  kp_providerPaymentId :: string
  kp_status :: payment_status
  kp_amountMinor :: int
  kp_currency :: string
  kp_providerCustomerId :: "string option"

record normalized_subscription =
  kn_providerSubscriptionId :: string
  kn_status :: subscription_status
  kn_currentPeriodStart :: "string option"
  kn_currentPeriodEnd :: "string option"
  kn_cancelAtPeriodEnd :: bool

record normalized_refund =
  kf_providerRefundId :: string
  kf_providerPaymentId :: string
  kf_status :: refund_status
  kf_amountMinor :: "int option"

record adapter =
  ad_getCapabilities :: "connection_context \<Rightarrow> capabilities"
  ad_validateConnection :: "(connection_context \<Rightarrow> err + string) option"
  ad_createCheckout :: "connection_context \<Rightarrow> checkout_request \<Rightarrow> err + checkout_result"
  ad_getPayment :: "connection_context \<Rightarrow> string \<Rightarrow> err + normalized_payment"
  ad_getSubscription :: "connection_context \<Rightarrow> string \<Rightarrow> err + normalized_subscription"
  ad_cancelSubscription :: "connection_context \<Rightarrow> string \<Rightarrow> err + normalized_subscription"
  ad_updateSubscription :: "connection_context \<Rightarrow> string \<Rightarrow> string option \<Rightarrow> err + normalized_subscription"
  ad_refundPayment :: "connection_context \<Rightarrow> string \<Rightarrow> int option \<Rightarrow> string option \<Rightarrow> err + normalized_refund"
  ad_createCustomerPortalSession :: "(connection_context \<Rightarrow> string option \<Rightarrow> string option \<Rightarrow> err + string) option"
  ad_getCatalogProduct :: "(connection_context \<Rightarrow> string \<Rightarrow> err + provider_product) option"
  ad_createCatalogProduct :: "(connection_context \<Rightarrow> catalog_product_input \<Rightarrow> err + string) option"
  ad_verifyAndNormalize :: "connection_context \<Rightarrow> string \<Rightarrow> (string \<times> string) list \<Rightarrow> err + provider_event"

record provider_env =
  pe_decrypt :: "string \<Rightarrow> err + credentials"
  pe_registered :: "string \<Rightarrow> adapter option"
  pe_creem :: adapter
  pe_waffo :: adapter
  pe_paypal :: adapter

subsection \<open>Adapters and capabilities\<close>

definition resolveProviderAdapter :: "provider_env \<Rightarrow> string \<Rightarrow> err + adapter" where
  "resolveProviderAdapter env provider =
     (case pe_registered env (toLowerCase (trim provider)) of
       Some a \<Rightarrow> Inr a
     | None \<Rightarrow>
         if provider = ''creem'' then Inr ((pe_creem env)\<lparr>ad_getCapabilities := \<lambda>_. CREEM_CAPABILITIES\<rparr>)
         else if provider = ''waffo'' then Inr ((pe_waffo env)\<lparr>ad_getCapabilities := \<lambda>_. WAFFO_CAPABILITIES\<rparr>)
         else if provider = ''paypal'' then Inr ((pe_paypal env)\<lparr>ad_getCapabilities := \<lambda>_. PAYPAL_CAPABILITIES\<rparr>)
         else Inl (ProviderAdapterNotRegisteredError provider))"

definition requireCapability :: "string \<Rightarrow> capabilities \<Rightarrow> capability \<Rightarrow> (db, unit) prog" where
  "requireCapability provider capabilities c =
     throw_if (\<not> capabilities c) (UnsupportedProviderCapabilityError provider (capability_name c))"

definition checkoutCapability :: "billing_mode \<Rightarrow> capability" where
  "checkoutCapability mode = (if mode = OneTimeMode then One_time_checkout else Recurring_subscription)"

text \<open>The connection and its adapter, which every operation loads first.\<close>

definition load_adapter :: "provider_env \<Rightarrow> string \<Rightarrow> string \<Rightarrow> (db, connection_context \<times> adapter) prog" where
  "load_adapter env applicationId connectionId =
     bind (loadProviderConnectionContext (pe_decrypt env) applicationId connectionId) (\<lambda>connection.
     bind (lift_result (resolveProviderAdapter env (cx_provider connection))) (\<lambda>a.
     return (connection, a)))"

definition getProviderCapabilities :: "provider_env \<Rightarrow> string \<Rightarrow> string \<Rightarrow> (db, capabilities) prog" where
  "getProviderCapabilities env applicationId connectionId =
     bind (load_adapter env applicationId connectionId) (\<lambda>(connection, a).
     return (ad_getCapabilities a connection))"

definition validateProviderConnection :: "provider_env \<Rightarrow> string \<Rightarrow> string \<Rightarrow> (db, string) prog" where
  "validateProviderConnection env applicationId connectionId =
     bind (load_adapter env applicationId connectionId) (\<lambda>(connection, a).
     case ad_validateConnection a of
       Some validate \<Rightarrow> lift_result (validate connection)
     | None \<Rightarrow>
         let enabled = length (filter (ad_getCapabilities a connection)
               [One_time_checkout, Recurring_subscription, Monthly_interval, Annual_interval, Weekly_interval,
                Trial_periods, Refund, Subscription_cancel, Subscription_update, Customer_portal,
                Provider_hosted_checkout, Catalog_provisioning])
         in return (''Runtime adapter resolved and encrypted credentials loaded. '' @ string_of_nat enabled
              @ '' capabilities are enabled.''))"

subsection \<open>Checkout\<close>

definition with_mapping :: "(string \<times> string) list \<Rightarrow> checkout_line \<Rightarrow> checkout_line" where
  "with_mapping ids item = item\<lparr>kl_providerProductId := map_of ids (kl_priceId item)\<rparr>"

definition createProviderCheckout ::
    "provider_env \<Rightarrow> string \<Rightarrow> string \<Rightarrow> checkout_request \<Rightarrow> (db, checkout_result) prog" where
  "createProviderCheckout env applicationId connectionId input =
     bind (throw_if (kq_applicationId input \<noteq> applicationId) ProviderApplicationMismatchError) (\<lambda>_.
     bind (load_adapter env applicationId connectionId) (\<lambda>(connection, a).
     let capabilities = ad_getCapabilities a connection
     in bind (requireCapability (cx_provider connection) capabilities (checkoutCapability (kq_billingMode input))) (\<lambda>_.
        bind (if kq_billingMode input = SubscriptionMode \<and> kq_interval input \<noteq> None
              then requireCapability (cx_provider connection) capabilities
                     (if kq_interval input = Some Month then Monthly_interval else Annual_interval)
              else return ()) (\<lambda>_.
        bind (gets (resolveCheckoutProviderProductIds applicationId connectionId (map kl_priceId (kq_items input)))) (\<lambda>ids.
        lift_result (ad_createCheckout a connection (input\<lparr>kq_items := map (with_mapping ids) (kq_items input)\<rparr>)))))))"

subsection \<open>Catalog products\<close>

definition getProviderCatalogProduct :: "provider_env \<Rightarrow> string \<Rightarrow> string \<Rightarrow> string \<Rightarrow> (db, provider_product) prog" where
  "getProviderCatalogProduct env applicationId connectionId productId =
     bind (load_adapter env applicationId connectionId) (\<lambda>(connection, a).
     bind (require (ProviderCatalogLookupUnsupportedError (cx_provider connection)) (ad_getCatalogProduct a)) (\<lambda>lookup.
     lift_result (lookup connection productId)))"

definition interval_capability :: "interval \<Rightarrow> capability" where
  "interval_capability i = (if i = Week then Weekly_interval else if i = Year then Annual_interval else Monthly_interval)"

definition createProviderCatalogProduct ::
    "provider_env \<Rightarrow> string \<Rightarrow> string \<Rightarrow> catalog_product_input \<Rightarrow> (db, string) prog" where
  "createProviderCatalogProduct env applicationId connectionId input =
     bind (load_adapter env applicationId connectionId) (\<lambda>(connection, a).
     let capabilities = ad_getCapabilities a connection
     in bind (requireCapability (cx_provider connection) capabilities Catalog_provisioning) (\<lambda>_.
        bind (case kc_recurringInterval input of
            Some i \<Rightarrow>
              if kc_billingType input = BillRecurring
              then requireCapability (cx_provider connection) capabilities (interval_capability i)
              else return ()
          | None \<Rightarrow> return ()) (\<lambda>_.
        bind (require (ProviderOperationError (''Provider '' @ cx_provider connection
                @ '' does not support catalog product creation'') True) (ad_createCatalogProduct a)) (\<lambda>create.
        lift_result (create connection input)))))"

subsection \<open>Payments, subscriptions, refunds\<close>

definition getProviderPayment :: "provider_env \<Rightarrow> string \<Rightarrow> string \<Rightarrow> string \<Rightarrow> (db, normalized_payment) prog" where
  "getProviderPayment env applicationId connectionId paymentId =
     bind (load_adapter env applicationId connectionId) (\<lambda>(connection, a).
     lift_result (ad_getPayment a connection paymentId))"

definition getProviderSubscription :: "provider_env \<Rightarrow> string \<Rightarrow> string \<Rightarrow> string \<Rightarrow> (db, normalized_subscription) prog" where
  "getProviderSubscription env applicationId connectionId subscriptionId =
     bind (load_adapter env applicationId connectionId) (\<lambda>(connection, a).
     lift_result (ad_getSubscription a connection subscriptionId))"

definition cancelProviderSubscription :: "provider_env \<Rightarrow> string \<Rightarrow> string \<Rightarrow> string \<Rightarrow> (db, normalized_subscription) prog" where
  "cancelProviderSubscription env applicationId connectionId subscriptionId =
     bind (load_adapter env applicationId connectionId) (\<lambda>(connection, a).
     bind (requireCapability (cx_provider connection) (ad_getCapabilities a connection) Subscription_cancel) (\<lambda>_.
     lift_result (ad_cancelSubscription a connection subscriptionId)))"

definition updateProviderSubscription ::
    "provider_env \<Rightarrow> string \<Rightarrow> string \<Rightarrow> string \<Rightarrow> string option \<Rightarrow> (db, normalized_subscription) prog" where
  "updateProviderSubscription env applicationId connectionId subscriptionId priceId =
     bind (load_adapter env applicationId connectionId) (\<lambda>(connection, a).
     bind (requireCapability (cx_provider connection) (ad_getCapabilities a connection) Subscription_update) (\<lambda>_.
     lift_result (ad_updateSubscription a connection subscriptionId priceId)))"

definition refundProviderPayment ::
    "provider_env \<Rightarrow> string \<Rightarrow> string \<Rightarrow> string \<Rightarrow> int option \<Rightarrow> string option \<Rightarrow> (db, normalized_refund) prog" where
  "refundProviderPayment env applicationId connectionId paymentId amountMinor requestId =
     bind (load_adapter env applicationId connectionId) (\<lambda>(connection, a).
     bind (requireCapability (cx_provider connection) (ad_getCapabilities a connection) Refund) (\<lambda>_.
     lift_result (ad_refundPayment a connection paymentId amountMinor requestId)))"

definition createProviderCustomerPortalSession ::
    "provider_env \<Rightarrow> string \<Rightarrow> string \<Rightarrow> string option \<Rightarrow> string option \<Rightarrow> (db, string) prog" where
  "createProviderCustomerPortalSession env applicationId connectionId customerId returnUrl =
     bind (load_adapter env applicationId connectionId) (\<lambda>(connection, a).
     case ad_createCustomerPortalSession a of
       Some portal \<Rightarrow>
         if ad_getCapabilities a connection Customer_portal then lift_result (portal connection customerId returnUrl)
         else throw (UnsupportedProviderCapabilityError (cx_provider connection) ''customer_portal'')
     | None \<Rightarrow> throw (UnsupportedProviderCapabilityError (cx_provider connection) ''customer_portal''))"

definition verifyAndNormalizeProviderWebhook ::
    "provider_env \<Rightarrow> string \<Rightarrow> string \<Rightarrow> string \<Rightarrow> (string \<times> string) list \<Rightarrow> (db, provider_event) prog" where
  "verifyAndNormalizeProviderWebhook env applicationId connectionId rawBody headers =
     bind (load_adapter env applicationId connectionId) (\<lambda>(connection, a).
     lift_result (ad_verifyAndNormalize a connection rawBody headers))"

text \<open>How a failed provider call is classified: it certainly did nothing, or it may have.\<close>

definition classified_rejected :: "err \<Rightarrow> bool" where
  "classified_rejected e = (case e of
       ProviderOperationError m rejected \<Rightarrow> rejected
     | UnsupportedProviderCapabilityError p c \<Rightarrow> True
     | ProviderApplicationMismatchError \<Rightarrow> True
     | _ \<Rightarrow> False)"

lemmas runtime_defs [run_simps] = resolveProviderAdapter_def requireCapability_def checkoutCapability_def
  load_adapter_def getProviderCapabilities_def validateProviderConnection_def with_mapping_def
  createProviderCheckout_def getProviderCatalogProduct_def interval_capability_def createProviderCatalogProduct_def
  cancelProviderSubscription_def updateProviderSubscription_def refundProviderPayment_def
  createProviderCustomerPortalSession_def verifyAndNormalizeProviderWebhook_def classified_rejected_def

end
