(* ===== verification/BillingReconcile.thy ===== *)
theory BillingReconcile
  imports WebhookSubscriptions ProviderRuntime
begin

text \<open>
  The journal of the console's refunds and cancellations
  (\<open>src/src/server/control-plane/billing-operation-actions.ts\<close>, \<open>reconcileBillingOperation\<close>):
  once the provider has answered, one transaction brings the commerce tables in line with its
  answer. The journal row itself and the audit entry are written in the same transaction and
  are not part of this state; the row's resource id and the provider's normalized result are
  arguments. The payment or subscription is read before the transaction begins, so the
  transactions take the row that was read.
\<close>

definition update_payments :: "(payment \<Rightarrow> bool) \<Rightarrow> (payment \<Rightarrow> payment) \<Rightarrow> (db, payment list) prog" where
  "update_payments = update_rows ''payments'' payment_fits payment_check payments payments_update"

definition update_subscriptions ::
    "(subscription \<Rightarrow> bool) \<Rightarrow> (subscription \<Rightarrow> subscription) \<Rightarrow> (db, subscription list) prog" where
  "update_subscriptions = update_rows ''subscriptions'' (\<lambda>_. True) (\<lambda>_. True) subscriptions subscriptions_update"

subsection \<open>Refunds\<close>

definition journal_refund :: "normalized_refund \<Rightarrow> int \<Rightarrow> refund \<Rightarrow> refund" where
  "journal_refund outcome now r = r\<lparr>rf_status := kf_status outcome, rf_amountMinor := kf_amountMinor outcome,
     rf_updatedAt := now\<rparr>"

text \<open>A refund the provider confirmed closes payment, order and entitlements, whatever its amount;
  a failed order is not flipped.\<close>

definition close_refunded :: "string \<Rightarrow> payment \<Rightarrow> (db, unit) prog" where
  "close_refunded applicationId payment =
     bind now_date (\<lambda>now.
     bind (update_payments (\<lambda>p. py_id p = py_id payment) (\<lambda>p. p\<lparr>py_status := PayRefunded, py_updatedAt := now\<rparr>)) (\<lambda>_.
     case truthy (py_orderId payment) of
       None \<Rightarrow> return ()
     | Some orderId \<Rightarrow>
         bind (update_orders (\<lambda>r. od_id r = orderId \<and> od_status r \<in> {OrdPending, OrdPaid, OrdRefunded})
           (set_order_status OrdRefunded now)) (\<lambda>_.
         bind (revokeEntitlementsBySource applicationId OrderSource orderId) (\<lambda>_. return ()))))"

definition reconcileRefundTx :: "string \<Rightarrow> payment \<Rightarrow> normalized_refund \<Rightarrow> (db, unit) prog" where
  "reconcileRefundTx applicationId payment outcome =
     bind (new_id ''ref_'') (\<lambda>i.
     bind now_date (\<lambda>now.
     bind (upsert_refund
       \<lparr>rf_id = i, rf_applicationId = applicationId, rf_orderId = py_orderId payment, rf_paymentId = py_id payment,
        rf_providerConnectionId = py_providerConnectionId payment, rf_providerRefundId = kf_providerRefundId outcome,
        rf_environment = py_environment payment, rf_status = kf_status outcome,
        rf_amountMinor = kf_amountMinor outcome, rf_updatedAt = now\<rparr>
       (journal_refund outcome now)) (\<lambda>_.
     if kf_status outcome = RefSucceeded then close_refunded applicationId payment else return ())))"

definition reconcileRefund :: "string \<Rightarrow> string \<Rightarrow> normalized_refund \<Rightarrow> (db, unit) prog" where
  "reconcileRefund applicationId resourceId outcome =
     bind (throw_if (kf_providerRefundId outcome = [])
       (Error ''Provider refund ID is missing from the normalized provider result'')) (\<lambda>_.
     bind (case kf_amountMinor outcome of
         None \<Rightarrow> return ()
       | Some n \<Rightarrow> throw_if (\<not> isSafeInteger n \<or> n \<le> 0)
           (Error (''Provider refund amount must be a positive whole number, got '' @ string_of_int n))) (\<lambda>_.
     bind (gets (\<lambda>s. List.find (\<lambda>p. py_id p = resourceId \<and> py_applicationId p = applicationId) (payments s))) (\<lambda>found.
     bind (require (Error ''Payment disappeared before reconciliation'') found) (\<lambda>payment.
     transaction (reconcileRefundTx applicationId payment outcome)))))"

subsection \<open>Cancellations\<close>

text \<open>\<open>text ? new Date(text) : stored\<close>; the driver refuses to write an invalid date.\<close>

definition period_date :: "string option \<Rightarrow> int option \<Rightarrow> (db, int option) prog" where
  "period_date given stored = (case truthy given of
       None \<Rightarrow> return stored
     | Some t \<Rightarrow> (case dateParse t of None \<Rightarrow> throw (Error ''Invalid time value'') | Some d \<Rightarrow> return (Some d)))"

definition reconcileCancellationTx :: "string \<Rightarrow> subscription \<Rightarrow> normalized_subscription \<Rightarrow> (db, unit) prog" where
  "reconcileCancellationTx applicationId subscription outcome =
     bind (period_date (kn_currentPeriodStart outcome) (sb_currentPeriodStart subscription)) (\<lambda>start.
     bind (period_date (kn_currentPeriodEnd outcome) (sb_currentPeriodEnd subscription)) (\<lambda>end.
     bind now_date (\<lambda>now.
     bind (update_subscriptions (\<lambda>r. sb_id r = sb_id subscription)
       (follow_event (kn_status outcome) start end (kn_cancelAtPeriodEnd outcome) now)) (\<lambda>_.
     if kn_status outcome = SubCancelled \<and> \<not> kn_cancelAtPeriodEnd outcome then
       bind (revokeEntitlementsBySource applicationId SubscriptionSource (sb_id subscription)) (\<lambda>_.
       bind (revokeSubscriptionCreditsInTransaction
         \<lparr>vi_applicationId = applicationId, vi_subscriptionId = sb_id subscription,
          vi_environment = Some (sb_environment subscription), vi_reason = Some ReasonCancelled\<rparr>) (\<lambda>_.
       return ()))
     else return ()))))"

definition reconcileCancellation :: "string \<Rightarrow> string \<Rightarrow> normalized_subscription \<Rightarrow> (db, unit) prog" where
  "reconcileCancellation applicationId resourceId outcome =
     bind (gets (\<lambda>s. List.find (\<lambda>r. sb_id r = resourceId \<and> sb_applicationId r = applicationId) (subscriptions s))) (\<lambda>found.
     bind (require (Error ''Subscription disappeared before reconciliation'') found) (\<lambda>subscription.
     transaction (reconcileCancellationTx applicationId subscription outcome)))"

lemmas reconcile_defs [run_simps] = update_payments_def update_subscriptions_def journal_refund_def close_refunded_def
  reconcileRefundTx_def reconcileRefund_def period_date_def reconcileCancellationTx_def reconcileCancellation_def

end
