(* ===== verification/CommerceMachine.thy ===== *)
theory CommerceMachine
  imports WebhookInbox BillingReconcile
begin

text \<open>
  The commerce tables as a state machine. A webhook delivery commits three times, and each is
  a step of its own: the inbox row is received, the event is applied in one transaction, and
  after a throw the row is marked failed by an update of its own, without a lock. The console's
  reconciliations of refunds and cancellations are steps too. Steps of any number of deliveries
  and reconciliations interleave; a step may take any arguments that an earlier read could have
  given it. The machine interprets \<open>invariant_system\<close> twice: for every step, and for the steps that
  are not a failed mark of one inbox row, under which that row stays as it is once settled.
\<close>

subsection \<open>What every step keeps\<close>

definition commerce_inv :: "db \<Rightarrow> bool" where
  "commerce_inv s \<longleftrightarrow> inbox_ok s \<and> payments_ok s"

definition commerce_later :: "db \<Rightarrow> db \<Rightarrow> bool" where
  "commerce_later s t \<longleftrightarrow> inbox_later s t \<and> payments_kept s t \<and> orders_kept s t"

definition row_final :: "string \<Rightarrow> db \<Rightarrow> db \<Rightarrow> bool" where
  "row_final e s t \<longleftrightarrow> (\<forall>w \<in> set (webhookEvents s). wh_id w = e \<and> settled w \<longrightarrow> w \<in> set (webhookEvents t))"

lemma commerce_later_refl [simp]: "commerce_later s s"
  by (simp add: commerce_later_def payments_kept_eq)

lemma commerce_later_trans: "commerce_later s t \<Longrightarrow> commerce_later t u \<Longrightarrow> commerce_later s u"
  unfolding commerce_later_def
  using inbox_later_trans payments_kept_trans ordered.trans by blast

lemma row_final_refl [simp]: "row_final e s s"
  by (simp add: row_final_def)

lemma row_final_trans: "row_final e s t \<Longrightarrow> row_final e t u \<Longrightarrow> row_final e s u"
  by (simp add: row_final_def)

lemma row_final_subset: "set (webhookEvents s) \<subseteq> set (webhookEvents t) \<Longrightarrow> row_final e s t"
  by (auto simp: row_final_def)

subsection \<open>The steps of a delivery\<close>

lemma receive_adds:
  assumes "receiveEvent app conn input ev env d s = (x, t)"
  shows "set (webhookEvents s) \<subseteq> set (webhookEvents t)"
    and "payments t = payments s" "orders t = orders s" "providerConnections t = providerConnections s"
  using assms
  by (auto simp: receiveEvent_def bind_apply insert_webhook_event_def insert_or_ignore_def require_apply
      split: sum.splits option.splits if_splits prod.splits)

lemma receive_keeps:
  assumes run: "receiveEvent app conn input ev env d s = (x, t)" and acc: "accepted adapter app conn input s ev c d"
    and inv: "commerce_inv s"
  shows "commerce_inv t \<and> commerce_later s t \<and> row_final i s t"
proof -
  note a = receive_adds [OF run]
  have ok: "inbox_ok s" "payments_ok s" using inv by (simp_all add: commerce_inv_def)
  have "inbox_ok t \<and> inbox_later s t"
  proof (cases x)
    case (Inl er)
    then have "webhookEvents t = webhookEvents s"
      using run by (auto simp: receiveEvent_def bind_eq_Inl insert_webhook_event_def insert_or_ignore_def
          require_def split: if_splits option.splits)
    then show ?thesis using ok(1) a(4)
      by (simp add: inbox_ok_def inbox_later_def table_kept_refl same_event_def same_connection_def)
  next
    case (Inr y)
    then obtain e fresh where "x = Inr (e, fresh)" by (cases y) simp
    from received [OF ok(1) acc run [unfolded this]] show ?thesis by blast
  qed
  then show ?thesis
    using ok(2) a by (simp add: commerce_inv_def commerce_later_def payments_ok_def payments_kept_eq orders_kept_eq
        row_final_subset)
qed

lemma apply_keeps:
  assumes run: "transaction (applyDelivery app conn input ev env d e fresh) s = (x, t)" and inv: "commerce_inv s"
  shows "commerce_inv t \<and> commerce_later s t \<and> row_final i s t"
proof (cases x)
  case (Inl er)
  then have "t = s" using run by (simp add: transaction_eq_Inl)
  then show ?thesis using inv by simp
next
  case (Inr out)
  then have run': "applyDelivery app conn input ev env d e fresh s = (Inr out, t)" using run by simp
  have ok: "inbox_ok s" "payments_ok s" using inv by (simp_all add: commerce_inv_def)
  have k: "inbox_kept e s t" using honoursD [OF delivery_inbox run'] .
  then have l: "list_all2 (\<lambda>w x. same_event w x \<and> (wh_id w \<noteq> e \<longrightarrow> x = w)) (webhookEvents s) (webhookEvents t)"
    and c: "providerConnections t = providerConnections s" by (simp_all add: inbox_kept_def)
  have rows: "table_kept (\<lambda>w x. same_event w x \<and> (wh_id w \<noteq> e \<longrightarrow> x = w)) (webhookEvents s) (webhookEvents t)"
    using l list_all2_lengthD [OF l] by (simp add: table_kept_def)
  then have "table_kept same_event (webhookEvents s) (webhookEvents t)"
    by (auto simp: table_kept_def elim!: list_all2_mono)
  then have "inbox_later s t" using c by (simp add: inbox_later_def table_kept_refl same_connection_def)
  moreover have "row_final i s t"
    unfolding row_final_def
  proof (intro ballI impI)
    fix w assume w: "w \<in> set (webhookEvents s)" "wh_id w = i \<and> settled w"
    show "w \<in> set (webhookEvents t)"
    proof (cases "wh_id w = e")
      case True
      have find: "List.find (\<lambda>x. wh_id x = e) (webhookEvents s) = Some w"
        using find_by_id [of "webhookEvents s" w] ok(1) w(1) True by (simp add: inbox_ok_def)
      then have "wh_applicationId w = app" using run' by (auto simp: applyDelivery_def bind_eq_Inr)
      from settled_delivery [OF find this] w(2) run' have "t = s" by simp
      then show ?thesis using w(1) by simp
    next
      case False
      with table_kept_mem [OF rows w(1)] show ?thesis by blast
    qed
  qed
  ultimately show ?thesis
    using inbox_ok_kept [OF k ok(1)] honoursD [OF delivery_one_payment run'] delivery_payments [OF run' ok(2)]
      honoursD [OF delivery_orders run'] ok(2)
    by (simp add: commerce_inv_def commerce_later_def)
qed

lemma mark_is: "update_webhook_events (\<lambda>w. wh_id w = e) (fail_event msg) s = (x, t) \<Longrightarrow> t = failed_at e msg s"
  by (auto simp: update_webhook_events_def update_rows_def failed_at_def Let_def list_all_iff split: if_splits)

lemma failed_inbox: "inbox_kept e s (failed_at e msg s)"
  by (auto simp: failed_at_def inbox_kept_def update_where_def list_all2_map2 list_all2_same same_event_def fail_event_def)

lemma mark_keeps:
  assumes inv: "commerce_inv s"
  shows "commerce_inv (failed_at e msg s) \<and> commerce_later s (failed_at e msg s)
    \<and> (i \<noteq> e \<longrightarrow> row_final i s (failed_at e msg s))"
proof -
  have ok: "inbox_ok s" "payments_ok s" using inv by (simp_all add: commerce_inv_def)
  have "table_kept same_event (webhookEvents s) (webhookEvents (failed_at e msg s))"
    by (simp add: failed_at_def) (rule table_kept_update_where, simp_all add: same_event_def fail_event_def)
  then have "inbox_later s (failed_at e msg s)"
    by (simp add: inbox_later_def table_kept_refl same_connection_def failed_at_def)
  moreover have "i \<noteq> e \<longrightarrow> row_final i s (failed_at e msg s)"
    by (auto simp: row_final_def failed_at_def set_update_where)
  ultimately show ?thesis
    using inbox_ok_kept [OF failed_inbox ok(1)] ok(2)
    by (simp add: commerce_inv_def commerce_later_def payments_ok_def payments_kept_eq orders_kept_eq failed_at_def)
qed

text \<open>What a late mark does: a redelivery of an event that was applied is applied again.\<close>

lemma late_mark_reopens:
  assumes ok: "inbox_ok s" and w: "w \<in> set (webhookEvents s)" "wh_applicationId w = app"
    and mark: "update_webhook_events (\<lambda>x. wh_id x = wh_id w) (fail_event msg) s = (x, t)"
  shows "applyDelivery app conn input ev env d (wh_id w) fresh t =
    bind (update_webhook_events (\<lambda>x. wh_id x = wh_id w) (rearm input ev))
      (\<lambda>_. applyStored app conn env d (wh_id w) fresh ev) t"
proof -
  have "List.find (\<lambda>x. wh_id x = wh_id w) (webhookEvents s) = Some w"
    using find_by_id [of "webhookEvents s" w] ok w(1) by (simp add: inbox_ok_def)
  moreover have "List.find P (update_where P f ws) = Some (f a)" if "List.find P ws = Some a" "P (f a)"
    for P f a and ws :: "webhook_event list"
    using that by (induction ws) (auto simp: update_where_def split: if_splits)
  ultimately have "List.find (\<lambda>x. wh_id x = wh_id w) (webhookEvents t) = Some (fail_event msg w)"
    using mark_is [OF mark] by (simp add: failed_at_def fail_event_def)
  then show ?thesis
    using w(2) by (simp add: applyDelivery_def bind_apply require_apply throw_if_apply fail_event_def
        split: prod.split sum.split)
qed

subsection \<open>The steps of the console\<close>

text \<open>A reconciliation writes no inbox row and no connection, keeps which payment is which, and moves
  payments and orders forward only.\<close>

definition console_kept :: "db \<Rightarrow> db \<Rightarrow> bool" where
  "console_kept s t \<longleftrightarrow> webhookEvents t = webhookEvents s \<and> providerConnections t = providerConnections s
     \<and> map payment_slot (payments t) = map payment_slot (payments s) \<and> payments_kept s t \<and> orders_kept s t"

lemma console_kept_eq: "webhookEvents t = webhookEvents s \<Longrightarrow> providerConnections t = providerConnections s \<Longrightarrow>
    payments t = payments s \<Longrightarrow> orders t = orders s \<Longrightarrow> console_kept s t"
  by (simp add: console_kept_def payments_kept_eq orders_kept_eq)

lemma console_kept_trans: "console_kept s t \<Longrightarrow> console_kept t u \<Longrightarrow> console_kept s u"
  unfolding console_kept_def using payments_kept_trans ordered.trans by metis

lemma console_kept_credit: "honours console_kept (insert_account a)" "honours console_kept (insert_transaction t)"
  "honours console_kept (insert_bucket b)" "honours console_kept (update_accounts P f)"
  "honours console_kept (update_transactions Q g)" "honours console_kept (update_buckets U k)"
  unfolding credit_table_defs
  by (rule insert_or_ignore_kept insert_row_kept update_rows_kept, simp_all add: console_kept_eq)+

lemma console_kept_entitlements: "honours console_kept (insert_entitlement g)"
  "honours console_kept (update_entitlements P f)"
  unfolding entitlement_table_defs by (rule insert_or_ignore_kept update_rows_kept, simp_all add: console_kept_eq)+

lemma console_kept_commerce: "honours console_kept (upsert_refund r k)" "honours console_kept (update_subscriptions P f)"
  unfolding upsert_refund_def update_subscriptions_def
  by (rule update_rows_kept upsert_row_kept, simp_all add: console_kept_eq)+

lemma console_kept_payments:
  "honours console_kept (update_payments P (\<lambda>p. p\<lparr>py_status := PayRefunded, py_updatedAt := now\<rparr>))"
proof -
  have moves: "payment_moves a PayRefunded" for a by (cases a) simp_all
  show ?thesis
    unfolding update_payments_def
    by (rule update_rows_kept)
      (auto simp: console_kept_def payments_kept_def orders_kept_eq moves same_payment_def payment_slot_def
        map_update_where_same table_kept_refl intro!: table_kept_update_where)
qed

lemma console_kept_orders:
  "honours console_kept (update_orders (\<lambda>r. od_id r = i \<and> od_status r \<in> {OrdPending, OrdPaid, OrdRefunded})
    (set_order_status OrdRefunded now))"
  unfolding update_orders_def
  by (rule update_rows_kept)
    (auto simp: console_kept_def orders_kept_def payments_kept_eq same_order_def set_order_status_def
      intro!: table_kept_update_where)

interpretation console_credits: credit_frame console_kept
  by unfold_locales (simp_all add: console_kept_credit console_kept_eq, rule console_kept_trans)

interpretation console_access: entitlement_frame console_kept
  by unfold_locales (simp_all add: console_kept_entitlements console_kept_eq)

lemma console_refund: "honours console_kept (reconcileRefundTx app p outcome)"
proof -
  have "honours console_kept (close_refunded app p)"
    unfolding close_refunded_def
    by (intro console_credits.compose console_kept_payments console_kept_orders console_access.revokeBySource) simp_all
  then show ?thesis
    unfolding reconcileRefundTx_def
    by (intro console_credits.compose console_kept_commerce) simp_all
qed

lemma console_cancellation: "honours console_kept (reconcileCancellationTx app r answer)"
proof -
  have "honours console_kept (period_date given stored)" for given stored
    by (simp add: period_date_def split: option.split)
  then show ?thesis
    unfolding reconcileCancellationTx_def
    by (intro console_credits.compose console_kept_commerce console_access.revokeBySource console_credits.revokeInTransaction) simp_all
qed

lemma console_keeps:
  assumes "console_kept s t" and "commerce_inv s"
  shows "commerce_inv t \<and> commerce_later s t \<and> row_final i s t"
  using assms
  by (simp add: console_kept_def commerce_inv_def inbox_ok_def payments_ok_def commerce_later_def inbox_later_def
      table_kept_refl same_event_def same_connection_def row_final_subset)

subsection \<open>The machine\<close>

text \<open>
  What the other modules may do: open orders, add connections, write any table but payments and
  the inbox, let time pass.
\<close>

definition commerce_elsewhere :: "db \<Rightarrow> db \<Rightarrow> bool" where
  "commerce_elsewhere s t \<longleftrightarrow> payments t = payments s \<and> webhookEvents t = webhookEvents s
     \<and> table_kept (=) (orders s) (orders t) \<and> table_kept same_connection (providerConnections s) (providerConnections t)
     \<and> distinct (map pc_id (providerConnections t))"

text \<open>A step is labelled with the inbox row it marks failed, if it is such a mark.\<close>

inductive commerce_step :: "string option \<Rightarrow> db \<Rightarrow> db \<Rightarrow> bool" where
  receive: "accepted adapter app conn input s ev c d \<Longrightarrow> receiveEvent app conn input ev (pc_mode c) d s = (x, t) \<Longrightarrow>
    commerce_step None s t"
| deliver: "transaction (applyDelivery app conn input ev env d e fresh) s = (x, t) \<Longrightarrow> commerce_step None s t"
| mark: "update_webhook_events (\<lambda>w. wh_id w = e) (fail_event msg) s = (x, t) \<Longrightarrow> commerce_step (Some e) s t"
| refund: "transaction (reconcileRefundTx app p outcome) s = (x, t) \<Longrightarrow> commerce_step None s t"
| cancel: "transaction (reconcileCancellationTx app r answer) s = (x, t) \<Longrightarrow> commerce_step None s t"
| other: "commerce_elsewhere s t \<Longrightarrow> commerce_step None s t"

inductive_cases commerce_stepE: "commerce_step l s t"

definition commerce_moves :: "db \<Rightarrow> db \<Rightarrow> bool" where
  "commerce_moves s t \<longleftrightarrow> (\<exists>l. commerce_step l s t)"

text \<open>Every step but a failed mark of the row.\<close>

definition commerce_except :: "string \<Rightarrow> db \<Rightarrow> db \<Rightarrow> bool" where
  "commerce_except e s t \<longleftrightarrow> (\<exists>l. l \<noteq> Some e \<and> commerce_step l s t)"

definition commerce_init :: "db \<Rightarrow> bool" where
  "commerce_init s \<longleftrightarrow> webhookEvents s = [] \<and> payments s = [] \<and> distinct (map pc_id (providerConnections s))"

abbreviation commerce_reachable :: "db \<Rightarrow> bool" where
  "commerce_reachable \<equiv> reachable commerce_init commerce_moves"

lemma elsewhere_keeps:
  assumes e: "commerce_elsewhere s t" and inv: "commerce_inv s"
  shows "commerce_inv t \<and> commerce_later s t \<and> row_final i s t"
proof -
  have w: "webhookEvents t = webhookEvents s" and p: "payments t = payments s"
    and c: "table_kept same_connection (providerConnections s) (providerConnections t)"
    using e by (simp_all add: commerce_elsewhere_def)
  have "\<exists>d \<in> set (providerConnections t). pc_id d = wh_providerConnectionId x \<and> pc_applicationId d = wh_applicationId x"
    if x: "x \<in> set (webhookEvents s)" for x
  proof -
    have "\<exists>k \<in> set (providerConnections s). pc_id k = wh_providerConnectionId x \<and> pc_applicationId k = wh_applicationId x"
      using inv x unfolding commerce_inv_def inbox_ok_def by blast
    then obtain k where k: "k \<in> set (providerConnections s)" "pc_id k = wh_providerConnectionId x"
      "pc_applicationId k = wh_applicationId x" by (elim bexE conjE)
    obtain d where "d \<in> set (providerConnections t)" "same_connection k d" using table_kept_mem [OF c k(1)] by blast
    then show ?thesis using k by (auto simp: same_connection_def)
  qed
  then have "commerce_inv t"
    using e inv by (simp add: commerce_inv_def inbox_ok_def payments_ok_def w p commerce_elsewhere_def)
  moreover have "table_kept same_order (orders s) (orders t)"
    using e by (auto simp: commerce_elsewhere_def table_kept_def elim!: list_all2_mono)
  ultimately show ?thesis
    using p c table_kept_refl [of same_event "webhookEvents s"] row_final_subset [of s t i]
    by (simp add: w commerce_later_def inbox_later_def payments_kept_eq orders_kept_def same_event_def)
qed

lemma step_keeps:
  assumes "commerce_step l s t" and inv: "commerce_inv s"
  shows "commerce_inv t \<and> commerce_later s t \<and> (l \<noteq> Some i \<longrightarrow> row_final i s t)"
  using assms(1)
proof (cases rule: commerce_step.cases)
  case (receive adapter app conn input ev c d x)
  then show ?thesis using receive_keeps inv by blast
next
  case (deliver app conn input ev env d e fresh x)
  then show ?thesis using apply_keeps inv by blast
next
  case (mark e msg x)
  then show ?thesis using mark_keeps [OF inv, of e msg i] mark_is [OF mark(2)] by simp
next
  case (refund app p outcome x)
  then show ?thesis
    using console_keeps [OF honoursD [OF console_credits.transaction [OF console_refund] refund(2)] inv] by blast
next
  case (cancel app r answer x)
  then show ?thesis
    using console_keeps [OF honoursD [OF console_credits.transaction [OF console_cancellation] cancel(2)] inv] by blast
next
  case other
  then show ?thesis using elsewhere_keeps inv by blast
qed

interpretation deliveries: invariant_system commerce_init commerce_moves commerce_inv commerce_later
proof (unfold_locales, goal_cases)
  case (1 s) then show ?case by (simp add: commerce_init_def commerce_inv_def inbox_ok_def payments_ok_def)
next
  case (2 s t) then show ?case using step_keeps by (auto simp: commerce_moves_def)
next
  case (3 s t) then show ?case using step_keeps by (auto simp: commerce_moves_def)
next
  case (4 s) show ?case by simp
next
  case (5 s t u) then show ?case by (rule commerce_later_trans)
qed

interpretation undisturbed: invariant_system commerce_init "commerce_except e" commerce_inv "row_final e" for e
proof (unfold_locales, goal_cases)
  case (1 s) then show ?case by (rule deliveries.init_inv)
next
  case (2 s t) then show ?case using step_keeps by (auto simp: commerce_except_def)
next
  case (3 s t) then show ?case using step_keeps by (auto simp: commerce_except_def)
next
  case (4 s) show ?case by simp
next
  case (5 s t u) then show ?case by (rule row_final_trans)
qed

subsection \<open>Whole deliveries\<close>

text \<open>A delivery that nothing interrupts is a path of the machine, and it marks no settled row.\<close>

lemma process_path:
  assumes run: "processProviderWebhook adapter driver app conn input s = (r, t)" and inv: "commerce_inv s"
  obtains s1 s2 where "commerce_step None s s1" "commerce_step None s1 s2"
    and "t = s2 \<or> (\<exists>e. commerce_step (Some e) s2 t \<and> (\<forall>w \<in> set (webhookEvents s). settled w \<longrightarrow> wh_id w \<noteq> e))"
proof -
  have ok: "inbox_ok s" using inv by (simp add: commerce_inv_def)
  from run ok show thesis
  proof (cases rule: process_cases)
    case (refused er)
    then have "webhookEvents t = webhookEvents s" "providerConnections t = providerConnections s"
      "payments t = payments s" "orders t = orders s"
      by (cases s; cases t; simp add: only_ids_def)+
    then have "commerce_elsewhere s t" "commerce_elsewhere t t"
      using ok by (simp_all add: commerce_elsewhere_def table_kept_refl same_connection_def inbox_ok_def)
    then show thesis using that commerce_step.other by blast
  next
    case (applied ev c d e fresh s1 v out)
    have "commerce_step None s1 t"
      by (rule commerce_step.deliver [of app conn input ev "pc_mode c" d e fresh _ "Inr out"]) (use applied in simp)
    then show thesis using that commerce_step.receive [OF applied(1,2)] by blast
  next
    case (failed ev c d e fresh s1 v er s2)
    have "commerce_step None s1 s1"
      by (rule commerce_step.deliver [of app conn input ev "pc_mode c" d e fresh _ "Inl er"])
        (use failed in \<open>simp add: transaction_eq_Inl\<close>)
    moreover have "commerce_step (Some e) s1 t"
      by (rule commerce_step.mark [of e "eventErrorMessage driver er" s1
          "Inr (map (fail_event (eventErrorMessage driver er)) (filter (\<lambda>w. wh_id w = e) (webhookEvents s1)))"])
        (use failed(11) in \<open>simp add: update_webhook_events_def update_rows_eq_Inr failed_at_def list_all_iff\<close>)
    moreover have "wh_id w \<noteq> e" if w: "w \<in> set (webhookEvents s)" "settled w" for w
    proof
      assume "wh_id w = e"
      moreover have "w \<in> set (webhookEvents s1)" using receive_adds(1) [OF failed(2)] w(1) by blast
      moreover have "v \<in> set (webhookEvents s1)" "wh_id v = e" using find_SomeD [OF failed(3)] by simp_all
      ultimately have "w = v" using failed(6) distinct_key_eq [of wh_id "webhookEvents s1" w v] by (simp add: inbox_ok_def)
      then show False using failed(4) w(2) by simp
    qed
    ultimately show thesis using that commerce_step.receive [OF failed(1,2)] by blast
  qed
qed

lemma process_moves:
  assumes "processProviderWebhook adapter driver app conn input s = (r, t)" and "commerce_inv s"
  shows "commerce_moves\<^sup>*\<^sup>* s t"
proof -
  have any: "commerce_step l a b \<Longrightarrow> commerce_moves a b" for l a b by (auto simp: commerce_moves_def)
  from assms show ?thesis
    by (rule process_path) (auto dest!: any intro: rtranclp.rtrancl_into_rtrancl)
qed

lemma process_undisturbed:
  assumes "processProviderWebhook adapter driver app conn input s = (r, t)" and "commerce_inv s"
    and w: "w \<in> set (webhookEvents s)" "settled w"
  shows "(commerce_except (wh_id w))\<^sup>*\<^sup>* s t"
proof -
  have one: "commerce_step l a b \<Longrightarrow> l \<noteq> Some (wh_id w) \<Longrightarrow> commerce_except (wh_id w) a b" for l a b
    by (auto simp: commerce_except_def)
  from assms(1,2) show ?thesis
  proof (rule process_path)
    fix s1 s2
    assume s1: "commerce_step None s s1" and s2: "commerce_step None s1 s2"
      and t: "t = s2 \<or> (\<exists>e. commerce_step (Some e) s2 t \<and> (\<forall>w \<in> set (webhookEvents s). settled w \<longrightarrow> wh_id w \<noteq> e))"
    have "t = s2 \<or> commerce_except (wh_id w) s2 t" using t w one by fastforce
    then show ?thesis using one [OF s1] one [OF s2] by auto
  qed
qed

lemma reachable_steps: "step\<^sup>*\<^sup>* s t \<Longrightarrow> reachable init step s \<Longrightarrow> reachable init step t"
  by (induction rule: rtranclp_induct) (auto intro: reachable.next_state)

end
