(* ===== verification/CommerceExamples.thy ===== *)
theory CommerceExamples
  imports CommerceMachine CreditExamples
begin

text \<open>
  A concrete shop: one connection, one product that grants a feature and credits, one pending
  one-time order of 5000 with an open checkout session, and the deliveries of its payment, of
  a partial refund and of the rest. The commerce properties are instantiated on these runs.
\<close>

definition demo_order :: "order_status \<Rightarrow> commerce_order" where
  "demo_order st = \<lparr>od_id = ''o'', od_applicationId = ''app'', od_applicationCustomerId = ''cu'',
     od_billingMode = OneTimeMode, od_status = st, od_currency = ''USD'', od_environment = Live,
     od_totalAmountMinor = 5000, od_updatedAt = 1000\<rparr>"

definition demo_session :: "checkout_status \<Rightarrow> checkout_session" where
  "demo_session st = \<lparr>cs_id = ''chk'', cs_applicationId = ''app'', cs_orderId = ''o'', cs_providerConnectionId = ''con'',
     cs_environment = Live, cs_status = st, cs_providerCheckoutId = Some ''pc'', cs_checkoutUrl = Some ''u'',
     cs_successUrl = ''s'', cs_cancelUrl = ''c'', cs_updatedAt = 1000\<rparr>"

definition demo_connection :: provider_connection where
  "demo_connection = \<lparr>pc_id = ''con'', pc_applicationId = ''app'', pc_provider = ''stripe'', pc_name = ''main'',
     pc_mode = Live, pc_status = ConnActive, pc_encryptedCredentials = ''x'', pc_metadata = [], pc_updatedAt = 1000,
     pc_revokedAt = None\<rparr>"

definition demo_product :: product where
  "demo_product = \<lparr>pr_id = ''p'', pr_applicationId = ''app'', pr_key = ''pack'', pr_name = ''Pack'', pr_description = None,
     pr_status = StActive, pr_metadata = []\<rparr>"

definition demo_item :: order_item where
  "demo_item = \<lparr>oi_id = ''i'', oi_orderId = ''o'', oi_productId = ''p'', oi_priceId = ''pp'', oi_quantity = 2,
     oi_unitAmountMinor = 2500\<rparr>"

definition demo_shop :: db where
  "demo_shop = demo_db\<lparr>providerConnections := [demo_connection], products := [demo_product],
     productGrantConfigs := [\<lparr>pg_id = ''g'', pg_productId = ''p'', pg_grantType = GrantsEntitlement, pg_referenceKey = ''hd'', pg_quantity = None, pg_metadata = []\<rparr>,
       \<lparr>pg_id = ''g'', pg_productId = ''p'', pg_grantType = GrantsCredit, pg_referenceKey = ''img'', pg_quantity = Some 50, pg_metadata = []\<rparr>],
     orders := [demo_order OrdPending], orderItems := [demo_item], checkoutSessions := [demo_session ChkOpen]\<rparr>"

definition demo_notice :: "event_type \<Rightarrow> string \<Rightarrow> string option \<Rightarrow> int option \<Rightarrow> provider_event" where
  "demo_notice ty i refundId n = \<lparr>ev_provider = ''stripe'', ev_providerConnectionId = ''con'', ev_providerEventId = i,
     ev_providerEventName = ''x'', ev_type = ty, ev_applicationId = ''app'', ev_occurredAt = ''2026'',
     ev_providerPaymentId = Some ''pi'', ev_providerRefundId = refundId, ev_providerSubscriptionId = None,
     ev_monetplaneOrderId = Some ''o'', ev_monetplaneCustomerId = None, ev_amountMinor = n, ev_currency = Some ''USD'',
     ev_subscriptionStatus = None, ev_subscriptionPeriodStart = None, ev_subscriptionPeriodEnd = None,
     ev_cancelAtPeriodEnd = None\<rparr>"

lemmas [run_simps] = demo_order_def demo_session_def demo_connection_def demo_product_def demo_item_def demo_shop_def
  demo_notice_def

text \<open>An adapter that accepts what it is handed: the delivery's body names the event.\<close>

definition demo_adapter :: "provider_event \<Rightarrow> string \<Rightarrow> string \<Rightarrow> delivery \<Rightarrow> db \<Rightarrow> err + provider_event" where
  "demo_adapter ev app conn input s = Inr ev"

definition demo_body :: delivery where
  "demo_body = \<lparr>dl_rawBody = ''{}'', dl_headers = []\<rparr>"

lemmas [run_simps] = demo_adapter_def demo_body_def

abbreviation demo_deliver :: "provider_event \<Rightarrow> (db, webhook_outcome) prog" where
  "demo_deliver ev \<equiv> processProviderWebhook (demo_adapter ev) (\<lambda>_. ''db'') ''app'' ''con'' demo_body"

lemma demo_date [run_simps]: "dateParse ''2026'' = Some 1767225600000"
  by code_simp

subsection \<open>Paid, partly refunded, refunded\<close>

definition demo_payment :: "payment_status \<Rightarrow> payment" where
  "demo_payment st = \<lparr>py_id = ''pay_1'', py_applicationId = ''app'', py_orderId = Some ''o'', py_customerId = None,
     py_providerConnectionId = ''con'', py_providerPaymentId = ''pi'', py_environment = Live, py_status = st,
     py_amountMinor = 5000, py_currency = ''USD'', py_updatedAt = 1000\<rparr>"

definition demo_refund :: "string \<Rightarrow> string \<Rightarrow> int \<Rightarrow> refund" where
  "demo_refund i refundId n = \<lparr>rf_id = i, rf_applicationId = ''app'', rf_orderId = Some ''o'', rf_paymentId = ''pay_1'',
     rf_providerConnectionId = ''con'', rf_providerRefundId = refundId, rf_environment = Live,
     rf_status = RefSucceeded, rf_amountMinor = Some n, rf_updatedAt = 1000\<rparr>"

definition demo_received :: "string \<Rightarrow> webhook_status \<Rightarrow> provider_event \<Rightarrow> webhook_event" where
  "demo_received i st ev = \<lparr>wh_id = i, wh_applicationId = ''app'', wh_providerConnectionId = ''con'',
     wh_providerEventId = ev_providerEventId ev, wh_environment = Live, wh_providerEventName = ''x'',
     wh_normalizedType = ev_type ev, wh_status = st, wh_rawBody = ''{}'', wh_normalizedEvent = ev,
     wh_errorMessage = None, wh_occurredAt = 1767225600000, wh_processedAt = Some 1000\<rparr>"

definition demo_durable :: "entitlement_status \<Rightarrow> entitlement_grant" where
  "demo_durable st = \<lparr>eg_id = ''ent_2'', eg_applicationId = ''app'', eg_applicationCustomerId = ''cu'',
     eg_featureKey = ''hd'', eg_environment = Live, eg_status = st, eg_sourceType = EntOrder, eg_sourceId = ''o'',
     eg_sourceEventId = Some ''e1'', eg_idempotencyKey = ''order:o:durable:hd'', eg_validFrom = 1767225600000,
     eg_validUntil = None, eg_metadata = [], eg_updatedAt = 1000\<rparr>"

lemmas [run_simps] = demo_payment_def demo_refund_def demo_received_def demo_durable_def

abbreviation demo_success :: provider_event where
  "demo_success \<equiv> demo_notice PaymentSucceeded ''e1'' None (Some 5000)"

abbreviation demo_part :: provider_event where
  "demo_part \<equiv> demo_notice PaymentRefunded ''e2'' (Some ''r1'') (Some 2000)"

abbreviation demo_rest :: provider_event where
  "demo_rest \<equiv> demo_notice PaymentRefunded ''e3'' (Some ''r2'') (Some 9000)"

definition demo_paid :: db where
  "demo_paid = demo_shop\<lparr>uuids := 6,
     creditAccounts := [(demo_account 100 0 1)\<lparr>ca_id := ''credit_3''\<rparr>],
     creditTransactions := [(demo_row ''ctx_4'' GrantPurchase 100 100 0 ''order'' ''o'' ''grant:order:o:durable:img''
         [(''sourceEventId'', JStr ''e1'')])\<lparr>ct_creditAccountId := ''credit_3''\<rparr>],
     creditBuckets := [(demo_bucket ''bucket_5'' ''ctx_4'' 100 None)\<lparr>cb_creditAccountId := ''credit_3''\<rparr>],
     entitlementGrants := [demo_durable EntActive], orders := [demo_order OrdPaid],
     checkoutSessions := [demo_session ChkCompleted], payments := [demo_payment PaySucceeded],
     webhookEvents := [demo_received ''wh_0'' WhProcessed demo_success]\<rparr>"

definition demo_reduced :: db where
  "demo_reduced = demo_paid\<lparr>uuids := 9, refunds := [demo_refund ''ref_8'' ''r1'' 2000],
     webhookEvents := webhookEvents demo_paid @ [demo_received ''wh_6'' WhProcessed demo_part]\<rparr>"

definition demo_returned :: db where
  "demo_returned = demo_reduced\<lparr>uuids := 12, refunds := refunds demo_reduced @ [demo_refund ''ref_11'' ''r2'' 3000],
     payments := [demo_payment PayRefunded], orders := [demo_order OrdRefunded],
     entitlementGrants := [demo_durable EntRevoked],
     webhookEvents := webhookEvents demo_reduced @ [demo_received ''wh_9'' WhProcessed demo_rest]\<rparr>"

lemmas [run_simps] = demo_paid_def demo_reduced_def demo_returned_def

definition demo_processed :: "string \<Rightarrow> event_type \<Rightarrow> webhook_outcome" where
  "demo_processed i ty = \<lparr>wo_webhookEventId = i, wo_duplicate = False, wo_status = WhProcessed, wo_normalizedType = ty\<rparr>"

lemmas [run_simps] = demo_processed_def

lemma demo_success_run:
  "demo_deliver demo_success demo_shop = (Inr (demo_processed ''wh_0'' PaymentSucceeded), demo_paid)"
  by (simp add: run_simps cong: run_congs)

lemma demo_part_run:
  "demo_deliver demo_part demo_paid = (Inr (demo_processed ''wh_6'' PaymentRefunded), demo_reduced)"
  by (simp add: run_simps cong: run_congs)

lemma demo_rest_run:
  "demo_deliver demo_rest demo_reduced = (Inr (demo_processed ''wh_9'' PaymentRefunded), demo_returned)"
  by (simp add: run_simps cong: run_congs)

lemma demo_shop_reachable: "commerce_reachable demo_shop"
  by (rule reachable.start) (simp add: commerce_init_def run_simps)

text \<open>The success event received and not yet applied.\<close>

definition demo_waiting_row :: webhook_event where
  "demo_waiting_row = (demo_received ''wh_0'' WhReceived demo_success)\<lparr>wh_processedAt := None\<rparr>"

definition demo_waiting :: db where
  "demo_waiting = demo_shop\<lparr>uuids := 1, webhookEvents := [demo_waiting_row]\<rparr>"

lemma demo_applied:
  "transaction (applyDelivery ''app'' ''con'' demo_body demo_success Live 1767225600000 ''wh_0'' True) demo_waiting
   = (Inr (demo_processed ''wh_0'' PaymentSucceeded), demo_paid)"
  by (simp add: run_simps demo_waiting_def demo_waiting_row_def cong: run_congs)

lemma demo_waiting_reachable: "commerce_reachable demo_waiting"
proof (rule reachable.next_state [OF demo_shop_reachable])
  have acc: "accepted (demo_adapter demo_success) ''app'' ''con'' demo_body demo_shop demo_success demo_connection 1767225600000"
    by (simp add: accepted_def run_simps)
  have "receiveEvent ''app'' ''con'' demo_body demo_success (pc_mode demo_connection) 1767225600000 demo_shop
      = (Inr (''wh_0'', True), demo_waiting)"
    by (simp add: run_simps demo_waiting_def demo_waiting_row_def cong: run_congs)
  from commerce_step.receive [OF acc this] show "commerce_moves demo_shop demo_waiting"
    by (auto simp: commerce_moves_def)
qed

lemma demo_delivered: "commerce_reachable s \<Longrightarrow> commerce_moves\<^sup>*\<^sup>* s (snd (demo_deliver ev s))"
  by (rule process_moves [OF prod.collapse [symmetric]]) (rule deliveries.reachable_inv)

lemma demo_paid_reachable: "commerce_reachable demo_paid" "commerce_reachable demo_reduced" "commerce_reachable demo_returned"
  and demo_shop_steps: "commerce_moves\<^sup>*\<^sup>* demo_paid demo_returned"
proof -
  have a: "commerce_moves\<^sup>*\<^sup>* demo_shop demo_paid"
    using demo_delivered [OF demo_shop_reachable, of demo_success] by (simp add: demo_success_run)
  then show p: "commerce_reachable demo_paid" using demo_shop_reachable by (rule reachable_steps)
  have b: "commerce_moves\<^sup>*\<^sup>* demo_paid demo_reduced"
    using demo_delivered [OF p, of demo_part] by (simp add: demo_part_run)
  then show r: "commerce_reachable demo_reduced" using p by (rule reachable_steps)
  have c: "commerce_moves\<^sup>*\<^sup>* demo_reduced demo_returned"
    using demo_delivered [OF r, of demo_rest] by (simp add: demo_rest_run)
  then show "commerce_reachable demo_returned" using r by (rule reachable_steps)
  from b c show "commerce_moves\<^sup>*\<^sup>* demo_paid demo_returned" by (rule rtranclp_trans)
qed

end
