(* ===== verification/WebhookProperties.thy ===== *)
theory WebhookProperties
  imports CommerceExamples
begin

text \<open>
  The correctness properties of webhook processing: a provider event is applied once, a failed
  delivery leaves nothing but its inbox row, and payments and orders only move forward.
\<close>

subsection \<open>The inbox\<close>

lemma received_id: "receiveEvent app conn input ev env d s = (Inr (e, fresh), s') \<Longrightarrow> e \<noteq> []"
  by (auto simp: receiveEvent_def bind_eq_Inr insert_webhook_event_def insert_or_ignore_eq_Inr truthy_Some
      split: if_splits)

lemma find_by_slot:
  "distinct (map inbox_slot ws) \<Longrightarrow> w \<in> set ws \<Longrightarrow> event_key_is conn i w \<Longrightarrow>
   List.find (\<lambda>x. wh_providerConnectionId x = conn \<and> wh_providerEventId x = i) ws = Some w"
  by (induction ws) (auto simp: inbox_slot_def event_key_is_def image_iff)

text \<open>A delivery of an event whose row is settled is answered from the row.\<close>

lemma redelivery:
  assumes ok: "inbox_ok s" and acc: "accepted adapter app conn input s ev c d"
    and w: "w \<in> set (webhookEvents s)" "event_key_is conn (ev_providerEventId ev) w" "settled w" "wh_id w \<noteq> []"
  shows "processProviderWebhook adapter driver app conn input s =
    (Inr \<lparr>wo_webhookEventId = wh_id w, wo_duplicate = True, wo_status = wh_status w,
          wo_normalizedType = wh_normalizedType w\<rparr>, s\<lparr>uuids := Suc (uuids s)\<rparr>)"
proof -
  have found: "List.find (\<lambda>x. wh_providerConnectionId x = conn \<and> wh_providerEventId x = ev_providerEventId ev)
      (webhookEvents s) = Some w" "List.find (\<lambda>x. wh_id x = wh_id w) (webhookEvents s) = Some w"
    using ok w by (simp_all add: inbox_ok_def find_by_slot find_by_id)
  have "receiveEvent app conn input ev (pc_mode c) d s = (Inr (wh_id w, False), s\<lparr>uuids := Suc (uuids s)\<rparr>)"
    using w found(1)
    by (auto simp: receiveEvent_def bind_apply require_apply insert_webhook_event_def insert_or_ignore_def
        same_provider_event_def event_key_is_def truthy_def)
  moreover have "wh_applicationId w = app"
    by (rule own_connection [OF ok _ w(1)]) (use acc w in \<open>simp_all add: accepted_def event_key_is_def\<close>)
  ultimately show ?thesis
    using settled_delivery [of "wh_id w" "s\<lparr>uuids := Suc (uuids s)\<rparr>" w app] found(2) w(3)
    by (simp add: process_accepted [OF acc])
qed

text \<open>C28. A provider event is applied once: after a delivery's transaction on an inbox row has
  committed (the event was applied, ignored or found settled), every further delivery of an
  event with the row's connection and provider event id, at any later state and whatever its
  payload says, is answered as a duplicate from the same row and changes nothing, as long as no
  failed mark of this row is written in between. Deliveries that do not overlap write none
  (\<open>process_undisturbed\<close>); the mark is an update of its own, without a lock or a condition, so
  an overlapping delivery of the event that threw before can still write it, and then the next
  redelivery applies the event again (\<open>late_mark_reopens\<close>).\<close>

theorem webhook_applied_once:
  assumes "commerce_reachable s"
    and run: "transaction (applyDelivery app conn input ev env d e fresh) s = (Inr out, s')"
    and row: "w \<in> set (webhookEvents s)" "wh_id w = e"
    and later: "(commerce_except e)\<^sup>*\<^sup>* s' t"
    and acc: "accepted adapter app' conn' input' t ev' c d'"
    and same: "conn' = wh_providerConnectionId w" "ev_providerEventId ev' = wh_providerEventId w"
  shows "\<exists>st ty. processProviderWebhook adapter driver app' conn' input' t =
      (Inr \<lparr>wo_webhookEventId = e, wo_duplicate = True, wo_status = st, wo_normalizedType = ty\<rparr>,
       t\<lparr>uuids := Suc (uuids t)\<rparr>) \<and> st \<in> {WhProcessed, WhIgnored}"
proof -
  have inv: "commerce_inv s" by (rule deliveries.reachable_inv) fact
  then have ok: "inbox_ok s" by (simp add: commerce_inv_def)
  have step: "commerce_step None s s'" by (rule commerce_step.deliver [OF run])
  have inv': "commerce_inv s'" and l: "inbox_later s s'"
    using step_keeps [OF step inv] by (simp_all add: commerce_later_def)
  obtain x where x: "x \<in> set (webhookEvents s')" "same_event w x"
    using table_kept_mem [OF _ row(1)] l unfolding inbox_later_def by blast
  have "row_settled e s'" using run delivery_settles [OF _ ok] by simp
  then have xs: "settled x" "wh_id x = e" using x row(2) by (simp_all add: row_settled_def same_event_def)
  have "row_final e s' t" by (rule undisturbed.steps_later [OF later inv'])
  then have xt: "x \<in> set (webhookEvents t)" using x(1) xs by (simp add: row_final_def)
  have okt: "inbox_ok t" using undisturbed.steps_inv [OF later inv'] by (simp add: commerce_inv_def)
  then have ne: "wh_id x \<noteq> []" using xt by (auto simp: inbox_ok_def) (metis image_eqI)
  have key: "event_key_is conn' (ev_providerEventId ev') x" using x(2) same by (simp add: event_key_is_def same_event_def)
  note re = redelivery [OF okt acc xt key xs(1) ne, of driver]
  show ?thesis using re xs by (auto simp: settled_def)
qed

text \<open>The success event of the example, then two more deliveries (the refunds), then the success
  event again with another amount.\<close>

theorem webhook_applied_once_witness:
  "\<exists>st ty. demo_deliver (demo_notice PaymentSucceeded ''e1'' None (Some 1)) demo_returned =
      (Inr \<lparr>wo_webhookEventId = ''wh_0'', wo_duplicate = True, wo_status = st, wo_normalizedType = ty\<rparr>,
       demo_returned\<lparr>uuids := 13\<rparr>) \<and> st \<in> {WhProcessed, WhIgnored}"
proof -
  let ?w = "demo_received ''wh_0'' WhProcessed demo_success"
  have finished: "?w \<in> set (webhookEvents demo_paid)" "wh_id ?w = ''wh_0''" "settled ?w"
    by (simp_all add: demo_paid_def demo_received_def settled_def)
  have "?w \<in> set (webhookEvents demo_reduced)" using finished(1) by (simp add: demo_reduced_def)
  then have later: "(commerce_except ''wh_0'')\<^sup>*\<^sup>* demo_paid demo_returned"
    using process_undisturbed [OF demo_part_run _ finished(1,3)] process_undisturbed [OF demo_rest_run _ _ finished(3)]
      deliveries.reachable_inv [OF demo_paid_reachable(1)] deliveries.reachable_inv [OF demo_paid_reachable(2)] finished(2)
    by (metis rtranclp_trans)
  have acc: "accepted (demo_adapter (demo_notice PaymentSucceeded ''e1'' None (Some 1))) ''app'' ''con'' demo_body
      demo_returned (demo_notice PaymentSucceeded ''e1'' None (Some 1)) demo_connection 1767225600000"
    by (simp add: accepted_def run_simps)
  have row: "demo_waiting_row \<in> set (webhookEvents demo_waiting)" "wh_id demo_waiting_row = ''wh_0''"
    and same: "''con'' = wh_providerConnectionId demo_waiting_row"
    "ev_providerEventId (demo_notice PaymentSucceeded ''e1'' None (Some 1)) = wh_providerEventId demo_waiting_row"
    by (simp_all add: demo_waiting_def demo_waiting_row_def demo_received_def demo_notice_def)
  show ?thesis
    using webhook_applied_once [OF demo_waiting_reachable demo_applied row later acc same, of "\<lambda>_. ''db''"]
    by (simp add: demo_returned_def)
qed

lemma find_update_where: "List.find P xs = Some x \<Longrightarrow> P (f x) \<Longrightarrow> List.find P (update_where P f xs) = Some (f x)"
  by (induction xs) (auto simp: update_where_def split: if_splits)

lemma others_updated: "(\<And>w. k (f w) = k w) \<Longrightarrow>
    filter (\<lambda>x. k x \<noteq> e) (update_where (\<lambda>w. k w = e) f xs) = filter (\<lambda>x. k x \<noteq> e) xs"
  by (induction xs) auto

text \<open>C29. A delivery that fails leaves nothing behind but its inbox row: every other table is as
  before, the rows of other events are untouched, and the event's row, if the inbox was
  reached, is marked failed with the error's message, cut to 1000 characters.\<close>

theorem failed_delivery_leaves_its_row:
  assumes "commerce_reachable s" and run: "processProviderWebhook adapter driver app conn input s = (Inl er, s')"
  shows "s' = s\<lparr>uuids := uuids s', webhookEvents := webhookEvents s'\<rparr>
    \<and> (webhookEvents s' = webhookEvents s
      \<or> (\<exists>w e. {x \<in> set (webhookEvents s'). wh_id x \<noteq> e} = {x \<in> set (webhookEvents s). wh_id x \<noteq> e}
          \<and> List.find (\<lambda>x. wh_id x = e) (webhookEvents s') = Some w
          \<and> wh_providerConnectionId w = conn \<and> wh_applicationId w = app \<and> wh_status w = WhFailed
          \<and> wh_errorMessage w = Some (take 1000 (error_message driver er))))"
proof -
  have ok: "inbox_ok s" using deliveries.reachable_inv [OF assms(1)] by (simp add: commerce_inv_def)
  from run ok show ?thesis
  proof (cases rule: process_cases)
    case (refused er1)
    then show ?thesis by (cases s; cases s') (simp add: only_ids_def)
  next
    case (failed ev c d e fresh s1 w er1 s2)
    let ?f = "fail_event (eventErrorMessage driver er)"
    have e: "webhookEvents s' = update_where (\<lambda>w. wh_id w = e) ?f (webhookEvents s1)"
      using failed(10,11) by (simp add: failed_at_def)
    have w: "List.find (\<lambda>x. wh_id x = e) (webhookEvents s') = Some (?f w)"
      unfolding e by (rule find_update_where [OF failed(3)]) (use find_SomeD [OF failed(3)] in \<open>simp add: fail_event_def\<close>)
    have "{x \<in> set (webhookEvents s1). wh_id x \<noteq> e} = {x \<in> set (webhookEvents s). wh_id x \<noteq> e}"
      using failed(2) by (rule receive_run) auto
    moreover have "filter (\<lambda>x. wh_id x \<noteq> e) (webhookEvents s') = filter (\<lambda>x. wh_id x \<noteq> e) (webhookEvents s1)"
      unfolding e by (rule others_updated) (simp add: fail_event_def)
    ultimately have "{x \<in> set (webhookEvents s'). wh_id x \<noteq> e} = {x \<in> set (webhookEvents s). wh_id x \<noteq> e}"
      by (simp only: set_filter [symmetric])
    moreover have "providerConnections s1 = providerConnections s" by (subst failed(8)) simp
    then have "get_connection app conn s1 = Some c" using failed(1) by (simp add: accepted_def get_connection_def)
    then have "wh_applicationId w = app"
      by (rule own_connection [OF failed(6)]) (use failed(5) find_SomeD [OF failed(3)] in \<open>simp_all add: event_key_is_def\<close>)
    moreover have "s' = s\<lparr>uuids := uuids s', webhookEvents := webhookEvents s'\<rparr>"
      using failed(8,11) by (cases s; cases s1; cases s') (simp add: failed_at_def)
    ultimately show ?thesis
      using w failed(5)
      by (intro conjI disjI2 exI [of _ "?f w"] exI [of _ e]) (simp_all add: fail_event_def event_key_is_def eventErrorMessage_def)
  qed simp
qed

theorem failed_delivery_leaves_its_row_witness:
  "\<exists>s'. demo_deliver (demo_notice PaymentSucceeded ''e9'' None (Some (- 1))) demo_shop =
      (Inl (InvalidNormalizedCommerceEventError ''payment amount must be a non-negative whole number, got -1''), s')
    \<and> payments s' = [] \<and> orders s' = [demo_order OrdPending] \<and> creditTransactions s' = []
    \<and> map wh_status (webhookEvents s') = [WhFailed]"
proof -
  let ?ev = "demo_notice PaymentSucceeded ''e9'' None (Some (- 1))"
  obtain s' where run: "demo_deliver ?ev demo_shop =
      (Inl (InvalidNormalizedCommerceEventError ''payment amount must be a non-negative whole number, got -1''), s')"
    and w: "map wh_status (webhookEvents s') = [WhFailed]"
    by (simp add: run_simps cong: run_congs)
  from failed_delivery_leaves_its_row [OF demo_shop_reachable run]
  have "s' = demo_shop\<lparr>uuids := uuids s', webhookEvents := webhookEvents s'\<rparr>" by (rule conjunct1)
  then have "payments s' = payments demo_shop \<and> orders s' = orders demo_shop
      \<and> creditTransactions s' = creditTransactions demo_shop"
    by (cases s') simp
  then show ?thesis using run w by (simp add: demo_shop_def demo_db_def empty_db_def)
qed

subsection \<open>Payments and orders\<close>

text \<open>C30. A payment never changes what it records: whatever is delivered and whatever refunds and
  cancellations the console reconciles, in any interleaving of their transactions, a stored
  payment keeps its id, connection, provider id, amount, currency and environment, its order and
  customer once bound, and its status only moves forward: a settled payment never becomes pending
  or failed, and a refunded one stays refunded. There is never a second payment for the
  provider's payment.\<close>

theorem payments_only_move_forward:
  assumes "commerce_reachable s" and later: "commerce_moves\<^sup>*\<^sup>* s t" and p: "p \<in> set (payments s)"
  shows "\<exists>q. filter (\<lambda>x. py_providerConnectionId x = py_providerConnectionId p
        \<and> py_providerPaymentId x = py_providerPaymentId p) (payments t) = [q]
    \<and> py_id q = py_id p \<and> py_amountMinor q = py_amountMinor p \<and> py_currency q = py_currency p
    \<and> py_environment q = py_environment p
    \<and> (truthy (py_orderId p) \<noteq> None \<longrightarrow> py_orderId q = py_orderId p)
    \<and> (truthy (py_customerId p) \<noteq> None \<longrightarrow> py_customerId q = py_customerId p)
    \<and> (py_status p = PaySucceeded \<longrightarrow> py_status q \<in> {PaySucceeded, PayRefunded})
    \<and> (py_status p = PayRefunded \<longrightarrow> py_status q = PayRefunded)"
proof -
  have inv: "commerce_inv s" by (rule deliveries.reachable_inv) fact
  have "commerce_later s t" by (rule deliveries.steps_later [OF later inv])
  then have k: "table_kept same_payment (payments s) (payments t)" by (simp add: commerce_later_def payments_kept_def)
  obtain q where q: "q \<in> set (payments t)" "same_payment p q" using table_kept_mem [OF k p] by blast
  have eq: "q = p\<lparr>py_status := py_status q, py_orderId := py_orderId q, py_customerId := py_customerId q,
      py_updatedAt := py_updatedAt q\<rparr>" using q(2) by (simp only: same_payment_def)
  have cols: "py_id q = py_id p" "py_providerConnectionId q = py_providerConnectionId p"
    "py_providerPaymentId q = py_providerPaymentId p" "py_amountMinor q = py_amountMinor p"
    "py_currency q = py_currency p" "py_environment q = py_environment p"
    by (subst eq, simp)+
  have "distinct (map payment_slot (payments t))"
    using deliveries.steps_inv [OF later inv] by (simp add: commerce_inv_def payments_ok_def)
  then have "filter (\<lambda>x. payment_slot x = payment_slot p) (payments t) = [q]"
    using q(1) by (rule filter_keyed) (simp add: cols payment_slot_def)
  then have "filter (\<lambda>x. py_providerConnectionId x = py_providerConnectionId p
        \<and> py_providerPaymentId x = py_providerPaymentId p) (payments t) = [q]" by (simp add: payment_slot_def)
  moreover have "py_status p = PaySucceeded \<longrightarrow> py_status q \<in> {PaySucceeded, PayRefunded}"
    "py_status p = PayRefunded \<longrightarrow> py_status q = PayRefunded"
    using q(2) by (auto simp: same_payment_def)
  ultimately show ?thesis using q(2) cols unfolding same_payment_def by blast
qed

theorem payments_only_move_forward_witness:
  "payments demo_returned = [demo_payment PayRefunded]
    \<and> py_amountMinor (demo_payment PayRefunded) = py_amountMinor (demo_payment PaySucceeded)"
proof -
  have later: "commerce_moves\<^sup>*\<^sup>* demo_paid demo_returned" by (rule demo_shop_steps)
  have "demo_payment PaySucceeded \<in> set (payments demo_paid)" by (simp add: demo_paid_def)
  from payments_only_move_forward [OF demo_paid_reachable(1) later this]
  show ?thesis by (auto simp: demo_returned_def demo_payment_def)
qed

text \<open>C31. An order only moves forward: whatever is delivered or reconciled by the console, its
  customer, currency, total and billing mode are fixed, an order never becomes pending again, a
  paid order can only become refunded and a refunded one stays refunded.\<close>

theorem orders_only_move_forward:
  assumes "commerce_reachable s" and later: "commerce_moves\<^sup>*\<^sup>* s t" and r: "r \<in> set (orders s)"
  shows "\<exists>q \<in> set (orders t). (\<exists>now. q = r\<lparr>od_status := od_status q, od_updatedAt := now\<rparr>)
    \<and> (od_status r \<noteq> OrdPending \<longrightarrow> od_status q \<noteq> OrdPending)
    \<and> (od_status r = OrdPaid \<longrightarrow> od_status q \<in> {OrdPaid, OrdRefunded})
    \<and> (od_status r = OrdRefunded \<longrightarrow> od_status q = OrdRefunded)"
proof -
  have inv: "commerce_inv s" by (rule deliveries.reachable_inv) fact
  have "commerce_later s t" by (rule deliveries.steps_later [OF later inv])
  then have k: "table_kept same_order (orders s) (orders t)" by (simp add: commerce_later_def orders_kept_def)
  obtain q where q: "q \<in> set (orders t)" "same_order r q" using table_kept_mem [OF k r] by blast
  moreover have "od_status r \<noteq> OrdPending \<longrightarrow> od_status q \<noteq> OrdPending"
    "od_status r = OrdPaid \<longrightarrow> od_status q \<in> {OrdPaid, OrdRefunded}"
    "od_status r = OrdRefunded \<longrightarrow> od_status q = OrdRefunded"
    using q(2) by (cases "od_status r"; auto simp: same_order_def)+
  moreover have "q = r\<lparr>od_status := od_status q, od_updatedAt := od_updatedAt q\<rparr>" using q(2) by (simp only: same_order_def)
  ultimately show ?thesis by blast
qed

theorem orders_only_move_forward_witness:
  "\<exists>q \<in> set (orders demo_returned). od_status q = OrdRefunded \<and> od_totalAmountMinor q = 5000"
proof -
  have later: "commerce_moves\<^sup>*\<^sup>* demo_paid demo_returned" by (rule demo_shop_steps)
  have "demo_order OrdPaid \<in> set (orders demo_paid)" by (simp add: demo_paid_def)
  from orders_only_move_forward [OF demo_paid_reachable(1) later this]
  show ?thesis by (auto simp: demo_returned_def demo_order_def)
qed

end
