(* ===== verification/RefundFacts.thy ===== *)
theory RefundFacts
  imports WebhookInbox
begin

text \<open>
  Refund accounting: the totals the planner computes are sums over the refund rows, an applied
  refund event writes exactly one row, and what it does to the payment, the order and the
  order's entitlements depends on the confirmed total alone.
\<close>

subsection \<open>Totals of the refund rows\<close>

definition is_live :: "refund_status \<Rightarrow> bool" where
  "is_live st \<longleftrightarrow> st = RefPending \<or> st = RefSucceeded"

definition refund_weight :: "string \<Rightarrow> (refund_status \<Rightarrow> bool) \<Rightarrow> refund \<Rightarrow> int" where
  "refund_weight i P r = (if rf_paymentId r = i \<and> P (rf_status r)
     then (case rf_amountMinor r of None \<Rightarrow> 0 | Some n \<Rightarrow> n) else 0)"

text \<open>The amount refunded on a payment, over its rows in the statuses \<open>P\<close>.\<close>

definition refunded :: "string \<Rightarrow> (refund_status \<Rightarrow> bool) \<Rightarrow> refund list \<Rightarrow> int" where
  "refunded i P rows = sum_list (map (refund_weight i P) rows)"

lemma refund_sums_reserved:
  "rt_reserved (refund_sums (\<lambda>_. False) (filter (\<lambda>r. rf_paymentId r = i) rows)) = refunded i is_live rows"
proof (induction rows)
  case (Cons r rows)
  then show ?case
    by (cases "rf_status r") (auto simp: refunded_def refund_weight_def is_live_def Let_def split: option.split)
qed (simp add: refunded_def)

lemma refund_sums_confirmed:
  "(\<And>r. r \<in> set rows \<Longrightarrow> own r \<Longrightarrow> rf_status r = RefPending) \<Longrightarrow>
   rt_confirmed (refund_sums own (filter (\<lambda>r. rf_paymentId r = i) rows)) = refunded i (\<lambda>st. st = RefSucceeded) rows"
proof (induction rows)
  case (Cons r rows)
  then have "rt_confirmed (refund_sums own (filter (\<lambda>r. rf_paymentId r = i) rows)) = refunded i (\<lambda>st. st = RefSucceeded) rows"
    by simp
  moreover have "own r \<Longrightarrow> rf_status r = RefPending" using Cons.prems by simp
  ultimately show ?case
    by (cases "rf_status r") (auto simp: refunded_def refund_weight_def Let_def split: option.split)
qed (simp add: refunded_def)

definition refund_slot :: "refund \<Rightarrow> string \<times> string" where
  "refund_slot r = (rf_providerConnectionId r, rf_providerRefundId r)"

text \<open>The unique indexes of the tables a refund reads.\<close>

definition refund_keys :: "db \<Rightarrow> bool" where
  "refund_keys s \<longleftrightarrow> distinct (map rf_id (refunds s)) \<and> distinct (map refund_slot (refunds s))
     \<and> distinct (map od_id (orders s)) \<and> payments_ok s"

subsection \<open>The plan\<close>

definition after_supersede :: "db \<Rightarrow> payment \<Rightarrow> refund option \<Rightarrow> refund list" where
  "after_supersede s p known =
     (if known = None then update_where (is_synthetic (py_id p)) (supersede (clock s)) (refunds s) else refunds s)"

lemma supersede_run:
  assumes run: "supersedeSynthetic ev known (Some p) s = (Inr u, t)" and rid: "truthy (ev_providerRefundId ev) = Some rid"
    and ids: "distinct (map rf_id (refunds s))"
  shows "t = s\<lparr>refunds := after_supersede s p known\<rparr>"
proof (cases known)
  case (Some f)
  then show ?thesis using run rid by (simp add: supersedeSynthetic_def after_supersede_def)
next
  case None
  let ?syn = "is_synthetic (py_id p)"
  let ?in = "\<lambda>r. rf_id r \<in> set (map rf_id (filter ?syn (refunds s)))"
  have same: "update_where ?in g (refunds s) = update_where ?syn g (refunds s)" for g
  proof -
    have "?in r \<longleftrightarrow> ?syn r" if "r \<in> set (refunds s)" for r
      using distinct_key_eq [OF ids _ that] that by auto
    then show ?thesis by (simp add: update_where_def)
  qed
  show ?thesis
  proof (cases "filter ?syn (refunds s) = []")
    case True
    then have "update_where ?syn (supersede (clock s)) (refunds s) = refunds s"
      by (intro update_where_none) (simp add: filter_empty_conv)
    then show ?thesis using run rid None True by (simp add: supersedeSynthetic_def after_supersede_def bind_eq_Inr)
  next
    case False
    then show ?thesis
      using run rid None same [of "supersede (clock s)"]
      by (auto simp: supersedeSynthetic_def after_supersede_def bind_eq_Inr update_refunds_def update_rows_eq_Inr)
  qed
qed

lemma plan_run:
  assumes run: "planRefund ctx (Some p) n s = (Inr (RefundPlanned plan), s1)"
    and rid: "truthy (ev_providerRefundId (wc_event ctx)) = Some rid" and ids: "distinct (map rf_id (refunds s))"
  obtains known where "known = find_refund (wc_providerConnectionId ctx) rid s"
    and "\<forall>f. known = Some f \<longrightarrow> rf_paymentId f = py_id p \<and> rf_status f \<noteq> RefSucceeded"
    and "s1 = s\<lparr>refunds := after_supersede s p known\<rparr>"
    and "plan_amount (wc_event ctx) known (py_amountMinor p)
      (refund_sums (own_fact known) (filter (\<lambda>r. rf_paymentId r = py_id p) (refunds s1))) = Some plan"
    and "\<forall>k. ev_amountMinor (wc_event ctx) = Some k \<longrightarrow> 0 < k"
proof -
  let ?known = "find_refund (wc_providerConnectionId ctx) rid s"
  have fact: "recordedFact ctx (Some p) s = (Inr known, t) \<longleftrightarrow>
      t = s \<and> known = ?known \<and> (\<forall>f. ?known = Some f \<longrightarrow> rf_paymentId f = py_id p)" for known t
    by (auto simp: recordedFact_def rid bind_eq_Inr)
  have pos: "checkRefundAmount (wc_event ctx) x = (Inr u, t) \<longleftrightarrow>
      t = x \<and> (\<forall>k. ev_amountMinor (wc_event ctx) = Some k \<longrightarrow> isSafeInteger k \<and> 0 < k)" for u t x
    by (auto simp: checkRefundAmount_def split: option.split)
  have new: "map_option rf_status ?known \<noteq> Some RefSucceeded" and own: "\<forall>f. ?known = Some f \<longrightarrow> rf_paymentId f = py_id p"
    and k: "\<forall>k. ev_amountMinor (wc_event ctx) = Some k \<longrightarrow> 0 < k"
    and tail: "planUnsettled ctx (Some p) n ?known s = (Inr (RefundPlanned plan), s1)"
    using run by (auto simp: planRefund_def Let_def bind_eq_Inr fact pos split: if_splits)
  obtain t where sup: "supersedeSynthetic (wc_event ctx) ?known (Some p) s = (Inr (), t)"
    and plan: "plan_amount (wc_event ctx) ?known (py_amountMinor p)
      (refund_sums (own_fact ?known) (filter (\<lambda>r. rf_paymentId r = py_id p) (refunds t))) = Some plan" and t: "s1 = t"
    using tail by (auto simp: planUnsettled_def Let_def bind_eq_Inr refund_rows_def split: option.splits)
  show ?thesis
    by (rule that [of ?known]) (use new own k plan t supersede_run [OF sup rid ids] in auto)
qed

subsection \<open>Recording a refund\<close>

lemma same_provider_refund_is: "same_provider_refund r q \<longleftrightarrow> refund_slot q = refund_slot r"
  by (auto simp: same_provider_refund_def refund_slot_def)

lemma find_refund_is: "find_refund conn rid s = List.find (\<lambda>r. refund_slot r = (conn, rid)) (refunds s)"
  by (simp add: find_refund_def refund_slot_def)

definition order_grants_after :: "webhook_context \<Rightarrow> bool \<Rightarrow> db \<Rightarrow> entitlement_grant list" where
  "order_grants_after ctx full s = (case wc_order ctx of
       None \<Rightarrow> entitlementGrants s
     | Some r \<Rightarrow> if full then update_where (active_from_source (wc_applicationId ctx) EntOrder (od_id r))
         (end_grant EntRevoked (clock s)) (entitlementGrants s) else entitlementGrants s)"

lemma refund_recorded:
  assumes run: "recordRefund ctx p plan s = (Inr (), s')" and rid: "ev_providerRefundId (wc_event ctx) = Some rid"
  obtains row where "rf_paymentId row = py_id p" "refund_slot row = (wc_providerConnectionId ctx, rid)"
    "rf_status row = RefSucceeded" "rf_amountMinor row = Some (rp_amountMinor plan)"
    "refunds s' = (if find_refund (wc_providerConnectionId ctx) rid s = None then refunds s @ [row]
       else update_where (\<lambda>r. refund_slot r = (wc_providerConnectionId ctx, rid))
         (confirm_refund (rp_amountMinor plan) (clock s)) (refunds s))"
    "rf_id row \<notin> rf_id ` set (refunds s) \<or> find_refund (wc_providerConnectionId ctx) rid s \<noteq> None"
    "s' = s\<lparr>uuids := Suc (uuids s), refunds := refunds s', entitlementGrants := order_grants_after ctx (rp_fullyRefunded plan) s\<rparr>"
proof -
  define row where "row = \<lparr>rf_id = ''ref_'' @ string_of_nat (uuids s), rf_applicationId = wc_applicationId ctx,
     rf_orderId = map_option od_id (wc_order ctx), rf_paymentId = py_id p,
     rf_providerConnectionId = wc_providerConnectionId ctx, rf_providerRefundId = rid,
     rf_environment = wc_environment ctx, rf_status = RefSucceeded,
     rf_amountMinor = Some (rp_amountMinor plan), rf_updatedAt = clock s\<rparr>"
  have slot: "refund_slot row = (wc_providerConnectionId ctx, rid)" by (simp add: refund_slot_def row_def)
  obtain u x s1 where up: "upsert_refund row (confirm_refund (rp_amountMinor plan) (clock s)) (s\<lparr>uuids := Suc (uuids s)\<rparr>) = (Inr x, s1)"
    and rest: "(case wc_order ctx of Some order \<Rightarrow>
          if rp_fullyRefunded plan
          then bind (revokeEntitlementsBySource (wc_applicationId ctx) OrderSource (od_id order)) (\<lambda>_. return ())
          else return ()
      | None \<Rightarrow> return ()) s1 = (Inr (), s')"
    using run by (auto simp: recordRefund_def rid Let_def bind_eq_Inr row_def)
  have s1: "s1 = s\<lparr>uuids := Suc (uuids s), refunds :=
      (if find_refund (wc_providerConnectionId ctx) rid s = None then refunds s @ [row]
       else update_where (\<lambda>r. refund_slot r = (wc_providerConnectionId ctx, rid))
         (confirm_refund (rp_amountMinor plan) (clock s)) (refunds s))\<rparr>"
    and fresh: "rf_id row \<notin> rf_id ` set (refunds s) \<or> find_refund (wc_providerConnectionId ctx) rid s \<noteq> None"
    using up by (auto simp: upsert_refund_def upsert_row_eq_Inr same_provider_refund_is [abs_def] slot find_refund_is
        simp del: same_provider_refund_def split: option.splits)
  have "s' = s1\<lparr>entitlementGrants := order_grants_after ctx (rp_fullyRefunded plan) s\<rparr>"
    using rest by (auto simp: order_grants_after_def s1 revokeEntitlementsBySource_def update_entitlements_def
        bind_eq_Inr update_rows_eq_Inr entitlement_source_of.simps split: option.splits if_splits)
  then show ?thesis
    by (intro that [of row]) (use slot fresh in \<open>simp_all add: s1 row_def\<close>)
qed

definition order_after :: "webhook_context \<Rightarrow> bool \<Rightarrow> db \<Rightarrow> commerce_order list" where
  "order_after ctx full s = (case wc_order ctx of
       None \<Rightarrow> orders s
     | Some r \<Rightarrow> if full \<and> od_status r \<noteq> OrdRefunded
         then update_where (\<lambda>x. od_id x = od_id r \<and> od_applicationId x = wc_applicationId ctx
             \<and> od_status x \<in> {OrdPending, OrdPaid, OrdRefunded}) (set_order_status OrdRefunded (clock s)) (orders s)
         else orders s)"

lemma refund_moves_order:
  assumes m: "moved ctx (Some plan) s s'" and ty: "ev_type (wc_event ctx) = PaymentRefunded"
  shows "s' = s\<lparr>orders := order_after ctx (rp_fullyRefunded plan) s\<rparr>"
proof (cases "wc_order ctx")
  case None
  then show ?thesis using m by (simp add: moved_def order_after_def)
next
  case (Some r)
  then have "moveOrder (wc_applicationId ctx) r (next_order_status PaymentRefunded r (Some plan)) s = (Inr (), s')"
    using m ty by (simp add: moved_def applyOrder_def Let_def bind_eq_Inr)
  then show ?thesis
    by (cases "od_status r = OrdRefunded"; cases "rp_fullyRefunded plan"; cases s)
      (auto simp: order_after_def Some moveOrder_def next_order_status_def fully_refunded_def bind_eq_Inr
        update_orders_def update_rows_eq_Inr)
qed

lemma order_after_cong: "clock t = clock s \<Longrightarrow> orders t = orders s \<Longrightarrow> order_after ctx full t = order_after ctx full s"
  by (simp add: order_after_def split: option.split)

lemma order_grants_after_cong: "clock t = clock s \<Longrightarrow> entitlementGrants t = entitlementGrants s
    \<Longrightarrow> order_grants_after ctx full t = order_grants_after ctx full s"
  by (simp add: order_grants_after_def split: option.split)

subsection \<open>A refund event that is applied\<close>

lemma after_supersede_columns:
  "map rf_id (after_supersede s p known) = map rf_id (refunds s)"
  "map refund_slot (after_supersede s p known) = map refund_slot (refunds s)"
  by (simp_all add: after_supersede_def map_update_where_same supersede_def refund_slot_def)

lemma find_slot_map: "map k xs = map k ys \<Longrightarrow> List.find (\<lambda>r. k r = i) xs = None \<longleftrightarrow> List.find (\<lambda>r. k r = i) ys = None"
  unfolding find_None_iff by (metis imageE image_eqI list.set_map)

lemma refund_run:
  assumes run: "applyPaymentEvent ctx s = (Inr (None, ctx'), s')" and ty: "ev_type (wc_event ctx) = PaymentRefunded"
    and pid: "truthy (ev_providerPaymentId (wc_event ctx)) = Some pid"
    and p: "find_payment (wc_providerConnectionId ctx) pid s = Some p"
    and rid: "truthy (ev_providerRefundId (wc_event ctx)) = Some rid" and keys: "refund_keys s"
  obtains known plan row prow now where "known = find_refund (wc_providerConnectionId ctx) rid s"
    and "\<forall>f. known = Some f \<longrightarrow> rf_paymentId f = py_id p \<and> rf_status f \<noteq> RefSucceeded"
    and "plan_amount (wc_event ctx) known (py_amountMinor p) (refund_sums (own_fact known)
      (filter (\<lambda>r. rf_paymentId r = py_id p) (after_supersede s p known))) = Some plan"
    and "\<forall>k. ev_amountMinor (wc_event ctx) = Some k \<longrightarrow> 0 < k"
    and "rf_paymentId row = py_id p" "refund_slot row = (wc_providerConnectionId ctx, rid)"
      "rf_status row = RefSucceeded" "rf_amountMinor row = Some (rp_amountMinor plan)"
    and "refunds s' = (if known = None then after_supersede s p known @ [row]
       else update_where (\<lambda>r. refund_slot r = (wc_providerConnectionId ctx, rid))
         (confirm_refund (rp_amountMinor plan) (clock s)) (refunds s))"
    and "payments s' = update_where (\<lambda>q. payment_slot q = payment_slot p)
      (settle_payment (if rp_fullyRefunded plan then PayRefunded else py_status p) prow now) (payments s)"
    and "orders s' = order_after ctx' (rp_fullyRefunded plan) s"
    and "entitlementGrants s' = order_grants_after ctx' (rp_fullyRefunded plan) s"
  using run
proof (rule payment_run)
  fix pid' order1 customer order amount cur
  let ?c = "ctx\<lparr>wc_order := order, wc_customer := customer\<rparr>" and ?ex = "find_payment (wc_providerConnectionId ctx) pid s"
  assume pid': "truthy (ev_providerPaymentId (wc_event ctx)) = Some pid'"
    and app': "applyResolved ?c pid' (find_payment (wc_providerConnectionId ctx) pid' s) amount cur s = (Inr (None, ctx'), s')"
  have app: "applyResolved ?c pid (Some p) amount cur s = (Inr (None, ctx'), s')" using app' pid pid' p by simp
  have c: "ctx' = ?c" by (rule resolved_run(1) [OF app])
  obtain plan0 s1 where d: "decided ?c (Some p) amount s plan0 s1"
    and ap: "applyPlanned ?c pid (Some p) amount cur plan0 s1 = (Inr (None, ?c), s')"
    using resolved_run(2) [OF app] by auto
  obtain plan where plan0: "plan0 = Some plan" and pl: "planRefund ?c (Some p) amount s = (Inr (RefundPlanned plan), s1)"
    using d ty by (auto simp: decided_def)
  obtain q s2 s3 where
    pers: "persistPayment ?c pid (next_payment_status (ev_type (wc_event ?c)) (Some p) plan0) amount cur s1 = (Inr q, s2)"
    and m: "moved ?c plan0 s2 s3" and r: "recordRefund ?c q plan s3 = (Inr (), s')"
    using ap by (rule planned_run) (simp add: recorded_def plan0)
  have ids: "distinct (map rf_id (refunds s))" using keys by (simp add: refund_keys_def)
  obtain known where known: "known = find_refund (wc_providerConnectionId ctx) rid s"
    and guard: "\<forall>f. known = Some f \<longrightarrow> rf_paymentId f = py_id p \<and> rf_status f \<noteq> RefSucceeded"
    and s1: "s1 = s\<lparr>refunds := after_supersede s p known\<rparr>"
    and plan: "plan_amount (wc_event ctx) known (py_amountMinor p) (refund_sums (own_fact known)
      (filter (\<lambda>r. rf_paymentId r = py_id p) (refunds s1))) = Some plan"
    and pos: "\<forall>k. ev_amountMinor (wc_event ctx) = Some k \<longrightarrow> 0 < k"
    using plan_run [OF pl _ ids, of rid] rid by auto
  have plan': "plan_amount (wc_event ctx) known (py_amountMinor p) (refund_sums (own_fact known)
      (filter (\<lambda>r. rf_paymentId r = py_id p) (after_supersede s p known))) = Some plan"
    using plan by (simp add: s1)
  have st: "next_payment_status (ev_type (wc_event ?c)) (Some p) plan0
      = (if rp_fullyRefunded plan then PayRefunded else py_status p)"
    using ty by (simp add: next_payment_status_def plan0 fully_refunded_def)
  have p1: "find_payment (wc_providerConnectionId ctx) pid s1 = Some p" using p by (simp add: s1 find_payment_def)
  obtain prow now where q: "py_id q = py_id p"
    and s2: "s2 = s1\<lparr>uuids := Suc (uuids s1), payments := update_where (\<lambda>q. payment_slot q = payment_slot p)
      (settle_payment (if rp_fullyRefunded plan then PayRefunded else py_status p) prow now) (payments s1)\<rparr>"
    using pers [unfolded st]
  proof (rule persisted)
    fix row now
    assume r: "py_providerConnectionId row = wc_providerConnectionId ?c" "py_providerPaymentId row = pid"
      and eff: "case find_payment (wc_providerConnectionId ?c) pid s1 of
        None \<Rightarrow> q = row \<and> s2 = s1\<lparr>uuids := Suc (uuids s1), payments := payments s1 @ [row]\<rparr>
      | Some q' \<Rightarrow> q = settle_payment (if rp_fullyRefunded plan then PayRefunded else py_status p) row now q'
          \<and> s2 = s1\<lparr>uuids := Suc (uuids s1), payments := update_where (same_provider_payment row)
             (settle_payment (if rp_fullyRefunded plan then PayRefunded else py_status p) row now) (payments s1)\<rparr>"
    have "same_provider_payment row = (\<lambda>q. payment_slot q = payment_slot p)"
      using r find_SomeD [OF p [unfolded find_payment_def]]
      by (auto simp: same_provider_payment_def payment_slot_def fun_eq_iff)
    then show thesis using that [of row now] eff p1 by (simp add: settle_payment_def)
  qed
  have s3: "s3 = s2\<lparr>orders := order_after ?c (rp_fullyRefunded plan) s2\<rparr>"
    by (rule refund_moves_order) (use m ty in \<open>simp_all add: plan0\<close>)
  have rid': "ev_providerRefundId (wc_event ?c) = Some rid" using rid by (simp add: truthy_Some)
  have same: "find_refund (wc_providerConnectionId ctx) rid s3 = None \<longleftrightarrow> known = None"
    unfolding known find_refund_is
    by (rule find_slot_map) (simp add: s3 s2 s1 after_supersede_columns)
  from r rid' show thesis
  proof (rule refund_recorded)
    fix row
    assume row: "rf_paymentId row = py_id q" "refund_slot row = (wc_providerConnectionId ?c, rid)"
      "rf_status row = RefSucceeded" "rf_amountMinor row = Some (rp_amountMinor plan)"
      and rs: "refunds s' = (if find_refund (wc_providerConnectionId ?c) rid s3 = None then refunds s3 @ [row]
       else update_where (\<lambda>r. refund_slot r = (wc_providerConnectionId ?c, rid))
         (confirm_refund (rp_amountMinor plan) (clock s3)) (refunds s3))"
      and s': "s' = s3\<lparr>uuids := Suc (uuids s3), refunds := refunds s',
         entitlementGrants := order_grants_after ?c (rp_fullyRefunded plan) s3\<rparr>"
    have "payments s' = payments s3" "orders s' = orders s3"
      "entitlementGrants s' = order_grants_after ?c (rp_fullyRefunded plan) s3"
      by (subst s', simp)+
    moreover have "clock s2 = clock s" "orders s2 = orders s" "clock s3 = clock s" "entitlementGrants s3 = entitlementGrants s"
      "payments s3 = update_where (\<lambda>q. payment_slot q = payment_slot p)
        (settle_payment (if rp_fullyRefunded plan then PayRefunded else py_status p) prow now) (payments s)"
      "orders s3 = order_after ?c (rp_fullyRefunded plan) s2"
      by (simp_all add: s3 s2 s1)
    ultimately have eff: "payments s' = update_where (\<lambda>q. payment_slot q = payment_slot p)
        (settle_payment (if rp_fullyRefunded plan then PayRefunded else py_status p) prow now) (payments s)"
      "orders s' = order_after ctx' (rp_fullyRefunded plan) s"
      "entitlementGrants s' = order_grants_after ctx' (rp_fullyRefunded plan) s"
      using order_after_cong [of s2 s] order_grants_after_cong [of s3 s] by (simp_all only: c)
    have r1: "rf_paymentId row = py_id p" and r2: "refund_slot row = (wc_providerConnectionId ctx, rid)"
      using row(1,2) q by simp_all
    have rs3: "refunds s3 = after_supersede s p known" "clock s3 = clock s" by (simp_all add: s3 s2 s1)
    have r3: "refunds s' = (if known = None then after_supersede s p known @ [row]
       else update_where (\<lambda>r. refund_slot r = (wc_providerConnectionId ctx, rid))
         (confirm_refund (rp_amountMinor plan) (clock s)) (refunds s))"
    proof (cases "known = None")
      case True
      then show ?thesis using rs same rs3 by simp
    next
      case False
      then have "after_supersede s p known = refunds s" by (auto simp: after_supersede_def)
      then show ?thesis using rs same rs3 False by auto
    qed
    show thesis by (rule that [OF known guard plan' pos r1 r2 row(3,4) r3 eff])
  qed
qed

subsection \<open>What a refund event books\<close>

lemma refunded_append: "refunded i P (rows @ [r]) = refunded i P rows + refund_weight i P r"
  by (simp add: refunded_def)

lemma refunded_superseded: "refunded i (\<lambda>st. st = RefSucceeded) (after_supersede s p known)
    = refunded i (\<lambda>st. st = RefSucceeded) (refunds s)"
  by (simp add: refunded_def after_supersede_def)
    (intro impI sum_update_where_same, simp add: refund_weight_def supersede_def is_synthetic_def)

text \<open>The amount of an applied refund event, and its totals: the confirmed total grows by exactly
  the amount; a fact that was not pending stays within the captured amount.\<close>

lemma refund_books:
  assumes run: "applyPaymentEvent ctx s = (Inr (None, ctx'), s')" and ty: "ev_type (wc_event ctx) = PaymentRefunded"
    and pid: "truthy (ev_providerPaymentId (wc_event ctx)) = Some pid"
    and p: "find_payment (wc_providerConnectionId ctx) pid s = Some p"
    and rid: "truthy (ev_providerRefundId (wc_event ctx)) = Some rid" and keys: "refund_keys s"
  obtains plan :: refund_plan where
    "refunded (py_id p) (\<lambda>st. st = RefSucceeded) (refunds s')
       = refunded (py_id p) (\<lambda>st. st = RefSucceeded) (refunds s) + rp_amountMinor plan"
    and "rp_fullyRefunded plan \<longleftrightarrow> py_amountMinor p \<le> refunded (py_id p) (\<lambda>st. st = RefSucceeded) (refunds s')"
    and "map_option rf_status (find_refund (wc_providerConnectionId ctx) rid s) \<noteq> Some RefPending \<longrightarrow>
       0 < rp_amountMinor plan \<and> refunded (py_id p) is_live (refunds s') \<le> py_amountMinor p
       \<and> (\<forall>k. ev_amountMinor (wc_event ctx) = Some k \<longrightarrow> rp_amountMinor plan \<le> k)"
    and "map_option rf_status (find_refund (wc_providerConnectionId ctx) rid s) = Some RefPending \<longrightarrow>
       (\<forall>k. ev_amountMinor (wc_event ctx) = Some k \<longrightarrow> rp_amountMinor plan = k)"
    and "\<exists>st row now. payments s' = update_where (\<lambda>q. payment_slot q = payment_slot p) (settle_payment st row now) (payments s)
       \<and> st = (if rp_fullyRefunded plan then PayRefunded else py_status p)"
    and "orders s' = order_after ctx' (rp_fullyRefunded plan) s"
    and "entitlementGrants s' = order_grants_after ctx' (rp_fullyRefunded plan) s"
  using assms
proof (rule refund_run)
  fix known plan row prow now
  let ?i = "py_id p" and ?ok = "\<lambda>st. st = RefSucceeded" and ?rs = "after_supersede s p known"
  assume known: "known = find_refund (wc_providerConnectionId ctx) rid s"
    and guard: "\<forall>f. known = Some f \<longrightarrow> rf_paymentId f = py_id p \<and> rf_status f \<noteq> RefSucceeded"
    and plan: "plan_amount (wc_event ctx) known (py_amountMinor p) (refund_sums (own_fact known)
      (filter (\<lambda>r. rf_paymentId r = py_id p) ?rs)) = Some plan"
    and pos: "\<forall>k. ev_amountMinor (wc_event ctx) = Some k \<longrightarrow> 0 < k"
    and row: "rf_paymentId row = py_id p" "refund_slot row = (wc_providerConnectionId ctx, rid)"
      "rf_status row = RefSucceeded" "rf_amountMinor row = Some (rp_amountMinor plan)"
    and rs': "refunds s' = (if known = None then ?rs @ [row]
       else update_where (\<lambda>r. refund_slot r = (wc_providerConnectionId ctx, rid))
         (confirm_refund (rp_amountMinor plan) (clock s)) (refunds s))"
    and eff: "payments s' = update_where (\<lambda>q. payment_slot q = payment_slot p)
      (settle_payment (if rp_fullyRefunded plan then PayRefunded else py_status p) prow now) (payments s)"
      "orders s' = order_after ctx' (rp_fullyRefunded plan) s"
      "entitlementGrants s' = order_grants_after ctx' (rp_fullyRefunded plan) s"
  let ?sums = "refund_sums (own_fact known) (filter (\<lambda>r. rf_paymentId r = ?i) ?rs)"
  have f: "f \<in> set (refunds s)" "refund_slot f = (wc_providerConnectionId ctx, rid)" if "known = Some f" for f
    using find_SomeD [OF that [unfolded known find_refund_is]] by simp_all
  have own: "rf_status r = RefPending" if "r \<in> set ?rs" "own_fact known r" for r
  proof -
    obtain f where f': "known = Some f" "rf_status f = RefPending" "rf_id r = rf_id f"
      using \<open>own_fact known r\<close> by (auto simp: own_fact_def split: option.splits)
    have "r \<in> set (refunds s)" using that(1) f'(1) by (simp add: after_supersede_def)
    then have "r = f"
      using keys f(1) [OF f'(1)] f'(3) by (intro distinct_key_eq [of rf_id]) (simp_all add: refund_keys_def)
    then show ?thesis using f' by simp
  qed
  have confirmed: "rt_confirmed ?sums = refunded ?i ?ok (refunds s)"
    using refund_sums_confirmed [of ?rs "own_fact known" ?i] own by (simp add: refunded_superseded)
  have total: "refunded ?i P (refunds s') = (case known of None \<Rightarrow> refunded ?i P ?rs | Some f \<Rightarrow>
      refunded ?i P (refunds s) - refund_weight ?i P f) + (if P RefSucceeded then rp_amountMinor plan else 0)" for P
  proof (cases known)
    case None
    then show ?thesis using rs' row by (simp add: refunded_append refund_weight_def)
  next
    case (Some f)
    have "distinct (map refund_slot (refunds s))" using keys by (simp add: refund_keys_def)
    from sum_update_row [OF this f(1) [OF Some], of "refund_weight ?i P" "confirm_refund (rp_amountMinor plan) (clock s)"]
    show ?thesis
      using rs' Some f(2) [OF Some] guard by (simp add: refunded_def) (simp add: refund_weight_def confirm_refund_def)
  qed
  have unsucceeded: "refund_weight ?i ?ok f = 0" if "known = Some f" for f
    using that guard by (simp add: refund_weight_def)
  have booked: "refunded ?i ?ok (refunds s') = refunded ?i ?ok (refunds s) + rp_amountMinor plan"
    using total [of ?ok] unsucceeded by (simp add: refunded_superseded split: option.split)
  have full: "rp_fullyRefunded plan \<longleftrightarrow> py_amountMinor p \<le> rt_confirmed ?sums + rp_amountMinor plan"
    using plan by (auto simp: plan_amount_def Let_def split: if_splits option.splits)
  have amount: "if map_option rf_status known = Some RefPending
      then \<forall>k. ev_amountMinor (wc_event ctx) = Some k \<longrightarrow> rp_amountMinor plan = k
      else 0 < rp_amountMinor plan \<and> rt_reserved ?sums + rp_amountMinor plan \<le> py_amountMinor p
        \<and> (\<forall>k. ev_amountMinor (wc_event ctx) = Some k \<longrightarrow> rp_amountMinor plan \<le> k)"
    using plan pos by (auto simp: plan_amount_def Let_def split: if_splits option.splits)
  have within: "refunded ?i is_live (refunds s') = rt_reserved ?sums + rp_amountMinor plan"
    if "map_option rf_status known \<noteq> Some RefPending"
  proof -
    have "own_fact known = (\<lambda>_. False)" using that by (auto simp: own_fact_def fun_eq_iff split: option.splits)
    then have "rt_reserved ?sums = refunded ?i is_live ?rs" using refund_sums_reserved [of ?i ?rs] by simp
    moreover have "refund_weight ?i is_live f = 0" if "known = Some f" for f
      using that guard \<open>map_option rf_status known \<noteq> Some RefPending\<close> by (simp add: refund_weight_def is_live_def)
    ultimately show ?thesis
      using total [of is_live] by (auto simp: is_live_def after_supersede_def split: option.splits)
  qed
  show thesis
  proof (rule that [OF booked])
    show "rp_fullyRefunded plan \<longleftrightarrow> py_amountMinor p \<le> refunded ?i ?ok (refunds s')"
      using full confirmed booked by simp
    show "map_option rf_status (find_refund (wc_providerConnectionId ctx) rid s) \<noteq> Some RefPending \<longrightarrow>
       0 < rp_amountMinor plan \<and> refunded ?i is_live (refunds s') \<le> py_amountMinor p
       \<and> (\<forall>k. ev_amountMinor (wc_event ctx) = Some k \<longrightarrow> rp_amountMinor plan \<le> k)"
      unfolding known [symmetric] using amount within by (simp split: if_splits)
    show "map_option rf_status (find_refund (wc_providerConnectionId ctx) rid s) = Some RefPending \<longrightarrow>
       (\<forall>k. ev_amountMinor (wc_event ctx) = Some k \<longrightarrow> rp_amountMinor plan = k)"
      unfolding known [symmetric] using amount by (simp split: if_splits)
  qed (use eff in blast)+
qed

end
