(* ===== verification/RefundProperties.thy ===== *)
theory RefundProperties
  imports RefundFacts CommerceExamples
begin

text \<open>
  The correctness properties of refunds: what a refund event books, when it closes the payment
  and the order, and that a recorded refund fact is never booked twice. Each is about one run of
  \<open>applyPaymentEvent\<close>, which the inbox calls inside the delivery's transaction.
\<close>

text \<open>A concrete refund run: the context the inbox hands to the payment handler.\<close>

definition demo_context :: "provider_event \<Rightarrow> string \<Rightarrow> webhook_context" where
  "demo_context ev i = \<lparr>wc_applicationId = ''app'', wc_providerConnectionId = ''con'', wc_environment = Live,
     wc_webhookEventId = i, wc_event = ev, wc_occurredAt = 1767225600000, wc_inserted = True,
     wc_order = None, wc_customer = None\<rparr>"

lemmas [run_simps] = demo_context_def

definition demo_applied :: db where
  "demo_applied = demo_paid\<lparr>uuids := 8, refunds := [demo_refund ''ref_7'' ''r1'' 2000]\<rparr>"

lemma demo_part_applied: "applyPaymentEvent (demo_context demo_part ''wh_0'') demo_paid =
    (Inr (None, (demo_context demo_part ''wh_0'')\<lparr>wc_order := Some (demo_order OrdPaid)\<rparr>), demo_applied)"
  by (simp add: run_simps demo_applied_def cong: run_congs)

definition demo_closed :: db where
  "demo_closed = demo_applied\<lparr>uuids := 10, refunds := refunds demo_applied @ [demo_refund ''ref_9'' ''r2'' 3000],
     payments := [demo_payment PayRefunded], orders := [demo_order OrdRefunded],
     entitlementGrants := [demo_durable EntRevoked]\<rparr>"

lemma demo_rest_applied: "applyPaymentEvent (demo_context demo_rest ''wh_0'') demo_applied =
    (Inr (None, (demo_context demo_rest ''wh_0'')\<lparr>wc_order := Some (demo_order OrdPaid)\<rparr>), demo_closed)"
  by (simp add: run_simps demo_applied_def demo_closed_def cong: run_congs)

lemma demo_keys: "refund_keys demo_paid" "refund_keys demo_applied"
  by (simp_all add: refund_keys_def payments_ok_def demo_applied_def demo_paid_def demo_shop_def demo_db_def empty_db_def)

subsection \<open>Booking\<close>

text \<open>C32. A refund fact that is not already stored as pending never takes more than was captured:
  when its event is applied to a recorded payment it books a positive amount of at most what the
  event asks for, confirmed refunds grow by exactly that amount, and all refunds of the payment
  that are pending or succeeded stay within the captured amount. A stored pending refund that is
  confirmed is outside this: its reservation may be booked in full by design, also beyond the
  captured amount. So are refunds the console reconciles (\<open>reconcileRefundTx\<close>).\<close>

theorem refund_stays_within_payment:
  assumes run: "applyPaymentEvent ctx s = (Inr (None, ctx'), s')" and ty: "ev_type (wc_event ctx) = PaymentRefunded"
    and pid: "truthy (ev_providerPaymentId (wc_event ctx)) = Some pid"
    and p: "find_payment (wc_providerConnectionId ctx) pid s = Some p"
    and rid: "truthy (ev_providerRefundId (wc_event ctx)) = Some rid" and keys: "refund_keys s"
    and new: "map_option rf_status (find_refund (wc_providerConnectionId ctx) rid s) \<noteq> Some RefPending"
  shows "\<exists>n > 0. n \<le> (case ev_amountMinor (wc_event ctx) of None \<Rightarrow> n | Some k \<Rightarrow> k)
    \<and> refunded (py_id p) (\<lambda>st. st = RefSucceeded) (refunds s')
      = refunded (py_id p) (\<lambda>st. st = RefSucceeded) (refunds s) + n
    \<and> refunded (py_id p) (\<lambda>st. st = RefPending \<or> st = RefSucceeded) (refunds s') \<le> py_amountMinor p"
  using assms(1-6)
proof (rule refund_books)
  fix plan
  assume "refunded (py_id p) (\<lambda>st. st = RefSucceeded) (refunds s')
       = refunded (py_id p) (\<lambda>st. st = RefSucceeded) (refunds s) + rp_amountMinor plan"
    and "map_option rf_status (find_refund (wc_providerConnectionId ctx) rid s) \<noteq> Some RefPending \<longrightarrow>
       0 < rp_amountMinor plan \<and> refunded (py_id p) is_live (refunds s') \<le> py_amountMinor p
       \<and> (\<forall>k. ev_amountMinor (wc_event ctx) = Some k \<longrightarrow> rp_amountMinor plan \<le> k)"
  moreover have "is_live = (\<lambda>st. st = RefPending \<or> st = RefSucceeded)" by (simp add: is_live_def fun_eq_iff)
  ultimately show ?thesis using new by (auto intro!: exI [of _ "rp_amountMinor plan"] split: option.split)
qed

theorem refund_stays_within_payment_witness:
  "refunded ''pay_1'' (\<lambda>st. st = RefSucceeded) (refunds demo_closed) = 5000
   \<and> refunded ''pay_1'' (\<lambda>st. st = RefPending \<or> st = RefSucceeded) (refunds demo_closed) \<le> 5000"
proof -
  have e: "ev_type (wc_event (demo_context demo_rest ''wh_0'')) = PaymentRefunded"
    "truthy (ev_providerPaymentId (wc_event (demo_context demo_rest ''wh_0''))) = Some ''pi''"
    "find_payment (wc_providerConnectionId (demo_context demo_rest ''wh_0'')) ''pi'' demo_applied = Some (demo_payment PaySucceeded)"
    "truthy (ev_providerRefundId (wc_event (demo_context demo_rest ''wh_0''))) = Some ''r2''"
    "map_option rf_status (find_refund (wc_providerConnectionId (demo_context demo_rest ''wh_0'')) ''r2'' demo_applied)
      \<noteq> Some RefPending"
    by (simp_all add: run_simps demo_applied_def truthy_def)
  show ?thesis
    using refund_stays_within_payment [OF demo_rest_applied e(1-4) demo_keys(2) e(5)]
    by (auto simp: refunded_def refund_weight_def demo_closed_def demo_applied_def demo_refund_def demo_payment_def)
qed

subsection \<open>Closing the order\<close>

lemma find_update_keyed:
  "(\<And>x. P (f x) = P x) \<Longrightarrow> List.find P (update_where Q f xs) = map_option (\<lambda>x. if Q x then f x else x) (List.find P xs)"
  by (induction xs) auto

lemma payment_context:
  assumes "applyPaymentEvent ctx s = (Inr (early, ctx'), s')"
  shows "wc_applicationId ctx' = wc_applicationId ctx"
  using assms by (rule payment_run) (auto dest: resolved_run(1))

lemma find_own_order:
  assumes "distinct (map od_id (orders s))" and "r \<in> set (orders s)" and "od_applicationId r = app"
  shows "find_order app (od_id r) s = Some r"
proof -
  have "List.find (\<lambda>x. od_id x = od_id r \<and> od_applicationId x = app) xs = Some r"
    if "distinct (map od_id xs)" "r \<in> set xs" for xs
    using that assms(3) by (induction xs) (auto simp: image_iff)
  then show ?thesis using assms by (simp add: find_order_def)
qed

text \<open>C33. When the event of a refund with an id is applied to a recorded payment, the payment is
  refunded, its order closed and the order's entitlements revoked exactly when the confirmed
  refunds reach the captured amount; until then a refund leaves the payment's status, the order
  and every entitlement as they are. A failed order stays failed. The refunds the console
  reconciles close payment and order on their own path (\<open>close_refunded\<close>) and are outside this.\<close>

theorem full_refund_closes_order:
  assumes run: "applyPaymentEvent ctx s = (Inr (None, ctx'), s')" and ty: "ev_type (wc_event ctx) = PaymentRefunded"
    and pid: "truthy (ev_providerPaymentId (wc_event ctx)) = Some pid"
    and p: "find_payment (wc_providerConnectionId ctx) pid s = Some p"
    and rid: "truthy (ev_providerRefundId (wc_event ctx)) = Some rid" and keys: "refund_keys s"
    and r: "wc_order ctx' = Some r" "r \<in> set (orders s)" "od_applicationId r = wc_applicationId ctx"
  shows "\<exists>full. full = (py_amountMinor p \<le> refunded (py_id p) (\<lambda>st. st = RefSucceeded) (refunds s'))
    \<and> map_option py_status (find_payment (wc_providerConnectionId ctx) pid s') = Some (if full then PayRefunded else py_status p)
    \<and> map_option od_status (find_order (wc_applicationId ctx) (od_id r) s')
        = Some (if full \<and> od_status r \<noteq> OrdFailed then OrdRefunded else od_status r)
    \<and> entitlementGrants s' = (if full
        then update_where (active_from_source (wc_applicationId ctx) EntOrder (od_id r)) (end_grant EntRevoked (clock s))
          (entitlementGrants s)
        else entitlementGrants s)"
  using assms(1-6)
proof (rule refund_books)
  fix plan :: refund_plan
  assume full: "rp_fullyRefunded plan \<longleftrightarrow> py_amountMinor p \<le> refunded (py_id p) (\<lambda>st. st = RefSucceeded) (refunds s')"
    and ps: "\<exists>st row now. payments s' = update_where (\<lambda>q. payment_slot q = payment_slot p) (settle_payment st row now) (payments s)
       \<and> st = (if rp_fullyRefunded plan then PayRefunded else py_status p)"
    and os: "orders s' = order_after ctx' (rp_fullyRefunded plan) s"
    and es: "entitlementGrants s' = order_grants_after ctx' (rp_fullyRefunded plan) s"
  have app: "wc_applicationId ctx' = wc_applicationId ctx" by (rule payment_context [OF run])
  have "map_option py_status (find_payment (wc_providerConnectionId ctx) pid s')
      = Some (if rp_fullyRefunded plan then PayRefunded else py_status p)"
  proof -
    obtain st row now where s': "payments s' = update_where (\<lambda>q. payment_slot q = payment_slot p) (settle_payment st row now) (payments s)"
      and st: "st = (if rp_fullyRefunded plan then PayRefunded else py_status p)" using ps by blast
    have "find_payment (wc_providerConnectionId ctx) pid s' = map_option
        (\<lambda>q. if payment_slot q = payment_slot p then settle_payment st row now q else q) (Some p)"
      unfolding p [symmetric] find_payment_def s' by (rule find_update_keyed) (simp add: settle_payment_def)
    then show ?thesis using st by (simp add: settle_payment_def)
  qed
  moreover have "map_option od_status (find_order (wc_applicationId ctx) (od_id r) s')
        = Some (if rp_fullyRefunded plan \<and> od_status r \<noteq> OrdFailed then OrdRefunded else od_status r)"
  proof -
    have here: "find_order (wc_applicationId ctx) (od_id r) s = Some r"
      using keys r by (intro find_own_order) (simp_all add: refund_keys_def)
    have keyed: "find_order (wc_applicationId ctx) (od_id r) s' = map_option (\<lambda>x. if Q x then set_order_status OrdRefunded now x else x) (Some r)"
      if "orders s' = update_where Q (set_order_status OrdRefunded now) (orders s)" for Q now
      unfolding here [symmetric] find_order_def that by (rule find_update_keyed) (simp add: set_order_status_def)
    show ?thesis
    proof (cases "rp_fullyRefunded plan \<and> od_status r \<noteq> OrdRefunded")
      case True
      then have "orders s' = update_where (\<lambda>x. od_id x = od_id r \<and> od_applicationId x = wc_applicationId ctx
          \<and> od_status x \<in> {OrdPending, OrdPaid, OrdRefunded}) (set_order_status OrdRefunded (clock s)) (orders s)"
        using os r(1) by (simp add: order_after_def app)
      from keyed [OF this] True r(3) show ?thesis by (cases "od_status r") (simp_all add: set_order_status_def)
    next
      case False
      then have "orders s' = orders s" unfolding os order_after_def using r(1) by auto
      then show ?thesis using here False by (auto simp: find_order_def)
    qed
  qed
  moreover have "entitlementGrants s' = (if rp_fullyRefunded plan
        then update_where (active_from_source (wc_applicationId ctx) EntOrder (od_id r)) (end_grant EntRevoked (clock s))
          (entitlementGrants s) else entitlementGrants s)"
    using es r(1) by (simp add: order_grants_after_def app)
  ultimately show ?thesis using full by (intro exI [of _ "rp_fullyRefunded plan"]) simp
qed

theorem full_refund_closes_order_witness:
  "map_option py_status (find_payment ''con'' ''pi'' demo_applied) = Some PaySucceeded
   \<and> entitlementGrants demo_applied = [demo_durable EntActive]
   \<and> map_option od_status (find_order ''app'' ''o'' demo_closed) = Some OrdRefunded"
proof -
  let ?r = "demo_order OrdPaid"
  have e: "ev_type (wc_event (demo_context demo_part ''wh_0'')) = PaymentRefunded"
    "truthy (ev_providerPaymentId (wc_event (demo_context demo_part ''wh_0''))) = Some ''pi''"
    "find_payment (wc_providerConnectionId (demo_context demo_part ''wh_0'')) ''pi'' demo_paid = Some (demo_payment PaySucceeded)"
    "truthy (ev_providerRefundId (wc_event (demo_context demo_part ''wh_0''))) = Some ''r1''"
    "?r \<in> set (orders demo_paid)" "od_applicationId ?r = wc_applicationId (demo_context demo_part ''wh_0'')"
    by (simp_all add: run_simps truthy_def)
  have f: "ev_type (wc_event (demo_context demo_rest ''wh_0'')) = PaymentRefunded"
    "truthy (ev_providerPaymentId (wc_event (demo_context demo_rest ''wh_0''))) = Some ''pi''"
    "find_payment (wc_providerConnectionId (demo_context demo_rest ''wh_0'')) ''pi'' demo_applied = Some (demo_payment PaySucceeded)"
    "truthy (ev_providerRefundId (wc_event (demo_context demo_rest ''wh_0''))) = Some ''r2''"
    "?r \<in> set (orders demo_applied)" "od_applicationId ?r = wc_applicationId (demo_context demo_rest ''wh_0'')"
    by (simp_all add: run_simps demo_applied_def truthy_def)
  have t: "refunded ''pay_1'' (\<lambda>st. st = RefSucceeded) (refunds demo_applied) = 2000"
    "refunded ''pay_1'' (\<lambda>st. st = RefSucceeded) (refunds demo_closed) = 5000"
    by (simp_all add: refunded_def refund_weight_def demo_closed_def demo_applied_def demo_refund_def)
  have d: "py_id (demo_payment st) = ''pay_1''" "py_amountMinor (demo_payment st) = 5000" "py_status (demo_payment st) = st"
    "wc_applicationId (demo_context ev i) = ''app''" "wc_providerConnectionId (demo_context ev i) = ''con''"
    "od_id (demo_order os) = ''o''" "od_status (demo_order os) = os" "entitlementGrants demo_paid = [demo_durable EntActive]"
    for st ev i os
    by (simp_all add: demo_payment_def demo_context_def demo_order_def demo_paid_def)
  show ?thesis
    using full_refund_closes_order [OF demo_part_applied e(1-4) demo_keys(1) _ e(5,6)]
      full_refund_closes_order [OF demo_rest_applied f(1-4) demo_keys(2) _ f(5,6)]
    by (auto simp: d t)
qed

subsection \<open>Recorded once\<close>

definition only_inbox :: "db \<Rightarrow> db \<Rightarrow> bool" where
  "only_inbox s t \<longleftrightarrow> t = s\<lparr>webhookEvents := webhookEvents t\<rparr>"

lemma only_inbox_refl [simp]: "only_inbox s s"
  by (simp add: only_inbox_def)

lemma only_inbox_trans: "only_inbox s t \<Longrightarrow> only_inbox t u \<Longrightarrow> only_inbox s u"
  by (cases s; cases t; cases u) (simp add: only_inbox_def)

text \<open>A step that keeps the state in front of one that acknowledges or throws.\<close>

definition acknowledges :: "db \<Rightarrow> (db, 'a) prog \<Rightarrow> ('a \<Rightarrow> bool) \<Rightarrow> bool" where
  "acknowledges s m P \<longleftrightarrow> (case m s of (r, t) \<Rightarrow> only_inbox s t \<and> (\<forall>x. r = Inr x \<longrightarrow> P x))"

lemma acknowledges_after:
  "snd (m s) = s \<Longrightarrow> (\<And>a. m s = (Inr a, s) \<Longrightarrow> acknowledges s (f a) P) \<Longrightarrow> acknowledges s (bind m f) P"
  by (cases "m s") (auto simp: acknowledges_def bind_apply split: sum.split)

lemma acknowledges_then:
  assumes "acknowledges s m Q" and f: "\<And>x t. Q x \<Longrightarrow> acknowledges t (f x) P"
  shows "acknowledges s (bind m f) P"
proof (cases "m s")
  case (Pair r t)
  show ?thesis
  proof (cases r)
    case (Inl er)
    then show ?thesis using assms(1) Pair by (simp add: acknowledges_def bind_apply)
  next
    case (Inr x)
    then have "only_inbox s t" "acknowledges t (f x) P" using assms(1) Pair f by (auto simp: acknowledges_def)
    then show ?thesis using Pair Inr by (auto simp: acknowledges_def bind_apply intro: only_inbox_trans)
  qed
qed

lemma guards_stay:
  "snd (resolve_order a e x s) = s" "snd (resolve_customer a e c s) = s" "snd (checkBindings e p s) = s"
  "snd (recordedOrder a p x s) = s" "snd (checkCurrency e x p s) = s" "snd (paymentAmount e x p s) = s"
  "snd (checkPaymentAmount e s) = s" "snd (checkRefundAmount e s) = s" "snd (recordedFact ctx p s) = s"
  "snd (require er o1 s) = s" "snd (gets g s) = s"
  by (auto simp: resolve_order_def resolve_customer_def checkBindings_def recordedOrder_def checkCurrency_def
      paymentAmount_def checkPaymentAmount_def checkRefundAmount_def recordedFact_def Let_def bind_apply throw_if_apply
      require_apply split: option.splits)

lemma ignore_acknowledges: "acknowledges s (ignoreEvent ctx msg) (\<lambda>out. wo_status out = WhIgnored)"
  by (simp add: acknowledges_def ignoreEvent_def bind_apply update_webhook_events_def update_rows_def Let_def
      list_all_iff only_inbox_def)

lemma planned_fact_acknowledges:
  assumes "truthy (ev_providerRefundId (wc_event ctx)) = Some rid"
    and "find_refund (wc_providerConnectionId ctx) rid s = Some f" and "rf_status f = RefSucceeded"
  shows "acknowledges s (planRefund ctx existing n) (\<lambda>d. \<exists>out. d = RefundAcknowledged out \<and> wo_status out = WhIgnored)"
  unfolding planRefund_def Let_def
proof (rule acknowledges_after [OF guards_stay(8)], rule acknowledges_after [OF guards_stay(9)], goal_cases)
  case (1 u known)
  then have "known = Some f" using assms by (auto simp: recordedFact_def bind_eq_Inr)
  moreover have "acknowledges s (bind (ignoreEvent ctx msg) (\<lambda>out. return (RefundAcknowledged out)))
      (\<lambda>d. \<exists>out. d = RefundAcknowledged out \<and> wo_status out = WhIgnored)" for msg
    by (rule acknowledges_then [OF ignore_acknowledges]) (simp add: acknowledges_def)
  moreover have "acknowledges s (throw er) P" for er and P :: "refund_decision \<Rightarrow> bool" by (simp add: acknowledges_def)
  ultimately show ?case using assms(3) by simp
qed

text \<open>A refund fact is booked once: when the refund an event names is recorded as succeeded,
  the event changes nothing but its inbox row, whatever amount, payment or order it carries; it
  is acknowledged as ignored or rejected, never applied.\<close>

theorem recorded_refund_is_final:
  assumes ty: "ev_type (wc_event ctx) = PaymentRefunded"
    and rid: "truthy (ev_providerRefundId (wc_event ctx)) = Some rid"
    and f: "find_refund (wc_providerConnectionId ctx) rid s = Some f" "rf_status f = RefSucceeded"
  shows "\<exists>res s'. applyPaymentEvent ctx s = (res, s') \<and> s' = s\<lparr>webhookEvents := webhookEvents s'\<rparr>
    \<and> (case res of Inl er \<Rightarrow> True | Inr (early, ctx') \<Rightarrow> map_option wo_status early = Some WhIgnored)"
proof -
  have resolved: "acknowledges s (applyResolved (ctx\<lparr>wc_order := x, wc_customer := c\<rparr>) pid ex n cur)
      (\<lambda>(early, ctx'). map_option wo_status early = Some WhIgnored)" for x c pid ex n cur
  proof -
    have "acknowledges s (planRefund (ctx\<lparr>wc_order := x, wc_customer := c\<rparr>) ex n)
        (\<lambda>d. \<exists>out. d = RefundAcknowledged out \<and> wo_status out = WhIgnored)"
      by (rule planned_fact_acknowledges [of _ rid _ f]) (use rid f in simp_all)
    then show ?thesis
      unfolding applyResolved_def using ty
      by simp (erule acknowledges_then, auto simp: acknowledges_def)
  qed
  have "acknowledges s (applyPaymentEvent ctx) (\<lambda>(early, ctx'). map_option wo_status early = Some WhIgnored)"
    unfolding applyPaymentEvent_def Let_def
    by (intro acknowledges_after guards_stay) (use resolved in auto)
  then show ?thesis
    by (cases "applyPaymentEvent ctx s") (auto simp: acknowledges_def only_inbox_def split: sum.split)
qed

theorem recorded_refund_is_final_witness:
  "\<exists>res s'. applyPaymentEvent (demo_context (demo_notice PaymentRefunded ''e9'' (Some ''r1'') (Some 1)) ''wh_0'') demo_closed
     = (res, s') \<and> refunds s' = refunds demo_closed \<and> payments s' = payments demo_closed"
proof -
  let ?c = "demo_context (demo_notice PaymentRefunded ''e9'' (Some ''r1'') (Some 1)) ''wh_0''"
  have e: "ev_type (wc_event ?c) = PaymentRefunded" "truthy (ev_providerRefundId (wc_event ?c)) = Some ''r1''"
    "find_refund (wc_providerConnectionId ?c) ''r1'' demo_closed = Some (demo_refund ''ref_7'' ''r1'' 2000)"
    "rf_status (demo_refund ''ref_7'' ''r1'' 2000) = RefSucceeded"
    by (simp_all add: run_simps demo_closed_def demo_applied_def truthy_def)
  obtain res s' where a: "applyPaymentEvent ?c demo_closed = (res, s')"
    and s': "s' = demo_closed\<lparr>webhookEvents := webhookEvents s'\<rparr>"
    using recorded_refund_is_final [OF e] by blast
  have "refunds s' = refunds demo_closed" "payments s' = payments demo_closed"
    by (subst s', simp)+
  with a show ?thesis by blast
qed

end
