(* ===== verification/PurchaseProperties.thy ===== *)
theory PurchaseProperties
  imports RefundProperties
begin

text \<open>
  The correctness properties of a payment that succeeds: what the buyer gets, and what happens
  when an order that was delivered is paid again.
\<close>

subsection \<open>The steps of a successful payment\<close>

lemma grants_environment [simp]: "resolveEntitlementEnvironment (Some e) = e"
  by (cases e) simp_all

lemma delivery_run:
  assumes "deliverOrder ctx r s = (Inr (), s')"
  obtains gs s1 where "grantConfiguredEntitlements (order_entitlements ctx r (items_of (od_id r) s)) s = (Inr gs, s1)"
    and "others_untouched s1 s'"
  using assms honoursD [OF others.grantConfigured] by (auto simp: deliverOrder_def bind_eq_Inr)

lemma success_run:
  assumes run: "applyPaymentEvent ctx s = (Inr (None, ctx'), s')" and ty: "ev_type (wc_event ctx) = PaymentSucceeded"
    and r: "wc_order ctx' = Some r"
  obtains u t :: db where "wc_event ctx' = wc_event ctx" "wc_applicationId ctx' = wc_applicationId ctx"
      "wc_occurredAt ctx' = wc_occurredAt ctx" "wc_environment ctx' = wc_environment ctx"
    and "orders u = orders s" "clock u = clock s" "entitlementGrants u = entitlementGrants s" "orderItems u = orderItems s"
      "products u = products s" "productGrantConfigs u = productGrantConfigs s" "checkoutSessions u = checkoutSessions s"
    and "moveOrder (wc_applicationId ctx) r (if od_status r = OrdRefunded then OrdRefunded else OrdPaid) u = (Inr (), t)"
    and "(if od_billingMode r = OneTimeMode then deliverOrder ctx' r else return ())
      (checkoutSessions_update (update_where (\<lambda>c. cs_orderId c = od_id r \<and> cs_applicationId c = wc_applicationId ctx)
         (set_session_status ChkCompleted (clock t))) t) = (Inr (), s')"
  using run
proof (rule payment_run)
  fix pid order1 customer order amount cur
  let ?c = "ctx\<lparr>wc_order := order, wc_customer := customer\<rparr>" and ?ex = "find_payment (wc_providerConnectionId ctx) pid s"
  assume app: "applyResolved ?c pid ?ex amount cur s = (Inr (None, ctx'), s')"
  have c: "ctx' = ?c" by (rule resolved_run(1) [OF app])
  obtain plan s1 where d: "decided ?c ?ex amount s plan s1"
    and ap: "applyPlanned ?c pid ?ex amount cur plan s1 = (Inr (None, ?c), s')"
    using resolved_run(2) [OF app] by auto
  have s1: "plan = None" "s1 = s" using d ty by (simp_all add: decided_def)
  obtain p s2 s3 where
    pers: "persistPayment ?c pid (next_payment_status (ev_type (wc_event ?c)) ?ex plan) amount cur s1 = (Inr p, s2)"
    and m: "moved ?c plan s2 s3" and rec: "recorded ?c p plan s3 s'"
    using ap by (rule planned_run)
  have s3: "s3 = s'" using rec by (simp add: recorded_def s1)
  have "applyOrder ?c r None s2 = (Inr (), s')" using m r by (simp add: moved_def c s1 s3)
  then obtain t where mv: "moveOrder (wc_applicationId ctx) r (if od_status r = OrdRefunded then OrdRefunded else OrdPaid) s2 = (Inr (), t)"
    and rest: "(if od_billingMode r = OneTimeMode then deliverOrder ?c r else return ())
      (checkoutSessions_update (update_where (\<lambda>c. cs_orderId c = od_id r \<and> cs_applicationId c = wc_applicationId ctx)
         (set_session_status ChkCompleted (clock t))) t) = (Inr (), s')"
    using ty by (auto simp: applyOrder_def Let_def bind_eq_Inr next_order_status_def
      update_checkout_sessions_def update_rows_eq_Inr)
  have "\<exists>n ps. s2 = s\<lparr>uuids := n, payments := ps\<rparr>"
    using pers unfolding s1 by (rule persisted) (auto split: option.splits)
  then obtain n ps where s2: "s2 = s\<lparr>uuids := n, payments := ps\<rparr>" by blast
  show thesis
    by (rule that [of s2 t, OF _ _ _ _ _ _ _ _ _ _ _ mv rest [folded c]]) (simp_all add: c s2)
qed

subsection \<open>Delivery\<close>

lemma moved_orders: "moveOrder app r next u = (Inr (), t) \<Longrightarrow> \<exists>os. t = u\<lparr>orders := os\<rparr>"
  by (cases u) (auto simp: moveOrder_def bind_eq_Inr update_orders_def update_rows_eq_Inr split: if_splits)

lemma order_paid:
  assumes "moveOrder app r OrdPaid u = (Inr (), t)" and "find_order app (od_id r) u = Some r"
    and "od_status r = OrdPending \<or> od_status r = OrdFailed"
  shows "map_option od_status (find_order app (od_id r) t) = Some OrdPaid"
proof -
  let ?Q = "\<lambda>x. od_id x = od_id r \<and> od_applicationId x = app \<and> od_status x \<in> set (allowed_sources OrdPaid)"
  have t: "t = orders_update (update_where ?Q (set_order_status OrdPaid (clock u))) u"
    using assms(1,3) by (auto simp: moveOrder_def bind_eq_Inr update_orders_def update_rows_eq_Inr)
  have "find_order app (od_id r) t = map_option (\<lambda>x. if ?Q x then set_order_status OrdPaid (clock u) x else x) (Some r)"
    unfolding assms(2) [symmetric] find_order_def t
    by (simp add: find_update_keyed set_order_status_def)
  then show ?thesis
    using assms(3) find_order_id [OF assms(2)] by (auto simp: set_order_status_def)
qed

lemma delivered_grants:
  assumes run: "grantConfiguredEntitlements (order_entitlements ctx r items) s = (Inr gs, s')"
    and cfg: "cfg \<in> set (entitlement_configs (wc_applicationId ctx) (map oi_productId items) s)"
    and at: "wc_occurredAt ctx \<le> at"
    and active: "\<forall>g \<in> set (entitlementGrants s). eg_sourceId g = trim (od_id r) \<longrightarrow> eg_status g = EntActive"
  obtains k where "normalized_key (pg_referenceKey cfg) k"
    and "\<exists>g \<in> set (entitlementGrants s'). gives_access (wc_applicationId ctx) (wc_environment ctx)
      (od_applicationCustomerId r) k at g"
proof -
  let ?c = "order_entitlements ctx r items"
  let ?i = "configured_entitlement ?c (pg_referenceKey cfg)"
  have "ce_productIds ?c \<noteq> []" using cfg by (auto simp: entitlement_configs_def order_entitlements_def)
  note b = run [unfolded configured_batch [OF this]]
  have "?i \<in> set (map (configured_entitlement ?c)
      (js_set (map pg_referenceKey (entitlement_configs (ce_applicationId ?c) (ce_productIds ?c) s))))"
    using cfg by (auto simp: order_entitlements_def)
  with batch_adds [OF b] obtain g new where g: "g \<in> set (entitlementGrants s')" "represents ?i g"
      "grant_is (ge_applicationId ?i) (resolveEntitlementEnvironment (ge_environment ?i)) (trim (ge_idempotencyKey ?i)) g"
    and new: "entitlementGrants s' = entitlementGrants s @ new" "\<forall>g \<in> set new. eg_status g = EntActive"
    by blast
  have "eg_status g = EntActive"
    using g(1,2) new active by (auto simp: represents_def configured_entitlement_def order_entitlements_def)
  moreover have "normalized_key (pg_referenceKey cfg) (eg_featureKey g)"
    using g(2) by (simp add: represents_def configured_entitlement_def)
  moreover have "covers at g"
    using g(2) at by (auto simp: represents_def configured_entitlement_def order_entitlements_def valid_window_def covers_def)
  ultimately show thesis
    using g by (intro that [of "eg_featureKey g"] bexI [of _ g])
      (auto simp: gives_access_def represents_def configured_entitlement_def order_entitlements_def grant_is_def)
qed

text \<open>C35. A successful payment of a one-time order that is pending or failed delivers the
  purchase: it leaves the order paid and its checkout sessions completed, and, when no grant of
  the order had been ended before, from the event's time on the buyer has access, in the order's
  environment, to every feature the ordered products are configured with. (A subscription's
  order gives access through its subscription events, a refunded order stays refunded.)\<close>

theorem payment_delivers_purchase:
  assumes run: "applyPaymentEvent ctx s = (Inr (None, ctx'), s')" and ty: "ev_type (wc_event ctx) = PaymentSucceeded"
    and r: "wc_order ctx' = Some r" "find_order (wc_applicationId ctx) (od_id r) s = Some r" "od_billingMode r = OneTimeMode"
      "od_status r = OrdPending \<or> od_status r = OrdFailed"
    and cfg: "cfg \<in> set (entitlement_configs (wc_applicationId ctx) (map oi_productId (items_of (od_id r) s)) s)"
    and at: "wc_occurredAt ctx \<le> at"
    and active: "\<forall>g \<in> set (entitlementGrants s). eg_sourceId g = trim (od_id r) \<longrightarrow> eg_status g = EntActive"
  shows "map_option od_status (find_order (wc_applicationId ctx) (od_id r) s') = Some OrdPaid
    \<and> (\<forall>c \<in> set (checkoutSessions s'). cs_orderId c = od_id r \<and> cs_applicationId c = wc_applicationId ctx
         \<longrightarrow> cs_status c = ChkCompleted)
    \<and> hasEntitlementForApplicationCustomer (wc_applicationId ctx) (od_applicationCustomerId r)
        (pg_referenceKey cfg) (Some at) (wc_environment ctx) s' = (Inr True, s')"
  using run ty r(1)
proof (rule success_run)
  fix u t :: db
  let ?P = "\<lambda>c. cs_orderId c = od_id r \<and> cs_applicationId c = wc_applicationId ctx"
  let ?t = "checkoutSessions_update (update_where ?P (set_session_status ChkCompleted (clock t))) t"
  assume ctx: "wc_event ctx' = wc_event ctx" "wc_applicationId ctx' = wc_applicationId ctx"
      "wc_occurredAt ctx' = wc_occurredAt ctx" "wc_environment ctx' = wc_environment ctx"
    and u: "orders u = orders s" "clock u = clock s" "entitlementGrants u = entitlementGrants s" "orderItems u = orderItems s"
      "products u = products s" "productGrantConfigs u = productGrantConfigs s" "checkoutSessions u = checkoutSessions s"
    and mv: "moveOrder (wc_applicationId ctx) r (if od_status r = OrdRefunded then OrdRefunded else OrdPaid) u = (Inr (), t)"
    and rest: "(if od_billingMode r = OneTimeMode then deliverOrder ctx' r else return ()) ?t = (Inr (), s')"
  have mv': "moveOrder (wc_applicationId ctx) r OrdPaid u = (Inr (), t)" using mv r(4) by auto
  have "find_order (wc_applicationId ctx) (od_id r) u = Some r" using r(2) u(1) by (simp add: find_order_def)
  note paid = order_paid [OF mv' this r(4)]
  obtain os where t: "t = u\<lparr>orders := os\<rparr>" using moved_orders [OF mv] by blast
  obtain gs t2 where g: "grantConfiguredEntitlements (order_entitlements ctx' r (items_of (od_id r) ?t)) ?t = (Inr gs, t2)"
    and o: "others_untouched t2 s'"
    using rest r(3) by (auto elim: delivery_run)
  have only: "only_entitlements ?t t2" using honoursD [OF ent_only.grantConfigured g] .
  have items: "items_of (od_id r) ?t = items_of (od_id r) s" by (simp add: items_of_def t u)
  have here: "cfg \<in> set (entitlement_configs (wc_applicationId ctx') (map oi_productId (items_of (od_id r) ?t)) ?t)"
    unfolding items using cfg by (simp add: ctx t u entitlement_configs_def)
  have "orders s' = orders t" "checkoutSessions s' = checkoutSessions ?t"
    using o only by (cases t; cases t2; simp add: others_untouched_def only_entitlements_def)+
  moreover obtain k where k: "normalized_key (pg_referenceKey cfg) k"
    and "\<exists>g \<in> set (entitlementGrants t2). gives_access (wc_applicationId ctx') (wc_environment ctx')
      (od_applicationCustomerId r) k at g"
    by (rule delivered_grants [OF g here, of at]) (use at active in \<open>auto simp: ctx t u\<close>)
  moreover have "entitlementGrants s' = entitlementGrants t2" using o by (simp add: others_untouched_def)
  ultimately show ?thesis
    using paid check_answer [OF k]
    by (auto simp: ctx find_order_def set_update_where set_session_status_def simp del: if_image_distrib split: if_splits)
qed

definition demo_config :: product_grant_config where
  "demo_config = \<lparr>pg_id = ''g'', pg_productId = ''p'', pg_grantType = GrantsEntitlement, pg_referenceKey = ''hd'', pg_quantity = None, pg_metadata = []\<rparr>"

lemma demo_success_applied: "\<exists>s'. applyPaymentEvent (demo_context demo_success ''wh_0'') demo_shop =
    (Inr (None, (demo_context demo_success ''wh_0'')\<lparr>wc_order := Some (demo_order OrdPending)\<rparr>), s')"
  by (simp add: run_simps cong: run_congs)

theorem payment_delivers_purchase_witness:
  "\<exists>s'. applyPaymentEvent (demo_context demo_success ''wh_0'') demo_shop
       = (Inr (None, (demo_context demo_success ''wh_0'')\<lparr>wc_order := Some (demo_order OrdPending)\<rparr>), s')
     \<and> hasEntitlementForApplicationCustomer ''app'' ''cu'' ''hd'' (Some 1767225600001) Live s' = (Inr True, s')"
proof -
  let ?c = "demo_context demo_success ''wh_0''" and ?r = "demo_order OrdPending"
  obtain s' where run: "applyPaymentEvent ?c demo_shop = (Inr (None, ?c\<lparr>wc_order := Some ?r\<rparr>), s')"
    using demo_success_applied by blast
  have e: "ev_type (wc_event ?c) = PaymentSucceeded" "wc_order (?c\<lparr>wc_order := Some ?r\<rparr>) = Some ?r"
    "find_order (wc_applicationId ?c) (od_id ?r) demo_shop = Some ?r" "od_billingMode ?r = OneTimeMode"
    "od_status ?r = OrdPending \<or> od_status ?r = OrdFailed"
    "demo_config \<in> set (entitlement_configs (wc_applicationId ?c) (map oi_productId (items_of (od_id ?r) demo_shop)) demo_shop)"
    "wc_occurredAt ?c \<le> 1767225600001"
    "\<forall>g \<in> set (entitlementGrants demo_shop). eg_sourceId g = trim (od_id ?r) \<longrightarrow> eg_status g = EntActive"
    by (simp_all add: run_simps demo_config_def)
  show ?thesis
    using run payment_delivers_purchase [OF run e]
    by (auto simp: demo_context_def demo_order_def demo_config_def)
qed

text \<open>The order a success event settles, when the payment is new and the event names it.\<close>

lemma new_payment_applies:
  assumes run: "applyPaymentEvent ctx s = (Inr (early, ctx'), s')" and ty: "ev_type (wc_event ctx) = PaymentSucceeded"
    and new: "truthy (ev_providerPaymentId (wc_event ctx)) = Some pid" "find_payment (wc_providerConnectionId ctx) pid s = None"
    and r: "truthy (ev_monetplaneOrderId (wc_event ctx)) = Some i" "find_order (wc_applicationId ctx) i s = Some r"
  shows "early = None \<and> wc_order ctx' = Some r"
  using run
proof (rule payment_run)
  fix pid' order1 customer order amount cur
  let ?c = "ctx\<lparr>wc_order := order, wc_customer := customer\<rparr>"
  assume pid': "truthy (ev_providerPaymentId (wc_event ctx)) = Some pid'"
    and o1: "pure_run (resolve_order (wc_applicationId ctx) (wc_event ctx) (wc_order ctx)) s order1"
    and rec: "pure_run (recordedOrder (wc_applicationId ctx) (find_payment (wc_providerConnectionId ctx) pid' s) order1) s order"
    and app: "applyResolved ?c pid' (find_payment (wc_providerConnectionId ctx) pid' s) amount cur s = (Inr (early, ctx'), s')"
  have "order1 = Some r" using o1 r by (simp add: pure_run_def resolve_order_def)
  then have order: "order = Some r" using rec by (simp add: pure_run_def recordedOrder_def)
  have p: "pid' = pid" using pid' new by simp
  have "early = None"
    using app ty by (auto simp: p new applyResolved_def applyPlanned_def Let_def settled_message_def bind_eq_Inr)
  then show ?thesis using resolved_run(1) [OF app] order by simp
qed

text \<open>An order under which the purchase was granted at another time: the grant's key is taken.\<close>

lemma second_payment_throws:
  assumes ty: "ev_type (wc_event ctx) = PaymentSucceeded"
    and new: "truthy (ev_providerPaymentId (wc_event ctx)) = Some pid" "find_payment (wc_providerConnectionId ctx) pid s = None"
    and r: "truthy (ev_monetplaneOrderId (wc_event ctx)) = Some (od_id r)"
      "find_order (wc_applicationId ctx) (od_id r) s = Some r" "od_billingMode r = OneTimeMode"
    and cfg: "cfg \<in> set (entitlement_configs (wc_applicationId ctx) (map oi_productId (items_of (od_id r) s)) s)"
    and h: "grant_found_for (configured_entitlement (order_entitlements ctx r (items_of (od_id r) s)) (pg_referenceKey cfg)) s = Some h"
      "eg_validFrom h \<noteq> wc_occurredAt ctx"
  shows "\<exists>er s'. applyPaymentEvent ctx s = (Inl er, s')"
proof (rule ccontr)
  assume "\<nexists>er s'. applyPaymentEvent ctx s = (Inl er, s')"
  then obtain early ctx' s' where run: "applyPaymentEvent ctx s = (Inr (early, ctx'), s')"
    by (cases "applyPaymentEvent ctx s"; cases "fst (applyPaymentEvent ctx s)") auto
  note ap = new_payment_applies [OF run ty new r(1,2)]
  have run': "applyPaymentEvent ctx s = (Inr (None, ctx'), s')" and r': "wc_order ctx' = Some r" using run ap by simp_all
  from run' ty r' show False
  proof (rule success_run)
    fix u t :: db
    let ?P = "\<lambda>c. cs_orderId c = od_id r \<and> cs_applicationId c = wc_applicationId ctx"
    let ?t = "checkoutSessions_update (update_where ?P (set_session_status ChkCompleted (clock t))) t"
    assume ctx: "wc_event ctx' = wc_event ctx" "wc_applicationId ctx' = wc_applicationId ctx"
        "wc_occurredAt ctx' = wc_occurredAt ctx" "wc_environment ctx' = wc_environment ctx"
      and u: "orders u = orders s" "entitlementGrants u = entitlementGrants s" "orderItems u = orderItems s"
        "products u = products s" "productGrantConfigs u = productGrantConfigs s"
      and mv: "moveOrder (wc_applicationId ctx) r (if od_status r = OrdRefunded then OrdRefunded else OrdPaid) u = (Inr (), t)"
      and rest: "(if od_billingMode r = OneTimeMode then deliverOrder ctx' r else return ()) ?t = (Inr (), s')"
    obtain os where t: "t = u\<lparr>orders := os\<rparr>" using moved_orders [OF mv] by blast
    obtain gs t2 where g: "grantConfiguredEntitlements (order_entitlements ctx' r (items_of (od_id r) ?t)) ?t = (Inr gs, t2)"
      using rest r(3) by (auto elim: delivery_run)
    have items: "items_of (od_id r) ?t = items_of (od_id r) s" by (simp add: items_of_def t u)
    let ?c = "order_entitlements ctx r (items_of (od_id r) s)"
    have c: "order_entitlements ctx' r (items_of (od_id r) ?t) = ?c" by (simp add: order_entitlements_def items ctx)
    have cfgs: "entitlement_configs (ce_applicationId ?c) (ce_productIds ?c) ?t
        = entitlement_configs (wc_applicationId ctx) (map oi_productId (items_of (od_id r) s)) s"
      by (simp add: order_entitlements_def entitlement_configs_def t u)
    have "ce_productIds ?c \<noteq> []" using cfg by (auto simp: entitlement_configs_def order_entitlements_def)
    note b = g [unfolded c, unfolded configured_batch [OF this] cfgs]
    have "represents (configured_entitlement ?c (pg_referenceKey cfg)) h"
      by (rule batch_conflict [OF b]) (use cfg h(1) in \<open>simp_all add: grant_found_for_def t u\<close>)
    then show False
      using h(2) by (auto simp: represents_def configured_entitlement_def order_entitlements_def valid_window_def)
  qed
qed

text \<open>The payment event a delivery's transaction applies, when the event is new or had failed.\<close>

lemma delivered_payment:
  assumes run: "applyDelivery app conn input ev env d e fresh s = (Inr out, s')" and ty: "ev_type ev = PaymentSucceeded"
    and w: "List.find (\<lambda>w. wh_id w = e) (webhookEvents s) = Some w"
      "wh_status w = WhFailed \<or> wh_status w = WhReceived \<and> wh_normalizedEvent w = ev"
  obtains ctx t res t' where "wc_event ctx = ev" "wc_applicationId ctx = app" "wc_providerConnectionId ctx = conn"
    "wc_environment ctx = env" "wc_occurredAt ctx = d" "t = s\<lparr>webhookEvents := webhookEvents t\<rparr>"
    "applyPaymentEvent ctx t = (Inr res, t')"
proof -
  have app: "wh_applicationId w = app"
  proof (rule ccontr)
    assume "wh_applicationId w \<noteq> app"
    with run w(1) show False by (simp add: applyDelivery_def bind_apply require_apply throw_if_apply)
  qed
  have "bind (if wh_status w = WhFailed
         then bind (update_webhook_events (\<lambda>w. wh_id w = e) (rearm input ev)) (\<lambda>_. return ev)
         else return (wh_normalizedEvent w)) (applyStored app conn env d e fresh) s = (Inr out, s')"
    using run w app by (auto simp: applyDelivery_def require_apply throw_if_apply)
  then obtain event t where ready: "(if wh_status w = WhFailed
         then bind (update_webhook_events (\<lambda>w. wh_id w = e) (rearm input ev)) (\<lambda>_. return ev)
         else return (wh_normalizedEvent w)) s = (Inr event, t)"
    and st0: "applyStored app conn env d e fresh event t = (Inr out, s')" by (rule bind_InrE)
  have "event = ev \<and> t = s\<lparr>webhookEvents := webhookEvents t\<rparr>"
    using ready w(2) by (cases s) (auto simp: update_webhook_events_def update_rows_eq_Inr bind_eq_Inr split: if_splits)
  then have t: "t = s\<lparr>webhookEvents := webhookEvents t\<rparr>"
    and st: "applyStored app conn env d e fresh ev t = (Inr out, s')" using st0 by simp_all
  have "bind (resolve_order app ev None) (\<lambda>order. bind (resolve_customer app ev None) (\<lambda>customer.
        dispatchEvent \<lparr>wc_applicationId = app, wc_providerConnectionId = conn, wc_environment = env,
           wc_webhookEventId = e, wc_event = ev, wc_occurredAt = d, wc_inserted = fresh,
           wc_order = order, wc_customer = customer\<rparr>)) t = (Inr out, s')"
    using st ty by (simp add: applyStored_def)
  then obtain order t1 where o: "resolve_order app ev None t = (Inr order, t1)"
    and rest: "bind (resolve_customer app ev None) (\<lambda>customer.
        dispatchEvent \<lparr>wc_applicationId = app, wc_providerConnectionId = conn, wc_environment = env,
           wc_webhookEventId = e, wc_event = ev, wc_occurredAt = d, wc_inserted = fresh,
           wc_order = order, wc_customer = customer\<rparr>) t1 = (Inr out, s')" by (rule bind_InrE)
  from rest obtain customer t2 where c: "resolve_customer app ev None t1 = (Inr customer, t2)"
    and disp0: "dispatchEvent \<lparr>wc_applicationId = app, wc_providerConnectionId = conn, wc_environment = env,
           wc_webhookEventId = e, wc_event = ev, wc_occurredAt = d, wc_inserted = fresh,
           wc_order = order, wc_customer = customer\<rparr> t2 = (Inr out, s')" by (rule bind_InrE)
  have "t1 = t" using o by (simp add: resolve_order_def split: option.splits)
  moreover have "t2 = t1" using c by (simp add: resolve_customer_def split: option.splits)
  ultimately have disp: "dispatchEvent \<lparr>wc_applicationId = app, wc_providerConnectionId = conn, wc_environment = env,
           wc_webhookEventId = e, wc_event = ev, wc_occurredAt = d, wc_inserted = fresh,
           wc_order = order, wc_customer = customer\<rparr> t = (Inr out, s')" using disp0 by simp
  let ?c = "\<lparr>wc_applicationId = app, wc_providerConnectionId = conn, wc_environment = env,
           wc_webhookEventId = e, wc_event = ev, wc_occurredAt = d, wc_inserted = fresh, wc_order = order, wc_customer = customer\<rparr>"
  have "bind (applyPaymentEvent ?c) (\<lambda>(early, ctx).
     case early of Some out \<Rightarrow> return out | None \<Rightarrow> afterPayment ?c ctx) t = (Inr out, s')"
    using disp ty by (simp add: dispatchEvent_def is_payment_event_def)
  then obtain res t2 where "applyPaymentEvent ?c t = (Inr res, t2)" by (rule bind_InrE)
  then show thesis using t by (intro that [of ?c t res t2]) simp_all
qed

text \<open>C36. A one-time order whose purchase includes an entitlement cannot be paid again once it was
  delivered: the delivery of a success event of another payment, new or marked failed, for an
  order whose entitlement was granted from another time on throws, whatever the amount (the
  grant under the order's key starts at the first payment, so the keys conflict). Nothing of it
  is kept: no payment is recorded, no order, grant, credit or other table changes, and the
  event's inbox row is failed, so that each redelivery fails the same way.\<close>

theorem second_payment_is_rejected:
  assumes reach: "commerce_reachable s" and acc: "accepted adapter app conn input s ev c d"
    and ty: "ev_type ev = PaymentSucceeded"
    and unsettled: "\<forall>w \<in> set (webhookEvents s). event_key_is conn (ev_providerEventId ev) w \<longrightarrow> wh_status w = WhFailed"
    and new: "truthy (ev_providerPaymentId ev) = Some pid" "find_payment conn pid s = None"
    and r: "truthy (ev_monetplaneOrderId ev) = Some (od_id r)" "find_order app (od_id r) s = Some r" "od_billingMode r = OneTimeMode"
    and cfg: "cfg \<in> set (entitlement_configs app (map oi_productId (items_of (od_id r) s)) s)"
    and h: "List.find (grant_is app (pc_mode c) (trim (''order:'' @ od_id r @ '':durable:'' @ pg_referenceKey cfg)))
        (entitlementGrants s) = Some h" "eg_validFrom h \<noteq> d"
  shows "\<exists>er s'. processProviderWebhook adapter driver app conn input s = (Inl er, s')
    \<and> s' = s\<lparr>uuids := uuids s', webhookEvents := webhookEvents s'\<rparr>
    \<and> (\<forall>w \<in> set (webhookEvents s'). event_key_is conn (ev_providerEventId ev) w \<longrightarrow> wh_status w = WhFailed)"
proof -
  have ok: "inbox_ok s" using deliveries.reachable_inv [OF reach] by (simp add: commerce_inv_def)
  obtain out s' where run: "processProviderWebhook adapter driver app conn input s = (out, s')" by fastforce
  from run ok show ?thesis
  proof (cases rule: process_cases)
    case (refused er)
    with run have "processProviderWebhook adapter driver app conn input s = (Inl er, s')" by simp
    then show ?thesis using refused(2) unsettled by (intro exI [of _ er] exI [of _ s']) (cases s; cases s'; simp add: only_ids_def)
  next
    case (applied ev1 c1 d1 e fresh s1 w out1)
    have same: "ev1 = ev" "c1 = c" "d1 = d" using acc applied(1) by (auto simp: accepted_def)
    have "wh_status w = WhFailed \<or> wh_status w = WhReceived \<and> wh_normalizedEvent w = ev"
      using applied(2) by (rule receive_run) (use applied(3,5) unsettled ok same in
        \<open>auto simp: inbox_ok_def dest!: find_SomeD\<close>)
    with applied(9) ty applied(3) obtain ctx t res t' where ctx: "wc_event ctx = ev" "wc_applicationId ctx = app"
        "wc_providerConnectionId ctx = conn" "wc_environment ctx = pc_mode c" "wc_occurredAt ctx = d"
      and t: "t = s1\<lparr>webhookEvents := webhookEvents t\<rparr>" and ap: "applyPaymentEvent ctx t = (Inr res, t')"
      unfolding same by (rule delivered_payment)
    have "t = s\<lparr>uuids := uuids t, webhookEvents := webhookEvents t\<rparr>"
      using t applied(8) by (cases s; cases s1; cases t) simp
    then have tabs: "payments t = payments s" "orders t = orders s" "orderItems t = orderItems s" "products t = products s"
        "productGrantConfigs t = productGrantConfigs s" "entitlementGrants t = entitlementGrants s"
      by (cases s; cases t; simp)+
    have "\<exists>er t'. applyPaymentEvent ctx t = (Inl er, t')"
      by (rule second_payment_throws [where pid = pid and r = r and cfg = cfg and h = h])
        (use ty new r cfg h in \<open>simp_all add: ctx tabs find_payment_def find_order_def items_of_def entitlement_configs_def
          grant_found_for_def configured_entitlement_def order_entitlements_def entitlement_key_def\<close>)
    with ap show ?thesis by simp
  next
    case (failed ev1 c1 d1 e fresh s1 w er s2)
    have same: "ev1 = ev" using acc failed(1) by (auto simp: accepted_def)
    have "s' = s\<lparr>uuids := uuids s', webhookEvents := webhookEvents s'\<rparr>"
      using failed(8,11) by (cases s; cases s1; cases s') (simp add: failed_at_def)
    moreover have "wh_status x = WhFailed" if "x \<in> set (webhookEvents s')" "event_key_is conn (ev_providerEventId ev) x" for x
    proof -
      from that(1) obtain y where y: "y \<in> set (webhookEvents s1)"
        "x = (if wh_id y = e then fail_event (eventErrorMessage driver er) y else y)"
        by (auto simp: failed(11) failed_at_def update_where_def)
      then have "event_key_is conn (ev_providerEventId ev) y" using that(2) by (simp add: event_key_is_def fail_event_def split: if_splits)
      then have "inbox_slot y = inbox_slot w" using failed(5) same by (simp add: event_key_is_def inbox_slot_def)
      then have "y = w" using y(1) failed(6) find_SomeD [OF failed(3)] by (auto simp: inbox_ok_def dest: distinct_key_eq)
      then show ?thesis using y(2) find_SomeD [OF failed(3)] by (simp add: fail_event_def)
    qed
    ultimately show ?thesis using run failed(10) by (intro exI [of _ er] exI [of _ s']) simp
  qed
qed

lemma demo_next_year: "dateParse ''2027'' = Some 1798761600000"
  by code_simp

definition demo_second_success :: provider_event where
  "demo_second_success = (demo_notice PaymentSucceeded ''e5'' None (Some 5000))
     \<lparr>ev_providerPaymentId := Some ''pj'', ev_occurredAt := ''2027''\<rparr>"

theorem second_payment_is_rejected_witness:
  "\<exists>er s'. demo_deliver demo_second_success demo_paid = (Inl er, s')
     \<and> s' = demo_paid\<lparr>uuids := uuids s', webhookEvents := webhookEvents s'\<rparr>
     \<and> (\<forall>w \<in> set (webhookEvents s'). event_key_is ''con'' ''e5'' w \<longrightarrow> wh_status w = WhFailed)"
proof -
  have acc: "accepted (demo_adapter demo_second_success) ''app'' ''con'' demo_body demo_paid demo_second_success
      demo_connection 1798761600000"
    by (simp add: accepted_def demo_second_success_def run_simps demo_next_year demo_paid_def)
  have key: "ev_providerEventId demo_second_success = ''e5''" by (simp add: demo_second_success_def run_simps)
  show ?thesis
    by (rule second_payment_is_rejected [OF demo_paid_reachable(1) acc, unfolded key, of "''pj''" "demo_order OrdPaid" demo_config
          "demo_durable EntActive"])
      (simp_all add: demo_second_success_def event_key_is_def run_simps demo_paid_def demo_received_def demo_config_def truthy_def
        grant_is_def trim_def is_js_space_def)
qed

end
