(* ===== verification/MoneyProperties.thy ===== *)
theory MoneyProperties
  imports Money
begin

text \<open>
  What the money functions promise: a printed amount is read back exactly by both parsers, and
  the display parser reads a grouped amount as the amount without its commas. The lemmas give
  the shape of a printed amount (digits, a dot, two digits) and what each parser makes of it.
\<close>

subsection \<open>Printed digits\<close>

lemma takeWhile_digits [simp]: "list_all is_digit ds \<Longrightarrow> takeWhile is_digit ds = ds"
  by (induction ds) auto

lemma dropWhile_digits [simp]: "list_all is_digit ds \<Longrightarrow> dropWhile is_digit ds = []"
  by (induction ds) auto

lemma digit_run:
  assumes "list_all is_digit ds" and "\<not> is_digit c"
  shows "takeWhile is_digit (ds @ c # cs) = ds" and "dropWhile is_digit (ds @ c # cs) = c # cs"
  using assms by (induction ds) auto

lemma digit_not_mark: "is_digit c \<Longrightarrow> c \<noteq> CHR ''.'' \<and> c \<noteq> CHR '','' \<and> c \<noteq> CHR ''-'' \<and> c \<noteq> CHR ''+'' \<and> \<not> is_js_space c"
  by (auto simp: is_digit_def is_js_space_def Let_def)

lemma dot_not_digit [simp]: "\<not> is_digit (CHR ''.'')" "\<not> is_js_space (CHR ''.'')" "\<not> is_js_space (CHR ''-'')"
  by (simp_all add: is_digit_def is_js_space_def)

lemma no_commas: "list_all is_digit ds \<Longrightarrow> filter (\<lambda>c. c \<noteq> CHR '','') ds = ds"
  by (induction ds) (auto dest: digit_not_mark)

lemma before_dot_digits: "list_all is_digit ds \<Longrightarrow> before_dot ds = ds \<and> from_dot ds = []"
  by (induction ds) (auto simp: before_dot_def from_dot_def dest: digit_not_mark)

lemma dot_split: "list_all is_digit ds \<Longrightarrow> before_dot (ds @ CHR ''.'' # cs) = ds \<and> from_dot (ds @ CHR ''.'' # cs) = CHR ''.'' # cs"
  by (induction ds) (auto simp: before_dot_def from_dot_def dest: digit_not_mark)

text \<open>A text that neither starts nor ends with a blank is what \<open>trim\<close> leaves.\<close>

lemma trim_tight: "t \<noteq> [] \<Longrightarrow> \<not> is_js_space (hd t) \<Longrightarrow> \<not> is_js_space (last t) \<Longrightarrow> trim t = t"
proof -
  assume "t \<noteq> []" "\<not> is_js_space (hd t)" "\<not> is_js_space (last t)"
  moreover have "\<And>xs. xs \<noteq> [] \<Longrightarrow> \<not> is_js_space (hd xs) \<Longrightarrow> dropWhile is_js_space xs = xs"
    by (metis dropWhile_eq_self_iff)
  ultimately show "trim t = t" by (simp add: trim_def hd_rev)
qed

lemma digits_ends: "list_all is_digit ds \<Longrightarrow> ds \<noteq> [] \<Longrightarrow> \<not> is_js_space (hd ds) \<and> \<not> is_js_space (last ds)"
  by (metis digit_not_mark hd_in_set last_in_set list_all_iff)

lemma trim_digits: "list_all is_digit ds \<Longrightarrow> ds \<noteq> [] \<Longrightarrow> trim ds = ds"
  using digits_ends by (intro trim_tight) auto

text \<open>The two digits of a fraction.\<close>

lemma digit_char_zero [simp]: "digit_char 0 = CHR ''0''"
  by code_simp

lemma zero_digit [simp]: "is_digit (CHR ''0'')" "digit_value (CHR ''0'') = 0"
  by (simp_all add: is_digit_def digit_value_def)

lemma pad_fraction:
  assumes "f < 100"
  obtains a b where "pad_left 2 (CHR ''0'') (string_of_nat f) = [a, b]" "is_digit a" "is_digit b"
    "nat_of_digits [a, b] = f"
proof (cases "f < 10")
  case True
  then have "pad_left 2 (CHR ''0'') (string_of_nat f) = [digit_char 0, digit_char f]"
    by (simp add: string_of_nat.simps [of f] pad_left_def)
  with True show ?thesis by (intro that) (auto simp: nat_of_digits_def)
next
  case False
  with assms have "pad_left 2 (CHR ''0'') (string_of_nat f) = [digit_char (f div 10), digit_char (f mod 10)]"
    by (simp add: string_of_nat.simps [of f] string_of_nat.simps [of "f div 10"] pad_left_def)
  with assms show ?thesis by (intro that) (auto simp: nat_of_digits_def)
qed

subsection \<open>What the parsers make of a printed amount\<close>

lemma unsigned_whole: "list_all is_digit ds \<Longrightarrow> ds \<noteq> [] \<Longrightarrow> unsigned_amount ds = Some (ds, [])"
  by (simp add: unsigned_amount_def)

lemma unsigned_fraction:
  "list_all is_digit ds \<Longrightarrow> ds \<noteq> [] \<Longrightarrow> list_all is_digit fs \<Longrightarrow> fs \<noteq> []
   \<Longrightarrow> unsigned_amount (ds @ CHR ''.'' # fs) = Some (ds, fs)"
  by (simp add: unsigned_amount_def digit_run)

lemma match_signed: "match_amount (CHR ''-'' # t) = map_option (\<lambda>m. (- 1, m)) (unsigned_amount t)"
  by simp

lemma match_plain:
  assumes "list_all is_digit ds" and "ds \<noteq> []"
  shows "match_amount (ds @ t) = map_option (\<lambda>m. (1, m)) (unsigned_amount (ds @ t))"
  using assms by (cases ds) (auto dest: digit_not_mark)

lemma grouped_digits: "list_all is_digit ds \<Longrightarrow> ds \<noteq> [] \<Longrightarrow> GROUPED_INTEGER ds"
  by (simp add: GROUPED_INTEGER_def)

lemma amount_split:
  fixes n :: int
  obtains w f :: nat where "f < 100" and "\<bar>n\<bar> = int w * 100 + int f"
proof (rule that)
  show "nat \<bar>n\<bar> mod 100 < 100" by simp
  show "\<bar>n\<bar> = int (nat \<bar>n\<bar> div 100) * 100 + int (nat \<bar>n\<bar> mod 100)"
    by (metis abs_ge_zero div_mult_mod_eq int_nat_eq of_nat_add of_nat_mult of_nat_numeral)
qed

text \<open>A printed amount of a two-decimal currency, and of a zero-decimal one.\<close>

abbreviation sign_text :: "int \<Rightarrow> string" where
  "sign_text n \<equiv> (if n < 0 then ''-'' else [])"

lemma printed_two_decimals:
  assumes "isSafeInteger n" and "currencyDecimals cur = 2" and f: "f < 100" and n: "\<bar>n\<bar> = int w * 100 + int f"
  shows "minorToDisplayString n cur =
    Inr (sign_text n @ string_of_nat w @ ''.'' @ pad_left 2 (CHR ''0'') (string_of_nat f))"
proof -
  have "\<bar>n\<bar> mod 100 = int f" "(\<bar>n\<bar> - int f) div 100 = int w" using f n by simp_all
  with assms(1,2) show ?thesis by (simp add: minorToDisplayString_def Let_def string_of_int_def)
qed

lemma printed_whole:
  assumes "isSafeInteger n" and "currencyDecimals cur = 0" and "\<bar>n\<bar> = int w"
  shows "minorToDisplayString n cur = Inr (sign_text n @ string_of_nat w)"
  using assms by (simp add: minorToDisplayString_def Let_def string_of_int_def)

lemma decimals_cases: "currencyDecimals cur = 0 \<or> currencyDecimals cur = 2"
  by (simp add: currencyDecimals_def)

lemma safe_parts:
  assumes "isSafeInteger n" and "\<bar>n\<bar> = int w * 100 + int f"
  shows "isSafeInteger (int w)" and "int w * 100 \<le> MAX_SAFE_INTEGER"
proof -
  have "\<bar>n\<bar> \<le> MAX_SAFE_INTEGER" using assms(1) by (auto simp: isSafeInteger_def)
  then have "int w * 100 + int f \<le> MAX_SAFE_INTEGER" using assms(2) by simp
  then show "int w * 100 \<le> MAX_SAFE_INTEGER" and "isSafeInteger (int w)"
    by (simp_all add: isSafeInteger_def MAX_SAFE_INTEGER_def)
qed

subsection \<open>Both parsers read a printed amount back\<close>

text \<open>The text of an amount with two decimals: a sign, digits, a dot, two digits.\<close>

lemma amount_text_tight:
  assumes "list_all is_digit ds" "ds \<noteq> []" and "cs = [] \<or> is_digit (last cs)"
  shows "trim (sign_text n @ ds @ cs) = sign_text n @ ds @ cs"
  using digits_ends [OF assms(1,2)] assms(2,3)
  by (intro trim_tight) (auto simp: hd_append last_append dest: digit_not_mark)

lemma match_amount_sign:
  assumes "list_all is_digit ds" "ds \<noteq> []" and "unsigned_amount (ds @ cs) = Some m"
  shows "match_amount (sign_text n @ ds @ cs) = Some (if n < 0 then - 1 else 1, m)"
  using match_plain [OF assms(1,2), of cs] assms(3) by simp

lemma signed_value: "(if n < 0 then - 1 else 1) * \<bar>n\<bar> = (n::int)"
  by simp

lemma provider_reads_two_decimals:
  assumes safe: "isSafeInteger n" and dec: "currencyDecimals cur = 2" and t: "minorToDisplayString n cur = Inr t"
  shows "parseProviderAmountToMinor (JStr t) cur = Some n"
proof -
  obtain w f where f: "f < 100" and n: "\<bar>n\<bar> = int w * 100 + int f" by (rule amount_split)
  obtain a b where ab: "pad_left 2 (CHR ''0'') (string_of_nat f) = [a, b]" "is_digit a" "is_digit b"
    "nat_of_digits [a, b] = f"
    by (rule pad_fraction [OF f])
  let ?ds = "string_of_nat w"
  have ds: "list_all is_digit ?ds" "?ds \<noteq> []" by (simp_all add: string_of_nat_digits)
  have t': "t = sign_text n @ ?ds @ CHR ''.'' # [a, b]"
    using t printed_two_decimals [OF safe dec f n] ab(1) by simp
  have trim: "trim t = t" unfolding t' by (rule amount_text_tight [OF ds]) (simp add: ab(3))
  have m: "match_amount t = Some (if n < 0 then - 1 else 1, ?ds, [a, b])"
    unfolding t' by (rule match_amount_sign [OF ds unsigned_fraction [OF ds]]) (simp_all add: ab(2,3))
  have signed: "(if n < 0 then - 1 else 1) * (int w * 100 + int f) = n"
    using signed_value [of n] n by simp
  show ?thesis
    using m trim safe_parts [OF safe n] safe ab(4) dec signed
    by (simp add: parseProviderAmountToMinor_def amount_text_def Let_def digit_at_def padEnd_def split del: if_split)
qed

lemma provider_reads_whole:
  assumes safe: "isSafeInteger n" and dec: "currencyDecimals cur = 0" and t: "minorToDisplayString n cur = Inr t"
  shows "parseProviderAmountToMinor (JStr t) cur = Some n"
proof -
  obtain w where n: "\<bar>n\<bar> = int w" by (metis nonneg_int_cases abs_ge_zero)
  let ?ds = "string_of_nat w"
  have ds: "list_all is_digit ?ds" "?ds \<noteq> []" by (simp_all add: string_of_nat_digits)
  have t': "t = sign_text n @ ?ds @ []" using t printed_whole [OF safe dec n] by simp
  have trim: "trim t = t" unfolding t' by (rule amount_text_tight [OF ds]) simp
  have m: "match_amount t = Some (if n < 0 then - 1 else 1, ?ds, [])"
    unfolding t' by (rule match_amount_sign [OF ds]) (simp add: unsigned_whole [OF ds])
  have safe': "isSafeInteger (int w)" "int w \<le> MAX_SAFE_INTEGER"
    using safe n by (auto simp: isSafeInteger_def)
  have signed: "(if n < 0 then - 1 else 1) * int w = n" using signed_value [of n] n by simp
  show ?thesis
    using m trim safe safe' dec signed
    by (simp add: parseProviderAmountToMinor_def amount_text_def Let_def digit_at_def padEnd_def
      nat_of_digits_def [of "[]"] split del: if_split)
qed

lemma display_reads_two_decimals:
  assumes safe: "isSafeInteger n" and pos: "0 \<le> n" and dec: "currencyDecimals cur = 2"
    and t: "minorToDisplayString n cur = Inr t"
  shows "parseDisplayAmountToMinor t cur = Some n"
proof -
  obtain w f where f: "f < 100" and n: "\<bar>n\<bar> = int w * 100 + int f" by (rule amount_split)
  obtain a b where ab: "pad_left 2 (CHR ''0'') (string_of_nat f) = [a, b]" "is_digit a" "is_digit b"
    "nat_of_digits [a, b] = f"
    by (rule pad_fraction [OF f])
  let ?ds = "string_of_nat w"
  have ds: "list_all is_digit ?ds" "?ds \<noteq> []" by (simp_all add: string_of_nat_digits)
  have t': "t = sign_text n @ ?ds @ CHR ''.'' # [a, b]"
    using t printed_two_decimals [OF safe dec f n] ab(1) by simp
  have trim: "trim t = t" unfolding t' by (rule amount_text_tight [OF ds]) (simp add: ab(3))
  have split: "before_dot t = ?ds" "from_dot t = CHR ''.'' # [a, b]"
    using dot_split [OF ds(1)] pos unfolding t' by simp_all
  have flat: "filter (\<lambda>c. c \<noteq> CHR '','') t = t"
    using no_commas [OF ds(1)] ab(2,3) digit_not_mark pos unfolding t' by auto
  have pat: "DISPLAY_TWO_DECIMALS_PATTERN t"
    using split ds ab(2,3) by (simp add: DISPLAY_TWO_DECIMALS_PATTERN_def grouped_digits)
  have frac: "before_dot [a, b] = [a, b]" using before_dot_digits [of "[a, b]"] ab(2,3) by simp
  show ?thesis
    using trim split flat pat frac safe_parts [OF safe n] safe pos ab(4) dec n
    by (simp add: parseDisplayAmountToMinor_def Let_def padEnd_def)
qed

lemma display_reads_whole:
  assumes safe: "isSafeInteger n" and pos: "0 \<le> n" and dec: "currencyDecimals cur = 0"
    and t: "minorToDisplayString n cur = Inr t"
  shows "parseDisplayAmountToMinor t cur = Some n"
proof -
  let ?ds = "string_of_nat (nat n)"
  have ds: "list_all is_digit ?ds" "?ds \<noteq> []" by (simp_all add: string_of_nat_digits)
  have t': "t = ?ds" using t printed_whole [OF safe dec, of "nat n"] pos by simp
  show ?thesis
    unfolding t' using trim_digits [OF ds] ds no_commas [OF ds(1)] before_dot_digits [OF ds(1)] safe pos dec
    by (simp add: parseDisplayAmountToMinor_def Let_def DISPLAY_WHOLE_UNITS_PATTERN_def grouped_digits)
qed

subsection \<open>The property\<close>

text \<open>C38: Every amount the database can hold prints, and both parsers read the printed text back
  as the same number of minor units: the provider parser for every amount, the display parser
  for every amount that is not negative. Neither a currency without minor units nor the edge
  of the safe range loses anything.\<close>

theorem money_text_roundtrip:
  assumes "isSafeInteger n"
  shows "\<exists>t. minorToDisplayString n currency = Inr t
    \<and> parseProviderAmountToMinor (JStr t) currency = Some n
    \<and> (0 \<le> n \<longrightarrow> parseDisplayAmountToMinor t currency = Some n)"
proof -
  obtain t where "minorToDisplayString n currency = Inr t"
    using assms by (cases "minorToDisplayString n currency") (auto simp: minorToDisplayString_def Let_def split: if_splits)
  then show ?thesis
    using decimals_cases [of currency] assms provider_reads_two_decimals provider_reads_whole
      display_reads_two_decimals display_reads_whole by blast
qed

lemma money_text_roundtrip_witness:
  "parseProviderAmountToMinor (JStr ''-10.05'') ''usd'' = Some (- 1005)"
proof -
  have "minorToDisplayString (- 1005) ''usd'' = Inr ''-10.05''" by code_simp
  then show ?thesis using money_text_roundtrip [of "- 1005" "''usd''"]
    by (simp add: isSafeInteger_def MAX_SAFE_INTEGER_def)
qed

end
