(* ===== verification/Catalog.thy ===== *)
theory Catalog
  imports CatalogSchema
begin

text \<open>
  The product catalog (\<open>src/src/modules/catalog/service.ts\<close>): products, prices and the grants
  configured on a product, created one by one or as one transaction, archived and listed. The
  numbers a caller hands in are integers, a missing field and an undefined one are the same.
\<close>

subsection \<open>Validation\<close>

definition normalizeCatalogKey :: "string \<Rightarrow> string \<Rightarrow> (db, string) prog" where
  "normalizeCatalogKey value label =
     (let key = toLowerCase (trim value)
      in if key = [] \<or> \<not> matches_key_pattern key
         then throw (Error (label @ '' must use lowercase letters, numbers, dots, underscores, or hyphens''))
         else return key)"

definition is_upper_letter :: "char \<Rightarrow> bool" where
  "is_upper_letter c = (let n = (of_char c :: nat) in 65 \<le> n \<and> n \<le> 90)"

definition normalizeCurrency :: "string \<Rightarrow> (db, string) prog" where
  "normalizeCurrency value =
     (let currency = toUpperCase (trim value)
      in if \<not> (length currency = 3 \<and> list_all is_upper_letter currency)
         then throw (Error ''Currency must be a three-letter ISO-style code'')
         else return currency)"

definition assertMinorUnitAmount :: "int \<Rightarrow> (db, unit) prog" where
  "assertMinorUnitAmount value = throw_if (\<not> isSafeInteger value \<or> value < 0)
     (Error ''Amount must be a non-negative safe integer in minor units'')"

definition assertPositiveQuantity :: "int \<Rightarrow> (db, unit) prog" where
  "assertPositiveQuantity value = throw_if (\<not> isSafeInteger value \<or> value \<le> 0)
     (Error ''Credit quantity must be a positive safe integer'')"

definition assertProductForApplication :: "string \<Rightarrow> string \<Rightarrow> (db, product) prog" where
  "assertProductForApplication applicationId productId =
     bind (gets (\<lambda>s. List.find (\<lambda>p. pr_id p = productId \<and> pr_applicationId p = applicationId) (products s)))
       (require CatalogProductNotFoundError)"

subsection \<open>Products\<close>

record product_input =
  ip_applicationId :: string
  ip_key :: string
  ip_name :: string
  ip_description :: "string option"
  ip_metadata :: "json_object option"

definition or_empty :: "json_object option \<Rightarrow> json_object" where
  "or_empty m = (case m of None \<Rightarrow> [] | Some obj \<Rightarrow> obj)"

definition createProduct :: "product_input \<Rightarrow> (db, product) prog" where
  "createProduct input =
     (let name = trim (ip_name input)
      in bind (throw_if (name = []) (Error ''Product name is required'')) (\<lambda>_.
         bind (new_id ''prod_'') (\<lambda>i.
         bind (normalizeCatalogKey (ip_key input) ''Product key'') (\<lambda>key.
         insert_product \<lparr>pr_id = i, pr_applicationId = ip_applicationId input, pr_key = key, pr_name = name,
           pr_description = truthy (map_option trim (ip_description input)), pr_status = StActive,
           pr_metadata = or_empty (ip_metadata input)\<rparr>))))"

subsection \<open>Prices\<close>

record price_input =
  ir_applicationId :: string
  ir_productId :: string
  ir_key :: string
  ir_currency :: string
  ir_amountMinor :: int
  ir_billingType :: billing_type
  ir_recurringInterval :: "interval option"
  ir_intervalCount :: "int option"
  ir_trialPeriodDays :: "int option"
  ir_metadata :: "json_object option"

definition check_trial :: "int option \<Rightarrow> (db, unit) prog" where
  "check_trial days = (case days of
       None \<Rightarrow> return ()
     | Some n \<Rightarrow> throw_if (\<not> isSafeInteger n \<or> n < 1) (Error ''Trial period must be a positive number of days''))"

definition check_terms :: "price_input \<Rightarrow> (db, unit) prog" where
  "check_terms input = (case ir_billingType input of
       BillOneTime \<Rightarrow>
         bind (throw_if (ir_recurringInterval input \<noteq> None \<or> ir_intervalCount input \<noteq> None)
           (Error ''One-time prices cannot define a recurring interval'')) (\<lambda>_.
         throw_if (ir_trialPeriodDays input \<noteq> None \<and> ir_trialPeriodDays input \<noteq> Some 0)
           (Error ''Trial periods require a recurring price''))
     | BillRecurring \<Rightarrow>
         bind (throw_if (ir_recurringInterval input = None)
           (Error ''Recurring prices require a week, month, or year interval'')) (\<lambda>_.
         case ir_intervalCount input of
           None \<Rightarrow> return ()
         | Some n \<Rightarrow> throw_if (\<not> isSafeInteger n \<or> n < 1)
             (Error ''Recurring interval count must be a positive integer'')))"

definition price_row :: "string \<Rightarrow> string \<Rightarrow> string \<Rightarrow> price_input \<Rightarrow> price" where
  "price_row i key currency input =
     (let recurring = ir_billingType input = BillRecurring
      in \<lparr>pp_id = i, pp_productId = ir_productId input, pp_key = key, pp_currency = currency,
          pp_amountMinor = ir_amountMinor input, pp_billingType = ir_billingType input,
          pp_recurringInterval = (if recurring then ir_recurringInterval input else None),
          pp_intervalCount = (if recurring then Some (case ir_intervalCount input of None \<Rightarrow> 1 | Some n \<Rightarrow> n) else None),
          pp_trialPeriodDays = ir_trialPeriodDays input, pp_status = StActive,
          pp_metadata = or_empty (ir_metadata input)\<rparr>)"

definition createPrice :: "price_input \<Rightarrow> (db, price) prog" where
  "createPrice input =
     bind (assertProductForApplication (ir_applicationId input) (ir_productId input)) (\<lambda>_.
     bind (assertMinorUnitAmount (ir_amountMinor input)) (\<lambda>_.
     bind (check_trial (ir_trialPeriodDays input)) (\<lambda>_.
     bind (check_terms input) (\<lambda>_.
     bind (new_id ''price_'') (\<lambda>i.
     bind (normalizeCatalogKey (ir_key input) ''Price key'') (\<lambda>key.
     bind (normalizeCurrency (ir_currency input)) (\<lambda>currency.
     insert_price (price_row i key currency input))))))))"

definition archivePrice :: "string \<Rightarrow> string \<Rightarrow> string \<Rightarrow> (db, price) prog" where
  "archivePrice applicationId productId priceId =
     bind (assertProductForApplication applicationId productId) (\<lambda>_.
     bind (update_prices (\<lambda>p. pp_id p = priceId \<and> pp_productId p = productId \<and> pp_status p = StActive)
             (\<lambda>p. p\<lparr>pp_status := StArchived\<rparr>)) (\<lambda>archived.
     require (Error ''Active price not found for this product'') (first_row archived)))"

subsection \<open>Configured grants\<close>

record grant_config_input =
  ig_grantType :: grant_type
  ig_referenceKey :: string
  ig_quantity :: "int option"
  ig_metadata :: "json_object option"

definition addProductGrantConfig :: "string \<Rightarrow> string \<Rightarrow> grant_config_input \<Rightarrow> (db, product_grant_config) prog" where
  "addProductGrantConfig applicationId productId input =
     bind (assertProductForApplication applicationId productId) (\<lambda>_.
     bind (throw_if (ig_grantType input = GrantsEntitlement \<and> ig_quantity input \<noteq> None)
       (Error ''Entitlement grant configs do not use a quantity'')) (\<lambda>_.
     bind (if ig_grantType input = GrantsCredit
           then bind (require (Error ''Credit grant configs require a quantity'') (ig_quantity input)) assertPositiveQuantity
           else return ()) (\<lambda>_.
     bind (new_id ''grantcfg_'') (\<lambda>i.
     bind (normalizeCatalogKey (ig_referenceKey input) ''Grant reference key'') (\<lambda>key.
     insert_grant_config \<lparr>pg_id = i, pg_productId = productId, pg_grantType = ig_grantType input, pg_referenceKey = key,
       pg_quantity = (if ig_grantType input = GrantsCredit then ig_quantity input else None),
       pg_metadata = or_empty (ig_metadata input)\<rparr>)))))"

subsection \<open>A product with its price and grants\<close>

record configured_price =
  if_key :: string
  if_currency :: string
  if_amountMinor :: int
  if_billingType :: billing_type
  if_recurringInterval :: "interval option"
  if_intervalCount :: "int option"
  if_metadata :: "json_object option"

record configured_product =
  ik_product :: product_input
  ik_price :: configured_price
  ik_grants :: "grant_config_input list"

definition grant_type_text :: "grant_type \<Rightarrow> string" where
  "grant_type_text ty = (case ty of GrantsEntitlement \<Rightarrow> ''entitlement'' | GrantsCredit \<Rightarrow> ''credit'')"

definition dedupe_key :: "grant_config_input \<Rightarrow> string" where
  "dedupe_key grant = grant_type_text (ig_grantType grant) @ '':'' @ toLowerCase (trim (ig_referenceKey grant))"

definition check_duplicate :: "string list \<Rightarrow> grant_config_input \<Rightarrow> (db, string list) prog" where
  "check_duplicate grantKeys grant =
     bind (throw_if (dedupe_key grant \<in> set grantKeys)
       (Error (''Duplicate '' @ grant_type_text (ig_grantType grant) @ '' grant reference: '' @ ig_referenceKey grant))) (\<lambda>_.
     return (grantKeys @ [dedupe_key grant]))"

definition configured_price_input :: "string \<Rightarrow> string \<Rightarrow> configured_price \<Rightarrow> price_input" where
  "configured_price_input applicationId productId p =
     \<lparr>ir_applicationId = applicationId, ir_productId = productId, ir_key = if_key p, ir_currency = if_currency p,
      ir_amountMinor = if_amountMinor p, ir_billingType = if_billingType p,
      ir_recurringInterval = if_recurringInterval p, ir_intervalCount = if_intervalCount p,
      ir_trialPeriodDays = None, ir_metadata = if_metadata p\<rparr>"

definition createConfiguredProduct ::
    "configured_product \<Rightarrow> (db, product \<times> price \<times> product_grant_config list) prog" where
  "createConfiguredProduct input =
     (let applicationId = ip_applicationId (ik_product input)
      in bind (for_loop check_duplicate [] (ik_grants input)) (\<lambda>_.
         transaction (
           bind (createProduct (ik_product input)) (\<lambda>product.
           bind (createPrice (configured_price_input applicationId (pr_id product) (ik_price input))) (\<lambda>price.
           bind (for_loop (\<lambda>created grant.
                   bind (addProductGrantConfig applicationId (pr_id product) grant) (\<lambda>g. return (created @ [g])))
                 [] (ik_grants input)) (\<lambda>grants.
           return (product, price, grants)))))))"

definition listApplicationCatalog :: "string \<Rightarrow> db \<Rightarrow> (product \<times> price list \<times> product_grant_config list) list" where
  "listApplicationCatalog applicationId s =
     map (\<lambda>p. (p, filter (\<lambda>r. pp_productId r = pr_id p) (prices s),
                filter (\<lambda>g. pg_productId g = pr_id p) (productGrantConfigs s)))
       (filter (\<lambda>p. pr_applicationId p = applicationId) (products s))"

lemmas catalog_defs [run_simps] = normalizeCatalogKey_def is_upper_letter_def normalizeCurrency_def
  assertMinorUnitAmount_def assertPositiveQuantity_def assertProductForApplication_def or_empty_def
  createProduct_def check_trial_def check_terms_def price_row_def createPrice_def archivePrice_def
  addProductGrantConfig_def grant_type_text_def dedupe_key_def check_duplicate_def
  configured_price_input_def createConfiguredProduct_def listApplicationCatalog_def

end
