(* ===== verification/Router.thy ===== *)
theory Router
  imports ProviderRuntime
begin

text \<open>
  The payment router (\<open>src/src/modules/commerce/router.ts\<close>): the connection of a checkout is the
  one every item's product prefers, else the only connection of the environment, and it must be
  active and able to bill what is bought. The code's \<open>Set\<close>s are lists without duplicates.
\<close>

definition readProviderRouting :: "json_object \<Rightarrow> environment \<Rightarrow> string option" where
  "readProviderRouting metadata env =
     (case map_of metadata ''monetplane'' of
       Some (JObj monetplane) \<Rightarrow>
         (case map_of monetplane ''providerRouting'' of
           Some (JObj routing) \<Rightarrow>
             (case map_of routing (environment_text env) of Some (JStr v) \<Rightarrow> truthy (Some v) | _ \<Rightarrow> None)
         | _ \<Rightarrow> None)
     | _ \<Rightarrow> None)"

definition loadActiveConnections :: "string \<Rightarrow> environment \<Rightarrow> db \<Rightarrow> provider_connection list" where
  "loadActiveConnections applicationId env s =
     filter (\<lambda>c. pc_applicationId c = applicationId \<and> pc_mode c = env \<and> pc_revokedAt c = None) (providerConnections s)"

datatype route_source = FromProduct | FromDefault

record provider_route =
  rt_providerConnectionId :: string
  rt_provider :: string
  rt_connectionName :: string
  rt_source :: route_source

definition mode_label :: "billing_mode \<Rightarrow> string" where
  "mode_label m = (case m of OneTimeMode \<Rightarrow> ''one_time'' | SubscriptionMode \<Rightarrow> ''subscription'')"

text \<open>\<open>trialPeriodDays\<close> is false when missing or zero.\<close>

definition has_trial :: "int option \<Rightarrow> bool" where
  "has_trial days \<longleftrightarrow> (case days of None \<Rightarrow> False | Some n \<Rightarrow> n \<noteq> 0)"

definition check_billing :: "billing_mode \<Rightarrow> interval option \<Rightarrow> int option \<Rightarrow> capabilities \<Rightarrow> (db, unit) prog" where
  "check_billing billingMode recurringInterval trialPeriodDays capabilities =
     bind (throw_if (\<not> capabilities (if billingMode = OneTimeMode then One_time_checkout else Recurring_subscription))
       (NoProviderRouteError (''Payment provider does not support '' @ mode_label billingMode
          @ '' checkout in this environment''))) (\<lambda>_.
     if billingMode = OneTimeMode then return ()
     else
       bind (case recurringInterval of
           None \<Rightarrow> return ()
         | Some i \<Rightarrow> throw_if (\<not> capabilities (case i of Week \<Rightarrow> Weekly_interval | Month \<Rightarrow> Monthly_interval | Year \<Rightarrow> Annual_interval))
             (NoProviderRouteError (''Payment provider does not support '' @ interval_text i @ ''ly billing intervals''))) (\<lambda>_.
       throw_if (has_trial trialPeriodDays \<and> \<not> capabilities Trial_periods)
         (NoProviderRouteError ''Payment provider does not support trial periods'')))"

definition assertConnectionUsable ::
    "provider_env \<Rightarrow> string \<Rightarrow> string \<Rightarrow> billing_mode \<Rightarrow> string list \<Rightarrow> interval option \<Rightarrow> int option
     \<Rightarrow> (db, provider_route) prog" where
  "assertConnectionUsable env applicationId connectionId billingMode activeIds recurringInterval trialPeriodDays =
     (let unusable = NoProviderRouteError ''Configured payment provider is not active for this environment''
      in bind (gets (\<lambda>s. List.find (\<lambda>c. pc_id c = connectionId) (providerConnections s))) (\<lambda>found.
         bind (require unusable found) (\<lambda>connection.
         bind (throw_if (pc_id connection \<notin> set activeIds \<or> pc_status connection \<noteq> ConnActive) unusable) (\<lambda>_.
         bind (getProviderCapabilities env applicationId (pc_id connection)) (\<lambda>capabilities.
         bind (check_billing billingMode recurringInterval trialPeriodDays capabilities) (\<lambda>_.
         return \<lparr>rt_providerConnectionId = pc_id connection, rt_provider = pc_provider connection,
           rt_connectionName = pc_name connection, rt_source = FromProduct\<rparr>))))))"

record route_input =
  rq_applicationId :: string
  rq_environment :: environment
  rq_billingMode :: billing_mode
  rq_productIds :: "string list"
  rq_recurringInterval :: "interval option"
  rq_trialPeriodDays :: "int option"

text \<open>One turn of the loop over the items: the product must be the application's, and its
  preference joins the set.\<close>

definition add_route :: "route_input \<Rightarrow> product list \<Rightarrow> string list \<Rightarrow> string \<Rightarrow> (db, string list) prog" where
  "add_route input productRows routes productId =
     (let foreign = NoProviderRouteError ''Checkout item is not in this application''
      in bind (require foreign (List.find (\<lambda>p. pr_id p = productId) productRows)) (\<lambda>row.
         bind (throw_if (pr_applicationId row \<noteq> rq_applicationId input) foreign) (\<lambda>_.
         return (case readProviderRouting (pr_metadata row) (rq_environment input) of
             None \<Rightarrow> routes
           | Some route \<Rightarrow> if route \<in> set routes then routes else routes @ [route]))))"

definition no_route_message :: "provider_connection list \<Rightarrow> environment \<Rightarrow> string" where
  "no_route_message active env =
     (if active = [] then ''No active payment provider is connected for this ''
        @ (if env = Test then ''Sandbox'' else ''Production'') @ '' environment''
      else ''Multiple payment providers are connected without a product routing preference'')"

definition resolveCheckoutProviderRoute :: "provider_env \<Rightarrow> route_input \<Rightarrow> (db, provider_route) prog" where
  "resolveCheckoutProviderRoute env input =
     bind (gets (loadActiveConnections (rq_applicationId input) (rq_environment input))) (\<lambda>active.
     bind (gets (\<lambda>s. filter (\<lambda>p. pr_id p \<in> set (rq_productIds input)) (products s))) (\<lambda>productRows.
     bind (for_loop (add_route input productRows) [] (rq_productIds input)) (\<lambda>routes.
     let usable = (\<lambda>connectionId. assertConnectionUsable env (rq_applicationId input) connectionId
           (rq_billingMode input) (map pc_id active) (rq_recurringInterval input) (rq_trialPeriodDays input))
     in case routes of
          _ # _ # _ \<Rightarrow> throw (NoProviderRouteError
            ''Checkout items route to different payment providers for this environment'')
        | [connectionId] \<Rightarrow> usable connectionId
        | [] \<Rightarrow>
            (case active of
              [connection] \<Rightarrow>
                if pc_status connection = ConnActive
                then bind (usable (pc_id connection)) (\<lambda>route. return (route\<lparr>rt_source := FromDefault\<rparr>))
                else throw (NoProviderRouteError (no_route_message active (rq_environment input)))
            | _ \<Rightarrow> throw (NoProviderRouteError (no_route_message active (rq_environment input)))))))"

lemmas router_defs [run_simps] = truthy_def readProviderRouting_def loadActiveConnections_def mode_label_def has_trial_def
  check_billing_def assertConnectionUsable_def add_route_def no_route_message_def resolveCheckoutProviderRoute_def

end
