(* ===== verification/RouterProperties.thy ===== *)
theory RouterProperties
  imports Router
begin

text \<open>
  The router against a reference policy. \<open>routed\<close> states over sets, without lists, loops or
  order of evaluation, which connection a checkout is routed to: every product belongs to the
  application, the connection is the only preference of the products or, without any
  preference, the only unrevoked connection of the environment, and it serves the checkout:
  active, decryptable, with an adapter that has every capability the purchase needs. The lemmas
  give what each part of the router computes; the property is the equivalence.
\<close>

subsection \<open>The reference policy\<close>

fun interval_needs :: "interval \<Rightarrow> capability" where
  "interval_needs Week = Weekly_interval"
| "interval_needs Month = Monthly_interval"
| "interval_needs Year = Annual_interval"

definition needed :: "route_input \<Rightarrow> capability set" where
  "needed inp = (if rq_billingMode inp = OneTimeMode then {One_time_checkout}
     else {Recurring_subscription} \<union> interval_needs ` set_option (rq_recurringInterval inp)
       \<union> (if has_trial (rq_trialPeriodDays inp) then {Trial_periods} else {}))"

definition context_of :: "provider_connection \<Rightarrow> credentials \<Rightarrow> connection_context" where
  "context_of c creds = \<lparr>cx_id = pc_id c, cx_applicationId = pc_applicationId c, cx_provider = pc_provider c,
     cx_mode = pc_mode c, cx_metadata = pc_metadata c, cx_credentials = creds\<rparr>"

definition connected :: "route_input \<Rightarrow> db \<Rightarrow> provider_connection set" where
  "connected inp s = {c \<in> set (providerConnections s). pc_applicationId c = rq_applicationId inp
     \<and> pc_mode c = rq_environment inp \<and> pc_revokedAt c = None}"

definition serves :: "provider_env \<Rightarrow> route_input \<Rightarrow> provider_connection \<Rightarrow> bool" where
  "serves env inp c \<longleftrightarrow> pc_status c = ConnActive \<and> (\<exists>creds a. pe_decrypt env (pc_encryptedCredentials c) = Inr creds
     \<and> resolveProviderAdapter env (pc_provider c) = Inr a
     \<and> (\<forall>k \<in> needed inp. ad_getCapabilities a (context_of c creds) k))"

definition preferred :: "route_input \<Rightarrow> db \<Rightarrow> string set" where
  "preferred inp s = {r. \<exists>p \<in> set (products s). pr_id p \<in> set (rq_productIds inp)
     \<and> readProviderRouting (pr_metadata p) (rq_environment inp) = Some r}"

definition owned :: "route_input \<Rightarrow> db \<Rightarrow> bool" where
  "owned inp s \<longleftrightarrow> (\<forall>i \<in> set (rq_productIds inp). \<exists>p \<in> set (products s).
     pr_id p = i \<and> pr_applicationId p = rq_applicationId inp)"

definition routed :: "provider_env \<Rightarrow> route_input \<Rightarrow> provider_connection \<Rightarrow> db \<Rightarrow> bool" where
  "routed env inp c s \<longleftrightarrow> owned inp s \<and> c \<in> connected inp s \<and> serves env inp c
     \<and> (preferred inp s = {pc_id c} \<or> preferred inp s = {} \<and> connected inp s = {c})"

definition route_to :: "provider_connection \<Rightarrow> route_source \<Rightarrow> provider_route" where
  "route_to c source = \<lparr>rt_providerConnectionId = pc_id c, rt_provider = pc_provider c,
     rt_connectionName = pc_name c, rt_source = source\<rparr>"

subsection \<open>The loop over the products\<close>

abbreviation product_rows :: "route_input \<Rightarrow> db \<Rightarrow> product list" where
  "product_rows inp s \<equiv> filter (\<lambda>p. pr_id p \<in> set (rq_productIds inp)) (products s)"

definition own_row :: "route_input \<Rightarrow> product list \<Rightarrow> string \<Rightarrow> product \<Rightarrow> bool" where
  "own_row inp rows i p \<longleftrightarrow> List.find (\<lambda>p. pr_id p = i) rows = Some p \<and> pr_applicationId p = rq_applicationId inp"

lemma add_route_run:
  "add_route inp rows acc i s = (Inr acc', s') \<longleftrightarrow> s' = s \<and> (\<exists>p. own_row inp rows i p
     \<and> acc' = (case readProviderRouting (pr_metadata p) (rq_environment inp) of
         None \<Rightarrow> acc | Some r \<Rightarrow> if r \<in> set acc then acc else acc @ [r]))"
  by (auto simp: add_route_def own_row_def Let_def bind_eq_Inr)

lemma routes_run:
  assumes "for_loop (add_route inp rows) acc ids s = (Inr routes, s')" and "distinct acc"
  shows "s' = s \<and> distinct routes \<and> (\<forall>i \<in> set ids. \<exists>p. own_row inp rows i p)
    \<and> set routes = set acc \<union> {r. \<exists>i \<in> set ids. \<exists>p. own_row inp rows i p
        \<and> readProviderRouting (pr_metadata p) (rq_environment inp) = Some r}"
  using assms
proof (induction ids arbitrary: acc s)
  case Nil
  then show ?case by simp
next
  case (Cons i ids)
  obtain p where p: "own_row inp rows i p"
    and rest: "for_loop (add_route inp rows) (case readProviderRouting (pr_metadata p) (rq_environment inp) of
         None \<Rightarrow> acc | Some r \<Rightarrow> if r \<in> set acc then acc else acc @ [r]) ids s = (Inr routes, s')"
    using Cons.prems(1) by (auto simp: bind_eq_Inr add_route_run)
  have only: "\<And>q. own_row inp rows i q \<longleftrightarrow> q = p" using p by (auto simp: own_row_def)
  have "distinct (case readProviderRouting (pr_metadata p) (rq_environment inp) of
         None \<Rightarrow> acc | Some r \<Rightarrow> if r \<in> set acc then acc else acc @ [r])"
    using Cons.prems(2) by (simp split: option.split)
  from Cons.IH [OF rest this] show ?case
    by (auto simp: only split: option.splits if_splits)
qed

lemma routes_total:
  assumes "\<forall>i \<in> set ids. \<exists>p. own_row inp rows i p"
  shows "\<exists>routes. for_loop (add_route inp rows) acc ids s = (Inr routes, s)"
  using assms
proof (induction ids arbitrary: acc)
  case (Cons i ids)
  then obtain p where "own_row inp rows i p" by auto
  then have "\<exists>acc'. add_route inp rows acc i s = (Inr acc', s)" by (auto simp: add_route_run)
  with Cons show ?case by (auto simp: bind_eq_Inr)
qed simp

text \<open>With unique product ids, a product's row is the row with its id.\<close>

lemma own_row_iff:
  assumes "distinct (map pr_id (products s))" and "i \<in> set (rq_productIds inp)"
  shows "own_row inp (product_rows inp s) i p \<longleftrightarrow>
    p \<in> set (products s) \<and> pr_id p = i \<and> pr_applicationId p = rq_applicationId inp"
proof -
  have d: "distinct (map pr_id (product_rows inp s))" using assms(1) by (rule distinct_map_filter)
  show ?thesis
    using assms(2) find_keyed [OF d, of p i]
    by (auto simp: own_row_def dest!: find_SomeD)
qed

subsection \<open>Capabilities of a connection\<close>

lemma check_billing_run:
  "check_billing (rq_billingMode inp) (rq_recurringInterval inp) (rq_trialPeriodDays inp) caps s = (Inr u, s')
     \<longleftrightarrow> s' = s \<and> (\<forall>k \<in> needed inp. caps k)"
  by (cases "rq_recurringInterval inp"; cases "the (rq_recurringInterval inp)")
    (auto simp: check_billing_def needed_def bind_eq_Inr)

lemma load_adapter_run:
  assumes "distinct (map pc_id (providerConnections s))" and "c \<in> set (providerConnections s)"
    and "pc_applicationId c = app" and "pc_status c = ConnActive"
  shows "load_adapter env app (pc_id c) s = (Inr x, s') \<longleftrightarrow> s' = s \<and> (\<exists>creds a.
     pe_decrypt env (pc_encryptedCredentials c) = Inr creds \<and> resolveProviderAdapter env (pc_provider c) = Inr a
     \<and> x = (context_of c creds, a))"
proof -
  have "List.find (\<lambda>d. pc_id d = pc_id c \<and> pc_applicationId d = app \<and> pc_status d = ConnActive) (providerConnections s) = Some c"
    by (rule find_unique) (use assms in \<open>auto dest: distinct_key_eq\<close>)
  then show ?thesis
    by (auto simp: load_adapter_def loadProviderConnectionContext_def lift_result_def bind_eq_Inr context_of_def
        split: sum.splits)
qed

lemma usable_run:
  assumes d: "distinct (map pc_id (providerConnections s))"
  shows "assertConnectionUsable env (rq_applicationId inp) i (rq_billingMode inp)
      (map pc_id (loadActiveConnections (rq_applicationId inp) (rq_environment inp) s))
      (rq_recurringInterval inp) (rq_trialPeriodDays inp) s = (Inr rt, s')
    \<longleftrightarrow> s' = s \<and> (\<exists>c. c \<in> connected inp s \<and> pc_id c = i \<and> serves env inp c \<and> rt = route_to c FromProduct)"
proof (cases "List.find (\<lambda>c. pc_id c = i) (providerConnections s)")
  case None
  then show ?thesis
    by (auto simp: assertConnectionUsable_def Let_def bind_eq_Inr find_None_iff2 connected_def)
next
  case (Some c)
  then have c: "c \<in> set (providerConnections s)" "pc_id c = i" by (auto dest: find_SomeD)
  have only: "\<And>x. x \<in> set (providerConnections s) \<Longrightarrow> pc_id x = i \<Longrightarrow> x = c"
    using d c by (auto dest: distinct_key_eq)
  have active: "pc_id c \<in> set (map pc_id (loadActiveConnections (rq_applicationId inp) (rq_environment inp) s))
      \<longleftrightarrow> c \<in> connected inp s"
  proof
    assume "pc_id c \<in> set (map pc_id (loadActiveConnections (rq_applicationId inp) (rq_environment inp) s))"
    then obtain x where "x \<in> connected inp s" "pc_id x = i" using c(2) by (auto simp: loadActiveConnections_def connected_def)
    with only show "c \<in> connected inp s" by (auto simp: connected_def)
  next
    assume "c \<in> connected inp s"
    then show "pc_id c \<in> set (map pc_id (loadActiveConnections (rq_applicationId inp) (rq_environment inp) s))"
      by (simp add: loadActiveConnections_def connected_def)
  qed
  show ?thesis
  proof (cases "c \<in> connected inp s \<and> pc_status c = ConnActive")
    case True
    then have app: "pc_applicationId c = rq_applicationId inp" and st: "pc_status c = ConnActive" by (simp_all add: connected_def)
    note load = load_adapter_run [OF d c(1) app st]
    have caps: "getProviderCapabilities env (rq_applicationId inp) (pc_id c) s = (Inr caps, t) \<longleftrightarrow> t = s \<and> (\<exists>creds a.
        pe_decrypt env (pc_encryptedCredentials c) = Inr creds \<and> resolveProviderAdapter env (pc_provider c) = Inr a
        \<and> caps = ad_getCapabilities a (context_of c creds))" for caps t
      unfolding getProviderCapabilities_def bind_eq_Inr load by auto
    let ?usable = "assertConnectionUsable env (rq_applicationId inp) i (rq_billingMode inp)
        (map pc_id (loadActiveConnections (rq_applicationId inp) (rq_environment inp) s))
        (rq_recurringInterval inp) (rq_trialPeriodDays inp) s"
    have listed: "throw_if (pc_id c \<notin> set (map pc_id (loadActiveConnections (rq_applicationId inp) (rq_environment inp) s))
        \<or> pc_status c \<noteq> ConnActive) e s = (Inr (), s)" for e
      using active True by (simp only: throw_if_eq_Inr) simp
    have found: "bind (gets (\<lambda>s. List.find (\<lambda>c. pc_id c = i) (providerConnections s))) (\<lambda>x. bind (require e x) f) s = f c s"
      for e and f :: "provider_connection \<Rightarrow> (db, provider_route) prog"
      using Some by (simp add: bind_def require_def)
    have usable_eq: "?usable = bind (getProviderCapabilities env (rq_applicationId inp) (pc_id c))
        (\<lambda>caps. bind (check_billing (rq_billingMode inp) (rq_recurringInterval inp) (rq_trialPeriodDays inp) caps)
          (\<lambda>_. return (route_to c FromProduct))) s"
      unfolding assertConnectionUsable_def Let_def found route_to_def by (rule bind_Inr_step, rule listed)
    have "?usable = (Inr rt, s') \<longleftrightarrow> s' = s \<and> serves env inp c \<and> rt = route_to c FromProduct"
      unfolding usable_eq bind_eq_Inr caps check_billing_run serves_def using st by auto
    then show ?thesis using True c(2) only by (auto simp: connected_def)
  next
    case False
    then have "throw_if (pc_id c \<notin> set (map pc_id (loadActiveConnections (rq_applicationId inp) (rq_environment inp) s))
        \<or> pc_status c \<noteq> ConnActive) e s = (Inl e, s)" for e
      using active by (simp only: throw_if_eq_Inl) blast
    then have "fst (assertConnectionUsable env (rq_applicationId inp) i (rq_billingMode inp)
        (map pc_id (loadActiveConnections (rq_applicationId inp) (rq_environment inp) s))
        (rq_recurringInterval inp) (rq_trialPeriodDays inp) s) = Inl (NoProviderRouteError
          ''Configured payment provider is not active for this environment'')"
      using Some by (simp add: assertConnectionUsable_def Let_def bind_def require_def throw_if_apply)
    then show ?thesis using False only by (auto simp: serves_def connected_def)
  qed
qed

subsection \<open>The router is the policy\<close>

lemma routes_preferred:
  assumes d: "distinct (map pr_id (products s))" and o: "owned inp s"
  obtains routes where
    "for_loop (add_route inp (product_rows inp s)) [] (rq_productIds inp) s = (Inr routes, s)"
    "distinct routes" "set routes = preferred inp s"
proof -
  note own = own_row_iff [OF d]
  have ex: "\<forall>i \<in> set (rq_productIds inp). \<exists>p. own_row inp (product_rows inp s) i p"
    using o own by (auto simp: owned_def)
  from routes_total [OF this] obtain routes
    where run: "for_loop (add_route inp (product_rows inp s)) [] (rq_productIds inp) s = (Inr routes, s)" by blast
  note r = routes_run [OF run distinct.simps(1) [THEN iffD2, OF TrueI]]
  then have "distinct routes" by blast
  moreover have "set routes = preferred inp s"
  proof -
    have "p \<in> set (products s) \<Longrightarrow> pr_id p \<in> set (rq_productIds inp) \<Longrightarrow> pr_applicationId p = rq_applicationId inp" for p
      using o d by (auto simp: owned_def dest: distinct_key_eq)
    then show ?thesis using r own by (auto simp: preferred_def)
  qed
  ultimately show ?thesis using that run by blast
qed

lemma not_owned_throws:
  assumes d: "distinct (map pr_id (products s))"
    and run: "for_loop (add_route inp (product_rows inp s)) [] (rq_productIds inp) s = (Inr routes, s')"
  shows "owned inp s"
  using routes_run [OF run] own_row_iff [OF d] by (auto simp: owned_def)

lemma singleton_list: "distinct xs \<Longrightarrow> xs = [x] \<longleftrightarrow> set xs = {x}"
  by (cases xs; cases "tl xs") auto

lemma no_route: "distinct xs \<Longrightarrow> xs = [] \<longleftrightarrow> set xs = {}"
  by simp

text \<open>C39: The router is its policy. For every configuration, every item list and every provider
  table, it returns a route exactly when the reference policy routes the checkout to some
  connection, that connection is the one returned, and nothing is written. So the choice does
  not depend on the order of the items or of the rows, a checkout never reaches a connection of
  another application or environment, a revoked one or one that cannot bill the purchase, and
  the router never guesses between several connections.\<close>

theorem router_follows_policy:
  assumes "distinct (map pr_id (products s))" and "distinct (map pc_id (providerConnections s))"
  shows "resolveCheckoutProviderRoute env inp s = (Inr rt, s') \<longleftrightarrow>
    s' = s \<and> (\<exists>c. routed env inp c s \<and> rt = route_to c (if preferred inp s = {} then FromDefault else FromProduct))"
proof (cases "owned inp s")
  case False
  then show ?thesis
    using not_owned_throws [OF assms(1)]
    by (auto simp: resolveCheckoutProviderRoute_def bind_eq_Inr routed_def)
next
  case True
  let ?active = "loadActiveConnections (rq_applicationId inp) (rq_environment inp) s"
  obtain routes where run: "for_loop (add_route inp (product_rows inp s)) [] (rq_productIds inp) s = (Inr routes, s)"
    and routes: "distinct routes" "set routes = preferred inp s"
    by (rule routes_preferred [OF assms(1) True])
  note usable = usable_run [OF assms(2)]
  have active: "distinct ?active" "set ?active = connected inp s"
    using assms(2) by (auto simp: loadActiveConnections_def connected_def distinct_map)
  consider (many) r q rs where "routes = r # q # rs" | (one) r where "routes = [r]" | (none) "routes = []"
    by (cases routes; cases "tl routes") auto
  then show ?thesis
  proof cases
    case many
    then have "preferred inp s \<noteq> {}" "\<And>x. preferred inp s \<noteq> {x}" using routes by auto
    then show ?thesis using run many by (auto simp: resolveCheckoutProviderRoute_def bind_eq_Inr routed_def)
  next
    case one
    then have "preferred inp s = {r}" using routes by simp
    then show ?thesis using run one True
      by (auto simp: resolveCheckoutProviderRoute_def bind_eq_Inr routed_def usable)
  next
    case none
    then have empty: "preferred inp s = {}" using routes by simp
    consider (single) c where "?active = [c]" | (other) "\<And>c. ?active \<noteq> [c]" by blast
    then show ?thesis
    proof cases
      case single
      then have c: "connected inp s = {c}" using active by simp
      have us: "assertConnectionUsable env (rq_applicationId inp) (pc_id c) (rq_billingMode inp) [pc_id c]
          (rq_recurringInterval inp) (rq_trialPeriodDays inp) s = (Inr r, t)
          \<longleftrightarrow> t = s \<and> serves env inp c \<and> r = route_to c FromProduct" for r t
        using usable [of env inp "pc_id c" r t, unfolded single list.map] c by auto
      show ?thesis
      proof (cases "pc_status c = ConnActive")
        case True
        show ?thesis
          using run none \<open>owned inp s\<close> empty single c True
          by (auto simp: resolveCheckoutProviderRoute_def bind_eq_Inr routed_def us) (simp_all add: route_to_def)
      next
        case False
        then show ?thesis
          using run none empty single c
          by (auto simp: resolveCheckoutProviderRoute_def bind_eq_Inr routed_def serves_def)
      qed
    next
      case other
      then have "connected inp s \<noteq> {c}" for c using active singleton_list by metis
      then show ?thesis
        using run none empty other
        by (auto simp: resolveCheckoutProviderRoute_def bind_eq_Inr routed_def split: list.splits)
    qed
  qed
qed

subsection \<open>A concrete plane\<close>

text \<open>A provider that answers every checkout and nothing else, a catalog of one product that names
  its connection for the live environment, and two live connections.\<close>

definition demo_gateway :: adapter where
  "demo_gateway = \<lparr>ad_getCapabilities = (\<lambda>_. PAYPAL_CAPABILITIES), ad_validateConnection = None,
     ad_createCheckout = (\<lambda>_ q. Inr \<lparr>kr_providerCheckoutId = ''pc'', kr_checkoutUrl = ''https://pay/x''\<rparr>),
     ad_getPayment = (\<lambda>_ _. Inl (Error ''offline'')), ad_getSubscription = (\<lambda>_ _. Inl (Error ''offline'')),
     ad_cancelSubscription = (\<lambda>_ _. Inl (Error ''offline'')), ad_updateSubscription = (\<lambda>_ _ _. Inl (Error ''offline'')),
     ad_refundPayment = (\<lambda>_ _ _ _. Inl (Error ''offline'')), ad_createCustomerPortalSession = None,
     ad_getCatalogProduct = None, ad_createCatalogProduct = None,
     ad_verifyAndNormalize = (\<lambda>_ _ _. Inl (Error ''offline''))\<rparr>"

definition demo_env :: provider_env where
  "demo_env = \<lparr>pe_decrypt = (\<lambda>_. Inr []), pe_registered = (\<lambda>_. None), pe_creem = demo_gateway, pe_waffo = demo_gateway,
     pe_paypal = demo_gateway\<rparr>"

definition demo_live_connection :: "string \<Rightarrow> string \<Rightarrow> provider_connection" where
  "demo_live_connection i provider = \<lparr>pc_id = i, pc_applicationId = ''app'', pc_provider = provider, pc_name = i,
     pc_mode = Live, pc_status = ConnActive, pc_encryptedCredentials = ''x'', pc_metadata = [], pc_updatedAt = 0,
     pc_revokedAt = None\<rparr>"

definition demo_routed_product :: product where
  "demo_routed_product = \<lparr>pr_id = ''p'', pr_applicationId = ''app'', pr_key = ''pack'', pr_name = ''Pack'',
     pr_description = None, pr_status = StActive,
     pr_metadata = [(''monetplane'', JObj [(''providerRouting'', JObj [(''live'', JStr ''c2'')])])]\<rparr>"

definition demo_plane :: db where
  "demo_plane = empty_db\<lparr>products := [demo_routed_product],
     providerConnections := [demo_live_connection ''c1'' ''creem'', demo_live_connection ''c2'' ''paypal'']\<rparr>"

definition demo_route :: route_input where
  "demo_route = \<lparr>rq_applicationId = ''app'', rq_environment = Live, rq_billingMode = SubscriptionMode,
     rq_productIds = [''p'', ''p''], rq_recurringInterval = Some Week, rq_trialPeriodDays = Some 7\<rparr>"

lemmas demo_plane_defs [run_simps] = demo_gateway_def demo_env_def demo_live_connection_def demo_routed_product_def
  demo_plane_def demo_route_def

lemma router_follows_policy_witness:
  "resolveCheckoutProviderRoute demo_env demo_route demo_plane
     = (Inr (route_to (demo_live_connection ''c2'' ''paypal'') FromProduct), demo_plane)
   \<and> routed demo_env demo_route (demo_live_connection ''c2'' ''paypal'') demo_plane"
proof -
  have d: "distinct (map pr_id (products demo_plane))" "distinct (map pc_id (providerConnections demo_plane))"
    by (simp_all add: run_simps)
  have pref: "preferred demo_route demo_plane = {''c2''}"
    by (auto simp: preferred_def run_simps)
  have r: "routed demo_env demo_route (demo_live_connection ''c2'' ''paypal'') demo_plane"
    unfolding routed_def pref
    by (auto simp: owned_def connected_def serves_def needed_def run_simps)
  with router_follows_policy [OF d, of demo_env demo_route
      "route_to (demo_live_connection ''c2'' ''paypal'') FromProduct" demo_plane] pref
  show ?thesis by auto
qed

end
