(* ===== verification/Customers.thy ===== *)
theory Customers
  imports CatalogSchema
begin

text \<open>
  Customers of an application (\<open>src/src/modules/customers/service.ts\<close>) and the callback origins
  an application allows (\<open>registerCallbackOrigin\<close> and \<open>assertAllowedCallbackUrl\<close> of
  \<open>src/src/modules/applications/service.ts\<close>). \<open>new URL(value)\<close> is the argument \<open>parseUrl\<close>: the
  parts of the URL the code reads, or none where the constructor throws.
\<close>

subsection \<open>Application customers\<close>

record customer_input =
  ic_applicationId :: string
  ic_externalCustomerId :: string
  ic_customerId :: "string option"
  ic_email :: "string option"
  ic_metadata :: "json_object option"

definition createApplicationCustomer :: "customer_input \<Rightarrow> (db, application_customer) prog" where
  "createApplicationCustomer input =
     (let externalCustomerId = trim (ic_externalCustomerId input)
      in bind (throw_if (externalCustomerId = []) (Error ''External customer ID is required'')) (\<lambda>_.
         transaction (
           bind (case truthy (ic_customerId input) of
               Some customerId \<Rightarrow>
                 bind (gets (\<lambda>s. List.find (\<lambda>c. c = customerId) (customers s))) (require CustomerNotFoundError)
             | None \<Rightarrow> bind (new_id ''cus_'') insert_customer) (\<lambda>customerId.
           bind (new_id ''acus_'') (\<lambda>i.
           insert_application_customer
             \<lparr>ac_id = i, ac_applicationId = ic_applicationId input, ac_customerId = customerId,
              ac_externalCustomerId = externalCustomerId,
              ac_email = truthy (map_option (\<lambda>e. toLowerCase (trim e)) (ic_email input)),
              ac_metadata = (case ic_metadata input of None \<Rightarrow> [] | Some m \<Rightarrow> m)\<rparr>)))))"

definition findApplicationCustomer :: "string \<Rightarrow> string \<Rightarrow> db \<Rightarrow> application_customer option" where
  "findApplicationCustomer applicationId externalCustomerId s =
     List.find (\<lambda>m. ac_applicationId m = applicationId \<and> ac_externalCustomerId m = trim externalCustomerId)
       (applicationCustomers s)"

subsection \<open>Callback origins\<close>

record url =
  url_protocol :: string
  url_username :: string
  url_password :: string
  url_origin :: string

definition normalizeCallbackOrigin :: "(string \<Rightarrow> url option) \<Rightarrow> string \<Rightarrow> (db, string) prog" where
  "normalizeCallbackOrigin parseUrl value =
     bind (require (InvalidCallbackUrlError ''Invalid callback URL'') (parseUrl value)) (\<lambda>u.
     bind (throw_if (url_protocol u \<noteq> ''https:'' \<and> url_protocol u \<noteq> ''http:'')
       (InvalidCallbackUrlError ''Callback URL must use http or https'')) (\<lambda>_.
     bind (throw_if (url_username u \<noteq> [] \<or> url_password u \<noteq> [])
       (InvalidCallbackUrlError ''Callback URL must not contain credentials'')) (\<lambda>_.
     return (url_origin u))))"

definition find_callback_origin :: "string \<Rightarrow> string \<Rightarrow> db \<Rightarrow> callback_origin option" where
  "find_callback_origin applicationId origin s =
     List.find (\<lambda>r. co_applicationId r = applicationId \<and> co_origin r = origin) (callbackOrigins s)"

definition registerCallbackOrigin ::
    "(string \<Rightarrow> url option) \<Rightarrow> string \<Rightarrow> string \<Rightarrow> (db, callback_origin option) prog" where
  "registerCallbackOrigin parseUrl applicationId callbackUrl =
     bind (normalizeCallbackOrigin parseUrl callbackUrl) (\<lambda>origin.
     bind (new_id ''cb_'') (\<lambda>i.
     bind (insert_callback_origin \<lparr>co_id = i, co_applicationId = applicationId, co_origin = origin\<rparr>) (\<lambda>result.
     case result of
       Some r \<Rightarrow> return (Some r)
     | None \<Rightarrow> gets (find_callback_origin applicationId origin))))"

definition assertAllowedCallbackUrl :: "(string \<Rightarrow> url option) \<Rightarrow> string \<Rightarrow> string \<Rightarrow> (db, string) prog" where
  "assertAllowedCallbackUrl parseUrl applicationId callbackUrl =
     bind (normalizeCallbackOrigin parseUrl callbackUrl) (\<lambda>origin.
     bind (gets (find_callback_origin applicationId origin)) (\<lambda>allowed.
     bind (require CallbackUrlNotAllowedError allowed) (\<lambda>_.
     return callbackUrl)))"

lemmas customer_defs [run_simps] = createApplicationCustomer_def findApplicationCustomer_def
  normalizeCallbackOrigin_def find_callback_origin_def registerCallbackOrigin_def assertAllowedCallbackUrl_def

end
