(* ===== verification/Checkout.thy ===== *)
theory Checkout
  imports Router Customers
begin

text \<open>
  Checkout (\<open>src/src/modules/commerce/checkout.ts\<close>): the requested prices are resolved in the
  catalog, a connection is chosen, the amounts are totalled, order, items and session are
  written in one transaction, and the provider is asked for a hosted checkout; its failure marks
  the session failed and is rethrown. \<open>parseUrl\<close> and \<open>env\<close> are the parameters of the theories
  \<open>Customers\<close> and \<open>ProviderRuntime\<close>. Amounts are multiplied and added as doubles in the code: a
  result beyond the safe range is rejected there, so the exact integers agree.
\<close>

record checkout_input =
  ci_externalCustomerId :: string
  ci_providerConnectionId :: "string option"
  ci_items :: "(string \<times> int) list"
  ci_successUrl :: string
  ci_cancelUrl :: string
  ci_environment :: "environment option"

record resolved_item =
  re_price :: price
  re_product :: product
  re_quantity :: int

subsection \<open>The catalog\<close>

definition catalog_rows :: "string \<Rightarrow> string list \<Rightarrow> db \<Rightarrow> (price \<times> product) list" where
  "catalog_rows applicationId priceIds s =
     concat (map (\<lambda>price. map (\<lambda>product. (price, product))
         (filter (\<lambda>product. pr_id product = pp_productId price \<and> pr_applicationId product = applicationId
            \<and> pr_status product = StActive) (products s)))
       (filter (\<lambda>price. pp_id price \<in> set priceIds \<and> pp_status price = StActive) (prices s)))"

text \<open>\<open>new Map(rows)\<close>: the last row of a price counts.\<close>

definition catalog_find :: "(price \<times> product) list \<Rightarrow> string \<Rightarrow> (price \<times> product) option" where
  "catalog_find rows priceId = List.find (\<lambda>row. pp_id (fst row) = priceId) (rev rows)"

definition resolve_item :: "(price \<times> product) list \<Rightarrow> resolved_item list \<Rightarrow> string \<times> int \<Rightarrow> (db, resolved_item list) prog" where
  "resolve_item rows resolved item =
     bind (throw_if (\<not> isSafeInteger (snd item) \<or> snd item < 1)
       (CommerceCatalogError ''Item quantity must be a positive integer'')) (\<lambda>_.
     bind (require (CommerceCatalogError ''Price not found or no longer available for new checkout'')
       (catalog_find rows (fst item))) (\<lambda>row.
     return (resolved @ [\<lparr>re_price = fst row, re_product = snd row, re_quantity = snd item\<rparr>])))"

definition resolveItems :: "string \<Rightarrow> (string \<times> int) list \<Rightarrow> (db, resolved_item list) prog" where
  "resolveItems applicationId items =
     bind (throw_if (items = []) (CommerceCatalogError ''Checkout requires at least one item'')) (\<lambda>_.
     bind (gets (catalog_rows applicationId (map fst items))) (\<lambda>rows.
     bind (throw_if (length (remdups (map (\<lambda>row. pp_id (fst row)) rows)) \<noteq> length (remdups (map fst items)))
       (CommerceCatalogError ''One or more prices do not belong to this application or are inactive'')) (\<lambda>_.
     bind (for_loop (resolve_item rows) [] items) (\<lambda>resolved.
     bind (throw_if (length (remdups (map (\<lambda>i. pp_currency (re_price i)) resolved)) \<noteq> 1)
       (CommerceCatalogError ''Checkout items must use one currency'')) (\<lambda>_.
     bind (throw_if (length (remdups (map (\<lambda>i. pp_billingType (re_price i)) resolved)) \<noteq> 1)
       (CommerceCatalogError ''One-time and recurring prices cannot be mixed in one checkout'')) (\<lambda>_.
     return resolved))))))"

subsection \<open>The connection\<close>

datatype routing_source = RoutedByProduct | RoutedByDefault | RoutedExplicitly

definition routing_source_of :: "route_source \<Rightarrow> routing_source" where
  "routing_source_of r = (case r of FromProduct \<Rightarrow> RoutedByProduct | FromDefault \<Rightarrow> RoutedByDefault)"

definition chooseConnection ::
    "provider_env \<Rightarrow> string \<Rightarrow> checkout_input \<Rightarrow> billing_mode \<Rightarrow> resolved_item list
     \<Rightarrow> (db, string \<times> routing_source) prog" where
  "chooseConnection env applicationId input billingMode items =
     (case truthy (ci_providerConnectionId input) of
       Some i \<Rightarrow>
         bind (gets (getProviderConnection applicationId i)) (\<lambda>found.
         bind (require CommerceProviderConnectionError found) (\<lambda>explicit.
         bind (throw_if (pc_status explicit \<noteq> ConnActive) CommerceProviderConnectionError) (\<lambda>_.
         return (pc_id explicit, RoutedExplicitly))))
     | None \<Rightarrow>
         bind (resolveCheckoutProviderRoute env
           \<lparr>rq_applicationId = applicationId,
            rq_environment = (case ci_environment input of None \<Rightarrow> Test | Some e \<Rightarrow> e),
            rq_billingMode = billingMode,
            rq_productIds = map (\<lambda>i. pr_id (re_product i)) items,
            rq_recurringInterval = (if billingMode = SubscriptionMode then pp_recurringInterval (re_price (hd items)) else None),
            rq_trialPeriodDays = pp_trialPeriodDays (re_price (hd items))\<rparr>) (\<lambda>route.
         return (rt_providerConnectionId route, routing_source_of (rt_source route))))"

definition explicit_gate :: "provider_env \<Rightarrow> string \<Rightarrow> string \<Rightarrow> price \<Rightarrow> (db, unit) prog" where
  "explicit_gate env applicationId connectionId first =
     bind (getProviderCapabilities env applicationId connectionId) (\<lambda>capabilities.
     bind (case pp_recurringInterval first of
         None \<Rightarrow> return ()
       | Some i \<Rightarrow> throw_if (\<not> capabilities (interval_capability i))
           (CommerceCatalogError (''Payment provider does not support '' @ interval_text i @ '' recurring billing''))) (\<lambda>_.
     throw_if (has_trial (pp_trialPeriodDays first) \<and> \<not> capabilities Trial_periods)
       (CommerceCatalogError ''Payment provider does not support trial periods on this plan'')))"

definition routeCheckout ::
    "provider_env \<Rightarrow> string \<Rightarrow> checkout_input \<Rightarrow> billing_mode \<Rightarrow> resolved_item list
     \<Rightarrow> (db, provider_connection \<times> routing_source) prog" where
  "routeCheckout env applicationId input billingMode items =
     bind (chooseConnection env applicationId input billingMode items) (\<lambda>(connectionId, source).
     bind (gets (getProviderConnection applicationId connectionId)) (\<lambda>found.
     bind (require CommerceProviderConnectionError found) (\<lambda>connection.
     bind (throw_if (pc_status connection \<noteq> ConnActive) CommerceProviderConnectionError) (\<lambda>_.
     bind (throw_if (ci_environment input \<noteq> None \<and> ci_environment input \<noteq> Some (pc_mode connection))
       CommerceEnvironmentMismatchError) (\<lambda>_.
     bind (if source = RoutedExplicitly \<and> billingMode = SubscriptionMode
           then explicit_gate env applicationId connectionId (re_price (hd items)) else return ()) (\<lambda>_.
     return (connection, source)))))))"

subsection \<open>The amounts\<close>

text \<open>The items of a subscription share one interval and one interval count.\<close>

definition same_interval :: "resolved_item list \<Rightarrow> bool" where
  "same_interval items \<longleftrightarrow>
     length (remdups (List.map_filter (\<lambda>i. pp_recurringInterval (re_price i)) items)) = 1
     \<and> length (remdups (List.map_filter (\<lambda>i. pp_intervalCount (re_price i)) items)) = 1"

definition add_line :: "int \<Rightarrow> resolved_item \<Rightarrow> (db, int) prog" where
  "add_line subtotal item =
     (let lineAmount = pp_amountMinor (re_price item) * re_quantity item
      in bind (throw_if (\<not> isSafeInteger lineAmount)
           (CommerceCatalogError ''Checkout amount exceeds safe integer range'')) (\<lambda>_.
         bind (throw_if (\<not> isSafeInteger (subtotal + lineAmount))
           (CommerceCatalogError ''Checkout total exceeds safe integer range'')) (\<lambda>_.
         return (subtotal + lineAmount))))"

definition priceItems :: "billing_mode \<Rightarrow> resolved_item list \<Rightarrow> (db, string \<times> int) prog" where
  "priceItems billingMode items =
     bind (throw_if (billingMode = SubscriptionMode \<and> \<not> same_interval items)
       (CommerceCatalogError ''Recurring checkout items must use the same billing interval'')) (\<lambda>_.
     let currency = pp_currency (re_price (hd items))
     in bind (throw_if (currency = []) (CommerceCatalogError ''Checkout currency is missing'')) (\<lambda>_.
        bind (for_loop add_line 0 items) (\<lambda>total.
        return (currency, total))))"

subsection \<open>The rows\<close>

definition insertItems :: "string \<Rightarrow> resolved_item list \<Rightarrow> (db, unit) prog" where
  "insertItems orderId items =
     for_loop (\<lambda>_ item.
       bind (new_id ''item_'') (\<lambda>i.
       bind (insert_order_item \<lparr>oi_id = i, oi_orderId = orderId, oi_productId = pr_id (re_product item),
               oi_priceId = pp_id (re_price item), oi_quantity = re_quantity item,
               oi_unitAmountMinor = pp_amountMinor (re_price item)\<rparr>) (\<lambda>_. return ()))) () items"

definition writeCheckout :: "commerce_order \<Rightarrow> resolved_item list \<Rightarrow> checkout_session \<Rightarrow> (db, unit) prog" where
  "writeCheckout order items session =
     transaction (
       bind (insert_order order) (\<lambda>_.
       bind (insertItems (od_id order) items) (\<lambda>_.
       bind (insert_checkout_session session) (\<lambda>_.
       return ()))))"

definition new_order ::
    "string \<Rightarrow> string \<Rightarrow> application_customer \<Rightarrow> billing_mode \<Rightarrow> string \<Rightarrow> environment \<Rightarrow> int \<Rightarrow> int \<Rightarrow> commerce_order" where
  "new_order i applicationId customer billingMode currency environ totalMinor now =
     \<lparr>od_id = i, od_applicationId = applicationId, od_applicationCustomerId = ac_id customer,
      od_billingMode = billingMode, od_status = OrdPending, od_currency = currency, od_environment = environ,
      od_totalAmountMinor = totalMinor, od_updatedAt = now\<rparr>"

definition new_session ::
    "string \<Rightarrow> string \<Rightarrow> string \<Rightarrow> provider_connection \<Rightarrow> string \<Rightarrow> string \<Rightarrow> int \<Rightarrow> checkout_session" where
  "new_session i applicationId orderId connection successUrl cancelUrl now =
     \<lparr>cs_id = i, cs_applicationId = applicationId, cs_orderId = orderId, cs_providerConnectionId = pc_id connection,
      cs_environment = pc_mode connection, cs_status = ChkCreating, cs_providerCheckoutId = None, cs_checkoutUrl = None,
      cs_successUrl = successUrl, cs_cancelUrl = cancelUrl, cs_updatedAt = now\<rparr>"

subsection \<open>The provider's checkout\<close>

definition checkout_lines :: "resolved_item list \<Rightarrow> checkout_line list" where
  "checkout_lines items =
     map (\<lambda>i. \<lparr>kl_productId = pr_id (re_product i), kl_productName = Some (pr_name (re_product i)),
               kl_priceId = pp_id (re_price i), kl_quantity = re_quantity i,
               kl_unitAmountMinor = pp_amountMinor (re_price i), kl_providerProductId = None\<rparr>) items"

definition provider_request ::
    "string \<Rightarrow> string \<Rightarrow> application_customer \<Rightarrow> billing_mode \<Rightarrow> string \<Rightarrow> resolved_item list \<Rightarrow> string \<Rightarrow> string
     \<Rightarrow> checkout_request" where
  "provider_request applicationId orderId customer billingMode currency items successUrl cancelUrl =
     \<lparr>kq_applicationId = applicationId, kq_monetplaneOrderId = orderId, kq_monetplaneCustomerId = ac_customerId customer,
      kq_customerEmail = ac_email customer, kq_billingMode = billingMode,
      kq_interval = (if billingMode = SubscriptionMode then pp_recurringInterval (re_price (hd items)) else None),
      kq_trialPeriodDays = pp_trialPeriodDays (re_price (hd items)), kq_currency = currency,
      kq_items = checkout_lines items, kq_successUrl = successUrl, kq_cancelUrl = cancelUrl\<rparr>"

text \<open>The update that stores the provider's checkout id, which is unique per connection.\<close>

definition update_sessions_keyed ::
    "(checkout_session \<Rightarrow> bool) \<Rightarrow> (checkout_session \<Rightarrow> checkout_session) \<Rightarrow> (db, checkout_session list) prog" where
  "update_sessions_keyed P f = (\<lambda>s.
     if \<exists>r \<in> set (filter P (checkoutSessions s)). \<exists>q \<in> set (checkoutSessions s).
          cs_id q \<noteq> cs_id r \<and> same_provider_checkout (f r) q
     then (Inl (UniqueViolation ''checkout_sessions''), s)
     else update_checkout_sessions P f s)"

definition openSession :: "string \<Rightarrow> string \<Rightarrow> checkout_result \<Rightarrow> (db, checkout_session option) prog" where
  "openSession applicationId sessionId created =
     bind now_date (\<lambda>now.
     bind (update_sessions_keyed (\<lambda>c. cs_id c = sessionId \<and> cs_applicationId c = applicationId)
             (\<lambda>c. c\<lparr>cs_status := ChkOpen, cs_providerCheckoutId := Some (kr_providerCheckoutId created),
                    cs_checkoutUrl := Some (kr_checkoutUrl created), cs_updatedAt := now\<rparr>)) (\<lambda>rows.
     return (first_row rows)))"

definition failed_session :: "int \<Rightarrow> checkout_session \<Rightarrow> checkout_session" where
  "failed_session now c = c\<lparr>cs_status := ChkFailed, cs_updatedAt := now\<rparr>"

definition failSession :: "string \<Rightarrow> string \<Rightarrow> (db, unit) prog" where
  "failSession applicationId sessionId =
     bind now_date (\<lambda>now.
     bind (update_checkout_sessions (\<lambda>c. cs_id c = sessionId \<and> cs_applicationId c = applicationId)
             (failed_session now)) (\<lambda>_.
     return ()))"

subsection \<open>The whole checkout\<close>

record checkout_outcome =
  ko_orderId :: string
  ko_checkoutSessionId :: string
  ko_orderStatus :: order_status
  ko_checkoutUrl :: string
  ko_providerCheckoutId :: string
  ko_source :: routing_source
  ko_provider :: string
  ko_connectionId :: string
  ko_environment :: environment
  ko_session :: "checkout_session option"

definition hostCheckout ::
    "provider_env \<Rightarrow> string \<Rightarrow> provider_connection \<Rightarrow> routing_source \<Rightarrow> checkout_request \<Rightarrow> string
     \<Rightarrow> (db, checkout_outcome) prog" where
  "hostCheckout env applicationId connection source request sessionId =
     bind (createProviderCheckout env applicationId (pc_id connection) request) (\<lambda>created.
     bind (openSession applicationId sessionId created) (\<lambda>session.
     return \<lparr>ko_orderId = kq_monetplaneOrderId request, ko_checkoutSessionId = sessionId, ko_orderStatus = OrdPending,
       ko_checkoutUrl = kr_checkoutUrl created, ko_providerCheckoutId = kr_providerCheckoutId created,
       ko_source = source, ko_provider = pc_provider connection, ko_connectionId = pc_id connection,
       ko_environment = pc_mode connection, ko_session = session\<rparr>))"

definition askProvider ::
    "provider_env \<Rightarrow> string \<Rightarrow> provider_connection \<Rightarrow> routing_source \<Rightarrow> checkout_request \<Rightarrow> string
     \<Rightarrow> (db, checkout_outcome) prog" where
  "askProvider env applicationId connection source request sessionId =
     try_catch (hostCheckout env applicationId connection source request sessionId)
       (\<lambda>e. bind (failSession applicationId sessionId) (\<lambda>_. throw e))"

text \<open>Everything before the rows: the customer, the callback URLs, the items, the connection and
  the total.\<close>

record prepared_checkout =
  kk_customer :: application_customer
  kk_successUrl :: string
  kk_cancelUrl :: string
  kk_items :: "resolved_item list"
  kk_billingMode :: billing_mode
  kk_connection :: provider_connection
  kk_source :: routing_source
  kk_currency :: string
  kk_totalMinor :: int

definition prepareCheckout ::
    "(string \<Rightarrow> url option) \<Rightarrow> provider_env \<Rightarrow> string \<Rightarrow> checkout_input \<Rightarrow> (db, prepared_checkout) prog" where
  "prepareCheckout parseUrl env applicationId input =
     bind (gets (findApplicationCustomer applicationId (ci_externalCustomerId input))) (\<lambda>found.
     bind (require CommerceCustomerNotFoundError found) (\<lambda>customer.
     bind (assertAllowedCallbackUrl parseUrl applicationId (ci_successUrl input)) (\<lambda>successUrl.
     bind (assertAllowedCallbackUrl parseUrl applicationId (ci_cancelUrl input)) (\<lambda>cancelUrl.
     bind (resolveItems applicationId (ci_items input)) (\<lambda>items.
     let billingMode = (if pp_billingType (re_price (hd items)) = BillRecurring then SubscriptionMode else OneTimeMode)
     in bind (routeCheckout env applicationId input billingMode items) (\<lambda>(connection, source).
        bind (priceItems billingMode items) (\<lambda>(currency, totalMinor).
        return \<lparr>kk_customer = customer, kk_successUrl = successUrl, kk_cancelUrl = cancelUrl, kk_items = items,
          kk_billingMode = billingMode, kk_connection = connection, kk_source = source, kk_currency = currency,
          kk_totalMinor = totalMinor\<rparr>)))))))"

definition createCommerceCheckout ::
    "(string \<Rightarrow> url option) \<Rightarrow> provider_env \<Rightarrow> string \<Rightarrow> checkout_input \<Rightarrow> (db, checkout_outcome) prog" where
  "createCommerceCheckout parseUrl env applicationId input =
     bind (prepareCheckout parseUrl env applicationId input) (\<lambda>p.
     bind (new_id ''ord_'') (\<lambda>orderId.
     bind (new_id ''chk_'') (\<lambda>sessionId.
     bind now_date (\<lambda>now.
     bind (writeCheckout
       (new_order orderId applicationId (kk_customer p) (kk_billingMode p) (kk_currency p) (pc_mode (kk_connection p))
         (kk_totalMinor p) now)
       (kk_items p)
       (new_session sessionId applicationId orderId (kk_connection p) (kk_successUrl p) (kk_cancelUrl p) now)) (\<lambda>_.
     askProvider env applicationId (kk_connection p) (kk_source p)
       (provider_request applicationId orderId (kk_customer p) (kk_billingMode p) (kk_currency p) (kk_items p)
         (kk_successUrl p) (kk_cancelUrl p)) sessionId)))))"

lemmas checkout_defs [run_simps] = catalog_rows_def catalog_find_def resolve_item_def resolveItems_def
  routing_source_of_def chooseConnection_def explicit_gate_def routeCheckout_def same_interval_def add_line_def
  priceItems_def insertItems_def writeCheckout_def new_order_def new_session_def checkout_lines_def
  provider_request_def update_sessions_keyed_def openSession_def failed_session_def failSession_def
  hostCheckout_def askProvider_def
  prepareCheckout_def createCommerceCheckout_def

end
