(* ===== verification/CheckoutFacts.thy ===== *)
theory CheckoutFacts
  imports Checkout Frames
begin

text \<open>
  What the steps of a checkout compute and write. Everything before the rows are written, and
  the provider call, leaves the database as it is (the frame of equality); the resolved items
  are the requested prices in the requested quantities; the total is the sum of the lines; the
  rows are appended to three tables.
\<close>

subsection \<open>The parts that write nothing\<close>

interpretation silent: frame "(=) :: db \<Rightarrow> db \<Rightarrow> bool"
  by unfold_locales auto

lemmas silent_intros = silent.compose silent.pure

lemma silent_case_prod: "(\<And>a b. honours R (f a b)) \<Longrightarrow> honours R (case x of (a, b) \<Rightarrow> f a b)"
  by (cases x) simp

lemma silent_lift: "honours ((=) :: db \<Rightarrow> db \<Rightarrow> bool) (lift_result r)"
  by (cases r) (simp_all add: lift_result_def)

lemma silent_require_capability: "honours ((=) :: db \<Rightarrow> db \<Rightarrow> bool) (requireCapability p caps c)"
  by (simp add: requireCapability_def)

lemma silent_load: "honours ((=) :: db \<Rightarrow> db \<Rightarrow> bool) (load_adapter env app i)"
  unfolding load_adapter_def loadProviderConnectionContext_def
  by (intro silent_intros silent_lift)

lemma silent_capabilities: "honours ((=) :: db \<Rightarrow> db \<Rightarrow> bool) (getProviderCapabilities env app i)"
  unfolding getProviderCapabilities_def by (intro silent_intros silent_load silent_case_prod)

lemma silent_provider_checkout: "honours ((=) :: db \<Rightarrow> db \<Rightarrow> bool) (createProviderCheckout env app i input)"
  unfolding createProviderCheckout_def Let_def
  by (intro silent_intros silent_load silent_lift silent_require_capability silent_case_prod)

lemma silent_route: "honours ((=) :: db \<Rightarrow> db \<Rightarrow> bool) (resolveCheckoutProviderRoute env input)"
  unfolding resolveCheckoutProviderRoute_def Let_def assertConnectionUsable_def check_billing_def add_route_def
  by (intro silent_intros silent_capabilities)
    (auto split: list.split option.split intro!: silent_intros silent_capabilities)

lemma silent_routing: "honours ((=) :: db \<Rightarrow> db \<Rightarrow> bool) (routeCheckout env app input mode items)"
  unfolding routeCheckout_def chooseConnection_def explicit_gate_def
  by (intro silent_intros silent_route silent_capabilities silent_case_prod)

lemma silent_items: "honours ((=) :: db \<Rightarrow> db \<Rightarrow> bool) (resolveItems app items)"
  unfolding resolveItems_def resolve_item_def by (intro silent_intros)

lemma silent_prices: "honours ((=) :: db \<Rightarrow> db \<Rightarrow> bool) (priceItems mode items)"
  unfolding priceItems_def add_line_def Let_def by (intro silent_intros silent_case_prod)

lemma silent_callback: "honours ((=) :: db \<Rightarrow> db \<Rightarrow> bool) (assertAllowedCallbackUrl parseUrl app u)"
  unfolding assertAllowedCallbackUrl_def normalizeCallbackOrigin_def by (intro silent_intros)

subsection \<open>The resolved items\<close>

definition sold_by :: "string \<Rightarrow> db \<Rightarrow> resolved_item \<Rightarrow> bool" where
  "sold_by app s i \<longleftrightarrow> re_price i \<in> set (prices s) \<and> pp_status (re_price i) = StActive
     \<and> re_product i \<in> set (products s) \<and> pr_id (re_product i) = pp_productId (re_price i)
     \<and> pr_applicationId (re_product i) = app \<and> pr_status (re_product i) = StActive"

lemma catalog_found:
  assumes "catalog_find (catalog_rows app ids s) k = Some row"
  shows "sold_by app s \<lparr>re_price = fst row, re_product = snd row, re_quantity = q\<rparr> \<and> pp_id (fst row) = k"
  using find_SomeD [OF assms [unfolded catalog_find_def]] by (auto simp: catalog_rows_def sold_by_def)

lemma resolve_item_run:
  "resolve_item rows acc item t = (Inr acc', t') \<longleftrightarrow> t' = t \<and> isSafeInteger (snd item) \<and> 1 \<le> snd item
     \<and> (\<exists>row. catalog_find rows (fst item) = Some row
         \<and> acc' = acc @ [\<lparr>re_price = fst row, re_product = snd row, re_quantity = snd item\<rparr>])"
  by (auto simp: resolve_item_def bind_eq_Inr)

lemma items_loop:
  assumes "for_loop (resolve_item (catalog_rows app ids s)) acc items t = (Inr res, t')"
  shows "\<exists>new. res = acc @ new \<and> map (\<lambda>i. (pp_id (re_price i), re_quantity i)) new = items
    \<and> (\<forall>i \<in> set new. sold_by app s i \<and> isSafeInteger (re_quantity i) \<and> 1 \<le> re_quantity i)"
  using assms
proof (induction items arbitrary: acc t)
  case Nil
  then show ?case by simp
next
  case (Cons item items)
  obtain row where row: "catalog_find (catalog_rows app ids s) (fst item) = Some row"
    and q: "isSafeInteger (snd item)" "1 \<le> snd item"
    and rest: "for_loop (resolve_item (catalog_rows app ids s))
        (acc @ [\<lparr>re_price = fst row, re_product = snd row, re_quantity = snd item\<rparr>]) items t = (Inr res, t')"
    using Cons.prems by (auto simp: bind_eq_Inr resolve_item_run)
  from Cons.IH [OF rest] obtain new where
    "res = acc @ \<lparr>re_price = fst row, re_product = snd row, re_quantity = snd item\<rparr> # new"
    "map (\<lambda>i. (pp_id (re_price i), re_quantity i)) new = items"
    "\<forall>i \<in> set new. sold_by app s i \<and> isSafeInteger (re_quantity i) \<and> 1 \<le> re_quantity i" by auto
  then show ?case
    using catalog_found [OF row] q
    by (intro exI [of _ "\<lparr>re_price = fst row, re_product = snd row, re_quantity = snd item\<rparr> # new"]) auto
qed

lemma all_same: "length (remdups xs) = 1 \<Longrightarrow> x \<in> set xs \<Longrightarrow> y \<in> set xs \<Longrightarrow> x = y"
  by (metis One_nat_def length_0_conv length_Suc_conv set_remdups list.set(1,2) singletonD)

lemma resolved_items:
  assumes "resolveItems app items s = (Inr res, s')"
  shows "map (\<lambda>i. (pp_id (re_price i), re_quantity i)) res = items" and "res \<noteq> []"
    and "i \<in> set res \<Longrightarrow> sold_by app s i \<and> 1 \<le> re_quantity i"
    and "i \<in> set res \<Longrightarrow> pp_currency (re_price i) = pp_currency (re_price (hd res))"
    and "i \<in> set res \<Longrightarrow> pp_billingType (re_price i) = pp_billingType (re_price (hd res))"
proof -
  have ne: "items \<noteq> []"
    and loop: "for_loop (resolve_item (catalog_rows app (map fst items) s)) [] items s = (Inr res, s')"
    and cur: "length (remdups (map (\<lambda>i. pp_currency (re_price i)) res)) = 1"
    and bill: "length (remdups (map (\<lambda>i. pp_billingType (re_price i)) res)) = 1"
    using assms by (auto simp: resolveItems_def bind_eq_Inr)
  from items_loop [OF loop] show m: "map (\<lambda>i. (pp_id (re_price i), re_quantity i)) res = items"
    and "i \<in> set res \<Longrightarrow> sold_by app s i \<and> 1 \<le> re_quantity i" by auto
  from m ne show res: "res \<noteq> []" by auto
  then have "hd res \<in> set res" by simp
  then show "i \<in> set res \<Longrightarrow> pp_currency (re_price i) = pp_currency (re_price (hd res))"
    and "i \<in> set res \<Longrightarrow> pp_billingType (re_price i) = pp_billingType (re_price (hd res))"
    by (auto intro: all_same [OF cur] all_same [OF bill])
qed

lemma add_line_run:
  "add_line acc i s = (Inr acc', s') \<longleftrightarrow> s' = s \<and> acc' = acc + pp_amountMinor (re_price i) * re_quantity i
     \<and> isSafeInteger (pp_amountMinor (re_price i) * re_quantity i) \<and> isSafeInteger acc'"
  by (auto simp: add_line_def Let_def bind_eq_Inr)

lemma lines_total:
  assumes "for_loop add_line acc items s = (Inr t, s')" and "isSafeInteger acc"
  shows "t = acc + sum_list (map (\<lambda>i. pp_amountMinor (re_price i) * re_quantity i) items) \<and> isSafeInteger t"
  using assms
proof (induction items arbitrary: acc s)
  case (Cons i items)
  then have "for_loop add_line (acc + pp_amountMinor (re_price i) * re_quantity i) items s = (Inr t, s')"
    and "isSafeInteger (acc + pp_amountMinor (re_price i) * re_quantity i)"
    by (auto simp: bind_eq_Inr add_line_run)
  from Cons.IH [OF this] show ?case by (auto simp: add.assoc)
qed simp

lemma priced_items:
  assumes "priceItems mode items s = (Inr (currency, t), s')"
  shows "currency = pp_currency (re_price (hd items))"
    and "t = sum_list (map (\<lambda>i. pp_amountMinor (re_price i) * re_quantity i) items)" and "isSafeInteger t"
  using assms lines_total [of 0 items]
  by (auto simp: priceItems_def Let_def bind_eq_Inr isSafeInteger_def MAX_SAFE_INTEGER_def)

subsection \<open>The rows\<close>

definition item_row :: "string \<Rightarrow> resolved_item \<Rightarrow> order_item \<Rightarrow> bool" where
  "item_row orderId i r \<longleftrightarrow> oi_orderId r = orderId \<and> oi_productId r = pr_id (re_product i)
     \<and> oi_priceId r = pp_id (re_price i) \<and> oi_quantity r = re_quantity i
     \<and> oi_unitAmountMinor r = pp_amountMinor (re_price i)"

lemma insertItems_Cons:
  assumes "insertItems orderId (i # items) s = (Inr u, s')"
  shows "insertItems orderId items (orderItems_update (\<lambda>rs. rs @ [\<lparr>oi_id = ''item_'' @ string_of_nat (uuids s),
      oi_orderId = orderId, oi_productId = pr_id (re_product i), oi_priceId = pp_id (re_price i),
      oi_quantity = re_quantity i, oi_unitAmountMinor = pp_amountMinor (re_price i)\<rparr>])
      (s\<lparr>uuids := Suc (uuids s)\<rparr>)) = (Inr u, s')"
  using assms by (auto simp: insertItems_def bind_eq_Inr insert_order_item_def insert_row_eq_Inr)

lemma inserted_items:
  assumes "insertItems orderId items s = (Inr u, s')"
  shows "\<exists>rows n. s' = s\<lparr>uuids := n, orderItems := orderItems s @ rows\<rparr> \<and> list_all2 (item_row orderId) items rows"
  using assms
proof (induction items arbitrary: s)
  case Nil
  then show ?case by (intro exI [of _ "[]"] exI [of _ "uuids s"]) (simp add: insertItems_def)
next
  case (Cons i items)
  let ?r = "\<lparr>oi_id = ''item_'' @ string_of_nat (uuids s), oi_orderId = orderId, oi_productId = pr_id (re_product i),
      oi_priceId = pp_id (re_price i), oi_quantity = re_quantity i, oi_unitAmountMinor = pp_amountMinor (re_price i)\<rparr>"
  from Cons.IH [OF insertItems_Cons [OF Cons.prems]] obtain rows n where
    "s' = s\<lparr>uuids := n, orderItems := orderItems s @ ?r # rows\<rparr>" "list_all2 (item_row orderId) items rows"
    by (cases s) auto
  moreover have "item_row orderId i ?r" by (simp add: item_row_def)
  ultimately show ?case by (intro exI [of _ "?r # rows"] exI [of _ n]) simp
qed

lemma written_checkout:
  assumes "writeCheckout order items session s = (Inr u, s')"
  obtains rows n where "s' = s\<lparr>uuids := n, orders := orders s @ [order], orderItems := orderItems s @ rows,
      checkoutSessions := checkoutSessions s @ [session]\<rparr>"
    and "list_all2 (item_row (od_id order)) items rows"
    and "\<And>c. c \<in> set (checkoutSessions s) \<Longrightarrow> cs_id c \<noteq> cs_id session"
proof -
  from assms obtain u2 s2 where items: "insertItems (od_id order) items (orders_update (\<lambda>rs. rs @ [order]) s) = (Inr u2, s2)"
    and session: "insert_checkout_session session s2 = (Inr session, s')"
    by (auto simp: writeCheckout_def bind_eq_Inr insert_order_def insert_row_eq_Inr insert_checkout_session_def simp del: unit_eq)
  from inserted_items [OF items] obtain rows n where
    s2: "s2 = s\<lparr>uuids := n, orders := orders s @ [order], orderItems := orderItems s @ rows\<rparr>"
    and rows: "list_all2 (item_row (od_id order)) items rows" by (cases s) auto
  have s': "s' = checkoutSessions_update (\<lambda>rs. rs @ [session]) s2"
    and fresh: "c \<in> set (checkoutSessions s) \<Longrightarrow> cs_id c \<noteq> cs_id session" for c
    using session s2 by (auto simp: insert_checkout_session_def insert_row_eq_Inr)
  have "s' = s\<lparr>uuids := n, orders := orders s @ [order], orderItems := orderItems s @ rows,
      checkoutSessions := checkoutSessions s @ [session]\<rparr>"
    by (cases s) (simp add: s' s2)
  then show ?thesis by (rule that [OF _ rows fresh])
qed

lemma unwritten_checkout: "writeCheckout order items session s = (Inl e, s') \<Longrightarrow> s' = s"
  unfolding writeCheckout_def by (rule transaction_rollback)

text \<open>An update of the session that was just appended.\<close>

lemma update_appended:
  assumes "\<And>c. c \<in> set rows \<Longrightarrow> cs_id c \<noteq> cs_id session"
  shows "update_where (\<lambda>c. cs_id c = cs_id session \<and> cs_applicationId c = app) f (rows @ [session])
    = rows @ [if cs_applicationId session = app then f session else session]"
proof -
  have "update_where (\<lambda>c. cs_id c = cs_id session \<and> cs_applicationId c = app) f rows = rows"
    by (rule update_where_none) (use assms in auto)
  then show ?thesis by simp
qed

subsection \<open>The provider's answer\<close>

lemma opened_session:
  assumes "openSession app i created s = (Inr x, s')"
  shows "s' = s\<lparr>checkoutSessions := update_where (\<lambda>c. cs_id c = i \<and> cs_applicationId c = app)
      (\<lambda>c. c\<lparr>cs_status := ChkOpen, cs_providerCheckoutId := Some (kr_providerCheckoutId created),
             cs_checkoutUrl := Some (kr_checkoutUrl created), cs_updatedAt := clock s\<rparr>) (checkoutSessions s)\<rparr>"
  using assms
  by (cases s) (auto simp: openSession_def bind_eq_Inr update_sessions_keyed_def update_checkout_sessions_def update_rows_eq_Inr
      split: if_splits)

lemma unopened_session: "openSession app i created s = (Inl e, s') \<Longrightarrow> s' = s"
  by (auto simp: openSession_def bind_eq_Inl update_sessions_keyed_def update_checkout_sessions_def update_rows_def Let_def
      split: if_splits)

lemma fail_session_run:
  "failSession app i s = (Inr (), s\<lparr>checkoutSessions := update_where (\<lambda>c. cs_id c = i \<and> cs_applicationId c = app)
     (failed_session (clock s)) (checkoutSessions s)\<rparr>)"
  by (cases s) (simp add: failSession_def bind_def update_checkout_sessions_def update_rows_def Let_def list_all_iff)

lemma hosted_checkout:
  assumes "hostCheckout env app connection source request i s = (Inr out, s')"
  obtains created where "openSession app i created s = (Inr (ko_session out), s')"
    and "ko_orderId out = kq_monetplaneOrderId request" and "ko_checkoutSessionId out = i"
    and "ko_providerCheckoutId out = kr_providerCheckoutId created" and "ko_checkoutUrl out = kr_checkoutUrl created"
    and "ko_connectionId out = pc_id connection" and "ko_environment out = pc_mode connection"
proof -
  from assms obtain created s1 where c: "createProviderCheckout env app (pc_id connection) request s = (Inr created, s1)"
    and o: "openSession app i created s1 = (Inr (ko_session out), s')"
    and rest: "ko_orderId out = kq_monetplaneOrderId request" "ko_checkoutSessionId out = i"
      "ko_providerCheckoutId out = kr_providerCheckoutId created" "ko_checkoutUrl out = kr_checkoutUrl created"
      "ko_connectionId out = pc_id connection" "ko_environment out = pc_mode connection"
    by (auto simp: hostCheckout_def bind_eq_Inr)
  have "s1 = s" using honoursD [OF silent_provider_checkout c] by simp
  with o rest show ?thesis by (intro that) auto
qed

lemma unhosted_checkout:
  assumes "hostCheckout env app connection source request i s = (Inl e, s')"
  shows "s' = s"
  using assms honoursD [OF silent_provider_checkout, of env app "pc_id connection" request s]
  by (auto simp: hostCheckout_def bind_eq_Inl dest: unopened_session)

lemma asked_provider:
  "askProvider env app connection source request i s = (Inr out, s') \<longleftrightarrow>
     hostCheckout env app connection source request i s = (Inr out, s')"
  by (auto simp: askProvider_def try_catch_def fail_session_run bind_def split: prod.splits sum.splits)

lemma refused_by_provider:
  assumes "askProvider env app connection source request i s = (Inl e, s')"
  shows "s' = s\<lparr>checkoutSessions := update_where (\<lambda>c. cs_id c = i \<and> cs_applicationId c = app)
     (failed_session (clock s)) (checkoutSessions s)\<rparr>"
proof -
  obtain e0 s0 where m: "hostCheckout env app connection source request i s = (Inl e0, s0)"
    using assms by (cases "hostCheckout env app connection source request i s"; cases "fst (hostCheckout env app connection source request i s)")
      (auto simp: askProvider_def try_catch_def)
  with assms unhosted_checkout [OF m] show ?thesis
    by (auto simp: askProvider_def try_catch_def fail_session_run bind_def)
qed

subsection \<open>The whole checkout\<close>

lemma silent_preparation: "honours ((=) :: db \<Rightarrow> db \<Rightarrow> bool) (prepareCheckout parseUrl env app input)"
  unfolding prepareCheckout_def Let_def
  by (intro silent_intros silent_callback silent_items silent_routing silent_prices silent_case_prod)

lemma prepared:
  assumes "prepareCheckout parseUrl env app input s = (Inr p, s')"
  shows "s' = s" and "findApplicationCustomer app (ci_externalCustomerId input) s = Some (kk_customer p)"
    and "resolveItems app (ci_items input) s = (Inr (kk_items p), s)"
    and "routeCheckout env app input (kk_billingMode p) (kk_items p) s = (Inr (kk_connection p, kk_source p), s)"
    and "priceItems (kk_billingMode p) (kk_items p) s = (Inr (kk_currency p, kk_totalMinor p), s)"
    and "kk_billingMode p = (if pp_billingType (re_price (hd (kk_items p))) = BillRecurring then SubscriptionMode else OneTimeMode)"
proof -
  show "s' = s" using honoursD [OF silent_preparation assms] by simp
  let ?mode = "\<lambda>items. if pp_billingType (re_price (hd items)) = BillRecurring then SubscriptionMode else OneTimeMode"
  note same = honoursD [OF silent_items] honoursD [OF silent_routing] honoursD [OF silent_prices] honoursD [OF silent_callback]
  obtain customer su cu items connection source currency n s1 s2 s3 s4 where
    steps: "findApplicationCustomer app (ci_externalCustomerId input) s = Some customer"
      "assertAllowedCallbackUrl parseUrl app (ci_successUrl input) s = (Inr su, s1)"
      "assertAllowedCallbackUrl parseUrl app (ci_cancelUrl input) s1 = (Inr cu, s2)"
      "resolveItems app (ci_items input) s2 = (Inr items, s3)"
      "routeCheckout env app input (?mode items) items s3 = (Inr (connection, source), s4)"
      "priceItems (?mode items) items s4 = (Inr (currency, n), s')"
    and p: "p = \<lparr>kk_customer = customer, kk_successUrl = su, kk_cancelUrl = cu, kk_items = items, kk_billingMode = ?mode items,
      kk_connection = connection, kk_source = source, kk_currency = currency, kk_totalMinor = n\<rparr>"
    using assms by (auto simp: prepareCheckout_def Let_def bind_eq_Inr split: prod.splits)
  have "s1 = s" "s2 = s" "s3 = s" "s4 = s" using steps(2-5) same by metis+
  with steps p show "findApplicationCustomer app (ci_externalCustomerId input) s = Some (kk_customer p)"
    and "resolveItems app (ci_items input) s = (Inr (kk_items p), s)"
    and "routeCheckout env app input (kk_billingMode p) (kk_items p) s = (Inr (kk_connection p, kk_source p), s)"
    and "priceItems (kk_billingMode p) (kk_items p) s = (Inr (kk_currency p, kk_totalMinor p), s)"
    and "kk_billingMode p = ?mode (kk_items p)"
    using \<open>s' = s\<close> by simp_all
qed

abbreviation checkout_order :: "string \<Rightarrow> prepared_checkout \<Rightarrow> db \<Rightarrow> commerce_order" where
  "checkout_order app p s \<equiv> new_order (''ord_'' @ string_of_nat (uuids s)) app (kk_customer p) (kk_billingMode p)
     (kk_currency p) (pc_mode (kk_connection p)) (kk_totalMinor p) (clock s)"

abbreviation checkout_session_of :: "string \<Rightarrow> prepared_checkout \<Rightarrow> db \<Rightarrow> checkout_session" where
  "checkout_session_of app p s \<equiv> new_session (''chk_'' @ string_of_nat (Suc (uuids s))) app (''ord_'' @ string_of_nat (uuids s))
     (kk_connection p) (kk_successUrl p) (kk_cancelUrl p) (clock s)"

abbreviation checkout_request_of :: "string \<Rightarrow> prepared_checkout \<Rightarrow> db \<Rightarrow> checkout_request" where
  "checkout_request_of app p s \<equiv> provider_request app (''ord_'' @ string_of_nat (uuids s)) (kk_customer p) (kk_billingMode p)
     (kk_currency p) (kk_items p) (kk_successUrl p) (kk_cancelUrl p)"

text \<open>The rows a checkout writes, before the provider answers.\<close>

definition checkout_written :: "string \<Rightarrow> prepared_checkout \<Rightarrow> db \<Rightarrow> order_item list \<Rightarrow> db \<Rightarrow> bool" where
  "checkout_written app p s rows t \<longleftrightarrow> (\<exists>n. t = s\<lparr>uuids := n, orders := orders s @ [checkout_order app p s],
       orderItems := orderItems s @ rows, checkoutSessions := checkoutSessions s @ [checkout_session_of app p s]\<rparr>)
     \<and> list_all2 (item_row (''ord_'' @ string_of_nat (uuids s))) (kk_items p) rows
     \<and> (\<forall>c \<in> set (checkoutSessions s). cs_id c \<noteq> ''chk_'' @ string_of_nat (Suc (uuids s)))"

text \<open>A run stops before the rows, or is the preparation, the rows and the provider.\<close>

lemma checkout_cases:
  assumes run: "createCommerceCheckout parseUrl env app input s = (r, s')"
  obtains (stopped) e n where "r = Inl e" "s' = s\<lparr>uuids := n\<rparr>"
  | (asked) p rows t where "prepareCheckout parseUrl env app input s = (Inr p, s)"
      and "checkout_written app p s rows t"
      and "askProvider env app (kk_connection p) (kk_source p) (checkout_request_of app p s)
             (''chk_'' @ string_of_nat (Suc (uuids s))) t = (r, s')"
proof (cases "prepareCheckout parseUrl env app input s")
  case (Pair x s0)
  then have s0: "s0 = s" using honoursD [OF silent_preparation] by blast
  show ?thesis
  proof (cases x)
    case (Inl e)
    with Pair s0 run show ?thesis by (intro stopped [of e "uuids s"]) (auto simp: createCommerceCheckout_def)
  next
    case (Inr p)
    let ?s = "s\<lparr>uuids := Suc (Suc (uuids s))\<rparr>"
    from Pair Inr s0 run have rest: "bind (writeCheckout (checkout_order app p s) (kk_items p) (checkout_session_of app p s))
        (\<lambda>_. askProvider env app (kk_connection p) (kk_source p) (checkout_request_of app p s)
             (''chk_'' @ string_of_nat (Suc (uuids s)))) ?s = (r, s')"
      by (simp add: createCommerceCheckout_def)
    show ?thesis
    proof (cases "writeCheckout (checkout_order app p s) (kk_items p) (checkout_session_of app p s) ?s")
      case w: (Pair y t)
      show ?thesis
      proof (cases y)
        case (Inl e)
        with w rest unwritten_checkout show ?thesis by (intro stopped [of e "Suc (Suc (uuids s))"]) (auto simp: bind_def)
      next
        case u: (Inr u)
        have "\<exists>rows. checkout_written app p s rows t"
          using w [unfolded u]
          by (rule written_checkout) (auto simp: checkout_written_def new_order_def new_session_def)
        with rest w u Pair Inr s0 show ?thesis by (auto intro: asked)
      qed
    qed
  qed
qed

end
