(* ===== verification/CheckoutProperties.thy ===== *)
theory CheckoutProperties
  imports CheckoutFacts RouterProperties
begin

text \<open>
  What a checkout promises: the order it books is the request, priced by the catalog. The lemmas
  read it off the rows of \<open>CheckoutFacts\<close>.
\<close>

definition priced_line :: "string \<Rightarrow> string \<Rightarrow> db \<Rightarrow> order_item \<Rightarrow> bool" where
  "priced_line app currency s r \<longleftrightarrow> (\<exists>p \<in> set (prices s). \<exists>q \<in> set (products s).
     pp_id p = oi_priceId r \<and> pp_status p = StActive \<and> pp_currency p = currency \<and> pp_amountMinor p = oi_unitAmountMinor r
     \<and> pr_id q = pp_productId p \<and> pr_id q = oi_productId r \<and> pr_applicationId q = app \<and> pr_status q = StActive)"

lemma rows_of_items:
  assumes "list_all2 (item_row i) items rows"
  shows "map (\<lambda>r. (oi_priceId r, oi_quantity r)) rows = map (\<lambda>i. (pp_id (re_price i), re_quantity i)) items"
    and "sum_list (map (\<lambda>r. oi_unitAmountMinor r * oi_quantity r) rows)
         = sum_list (map (\<lambda>i. pp_amountMinor (re_price i) * re_quantity i) items)"
    and "\<forall>r \<in> set rows. oi_orderId r = i"
  using assms by (induction rule: list_all2_induct) (auto simp: item_row_def)

lemma row_priced:
  assumes "item_row i x r" and "sold_by app s x"
  shows "priced_line app (pp_currency (re_price x)) s r"
  unfolding priced_line_def
  by (rule bexI [of _ "re_price x"], rule bexI [of _ "re_product x"]) (use assms in \<open>auto simp: item_row_def sold_by_def\<close>)

lemma rows_priced:
  assumes "list_all2 (item_row i) items rows"
    and "\<And>x. x \<in> set items \<Longrightarrow> sold_by app s x \<and> pp_currency (re_price x) = currency"
  shows "\<forall>r \<in> set rows. priced_line app currency s r"
  using assms by (induction rule: list_all2_induct) (auto dest: row_priced)

text \<open>The session of a finished checkout.\<close>

definition open_session :: "checkout_outcome \<Rightarrow> checkout_session \<Rightarrow> bool" where
  "open_session out c \<longleftrightarrow> cs_id c = ko_checkoutSessionId out \<and> cs_orderId c = ko_orderId out \<and> cs_status c = ChkOpen
     \<and> cs_environment c = ko_environment out \<and> cs_providerConnectionId c = ko_connectionId out
     \<and> cs_providerCheckoutId c = Some (ko_providerCheckoutId out) \<and> cs_checkoutUrl c = Some (ko_checkoutUrl out)"

lemma finished_checkout:
  assumes "createCommerceCheckout parseUrl env app input s = (Inr out, s')"
  obtains p rows session n where "prepareCheckout parseUrl env app input s = (Inr p, s)"
    and "s' = s\<lparr>uuids := n, orders := orders s @ [checkout_order app p s], orderItems := orderItems s @ rows,
           checkoutSessions := checkoutSessions s @ [session]\<rparr>"
    and "list_all2 (item_row (''ord_'' @ string_of_nat (uuids s))) (kk_items p) rows"
    and "open_session out session" and "ko_orderId out = ''ord_'' @ string_of_nat (uuids s)"
    and "ko_environment out = pc_mode (kk_connection p)"
  using assms
proof (cases rule: checkout_cases)
  case (asked p rows t)
  from asked(3) have host: "hostCheckout env app (kk_connection p) (kk_source p) (checkout_request_of app p s)
      (''chk_'' @ string_of_nat (Suc (uuids s))) t = (Inr out, s')" by (simp add: asked_provider)
  obtain n where t: "t = s\<lparr>uuids := n, orders := orders s @ [checkout_order app p s],
       orderItems := orderItems s @ rows, checkoutSessions := checkoutSessions s @ [checkout_session_of app p s]\<rparr>"
    and rows: "list_all2 (item_row (''ord_'' @ string_of_nat (uuids s))) (kk_items p) rows"
    and fresh: "\<And>c. c \<in> set (checkoutSessions s) \<Longrightarrow> cs_id c \<noteq> cs_id (checkout_session_of app p s)"
    using asked(2) by (auto simp: checkout_written_def new_session_def)
  from host show ?thesis
  proof (rule hosted_checkout)
    fix created
    assume o: "openSession app (''chk_'' @ string_of_nat (Suc (uuids s))) created t = (Inr (ko_session out), s')"
      and out: "ko_orderId out = kq_monetplaneOrderId (checkout_request_of app p s)"
        "ko_checkoutSessionId out = ''chk_'' @ string_of_nat (Suc (uuids s))"
        "ko_providerCheckoutId out = kr_providerCheckoutId created" "ko_checkoutUrl out = kr_checkoutUrl created"
        "ko_connectionId out = pc_id (kk_connection p)" "ko_environment out = pc_mode (kk_connection p)"
    let ?open = "\<lambda>c. c\<lparr>cs_status := ChkOpen, cs_providerCheckoutId := Some (kr_providerCheckoutId created),
             cs_checkoutUrl := Some (kr_checkoutUrl created), cs_updatedAt := clock t\<rparr>"
    let ?session = "?open (checkout_session_of app p s)"
    have up: "update_where (\<lambda>c. cs_id c = ''chk_'' @ string_of_nat (Suc (uuids s)) \<and> cs_applicationId c = app) ?open
        (checkoutSessions s @ [checkout_session_of app p s]) = checkoutSessions s @ [?session]"
      using update_appended [OF fresh, of "checkoutSessions s" app ?open] by (simp add: new_session_def)
    have "s' = s\<lparr>uuids := n, orders := orders s @ [checkout_order app p s], orderItems := orderItems s @ rows,
           checkoutSessions := checkoutSessions s @ [?session]\<rparr>"
      using opened_session [OF o] up by (cases s) (simp add: t)
    moreover have "open_session out ?session"
      using out by (simp add: open_session_def new_session_def provider_request_def)
    ultimately show ?thesis
      using asked(1) rows out by (intro that) (auto simp: provider_request_def)
  qed
qed auto

text \<open>C37: A checkout books exactly what was asked, at the catalog's prices. When it returns, it
  has added one pending order, its items and one open session and changed nothing else: the
  items are the requested prices in the requested quantities, in order; each unit amount is the
  current amount of an active price of an active product of this application, in the order's
  currency; the total is the sum of the lines and within the safe range; and the session
  carries the order, the environment and the provider's checkout.\<close>

theorem checkout_books_the_request:
  assumes "createCommerceCheckout parseUrl env app input s = (Inr out, s')"
  shows "\<exists>order rows session.
    s' = s\<lparr>uuids := uuids s', orders := orders s @ [order], orderItems := orderItems s @ rows,
          checkoutSessions := checkoutSessions s @ [session]\<rparr>
    \<and> od_id order = ko_orderId out \<and> od_applicationId order = app \<and> od_status order = OrdPending
    \<and> od_environment order = ko_environment out
    \<and> map (\<lambda>r. (oi_priceId r, oi_quantity r)) rows = ci_items input
    \<and> (\<forall>r \<in> set rows. oi_orderId r = od_id order \<and> priced_line app (od_currency order) s r)
    \<and> od_totalAmountMinor order = sum_list (map (\<lambda>r. oi_unitAmountMinor r * oi_quantity r) rows)
    \<and> isSafeInteger (od_totalAmountMinor order) \<and> open_session out session"
  using assms
proof (rule finished_checkout)
  fix p rows session n
  assume p: "prepareCheckout parseUrl env app input s = (Inr p, s)"
    and s': "s' = s\<lparr>uuids := n, orders := orders s @ [checkout_order app p s], orderItems := orderItems s @ rows,
           checkoutSessions := checkoutSessions s @ [session]\<rparr>"
    and rows: "list_all2 (item_row (''ord_'' @ string_of_nat (uuids s))) (kk_items p) rows"
    and rest: "open_session out session" "ko_orderId out = ''ord_'' @ string_of_nat (uuids s)"
      "ko_environment out = pc_mode (kk_connection p)"
  note items = resolved_items [OF prepared(3) [OF p]] and total = priced_items [OF prepared(5) [OF p]]
  have priced: "\<forall>r \<in> set rows. priced_line app (od_currency (checkout_order app p s)) s r"
    by (rule rows_priced [OF rows]) (use items(3,4) total(1) in \<open>auto simp: new_order_def\<close>)
  show ?thesis
    by (intro exI [of _ "checkout_order app p s"] exI [of _ rows] exI [of _ session])
      (use s' rest priced total items(1) rows_of_items [OF rows] in \<open>auto simp: new_order_def\<close>)
qed

definition demo_price :: price where
  "demo_price = \<lparr>pp_id = ''pp'', pp_productId = ''p'', pp_key = ''one'', pp_currency = ''USD'', pp_amountMinor = 2500,
     pp_billingType = BillOneTime, pp_recurringInterval = None, pp_intervalCount = None, pp_trialPeriodDays = None,
     pp_status = StActive, pp_metadata = []\<rparr>"

definition demo_store :: db where
  "demo_store = demo_plane\<lparr>prices := [demo_price], customers := [''cus''],
     applicationCustomers := [\<lparr>ac_id = ''cu'', ac_applicationId = ''app'', ac_customerId = ''cus'',
       ac_externalCustomerId = ''u1'', ac_email = None, ac_metadata = []\<rparr>],
     callbackOrigins := [\<lparr>co_id = ''cb'', co_applicationId = ''app'', co_origin = ''https://shop''\<rparr>]\<rparr>"

definition demo_url :: "string \<Rightarrow> url option" where
  "demo_url t = Some \<lparr>url_protocol = ''https:'', url_username = [], url_password = [], url_origin = ''https://shop''\<rparr>"

definition demo_request :: checkout_input where
  "demo_request = \<lparr>ci_externalCustomerId = ''u1'', ci_providerConnectionId = None, ci_items = [(''pp'', 2)],
     ci_successUrl = ''https://shop/ok'', ci_cancelUrl = ''https://shop/no'', ci_environment = Some Live\<rparr>"

lemmas demo_checkout_defs [run_simps] = demo_price_def demo_store_def demo_url_def demo_request_def

lemma demo_checkout_returns:
  "\<exists>out s'. createCommerceCheckout demo_url demo_env ''app'' demo_request demo_store = (Inr out, s')
     \<and> ko_environment out = Live \<and> ko_connectionId out = ''c2''"
  by (simp add: run_simps prog_simps try_catch_def trim_def is_js_space_def toLowerCase_def lower_char_def transaction_def
      isSafeInteger_def MAX_SAFE_INTEGER_def fits_bigint_def fits_integer_def map_filter_def) force

lemma checkout_books_the_request_witness:
  "\<exists>out s' order. createCommerceCheckout demo_url demo_env ''app'' demo_request demo_store = (Inr out, s')
     \<and> orders s' = [order] \<and> od_totalAmountMinor order = 5000 \<and> od_environment order = Live"
proof -
  obtain out s' where run: "createCommerceCheckout demo_url demo_env ''app'' demo_request demo_store = (Inr out, s')"
    and live: "ko_environment out = Live"
    using demo_checkout_returns by blast
  obtain order rows session where s': "s' = demo_store\<lparr>uuids := uuids s', orders := orders demo_store @ [order],
        orderItems := orderItems demo_store @ rows, checkoutSessions := checkoutSessions demo_store @ [session]\<rparr>"
    and rows: "map (\<lambda>r. (oi_priceId r, oi_quantity r)) rows = ci_items demo_request"
      "\<forall>r \<in> set rows. oi_orderId r = od_id order \<and> priced_line ''app'' (od_currency order) demo_store r"
    and order: "od_totalAmountMinor order = sum_list (map (\<lambda>r. oi_unitAmountMinor r * oi_quantity r) rows)"
      "od_environment order = ko_environment out"
    using checkout_books_the_request [OF run] by blast
  obtain r where r: "rows = [r]" "oi_priceId r = ''pp''" "oi_quantity r = 2"
    using rows(1) by (auto simp: demo_request_def)
  then have "oi_unitAmountMinor r = 2500"
    using rows(2) by (auto simp: priced_line_def demo_store_def demo_price_def)
  moreover have "orders s' = [order]" by (subst s') (simp add: run_simps)
  ultimately show ?thesis using run live order r by auto
qed

text \<open>The runtime's own gate asks for the annual capability when a checkout is weekly. A provider
  that bills years but no weeks is handed a weekly checkout, unless the router or the explicit
  gate stopped it before.\<close>

lemma weekly_checkout_passes_annual_gate:
  assumes "load_adapter env app i s = (Inr (connection, a), s)" and "kq_applicationId request = app"
    and "kq_billingMode request = SubscriptionMode" "kq_interval request = Some Week"
    and "ad_getCapabilities a connection Recurring_subscription" "ad_getCapabilities a connection Annual_interval"
    and "\<not> ad_getCapabilities a connection Weekly_interval"
  shows "\<exists>lines. createProviderCheckout env app i request s
    = lift_result (ad_createCheckout a connection (request\<lparr>kq_items := lines\<rparr>)) s"
  using assms
  by (auto simp: createProviderCheckout_def requireCapability_def checkoutCapability_def bind_def gets_def
      throw_if_def return_def throw_def Let_def)

end
