(* ===== verification/Provisioning.thy ===== *)
theory Provisioning
  imports ProviderRuntime
begin

text \<open>
  Catalog provisioning (\<open>src/src/modules/providers/catalog-provisioning.ts\<close>): one mapping row
  per application, environment, connection and price is the intent to create a provider
  product. Every transition is one conditional update; the provider is called between
  \<open>beginProvision\<close> and \<open>finishProvision\<close>, outside the database, so other requests act in
  between. An attempt owns its row through a token that the next claim overwrites.
  \<open>beginProvision\<close> calls itself again when it lost a race; the model gives it fuel. The answer
  of the verification read is the argument \<open>verify\<close>; the \<open>details\<close> of an error are left out.
\<close>

definition STALE_IN_FLIGHT_MS :: int where
  "STALE_IN_FLIGHT_MS = 5 * 60 * 1000"

record provision_input =
  pb_applicationId :: string
  pb_environment :: environment
  pb_providerConnectionId :: string
  pb_monetplanePriceId :: string
  pb_name :: "string option"
  pb_description :: "string option"
  pb_taxCategory :: "string option"

datatype provision_begin =
    Begin catalog_mapping catalog_product_input string
  | AlreadySynced catalog_mapping
  | StaleParked catalog_mapping
  | OutOfFuel

abbreviation in_scope :: "provision_input \<Rightarrow> catalog_mapping \<Rightarrow> bool" where
  "in_scope input \<equiv> mapping_in_scope (pb_applicationId input) (pb_environment input)
     (pb_providerConnectionId input) (pb_monetplanePriceId input)"

definition findMappingRow :: "provision_input \<Rightarrow> db \<Rightarrow> catalog_mapping option" where
  "findMappingRow input s = List.find (in_scope input) (catalogMappings s)"

definition isStale :: "int \<Rightarrow> catalog_mapping \<Rightarrow> bool" where
  "isStale now row \<longleftrightarrow> now - cm_updatedAt row > STALE_IN_FLIGHT_MS"

text \<open>The compare-and-swap of a park. Times are milliseconds here, as in a \<open>Date\<close>; the column holds
  microseconds. A row whose \<open>updated_at\<close> the code wrote has whole milliseconds and compares as
  modelled; a row that is still pending after its insert has the database's default \<open>now()\<close>, whose
  microseconds the read \<open>Date\<close> drops, so that the real compare may miss it (then the code reads
  again, which the model's \<open>ReadAgain\<close> is).\<close>

definition parkStaleInFlight :: "catalog_mapping \<Rightarrow> (db, catalog_mapping option) prog" where
  "parkStaleInFlight observed =
     bind now_date (\<lambda>now.
     bind (update_mappings (\<lambda>m. cm_id m = cm_id observed \<and> cm_status m = cm_status observed
                                 \<and> cm_updatedAt m = cm_updatedAt observed)
             (\<lambda>m. m\<lparr>cm_status := MapNeedsReconciliation, cm_updatedAt := now\<rparr>)) (\<lambda>rows.
     return (first_row rows)))"

subsection \<open>The create parameters\<close>

definition or_text :: "string option \<Rightarrow> string \<Rightarrow> string" where
  "or_text t d = (case truthy t of None \<Rightarrow> d | Some x \<Rightarrow> x)"

definition effectiveCreateIntent :: "price \<times> product \<Rightarrow> provision_input \<Rightarrow> string \<Rightarrow> catalog_product_input" where
  "effectiveCreateIntent owned input key =
     \<lparr>kc_name = trim (or_text (map_option trim (pb_name input)) (pr_name (snd owned))),
      kc_description = (case truthy (map_option trim (pb_description input)) of
          Some d \<Rightarrow> Some d | None \<Rightarrow> truthy (pr_description (snd owned))),
      kc_amountMinor = pp_amountMinor (fst owned), kc_currency = toUpperCase (pp_currency (fst owned)),
      kc_billingType = pp_billingType (fst owned), kc_recurringInterval = pp_recurringInterval (fst owned),
      kc_intervalCount = pp_intervalCount (fst owned), kc_taxCategory = truthy (map_option trim (pb_taxCategory input)),
      kc_idempotencyKey = key\<rparr>"

text \<open>The intent as it is stored in the row's JSON column: the parameters without the key.\<close>

definition intent_json :: "catalog_product_input \<Rightarrow> json_object" where
  "intent_json c =
     [(''name'', JStr (kc_name c)), (''description'', json_text (kc_description c)), (''amountMinor'', JNum (kc_amountMinor c)),
      (''currency'', JStr (kc_currency c)), (''billingType'', JStr (billing_text (kc_billingType c))),
      (''recurringInterval'', json_text (map_option interval_text (kc_recurringInterval c))),
      (''intervalCount'', json_number (kc_intervalCount c)), (''taxCategory'', json_text (kc_taxCategory c))]"

definition INTENT_SIGNATURE_KEYS :: "string list" where
  "INTENT_SIGNATURE_KEYS = [''name'', ''description'', ''amountMinor'', ''currency'', ''billingType'', ''recurringInterval'',
     ''intervalCount'', ''taxCategory'']"

text \<open>\<open>JSON.stringify(intent, KEYS)\<close> prints the listed keys that are there, in this order. The
  printed text is equal exactly when these pairs are.\<close>

definition intentSignature :: "json_object \<Rightarrow> (string \<times> json) list" where
  "intentSignature intent = List.map_filter (\<lambda>k. map_option (\<lambda>v. (k, v)) (map_of intent k)) INTENT_SIGNATURE_KEYS"

definition frozenIntentOf :: "catalog_mapping \<Rightarrow> json_object option" where
  "frozenIntentOf row = (case map_of (cm_verifiedSnapshot row) ''provisionIntent'' of Some (JObj frozen) \<Rightarrow> Some frozen | _ \<Rightarrow> None)"

subsection \<open>Beginning an attempt\<close>

definition connection_guards :: "provision_input \<Rightarrow> (db, provider_connection) prog" where
  "connection_guards input =
     bind (gets (getProviderConnection (pb_applicationId input) (pb_providerConnectionId input))) (\<lambda>found.
     bind (require (CatalogProvisionError ''Provider connection not found in the selected project'' ''connection_not_found'') found) (\<lambda>connection.
     bind (throw_if (pc_status connection \<noteq> ConnActive) (CatalogProvisionError ''Provider connection is revoked'' ''connection_revoked'')) (\<lambda>_.
     bind (throw_if (pc_mode connection \<noteq> pb_environment input)
       (CatalogProvisionError (''Provider connection belongs to the '' @ environment_text (pc_mode connection)
          @ '' environment, not '' @ environment_text (pb_environment input)) ''connection_environment_mismatch'')) (\<lambda>_.
     return connection))))"

definition price_guards :: "provision_input \<Rightarrow> provider_connection \<Rightarrow> (db, price \<times> product) prog" where
  "price_guards input connection =
     bind (gets (loadOwnedPrice (pb_applicationId input) (pb_monetplanePriceId input))) (\<lambda>row.
     bind (require (CatalogProvisionError ''MonetPlane price not found in the selected project'' ''price_not_found'') row) (\<lambda>owned.
     bind (throw_if (pp_status (fst owned) \<noteq> StActive)
       (CatalogProvisionError ''MonetPlane price is archived and cannot be provisioned'' ''price_inactive'')) (\<lambda>_.
     bind (throw_if (legacyCatalogProductId (pc_metadata connection) (pb_monetplanePriceId input) \<noteq> None)
       (CatalogProvisionError ''This price already has a legacy metadata mapping; link that product instead of creating a new one''
         ''legacy_mapping_conflict'')) (\<lambda>_.
     return owned))))"

definition provision_guards :: "provision_input \<Rightarrow> (db, provider_connection \<times> price \<times> product) prog" where
  "provision_guards input =
     bind (connection_guards input) (\<lambda>connection.
     bind (price_guards input connection) (\<lambda>owned.
     return (connection, owned)))"

definition in_progress :: err where
  "in_progress = CatalogProvisionError ''A provisioning attempt for this price is already in progress'' ''provision_in_progress''"

definition needs_attention :: err where
  "needs_attention = CatalogProvisionError ''A previous create attempt has an uncertain outcome (the product may already exist at the provider). Find the product there and link it to adopt it, or mark the intent failed before retrying'' ''provision_needs_attention''"

text \<open>The claim of a pending row: a fresh token and one conditional update.\<close>

definition claim_update :: "string \<Rightarrow> (db, string \<times> catalog_mapping list) prog" where
  "claim_update i =
     bind (new_id ''pcatk_'') (\<lambda>attemptToken.
     bind now_date (\<lambda>now.
     bind (update_mappings (\<lambda>m. cm_id m = i \<and> cm_status m = MapPending)
             (\<lambda>m. m\<lparr>cm_status := MapCreating, cm_attemptToken := Some attemptToken, cm_updatedAt := now\<rparr>)) (\<lambda>rows.
     return (attemptToken, rows))))"

definition claimPendingIntent ::
    "catalog_mapping \<Rightarrow> price \<times> product \<Rightarrow> provision_input \<Rightarrow> (db, provision_begin) prog" where
  "claimPendingIntent pendingRow owned input =
     bind (claim_update (cm_id pendingRow)) (\<lambda>(attemptToken, rows).
     bind (require in_progress (first_row rows)) (\<lambda>creatingRow.
     return (Begin creatingRow (effectiveCreateIntent owned input (cm_id creatingRow)) attemptToken)))"

definition reset_update :: "string \<Rightarrow> (db, catalog_mapping list) prog" where
  "reset_update i =
     bind now_date (\<lambda>now.
     update_mappings (\<lambda>m. cm_id m = i \<and> cm_status m = MapFailed) (\<lambda>m. m\<lparr>cm_status := MapPending, cm_updatedAt := now\<rparr>))"

definition pending_row :: "string \<Rightarrow> provision_input \<Rightarrow> string \<Rightarrow> json_object \<Rightarrow> int \<Rightarrow> catalog_mapping" where
  "pending_row i input provider intent now =
     \<lparr>cm_id = i, cm_applicationId = pb_applicationId input, cm_providerConnectionId = pb_providerConnectionId input,
      cm_environment = pb_environment input, cm_monetplanePriceId = pb_monetplanePriceId input, cm_provider = provider,
      cm_providerProductId = None, cm_source = MapCreated, cm_status = MapPending,
      cm_verifiedSnapshot = [(''provisionIntent'', JObj intent)], cm_updatedAt = now, cm_lastVerifiedAt = None,
      cm_attemptToken = None\<rparr>"

text \<open>A concurrent request created the intent first.\<close>

definition raced :: "catalog_mapping option \<Rightarrow> (db, provision_begin) prog" where
  "raced row = (case row of
       None \<Rightarrow> throw in_progress
     | Some m \<Rightarrow> (case cm_status m of
         MapPending \<Rightarrow> throw in_progress
       | MapCreating \<Rightarrow> throw in_progress
       | MapSynced \<Rightarrow> return (AlreadySynced m)
       | MapNeedsReconciliation \<Rightarrow> throw needs_attention
       | MapFailed \<Rightarrow> throw (CatalogProvisionError ''Retry the provisioning request'' ''provision_in_progress'')))"

text \<open>A fresh intent: the insert that one of the racing requests wins, and what follows it.\<close>

definition open_intent :: "provision_input \<Rightarrow> provider_connection \<Rightarrow> price \<times> product \<Rightarrow> (db, catalog_mapping option) prog" where
  "open_intent input connection owned =
     bind (new_id ''pcmap_'') (\<lambda>i.
     bind now_date (\<lambda>now.
     insert_mapping (pending_row i input (pc_provider connection)
       (intent_json (effectiveCreateIntent owned input [])) now)))"

definition after_insert :: "provision_input \<Rightarrow> price \<times> product \<Rightarrow> catalog_mapping option \<Rightarrow> (db, provision_begin) prog" where
  "after_insert input owned inserted = (case inserted of
       Some pendingRow \<Rightarrow> claimPendingIntent pendingRow owned input
     | None \<Rightarrow> bind (gets (findMappingRow input)) raced)"

definition check_frozen :: "catalog_mapping \<Rightarrow> price \<times> product \<Rightarrow> provision_input \<Rightarrow> (db, unit) prog" where
  "check_frozen existing owned input = (case frozenIntentOf existing of
       None \<Rightarrow> return ()
     | Some frozen \<Rightarrow>
         throw_if (intentSignature (intent_json (effectiveCreateIntent owned input [])) \<noteq> intentSignature frozen)
           (CatalogProvisionError ''The create parameters differ from the original attempt for this intent; the provider may already hold a product created with the original parameters. Recover via link, or use a new price'' ''invalid_input''))"

text \<open>A row that is there already: an answer, a row to claim, or a race lost and a new pass.\<close>

datatype existing_decision = Answer provision_begin | ClaimRow catalog_mapping | ReadAgain

definition handle_existing :: "provision_input \<Rightarrow> price \<times> product \<Rightarrow> catalog_mapping \<Rightarrow> (db, existing_decision) prog" where
  "handle_existing input owned existing =
     (if cm_status existing = MapSynced then return (Answer (AlreadySynced existing))
      else
        bind (check_frozen existing owned input) (\<lambda>_.
        if cm_status existing = MapPending \<or> cm_status existing = MapCreating then
          bind now_date (\<lambda>now.
          if isStale now existing then
            bind (parkStaleInFlight existing) (\<lambda>parked.
            return (case parked of Some m \<Rightarrow> Answer (StaleParked m) | None \<Rightarrow> ReadAgain))
          else throw in_progress)
        else if cm_status existing = MapNeedsReconciliation then throw needs_attention
        else
          bind (reset_update (cm_id existing)) (\<lambda>rows.
          return (case first_row rows of Some reset \<Rightarrow> ClaimRow reset | None \<Rightarrow> ReadAgain))))"

fun beginProvision :: "nat \<Rightarrow> provision_input \<Rightarrow> (db, provision_begin) prog" where
  "beginProvision 0 input = return OutOfFuel"
| "beginProvision (Suc fuel) input =
     bind (provision_guards input) (\<lambda>(connection, owned).
     bind (gets (findMappingRow input)) (\<lambda>found.
     case found of
       None \<Rightarrow> bind (open_intent input connection owned) (after_insert input owned)
     | Some existing \<Rightarrow>
         bind (handle_existing input owned existing) (\<lambda>decision.
         case decision of
           Answer r \<Rightarrow> return r
         | ClaimRow reset \<Rightarrow> claimPendingIntent reset owned input
         | ReadAgain \<Rightarrow> beginProvision fuel input)))"

subsection \<open>Finishing an attempt\<close>

record finish_input =
  pf_applicationId :: string
  pf_environment :: environment
  pf_monetplanePriceId :: string
  pf_mappingId :: string
  pf_attemptToken :: string

datatype create_result = Created string | CreateRejected | CreateUncertain

datatype finish_outcome = FinSynced | FinUncertain | FinFailed

text \<open>The rows an attempt may write: its own row, still in flight or parked, under its token.\<close>

definition in_attempt :: "string \<Rightarrow> string \<Rightarrow> catalog_mapping \<Rightarrow> bool" where
  "in_attempt i attemptToken m \<longleftrightarrow> cm_id m = i \<and> (cm_status m = MapCreating \<or> cm_status m = MapNeedsReconciliation)
     \<and> cm_attemptToken m = Some attemptToken"

definition not_creating :: err where
  "not_creating = CatalogProvisionError ''Provisioning intent is no longer in the creating state'' ''provision_needs_attention''"

definition settle_attempt :: "finish_input \<Rightarrow> err \<Rightarrow> (catalog_mapping \<Rightarrow> catalog_mapping) \<Rightarrow> (db, catalog_mapping) prog" where
  "settle_attempt input e f =
     bind (update_mappings (in_attempt (pf_mappingId input) (pf_attemptToken input)) f) (\<lambda>rows.
     require e (first_row rows))"

definition park_created :: "string \<Rightarrow> int \<Rightarrow> catalog_mapping \<Rightarrow> catalog_mapping" where
  "park_created productId now m =
     m\<lparr>cm_status := MapNeedsReconciliation, cm_providerProductId := Some productId, cm_updatedAt := now\<rparr>"

definition sync_created :: "string \<Rightarrow> json_object \<Rightarrow> int \<Rightarrow> catalog_mapping \<Rightarrow> catalog_mapping" where
  "sync_created productId snapshot now m =
     m\<lparr>cm_status := MapSynced, cm_providerProductId := Some productId, cm_verifiedSnapshot := snapshot,
       cm_lastVerifiedAt := Some now, cm_updatedAt := now\<rparr>"

definition verified_product :: "(string \<Rightarrow> err + provider_product) \<Rightarrow> string \<Rightarrow> provider_product option" where
  "verified_product verify productId = (case verify productId of
       Inl e \<Rightarrow> None
     | Inr product \<Rightarrow> if np_providerProductId product = productId then Some product else None)"

definition finishCreated ::
    "finish_input \<Rightarrow> string \<Rightarrow> (string \<Rightarrow> err + provider_product) \<Rightarrow> price \<Rightarrow> int \<Rightarrow> (db, finish_outcome \<times> catalog_mapping) prog" where
  "finishCreated input productId verify price now =
     bind (settle_attempt input (CatalogProvisionError
         ''Provisioning intent is no longer in a state that accepts the created product id'' ''provision_needs_attention'')
       (\<lambda>m. m\<lparr>cm_providerProductId := Some productId, cm_updatedAt := now\<rparr>)) (\<lambda>_.
     case verified_product verify productId of
       None \<Rightarrow>
         bind (settle_attempt input not_creating (park_created productId now)) (\<lambda>m. return (FinUncertain, m))
     | Some product \<Rightarrow>
         if compareProviderProductWithPrice price product (pf_environment input) \<noteq> [] then
           bind (settle_attempt input not_creating (park_created productId now)) (\<lambda>_.
           throw (CatalogProvisionError ''The provider created a product that does not match this price; parked for manual reconciliation''
             ''provision_post_create_mismatch''))
         else
           bind (settle_attempt input not_creating (sync_created productId (verifiedSnapshotFor now price product) now))
             (\<lambda>m. return (FinSynced, m)))"

definition finishProvision ::
    "finish_input \<Rightarrow> create_result \<Rightarrow> (string \<Rightarrow> err + provider_product) \<Rightarrow> (db, finish_outcome \<times> catalog_mapping) prog" where
  "finishProvision input created verify =
     bind (gets (loadOwnedPrice (pf_applicationId input) (pf_monetplanePriceId input))) (\<lambda>row.
     bind (require (CatalogProvisionError ''MonetPlane price not found in the selected project'' ''price_not_found'') row) (\<lambda>owned.
     bind now_date (\<lambda>now.
     case created of
       CreateRejected \<Rightarrow>
         bind (settle_attempt input not_creating (\<lambda>m. m\<lparr>cm_status := MapFailed, cm_updatedAt := now\<rparr>))
           (\<lambda>m. return (FinFailed, m))
     | CreateUncertain \<Rightarrow>
         bind (settle_attempt input not_creating (\<lambda>m. m\<lparr>cm_status := MapNeedsReconciliation, cm_updatedAt := now\<rparr>))
           (\<lambda>m. return (FinUncertain, m))
     | Created productId \<Rightarrow> finishCreated input productId verify (fst owned) now)))"

subsection \<open>Giving up on a parked intent\<close>

definition failNeedsReconciliationIntent :: "provision_input \<Rightarrow> (db, catalog_mapping) prog" where
  "failNeedsReconciliationIntent input =
     (let e = CatalogProvisionError ''Only a needs-reconciliation intent can be marked failed'' ''provision_needs_attention''
      in bind (gets (findMappingRow input)) (\<lambda>found.
         bind (require e found) (\<lambda>existing.
         bind (throw_if (cm_status existing \<noteq> MapNeedsReconciliation) e) (\<lambda>_.
         bind now_date (\<lambda>now.
         bind (update_mappings (\<lambda>m. cm_id m = cm_id existing \<and> cm_status m = MapNeedsReconciliation)
                 (\<lambda>m. m\<lparr>cm_status := MapFailed, cm_updatedAt := now\<rparr>)) (\<lambda>rows.
         require e (first_row rows)))))))"

lemmas provisioning_defs [run_simps] = STALE_IN_FLIGHT_MS_def findMappingRow_def isStale_def parkStaleInFlight_def
  or_text_def effectiveCreateIntent_def intent_json_def INTENT_SIGNATURE_KEYS_def intentSignature_def frozenIntentOf_def
  connection_guards_def price_guards_def provision_guards_def in_progress_def needs_attention_def claim_update_def claimPendingIntent_def reset_update_def
  pending_row_def raced_def open_intent_def after_insert_def check_frozen_def handle_existing_def in_attempt_def not_creating_def settle_attempt_def
  park_created_def sync_created_def verified_product_def finishCreated_def finishProvision_def
  failNeedsReconciliationIntent_def

end
