(* ===== verification/ProvisioningFacts.thy ===== *)
theory ProvisioningFacts
  imports Provisioning Frames
begin

text \<open>
  Provisioning under interleaving. \<open>prov_step\<close> has one rule per statement that provisioning and
  linking issue on the mapping table, and one for everything else that leaves the table alone,
  so its runs are all interleavings of any number of attempts, down to single statements. The
  lemmas show what every step keeps (unique ids and scopes, the identity of a row, the frozen
  parameters of a row that is not synced, that a synced row stays synced, that a token is never
  issued twice), and that each operation is a run of such steps.
\<close>

subsection \<open>Rows and how they evolve\<close>

definition scope_of :: "catalog_mapping \<Rightarrow> string \<times> environment \<times> string \<times> string" where
  "scope_of m = (cm_applicationId m, cm_environment m, cm_providerConnectionId m, cm_monetplanePriceId m)"

definition keyed :: "db \<Rightarrow> bool" where
  "keyed s \<longleftrightarrow> distinct (map cm_id (catalogMappings s)) \<and> distinct (map scope_of (catalogMappings s))"

definition evolves :: "catalog_mapping \<Rightarrow> catalog_mapping \<Rightarrow> bool" where
  "evolves m m' \<longleftrightarrow> cm_id m' = cm_id m \<and> scope_of m' = scope_of m
     \<and> (cm_status m = MapSynced \<longrightarrow> cm_status m' = MapSynced)
     \<and> (cm_status m' \<noteq> MapSynced \<longrightarrow> cm_verifiedSnapshot m' = cm_verifiedSnapshot m)"

lemma evolves_refl [simp]: "evolves m m"
  by (simp add: evolves_def)

lemma evolves_trans: "evolves a b \<Longrightarrow> evolves b c \<Longrightarrow> evolves a c"
  by (auto simp: evolves_def)

definition token_of :: "nat \<Rightarrow> string" where
  "token_of k = ''pcatk_'' @ string_of_nat k"

text \<open>The token of a row of \<open>t\<close> was that row's token in \<open>s\<close>, or is issued after \<open>s\<close>.\<close>

definition fresh_tokens :: "db \<Rightarrow> db \<Rightarrow> bool" where
  "fresh_tokens s t \<longleftrightarrow> uuids s \<le> uuids t \<and> (\<forall>m' \<in> set (catalogMappings t). \<forall>tok. cm_attemptToken m' = Some tok \<longrightarrow>
     (\<exists>m \<in> set (catalogMappings s). cm_id m = cm_id m' \<and> cm_attemptToken m = Some tok)
     \<or> (\<exists>k. uuids s \<le> k \<and> k < uuids t \<and> tok = token_of k))"

lemma same_mapping_scope_iff: "same_mapping_scope r q \<longleftrightarrow> scope_of r = scope_of q"
  by (auto simp: same_mapping_scope_def scope_of_def)

subsection \<open>The statements\<close>

inductive prov_step :: "db \<Rightarrow> db \<Rightarrow> bool" where
  other: "catalogMappings t = catalogMappings s \<Longrightarrow> uuids s \<le> uuids t \<Longrightarrow> prov_step s t"
| open_intent: "insert_mapping (pending_row i input provider intent now) s = (r, t) \<Longrightarrow> prov_step s t"
| link_new: "insert_mapping (linked_row i link provider productId snapshot now) s = (r, t) \<Longrightarrow> prov_step s t"
| claim: "claim_update i s = (r, t) \<Longrightarrow> prov_step s t"
| reset: "reset_update i s = (r, t) \<Longrightarrow> prov_step s t"
| park: "parkStaleInFlight observed s = (r, t) \<Longrightarrow> cm_status observed \<noteq> MapSynced \<Longrightarrow> prov_step s t"
| settle: "update_mappings (in_attempt i tok) f s = (r, t)
    \<Longrightarrow> (\<And>m. cm_id (f m) = cm_id m \<and> scope_of (f m) = scope_of m \<and> cm_attemptToken (f m) = cm_attemptToken m
          \<and> (cm_status (f m) = MapSynced \<or> cm_verifiedSnapshot (f m) = cm_verifiedSnapshot m)) \<Longrightarrow> prov_step s t"
| give_up: "update_mappings (\<lambda>m. cm_id m = i \<and> cm_status m = MapNeedsReconciliation)
      (\<lambda>m. m\<lparr>cm_status := MapFailed, cm_updatedAt := now\<rparr>) s = (r, t) \<Longrightarrow> prov_step s t"
| adopt: "update_mappings (\<lambda>m. cm_id m = i \<and> (cm_status m = MapNeedsReconciliation \<or> cm_status m = MapFailed))
      (\<lambda>m. m\<lparr>cm_providerProductId := Some productId, cm_status := MapSynced, cm_verifiedSnapshot := snapshot,
             cm_lastVerifiedAt := Some now, cm_updatedAt := now\<rparr>) s = (r, t) \<Longrightarrow> prov_step s t"
| refresh: "update_mappings (\<lambda>m. cm_id m = i)
      (\<lambda>m. m\<lparr>cm_verifiedSnapshot := snapshot, cm_lastVerifiedAt := Some now, cm_updatedAt := now\<rparr>) s = (r, t)
    \<Longrightarrow> \<forall>m \<in> set (catalogMappings s). cm_id m = i \<longrightarrow> cm_status m = MapSynced \<Longrightarrow> prov_step s t"

abbreviation prov_run :: "db \<Rightarrow> db \<Rightarrow> bool" where
  "prov_run \<equiv> prov_step\<^sup>*\<^sup>*"

subsection \<open>What every step keeps\<close>

text \<open>A row is an evolved one, a synced one or a new one whose parameters are frozen.\<close>

definition explained_rows :: "db \<Rightarrow> db \<Rightarrow> bool" where
  "explained_rows s t \<longleftrightarrow> (\<forall>m' \<in> set (catalogMappings t).
     (\<exists>m \<in> set (catalogMappings s). evolves m m') \<or> cm_status m' = MapSynced \<or> frozenIntentOf m' \<noteq> None)"

definition guarded :: "db \<Rightarrow> db \<Rightarrow> bool" where
  "guarded s t \<longleftrightarrow> (keyed s \<longrightarrow> keyed t) \<and> table_kept evolves (catalogMappings s) (catalogMappings t)
     \<and> fresh_tokens s t \<and> explained_rows s t"

lemma explained_same: "catalogMappings t = catalogMappings s \<Longrightarrow> explained_rows s t"
  unfolding explained_rows_def by (metis evolves_refl)

lemma explained_trans: "explained_rows s t \<Longrightarrow> explained_rows t u \<Longrightarrow> explained_rows s u"
  unfolding explained_rows_def
proof
  fix m assume st: "\<forall>m' \<in> set (catalogMappings t). (\<exists>m \<in> set (catalogMappings s). evolves m m') \<or> cm_status m' = MapSynced \<or> frozenIntentOf m' \<noteq> None"
    and tu: "\<forall>m' \<in> set (catalogMappings u). (\<exists>m \<in> set (catalogMappings t). evolves m m') \<or> cm_status m' = MapSynced \<or> frozenIntentOf m' \<noteq> None"
    and "m \<in> set (catalogMappings u)"
  then consider n where "n \<in> set (catalogMappings t)" "evolves n m" | "cm_status m = MapSynced \<or> frozenIntentOf m \<noteq> None" by blast
  then show "(\<exists>q \<in> set (catalogMappings s). evolves q m) \<or> cm_status m = MapSynced \<or> frozenIntentOf m \<noteq> None"
  proof cases
    case 1
    with st consider q where "q \<in> set (catalogMappings s)" "evolves q n" | "cm_status n = MapSynced" | "frozenIntentOf n \<noteq> None" by blast
    then show ?thesis by cases (use 1 in \<open>auto simp: evolves_def frozenIntentOf_def intro: evolves_trans\<close>)
  qed blast
qed

lemma guarded_refl: "guarded s s"
  by (auto simp: guarded_def fresh_tokens_def intro: table_kept_refl explained_same)

lemma guarded_same: "catalogMappings t = catalogMappings s \<Longrightarrow> uuids s \<le> uuids t \<Longrightarrow> guarded s t"
  by (auto simp: guarded_def fresh_tokens_def keyed_def intro: table_kept_refl explained_same)

lemma fresh_trans:
  assumes st: "fresh_tokens s t" and tu: "fresh_tokens t u"
  shows "fresh_tokens s u"
  unfolding fresh_tokens_def
proof (intro conjI ballI allI impI)
  have le: "uuids s \<le> uuids t" "uuids t \<le> uuids u" using assms by (simp_all add: fresh_tokens_def)
  then show "uuids s \<le> uuids u" by simp
  fix m tok assume m: "m \<in> set (catalogMappings u)" "cm_attemptToken m = Some tok"
  then consider n where "n \<in> set (catalogMappings t)" "cm_id n = cm_id m" "cm_attemptToken n = Some tok"
    | k where "uuids t \<le> k" "k < uuids u" "tok = token_of k"
    using tu unfolding fresh_tokens_def by blast
  then show "(\<exists>q \<in> set (catalogMappings s). cm_id q = cm_id m \<and> cm_attemptToken q = Some tok)
      \<or> (\<exists>k. uuids s \<le> k \<and> k < uuids u \<and> tok = token_of k)"
  proof cases
    case 1
    then have "(\<exists>q \<in> set (catalogMappings s). cm_id q = cm_id n \<and> cm_attemptToken q = Some tok)
        \<or> (\<exists>k. uuids s \<le> k \<and> k < uuids t \<and> tok = token_of k)"
      using st unfolding fresh_tokens_def by blast
    with 1 le show ?thesis by (metis order_less_le_trans)
  next
    case 2
    with le show ?thesis by (intro disjI2 exI [of _ k]) auto
  qed
qed

lemma guarded_trans: "guarded s t \<Longrightarrow> guarded t u \<Longrightarrow> guarded s u"
  unfolding guarded_def using fresh_trans explained_trans table_kept_trans [of evolves] evolves_trans by blast

text \<open>An inserted row has a new id and scope and no token.\<close>

lemma insert_guarded:
  assumes "insert_mapping r s = (x, t)" and "cm_attemptToken r = None"
    and frozen: "cm_status r = MapSynced \<or> frozenIntentOf r \<noteq> None"
  shows "guarded s t"
proof (cases "catalogMappings t = catalogMappings s \<and> uuids t = uuids s")
  case True
  then show ?thesis by (intro guarded_same) auto
next
  case False
  then have "t = catalogMappings_update (\<lambda>rs. rs @ [r]) s"
    and "\<forall>q \<in> set (catalogMappings s). \<not> same_mapping_scope r q \<and> cm_id r \<noteq> cm_id q"
    using assms(1) by (auto simp: insert_mapping_def insert_or_ignore_def split: if_splits)
  moreover from this have "explained_rows s t"
    using frozen by (auto simp: explained_rows_def intro: evolves_refl)
  ultimately show ?thesis
    using assms(2) by (auto simp: guarded_def keyed_def fresh_tokens_def same_mapping_scope_iff image_iff)
qed

text \<open>An update keeps ids and scopes and gives a row its old token or a fresh one.\<close>

lemma update_guarded:
  assumes up: "update_mappings P f s0 = (x, t)" and s0: "catalogMappings s0 = catalogMappings s" "uuids s \<le> uuids s0"
    and ev: "\<And>m. m \<in> set (catalogMappings s) \<Longrightarrow> P m \<Longrightarrow> evolves m (f m)"
    and tok: "\<And>m. P m \<Longrightarrow> cm_attemptToken (f m) = cm_attemptToken m
       \<or> (\<exists>k. uuids s \<le> k \<and> k < uuids s0 \<and> cm_attemptToken (f m) = Some (token_of k))"
  shows "guarded s t"
proof (cases "catalogMappings t = catalogMappings s0 \<and> uuids t = uuids s0")
  case True
  with s0 show ?thesis by (intro guarded_same) auto
next
  case False
  then have "t = catalogMappings_update (update_where P f) s0"
    using up by (auto simp: update_mappings_def update_rows_def Let_def split: if_splits)
  then have t: "catalogMappings t = update_where P f (catalogMappings s)" "uuids t = uuids s0"
    using s0 by (cases s0; simp)+
  have kept: "list_all2 evolves (catalogMappings s) (update_where P f (catalogMappings s))"
    using ev by (auto simp: update_where_def list_all2_map2 intro: list.rel_refl_strong)
  have ids: "map cm_id (update_where P f (catalogMappings s)) = map cm_id (catalogMappings s)"
    "map scope_of (update_where P f (catalogMappings s)) = map scope_of (catalogMappings s)"
    using ev by (auto simp: update_where_def evolves_def)
  have "fresh_tokens s t"
    unfolding fresh_tokens_def t
  proof (intro conjI ballI allI impI)
    fix m' k assume "m' \<in> set (update_where P f (catalogMappings s))" and k: "cm_attemptToken m' = Some k"
    then obtain m where m: "m \<in> set (catalogMappings s)" "m' = (if P m then f m else m)" by (auto simp: update_where_def)
    show "(\<exists>q \<in> set (catalogMappings s). cm_id q = cm_id m' \<and> cm_attemptToken q = Some k)
      \<or> (\<exists>j. uuids s \<le> j \<and> j < uuids s0 \<and> k = token_of j)"
    proof (cases "P m")
      case True
      with m ev have "cm_id m' = cm_id m" by (auto simp: evolves_def)
      with True m tok [OF True] k show ?thesis by auto
    qed (use m k in auto)
  qed (rule s0)
  moreover have "explained_rows s t"
    using ev by (auto simp: explained_rows_def t update_where_def) (metis evolves_refl)+
  ultimately show ?thesis using kept ids by (simp add: guarded_def keyed_def t table_kept_def)
qed

lemma step_guarded: "prov_step s t \<Longrightarrow> guarded s t"
proof (induction rule: prov_step.induct)
  case (claim i s r t)
  have "claim_update i s = (r, t)" by (rule claim)
  then obtain x where "update_mappings (\<lambda>m. cm_id m = i \<and> cm_status m = MapPending)
      (\<lambda>m. m\<lparr>cm_status := MapCreating, cm_attemptToken := Some (token_of (uuids s)), cm_updatedAt := clock s\<rparr>)
      (s\<lparr>uuids := Suc (uuids s)\<rparr>) = (x, t)"
    by (auto simp: claim_update_def bind_def token_of_def split: prod.splits sum.splits)
  then show ?case by (rule update_guarded) (auto simp: evolves_def scope_of_def)
next
  case (reset i s r t)
  then have "update_mappings (\<lambda>m. cm_id m = i \<and> cm_status m = MapFailed)
      (\<lambda>m. m\<lparr>cm_status := MapPending, cm_updatedAt := clock s\<rparr>) s = (r, t)"
    by (simp add: reset_update_def)
  then show ?case by (rule update_guarded) (auto simp: evolves_def scope_of_def)
next
  case (park observed s r t)
  then obtain x where "update_mappings (\<lambda>m. cm_id m = cm_id observed \<and> cm_status m = cm_status observed
        \<and> cm_updatedAt m = cm_updatedAt observed)
      (\<lambda>m. m\<lparr>cm_status := MapNeedsReconciliation, cm_updatedAt := clock s\<rparr>) s = (x, t)"
    by (auto simp: parkStaleInFlight_def bind_def split: prod.splits sum.splits)
  then show ?case by (rule update_guarded) (use park(2) in \<open>auto simp: evolves_def scope_of_def\<close>)
next
  case (settle i tok f s r t)
  from settle(1) show ?case
    by (rule update_guarded) (use settle(2) in \<open>auto simp: evolves_def in_attempt_def\<close>)
next
  case (give_up i now s r t)
  then show ?case by (rule update_guarded) (auto simp: evolves_def scope_of_def)
next
  case (adopt i productId snapshot now s r t)
  then show ?case by (rule update_guarded) (auto simp: evolves_def scope_of_def)
next
  case (refresh i snapshot now s r t)
  from refresh(1) show ?case by (rule update_guarded) (use refresh(2) in \<open>auto simp: evolves_def scope_of_def\<close>)
qed (auto intro: guarded_same insert_guarded simp: pending_row_def linked_row_def frozenIntentOf_def)

lemma run_guarded: "prov_run s t \<Longrightarrow> guarded s t"
  by (induction rule: rtranclp_induct) (auto intro: guarded_refl guarded_trans step_guarded)

subsection \<open>Operations are runs\<close>

text \<open>From a keyed state, the relation each operation honours.\<close>

definition provisions :: "db \<Rightarrow> db \<Rightarrow> bool" where
  "provisions s t \<longleftrightarrow> (keyed s \<longrightarrow> keyed t \<and> prov_run s t)"

interpretation provisioning: frame provisions
  by unfold_locales (auto simp: provisions_def)

lemmas provisioning_intros = provisioning.compose provisioning.pure

lemma step_provisions: "prov_step s t \<Longrightarrow> provisions s t"
  using step_guarded by (auto simp: provisions_def guarded_def)

lemma statement_provisions: "(\<And>s r t. m s = (r, t) \<Longrightarrow> prov_step s t) \<Longrightarrow> honours provisions m"
  unfolding honours_def using step_provisions by (metis prod.collapse)

lemma statements_provision:
  shows "honours provisions (new_id p)"
    and "honours provisions (insert_mapping (pending_row i input provider intent now))"
    and "honours provisions (insert_mapping (linked_row i link provider productId snapshot now))"
    and "honours provisions (claim_update i)" and "honours provisions (reset_update i)"
    and "cm_status observed \<noteq> MapSynced \<Longrightarrow> honours provisions (parkStaleInFlight observed)"
proof -
  show "honours provisions (new_id p)"
    by (rule statement_provisions, rule prov_step.other) (auto simp: new_id_def)
  show "honours provisions (insert_mapping (pending_row i input provider intent now))"
    by (rule statement_provisions, rule prov_step.open_intent)
  show "honours provisions (insert_mapping (linked_row i link provider productId snapshot now))"
    by (rule statement_provisions, rule prov_step.link_new)
  show "honours provisions (claim_update i)" by (rule statement_provisions, rule prov_step.claim)
  show "honours provisions (reset_update i)" by (rule statement_provisions, rule prov_step.reset)
  show "cm_status observed \<noteq> MapSynced \<Longrightarrow> honours provisions (parkStaleInFlight observed)"
    by (rule statement_provisions, rule prov_step.park)
qed

lemma settle_provisions:
  assumes "\<And>m. cm_id (f m) = cm_id m \<and> scope_of (f m) = scope_of m \<and> cm_attemptToken (f m) = cm_attemptToken m
          \<and> (cm_status (f m) = MapSynced \<or> cm_verifiedSnapshot (f m) = cm_verifiedSnapshot m)"
  shows "honours provisions (settle_attempt input e f)"
  unfolding settle_attempt_def
  by (intro provisioning_intros statement_provisions) (rule prov_step.settle [OF _ assms])

lemma case_prod_honours: "(\<And>a b. honours R (f a b)) \<Longrightarrow> honours R (case x of (a, b) \<Rightarrow> f a b)"
  by (cases x) simp

lemma case_split_honours:
  "(b \<Longrightarrow> honours R m) \<Longrightarrow> (\<not> b \<Longrightarrow> honours R n) \<Longrightarrow> honours R (if b then m else n)"
  by simp

lemma claim_provisions: "honours provisions (claimPendingIntent row owned input)"
  unfolding claimPendingIntent_def by (intro provisioning_intros statements_provision case_prod_honours)

lemma finish_provisions: "honours provisions (finishProvision input created verify)"
  unfolding finishProvision_def finishCreated_def
  by (intro provisioning_intros; cases created)
    (auto simp: scope_of_def park_created_def sync_created_def split: option.split
      intro!: provisioning_intros settle_provisions)

lemma guards_provision: "honours provisions (connection_guards input)" "honours provisions (price_guards input connection)"
  "honours provisions (provision_guards input)" "honours provisions (check_frozen existing owned input)"
  unfolding connection_guards_def price_guards_def provision_guards_def check_frozen_def
  by (intro provisioning_intros)+

lemma open_provisions: "honours provisions (open_intent input connection owned)"
  unfolding open_intent_def by (intro provisioning_intros statements_provision)

lemma after_insert_provisions: "honours provisions (after_insert input owned inserted)"
  unfolding after_insert_def
  by (auto simp: raced_def split: option.split mapping_status.split intro!: provisioning_intros claim_provisions)

lemma existing_provisions: "honours provisions (handle_existing input owned existing)"
  unfolding handle_existing_def
  by (auto intro!: provisioning.bind provisioning.pure guards_provision statements_provision)

lemma begin_provisions: "honours provisions (beginProvision fuel input)"
proof (induction fuel)
  case (Suc fuel)
  show ?case
    unfolding beginProvision.simps
    by (auto split: option.split existing_decision.split
      intro!: provisioning.bind provisioning.pure guards_provision open_provisions after_insert_provisions
        existing_provisions claim_provisions Suc)
qed simp

lemma give_up_provisions: "honours provisions (failNeedsReconciliationIntent input)"
  unfolding failNeedsReconciliationIntent_def Let_def
  by (intro provisioning_intros statement_provisions) (rule prov_step.give_up)

text \<open>A link reads the row it refreshes, and ids are unique.\<close>

lemma adopt_provisions:
  assumes "existing \<in> set (catalogMappings s)"
  shows "provisions s (snd (adopt_row productId snapshot now existing s))"
proof (cases "cm_providerProductId existing = Some productId \<and> cm_status existing = MapSynced")
  case True
  obtain r t where u: "update_mappings (\<lambda>m. cm_id m = cm_id existing)
      (\<lambda>m. m\<lparr>cm_verifiedSnapshot := snapshot, cm_lastVerifiedAt := Some now, cm_updatedAt := now\<rparr>) s = (r, t)" by fastforce
  have "snd (adopt_row productId snapshot now existing s) = t"
    using True u by (cases r) (auto simp: adopt_row_def bind_def)
  moreover have "provisions s t"
    unfolding provisions_def
  proof
    assume k: "keyed s"
    then have "\<forall>m \<in> set (catalogMappings s). cm_id m = cm_id existing \<longrightarrow> cm_status m = MapSynced"
      using True assms by (auto simp: keyed_def dest: distinct_key_eq)
    from step_provisions [OF prov_step.refresh [OF u this]] k show "keyed t \<and> prov_run s t" by (simp add: provisions_def)
  qed
  ultimately show ?thesis by simp
next
  case False
  have "honours provisions (bind (update_mappings
          (\<lambda>m. cm_id m = cm_id existing \<and> (cm_status m = MapNeedsReconciliation \<or> cm_status m = MapFailed))
          (\<lambda>m. m\<lparr>cm_providerProductId := Some productId, cm_status := MapSynced, cm_verifiedSnapshot := snapshot,
                 cm_lastVerifiedAt := Some now, cm_updatedAt := now\<rparr>)) (\<lambda>adopted.
        case first_row adopted of Some m \<Rightarrow> return (Recovered, m) | None \<Rightarrow> throw mapping_conflict))"
    by (intro provisioning_intros statement_provisions) (rule prov_step.adopt)
  with False have "honours provisions (adopt_row productId snapshot now existing)"
    unfolding adopt_row_def by auto
  then show ?thesis by (simp add: honours_def)
qed

lemma link_provisions: "honours provisions (linkProviderCatalogProduct input)"
proof -
  have lookup: "honours provisions (bind (gets (\<lambda>s. List.find (\<lambda>m. P m) (catalogMappings s))) (\<lambda>found.
      case found of None \<Rightarrow> throw e | Some existing \<Rightarrow> adopt_row productId snapshot now existing))" for P e productId snapshot now
    using adopt_provisions provisioning.refl
    by (auto simp: honours_def bind_def split: option.split dest: find_SomeD)
  show ?thesis
    unfolding linkProviderCatalogProduct_def link_guards_def Let_def
    by (intro provisioning.bind case_prod_honours provisioning.case_opt provisioning.pure statements_provision lookup)
qed

subsection \<open>Attempts that overlap\<close>

text \<open>A history gives the database at every moment: it starts without mappings and each moment
  follows from the one before by statements of any number of attempts, parks, links and
  give-ups, and by anything else that leaves the mappings alone. An attempt reads and writes at
  moments of the history, one statement at each, and everything the history does between two
  of them comes in between: the rules follow \<open>beginProvision\<close> and use the same programs.\<close>

definition history :: "(nat \<Rightarrow> db) \<Rightarrow> bool" where
  "history h \<longleftrightarrow> catalogMappings (h 0) = [] \<and> (\<forall>k. prov_run (h k) (h (Suc k)))"

text \<open>The reads of one pass that starts at moment \<open>i\<close>: the connection, the price and, at moment
  \<open>c\<close>, the mapping.\<close>

definition asked :: "(nat \<Rightarrow> db) \<Rightarrow> provision_input \<Rightarrow> nat \<Rightarrow> provider_connection \<Rightarrow> price \<times> product
    \<Rightarrow> catalog_mapping option \<Rightarrow> nat \<Rightarrow> bool" where
  "asked h input i connection owned found c \<longleftrightarrow> (\<exists>a b. i \<le> a \<and> a \<le> b \<and> b \<le> c
     \<and> connection_guards input (h a) = (Inr connection, h a)
     \<and> price_guards input connection (h b) = (Inr owned, h b) \<and> findMappingRow input (h c) = found)"

inductive attempt :: "(nat \<Rightarrow> db) \<Rightarrow> provision_input \<Rightarrow> nat \<Rightarrow> provision_begin \<Rightarrow> nat \<Rightarrow> bool" for h input where
  fresh: "asked h input i connection owned None c \<Longrightarrow> c \<le> d
    \<Longrightarrow> open_intent input connection owned (h d) = (Inr inserted, h (Suc d)) \<Longrightarrow> d < e
    \<Longrightarrow> after_insert input owned inserted (h e) = (Inr r, h (Suc e)) \<Longrightarrow> attempt h input i r (Suc e)"
| answered: "asked h input i connection owned (Some existing) c \<Longrightarrow> c \<le> d
    \<Longrightarrow> handle_existing input owned existing (h d) = (Inr (Answer r), h (Suc d)) \<Longrightarrow> attempt h input i r (Suc d)"
| claimed: "asked h input i connection owned (Some existing) c \<Longrightarrow> c \<le> d
    \<Longrightarrow> handle_existing input owned existing (h d) = (Inr (ClaimRow row), h (Suc d)) \<Longrightarrow> d < e
    \<Longrightarrow> claimPendingIntent row owned input (h e) = (Inr r, h (Suc e)) \<Longrightarrow> attempt h input i r (Suc e)"
| again: "asked h input i connection owned (Some existing) c \<Longrightarrow> c \<le> d
    \<Longrightarrow> handle_existing input owned existing (h d) = (Inr ReadAgain, h (Suc d))
    \<Longrightarrow> attempt h input (Suc d) r j \<Longrightarrow> attempt h input i r j"

lemma history_run: "history h \<Longrightarrow> a \<le> b \<Longrightarrow> prov_run (h a) (h b)"
proof (induction b)
  case (Suc b)
  show ?case
  proof (cases "a = Suc b")
    case False
    with Suc have "prov_run (h a) (h b)" by simp
    then show ?thesis using Suc.prems(1) by (auto simp: history_def intro: rtranclp_trans)
  qed simp
qed simp

lemma history_guarded: "history h \<Longrightarrow> a \<le> b \<Longrightarrow> guarded (h a) (h b)"
  by (rule run_guarded) (rule history_run)

lemma history_keyed: "history h \<Longrightarrow> keyed (h k)"
  using history_guarded [of h 0 k] by (auto simp: guarded_def keyed_def history_def)

end
