(* ===== verification/ProvisioningProperties.thy ===== *)
theory ProvisioningProperties
  imports ProvisioningFacts CheckoutProperties
begin

text \<open>
  What provisioning promises under every interleaving: the attempts for one price carry the same
  create parameters and idempotency key, so a provider that honours the key makes one product;
  and an attempt whose row was claimed again can no longer write. The lemmas say what a claim
  leaves behind and how the frozen parameters bind a retry.
\<close>

subsection \<open>Reachable mapping tables\<close>

definition frozen_intents :: "db \<Rightarrow> bool" where
  "frozen_intents s \<longleftrightarrow> (\<forall>m \<in> set (catalogMappings s). cm_status m \<noteq> MapSynced \<longrightarrow> frozenIntentOf m \<noteq> None)"

lemma reachable_mappings:
  assumes "prov_run s0 s" and "catalogMappings s0 = []"
  shows "keyed s" and "frozen_intents s"
  using run_guarded [OF assms(1)] assms(2)
  by (auto simp: guarded_def keyed_def frozen_intents_def explained_rows_def)

lemma frozen_run:
  assumes "guarded s t" and "frozen_intents s"
  shows "frozen_intents t"
  unfolding frozen_intents_def
proof (intro ballI impI)
  fix m assume m: "m \<in> set (catalogMappings t)" "cm_status m \<noteq> MapSynced"
  with assms(1) consider q where "q \<in> set (catalogMappings s)" "evolves q m" | "frozenIntentOf m \<noteq> None"
    unfolding guarded_def explained_rows_def by blast
  then show "frozenIntentOf m \<noteq> None"
  proof cases
    case 1
    then have "cm_status q \<noteq> MapSynced" "frozenIntentOf m = frozenIntentOf q"
      using m(2) by (auto simp: evolves_def frozenIntentOf_def)
    with 1 assms(2) show ?thesis by (simp add: frozen_intents_def)
  qed
qed

subsection \<open>What a claim leaves behind\<close>

lemma claim_update_run:
  "claim_update i s = (Inr (tok, rows), s') \<Longrightarrow> tok = token_of (uuids s)
    \<and> rows = map (\<lambda>m. m\<lparr>cm_status := MapCreating, cm_attemptToken := Some tok, cm_updatedAt := clock s\<rparr>)
        (filter (\<lambda>m. cm_id m = i \<and> cm_status m = MapPending) (catalogMappings s))
    \<and> s' = catalogMappings_update (update_where (\<lambda>m. cm_id m = i \<and> cm_status m = MapPending)
        (\<lambda>m. m\<lparr>cm_status := MapCreating, cm_attemptToken := Some tok, cm_updatedAt := clock s\<rparr>)) (s\<lparr>uuids := Suc (uuids s)\<rparr>)"
  by (auto simp: claim_update_def bind_eq_Inr update_mappings_def update_rows_eq_Inr token_of_def)

lemma claimed:
  assumes "claimPendingIntent row own input s = (Inr (Begin m c tok), s')"
  obtains q where "q \<in> set (catalogMappings s)" "cm_id q = cm_id row" "cm_status q = MapPending"
    "m = q\<lparr>cm_status := MapCreating, cm_attemptToken := Some tok, cm_updatedAt := clock s\<rparr>"
    "m \<in> set (catalogMappings s')" "tok = token_of (uuids s)" "uuids s' = Suc (uuids s)"
    "c = effectiveCreateIntent own input (cm_id row)"
proof -
  let ?P = "\<lambda>m. cm_id m = cm_id row \<and> cm_status m = MapPending"
  let ?f = "\<lambda>m. m\<lparr>cm_status := MapCreating, cm_attemptToken := Some tok, cm_updatedAt := clock s\<rparr>"
  from assms obtain rows where u: "claim_update (cm_id row) s = (Inr (tok, rows), s')" and first: "first_row rows = Some m"
    and c: "c = effectiveCreateIntent own input (cm_id m)"
    by (auto simp: claimPendingIntent_def bind_eq_Inr)
  from claim_update_run [OF u] have tok: "tok = token_of (uuids s)" and rows: "rows = map ?f (filter ?P (catalogMappings s))"
    and s': "s' = catalogMappings_update (update_where ?P ?f) (s\<lparr>uuids := Suc (uuids s)\<rparr>)" by blast+
  from first_row_mem [OF first] rows obtain q where q: "q \<in> set (catalogMappings s)" "?P q" "m = ?f q" by auto
  have "(if ?P q then ?f q else q) \<in> set (update_where ?P ?f (catalogMappings s))"
    unfolding update_where_def set_map using q(1) by (rule imageI)
  with q have "m \<in> set (catalogMappings s')" by (simp add: s')
  with q tok c show ?thesis by (intro that [of q]) (auto simp: s')
qed

lemma never_claims:
  "raced row s \<noteq> (Inr (Begin m c tok), s')" "in_scope input q \<longleftrightarrow> scope_of q = (pb_applicationId input,
     pb_environment input, pb_providerConnectionId input, pb_monetplanePriceId input)"
  by (auto simp: raced_def mapping_in_scope_def scope_of_def split: option.splits mapping_status.splits)

lemma signature_of_intent [simp]: "intentSignature (intent_json c) = intent_json c"
  by (simp add: intentSignature_def INTENT_SIGNATURE_KEYS_def intent_json_def map_filter_def)

lemma intent_json_key: "intent_json (effectiveCreateIntent own input k) = intent_json (effectiveCreateIntent own input k')"
  by (simp add: intent_json_def effectiveCreateIntent_def)

text \<open>A begun attempt: a row of its scope in flight under its token, and, when the row was
  frozen, parameters that print like the frozen ones.\<close>

definition begun :: "provision_input \<Rightarrow> db \<Rightarrow> catalog_mapping \<Rightarrow> catalog_product_input \<Rightarrow> string \<Rightarrow> db \<Rightarrow> bool" where
  "begun input s m c tok s' \<longleftrightarrow> m \<in> set (catalogMappings s') \<and> in_scope input m \<and> cm_status m = MapCreating
     \<and> cm_attemptToken m = Some tok \<and> (\<exists>k. uuids s \<le> k \<and> k < uuids s' \<and> tok = token_of k)
     \<and> kc_idempotencyKey c = cm_id m
     \<and> (\<forall>frozen. frozenIntentOf m = Some frozen \<longrightarrow> intentSignature frozen = intent_json c)"

text \<open>The row of a kept table with a given id.\<close>

lemma kept_row:
  assumes "guarded s t" and "m \<in> set (catalogMappings s)"
  obtains m' where "m' \<in> set (catalogMappings t)" and "evolves m m'"
  using assms table_kept_mem [of evolves] unfolding guarded_def by blast

text \<open>A row an attempt may claim: it has the attempt's scope, and its frozen parameters are the
  ones the attempt asks for. Nothing that is interleaved takes this away.\<close>

definition claimable :: "provision_input \<Rightarrow> price \<times> product \<Rightarrow> string \<Rightarrow> db \<Rightarrow> bool" where
  "claimable input own i s \<longleftrightarrow> (\<exists>q \<in> set (catalogMappings s). cm_id q = i \<and> in_scope input q
     \<and> (cm_status q \<noteq> MapSynced \<longrightarrow> (\<forall>frozen. frozenIntentOf q = Some frozen
           \<longrightarrow> intentSignature frozen = intent_json (effectiveCreateIntent own input []))))"

lemma claimable_run:
  assumes "claimable input own i s" and "guarded s t"
  shows "claimable input own i t"
proof -
  from assms(1) obtain q where q: "q \<in> set (catalogMappings s)" "cm_id q = i" "in_scope input q"
    "cm_status q \<noteq> MapSynced \<longrightarrow> (\<forall>frozen. frozenIntentOf q = Some frozen
       \<longrightarrow> intentSignature frozen = intent_json (effectiveCreateIntent own input []))"
    by (auto simp: claimable_def)
  from assms(2) q(1) obtain q' where q': "q' \<in> set (catalogMappings t)" "evolves q q'" by (rule kept_row)
  have "cm_id q' = i" "in_scope input q'" using q q'(2) by (simp_all add: evolves_def never_claims(2))
  moreover have "cm_status q' \<noteq> MapSynced \<longrightarrow> cm_status q \<noteq> MapSynced \<and> frozenIntentOf q' = frozenIntentOf q"
    using q'(2) by (auto simp: evolves_def frozenIntentOf_def)
  ultimately show ?thesis using q(4) q'(1) unfolding claimable_def by (intro bexI [of _ q']) auto
qed

lemma claim_begun:
  assumes claim: "claimPendingIntent row own input t = (Inr (Begin m c tok), s')"
    and may: "claimable input own (cm_id row) t" and k: "keyed t"
  shows "begun input t m c tok s'"
  using claim
proof (rule claimed)
  fix q assume q: "q \<in> set (catalogMappings t)" "cm_id q = cm_id row"
    and open_row: "cm_status q = MapPending"
    and m: "m = q\<lparr>cm_status := MapCreating, cm_attemptToken := Some tok, cm_updatedAt := clock t\<rparr>"
      "m \<in> set (catalogMappings s')" "tok = token_of (uuids t)" "uuids s' = Suc (uuids t)"
      "c = effectiveCreateIntent own input (cm_id row)"
  from may q k have frozen: "in_scope input q" "\<forall>frozen. frozenIntentOf q = Some frozen
      \<longrightarrow> intentSignature frozen = intent_json (effectiveCreateIntent own input [])"
    using open_row by (auto simp: claimable_def keyed_def dest: distinct_key_eq)
  have "intent_json c = intent_json (effectiveCreateIntent own input [])" unfolding m(5) by (rule intent_json_key)
  moreover have "frozenIntentOf m = frozenIntentOf q" "scope_of m = scope_of q"
    by (simp_all add: m(1) frozenIntentOf_def scope_of_def)
  moreover have "kc_idempotencyKey c = cm_id m" using m(5) q(2) by (simp add: m(1) effectiveCreateIntent_def)
  moreover have "cm_status m = MapCreating" "cm_attemptToken m = Some tok" by (simp_all add: m(1))
  moreover have "\<exists>k. uuids t \<le> k \<and> k < uuids s' \<and> tok = token_of k" using m(3,4) by auto
  ultimately show ?thesis using frozen m(2) by (simp add: begun_def never_claims(2))
qed

lemma open_claimable: "open_intent input connection own s = (Inr (Some row), t) \<Longrightarrow> claimable input own (cm_id row) t"
  by (auto simp: open_intent_def bind_eq_Inr claimable_def insert_mapping_def insert_or_ignore_eq_Inr pending_row_def
      mapping_in_scope_def frozenIntentOf_def split: if_splits)

lemma checked_claimable:
  assumes "check_frozen existing own input s = (Inr u, s')" and "existing \<in> set (catalogMappings t)" "in_scope input existing"
  shows "claimable input own (cm_id existing) t"
  unfolding claimable_def using assms by (intro bexI [of _ existing]) (auto simp: check_frozen_def throw_if_def split: if_splits)

lemma no_row_hit: "update_mappings P f s = (Inr rows, t) \<Longrightarrow> first_row rows = None \<Longrightarrow> t = s"
  by (cases s) (auto simp: update_mappings_def update_rows_eq_Inr filter_empty_conv intro: update_where_none)

lemma frozen_check_writes_nothing: "check_frozen existing own input s = (Inr u, s') \<Longrightarrow> s' = s"
  by (auto simp: check_frozen_def split: option.splits)

lemma reset_row: "reset_update i s = (Inr rows, t) \<Longrightarrow> first_row rows = Some row \<Longrightarrow> cm_id row = i"
  by (auto simp: reset_update_def update_mappings_def update_rows_eq_Inr dest!: first_row_mem)

text \<open>What an existing row leads to: never to a call, to a claim only of that row and with the
  frozen parameters, and to a new pass without a write.\<close>

lemma handled:
  assumes run: "handle_existing input own existing s = (Inr decision, t)"
  shows "decision \<noteq> Answer (Begin m c tok)"
    and "decision = ClaimRow row \<Longrightarrow> cm_id row = cm_id existing \<and> (\<exists>u s'. check_frozen existing own input s = (Inr u, s'))"
    and "decision = ReadAgain \<Longrightarrow> t = s"
proof -
  show "decision \<noteq> Answer (Begin m c tok)"
    using run by (auto simp: handle_existing_def bind_eq_Inr split: if_splits option.splits)
  show "decision = ClaimRow row \<Longrightarrow> cm_id row = cm_id existing \<and> (\<exists>u s'. check_frozen existing own input s = (Inr u, s'))"
    using run by (auto simp: handle_existing_def bind_eq_Inr simp del: first_row_None split: if_splits option.splits dest: reset_row)
  show "decision = ReadAgain \<Longrightarrow> t = s"
    using run by (auto simp: handle_existing_def bind_eq_Inr parkStaleInFlight_def reset_update_def
        split: if_splits option.splits dest!: frozen_check_writes_nothing dest: no_row_hit)
qed

lemma guards_write_nothing: "provision_guards input s = (Inr x, s') \<Longrightarrow> s' = s"
  by (auto simp: provision_guards_def connection_guards_def price_guards_def bind_eq_Inr)

lemma begun_later: "begun input t m c tok s' \<Longrightarrow> uuids s \<le> uuids t \<Longrightarrow> begun input s m c tok s'"
  by (auto simp: begun_def intro: le_trans)

lemma honoured_guarded: "honours provisions p \<Longrightarrow> p s = (r, t) \<Longrightarrow> keyed s \<Longrightarrow> guarded s t \<and> keyed t"
  using honoursD [of provisions p s r t] run_guarded by (auto simp: provisions_def)

lemma after_insert_claims:
  "after_insert input own inserted s = (Inr (Begin m c tok), t)
     \<Longrightarrow> \<exists>row. inserted = Some row \<and> claimPendingIntent row own input s = (Inr (Begin m c tok), t)"
  by (auto simp: after_insert_def bind_eq_Inr never_claims split: option.splits)

lemma guarded_uuids: "guarded s t \<Longrightarrow> uuids s \<le> uuids t"
  by (simp add: guarded_def fresh_tokens_def)

lemma begin_begun:
  assumes "beginProvision fuel input s = (Inr (Begin m c tok), s')" and k: "keyed s"
  shows "begun input s m c tok s'"
  using assms(1)
proof (induction fuel)
  case (Suc fuel)
  from Suc.prems obtain connection own where run: "(case findMappingRow input s of
       None \<Rightarrow> bind (open_intent input connection own) (after_insert input own)
     | Some existing \<Rightarrow> bind (handle_existing input own existing) (\<lambda>decision. case decision of
           Answer r \<Rightarrow> return r | ClaimRow reset \<Rightarrow> claimPendingIntent reset own input
         | ReadAgain \<Rightarrow> beginProvision fuel input)) s = (Inr (Begin m c tok), s')"
    by (auto simp: bind_eq_Inr dest!: guards_write_nothing)
  show ?case
  proof (cases "findMappingRow input s")
    case None
    with run have "bind (open_intent input connection own) (after_insert input own) s = (Inr (Begin m c tok), s')" by simp
    then obtain inserted t where o: "open_intent input connection own s = (Inr inserted, t)"
      and a: "after_insert input own inserted t = (Inr (Begin m c tok), s')" by (rule bind_InrE)
    note t = honoured_guarded [OF open_provisions o k]
    from after_insert_claims [OF a] obtain row where row: "inserted = Some row"
      and claim: "claimPendingIntent row own input t = (Inr (Begin m c tok), s')" by auto
    from o row have "claimable input own (cm_id row) t" by (auto intro: open_claimable)
    from claim_begun [OF claim this] t show ?thesis by (auto intro: begun_later guarded_uuids)
  next
    case (Some existing)
    then have e: "existing \<in> set (catalogMappings s)" "in_scope input existing"
      by (auto simp: findMappingRow_def dest: find_SomeD)
    from run Some have "bind (handle_existing input own existing) (\<lambda>decision. case decision of
           Answer r \<Rightarrow> return r | ClaimRow reset \<Rightarrow> claimPendingIntent reset own input
         | ReadAgain \<Rightarrow> beginProvision fuel input) s = (Inr (Begin m c tok), s')" by simp
    then obtain decision t where d: "handle_existing input own existing s = (Inr decision, t)"
      and rest: "(case decision of Answer r \<Rightarrow> return r | ClaimRow reset \<Rightarrow> claimPendingIntent reset own input
         | ReadAgain \<Rightarrow> beginProvision fuel input) t = (Inr (Begin m c tok), s')" by (rule bind_InrE)
    note t = honoured_guarded [OF existing_provisions d k]
    show ?thesis
    proof (cases decision)
      case (Answer r)
      with rest handled(1) [OF d] show ?thesis by auto
    next
      case (ClaimRow row)
      with handled(2) [OF d] obtain u s1 where id: "cm_id row = cm_id existing"
        and chk: "check_frozen existing own input s = (Inr u, s1)" by blast
      have "claimable input own (cm_id row) t" unfolding id
        using checked_claimable [OF chk e] t by (auto intro: claimable_run)
      with claim_begun [of row own input t] rest ClaimRow t show ?thesis by (auto intro: begun_later guarded_uuids)
    next
      case ReadAgain
      with rest handled(3) [OF d] Suc.IH show ?thesis by simp
    qed
  qed
qed simp

text \<open>The same for an attempt whose statements are moments of a history: what it begins, it
  claimed in its last statement.\<close>

lemma asked_existing: "asked h input i connection own (Some existing) c
    \<Longrightarrow> existing \<in> set (catalogMappings (h c)) \<and> in_scope input existing"
  by (auto simp: asked_def findMappingRow_def dest: find_SomeD)

lemma attempt_begun:
  assumes "attempt h input i r j" and h: "history h" and "r = Begin m c tok"
  shows "\<exists>e. j = Suc e \<and> begun input (h e) m c tok (h j)"
  using assms(1,3)
proof (induction rule: attempt.induct)
  case (fresh i connection own ca d inserted e r)
  from fresh.hyps(5) fresh.prems have a: "after_insert input own inserted (h e) = (Inr (Begin m c tok), h (Suc e))" by simp
  from after_insert_claims [OF a] obtain row where row: "inserted = Some row"
    and claim: "claimPendingIntent row own input (h e) = (Inr (Begin m c tok), h (Suc e))" by auto
  from fresh.hyps(3) row have "claimable input own (cm_id row) (h (Suc d))" by (auto intro: open_claimable)
  moreover have "guarded (h (Suc d)) (h e)" using fresh.hyps(4) by (intro history_guarded h) simp
  ultimately have "claimable input own (cm_id row) (h e)" by (rule claimable_run)
  from claim_begun [OF claim this history_keyed [OF h]] show ?case by blast
next
  case (answered i connection own existing ca d r)
  from handled(1) [OF answered.hyps(3)] answered.prems show ?case by auto
next
  case (claimed i connection own existing ca d row e r)
  from claimed.hyps(5) claimed.prems have claim: "claimPendingIntent row own input (h e) = (Inr (Begin m c tok), h (Suc e))" by simp
  from handled(2) [OF claimed.hyps(3)] obtain u s1 where id: "cm_id row = cm_id existing"
    and chk: "check_frozen existing own input (h d) = (Inr u, s1)" by blast
  have "claimable input own (cm_id existing) (h ca)"
    using asked_existing [OF claimed.hyps(1)] by (intro checked_claimable [OF chk]) auto
  moreover have "guarded (h ca) (h e)" using claimed.hyps(2,4) by (intro history_guarded h) simp
  ultimately have "claimable input own (cm_id row) (h e)" unfolding id by (rule claimable_run)
  from claim_begun [OF claim this history_keyed [OF h]] show ?case by blast
qed blast

text \<open>In a run without interleaving the race is never lost, so one unit of fuel is enough.\<close>

lemma own_row_hit:
  assumes "update_mappings P f s = (Inr rows, t)" and "m \<in> set (catalogMappings s)" and "P m"
  shows "first_row rows \<noteq> None"
  using assms by (auto simp: update_mappings_def update_rows_eq_Inr filter_empty_conv)

subsection \<open>The properties\<close>

lemma begin_run:
  assumes "beginProvision fuel input s = (Inr out, s')" and "keyed s"
  shows "keyed s'" and "prov_run s s'"
  using honoursD [OF begin_provisions assms(1)] assms(2) by (simp_all add: provisions_def)

lemma json_text_inject: "json_text a = json_text b \<longleftrightarrow> a = b" "json_number x = json_number y \<longleftrightarrow> x = y"
  by (auto simp: json_text_def json_number_def split: option.splits)

lemma text_inject: "billing_text a = billing_text b \<longleftrightarrow> a = b" "interval_text i = interval_text j \<longleftrightarrow> i = j"
  by (cases a; cases b; simp add: billing_text_def) (cases i; cases j; simp add: interval_text_def)

lemma map_interval_text: "map_option interval_text a = map_option interval_text b \<longleftrightarrow> a = b"
  by (cases a; cases b) (auto simp: text_inject)

lemma intent_inject:
  assumes "intent_json c = intent_json d" and "kc_idempotencyKey c = kc_idempotencyKey d"
  shows "c = (d :: catalog_product_input)"
  using assms by (cases c; cases d) (simp add: intent_json_def json_text_inject text_inject map_interval_text)

text \<open>A token that was issued and is no longer on its row.\<close>

definition superseded :: "string \<Rightarrow> string \<Rightarrow> db \<Rightarrow> bool" where
  "superseded i tok s \<longleftrightarrow> (\<exists>k < uuids s. tok = token_of k)
     \<and> (\<forall>m \<in> set (catalogMappings s). cm_id m = i \<longrightarrow> cm_attemptToken m \<noteq> Some tok)"

lemma token_of_inject: "token_of j = token_of k \<longleftrightarrow> j = k"
  by (simp add: token_of_def)

lemma superseded_run:
  assumes "superseded i tok s" and "guarded s t"
  shows "superseded i tok t"
proof -
  obtain k where k: "k < uuids s" "tok = token_of k"
    and off: "\<And>m. m \<in> set (catalogMappings s) \<Longrightarrow> cm_id m = i \<Longrightarrow> cm_attemptToken m \<noteq> Some tok"
    using assms(1) by (auto simp: superseded_def)
  have fresh: "fresh_tokens s t" using assms(2) by (simp add: guarded_def)
  then have le: "uuids s \<le> uuids t" by (simp add: fresh_tokens_def)
  have "cm_attemptToken m \<noteq> Some tok" if m: "m \<in> set (catalogMappings t)" "cm_id m = i" for m
  proof
    assume "cm_attemptToken m = Some tok"
    with fresh m consider q where "q \<in> set (catalogMappings s)" "cm_id q = cm_id m" "cm_attemptToken q = Some tok"
      | j where "uuids s \<le> j" "tok = token_of j"
      unfolding fresh_tokens_def by blast
    then show False by cases (use off m k in \<open>auto simp: token_of_inject\<close>)
  qed
  moreover have "\<exists>j < uuids t. tok = token_of j" using k le by (intro exI [of _ k]) simp
  ultimately show ?thesis by (auto simp: superseded_def)
qed

lemma settle_superseded:
  assumes "superseded (pf_mappingId fin) (pf_attemptToken fin) s"
  shows "settle_attempt fin e f s = (Inl e, s)"
proof -
  have miss: "\<And>m. m \<in> set (catalogMappings s) \<Longrightarrow> \<not> in_attempt (pf_mappingId fin) (pf_attemptToken fin) m"
    using assms by (auto simp: superseded_def in_attempt_def)
  then have "filter (in_attempt (pf_mappingId fin) (pf_attemptToken fin)) (catalogMappings s) = []"
    by (simp add: filter_empty_conv)
  with update_where_none [OF miss] show ?thesis
    by (cases s) (simp add: settle_attempt_def update_mappings_def update_rows_def bind_def require_apply)
qed

lemma superseded_finish:
  assumes "superseded (pf_mappingId fin) (pf_attemptToken fin) s"
  shows "\<exists>e. finishProvision fin created verify s = (Inl e, s)"
proof (cases "loadOwnedPrice (pf_applicationId fin) (pf_monetplanePriceId fin) s")
  case None
  then show ?thesis by (simp add: finishProvision_def bind_def require_apply)
next
  case (Some own)
  then show ?thesis
    by (cases created) (simp_all add: finishProvision_def finishCreated_def bind_def require_apply settle_superseded [OF assms])
qed

text \<open>C12: An attempt that was superseded can no longer write. Once another attempt has claimed the
  row of an attempt, then at every later moment, whatever was interleaved, finishing the old
  attempt, with any answer of the provider, throws and leaves the database exactly as it was;
  also when the status has come back to the one the old attempt saw.\<close>

theorem superseded_attempt_is_powerless:
  assumes k: "keyed s" and first: "beginProvision fuel input s = (Inr (Begin m c tok), s1)"
    and between: "prov_run s1 s2"
    and again: "beginProvision fuel' input' s2 = (Inr (Begin m' c' tok'), s3)" and row: "cm_id m' = cm_id m"
    and later: "prov_run s3 u" and fin: "pf_mappingId fin = cm_id m" "pf_attemptToken fin = tok"
  shows "\<exists>e. finishProvision fin created verify u = (Inl e, u)"
proof -
  note k1 = begin_run [OF first k]
  have k2: "keyed s2" using run_guarded [OF between] k1(1) by (simp add: guarded_def)
  note k3 = begin_run [OF again k2]
  have b: "begun input s m c tok s1" by (rule begin_begun [OF first k])
  have b': "begun input' s2 m' c' tok' s3" by (rule begin_begun [OF again k2])
  obtain i where i: "tok = token_of i" "i < uuids s1" using b by (auto simp: begun_def)
  obtain j where j: "tok' = token_of j" "uuids s2 \<le> j" using b' by (auto simp: begun_def)
  have le: "uuids s1 \<le> uuids s2" "uuids s2 \<le> uuids s3"
    using run_guarded [OF between] run_guarded [OF k3(2)] by (simp_all add: guarded_def fresh_tokens_def)
  have "tok' \<noteq> tok" using i j le by (simp add: token_of_def)
  moreover have "\<exists>n < uuids s3. tok = token_of n" using i le by (intro exI [of _ i]) simp
  ultimately have "superseded (cm_id m) tok s3"
    using b' row k3(1) by (auto simp: superseded_def begun_def keyed_def dest: distinct_key_eq)
  then have "superseded (cm_id m) tok u" by (rule superseded_run) (rule run_guarded [OF later])
  then show ?thesis using fin by (intro superseded_finish) simp
qed

text \<open>Two rows of one scope, at two moments of a history, are one row: it has the same id and, as
  long as it is not synced, the same frozen parameters.\<close>

lemma scope_row:
  assumes h: "history h" and le: "a \<le> b" and m: "m \<in> set (catalogMappings (h a))" "m' \<in> set (catalogMappings (h b))"
    and scope: "scope_of m' = scope_of m" and unsynced: "cm_status m' \<noteq> MapSynced"
  shows "cm_id m' = cm_id m \<and> frozenIntentOf m' = frozenIntentOf m"
proof -
  obtain n where n: "n \<in> set (catalogMappings (h b))" "evolves m n" using kept_row [OF history_guarded [OF h le] m(1)] .
  then have "n = m'" using m(2) scope history_keyed [OF h, of b] by (auto simp: evolves_def keyed_def dest: distinct_key_eq)
  with n(2) unsynced show ?thesis by (auto simp: evolves_def frozenIntentOf_def)
qed

lemma history_frozen:
  assumes "history h" "m \<in> set (catalogMappings (h k))" "cm_status m \<noteq> MapSynced"
  obtains frozen where "frozenIntentOf m = Some frozen"
  using reachable_mappings(2) [OF history_run [OF assms(1), of 0 k]] assms by (auto simp: history_def frozen_intents_def)

lemma begun_in_scope:
  assumes "begun input s m c tok t"
  shows "scope_of m = (pb_applicationId input, pb_environment input, pb_providerConnectionId input, pb_monetplanePriceId input)"
    and "cm_status m \<noteq> MapSynced" and "m \<in> set (catalogMappings t)" and "kc_idempotencyKey c = cm_id m"
  using assms by (simp_all add: begun_def never_claims(2))

lemma calls_agree:
  assumes h: "history h" and le: "j \<le> j'" and b: "begun input s m c tok (h j)" and b': "begun input' s' m' c' tok' (h j')"
    and same: "scope_of m' = scope_of m"
  shows "c' = c"
proof -
  have row: "cm_id m' = cm_id m \<and> frozenIntentOf m' = frozenIntentOf m"
    by (rule scope_row [OF h le begun_in_scope(3) [OF b] begun_in_scope(3) [OF b'] same begun_in_scope(2) [OF b']])
  obtain fr where "frozenIntentOf m = Some fr" using history_frozen [OF h begun_in_scope(3,2) [OF b]] .
  then have "intent_json c' = intent_json c" using b b' row by (auto simp: begun_def)
  moreover have "kc_idempotencyKey c' = kc_idempotencyKey c" using begun_in_scope(4) [OF b] begun_in_scope(4) [OF b'] row by simp
  ultimately show ?thesis by (rule intent_inject)
qed

text \<open>C40: All provider calls for one price are the same call. In every history that starts without
  mappings, any two attempts for the same application, environment, connection and price that
  were begun got the same create parameters and the same idempotency key, whatever each asked
  for and however their statements overlap: both may find no row and race to insert one, one
  may be parked or given up between any two statements of the other, or a row may be reset,
  linked or claimed in between. So a provider that honours the key cannot end up with two
  products for a price, or with one made from parameters nobody asked for.\<close>

theorem provisioning_repeats_one_call:
  assumes "history h"
    and "attempt h input i (Begin m c tok) j" and "attempt h input' i' (Begin m' c' tok') j'"
    and "pb_applicationId input' = pb_applicationId input" "pb_environment input' = pb_environment input"
      "pb_providerConnectionId input' = pb_providerConnectionId input" "pb_monetplanePriceId input' = pb_monetplanePriceId input"
  shows "c' = c"
proof -
  obtain s s' where b: "begun input s m c tok (h j)" "begun input' s' m' c' tok' (h j')"
    using attempt_begun [OF assms(2,1)] attempt_begun [OF assms(3,1)] by auto
  then have scope: "scope_of m' = scope_of m" by (simp add: begun_in_scope(1) assms(4-7))
  show ?thesis
  proof (cases "j \<le> j'")
    case True
    then show ?thesis by (rule calls_agree [OF assms(1) _ b scope])
  next
    case False
    then have "c = c'" by (intro calls_agree [OF assms(1) _ b(2,1) scope [symmetric]]) simp
    then show ?thesis ..
  qed
qed

lemma scope_find:
  assumes "keyed s" and "m \<in> set (catalogMappings s)" and "in_scope input m"
  shows "findMappingRow input s = Some m"
  unfolding findMappingRow_def
proof (rule find_unique)
  fix q assume "q \<in> set (catalogMappings s)" "in_scope input q"
  with assms show "q = m" by (auto simp: keyed_def never_claims(2) dest: distinct_key_eq)
qed (use assms in auto)

lemma reset_hits:
  assumes "m \<in> set (catalogMappings s)" and "cm_status m = MapFailed"
  obtains rows row t where "reset_update (cm_id m) s = (Inr rows, t)" "first_row rows = Some row" "cm_id row = cm_id m"
    "\<exists>q \<in> set (catalogMappings t). cm_id q = cm_id m \<and> cm_status q = MapPending"
proof -
  let ?P = "\<lambda>q. cm_id q = cm_id m \<and> cm_status q = MapFailed" and ?f = "\<lambda>q. q\<lparr>cm_status := MapPending, cm_updatedAt := clock s\<rparr>"
  let ?rows = "map ?f (filter ?P (catalogMappings s))" and ?t = "catalogMappings_update (update_where ?P ?f) s"
  have run: "reset_update (cm_id m) s = (Inr ?rows, ?t)"
    by (simp add: reset_update_def update_mappings_def update_rows_def Let_def mapping_check_def list_all_iff)
  have "?rows \<noteq> []" using assms by (auto simp: filter_empty_conv)
  then obtain row where row: "first_row ?rows = Some row" by (cases ?rows) auto
  from first_row_mem [OF row] have id: "cm_id row = cm_id m" by auto
  have "(if ?P m then ?f m else m) \<in> set (update_where ?P ?f (catalogMappings s))"
    unfolding update_where_def set_map using assms(1) by (rule imageI)
  then have "\<exists>q \<in> set (catalogMappings ?t). cm_id q = cm_id m \<and> cm_status q = MapPending"
    using assms(2) by (intro bexI [of _ "?f m"]) simp_all
  with run row id show ?thesis by (rule that)
qed

lemma claim_hits:
  assumes "q \<in> set (catalogMappings t)" "cm_id q = cm_id row" "cm_status q = MapPending"
  obtains m c tok s' where "claimPendingIntent row own input t = (Inr (Begin m c tok), s')" "cm_id m = cm_id row"
    "c = effectiveCreateIntent own input (cm_id row)"
proof -
  let ?P = "\<lambda>m. cm_id m = cm_id row \<and> cm_status m = MapPending"
  let ?f = "\<lambda>m. m\<lparr>cm_status := MapCreating, cm_attemptToken := Some (token_of (uuids t)), cm_updatedAt := clock t\<rparr>"
  let ?rows = "map ?f (filter ?P (catalogMappings t))"
  have "?rows \<noteq> []" using assms by (auto simp: filter_empty_conv)
  then obtain m where m: "first_row ?rows = Some m" by (cases ?rows) auto
  from first_row_mem [OF m] have id: "cm_id m = cm_id row" by auto
  have "\<exists>s'. claim_update (cm_id row) t = (Inr (token_of (uuids t), ?rows), s')"
    by (simp add: claim_update_def bind_def update_mappings_def update_rows_def Let_def mapping_check_def list_all_iff token_of_def)
  with m id show ?thesis by (auto simp: claimPendingIntent_def bind_def require_apply intro: that)
qed

text \<open>C22: A rejected attempt can always be tried again. While the request still passes its guards
  and its parameters are the frozen ones, a price whose attempt failed begins a new attempt at
  once, in one pass (the race is never lost without interleaving, so no amount of fuel beyond
  one is needed), on the same row, with the same idempotency key and the parameters asked for.\<close>

theorem failed_attempt_can_be_retried:
  assumes k: "keyed s" and m: "m \<in> set (catalogMappings s)" "in_scope input m" "cm_status m = MapFailed"
    and guards: "provision_guards input s = (Inr (connection, own), s)"
    and frozen: "frozenIntentOf m = Some fr" "intentSignature fr = intent_json (effectiveCreateIntent own input [])"
  shows "\<exists>m' tok s'. beginProvision (Suc fuel) input s
      = (Inr (Begin m' (effectiveCreateIntent own input (cm_id m)) tok), s') \<and> cm_id m' = cm_id m"
  using m(1,3)
proof (rule reset_hits)
  fix rows row t
  assume reset: "reset_update (cm_id m) s = (Inr rows, t)" "first_row rows = Some row" "cm_id row = cm_id m"
    and "\<exists>q \<in> set (catalogMappings t). cm_id q = cm_id m \<and> cm_status q = MapPending"
  then obtain q where q: "q \<in> set (catalogMappings t)" "cm_id q = cm_id row" "cm_status q = MapPending" by auto
  have chk: "check_frozen m own input s = (Inr (), s)" using frozen by (simp add: check_frozen_def throw_if_def)
  obtain m' tok s' where "claimPendingIntent row own input t
      = (Inr (Begin m' (effectiveCreateIntent own input (cm_id m)) tok), s')" "cm_id m' = cm_id m"
    using claim_hits [OF q, of own input] reset(3) by metis
  then show ?thesis
    using guards scope_find [OF k m(1,2)] m(3) chk reset by (simp add: handle_existing_def bind_def)
qed

subsection \<open>A rejected attempt and its retry\<close>

definition demo_intent :: provision_input where
  "demo_intent = \<lparr>pb_applicationId = ''app'', pb_environment = Live, pb_providerConnectionId = ''c1'',
     pb_monetplanePriceId = ''pp'', pb_name = Some '' Pack '', pb_description = None, pb_taxCategory = None\<rparr>"

definition demo_mapping :: "string \<Rightarrow> mapping_status \<Rightarrow> catalog_mapping" where
  "demo_mapping tok st = \<lparr>cm_id = ''pcmap_0'', cm_applicationId = ''app'', cm_providerConnectionId = ''c1'',
     cm_environment = Live, cm_monetplanePriceId = ''pp'', cm_provider = ''creem'', cm_providerProductId = None,
     cm_source = MapCreated, cm_status = st,
     cm_verifiedSnapshot = [(''provisionIntent'', JObj (intent_json (effectiveCreateIntent (demo_price, demo_routed_product) demo_intent [])))],
     cm_updatedAt = 0, cm_lastVerifiedAt = None, cm_attemptToken = Some tok\<rparr>"

definition demo_call :: catalog_product_input where
  "demo_call = effectiveCreateIntent (demo_price, demo_routed_product) demo_intent ''pcmap_0''"

definition demo_finish :: "string \<Rightarrow> finish_input" where
  "demo_finish tok = \<lparr>pf_applicationId = ''app'', pf_environment = Live, pf_monetplanePriceId = ''pp'',
     pf_mappingId = ''pcmap_0'', pf_attemptToken = tok\<rparr>"

abbreviation demo_table :: "nat \<Rightarrow> string \<Rightarrow> mapping_status \<Rightarrow> db" where
  "demo_table n tok st \<equiv> demo_store\<lparr>uuids := n, catalogMappings := [demo_mapping tok st]\<rparr>"

lemma demo_owned:
  "provision_guards demo_intent demo_store = (Inr (demo_live_connection ''c1'' ''creem'', demo_price, demo_routed_product), demo_store)"
  "provision_guards demo_intent (demo_table n tok st)
     = (Inr (demo_live_connection ''c1'' ''creem'', demo_price, demo_routed_product), demo_table n tok st)"
  by (simp_all add: demo_intent_def run_simps prog_simps)

lemma demo_first_attempt: "beginProvision (Suc 0) demo_intent demo_store =
    (Inr (Begin (demo_mapping ''pcatk_1'' MapCreating) demo_call ''pcatk_1''), demo_table 2 ''pcatk_1'' MapCreating)"
  by (simp add: bind_def demo_owned)
    (simp add: demo_intent_def demo_mapping_def demo_call_def run_simps prog_simps trim_def is_js_space_def)

lemma demo_rejected: "finishProvision (demo_finish tok) CreateRejected verify (demo_table n tok MapCreating)
    = (Inr (FinFailed, demo_mapping tok MapFailed), demo_table n tok MapFailed)"
  by (simp add: demo_finish_def demo_mapping_def run_simps prog_simps)

lemma demo_retry: "beginProvision (Suc 0) demo_intent (demo_table 2 ''pcatk_1'' MapFailed) =
    (Inr (Begin (demo_mapping ''pcatk_2'' MapCreating) demo_call ''pcatk_2''), demo_table 3 ''pcatk_2'' MapCreating)"
  by (simp add: bind_def demo_owned)
    (simp add: demo_intent_def demo_mapping_def demo_call_def run_simps prog_simps trim_def is_js_space_def)

lemma demo_between: "prov_run (demo_table 2 ''pcatk_1'' MapCreating) (demo_table 2 ''pcatk_1'' MapFailed)"
proof -
  have "keyed (demo_table 2 ''pcatk_1'' MapCreating)" by (simp add: keyed_def)
  with honoursD [OF finish_provisions demo_rejected] show ?thesis by (auto simp: provisions_def)
qed

text \<open>Two requests that overlap: both read that nothing blocks them, the first opens the row, claims
  it and is rejected, the second, which spells the name without spaces, finds the failed row,
  resets and claims it.\<close>

definition demo_again :: provision_input where
  "demo_again = demo_intent\<lparr>pb_name := Some ''Pack''\<rparr>"

definition demo_second_call :: catalog_product_input where
  "demo_second_call = effectiveCreateIntent (demo_price, demo_routed_product) demo_again ''pcmap_0''"

definition demo_open_row :: "string option \<Rightarrow> catalog_mapping" where
  "demo_open_row tok = demo_mapping [] MapPending\<lparr>cm_attemptToken := tok\<rparr>"

definition demo_history :: "nat \<Rightarrow> db" where
  "demo_history k =
     (if k = 0 then demo_store
      else if k = 1 then demo_store\<lparr>uuids := 1, catalogMappings := [demo_open_row None]\<rparr>
      else if k = 2 then demo_table 2 ''pcatk_1'' MapCreating
      else if k = 3 then demo_table 2 ''pcatk_1'' MapFailed
      else if k = 4 then demo_store\<lparr>uuids := 2, catalogMappings := [demo_open_row (Some ''pcatk_1'')]\<rparr>
      else demo_table 3 ''pcatk_2'' MapCreating)"

abbreviation "demo_own \<equiv> (demo_price, demo_routed_product)"

lemma demo_reads:
  "connection_guards demo_intent demo_store = (Inr (demo_live_connection ''c1'' ''creem''), demo_store)"
  "price_guards demo_intent (demo_live_connection ''c1'' ''creem'') demo_store = (Inr demo_own, demo_store)"
  "findMappingRow demo_intent demo_store = None"
  "connection_guards demo_again demo_store = (Inr (demo_live_connection ''c1'' ''creem''), demo_store)"
  "price_guards demo_again (demo_live_connection ''c1'' ''creem'') demo_store = (Inr demo_own, demo_store)"
  "findMappingRow demo_again (demo_table 2 ''pcatk_1'' MapFailed) = Some (demo_mapping ''pcatk_1'' MapFailed)"
  by (simp_all add: demo_intent_def demo_again_def demo_mapping_def run_simps prog_simps)

lemma demo_open: "open_intent demo_intent (demo_live_connection ''c1'' ''creem'') demo_own (demo_history 0)
    = (Inr (Some (demo_open_row None)), demo_history 1)"
  by (simp add: demo_history_def demo_open_row_def demo_intent_def demo_mapping_def run_simps prog_simps trim_def is_js_space_def)

lemma demo_claims:
  "claimPendingIntent (demo_open_row None) demo_own demo_intent (demo_history 1)
     = (Inr (Begin (demo_mapping ''pcatk_1'' MapCreating) demo_call ''pcatk_1''), demo_history 2)"
  "claimPendingIntent (demo_open_row (Some ''pcatk_1'')) demo_own demo_again (demo_history 4)
     = (Inr (Begin (demo_mapping ''pcatk_2'' MapCreating) demo_second_call ''pcatk_2''), demo_history 5)"
  by (simp_all add: demo_history_def demo_open_row_def demo_mapping_def demo_call_def demo_second_call_def run_simps prog_simps)

lemma demo_handled: "handle_existing demo_again demo_own (demo_mapping ''pcatk_1'' MapFailed) (demo_history 3)
    = (Inr (ClaimRow (demo_open_row (Some ''pcatk_1''))), demo_history 4)"
  by (simp add: demo_history_def demo_open_row_def demo_intent_def demo_again_def demo_mapping_def run_simps prog_simps
      trim_def is_js_space_def)

lemma demo_is_history: "history demo_history"
proof -
  have keyed: "keyed (demo_history k)" for k by (simp add: demo_history_def keyed_def run_simps)
  have steps: "prov_run (demo_history 0) (demo_history 1)" "prov_run (demo_history 1) (demo_history 2)"
    "prov_run (demo_history 2) (demo_history 3)" "prov_run (demo_history 3) (demo_history 4)" "prov_run (demo_history 4) (demo_history 5)"
    using honoursD [OF open_provisions demo_open] honoursD [OF claim_provisions demo_claims(1)]
      honoursD [OF existing_provisions demo_handled] honoursD [OF claim_provisions demo_claims(2)] keyed
      keyed [of 3] demo_between by (simp_all add: provisions_def demo_history_def [of 2] demo_history_def [of 3])
  have rest: "demo_history (Suc k) = demo_history k" if "5 \<le> k" for k using that by (simp add: demo_history_def)
  have "prov_run (demo_history k) (demo_history (Suc k))" for k
  proof -
    consider "k = 0" | "k = 1" | "k = 2" | "k = 3" | "k = 4" | "5 \<le> k" by arith
    then show ?thesis by cases (use steps rest in \<open>simp_all add: eval_nat_numeral\<close>)
  qed
  then show ?thesis by (simp add: history_def demo_history_def run_simps)
qed

lemma demo_first: "attempt demo_history demo_intent 0 (Begin (demo_mapping ''pcatk_1'' MapCreating) demo_call ''pcatk_1'') (Suc 1)"
proof (rule attempt.fresh)
  show "asked demo_history demo_intent 0 (demo_live_connection ''c1'' ''creem'') demo_own None 0"
    by (simp add: asked_def demo_history_def demo_reads)
  show "open_intent demo_intent (demo_live_connection ''c1'' ''creem'') demo_own (demo_history 0)
      = (Inr (Some (demo_open_row None)), demo_history (Suc 0))" using demo_open by simp
  show "after_insert demo_intent demo_own (Some (demo_open_row None)) (demo_history 1)
      = (Inr (Begin (demo_mapping ''pcatk_1'' MapCreating) demo_call ''pcatk_1''), demo_history (Suc 1))"
    using demo_claims(1) by (simp add: after_insert_def numeral_2_eq_2)
qed simp_all

lemma demo_second: "attempt demo_history demo_again 0 (Begin (demo_mapping ''pcatk_2'' MapCreating) demo_second_call ''pcatk_2'') (Suc 4)"
proof (rule attempt.claimed)
  show "asked demo_history demo_again 0 (demo_live_connection ''c1'' ''creem'') demo_own (Some (demo_mapping ''pcatk_1'' MapFailed)) 3"
    unfolding asked_def by (intro exI [of _ 0]) (simp add: demo_history_def demo_reads)
  show "handle_existing demo_again demo_own (demo_mapping ''pcatk_1'' MapFailed) (demo_history 3)
      = (Inr (ClaimRow (demo_open_row (Some ''pcatk_1''))), demo_history (Suc 3))" using demo_handled by simp
  show "claimPendingIntent (demo_open_row (Some ''pcatk_1'')) demo_own demo_again (demo_history 4)
      = (Inr (Begin (demo_mapping ''pcatk_2'' MapCreating) demo_second_call ''pcatk_2''), demo_history (Suc 4))"
    using demo_claims(2) by simp
qed simp_all

lemma provisioning_repeats_one_call_witness:
  "demo_again \<noteq> demo_intent \<and> attempt demo_history demo_again 0 (Begin (demo_mapping ''pcatk_2'' MapCreating) demo_second_call ''pcatk_2'') (Suc 4)
     \<and> demo_second_call = demo_call"
proof (intro conjI)
  show "demo_again \<noteq> demo_intent" by (simp add: demo_again_def demo_intent_def)
  show "attempt demo_history demo_again 0 (Begin (demo_mapping ''pcatk_2'' MapCreating) demo_second_call ''pcatk_2'') (Suc 4)"
    by (rule demo_second)
  show "demo_second_call = demo_call"
    by (rule provisioning_repeats_one_call [OF demo_is_history demo_first demo_second]) (simp_all add: demo_again_def)
qed

lemma superseded_attempt_is_powerless_witness:
  "\<exists>e. finishProvision (demo_finish ''pcatk_1'') (Created ''prod'') (\<lambda>_. Inl (Error ''offline'')) (demo_table 3 ''pcatk_2'' MapCreating)
     = (Inl e, demo_table 3 ''pcatk_2'' MapCreating)"
proof -
  have k: "keyed demo_store" by (simp add: keyed_def run_simps)
  show ?thesis
    by (rule superseded_attempt_is_powerless [OF k demo_first_attempt demo_between demo_retry _ rtranclp.rtrancl_refl])
      (simp_all add: demo_mapping_def demo_finish_def)
qed

lemma failed_attempt_can_be_retried_witness:
  "\<exists>m' tok s'. beginProvision (Suc 0) demo_intent (demo_table 2 ''pcatk_1'' MapFailed)
     = (Inr (Begin m' demo_call tok), s') \<and> cm_id m' = ''pcmap_0''"
  using failed_attempt_can_be_retried [of "demo_table 2 ''pcatk_1'' MapFailed" "demo_mapping ''pcatk_1'' MapFailed" demo_intent
      "demo_live_connection ''c1'' ''creem''" "(demo_price, demo_routed_product)"
      "intent_json (effectiveCreateIntent (demo_price, demo_routed_product) demo_intent [])" 0, OF _ _ _ _ demo_owned(2)]
  by (simp add: keyed_def demo_call_def demo_mapping_def mapping_in_scope_def demo_intent_def frozenIntentOf_def del: beginProvision.simps)

end
