(* ===== verification/Workspace.thy ===== *)
theory Workspace
  imports Frames
begin

text \<open>
  The console's own tables (\<open>schema.ts\<close> of the modules \<open>team\<close> and \<open>operations\<close>): operators,
  workspace members, their application access, invitations and the audit log. No other modelled
  operation reads or writes them, so they form a state of their own, with its clock, its source
  of random values and the ids of the applications the foreign keys refer to.
\<close>

subsection \<open>Rows\<close>

datatype workspace_role = RoleOwner | RoleAdmin | RoleDeveloper | RoleSupport | RoleViewer

datatype application_scope = ScopeAll | ScopeRestricted

datatype operator_status = OperatorActive | OperatorDisabled

datatype invitation_status = InvPending | InvAccepted | InvRevoked

record console_operator =
  op_id :: string
  op_email :: string
  op_name :: string
  op_passwordHash :: string
  op_credentialVersion :: int
  op_status :: operator_status
  op_updatedAt :: int
  op_lastLoginAt :: "int option"

record workspace_member =
  wm_id :: string
  wm_operatorId :: string
  wm_role :: workspace_role
  wm_applicationScope :: application_scope
  wm_createdAt :: int
  wm_updatedAt :: int

record application_access =
  aa_memberId :: string
  aa_applicationId :: string

record invitation =
  iv_id :: string
  iv_email :: string
  iv_role :: workspace_role
  iv_applicationScope :: application_scope
  iv_applicationIds :: "string list"
  iv_tokenHash :: string
  iv_status :: invitation_status
  iv_invitedBy :: string
  iv_createdAt :: int
  iv_expiresAt :: int
  iv_acceptedAt :: "int option"

datatype actor_type = AdminSession | SystemActor | CustomerPortalActor

record audit_entry =
  au_id :: string
  au_applicationId :: "string option"
  au_environment :: "environment option"
  au_actorType :: actor_type
  au_actorId :: string
  au_actorLabel :: "string option"
  au_action :: string
  au_resourceType :: string
  au_resourceId :: string
  au_correlationId :: string
  au_metadata :: json_object
  au_createdAt :: int

record workspace =
  ws_clock :: int
  ws_random :: nat
  ws_applications :: "string list"
  operators :: "console_operator list"
  workspaceMembers :: "workspace_member list"
  memberApplicationAccess :: "application_access list"
  operatorInvitations :: "invitation list"
  operatorAuditLog :: "audit_entry list"

text \<open>A new random value, and an id made of a prefix and one.\<close>

definition draw :: "(workspace, nat) prog" where
  "draw = (\<lambda>s. (Inr (ws_random s), s\<lparr>ws_random := Suc (ws_random s)\<rparr>))"

definition ws_id :: "string \<Rightarrow> (workspace, string) prog" where
  "ws_id prefix = bind draw (\<lambda>n. return (prefix @ string_of_nat n))"

lemma draw_apply [simp, prog_simps]: "draw s = (Inr (ws_random s), s\<lparr>ws_random := Suc (ws_random s)\<rparr>)"
  by (simp add: draw_def)

lemma ws_id_apply [simp, prog_simps]:
  "ws_id prefix s = (Inr (prefix @ string_of_nat (ws_random s)), s\<lparr>ws_random := Suc (ws_random s)\<rparr>)"
  by (simp add: ws_id_def bind_apply)

subsection \<open>Statements\<close>

definition insert_operator :: "console_operator \<Rightarrow> (workspace, console_operator) prog" where
  "insert_operator = insert_row ''operators'' (\<lambda>o'. fits_integer (op_credentialVersion o')) (\<lambda>_. True)
     (\<lambda>r q. op_id r = op_id q \<or> op_email r = op_email q) (\<lambda>_ _. True) operators operators_update"

definition update_operators ::
    "(console_operator \<Rightarrow> bool) \<Rightarrow> (console_operator \<Rightarrow> console_operator) \<Rightarrow> (workspace, console_operator list) prog" where
  "update_operators = update_rows ''operators'' (\<lambda>o'. fits_integer (op_credentialVersion o')) (\<lambda>_. True)
     operators operators_update"

definition insert_member :: "workspace_member \<Rightarrow> (workspace, workspace_member) prog" where
  "insert_member = insert_row ''workspace_members'' (\<lambda>_. True) (\<lambda>_. True)
     (\<lambda>r q. wm_id r = wm_id q \<or> wm_operatorId r = wm_operatorId q)
     (\<lambda>s r. \<exists>o' \<in> set (operators s). op_id o' = wm_operatorId r) workspaceMembers workspaceMembers_update"

definition update_members ::
    "(workspace_member \<Rightarrow> bool) \<Rightarrow> (workspace_member \<Rightarrow> workspace_member) \<Rightarrow> (workspace, workspace_member list) prog" where
  "update_members = update_rows ''workspace_members'' (\<lambda>_. True) (\<lambda>_. True) workspaceMembers workspaceMembers_update"

text \<open>Deleting members deletes their access rows with them (\<open>on delete cascade\<close>).\<close>

definition delete_members :: "(workspace_member \<Rightarrow> bool) \<Rightarrow> (workspace, unit) prog" where
  "delete_members P = modify (\<lambda>s. s\<lparr>workspaceMembers := filter (\<lambda>m. \<not> P m) (workspaceMembers s),
     memberApplicationAccess := filter (\<lambda>a. \<not> (\<exists>m \<in> set (workspaceMembers s). P m \<and> wm_id m = aa_memberId a))
       (memberApplicationAccess s)\<rparr>)"

definition insert_access :: "application_access \<Rightarrow> (workspace, application_access) prog" where
  "insert_access = insert_row ''member_application_access'' (\<lambda>_. True) (\<lambda>_. True) (=)
     (\<lambda>s a. (\<exists>m \<in> set (workspaceMembers s). wm_id m = aa_memberId a) \<and> aa_applicationId a \<in> set (ws_applications s))
     memberApplicationAccess memberApplicationAccess_update"

definition delete_access :: "string \<Rightarrow> (workspace, unit) prog" where
  "delete_access memberId = modify (memberApplicationAccess_update (filter (\<lambda>a. aa_memberId a \<noteq> memberId)))"

definition insert_invitation :: "invitation \<Rightarrow> (workspace, invitation) prog" where
  "insert_invitation = insert_row ''operator_invitations'' (\<lambda>_. True) (\<lambda>_. True)
     (\<lambda>r q. iv_id r = iv_id q \<or> iv_tokenHash r = iv_tokenHash q) (\<lambda>_ _. True)
     operatorInvitations operatorInvitations_update"

definition update_invitations :: "(invitation \<Rightarrow> bool) \<Rightarrow> (invitation \<Rightarrow> invitation) \<Rightarrow> (workspace, invitation list) prog" where
  "update_invitations = update_rows ''operator_invitations'' (\<lambda>_. True) (\<lambda>_. True)
     operatorInvitations operatorInvitations_update"

text \<open>The audit log refers to the application of an entry, where there is one.\<close>

definition insert_audit :: "audit_entry \<Rightarrow> (workspace, audit_entry) prog" where
  "insert_audit = insert_row ''operator_audit_log'' (\<lambda>_. True) (\<lambda>_. True) (\<lambda>r q. au_id r = au_id q)
     (\<lambda>s r. null_or (\<lambda>i. i \<in> set (ws_applications s)) (au_applicationId r)) operatorAuditLog operatorAuditLog_update"

lemmas workspace_table_defs [table_defs, run_simps] = insert_operator_def update_operators_def insert_member_def
  update_members_def delete_members_def insert_access_def delete_access_def insert_invitation_def
  update_invitations_def insert_audit_def

lemmas [run_simps] = draw_def ws_id_def

end
