(* ===== verification/AuditLog.thy ===== *)
theory AuditLog
  imports Workspace
begin

text \<open>
  The audit recorder (\<open>src/src/server/control-plane/audit.ts\<close>): entries are appended, their
  metadata is redacted first. The character U+2026, which marks a shortened text and has no
  8-bit code, is the argument \<open>dots\<close>. The depth bound of the redaction is also its measure.
\<close>

subsection \<open>Redaction\<close>

fun contains :: "string \<Rightarrow> string \<Rightarrow> bool" where
  "contains w [] = (w = [])"
| "contains w (c # t) = (take (length w) (c # t) = w \<or> contains w t)"

definition SECRET_WORDS :: "string list" where
  "SECRET_WORDS = [''secret'', ''credential'', ''password'', ''passwd'', ''token'', ''apikey'', ''api-key'', ''api_key'',
     ''privatekey'', ''private-key'', ''private_key'', ''signing'']"

definition is_secret_key :: "string \<Rightarrow> bool" where
  "is_secret_key k \<longleftrightarrow> list_ex (\<lambda>w. contains w (toLowerCase k)) SECRET_WORDS"

definition MAX_VALUE_LENGTH :: nat where
  "MAX_VALUE_LENGTH = 200"

function redactValue :: "char \<Rightarrow> nat \<Rightarrow> json \<Rightarrow> json" where
  "redactValue dots depth v =
     (if 4 < depth then JStr ''[truncated]''
      else case v of
        JStr t \<Rightarrow> JStr (if MAX_VALUE_LENGTH < length t then take MAX_VALUE_LENGTH t @ [dots] else t)
      | JArr vs \<Rightarrow> JArr (map (redactValue dots (Suc depth)) (take 20 vs))
      | JObj obj \<Rightarrow> JObj (map (\<lambda>(k, x). (k, if is_secret_key k then JStr ''[redacted]''
                                            else redactValue dots (Suc depth) x)) obj)
      | _ \<Rightarrow> v)"
  by pat_completeness auto
termination
  by (relation "measure (\<lambda>(dots, depth, v). 5 - depth)") auto

declare redactValue.simps [simp del]

lemma redact_deep: "4 < depth \<Longrightarrow> redactValue dots depth v = JStr ''[truncated]''"
  by (simp add: redactValue.simps)

lemma redact_shallow:
  assumes "depth \<le> 4"
  shows "redactValue dots depth JNull = JNull" "redactValue dots depth (JBool b) = JBool b"
    "redactValue dots depth (JNum n) = JNum n"
    "redactValue dots depth (JStr t) = JStr (if MAX_VALUE_LENGTH < length t then take MAX_VALUE_LENGTH t @ [dots] else t)"
    "redactValue dots depth (JArr vs) = JArr (map (redactValue dots (Suc depth)) (take 20 vs))"
    "redactValue dots depth (JObj obj) = JObj (map (\<lambda>(k, x). (k, if is_secret_key k then JStr ''[redacted]''
       else redactValue dots (Suc depth) x)) obj)"
  using assms by (simp_all add: redactValue.simps)

definition redactAuditMetadata :: "char \<Rightarrow> json_object \<Rightarrow> json_object" where
  "redactAuditMetadata dots metadata = (case redactValue dots 0 (JObj metadata) of JObj obj \<Rightarrow> obj | _ \<Rightarrow> [])"

subsection \<open>Entries\<close>

definition is_word_char :: "char \<Rightarrow> bool" where
  "is_word_char c = (let n = (of_char c :: nat)
     in (48 \<le> n \<and> n \<le> 57) \<or> (65 \<le> n \<and> n \<le> 90) \<or> (97 \<le> n \<and> n \<le> 122) \<or> n = 95 \<or> n = 46 \<or> n = 45)"

text \<open>The header of the request, where there is one, if it looks like an id.\<close>

definition correlationIdFrom :: "string option \<Rightarrow> (workspace, string) prog" where
  "correlationIdFrom header = (case header of
       Some h \<Rightarrow> if 8 \<le> length h \<and> length h \<le> 128 \<and> list_all is_word_char h then return h else ws_id ''req_''
     | None \<Rightarrow> ws_id ''req_'')"

record session_user =
  su_id :: "string option"
  su_email :: "string option"
  su_name :: "string option"

definition resolveSessionActor :: "session_user option \<Rightarrow> string \<times> string option" where
  "resolveSessionActor session = (case session of
       None \<Rightarrow> (''unknown-admin'', None)
     | Some u \<Rightarrow> (case su_id u of Some i \<Rightarrow> i | None \<Rightarrow> (case su_email u of Some e \<Rightarrow> e | None \<Rightarrow> ''unknown-admin''),
                  case su_name u of Some n \<Rightarrow> Some n | None \<Rightarrow> su_email u))"

record audit_input =
  ai_applicationId :: "string option"
  ai_environment :: "environment option"
  ai_action :: string
  ai_resourceType :: string
  ai_resourceId :: string
  ai_metadata :: "json_object option"
  ai_requestId :: "string option"
  ai_actor :: "(string \<times> string option) option"
  ai_actorType :: "actor_type option"

definition recordAuditEntry :: "char \<Rightarrow> session_user option \<Rightarrow> audit_input \<Rightarrow> (workspace, audit_entry) prog" where
  "recordAuditEntry dots session input =
     (let actor = (case ai_actor input of Some a \<Rightarrow> a | None \<Rightarrow> resolveSessionActor session)
      in bind (ws_id ''audit_'') (\<lambda>i.
         bind (correlationIdFrom (ai_requestId input)) (\<lambda>correlationId.
         bind (gets ws_clock) (\<lambda>now.
         insert_audit \<lparr>au_id = i, au_applicationId = ai_applicationId input, au_environment = ai_environment input,
           au_actorType = (case ai_actorType input of None \<Rightarrow> AdminSession | Some t \<Rightarrow> t), au_actorId = fst actor,
           au_actorLabel = snd actor, au_action = ai_action input, au_resourceType = ai_resourceType input,
           au_resourceId = ai_resourceId input, au_correlationId = correlationId,
           au_metadata = redactAuditMetadata dots (case ai_metadata input of None \<Rightarrow> [] | Some m \<Rightarrow> m),
           au_createdAt = now\<rparr>))))"

record audit_filters =
  af_action :: "string option"
  af_actor :: "string option"
  af_resourceType :: "string option"
  af_environment :: "environment option"
  af_from :: "int option"
  af_to :: "int option"
  af_limit :: "nat option"

text \<open>The newest entries first; entries of one instant in any order (here: the later row first).\<close>

definition listAuditEntries :: "string option \<Rightarrow> audit_filters \<Rightarrow> workspace \<Rightarrow> audit_entry list" where
  "listAuditEntries applicationId filters s =
     take (min (case af_limit filters of None \<Rightarrow> 100 | Some n \<Rightarrow> n) 250)
       (rev (sort_key au_createdAt (filter (\<lambda>e. au_applicationId e = applicationId
          \<and> null_or (\<lambda>a. au_action e = a) (truthy (af_action filters))
          \<and> null_or (\<lambda>a. au_actorId e = a) (truthy (af_actor filters))
          \<and> null_or (\<lambda>t. au_resourceType e = t) (truthy (af_resourceType filters))
          \<and> null_or (\<lambda>m. au_environment e = Some m) (af_environment filters)
          \<and> null_or (\<lambda>d. d \<le> au_createdAt e) (af_from filters)
          \<and> null_or (\<lambda>d. au_createdAt e \<le> d) (af_to filters)) (operatorAuditLog s))))"

lemmas audit_defs [run_simps] = SECRET_WORDS_def is_secret_key_def MAX_VALUE_LENGTH_def redact_deep redact_shallow
  redactAuditMetadata_def is_word_char_def correlationIdFrom_def resolveSessionActor_def recordAuditEntry_def
  listAuditEntries_def

end
