(* ===== verification/Team.thy ===== *)
theory Team
  imports AuditLog
begin

text \<open>
  Team and access (\<open>src/src/modules/team/permissions.ts\<close>, \<open>team/service.ts\<close>, \<open>admin/guard.ts\<close>):
  roles and permissions, sign-in with bootstrap, invitations, membership changes, passwords and
  the guard of the admin API. Hashes, random tokens and the installation's password are the
  argument \<open>team_env\<close>. A membership change is the composition of its reads and its writing
  transaction, which the code runs one after the other without a lock.
\<close>

subsection \<open>Roles and permissions\<close>

datatype permission =
    ApplicationsWrite | CatalogWrite | ProvidersWrite | CredentialsWrite | BillingWrite | CreditsWrite
  | WebhooksWrite | TeamManage

definition TEAM_PERMISSIONS :: "permission list" where
  "TEAM_PERMISSIONS = [ApplicationsWrite, CatalogWrite, ProvidersWrite, CredentialsWrite, BillingWrite, CreditsWrite,
     WebhooksWrite, TeamManage]"

definition WORKSPACE_ROLES :: "workspace_role list" where
  "WORKSPACE_ROLES = [RoleOwner, RoleAdmin, RoleDeveloper, RoleSupport, RoleViewer]"

fun ROLE_PERMISSIONS :: "workspace_role \<Rightarrow> permission list" where
  "ROLE_PERMISSIONS RoleOwner = TEAM_PERMISSIONS"
| "ROLE_PERMISSIONS RoleAdmin = TEAM_PERMISSIONS"
| "ROLE_PERMISSIONS RoleDeveloper = [ApplicationsWrite, CatalogWrite, CredentialsWrite, WebhooksWrite]"
| "ROLE_PERMISSIONS RoleSupport = [CreditsWrite]"
| "ROLE_PERMISSIONS RoleViewer = []"

definition roleHasPermission :: "workspace_role \<Rightarrow> permission \<Rightarrow> bool" where
  "roleHasPermission role p \<longleftrightarrow> p \<in> set (ROLE_PERMISSIONS role)"

definition permissionMatrix :: "(workspace_role \<times> (permission \<times> bool) list) list" where
  "permissionMatrix = map (\<lambda>role. (role, map (\<lambda>p. (p, roleHasPermission role p)) TEAM_PERMISSIONS)) WORKSPACE_ROLES"

fun role_text :: "workspace_role \<Rightarrow> string" where
  "role_text RoleOwner = ''owner''"
| "role_text RoleAdmin = ''admin''"
| "role_text RoleDeveloper = ''developer''"
| "role_text RoleSupport = ''support''"
| "role_text RoleViewer = ''viewer''"

fun scope_text :: "application_scope \<Rightarrow> string" where
  "scope_text ScopeAll = ''all''"
| "scope_text ScopeRestricted = ''restricted''"

subsection \<open>What the team service is given\<close>

record team_env =
  te_hashPassword :: "string \<Rightarrow> nat \<Rightarrow> string"
  te_verifyPassword :: "string \<Rightarrow> string \<Rightarrow> bool"
  te_hashToken :: "string \<Rightarrow> string"
  te_newToken :: "nat \<Rightarrow> string"
  te_adminPassword :: "string option"
  te_dots :: char

record team_actor =
  ta_operatorId :: string
  ta_role :: workspace_role
  ta_label :: "string option"

definition INVITATION_TTL_MS :: int where
  "INVITATION_TTL_MS = 7 * 24 * 60 * 60 * 1000"

definition forbidden :: "string \<Rightarrow> err" where
  "forbidden message = TeamServiceError message 403 ''forbidden''"

definition normalizeEmail :: "string \<Rightarrow> string" where
  "normalizeEmail email = toLowerCase (trim email)"

text \<open>The pattern of an email: one \<open>@\<close>, no blanks, a dot inside the domain.\<close>

definition is_email :: "string \<Rightarrow> bool" where
  "is_email email \<longleftrightarrow>
     (let name = takeWhile (\<lambda>c. c \<noteq> CHR ''@'') email; domain = drop (Suc (length name)) email
      in name \<noteq> [] \<and> length name < length email \<and> list_all (\<lambda>c. \<not> is_js_space c) email
         \<and> CHR ''@'' \<notin> set domain \<and> CHR ''.'' \<in> set (butlast (drop 1 domain)))"

definition local_part :: "string \<Rightarrow> string" where
  "local_part email = takeWhile (\<lambda>c. c \<noteq> CHR ''@'') email"

text \<open>An audit entry of the workspace itself.\<close>

definition audit_team :: "team_env \<Rightarrow> string \<Rightarrow> string \<Rightarrow> string \<Rightarrow> json_object \<Rightarrow> string \<times> string option \<Rightarrow> (workspace, unit) prog" where
  "audit_team env action kind i metadata actor =
     bind (recordAuditEntry (te_dots env) None \<lparr>ai_applicationId = None, ai_environment = None, ai_action = action,
       ai_resourceType = kind, ai_resourceId = i, ai_metadata = Some metadata, ai_requestId = None, ai_actor = Some actor,
       ai_actorType = None\<rparr>) (\<lambda>_. return ())"

subsection \<open>Memberships\<close>

record membership =
  mb_operatorId :: string
  mb_operatorEmail :: string
  mb_operatorName :: string
  mb_operatorStatus :: operator_status
  mb_operatorCredentialVersion :: int
  mb_memberId :: string
  mb_role :: workspace_role
  mb_applicationScope :: application_scope
  mb_applicationIds :: "string list"
  mb_lastLoginAt :: "int option"

definition access_of :: "string \<Rightarrow> workspace \<Rightarrow> string list" where
  "access_of memberId s = map aa_applicationId (filter (\<lambda>a. aa_memberId a = memberId) (memberApplicationAccess s))"

definition joined_members :: "workspace \<Rightarrow> (workspace_member \<times> console_operator) list" where
  "joined_members s = concat (map (\<lambda>m. map (\<lambda>o'. (m, o'))
     (filter (\<lambda>o'. op_id o' = wm_operatorId m) (operators s))) (workspaceMembers s))"

definition membership_record :: "workspace_member \<Rightarrow> console_operator \<Rightarrow> string list \<Rightarrow> membership" where
  "membership_record m o' ids = \<lparr>mb_operatorId = op_id o', mb_operatorEmail = op_email o', mb_operatorName = op_name o',
     mb_operatorStatus = op_status o', mb_operatorCredentialVersion = op_credentialVersion o', mb_memberId = wm_id m,
     mb_role = wm_role m, mb_applicationScope = wm_applicationScope m, mb_applicationIds = ids,
     mb_lastLoginAt = op_lastLoginAt o'\<rparr>"

definition findMembership :: "(console_operator \<Rightarrow> bool) \<Rightarrow> workspace \<Rightarrow> membership option" where
  "findMembership P s = map_option (\<lambda>(m, o'). membership_record m o'
       (if wm_applicationScope m = ScopeRestricted then access_of (wm_id m) s else []))
     (List.find (\<lambda>(m, o'). P o') (joined_members s))"

definition findMembershipByEmail :: "string \<Rightarrow> workspace \<Rightarrow> membership option" where
  "findMembershipByEmail email = findMembership (\<lambda>o'. op_email o' = normalizeEmail email)"

definition findMembershipByOperatorId :: "string \<Rightarrow> workspace \<Rightarrow> membership option" where
  "findMembershipByOperatorId operatorId = findMembership (\<lambda>o'. op_id o' = operatorId)"

record member_view = membership +
  mv_createdAt :: int

record invitation_view =
  vv_id :: string
  vv_email :: string
  vv_role :: workspace_role
  vv_applicationScope :: application_scope
  vv_applicationIds :: "string list"
  vv_status :: invitation_status
  vv_invitedBy :: string
  vv_createdAt :: int
  vv_expiresAt :: int

text \<open>The view of an invitation has no applications, whatever the row says.\<close>

definition invitationView :: "invitation \<Rightarrow> invitation_view" where
  "invitationView i = \<lparr>vv_id = iv_id i, vv_email = iv_email i, vv_role = iv_role i,
     vv_applicationScope = iv_applicationScope i, vv_applicationIds = [], vv_status = iv_status i,
     vv_invitedBy = iv_invitedBy i, vv_createdAt = iv_createdAt i, vv_expiresAt = iv_expiresAt i\<rparr>"

definition listTeamOverview :: "workspace \<Rightarrow> member_view list \<times> invitation_view list" where
  "listTeamOverview s =
     (map (\<lambda>(m, o'). membership.extend (membership_record m o' (access_of (wm_id m) s)) (member_view.fields (wm_createdAt m)))
        (sort_key (\<lambda>(m, o'). wm_createdAt m) (joined_members s)),
      map invitationView
        (sort_key iv_createdAt (filter (\<lambda>i. iv_status i = InvPending) (operatorInvitations s))))"

subsection \<open>Signing in\<close>

record signed_in =
  si_operatorId :: string
  si_email :: string
  si_name :: string
  si_role :: workspace_role
  si_credentialVersion :: int

definition getPasswordHash :: "string \<Rightarrow> workspace \<Rightarrow> string" where
  "getPasswordHash operatorId s = (case List.find (\<lambda>o'. op_id o' = operatorId) (operators s) of
       None \<Rightarrow> ''scrypt$0$0$0$00$00''
     | Some o' \<Rightarrow> op_passwordHash o')"

text \<open>\<open>secretsMatch\<close> compares the bytes of two texts.\<close>

definition secretsMatch :: "string \<Rightarrow> string \<Rightarrow> bool" where
  "secretsMatch a b \<longleftrightarrow> a = b"

definition new_operator :: "string \<Rightarrow> string \<Rightarrow> string \<Rightarrow> string \<Rightarrow> int \<Rightarrow> console_operator" where
  "new_operator i email name hash now = \<lparr>op_id = i, op_email = email, op_name = name, op_passwordHash = hash,
     op_credentialVersion = 0, op_status = OperatorActive, op_updatedAt = now, op_lastLoginAt = None\<rparr>"

definition new_member :: "string \<Rightarrow> string \<Rightarrow> workspace_role \<Rightarrow> application_scope \<Rightarrow> int \<Rightarrow> workspace_member" where
  "new_member i operatorId role scope now = \<lparr>wm_id = i, wm_operatorId = operatorId, wm_role = role,
     wm_applicationScope = scope, wm_createdAt = now, wm_updatedAt = now\<rparr>"

definition signInMember :: "team_env \<Rightarrow> membership \<Rightarrow> string \<Rightarrow> (workspace, signed_in option) prog" where
  "signInMember env m password =
     (if mb_operatorStatus m \<noteq> OperatorActive then return None
      else
        bind (gets (getPasswordHash (mb_operatorId m))) (\<lambda>stored.
        if \<not> te_verifyPassword env password stored then return None
        else
          bind (gets ws_clock) (\<lambda>now.
          bind (update_operators (\<lambda>o'. op_id o' = mb_operatorId m) (\<lambda>o'. o'\<lparr>op_lastLoginAt := Some now\<rparr>)) (\<lambda>_.
          return (Some \<lparr>si_operatorId = mb_operatorId m, si_email = mb_operatorEmail m, si_name = mb_operatorName m,
            si_role = mb_role m, si_credentialVersion = mb_operatorCredentialVersion m\<rparr>)))))"

definition bootstrapOwner :: "team_env \<Rightarrow> string \<Rightarrow> string \<Rightarrow> (workspace, signed_in option) prog" where
  "bootstrapOwner env email password =
     (let name = (if local_part email = [] then ''Owner'' else local_part email)
      in bind (ws_id ''op_'') (\<lambda>operatorId.
         bind (ws_id ''mbr_'') (\<lambda>memberId.
         bind (gets ws_clock) (\<lambda>now.
         bind (transaction (
           bind draw (\<lambda>salt.
           bind (insert_operator (new_operator operatorId email name (te_hashPassword env password salt) now)) (\<lambda>_.
           insert_member (new_member memberId operatorId RoleOwner ScopeAll now))))) (\<lambda>_.
         bind (audit_team env ''team.owner_bootstrapped'' ''operator'' operatorId [(''email'', JStr email)]
           (operatorId, Some name)) (\<lambda>_.
         return (Some \<lparr>si_operatorId = operatorId, si_email = email, si_name = name, si_role = RoleOwner,
           si_credentialVersion = 0\<rparr>)))))))"

definition authenticateWithBootstrap :: "team_env \<Rightarrow> string \<Rightarrow> string \<Rightarrow> (workspace, signed_in option) prog" where
  "authenticateWithBootstrap env emailInput password =
     (let email = normalizeEmail emailInput
      in bind (gets (findMembershipByEmail email)) (\<lambda>found.
         case found of
           Some m \<Rightarrow> signInMember env m password
         | None \<Rightarrow>
             bind (gets operators) (\<lambda>ops.
             if ops \<noteq> [] then return None
             else (case truthy (te_adminPassword env) of
                 None \<Rightarrow> return None
               | Some adminPassword \<Rightarrow>
                   if \<not> secretsMatch password adminPassword then return None
                   else bootstrapOwner env email password))))"

subsection \<open>Invitations\<close>

definition validateApplicationIds :: "string list \<Rightarrow> (workspace, unit) prog" where
  "validateApplicationIds ids =
     (if ids = [] then return ()
      else
        bind (gets (\<lambda>s. filter (\<lambda>a. a \<in> set ids) (ws_applications s))) (\<lambda>rows.
        throw_if (length rows \<noteq> length (remdups ids))
          (TeamServiceError ''One or more applications do not exist'' 400 ''invalid_application'')))"

record invite_input =
  ii_email :: string
  ii_role :: workspace_role
  ii_applicationScope :: application_scope
  ii_applicationIds :: "string list option"
  ii_invitedBy :: team_actor

definition ids_or_empty :: "string list option \<Rightarrow> string list" where
  "ids_or_empty ids = (case ids of None \<Rightarrow> [] | Some xs \<Rightarrow> xs)"

definition manages :: "team_actor \<Rightarrow> bool" where
  "manages actor \<longleftrightarrow> ta_role actor = RoleOwner \<or> ta_role actor = RoleAdmin"

definition check_invite :: "invite_input \<Rightarrow> (workspace, string) prog" where
  "check_invite input =
     bind (throw_if (\<not> manages (ii_invitedBy input)) (forbidden ''Not permitted to invite members'')) (\<lambda>_.
     bind (throw_if (ii_role input = RoleOwner \<and> ta_role (ii_invitedBy input) \<noteq> RoleOwner)
       (forbidden ''Only the workspace owner can grant the owner role'')) (\<lambda>_.
     bind (throw_if (ii_applicationScope input = ScopeRestricted \<and> ids_or_empty (ii_applicationIds input) = [])
       (TeamServiceError ''Restricted scope requires at least one application'' 400 ''invalid_application'')) (\<lambda>_.
     bind (validateApplicationIds (ids_or_empty (ii_applicationIds input))) (\<lambda>_.
     let email = normalizeEmail (ii_email input)
     in bind (throw_if (\<not> is_email email) (TeamServiceError ''A valid email is required'' 400 ''invalid_email'')) (\<lambda>_.
        bind (gets (findMembershipByEmail email)) (\<lambda>existing.
        bind (throw_if (\<exists>m \<in> set_option existing. mb_operatorStatus m = OperatorActive)
          (TeamServiceError ''This email is already a workspace member'' 409 ''already_member'')) (\<lambda>_.
        bind (gets ws_clock) (\<lambda>now.
        bind (gets (\<lambda>s. List.find (\<lambda>i. iv_email i = email \<and> iv_status i = InvPending \<and> now < iv_expiresAt i)
          (operatorInvitations s))) (\<lambda>pending.
        bind (throw_if (pending \<noteq> None)
          (TeamServiceError ''A pending invitation already exists for this email'' 409 ''invitation_pending'')) (\<lambda>_.
        return email))))))))))"

definition inviteMember :: "team_env \<Rightarrow> invite_input \<Rightarrow> (workspace, string \<times> string \<times> int) prog" where
  "inviteMember env input =
     bind (check_invite input) (\<lambda>email.
     bind draw (\<lambda>n.
     bind (ws_id ''inv_'') (\<lambda>invitationId.
     bind (gets ws_clock) (\<lambda>now.
     let token = te_newToken env n; expiresAt = now + INVITATION_TTL_MS
     in bind (insert_invitation \<lparr>iv_id = invitationId, iv_email = email, iv_role = ii_role input,
          iv_applicationScope = ii_applicationScope input,
          iv_applicationIds = (if ii_applicationScope input = ScopeRestricted
             then js_set (ids_or_empty (ii_applicationIds input)) else []),
          iv_tokenHash = te_hashToken env token, iv_status = InvPending,
          iv_invitedBy = ta_operatorId (ii_invitedBy input), iv_createdAt = now, iv_expiresAt = expiresAt,
          iv_acceptedAt = None\<rparr>) (\<lambda>_.
        bind (audit_team env ''team.invitation_created'' ''operator_invitation'' invitationId
          [(''email'', JStr email), (''role'', JStr (role_text (ii_role input))),
           (''applicationScope'', JStr (scope_text (ii_applicationScope input))),
           (''applicationIds'', JArr (map JStr (ids_or_empty (ii_applicationIds input))))]
          (ta_operatorId (ii_invitedBy input), ta_label (ii_invitedBy input))) (\<lambda>_.
        return (invitationId, token, expiresAt)))))))"

text \<open>\<open>tx.insert(memberApplicationAccess).values(rows)\<close>, which refuses an empty list.\<close>

definition grant_access :: "string \<Rightarrow> string list \<Rightarrow> (workspace, unit) prog" where
  "grant_access memberId ids =
     bind (throw_if (ids = []) (Error ''values() must be called with at least one value'')) (\<lambda>_.
     for_loop (\<lambda>_ i. bind (insert_access \<lparr>aa_memberId = memberId, aa_applicationId = i\<rparr>) (\<lambda>_. return ())) () ids)"

definition restoreOperator :: "string \<Rightarrow> string \<Rightarrow> string \<Rightarrow> string \<Rightarrow> int \<Rightarrow> (workspace, string) prog" where
  "restoreOperator fresh email name hash now =
     bind (gets (\<lambda>s. List.find (\<lambda>o'. op_email o' = email) (operators s))) (\<lambda>existing.
     case existing of
       Some o' \<Rightarrow>
         bind (update_operators (\<lambda>q. op_id q = op_id o')
           (\<lambda>q. q\<lparr>op_name := name, op_passwordHash := hash, op_status := OperatorActive, op_updatedAt := now\<rparr>)) (\<lambda>_.
         return (op_id o'))
     | None \<Rightarrow> bind (insert_operator (new_operator fresh email name hash now)) (\<lambda>_. return fresh))"

definition joinWorkspace :: "invitation \<Rightarrow> string \<Rightarrow> string \<Rightarrow> string \<Rightarrow> string \<Rightarrow> int \<Rightarrow> (workspace, unit) prog" where
  "joinWorkspace invite operatorId memberId name hash now =
     transaction (
       bind (restoreOperator operatorId (iv_email invite) name hash now) (\<lambda>resolvedOperatorId.
       bind (delete_members (\<lambda>m. wm_operatorId m = resolvedOperatorId)) (\<lambda>_.
       bind (insert_member (new_member memberId resolvedOperatorId (iv_role invite) (iv_applicationScope invite) now)) (\<lambda>_.
       bind (if iv_applicationScope invite = ScopeRestricted then grant_access memberId (iv_applicationIds invite)
             else return ()) (\<lambda>_.
       bind (update_invitations (\<lambda>i. iv_id i = iv_id invite)
         (\<lambda>i. i\<lparr>iv_status := InvAccepted, iv_acceptedAt := Some now\<rparr>)) (\<lambda>_. return ()))))))"

definition joined_name :: "string option \<Rightarrow> string \<Rightarrow> string" where
  "joined_name name email = (case truthy (map_option trim name) of
       Some n \<Rightarrow> n
     | None \<Rightarrow> if local_part email = [] then ''Operator'' else local_part email)"

definition acceptInvitation :: "team_env \<Rightarrow> string \<Rightarrow> string option \<Rightarrow> string \<Rightarrow> (workspace, string) prog" where
  "acceptInvitation env token name password =
     bind (throw_if (length password < 8)
       (TeamServiceError ''Password must be at least 8 characters'' 400 ''invalid_password'')) (\<lambda>_.
     bind (gets (\<lambda>s. List.find (\<lambda>i. iv_tokenHash i = te_hashToken env token) (operatorInvitations s))) (\<lambda>found.
     bind (gets ws_clock) (\<lambda>now.
     let gone = TeamServiceError ''This invitation is no longer valid'' 410 ''invitation_invalid''
     in bind (require gone found) (\<lambda>invite.
        bind (throw_if (iv_status invite \<noteq> InvPending \<or> iv_expiresAt invite \<le> now) gone) (\<lambda>_.
        bind (ws_id ''op_'') (\<lambda>operatorId.
        bind (ws_id ''mbr_'') (\<lambda>memberId.
        bind draw (\<lambda>salt.
        let shown = joined_name name (iv_email invite)
        in bind (joinWorkspace invite operatorId memberId shown (te_hashPassword env password salt) now) (\<lambda>_.
           bind (audit_team env ''team.member_joined'' ''workspace_member'' memberId
             [(''email'', JStr (iv_email invite)), (''role'', JStr (role_text (iv_role invite))),
              (''invitationId'', JStr (iv_id invite))] (memberId, Some shown)) (\<lambda>_.
           return (iv_email invite)))))))))))"

definition revokeInvitation :: "team_env \<Rightarrow> string \<Rightarrow> team_actor \<Rightarrow> (workspace, unit) prog" where
  "revokeInvitation env invitationId revokedBy =
     bind (throw_if (\<not> manages revokedBy) (forbidden ''Not permitted to revoke invitations'')) (\<lambda>_.
     bind (gets (\<lambda>s. List.find (\<lambda>i. iv_id i = invitationId) (operatorInvitations s))) (\<lambda>found.
     bind (require (TeamServiceError ''Invitation not found'' 404 ''not_found'') found) (\<lambda>invite.
     bind (update_invitations (\<lambda>i. iv_id i = invitationId) (\<lambda>i. i\<lparr>iv_status := InvRevoked\<rparr>)) (\<lambda>_.
     audit_team env ''team.invitation_revoked'' ''operator_invitation'' invitationId
       [(''email'', JStr (iv_email invite))] (ta_operatorId revokedBy, ta_label revokedBy)))))"

subsection \<open>Membership changes\<close>

definition assertCanManageTarget :: "team_actor \<Rightarrow> workspace_role \<Rightarrow> (workspace, unit) prog" where
  "assertCanManageTarget actor targetRole =
     throw_if (targetRole = RoleOwner \<and> ta_role actor \<noteq> RoleOwner)
       (forbidden ''Only the workspace owner can manage owner members'')"

definition countOtherOwners :: "string \<Rightarrow> workspace \<Rightarrow> nat" where
  "countOtherOwners exceptMemberId s =
     length (take 1 (filter (\<lambda>m. wm_role m = RoleOwner \<and> wm_id m \<noteq> exceptMemberId) (workspaceMembers s)))"

definition last_owner :: err where
  "last_owner = TeamServiceError ''At least one owner must remain'' 409 ''last_owner''"

record member_update =
  mu_memberId :: string
  mu_role :: "workspace_role option"
  mu_applicationScope :: "application_scope option"
  mu_applicationIds :: "string list option"
  mu_updatedBy :: team_actor

definition check_role_change :: "member_update \<Rightarrow> workspace_member \<Rightarrow> (workspace, unit) prog" where
  "check_role_change input target = (case mu_role input of
       None \<Rightarrow> return ()
     | Some role \<Rightarrow>
         if role = wm_role target then return ()
         else
           bind (throw_if (role = RoleOwner \<and> ta_role (mu_updatedBy input) \<noteq> RoleOwner)
             (forbidden ''Only the workspace owner can grant the owner role'')) (\<lambda>_.
           bind (gets (countOtherOwners (wm_id target))) (\<lambda>others.
           throw_if (wm_role target = RoleOwner \<and> others = 0) last_owner)))"

text \<open>The reads and guards of \<open>updateMember\<close>: the target, the new scope and the new access.\<close>

definition plan_update :: "member_update \<Rightarrow> (workspace, workspace_member \<times> application_scope \<times> string list) prog" where
  "plan_update input =
     bind (gets (\<lambda>s. List.find (\<lambda>m. wm_id m = mu_memberId input) (workspaceMembers s))) (\<lambda>found.
     bind (require (TeamServiceError ''Member not found'' 404 ''not_found'') found) (\<lambda>target.
     bind (assertCanManageTarget (mu_updatedBy input) (wm_role target)) (\<lambda>_.
     bind (check_role_change input target) (\<lambda>_.
     let scope = (case mu_applicationScope input of None \<Rightarrow> wm_applicationScope target | Some x \<Rightarrow> x)
     in bind (case mu_applicationIds input of
            Some ids \<Rightarrow> return ids
          | None \<Rightarrow> if scope = ScopeRestricted then gets (access_of (wm_id target)) else return []) (\<lambda>ids.
        bind (throw_if (scope = ScopeRestricted \<and> ids = [])
          (TeamServiceError ''Restricted scope requires at least one application'' 400 ''invalid_application'')) (\<lambda>_.
        bind (validateApplicationIds ids) (\<lambda>_.
        return (target, scope, ids))))))))"

definition write_update ::
    "member_update \<Rightarrow> workspace_member \<Rightarrow> application_scope \<Rightarrow> string list \<Rightarrow> (workspace, unit) prog" where
  "write_update input target scope ids =
     transaction (
       bind (gets ws_clock) (\<lambda>now.
       bind (update_members (\<lambda>m. wm_id m = wm_id target)
         (\<lambda>m. m\<lparr>wm_role := (case mu_role input of None \<Rightarrow> wm_role target | Some r \<Rightarrow> r),
                wm_applicationScope := scope, wm_updatedAt := now\<rparr>)) (\<lambda>_.
       if mu_applicationScope input = None \<and> mu_applicationIds input = None then return ()
       else
         bind (delete_access (wm_id target)) (\<lambda>_.
         if scope = ScopeRestricted then grant_access (wm_id target) (js_set ids) else return ()))))"

definition updateMember :: "team_env \<Rightarrow> member_update \<Rightarrow> (workspace, unit) prog" where
  "updateMember env input =
     bind (plan_update input) (\<lambda>(target, scope, ids).
     bind (write_update input target scope ids) (\<lambda>_.
     audit_team env ''team.member_updated'' ''workspace_member'' (wm_id target)
       [(''role'', JStr (role_text (case mu_role input of None \<Rightarrow> wm_role target | Some r \<Rightarrow> r))),
        (''applicationScope'', JStr (scope_text scope)), (''applicationIds'', JArr (map JStr ids)),
        (''previousRole'', JStr (role_text (wm_role target))),
        (''previousScope'', JStr (scope_text (wm_applicationScope target)))]
       (ta_operatorId (mu_updatedBy input), ta_label (mu_updatedBy input))))"

definition plan_removal :: "string \<Rightarrow> team_actor \<Rightarrow> (workspace, workspace_member \<times> console_operator) prog" where
  "plan_removal memberId removedBy =
     bind (gets (\<lambda>s. List.find (\<lambda>(m, o'). wm_id m = memberId) (joined_members s))) (\<lambda>found.
     bind (require (TeamServiceError ''Member not found'' 404 ''not_found'') found) (\<lambda>(target, o').
     bind (assertCanManageTarget removedBy (wm_role target)) (\<lambda>_.
     bind (gets (countOtherOwners (wm_id target))) (\<lambda>others.
     bind (throw_if (wm_role target = RoleOwner \<and> others = 0) last_owner) (\<lambda>_.
     return (target, o'))))))"

definition write_removal :: "workspace_member \<Rightarrow> (workspace, unit) prog" where
  "write_removal target =
     transaction (
       bind (gets ws_clock) (\<lambda>now.
       bind (update_operators (\<lambda>o'. op_id o' = wm_operatorId target)
         (\<lambda>o'. o'\<lparr>op_status := OperatorDisabled, op_updatedAt := now\<rparr>)) (\<lambda>_.
       delete_members (\<lambda>m. wm_id m = wm_id target))))"

definition removeMember :: "team_env \<Rightarrow> string \<Rightarrow> team_actor \<Rightarrow> (workspace, unit) prog" where
  "removeMember env memberId removedBy =
     bind (plan_removal memberId removedBy) (\<lambda>(target, o').
     bind (write_removal target) (\<lambda>_.
     audit_team env ''team.member_removed'' ''workspace_member'' (wm_id target)
       [(''email'', JStr (op_email o')), (''role'', JStr (role_text (wm_role target)))]
       (ta_operatorId removedBy, ta_label removedBy)))"

subsection \<open>Passwords\<close>

definition changeOperatorPassword :: "team_env \<Rightarrow> string \<Rightarrow> string \<Rightarrow> string \<Rightarrow> (workspace, unit) prog" where
  "changeOperatorPassword env operatorId currentPassword newPassword =
     bind (throw_if (length newPassword < 8)
       (TeamServiceError ''New password must be at least 8 characters'' 400 ''invalid_request'')) (\<lambda>_.
     bind (gets (\<lambda>s. List.find (\<lambda>o'. op_id o' = operatorId) (operators s))) (\<lambda>found.
     bind (require (TeamServiceError ''Operator not found'' 404 ''not_found'') found) (\<lambda>o'.
     bind (throw_if (\<not> te_verifyPassword env currentPassword (op_passwordHash o'))
       (TeamServiceError ''Current password is incorrect'' 401 ''invalid_credentials'')) (\<lambda>_.
     bind draw (\<lambda>salt.
     bind (gets ws_clock) (\<lambda>now.
     bind (update_operators (\<lambda>q. op_id q = operatorId \<and> op_passwordHash q = op_passwordHash o')
       (\<lambda>q. q\<lparr>op_passwordHash := te_hashPassword env newPassword salt,
              op_credentialVersion := op_credentialVersion q + 1, op_updatedAt := now\<rparr>)) (\<lambda>rotated.
     throw_if (rotated = []) (TeamServiceError ''Password was changed concurrently; sign in again'' 409 ''invalid_state''))))))))"

record password_audit =
  pa_requestId :: "string option"
  pa_actor :: "string \<times> string option"

definition changeOperatorPasswordWithAudit ::
    "team_env \<Rightarrow> string \<Rightarrow> string \<Rightarrow> string \<Rightarrow> password_audit option \<Rightarrow> (workspace, unit) prog" where
  "changeOperatorPasswordWithAudit env operatorId currentPassword newPassword auditInput =
     transaction (
       bind (changeOperatorPassword env operatorId currentPassword newPassword) (\<lambda>_.
       case auditInput of
         None \<Rightarrow> return ()
       | Some a \<Rightarrow>
           bind (recordAuditEntry (te_dots env) None \<lparr>ai_applicationId = None, ai_environment = None,
             ai_action = ''operator.password_changed'', ai_resourceType = ''operator'', ai_resourceId = operatorId,
             ai_metadata = Some [(''selfService'', JBool True)], ai_requestId = pa_requestId a,
             ai_actor = Some (pa_actor a), ai_actorType = None\<rparr>) (\<lambda>_. return ())))"

subsection \<open>The guard of the admin API\<close>

text \<open>What the session token claims: the operator, and the credential version at sign-in.\<close>

record session_claim =
  sc_operatorId :: "string option"
  sc_credentialVersion :: "int option"

definition loadActor :: "session_claim option \<Rightarrow> workspace \<Rightarrow> membership option" where
  "loadActor session s = (case session of
       None \<Rightarrow> None
     | Some c \<Rightarrow> (case truthy (sc_operatorId c) of
         None \<Rightarrow> None
       | Some i \<Rightarrow> (case findMembershipByOperatorId i s of
           None \<Rightarrow> None
         | Some m \<Rightarrow>
             if mb_operatorStatus m \<noteq> OperatorActive then None
             else (case sc_credentialVersion c of
                 None \<Rightarrow> None
               | Some v \<Rightarrow> if \<not> isSafeInteger v \<or> v \<noteq> mb_operatorCredentialVersion m then None else Some m))))"

datatype 'a guarded = Granted 'a | Unauthorized | Forbidden permission

definition requireAdmin :: "session_claim option \<Rightarrow> workspace \<Rightarrow> membership guarded" where
  "requireAdmin session s = (case loadActor session s of None \<Rightarrow> Unauthorized | Some a \<Rightarrow> Granted a)"

definition requirePermission :: "permission \<Rightarrow> session_claim option \<Rightarrow> workspace \<Rightarrow> membership guarded" where
  "requirePermission p session s = (case loadActor session s of
       None \<Rightarrow> Unauthorized
     | Some a \<Rightarrow> if roleHasPermission (mb_role a) p then Granted a else Forbidden p)"

text \<open>None where access is allowed, otherwise the message of the 403 answer.\<close>

definition requireApplicationAccess :: "membership \<Rightarrow> string \<Rightarrow> string option" where
  "requireApplicationAccess actor applicationId =
     (if mb_applicationScope actor = ScopeAll then None
      else if applicationId = [] then Some ''No accessible application selected''
      else if applicationId \<notin> set (mb_applicationIds actor)
      then Some ''Forbidden: this project is outside your workspace access scope''
      else None)"

lemmas [run_simps] = TEAM_PERMISSIONS_def roleHasPermission_def INVITATION_TTL_MS_def forbidden_def normalizeEmail_def
  is_email_def local_part_def audit_team_def access_of_def joined_members_def membership_record_def findMembership_def
  findMembershipByEmail_def findMembershipByOperatorId_def getPasswordHash_def secretsMatch_def new_operator_def
  new_member_def signInMember_def bootstrapOwner_def authenticateWithBootstrap_def validateApplicationIds_def
  ids_or_empty_def manages_def check_invite_def inviteMember_def grant_access_def restoreOperator_def joinWorkspace_def
  joined_name_def acceptInvitation_def revokeInvitation_def assertCanManageTarget_def countOtherOwners_def last_owner_def
  check_role_change_def plan_update_def write_update_def updateMember_def plan_removal_def write_removal_def
  removeMember_def changeOperatorPassword_def changeOperatorPasswordWithAudit_def loadActor_def requireAdmin_def
  requirePermission_def requireApplicationAccess_def

end
