(* ===== verification/TeamFacts.thy ===== *)
theory TeamFacts
  imports Team StateMachine
begin

text \<open>
  What every operation of the team keeps: keys are unique, every member has its own active
  operator, application access belongs to exactly the restricted members, an open invitation
  is for an address that is no member's and the only one for it, and once there is an operator
  there is an owner. The operations, run one after another by the actors the guard lets in,
  are the steps of a state machine that interprets \<open>invariant_system\<close>.
\<close>

subsection \<open>The invariant\<close>

definition operators_ok :: "workspace \<Rightarrow> bool" where
  "operators_ok s \<longleftrightarrow> distinct (map op_id (operators s)) \<and> distinct (map op_email (operators s))"

definition has_operator :: "workspace \<Rightarrow> workspace_member \<Rightarrow> bool" where
  "has_operator s m \<longleftrightarrow> (\<exists>q \<in> set (operators s). op_id q = wm_operatorId m \<and> op_status q = OperatorActive)"

definition members_ok :: "workspace \<Rightarrow> bool" where
  "members_ok s \<longleftrightarrow> distinct (map wm_id (workspaceMembers s)) \<and> distinct (map wm_operatorId (workspaceMembers s))
     \<and> (\<forall>m \<in> set (workspaceMembers s). has_operator s m)"

definition has_access :: "workspace \<Rightarrow> workspace_member \<Rightarrow> bool" where
  "has_access s m \<longleftrightarrow> (\<exists>a \<in> set (memberApplicationAccess s). aa_memberId a = wm_id m)"

definition access_ok :: "workspace \<Rightarrow> bool" where
  "access_ok s \<longleftrightarrow>
     (\<forall>a \<in> set (memberApplicationAccess s). \<exists>m \<in> set (workspaceMembers s). wm_id m = aa_memberId a)
     \<and> (\<forall>m \<in> set (workspaceMembers s). has_access s m \<longleftrightarrow> wm_applicationScope m = ScopeRestricted)"

definition has_owner :: "workspace \<Rightarrow> bool" where
  "has_owner s \<longleftrightarrow> (\<exists>m \<in> set (workspaceMembers s). wm_role m = RoleOwner)"

definition is_member :: "workspace \<Rightarrow> string \<Rightarrow> bool" where
  "is_member s email \<longleftrightarrow> (\<exists>m \<in> set (workspaceMembers s). \<exists>q \<in> set (operators s).
     op_id q = wm_operatorId m \<and> op_email q = email)"

definition is_open :: "workspace \<Rightarrow> invitation \<Rightarrow> bool" where
  "is_open s i \<longleftrightarrow> iv_status i = InvPending \<and> ws_clock s < iv_expiresAt i"

definition one_open :: "workspace \<Rightarrow> bool" where
  "one_open s \<longleftrightarrow> (\<forall>i \<in> set (operatorInvitations s). \<forall>j \<in> set (operatorInvitations s).
     is_open s i \<and> is_open s j \<and> iv_email i = iv_email j \<longrightarrow> iv_id i = iv_id j)"

definition invitations_ok :: "workspace \<Rightarrow> bool" where
  "invitations_ok s \<longleftrightarrow> distinct (map iv_id (operatorInvitations s))
     \<and> (\<forall>i \<in> set (operatorInvitations s). is_open s i \<longrightarrow> \<not> is_member s (iv_email i)) \<and> one_open s"

definition founded :: "workspace \<Rightarrow> bool" where
  "founded s \<longleftrightarrow> (if operators s = [] then operatorInvitations s = [] else has_owner s)"

definition team_inv :: "workspace \<Rightarrow> bool" where
  "team_inv s \<longleftrightarrow> operators_ok s \<and> members_ok s \<and> access_ok s \<and> invitations_ok s \<and> founded s"

lemmas team_parts = operators_ok_def has_operator_def members_ok_def has_access_def access_ok_def has_owner_def
  is_member_def is_open_def one_open_def invitations_ok_def founded_def

text \<open>Fewer members and a later clock leave the invitations in order.\<close>

lemma invitations_ok_mono:
  assumes "invitations_ok s" and "operatorInvitations t = operatorInvitations s" and "ws_clock s \<le> ws_clock t"
    and "\<And>e. is_member t e \<Longrightarrow> is_member s e"
  shows "invitations_ok t"
proof -
  have "is_open t i \<Longrightarrow> is_open s i" for i using assms(3) by (auto simp: is_open_def)
  then show ?thesis using assms(1,2,4) unfolding invitations_ok_def one_open_def by metis
qed

text \<open>Random values and the audit log do not matter.\<close>

lemma team_inv_random [simp]: "team_inv (s\<lparr>ws_random := n\<rparr>) = team_inv s"
  by (simp add: team_inv_def team_parts)

lemma team_inv_audit [simp]: "team_inv (operatorAuditLog_update f s) = team_inv s"
  by (simp add: team_inv_def team_parts)

lemma keeps_draw: "keeps team_inv draw"
  by (intro keepsI) simp

lemma keeps_ws_id: "keeps team_inv (ws_id p)"
  by (intro keepsI) simp

text \<open>An audit entry changes nothing but the log and the random values drawn.\<close>

lemma keeps_audit_only:
  assumes "\<And>n s. P (s\<lparr>ws_random := n\<rparr>) = P s" and "\<And>f s. P (operatorAuditLog_update f s) = P s"
  shows "keeps P (audit_team env action kind i metadata actor)"
proof -
  have ids: "keeps P (ws_id p)" for p by (intro keepsI) (simp add: assms)
  have "keeps P (insert_audit a)" for a
    by (intro keepsI) (simp add: insert_audit_def insert_row_def assms)
  moreover have "keeps P (correlationIdFrom h)" for h
    by (auto simp: correlationIdFrom_def ids split: option.split)
  ultimately show ?thesis
    unfolding audit_team_def recordAuditEntry_def Let_def by (intro keeps_bind ids) simp_all
qed

lemma keeps_audit: "keeps team_inv (audit_team env action kind i metadata actor)"
  by (rule keeps_audit_only) simp_all

lemmas keeps_rules = keeps_bind keeps_draw keeps_ws_id keeps_audit

subsection \<open>Operators\<close>

lemma no_operator_no_member: "members_ok s \<Longrightarrow> operators s = [] \<Longrightarrow> workspaceMembers s = []"
  by (cases "workspaceMembers s") (auto simp: members_ok_def has_operator_def)

lemma is_member_updated:
  assumes "\<And>q. op_id (f q) = op_id q" "\<And>q. op_email (f q) = op_email q"
  shows "is_member (operators_update (update_where P f) s) e \<longleftrightarrow> is_member s e"
proof -
  have "op_id (if P q then f q else q) = op_id q" "op_email (if P q then f q else q) = op_email q" for q
    by (simp_all add: assms)
  then show ?thesis by (simp add: is_member_def set_update_where del: if_image_distrib)
qed

lemma operators_updated:
  assumes "team_inv s" and same: "\<And>q. op_id (f q) = op_id q" "\<And>q. op_email (f q) = op_email q"
    and active: "\<And>q. op_status q = OperatorActive \<Longrightarrow> op_status (f q) = OperatorActive"
  shows "team_inv (operators_update (update_where P f) s)"
proof -
  have keys: "map op_id (update_where P f qs) = map op_id qs" "map op_email (update_where P f qs) = map op_email qs" for qs
    by (induction qs) (simp_all add: same)
  have row: "op_id (if P q then f q else q) = op_id q" "op_email (if P q then f q else q) = op_email q" for q
    by (simp_all add: same)
  note member = is_member_updated [of f, OF same]
  have op: "has_operator s m \<Longrightarrow> has_operator (operators_update (update_where P f) s) m" for m
    by (auto simp: has_operator_def set_update_where row active simp del: if_image_distrib)
  have nil: "update_where P f qs = [] \<longleftrightarrow> qs = []" for qs
    by (simp add: update_where_def)
  have parts: "operators_ok s" "members_ok s" "access_ok s" "invitations_ok s" "founded s"
    using assms(1) by (simp_all add: team_inv_def)
  have "operators_ok (operators_update (update_where P f) s)"
    using parts(1) by (simp add: operators_ok_def keys)
  moreover have "members_ok (operators_update (update_where P f) s)"
    using parts(2) op by (simp add: members_ok_def)
  moreover have "access_ok (operators_update (update_where P f) s)"
    using parts(3) by (simp add: access_ok_def has_access_def)
  moreover have "invitations_ok (operators_update (update_where P f) s)"
    by (rule invitations_ok_mono [OF parts(4)]) (simp_all add: member)
  moreover have "founded (operators_update (update_where P f) s)"
    using parts(5) by (cases "operators s = []") (simp_all add: founded_def has_owner_def nil)
  ultimately show ?thesis by (simp add: team_inv_def)
qed

lemma keeps_update_operators:
  assumes "\<And>q. op_id (f q) = op_id q" "\<And>q. op_email (f q) = op_email q"
    and "\<And>q. op_status q = OperatorActive \<Longrightarrow> op_status (f q) = OperatorActive"
  shows "keeps team_inv (update_operators P f)"
  using operators_updated [OF _ assms] by (intro keepsI) (simp add: update_operators_def update_rows_def Let_def)

lemma keeps_sign_in: "keeps team_inv (signInMember env m password)"
  unfolding signInMember_def
  by (simp, intro impI keeps_bind) (auto intro!: keeps_bind keeps_update_operators)

lemma keeps_password: "keeps team_inv (changeOperatorPassword env i cur new)"
  unfolding changeOperatorPassword_def by (intro keeps_rules keeps_update_operators) simp_all

subsection \<open>Memberships\<close>

lemma set_joined_members:
  "set (joined_members s) = {(m, q). m \<in> set (workspaceMembers s) \<and> q \<in> set (operators s) \<and> op_id q = wm_operatorId m}"
  by (auto simp: joined_members_def)

lemma member_operator_active:
  assumes "team_inv s" and "m \<in> set (workspaceMembers s)" and "q \<in> set (operators s)" and "op_id q = wm_operatorId m"
  shows "op_status q = OperatorActive"
proof -
  obtain q' where "q' \<in> set (operators s)" "op_id q' = wm_operatorId m" "op_status q' = OperatorActive"
    using assms(1,2) by (auto simp: team_inv_def members_ok_def has_operator_def)
  moreover from this have "q' = q"
    using assms by (intro distinct_key_eq [of op_id "operators s"]) (auto simp: team_inv_def operators_ok_def)
  ultimately show ?thesis by simp
qed

lemma found_membership:
  "findMembership P s = Some mb \<Longrightarrow> \<exists>m q. m \<in> set (workspaceMembers s) \<and> q \<in> set (operators s) \<and> op_id q = wm_operatorId m
     \<and> P q \<and> mb = membership_record m q (if wm_applicationScope m = ScopeRestricted then access_of (wm_id m) s else [])"
proof -
  assume "findMembership P s = Some mb"
  then obtain z where "List.find (\<lambda>(m, q). P q) (joined_members s) = Some z" and mb: "mb = (\<lambda>(m, q). membership_record m q
      (if wm_applicationScope m = ScopeRestricted then access_of (wm_id m) s else [])) z"
    by (auto simp: findMembership_def)
  moreover obtain m q where "z = (m, q)" by (cases z)
  ultimately have "m \<in> set (workspaceMembers s) \<and> q \<in> set (operators s) \<and> op_id q = wm_operatorId m \<and> P q"
    by (auto simp: set_joined_members dest!: find_SomeD)
  with mb \<open>z = (m, q)\<close> show ?thesis by (intro exI [of _ m] exI [of _ q]) simp
qed

lemma no_membership: "findMembership P s = None \<Longrightarrow> m \<in> set (workspaceMembers s) \<Longrightarrow> q \<in> set (operators s)
    \<Longrightarrow> op_id q = wm_operatorId m \<Longrightarrow> \<not> P q"
  by (force simp: findMembership_def find_None_iff2 set_joined_members)

lemma membership_active: "team_inv s \<Longrightarrow> findMembership P s = Some mb \<Longrightarrow> mb_operatorStatus mb = OperatorActive"
  by (auto dest!: found_membership simp: membership_record_def intro: member_operator_active)

lemma lower_char_space [simp]: "is_js_space (lower_char c) = is_js_space c"
proof -
  have "of_char (lower_char c) = (of_char c :: nat) \<or> (65 \<le> (of_char c :: nat) \<and> (of_char c :: nat) \<le> 90
      \<and> of_char (lower_char c) = (of_char c :: nat) + 32)"
    by (auto simp: lower_char_def Let_def)
  then show ?thesis by (auto simp: is_js_space_def Let_def)
qed

lemma lower_char_idem [simp]: "lower_char (lower_char c) = lower_char c"
  by (auto simp: lower_char_def Let_def)

lemma normalizeEmail_idem [simp]: "normalizeEmail (normalizeEmail e) = normalizeEmail e"
proof -
  have "trim (toLowerCase t) = toLowerCase (trim t)" for t
    by (simp add: trim_def toLowerCase_def dropWhile_map comp_def rev_map)
  then show ?thesis by (simp add: normalizeEmail_def) (simp add: toLowerCase_def)
qed

subsection \<open>Invitations\<close>

lemma validate_run [simp]: "validateApplicationIds ids s = (Inr u, s') \<longleftrightarrow>
   s' = s \<and> (ids = [] \<or> length (filter (\<lambda>a. a \<in> set ids) (ws_applications s)) = length (remdups ids))"
  by (auto simp: validateApplicationIds_def bind_eq_Inr)

lemma check_invite_run:
  assumes inv: "team_inv s" and run: "check_invite input s = (Inr email, s')"
  shows "s' = s" and "ii_role input = RoleOwner \<Longrightarrow> ta_role (ii_invitedBy input) = RoleOwner"
    and "\<not> is_member s email" and "i \<in> set (operatorInvitations s) \<Longrightarrow> is_open s i \<Longrightarrow> iv_email i \<noteq> email"
proof -
  have run': "s' = s" "ii_role input = RoleOwner \<Longrightarrow> ta_role (ii_invitedBy input) = RoleOwner"
      "email = normalizeEmail (ii_email input)"
    and old: "\<forall>m \<in> set_option (findMembershipByEmail email s). mb_operatorStatus m \<noteq> OperatorActive"
    and pend: "List.find (\<lambda>i. iv_email i = email \<and> iv_status i = InvPending \<and> ws_clock s < iv_expiresAt i)
      (operatorInvitations s) = None"
    using run by (auto simp: check_invite_def Let_def bind_eq_Inr)
  show "s' = s" "ii_role input = RoleOwner \<Longrightarrow> ta_role (ii_invitedBy input) = RoleOwner" by fact+
  have "findMembershipByEmail email s = None"
    using old membership_active [OF inv] by (auto simp: findMembershipByEmail_def)
  moreover have "normalizeEmail email = email" by (simp add: run'(3))
  ultimately show "\<not> is_member s email"
    by (auto simp: findMembershipByEmail_def is_member_def dest: no_membership)
  show "i \<in> set (operatorInvitations s) \<Longrightarrow> is_open s i \<Longrightarrow> iv_email i \<noteq> email"
    using pend by (auto simp: find_None_iff2 is_open_def)
qed

lemma check_invite_throws: "check_invite input s = (Inl e, s') \<Longrightarrow> s' = s"
  by (auto simp: check_invite_def Let_def bind_eq_Inl bind_eq_Inr validateApplicationIds_def split: if_splits)

lemma one_openD: "one_open s \<Longrightarrow> i \<in> set (operatorInvitations s) \<Longrightarrow> j \<in> set (operatorInvitations s) \<Longrightarrow>
    is_open s i \<Longrightarrow> is_open s j \<Longrightarrow> iv_email i = iv_email j \<Longrightarrow> iv_id i = iv_id j"
  unfolding one_open_def by blast

lemma invitation_added:
  assumes inv: "team_inv s" and ops: "operators s \<noteq> []" and new: "\<not> is_member s (iv_email i)"
    and one: "\<And>j. j \<in> set (operatorInvitations s) \<Longrightarrow> is_open s j \<Longrightarrow> iv_email j \<noteq> iv_email i"
    and key: "\<And>j. j \<in> set (operatorInvitations s) \<Longrightarrow> iv_id j \<noteq> iv_id i"
  shows "team_inv (operatorInvitations_update (\<lambda>js. js @ [i]) s)" (is "team_inv ?t")
proof -
  have parts: "operators_ok s" "members_ok s" "access_ok s" "invitations_ok s" "founded s"
    using inv by (simp_all add: team_inv_def)
  have mem: "is_member ?t e \<longleftrightarrow> is_member s e" and opn: "is_open ?t j \<longleftrightarrow> is_open s j" for e j
    by (simp_all add: is_member_def is_open_def)
  have "one_open s" "distinct (map iv_id (operatorInvitations s))"
    and closed: "\<And>j. j \<in> set (operatorInvitations s) \<Longrightarrow> is_open s j \<Longrightarrow> \<not> is_member s (iv_email j)"
    using parts(4) by (simp_all add: invitations_ok_def)
  have "one_open ?t"
    unfolding one_open_def opn
  proof (intro ballI impI, elim conjE)
    fix j k assume j: "j \<in> set (operatorInvitations ?t)" "is_open s j" and k: "k \<in> set (operatorInvitations ?t)" "is_open s k"
      and same: "iv_email j = iv_email k"
    have "j = i \<and> k = i \<or> j \<in> set (operatorInvitations s) \<and> k \<in> set (operatorInvitations s)"
      using j k same one [of j] one [of k] by auto
    then show "iv_id j = iv_id k" using one_openD [OF \<open>one_open s\<close> _ _ j(2) k(2) same] by blast
  qed
  moreover have "iv_id i \<notin> iv_id ` set (operatorInvitations s)" using key by (metis imageE)
  ultimately have "invitations_ok ?t"
    using \<open>distinct _\<close> new closed unfolding invitations_ok_def opn mem by auto
  moreover have "operators_ok ?t" "members_ok ?t" "access_ok ?t" "founded ?t"
    using parts ops by (simp_all add: operators_ok_def members_ok_def has_operator_def access_ok_def has_access_def
        founded_def has_owner_def)
  ultimately show ?thesis by (simp add: team_inv_def)
qed

lemma inv_bind:
  assumes "bind m f s = (r, t)" and "\<And>x u. m s = (x, u) \<Longrightarrow> team_inv u" and "\<And>a. keeps team_inv (f a)"
  shows "team_inv t"
  using assms by (auto simp: bind_def split: prod.splits sum.splits dest: keepsD)

lemma invite_inv:
  assumes inv: "team_inv s" and ops: "operators s \<noteq> []" and run: "inviteMember env input s = (r, t)"
  shows "team_inv t"
proof (cases "check_invite input s")
  case (Pair x s1)
  show ?thesis
  proof (cases x)
    case (Inl e)
    with Pair run have "t = s" by (auto simp: inviteMember_def dest: check_invite_throws)
    with inv show ?thesis by simp
  next
    case (Inr email)
    note chk = Pair [unfolded Inr]
    note facts = check_invite_run [OF inv chk]
    let ?u = "s\<lparr>ws_random := Suc (Suc (ws_random s))\<rparr>"
    obtain row f where step: "inviteMember env input s = bind (insert_invitation row) f ?u" "iv_email row = email"
      and rest: "\<And>a. keeps team_inv (f a)"
      using chk facts(1) by (auto simp: inviteMember_def Let_def keeps_rules)
    show ?thesis
    proof (rule inv_bind [OF run [unfolded step(1)] _ rest])
      fix y u assume ins: "insert_invitation row ?u = (y, u)"
      show "team_inv u"
      proof (cases "u = ?u")
        case True
        with inv show ?thesis by simp
      next
        case False
        with ins have u: "u = operatorInvitations_update (\<lambda>js. js @ [row]) ?u"
          and key: "\<forall>j \<in> set (operatorInvitations s). iv_id j \<noteq> iv_id row"
          by (auto simp: insert_invitation_def insert_row_def split: if_splits)
        have "\<not> is_member ?u (iv_email row)" using facts(3) step(2) by (simp add: is_member_def)
        moreover have "is_open ?u j \<longleftrightarrow> is_open s j" for j by (simp add: is_open_def)
        ultimately show ?thesis
          unfolding u using inv ops facts(4) step(2) key by (intro invitation_added) auto
      qed
    qed
  qed
qed

lemma keeps_invitation_revoke: "keeps team_inv (revokeInvitation env i actor)"
proof -
  have "team_inv (operatorInvitations_update (update_where P (iv_status_update (\<lambda>_. InvRevoked))) s)" (is "team_inv ?t")
    if inv: "team_inv s" for P s
  proof -
    have parts: "operators_ok s" "members_ok s" "access_ok s" "invitations_ok s" "founded s"
      using inv by (simp_all add: team_inv_def)
    have mem: "is_member ?t e \<longleftrightarrow> is_member s e" for e by (simp add: is_member_def)
    have opn: "j \<in> set (operatorInvitations ?t) \<Longrightarrow> is_open ?t j \<Longrightarrow> j \<in> set (operatorInvitations s) \<and> is_open s j" for j
      by (auto simp: is_open_def update_where_def)
    have "map iv_id (update_where P (iv_status_update (\<lambda>_. InvRevoked)) js) = map iv_id js" for js
      by (induction js) auto
    then have "invitations_ok ?t"
      using parts(4) opn unfolding invitations_ok_def one_open_def mem by simp
    moreover have "operators_ok ?t" "members_ok ?t" "access_ok ?t"
      using parts by (simp_all add: operators_ok_def members_ok_def has_operator_def access_ok_def has_access_def)
    moreover have "founded ?t"
      using parts(5) by (cases "operators s = []") (simp_all add: founded_def has_owner_def)
    ultimately show ?thesis by (simp add: team_inv_def)
  qed
  then have "keeps team_inv (update_invitations P (\<lambda>i. i\<lparr>iv_status := InvRevoked\<rparr>))" for P
    by (intro keepsI) (simp add: update_invitations_def update_rows_def Let_def)
  then show ?thesis unfolding revokeInvitation_def by (intro keeps_rules) simp_all
qed

subsection \<open>Joining\<close>

lemma access_loop:
  "for_loop (\<lambda>_ i. bind (insert_access \<lparr>aa_memberId = memberId, aa_applicationId = i\<rparr>) (\<lambda>_. return ())) () ids s = (Inr u, t)
   \<Longrightarrow> t = s\<lparr>memberApplicationAccess := memberApplicationAccess s
          @ map (\<lambda>i. \<lparr>aa_memberId = memberId, aa_applicationId = i\<rparr>) ids\<rparr>"
proof (induction ids arbitrary: s)
  case (Cons i ids)
  from Cons.prems obtain a s1 where "insert_access \<lparr>aa_memberId = memberId, aa_applicationId = i\<rparr> s = (Inr a, s1)"
    and rest: "for_loop (\<lambda>_ i. bind (insert_access \<lparr>aa_memberId = memberId, aa_applicationId = i\<rparr>) (\<lambda>_. return ())) () ids s1 = (Inr u, t)"
    unfolding for_loop.simps by (elim bind_InrE) simp
  then have "s1 = s\<lparr>memberApplicationAccess := memberApplicationAccess s
      @ [\<lparr>aa_memberId = memberId, aa_applicationId = i\<rparr>]\<rparr>"
    by (auto simp: insert_access_def insert_row_def split: if_splits)
  with Cons.IH [OF rest] show ?case by simp
qed simp

lemma granted_access:
  assumes "grant_access memberId ids s = (Inr u, t)"
  shows "ids \<noteq> []" and "t = s\<lparr>memberApplicationAccess := memberApplicationAccess s
          @ map (\<lambda>i. \<lparr>aa_memberId = memberId, aa_applicationId = i\<rparr>) ids\<rparr>"
proof -
  have run: "ids \<noteq> []" "for_loop (\<lambda>_ i. bind (insert_access \<lparr>aa_memberId = memberId, aa_applicationId = i\<rparr>) (\<lambda>_. return ())) () ids s
      = (Inr u, t)"
    using assms by (auto simp: grant_access_def bind_eq_Inr)
  then show "ids \<noteq> []" by simp
  from access_loop [OF run(2)] show "t = s\<lparr>memberApplicationAccess := memberApplicationAccess s
          @ map (\<lambda>i. \<lparr>aa_memberId = memberId, aa_applicationId = i\<rparr>) ids\<rparr>" .
qed

text \<open>The operator of an address that is no member's: a stored one made active again, or a new one.\<close>

lemma operator_added:
  assumes inv: "team_inv s" and ops: "operators s \<noteq> []"
    and id: "\<And>q. q \<in> set (operators s) \<Longrightarrow> op_id q \<noteq> op_id new"
    and email: "\<And>q. q \<in> set (operators s) \<Longrightarrow> op_email q \<noteq> op_email new"
  shows "team_inv (operators_update (\<lambda>qs. qs @ [new]) s)" (is "team_inv ?t")
proof -
  have parts: "operators_ok s" "members_ok s" "access_ok s" "invitations_ok s" "founded s"
    using inv by (simp_all add: team_inv_def)
  have other: "wm_operatorId m \<noteq> op_id new" if "m \<in> set (workspaceMembers s)" for m
    using that parts(2) id by (fastforce simp: members_ok_def has_operator_def)
  then have mem: "is_member ?t e \<Longrightarrow> is_member s e" for e
    by (fastforce simp: is_member_def)
  have keys: "op_id new \<notin> op_id ` set (operators s)" "op_email new \<notin> op_email ` set (operators s)"
    using id email by (metis imageE)+
  have "invitations_ok ?t" by (rule invitations_ok_mono [OF parts(4)]) (simp_all add: mem)
  moreover have "operators_ok ?t" using parts(1) keys by (simp add: operators_ok_def)
  moreover have "members_ok ?t" using parts(2) by (simp add: members_ok_def has_operator_def)
  moreover have "access_ok ?t" using parts(3) by (simp add: access_ok_def has_access_def)
  moreover have "founded ?t" using parts(5) ops by (simp add: founded_def has_owner_def)
  ultimately show ?thesis by (simp add: team_inv_def)
qed

lemma restored_operator:
  assumes inv: "team_inv s" and ops: "operators s \<noteq> []" and run: "restoreOperator fresh email name hash now s = (Inr i, t)"
  shows "team_inv t" and "\<exists>q \<in> set (operators t). op_id q = i \<and> op_email q = email \<and> op_status q = OperatorActive"
    and "t = s\<lparr>operators := operators t\<rparr>" and "is_member t email \<longleftrightarrow> is_member s email"
proof -
  let ?f = "\<lambda>q. q\<lparr>op_name := name, op_passwordHash := hash, op_status := OperatorActive, op_updatedAt := now\<rparr>"
  have "team_inv t \<and> (\<exists>q \<in> set (operators t). op_id q = i \<and> op_email q = email \<and> op_status q = OperatorActive)
     \<and> t = s\<lparr>operators := operators t\<rparr> \<and> (is_member t email \<longleftrightarrow> is_member s email)"
  proof (cases "List.find (\<lambda>q. op_email q = email) (operators s)")
    case None
    then have t: "t = operators_update (\<lambda>qs. qs @ [new_operator fresh email name hash now]) s" "i = fresh"
      and ids: "\<And>q. q \<in> set (operators s) \<Longrightarrow> op_id q \<noteq> fresh" "\<And>q. q \<in> set (operators s) \<Longrightarrow> op_email q \<noteq> email"
      using run by (auto simp: restoreOperator_def bind_eq_Inr insert_operator_def insert_row_def new_operator_def
          split: if_splits)
    have "team_inv t" unfolding t by (rule operator_added [OF inv ops]) (auto simp: new_operator_def dest: ids)
    moreover have "wm_operatorId m \<noteq> fresh" if "m \<in> set (workspaceMembers s)" for m
      using that inv ids(1) by (fastforce simp: team_inv_def members_ok_def has_operator_def)
    then have "is_member t email \<longleftrightarrow> is_member s email"
      by (fastforce simp: t is_member_def new_operator_def)
    ultimately show ?thesis by (simp add: t new_operator_def)
  next
    case (Some q)
    then have t: "t = operators_update (update_where (\<lambda>p. op_id p = op_id q) ?f) s" "i = op_id q"
      using run by (auto simp: restoreOperator_def bind_eq_Inr update_operators_def update_rows_def Let_def split: if_splits)
    have q: "q \<in> set (operators s)" "op_email q = email" using find_SomeD [OF Some] by auto
    have "team_inv t" unfolding t by (rule operators_updated [OF inv]) simp_all
    moreover have "?f q \<in> set (operators t)" using q(1) by (auto simp: t update_where_def)
    moreover have "is_member t email \<longleftrightarrow> is_member s email"
      unfolding t by (rule is_member_updated) simp_all
    ultimately show ?thesis using q(2) by (auto simp: t intro: bexI [of _ "?f q"])
  qed
  then show "team_inv t" "\<exists>q \<in> set (operators t). op_id q = i \<and> op_email q = email \<and> op_status q = OperatorActive"
    "t = s\<lparr>operators := operators t\<rparr>" "is_member t email \<longleftrightarrow> is_member s email" by blast+
qed

text \<open>A member of an active operator who had no membership joins with the access its scope asks
  for, and its invitation is closed.\<close>

lemma member_joined:
  assumes inv: "team_inv s" and op: "has_operator s m"
    and id: "\<And>k. k \<in> set (workspaceMembers s) \<Longrightarrow> wm_id k \<noteq> wm_id m"
    and fresh: "\<And>k. k \<in> set (workspaceMembers s) \<Longrightarrow> wm_operatorId k \<noteq> wm_operatorId m"
    and rows: "\<And>a. a \<in> set rows \<Longrightarrow> aa_memberId a = wm_id m" "rows \<noteq> [] \<longleftrightarrow> wm_applicationScope m = ScopeRestricted"
    and ids: "map iv_id js = map iv_id (operatorInvitations s)"
    and kept: "\<And>j. j \<in> set js \<Longrightarrow> is_open s j \<Longrightarrow> j \<in> set (operatorInvitations s)
      \<and> (\<forall>q \<in> set (operators s). op_id q = wm_operatorId m \<longrightarrow> op_email q \<noteq> iv_email j)"
    and owner: "has_owner s \<or> wm_role m = RoleOwner"
  shows "team_inv (s\<lparr>workspaceMembers := workspaceMembers s @ [m],
    memberApplicationAccess := memberApplicationAccess s @ rows, operatorInvitations := js\<rparr>)" (is "team_inv ?t")
proof -
  have parts: "operators_ok s" "members_ok s" "access_ok s" "invitations_ok s" "founded s"
    using inv by (simp_all add: team_inv_def)
  have keys: "wm_id m \<notin> wm_id ` set (workspaceMembers s)" "wm_operatorId m \<notin> wm_operatorId ` set (workspaceMembers s)"
    using id fresh by (metis imageE)+
  have opr: "has_operator ?t k \<longleftrightarrow> has_operator s k" for k by (simp add: has_operator_def)
  have opn: "is_open ?t j \<longleftrightarrow> is_open s j" for j by (simp add: is_open_def)
  have mem: "is_member ?t e \<longleftrightarrow> is_member s e \<or> (\<exists>q \<in> set (operators s). op_id q = wm_operatorId m \<and> op_email q = e)" for e
    by (auto simp: is_member_def)
  have acc: "has_access ?t k \<longleftrightarrow> has_access s k \<or> (wm_id k = wm_id m \<and> rows \<noteq> [])" for k
    using rows(1) by (cases rows) (auto simp: has_access_def)
  have "\<not> has_access s m" using parts(3) id by (fastforce simp: has_access_def access_ok_def)
  then have "access_ok ?t"
    using parts(3) rows id by (auto simp: access_ok_def acc)
  moreover have "operators_ok ?t" using parts(1) by (simp add: operators_ok_def)
  moreover have "members_ok ?t" using parts(2) op keys by (simp add: members_ok_def opr)
  moreover have "one_open ?t"
    using parts(4) kept unfolding one_open_def invitations_ok_def opn by simp
  then have "invitations_ok ?t"
    using parts(4) kept ids unfolding invitations_ok_def opn mem by auto
  moreover have "has_owner ?t" using owner by (auto simp: has_owner_def)
  moreover have "operators s \<noteq> []" using op by (auto simp: has_operator_def)
  ultimately show ?thesis by (simp add: team_inv_def founded_def)
qed

text \<open>What a committed acceptance wrote.\<close>

lemma join_run:
  assumes inv: "team_inv s" and i: "i \<in> set (operatorInvitations s)" "is_open s i"
    and run: "joinWorkspace i operatorId memberId name hash now s = (Inr u, t)"
  obtains q s1 where "team_inv s1" and "s1 = s\<lparr>operators := operators s1\<rparr>"
    and "q \<in> set (operators s1)" "op_email q = iv_email i" "op_status q = OperatorActive"
    and "\<And>k. k \<in> set (workspaceMembers s) \<Longrightarrow> wm_operatorId k \<noteq> op_id q"
    and "\<And>k. k \<in> set (workspaceMembers s) \<Longrightarrow> wm_id k \<noteq> memberId"
    and "iv_applicationScope i = ScopeRestricted \<longrightarrow> iv_applicationIds i \<noteq> []"
    and "t = s1\<lparr>workspaceMembers := workspaceMembers s @ [new_member memberId (op_id q) (iv_role i) (iv_applicationScope i) now],
      memberApplicationAccess := memberApplicationAccess s @ (if iv_applicationScope i = ScopeRestricted
        then map (\<lambda>x. \<lparr>aa_memberId = memberId, aa_applicationId = x\<rparr>) (iv_applicationIds i) else []),
      operatorInvitations := update_where (\<lambda>j. iv_id j = iv_id i)
        (\<lambda>j. j\<lparr>iv_status := InvAccepted, iv_acceptedAt := Some now\<rparr>) (operatorInvitations s)\<rparr>"
proof -
  have ops: "operators s \<noteq> []" and none: "\<not> is_member s (iv_email i)"
    using inv i by (auto simp: team_inv_def founded_def invitations_ok_def split: if_splits)
  from run obtain who s1 where op: "restoreOperator operatorId (iv_email i) name hash now s = (Inr who, s1)"
    and rest: "bind (delete_members (\<lambda>m. wm_operatorId m = who)) (\<lambda>_.
       bind (insert_member (new_member memberId who (iv_role i) (iv_applicationScope i) now)) (\<lambda>_.
       bind (if iv_applicationScope i = ScopeRestricted then grant_access memberId (iv_applicationIds i)
             else return ()) (\<lambda>_.
       bind (update_invitations (\<lambda>j. iv_id j = iv_id i)
         (\<lambda>j. j\<lparr>iv_status := InvAccepted, iv_acceptedAt := Some now\<rparr>)) (\<lambda>_. return ())))) s1 = (Inr u, t)"
    by (auto simp: joinWorkspace_def elim: bind_InrE)
  note r = restored_operator [OF inv ops op]
  obtain q where q: "q \<in> set (operators s1)" "op_id q = who" "op_email q = iv_email i" "op_status q = OperatorActive"
    using r(2) by blast
  have alone: "\<not> is_member s1 (iv_email i)" using r(4) none by simp
  then have fresh: "wm_operatorId k \<noteq> who" if "k \<in> set (workspaceMembers s1)" for k
    using that q by (auto simp: is_member_def)
  have same: "workspaceMembers s1 = workspaceMembers s" "memberApplicationAccess s1 = memberApplicationAccess s"
    "operatorInvitations s1 = operatorInvitations s"
    using arg_cong [OF r(3), of workspaceMembers] arg_cong [OF r(3), of memberApplicationAccess]
      arg_cong [OF r(3), of operatorInvitations] by simp_all
  have "filter (\<lambda>m. wm_operatorId m \<noteq> who) (workspaceMembers s1) = workspaceMembers s1"
    "filter (\<lambda>a. \<not> (\<exists>m \<in> set (workspaceMembers s1). wm_operatorId m = who \<and> wm_id m = aa_memberId a))
       (memberApplicationAccess s1) = memberApplicationAccess s1"
    using fresh by (auto simp: filter_id_conv)
  then have del: "delete_members (\<lambda>m. wm_operatorId m = who) s1 = (Inr (), s1)"
    by (simp add: delete_members_def)
  let ?m = "new_member memberId who (iv_role i) (iv_applicationScope i) now"
  let ?js = "update_where (\<lambda>j. iv_id j = iv_id i) (\<lambda>j. j\<lparr>iv_status := InvAccepted, iv_acceptedAt := Some now\<rparr>)
    (operatorInvitations s1)"
  let ?rows = "if iv_applicationScope i = ScopeRestricted
      then map (\<lambda>x. \<lparr>aa_memberId = memberId, aa_applicationId = x\<rparr>) (iv_applicationIds i) else []"
  have new: "\<forall>k \<in> set (workspaceMembers s1). wm_id k \<noteq> memberId"
    and t: "t = s1\<lparr>workspaceMembers := workspaceMembers s1 @ [?m], memberApplicationAccess := memberApplicationAccess s1 @ ?rows,
      operatorInvitations := ?js\<rparr>" and ne: "iv_applicationScope i = ScopeRestricted \<longrightarrow> iv_applicationIds i \<noteq> []"
    using rest del
    by (auto simp: bind_eq_Inr insert_member_def insert_row_def new_member_def update_invitations_def update_rows_def Let_def
        split: if_splits dest: granted_access)
  show thesis
    by (rule that [OF r(1) r(3) q(1) q(3) q(4)]) (use fresh new ne t q(2) in \<open>simp_all add: same\<close>)
qed

lemma join_inv:
  assumes inv: "team_inv s" and i: "i \<in> set (operatorInvitations s)" "is_open s i"
    and run: "joinWorkspace i operatorId memberId name hash now s = (Inr u, t)"
  shows "team_inv t"
  using inv i run
proof (rule join_run)
  fix q :: console_operator and s1
  let ?m = "new_member memberId (op_id q) (iv_role i) (iv_applicationScope i) now"
  let ?g = "\<lambda>j. j\<lparr>iv_status := InvAccepted, iv_acceptedAt := Some now\<rparr>"
  let ?js = "update_where (\<lambda>j. iv_id j = iv_id i) ?g (operatorInvitations s)"
  let ?rows = "if iv_applicationScope i = ScopeRestricted
      then map (\<lambda>x. \<lparr>aa_memberId = memberId, aa_applicationId = x\<rparr>) (iv_applicationIds i) else []"
  assume inv1: "team_inv s1" and s1: "s1 = s\<lparr>operators := operators s1\<rparr>"
    and q: "q \<in> set (operators s1)" "op_email q = iv_email i" "op_status q = OperatorActive"
    and fresh: "\<And>k. k \<in> set (workspaceMembers s) \<Longrightarrow> wm_operatorId k \<noteq> op_id q"
    and new: "\<And>k. k \<in> set (workspaceMembers s) \<Longrightarrow> wm_id k \<noteq> memberId"
    and ne: "iv_applicationScope i = ScopeRestricted \<longrightarrow> iv_applicationIds i \<noteq> []"
    and t: "t = s1\<lparr>workspaceMembers := workspaceMembers s @ [?m], memberApplicationAccess := memberApplicationAccess s @ ?rows,
      operatorInvitations := ?js\<rparr>"
  have same: "workspaceMembers s1 = workspaceMembers s" "memberApplicationAccess s1 = memberApplicationAccess s"
    "operatorInvitations s1 = operatorInvitations s" "ws_clock s1 = ws_clock s"
    using arg_cong [OF s1, of workspaceMembers] arg_cong [OF s1, of memberApplicationAccess]
      arg_cong [OF s1, of operatorInvitations] arg_cong [OF s1, of ws_clock] by simp_all
  show "team_inv t"
    unfolding t same(1-3) [symmetric]
  proof (rule member_joined [OF inv1])
    show "has_operator s1 ?m" using q by (auto simp: has_operator_def new_member_def)
    show "?rows \<noteq> [] \<longleftrightarrow> wm_applicationScope ?m = ScopeRestricted" using ne by (simp add: new_member_def)
    have "has_owner s" using inv i by (auto simp: team_inv_def founded_def split: if_splits)
    then show "has_owner s1 \<or> wm_role ?m = RoleOwner" by (simp add: has_owner_def same)
    show "map iv_id (update_where (\<lambda>j. iv_id j = iv_id i) ?g (operatorInvitations s1)) = map iv_id (operatorInvitations s1)"
      by (rule map_update_where_same) simp
    fix j assume j: "j \<in> set (update_where (\<lambda>j. iv_id j = iv_id i) ?g (operatorInvitations s1))" "is_open s1 j"
    then have j': "j \<in> set (operatorInvitations s1)" "iv_id j \<noteq> iv_id i"
      by (auto simp: update_where_def is_open_def split: if_splits)
    have "iv_email j \<noteq> iv_email i"
      using inv1 j j' i by (auto simp: team_inv_def invitations_ok_def same is_open_def dest: one_openD)
    moreover have "p = q" if "p \<in> set (operators s1)" "op_id p = op_id q" for p
      using that q inv1 by (intro distinct_key_eq [of op_id "operators s1"]) (auto simp: team_inv_def operators_ok_def)
    moreover have "wm_operatorId ?m = op_id q" by (simp add: new_member_def)
    ultimately show "j \<in> set (operatorInvitations s1)
        \<and> (\<forall>p \<in> set (operators s1). op_id p = wm_operatorId ?m \<longrightarrow> op_email p \<noteq> iv_email j)"
      using j'(1) q(2) by metis
  qed (use fresh new in \<open>auto simp: new_member_def same split: if_splits\<close>)
qed

lemma joined_rolls_back: "joinWorkspace i operatorId memberId name hash now s = (Inl e, t) \<Longrightarrow> t = s"
  unfolding joinWorkspace_def by (rule transaction_rollback)

lemma accept_inv:
  assumes inv: "team_inv s" and run: "acceptInvitation env token name password s = (r, t)"
  shows "team_inv t"
proof (cases "8 \<le> length password")
  case False
  with run inv show ?thesis by (simp add: acceptInvitation_def bind_apply throw_if_apply)
next
  case True
  let ?found = "List.find (\<lambda>i. iv_tokenHash i = te_hashToken env token) (operatorInvitations s)"
  show ?thesis
  proof (cases "\<exists>i. ?found = Some i \<and> is_open s i")
    case False
    then have "t = s"
      using run True by (auto simp: acceptInvitation_def Let_def bind_apply throw_if_apply require_apply is_open_def
          split: option.splits if_splits)
    with inv show ?thesis by simp
  next
    case True': True
    then obtain i where i: "?found = Some i" "is_open s i" by blast
    let ?u = "s\<lparr>ws_random := Suc (Suc (Suc (ws_random s)))\<rparr>"
    obtain a b c d f where step: "acceptInvitation env token name password s = bind (joinWorkspace i a b c d (ws_clock s)) f ?u"
      and rest: "\<And>x. keeps team_inv (f x)"
      using True i by (auto simp: acceptInvitation_def Let_def throw_if_apply require_apply is_open_def keeps_rules)
    show ?thesis
    proof (rule inv_bind [OF run [unfolded step] _ rest])
      fix y u assume j: "joinWorkspace i a b c d (ws_clock s) ?u = (y, u)"
      have u: "team_inv ?u" "i \<in> set (operatorInvitations ?u)" "is_open ?u i"
        using inv i find_SomeD [OF i(1)] by (simp_all add: is_open_def)
      show "team_inv u"
      proof (cases y)
        case (Inl e)
        with joined_rolls_back j have "u = ?u" by blast
        with u(1) show ?thesis by simp
      next
        case (Inr x)
        with join_inv [OF u] j show ?thesis by blast
      qed
    qed
  qed
qed

text \<open>Accepting an invitation adds at most one member: of the operator with the invited address, with
  the invited role, and then the invitation is closed.\<close>

lemma accepted_member:
  assumes inv: "team_inv s" and run: "acceptInvitation env token name password s = (r, t)"
    and new: "m \<in> set (workspaceMembers t)" "m \<notin> set (workspaceMembers s)"
  obtains i j q where "i \<in> set (operatorInvitations s)" "iv_tokenHash i = te_hashToken env token" "is_open s i"
    and "iv_role i = wm_role m" and "j \<in> set (operatorInvitations t)" "iv_id j = iv_id i" "iv_status j = InvAccepted"
    and "q \<in> set (operators t)" "op_id q = wm_operatorId m" "op_email q = iv_email i"
proof -
  let ?found = "List.find (\<lambda>i. iv_tokenHash i = te_hashToken env token) (operatorInvitations s)"
  have changed: "workspaceMembers t \<noteq> workspaceMembers s" using new by auto
  then have change: "t \<noteq> s" by auto
  have long: "8 \<le> length password"
    using run change by (auto simp: acceptInvitation_def bind_apply throw_if_apply split: if_splits)
  obtain i where i: "?found = Some i" "is_open s i"
    using run change long by (auto simp: acceptInvitation_def Let_def bind_apply throw_if_apply require_apply is_open_def
        split: option.splits if_splits)
  have it: "i \<in> set (operatorInvitations s)" "iv_tokenHash i = te_hashToken env token"
    using find_SomeD [OF i(1)] by auto
  let ?u = "s\<lparr>ws_random := Suc (Suc (Suc (ws_random s)))\<rparr>"
  let ?same = "\<lambda>(u :: workspace) (v :: workspace). workspaceMembers v = workspaceMembers u \<and> operators v = operators u
    \<and> operatorInvitations v = operatorInvitations u"
  obtain a b c d f where step: "acceptInvitation env token name password s = bind (joinWorkspace i a b c d (ws_clock s)) f ?u"
    and rest: "\<And>x (u :: workspace). keeps (?same u) (f x)"
    using long i by (auto simp: acceptInvitation_def Let_def throw_if_apply require_apply is_open_def
        keeps_bind keeps_audit_only)
  obtain y v where j: "joinWorkspace i a b c d (ws_clock s) ?u = (y, v)" by (cases "joinWorkspace i a b c d (ws_clock s) ?u")
  show thesis
  proof (cases y)
    case (Inl e)
    with joined_rolls_back j have "v = ?u" by blast
    with Inl j run step have "t = ?u" by simp
    with changed show ?thesis by simp
  next
    case (Inr x)
    with j run step have "f x v = (r, t)" by simp
    from keepsD [OF rest this, of v] have same: "?same v t" by simp
    have "team_inv ?u" "i \<in> set (operatorInvitations ?u)" "is_open ?u i"
      using inv i it by (simp_all add: is_open_def)
    from this j [unfolded Inr] show ?thesis
    proof (rule join_run)
      fix q :: console_operator and s1
      assume q: "q \<in> set (operators s1)" "op_email q = iv_email i"
        and v: "v = s1\<lparr>workspaceMembers := workspaceMembers ?u
            @ [new_member b (op_id q) (iv_role i) (iv_applicationScope i) (ws_clock s)],
          memberApplicationAccess := memberApplicationAccess ?u @ (if iv_applicationScope i = ScopeRestricted
            then map (\<lambda>x. \<lparr>aa_memberId = b, aa_applicationId = x\<rparr>) (iv_applicationIds i) else []),
          operatorInvitations := update_where (\<lambda>j. iv_id j = iv_id i)
            (\<lambda>j. j\<lparr>iv_status := InvAccepted, iv_acceptedAt := Some (ws_clock s)\<rparr>) (operatorInvitations ?u)\<rparr>"
      have m: "m = new_member b (op_id q) (iv_role i) (iv_applicationScope i) (ws_clock s)"
        using new same by (auto simp: v)
      have closed: "i\<lparr>iv_status := InvAccepted, iv_acceptedAt := Some (ws_clock s)\<rparr> \<in> set (operatorInvitations t)"
        using it same by (auto simp: v update_where_def)
      have "iv_role i = wm_role m" "op_id q = wm_operatorId m" by (simp_all add: m new_member_def)
      moreover have "q \<in> set (operators t)" using q(1) same by (simp add: v)
      ultimately show thesis
        using that [OF it i(2) _ closed, of q] q(2) by simp
    qed
  qed
qed

lemma bootstrap_inv:
  assumes inv: "team_inv s" and ops: "operators s = []" and run: "bootstrapOwner env email password s = (r, t)"
  shows "team_inv t"
proof -
  have none: "workspaceMembers s = []" "operatorInvitations s = []" "memberApplicationAccess s = []"
    using inv ops no_operator_no_member [of s]
    by (auto simp: team_inv_def founded_def access_ok_def)
  let ?u = "s\<lparr>ws_random := Suc (Suc (ws_random s))\<rparr>"
  obtain o' m f where step: "bootstrapOwner env email password s
      = bind (transaction (bind draw (\<lambda>salt. bind (insert_operator (o' salt)) (\<lambda>_. insert_member m)))) f ?u"
    and rows: "\<And>n. op_id (o' n) = wm_operatorId m" "\<And>n. op_status (o' n) = OperatorActive" "wm_role m = RoleOwner"
      "wm_applicationScope m = ScopeAll" and rest: "\<And>x. keeps team_inv (f x)"
    by (auto simp: bootstrapOwner_def Let_def keeps_rules new_operator_def new_member_def)
  show ?thesis
  proof (rule inv_bind [OF run [unfolded step] _ rest])
    fix y u assume w: "transaction (bind draw (\<lambda>salt. bind (insert_operator (o' salt)) (\<lambda>_. insert_member m))) ?u = (y, u)"
    show "team_inv u"
    proof (cases y)
      case (Inl e)
      with w have "u = ?u" by (auto simp: transaction_eq_Inl)
      with inv show ?thesis by simp
    next
      case (Inr k)
      with w none ops have "u = workspaceMembers_update (\<lambda>ms. ms @ [m]) (operators_update
          (\<lambda>qs. qs @ [o' (Suc (Suc (ws_random s)))]) (s\<lparr>ws_random := Suc (Suc (Suc (ws_random s)))\<rparr>))"
        by (auto simp: bind_eq_Inr insert_operator_def insert_member_def insert_row_def split: if_splits)
      with none rows ops show ?thesis
        by (simp add: team_inv_def team_parts)
    qed
  qed
qed

lemma authenticate_inv:
  assumes "team_inv s" and "authenticateWithBootstrap env email password s = (r, t)"
  shows "team_inv t"
  using assms
  by (auto simp: authenticateWithBootstrap_def Let_def bind_apply split: option.splits if_splits
      dest: keepsD [OF keeps_sign_in] bootstrap_inv)

subsection \<open>Changes and removals\<close>

lemma other_owner: "countOtherOwners i s \<noteq> 0 \<longleftrightarrow> (\<exists>m \<in> set (workspaceMembers s). wm_role m = RoleOwner \<and> wm_id m \<noteq> i)"
  by (auto simp: countOtherOwners_def filter_empty_conv take_Cons' neq_Nil_conv)

definition new_role :: "member_update \<Rightarrow> workspace_member \<Rightarrow> workspace_role" where
  "new_role input target = (case mu_role input of None \<Rightarrow> wm_role target | Some r \<Rightarrow> r)"

lemma check_role_run:
  "check_role_change input target s = (Inr u, s') \<Longrightarrow> s' = s
     \<and> (new_role input target = RoleOwner \<and> wm_role target \<noteq> RoleOwner \<longrightarrow> ta_role (mu_updatedBy input) = RoleOwner)
     \<and> (wm_role target = RoleOwner \<and> new_role input target \<noteq> RoleOwner \<longrightarrow> countOtherOwners (wm_id target) s \<noteq> 0)"
  by (auto simp: check_role_change_def new_role_def bind_eq_Inr split: option.splits if_splits)

interpretation unwritten: frame "(=) :: workspace \<Rightarrow> workspace \<Rightarrow> bool"
  by unfold_locales simp_all

lemma plan_update_silent: "honours ((=) :: workspace \<Rightarrow> workspace \<Rightarrow> bool) (plan_update input)"
  unfolding plan_update_def Let_def assertCanManageTarget_def check_role_change_def validateApplicationIds_def
  by (intro unwritten.compose unwritten.pure)

lemma plan_removal_silent: "honours ((=) :: workspace \<Rightarrow> workspace \<Rightarrow> bool) (plan_removal i actor)"
  unfolding plan_removal_def assertCanManageTarget_def case_prod_beta by (intro unwritten.compose unwritten.pure)

lemma planned_update:
  assumes "plan_update input s = (Inr (target, scope, ids), s')"
  shows "s' = s" and "target \<in> set (workspaceMembers s)" and "wm_id target = mu_memberId input"
    and "wm_role target = RoleOwner \<or> new_role input target = RoleOwner \<Longrightarrow> ta_role (mu_updatedBy input) = RoleOwner"
    and "wm_role target = RoleOwner \<Longrightarrow> new_role input target \<noteq> RoleOwner \<Longrightarrow>
      \<exists>m \<in> set (workspaceMembers s). wm_role m = RoleOwner \<and> wm_id m \<noteq> wm_id target"
    and "scope = (case mu_applicationScope input of None \<Rightarrow> wm_applicationScope target | Some x \<Rightarrow> x)"
    and "scope = ScopeRestricted \<Longrightarrow> ids \<noteq> []"
proof -
  obtain u v where chk: "check_role_change input target s = (Inr u, v)" and run: "s' = v"
      "target \<in> set (workspaceMembers s)" "wm_id target = mu_memberId input"
      "wm_role target = RoleOwner \<longrightarrow> ta_role (mu_updatedBy input) = RoleOwner"
      "scope = (case mu_applicationScope input of None \<Rightarrow> wm_applicationScope target | Some x \<Rightarrow> x)"
      "scope = ScopeRestricted \<longrightarrow> ids \<noteq> []"
    using assms
    by (auto simp: plan_update_def Let_def bind_eq_Inr assertCanManageTarget_def dest!: find_SomeD split: option.splits if_splits)
  note c = check_role_run [OF chk]
  show "s' = s" using c run by simp
  show "wm_role target = RoleOwner \<or> new_role input target = RoleOwner \<Longrightarrow> ta_role (mu_updatedBy input) = RoleOwner"
    using c run by blast
  show "\<exists>m \<in> set (workspaceMembers s). wm_role m = RoleOwner \<and> wm_id m \<noteq> wm_id target"
    if "wm_role target = RoleOwner" "new_role input target \<noteq> RoleOwner"
    using c that other_owner [of "wm_id target" s] by blast
  show "target \<in> set (workspaceMembers s)" "wm_id target = mu_memberId input"
    "scope = (case mu_applicationScope input of None \<Rightarrow> wm_applicationScope target | Some x \<Rightarrow> x)"
    "scope = ScopeRestricted \<Longrightarrow> ids \<noteq> []"
    using run by blast+
qed

text \<open>What the writing transaction of a change leaves.\<close>

definition changed_member :: "member_update \<Rightarrow> workspace_member \<Rightarrow> application_scope \<Rightarrow> int \<Rightarrow> workspace_member \<Rightarrow> workspace_member" where
  "changed_member input target scope now m =
     m\<lparr>wm_role := new_role input target, wm_applicationScope := scope, wm_updatedAt := now\<rparr>"

definition changed_access :: "member_update \<Rightarrow> workspace_member \<Rightarrow> application_scope \<Rightarrow> string list \<Rightarrow> workspace \<Rightarrow> application_access list" where
  "changed_access input target scope ids s =
     (if mu_applicationScope input = None \<and> mu_applicationIds input = None then memberApplicationAccess s
      else filter (\<lambda>a. aa_memberId a \<noteq> wm_id target) (memberApplicationAccess s)
        @ (if scope = ScopeRestricted then map (\<lambda>i. \<lparr>aa_memberId = wm_id target, aa_applicationId = i\<rparr>) (js_set ids) else []))"

lemma update_members_run:
  "update_members P f s = (Inr (map f (filter P (workspaceMembers s))), workspaceMembers_update (update_where P f) s)"
  by (simp add: update_members_def update_rows_def Let_def list_all_iff)

lemma written_update:
  assumes "write_update input target scope ids s = (Inr u, t)"
  shows "t = s\<lparr>workspaceMembers := update_where (\<lambda>m. wm_id m = wm_id target) (changed_member input target scope (ws_clock s))
      (workspaceMembers s), memberApplicationAccess := changed_access input target scope ids s\<rparr>"
proof -
  let ?g = "changed_member input target scope (ws_clock s)"
  let ?s1 = "workspaceMembers_update (update_where (\<lambda>m. wm_id m = wm_id target) ?g) s"
  have g: "(\<lambda>m. m\<lparr>wm_role := (case mu_role input of None \<Rightarrow> wm_role target | Some r \<Rightarrow> r), wm_applicationScope := scope,
      wm_updatedAt := ws_clock s\<rparr>) = ?g"
    by (simp add: changed_member_def new_role_def fun_eq_iff)
  have run: "(if mu_applicationScope input = None \<and> mu_applicationIds input = None then return ()
       else bind (delete_access (wm_id target)) (\<lambda>_.
         if scope = ScopeRestricted then grant_access (wm_id target) (js_set ids) else return ())) ?s1 = (Inr u, t)"
    using assms unfolding write_update_def transaction_eq_Inr by (simp add: update_members_run g)
  then show ?thesis
    by (cases s) (auto simp: changed_access_def bind_eq_Inr delete_access_def split: if_splits dest: granted_access)
qed

lemma write_update_rolls_back: "write_update input target scope ids s = (Inl e, t) \<Longrightarrow> t = s"
  unfolding write_update_def by (rule transaction_rollback)

lemma changed_member_keys [simp]:
  "wm_id (changed_member input target scope now m) = wm_id m"
  "wm_operatorId (changed_member input target scope now m) = wm_operatorId m"
  "wm_role (changed_member input target scope now m) = new_role input target"
  "wm_applicationScope (changed_member input target scope now m) = scope"
  by (simp_all add: changed_member_def)

lemma js_set_empty [simp]: "js_set xs = [] \<longleftrightarrow> xs = []"
  by (simp add: js_set_def)

lemma changed_access_of:
  "m \<noteq> wm_id target \<Longrightarrow> (\<exists>a \<in> set (changed_access input target scope ids s). aa_memberId a = m)
     \<longleftrightarrow> (\<exists>a \<in> set (memberApplicationAccess s). aa_memberId a = m)"
  by (auto simp: changed_access_def)

lemma changed_access_target:
  assumes "access_ok s" and "target \<in> set (workspaceMembers s)"
    and "scope = (case mu_applicationScope input of None \<Rightarrow> wm_applicationScope target | Some x \<Rightarrow> x)"
    and "scope = ScopeRestricted \<Longrightarrow> ids \<noteq> []"
  shows "(\<exists>a \<in> set (changed_access input target scope ids s). aa_memberId a = wm_id target) \<longleftrightarrow> scope = ScopeRestricted"
proof -
  have "(\<exists>a \<in> set (map (\<lambda>i. \<lparr>aa_memberId = k, aa_applicationId = i\<rparr>) xs). aa_memberId a = k) \<longleftrightarrow> xs \<noteq> []" for k xs
    by (cases xs) auto
  then have new: "(\<exists>a \<in> set (filter (\<lambda>a. aa_memberId a \<noteq> k) as @ map (\<lambda>i. \<lparr>aa_memberId = k, aa_applicationId = i\<rparr>) xs).
      aa_memberId a = k) \<longleftrightarrow> xs \<noteq> []" for k as xs
    unfolding set_append bex_Un by simp
  show ?thesis
  proof (cases "mu_applicationScope input = None \<and> mu_applicationIds input = None")
    case True
    with assms(1-3) show ?thesis by (simp add: changed_access_def access_ok_def has_access_def)
  next
    case False
    show ?thesis
    proof (cases "scope = ScopeRestricted")
      case True
      with False assms(4) new [of "wm_id target" "memberApplicationAccess s" "js_set ids"] show ?thesis
        unfolding changed_access_def by (simp only: if_False if_True) simp
    next
      case False': False
      with False show ?thesis by (auto simp: changed_access_def)
    qed
  qed
qed

lemma update_inv:
  assumes inv: "team_inv s" and plan: "plan_update input s = (Inr (target, scope, ids), s')"
    and wr: "write_update input target scope ids s = (Inr u, t)"
  shows "team_inv t"
proof -
  note p = planned_update [OF plan]
  have parts: "operators_ok s" "members_ok s" "access_ok s" "invitations_ok s" "founded s"
    using inv by (simp_all add: team_inv_def)
  let ?g = "changed_member input target scope (ws_clock s)"
  let ?f = "\<lambda>m. if wm_id m = wm_id target then ?g m else m"
  have t: "workspaceMembers t = map ?f (workspaceMembers s)" "memberApplicationAccess t = changed_access input target scope ids s"
    "operators t = operators s" "operatorInvitations t = operatorInvitations s" "ws_clock t = ws_clock s"
    using written_update [OF wr] by (simp_all add: update_where_def)
  have keys: "wm_id (?f m) = wm_id m" "wm_operatorId (?f m) = wm_operatorId m" for m by simp_all
  then have maps: "map wm_id (workspaceMembers t) = map wm_id (workspaceMembers s)"
    "map wm_operatorId (workspaceMembers t) = map wm_operatorId (workspaceMembers s)"
    unfolding t(1) by (simp_all del: if_image_distrib)
  have only: "m = target" if "m \<in> set (workspaceMembers s)" "wm_id m = wm_id target" for m
    using that p(2) parts(2) by (intro distinct_key_eq [of wm_id "workspaceMembers s"]) (auto simp: members_ok_def)
  have "is_member t e \<longleftrightarrow> is_member s e" for e
    by (simp add: is_member_def t keys del: if_image_distrib)
  then have "invitations_ok t" by (intro invitations_ok_mono [OF parts(4)]) (simp_all add: t)
  moreover have "operators_ok t" using parts(1) by (simp add: operators_ok_def t)
  moreover have "has_operator t (?f m) \<longleftrightarrow> has_operator s m" for m
    by (simp add: has_operator_def t)
  then have "members_ok t" using parts(2) unfolding members_ok_def maps by (simp add: t(1) del: if_image_distrib)
  moreover have "access_ok t"
    unfolding access_ok_def
  proof
    show "\<forall>a \<in> set (memberApplicationAccess t). \<exists>m \<in> set (workspaceMembers t). wm_id m = aa_memberId a"
    proof
      have old: "aa_memberId a \<in> wm_id ` set (workspaceMembers s)" if "a \<in> set (memberApplicationAccess s)" for a
        using that parts(3) unfolding access_ok_def by (metis image_eqI)
      fix a assume "a \<in> set (memberApplicationAccess t)"
      then have "aa_memberId a \<in> wm_id ` set (workspaceMembers s)"
        using p(2) old by (auto simp: t(2) changed_access_def split: if_splits)
      then have "aa_memberId a \<in> set (map wm_id (workspaceMembers t))" unfolding maps by simp
      then show "\<exists>m \<in> set (workspaceMembers t). wm_id m = aa_memberId a" by auto
    qed
    show "\<forall>m \<in> set (workspaceMembers t). has_access t m \<longleftrightarrow> wm_applicationScope m = ScopeRestricted"
    proof
      fix k assume "k \<in> set (workspaceMembers t)"
      then obtain m where m: "m \<in> set (workspaceMembers s)" "k = ?f m" by (auto simp: t(1))
      show "has_access t k \<longleftrightarrow> wm_applicationScope k = ScopeRestricted"
      proof (cases "wm_id m = wm_id target")
        case True
        then have "m = target" using only m(1) by blast
        with m(2) changed_access_target [OF parts(3) p(2) p(6) p(7)] show ?thesis by (simp add: has_access_def t(2))
      next
        case False
        with m parts(3) changed_access_of [OF False] show ?thesis by (simp add: has_access_def t(2) access_ok_def)
      qed
    qed
  qed
  moreover have "founded t"
  proof (cases "operators s = []")
    case True
    with parts(5) show ?thesis by (simp add: founded_def t)
  next
    case False
    then obtain m where m: "m \<in> set (workspaceMembers s)" "wm_role m = RoleOwner"
      using parts(5) by (auto simp: founded_def has_owner_def)
    have "has_owner t"
    proof (cases "wm_id m = wm_id target \<and> new_role input target \<noteq> RoleOwner")
      case True
      with only [OF m(1)] m(2) p(5) obtain k where k: "k \<in> set (workspaceMembers s)" "wm_role k = RoleOwner" "wm_id k \<noteq> wm_id target"
        by blast
      have "k \<in> ?f ` set (workspaceMembers s)" by (rule image_eqI [of _ _ k]) (simp_all add: k)
      with k(2) show ?thesis unfolding has_owner_def t(1) set_map by blast
    next
      case False
      then have "wm_role (?f m) = RoleOwner" using m(2) by (cases "wm_id m = wm_id target") simp_all
      moreover have "?f m \<in> ?f ` set (workspaceMembers s)" using m(1) by (rule imageI)
      ultimately show ?thesis unfolding has_owner_def t(1) set_map by blast
    qed
    with False show ?thesis by (simp add: founded_def t)
  qed
  ultimately show ?thesis by (simp add: team_inv_def)
qed

text \<open>An operation that plans on the state it reads, writes in one transaction and then audits.\<close>

lemma planned_write_inv:
  assumes inv: "team_inv s" and run: "bind plan (\<lambda>x. bind (wr x) (f x)) s = (r, t)"
    and silent: "honours ((=) :: workspace \<Rightarrow> workspace \<Rightarrow> bool) plan"
    and rolled: "\<And>x e u. wr x s = (Inl e, u) \<Longrightarrow> u = s"
    and ok: "\<And>x v u. plan s = (Inr x, s) \<Longrightarrow> wr x s = (Inr v, u) \<Longrightarrow> team_inv u"
    and rest: "\<And>x a. keeps team_inv (f x a)"
  shows "team_inv t"
proof (cases "plan s")
  case (Pair y s1)
  with silent have s1: "s1 = s" by (metis honoursD)
  show ?thesis
  proof (cases y)
    case (Inl e)
    with Pair s1 run inv show ?thesis by simp
  next
    case (Inr x)
    with Pair s1 run have "bind (wr x) (f x) s = (r, t)" by simp
    then show ?thesis
    proof (rule inv_bind [OF _ _ rest])
      fix z u assume w: "wr x s = (z, u)"
      show "team_inv u"
      proof (cases z)
        case (Inl e)
        with w rolled have "u = s" by blast
        with inv show ?thesis by simp
      next
        case (Inr v)
        with w ok Pair s1 \<open>y = Inr x\<close> show ?thesis by blast
      qed
    qed
  qed
qed

lemma update_member_inv:
  assumes "team_inv s" and "updateMember env input s = (r, t)"
  shows "team_inv t"
  using assms(2) unfolding updateMember_def case_prod_beta
  by (rule planned_write_inv [OF assms(1) _ plan_update_silent])
    (auto simp: keeps_audit intro: update_inv [OF assms(1)] dest: write_update_rolls_back)

lemma planned_removal:
  assumes "plan_removal i actor s = (Inr (target, q), s')"
  shows "s' = s" and "target \<in> set (workspaceMembers s)" and "wm_id target = i"
    and "wm_role target = RoleOwner \<Longrightarrow> ta_role actor = RoleOwner
      \<and> (\<exists>m \<in> set (workspaceMembers s). wm_role m = RoleOwner \<and> wm_id m \<noteq> wm_id target)"
  using assms other_owner [of i s]
  by (auto simp: plan_removal_def bind_eq_Inr assertCanManageTarget_def set_joined_members dest!: find_SomeD)

lemma written_removal:
  assumes "write_removal target s = (Inr u, t)"
  shows "operators t = update_where (\<lambda>q. op_id q = wm_operatorId target)
      (\<lambda>q. q\<lparr>op_status := OperatorDisabled, op_updatedAt := ws_clock s\<rparr>) (operators s)"
    and "workspaceMembers t = filter (\<lambda>m. wm_id m \<noteq> wm_id target) (workspaceMembers s)"
    and "memberApplicationAccess t = filter (\<lambda>a. \<not> (\<exists>m \<in> set (workspaceMembers s). wm_id m = wm_id target \<and> wm_id m = aa_memberId a))
      (memberApplicationAccess s)"
    and "operatorInvitations t = operatorInvitations s" and "ws_clock t = ws_clock s"
    and "operatorAuditLog t = operatorAuditLog s"
  using assms by (auto simp: write_removal_def bind_eq_Inr update_operators_def update_rows_def Let_def delete_members_def
      split: if_splits)

lemma write_removal_rolls_back: "write_removal target s = (Inl e, t) \<Longrightarrow> t = s"
  unfolding write_removal_def by (rule transaction_rollback)

lemma removal_inv:
  assumes inv: "team_inv s" and plan: "plan_removal i actor s = (Inr (target, q), s')" and wr: "write_removal target s = (Inr u, t)"
  shows "team_inv t"
proof -
  note p = planned_removal [OF plan]
  note t = written_removal [OF wr]
  have parts: "operators_ok s" "members_ok s" "access_ok s" "invitations_ok s" "founded s"
    using inv by (simp_all add: team_inv_def)
  let ?f = "\<lambda>q. q\<lparr>op_status := OperatorDisabled, op_updatedAt := ws_clock s\<rparr>"
  have keys: "map op_id (operators t) = map op_id (operators s)" "map op_email (operators t) = map op_email (operators s)"
    unfolding t by (rule map_update_where_same; simp)+
  have own: "wm_operatorId m \<noteq> wm_operatorId target" if "m \<in> set (workspaceMembers t)" for m
    using that p(2) parts(2) distinct_key_eq [of wm_operatorId "workspaceMembers s" m target]
    by (auto simp: t(2) members_ok_def)
  have "has_operator t m" if m: "m \<in> set (workspaceMembers t)" for m
  proof -
    obtain o' where "o' \<in> set (operators s)" "op_id o' = wm_operatorId m" "op_status o' = OperatorActive"
      using m parts(2) by (auto simp: t(2) members_ok_def has_operator_def)
    then show ?thesis
      using own [OF m] by (auto simp: has_operator_def t(1) update_where_def intro: rev_image_eqI)
  qed
  then have "members_ok t"
    using parts(2) by (simp add: members_ok_def t(2) distinct_map_filter)
  moreover have "operators_ok t" using parts(1) by (simp add: operators_ok_def keys)
  moreover have "has_access t m \<longleftrightarrow> has_access s m" if "wm_id m \<noteq> wm_id target" for m
    using that by (auto simp: has_access_def t(3))
  then have "access_ok t" using parts(3) p(2) by (auto simp: access_ok_def t(2,3)) metis
  moreover have "is_member t e \<Longrightarrow> is_member s e" for e
  proof -
    assume "is_member t e"
    then have "is_member (operators_update (update_where (\<lambda>q. op_id q = wm_operatorId target) ?f) s) e"
      by (auto simp: is_member_def t(1,2))
    then show ?thesis by (subst (asm) is_member_updated) simp_all
  qed
  then have "invitations_ok t" by (intro invitations_ok_mono [OF parts(4)]) (simp_all add: t)
  moreover have "founded t"
  proof (cases "operators s = []")
    case True
    with parts(5) show ?thesis by (simp add: founded_def t)
  next
    case False
    then obtain m where m: "m \<in> set (workspaceMembers s)" "wm_role m = RoleOwner"
      using parts(5) by (auto simp: founded_def has_owner_def)
    have "\<exists>k \<in> set (workspaceMembers s). wm_role k = RoleOwner \<and> wm_id k \<noteq> wm_id target"
    proof (cases "wm_id m = wm_id target")
      case True
      then have "m = target" using m(1) p(2) parts(2) distinct_key_eq [of wm_id "workspaceMembers s" m target]
        by (simp add: members_ok_def)
      with m(2) p(4) show ?thesis by blast
    qed (use m in blast)
    then have "has_owner t" by (auto simp: has_owner_def t(2))
    with False show ?thesis by (simp add: founded_def t update_where_def)
  qed
  ultimately show ?thesis by (simp add: team_inv_def)
qed

lemma remove_member_inv:
  assumes "team_inv s" and "removeMember env i actor s = (r, t)"
  shows "team_inv t"
  using assms(2) unfolding removeMember_def case_prod_beta
  by (rule planned_write_inv [OF assms(1) _ plan_removal_silent])
    (auto simp: keeps_audit intro: removal_inv [OF assms(1)] dest: write_removal_rolls_back)

end
