(* ===== verification/TeamSteps.thy ===== *)
theory TeamSteps
  imports TeamFacts
begin

text \<open>
  The team as a state machine. A step is one operation run by an actor the guard lets in, an
  anonymous sign-in, acceptance or password change, or time and other modules moving on
  (applications are only ever added; the audit log only grows). A step runs the whole operation:
  the machine describes an installation whose team operations run one at a time. The code does
  not enforce that (the checks read outside the writing transaction, without a lock), and what
  two overlapping operations can do is stated separately in \<open>TeamProperties\<close>. The machine interprets
  \<open>invariant_system\<close>; its order says that operators and audit entries are never lost.
\<close>

subsection \<open>Frames of the team's statements\<close>

text \<open>A frame that random values, the audit log, operators, application access, closed invitations
  and removed members respect; with rows of members that are \<open>ok\<close>; with new invitations that are \<open>fine\<close>.\<close>

locale team_frame = frame R for R :: "workspace \<Rightarrow> workspace \<Rightarrow> bool" +
  assumes random: "R s (s\<lparr>ws_random := n\<rparr>)"
    and audited: "R s (operatorAuditLog_update (\<lambda>es. es @ [e]) s)"
    and operator_new: "R s (operators_update (\<lambda>qs. qs @ [q]) s)"
    and operator_set: "(\<And>q. op_id (f q) = op_id q) \<Longrightarrow> R s (operators_update (update_where P f) s)"
    and access_set: "R s (memberApplicationAccess_update h s)"
    and invitation_set: "(\<And>i. iv_id (g i) = iv_id i \<and> iv_role (g i) = iv_role i) \<Longrightarrow>
      R s (operatorInvitations_update (update_where Q g) s)"
    and members_gone: "R s (s\<lparr>workspaceMembers := filter Q' (workspaceMembers s)\<rparr>)"
begin

lemma draws: "honours R draw" "honours R (ws_id p)"
  by (simp_all add: honours_def random)

lemma update_operators: "(\<And>q. op_id (f q) = op_id q) \<Longrightarrow> honours R (update_operators P f)"
  unfolding update_operators_def by (rule update_rows_kept) (simp_all add: operator_set refl)

lemma inserts: "honours R (insert_operator q)" "honours R (insert_access a)" "honours R (insert_audit e)"
  unfolding insert_operator_def insert_access_def insert_audit_def
  by (rule insert_row_kept; simp add: operator_new access_set audited refl)+

lemma update_invitations: "(\<And>i. iv_id (g i) = iv_id i \<and> iv_role (g i) = iv_role i) \<Longrightarrow> honours R (update_invitations Q g)"
  unfolding update_invitations_def by (rule update_rows_kept) (simp_all add: invitation_set refl)

lemma deletes: "honours R (delete_members P)" "honours R (delete_access i)"
proof -
  have "R s (snd (delete_members P s))" for s
    using trans [OF members_gone [of s "\<lambda>m. \<not> P m"] access_set]
    by (simp add: delete_members_def)
  then show "honours R (delete_members P)" by (simp add: honours_def)
  show "honours R (delete_access i)" by (simp add: honours_def delete_access_def access_set)
qed

lemma prod: "(\<And>a b. honours R (f a b)) \<Longrightarrow> honours R (case x of (a, b) \<Rightarrow> f a b)"
  by (cases x) simp

lemmas steps = compose pure draws update_operators inserts update_invitations deletes prod

lemma audit_entry: "honours R (recordAuditEntry dots session input)"
  unfolding recordAuditEntry_def correlationIdFrom_def Let_def by (intro steps)

lemma audit_team: "honours R (audit_team env action kind i metadata actor)"
  unfolding audit_team_def by (intro steps audit_entry)

lemma sign_in: "honours R (signInMember env m password)"
  unfolding signInMember_def by (intro steps) simp_all

lemma revoke: "honours R (revokeInvitation env i actor)"
  unfolding revokeInvitation_def by (intro steps audit_team) simp_all

lemma remove: "honours R (removeMember env i actor)"
  unfolding removeMember_def plan_removal_def assertCanManageTarget_def write_removal_def
  by (intro steps audit_team) simp_all

lemma rotate: "honours R (changeOperatorPasswordWithAudit env i cur new log)"
  unfolding changeOperatorPasswordWithAudit_def changeOperatorPassword_def by (intro steps audit_entry) simp_all

lemma plan: "honours R (plan_update input)"
  unfolding plan_update_def assertCanManageTarget_def check_role_change_def validateApplicationIds_def Let_def
  by (intro steps)

lemma grant: "honours R (grant_access i ids)"
  unfolding grant_access_def by (intro steps)

lemma restore: "honours R (restoreOperator i email name hash now)"
  unfolding restoreOperator_def by (intro steps) simp_all

end

locale member_frame = team_frame R for R :: "workspace \<Rightarrow> workspace \<Rightarrow> bool" +
  fixes ok :: "workspace_member \<Rightarrow> bool"
  assumes member_new: "ok m \<Longrightarrow> R s (workspaceMembers_update (\<lambda>ms. ms @ [m]) s)"
    and member_set: "(\<And>m. ok (k m)) \<Longrightarrow> R s (workspaceMembers_update (update_where P' k) s)"
begin

lemma insert_member: "ok m \<Longrightarrow> honours R (insert_member m)"
  unfolding insert_member_def by (rule insert_row_kept) (simp_all add: member_new refl)

lemma update_members: "(\<And>m. ok (k m)) \<Longrightarrow> honours R (update_members P' k)"
  unfolding update_members_def by (rule update_rows_kept) (simp_all add: member_set refl)

lemma join:
  "(\<And>i q. ok (new_member i q (iv_role invite) (iv_applicationScope invite) now)) \<Longrightarrow>
   honours R (joinWorkspace invite operatorId memberId name hash now)"
  unfolding joinWorkspace_def by (intro steps restore grant insert_member) simp_all

lemma write_change:
  "(\<And>m now. ok (m\<lparr>wm_role := (case mu_role input of None \<Rightarrow> wm_role target | Some r \<Rightarrow> r), wm_applicationScope := scope,
     wm_updatedAt := now\<rparr>)) \<Longrightarrow> honours R (write_update input target scope ids)"
  unfolding write_update_def by (intro steps grant update_members)

lemma authenticate: "(\<And>m. ok m) \<Longrightarrow> honours R (authenticateWithBootstrap env email password)"
  unfolding authenticateWithBootstrap_def bootstrapOwner_def Let_def by (intro steps sign_in audit_team insert_member)

lemma accept: "(\<And>m. ok m) \<Longrightarrow> honours R (acceptInvitation env token name password)"
  unfolding acceptInvitation_def Let_def by (intro steps join audit_team)

lemma change: "(\<And>m. ok m) \<Longrightarrow> honours R (updateMember env input)"
  unfolding updateMember_def by (intro steps plan write_change audit_team)

end

locale inviting_frame = team_frame R for R :: "workspace \<Rightarrow> workspace \<Rightarrow> bool" +
  fixes fine :: "invitation \<Rightarrow> bool"
  assumes invitation_new: "fine i \<Longrightarrow> R s (operatorInvitations_update (\<lambda>is. is @ [i]) s)"
begin

lemma insert_invitation: "fine i \<Longrightarrow> honours R (insert_invitation i)"
  unfolding insert_invitation_def by (rule insert_row_kept) (simp_all add: invitation_new refl)

lemma check_invite: "honours R (check_invite input)"
  unfolding check_invite_def validateApplicationIds_def Let_def by (intro steps)

lemma invite: "(\<And>i. iv_role i = ii_role input \<Longrightarrow> fine i) \<Longrightarrow> honours R (inviteMember env input)"
  unfolding inviteMember_def Let_def by (intro steps check_invite insert_invitation audit_team) simp_all

end

subsection \<open>What is never lost\<close>

definition team_later :: "workspace \<Rightarrow> workspace \<Rightarrow> bool" where
  "team_later s t \<longleftrightarrow> ws_clock s \<le> ws_clock t \<and> set (map op_id (operators s)) \<subseteq> set (map op_id (operators t))
     \<and> (\<exists>entries. operatorAuditLog t = operatorAuditLog s @ entries)"

interpretation team_kept: frame team_later
  by unfold_locales (auto simp: team_later_def)

interpretation team_kept: member_frame team_later "\<lambda>_. True"
  by unfold_locales (auto simp: team_later_def update_where_def image_image)

interpretation team_kept: inviting_frame team_later "\<lambda>_. True"
  by unfold_locales (auto simp: team_later_def)

lemmas kept_operations = team_kept.authenticate [OF TrueI] team_kept.invite [OF TrueI] team_kept.accept [OF TrueI]
  team_kept.revoke team_kept.change [OF TrueI] team_kept.remove team_kept.rotate

subsection \<open>The machine\<close>

text \<open>An actor of an admin route: the guard loaded it from a session.\<close>

definition acting :: "team_actor \<Rightarrow> workspace \<Rightarrow> bool" where
  "acting a s \<longleftrightarrow> (\<exists>session m. loadActor session s = Some m \<and> mb_operatorId m = ta_operatorId a \<and> mb_role m = ta_role a)"

inductive team_step :: "team_env \<Rightarrow> team_actor option \<Rightarrow> workspace \<Rightarrow> workspace \<Rightarrow> bool" for env where
  signs_in: "authenticateWithBootstrap env email password s = (r, t) \<Longrightarrow> team_step env None s t"
| invites: "acting (ii_invitedBy invite) s \<Longrightarrow> inviteMember env invite s = (r, t) \<Longrightarrow>
    team_step env (Some (ii_invitedBy invite)) s t"
| accepts: "acceptInvitation env token name password s = (r, t) \<Longrightarrow> team_step env None s t"
| revokes: "acting a s \<Longrightarrow> revokeInvitation env i a s = (r, t) \<Longrightarrow> team_step env (Some a) s t"
| changes: "acting (mu_updatedBy change) s \<Longrightarrow> updateMember env change s = (r, t) \<Longrightarrow>
    team_step env (Some (mu_updatedBy change)) s t"
| removes: "acting a s \<Longrightarrow> removeMember env i a s = (r, t) \<Longrightarrow> team_step env (Some a) s t"
| rotates: "changeOperatorPasswordWithAudit env i cur new log s = (r, t) \<Longrightarrow> team_step env None s t"
| elsewhere: "ws_clock s \<le> c \<Longrightarrow> team_step env None s (s\<lparr>ws_clock := c, ws_random := n,
    ws_applications := ws_applications s @ apps, operatorAuditLog := operatorAuditLog s @ entries\<rparr>)"

definition team_init :: "workspace \<Rightarrow> bool" where
  "team_init s \<longleftrightarrow> operators s = [] \<and> workspaceMembers s = [] \<and> memberApplicationAccess s = [] \<and> operatorInvitations s = []"

definition team_moves :: "team_env \<Rightarrow> workspace \<Rightarrow> workspace \<Rightarrow> bool" where
  "team_moves env s t \<longleftrightarrow> (\<exists>by. team_step env by s t)"

lemma loaded_actor: "loadActor session s = Some m \<Longrightarrow> \<exists>i. findMembershipByOperatorId i s = Some m"
  by (auto simp: loadActor_def split: option.splits if_splits)

lemma acting_operator: "acting a s \<Longrightarrow> operators s \<noteq> []"
  unfolding acting_def findMembershipByOperatorId_def
  by (auto simp: findMembershipByOperatorId_def dest!: loaded_actor found_membership)

lemma keeps_audited_password: "keeps team_inv (changeOperatorPasswordWithAudit env i cur new log)"
proof -
  have "keeps team_inv (recordAuditEntry dots session input)" for dots session input
    using keeps_ws_id by (auto simp: recordAuditEntry_def correlationIdFrom_def Let_def insert_audit_def insert_row_def
        intro!: keeps_bind keepsI split: option.split)
  then show ?thesis unfolding changeOperatorPasswordWithAudit_def
    by (intro keeps_transaction keeps_bind keeps_password) (auto split: option.split intro: keeps_bind)
qed

lemma step_team_inv: "team_step env by s t \<Longrightarrow> team_inv s \<Longrightarrow> team_inv t"
proof (induction rule: team_step.induct)
  case (elsewhere s c entries apps n)
  let ?t = "s\<lparr>ws_clock := c, ws_random := n, ws_applications := ws_applications s @ apps,
    operatorAuditLog := operatorAuditLog s @ entries\<rparr>"
  from elsewhere have parts: "operators_ok s" "members_ok s" "access_ok s" "invitations_ok s" "founded s"
    by (simp_all add: team_inv_def)
  have "invitations_ok ?t" by (rule invitations_ok_mono [OF parts(4)]) (simp_all add: elsewhere is_member_def)
  with parts show ?case
    by (cases "operators s = []")
      (simp_all add: team_inv_def operators_ok_def members_ok_def has_operator_def access_ok_def has_access_def founded_def has_owner_def)
qed (auto intro: authenticate_inv accept_inv invite_inv update_member_inv remove_member_inv
    dest: acting_operator keepsD [OF keeps_invitation_revoke] keepsD [OF keeps_audited_password])

lemma step_team_later: "team_step env by s t \<Longrightarrow> team_later s t"
proof (induction rule: team_step.induct)
  case (elsewhere s c entries apps n)
  then show ?case by (simp add: team_later_def)
qed (blast intro: kept_operations [THEN honoursD])+

interpretation team: invariant_system team_init "team_moves env" team_inv team_later
proof unfold_locales
  fix s assume "team_init s"
  then show "team_inv s" by (simp add: team_init_def team_inv_def team_parts)
next
  fix s t assume "team_inv s" "team_moves env s t"
  then show "team_inv t" by (auto simp: team_moves_def intro: step_team_inv)
next
  fix s t assume "team_moves env s t"
  then show "team_later s t" by (auto simp: team_moves_def intro: step_team_later)
qed (rule team_kept.refl, rule team_kept.trans)

end
