(* ===== verification/TeamExamples.thy ===== *)
theory TeamExamples
  imports TeamSteps
begin

text \<open>
  A concrete workspace: the installation's password signs in the first owner, who invites a second
  one, and the invitation is accepted. The team properties are instantiated on this run.
\<close>

definition demo_env :: team_env where
  "demo_env = \<lparr>te_hashPassword = (\<lambda>p _. p), te_verifyPassword = (\<lambda>p h. p = h), te_hashToken = (\<lambda>t. t),
     te_newToken = string_of_nat, te_adminPassword = Some ''pw'', te_dots = CHR ''~''\<rparr>"

definition demo_team :: "nat \<Rightarrow> console_operator list \<Rightarrow> workspace_member list \<Rightarrow> invitation list \<Rightarrow> audit_entry list \<Rightarrow> workspace" where
  "demo_team n ops members invites log = \<lparr>ws_clock = 0, ws_random = n, ws_applications = [], operators = ops,
     workspaceMembers = members, memberApplicationAccess = [], operatorInvitations = invites, operatorAuditLog = log\<rparr>"

definition demo_operator :: "string \<Rightarrow> string \<Rightarrow> string \<Rightarrow> string \<Rightarrow> console_operator" where
  "demo_operator i email name hash = new_operator i email name hash 0"

definition demo_member :: "string \<Rightarrow> string \<Rightarrow> workspace_role \<Rightarrow> workspace_member" where
  "demo_member i operatorId role = new_member i operatorId role ScopeAll 0"

definition demo_invitation :: "invitation_status \<Rightarrow> invitation" where
  "demo_invitation st = \<lparr>iv_id = ''inv_6'', iv_email = ''d@b.c'', iv_role = RoleOwner, iv_applicationScope = ScopeAll,
     iv_applicationIds = [], iv_tokenHash = ''5'', iv_status = st, iv_invitedBy = ''op_0'', iv_createdAt = 0,
     iv_expiresAt = 604800000, iv_acceptedAt = (if st = InvAccepted then Some 0 else None)\<rparr>"

definition demo_entry :: "nat \<Rightarrow> string \<times> string option \<Rightarrow> string \<Rightarrow> string \<Rightarrow> string \<Rightarrow> json_object \<Rightarrow> audit_entry" where
  "demo_entry n actor action kind i metadata = \<lparr>au_id = ''audit_'' @ string_of_nat n, au_applicationId = None,
     au_environment = None, au_actorType = AdminSession, au_actorId = fst actor, au_actorLabel = snd actor,
     au_action = action, au_resourceType = kind, au_resourceId = i, au_correlationId = ''req_'' @ string_of_nat (Suc n),
     au_metadata = metadata, au_createdAt = 0\<rparr>"

definition demo_log :: "audit_entry list" where
  "demo_log =
     [demo_entry 3 (''op_0'', Some ''a'') ''team.owner_bootstrapped'' ''operator'' ''op_0'' [(''email'', JStr ''a@b.c'')],
      demo_entry 7 (''op_0'', Some ''a'') ''team.invitation_created'' ''operator_invitation'' ''inv_6''
        [(''email'', JStr ''d@b.c''), (''role'', JStr ''owner''), (''applicationScope'', JStr ''all''), (''applicationIds'', JArr [])],
      demo_entry 12 (''mbr_10'', Some ''d'') ''team.member_joined'' ''workspace_member'' ''mbr_10''
        [(''email'', JStr ''d@b.c''), (''role'', JStr ''owner''), (''invitationId'', JStr ''inv_6'')]]"

lemmas [run_simps] = demo_env_def demo_team_def demo_operator_def demo_member_def demo_invitation_def demo_entry_def demo_log_def

definition demo_actor :: team_actor where
  "demo_actor = \<lparr>ta_operatorId = ''op_0'', ta_role = RoleOwner, ta_label = Some ''a''\<rparr>"

definition demo_invite :: invite_input where
  "demo_invite = \<lparr>ii_email = ''d@b.c'', ii_role = RoleOwner, ii_applicationScope = ScopeAll, ii_applicationIds = None,
     ii_invitedBy = demo_actor\<rparr>"

definition demo_empty :: workspace where
  "demo_empty = demo_team 0 [] [] [] []"

definition demo_first :: workspace where
  "demo_first = demo_team 5 [demo_operator ''op_0'' ''a@b.c'' ''a'' ''pw''] [demo_member ''mbr_1'' ''op_0'' RoleOwner] []
     (take 1 demo_log)"

definition demo_invited :: workspace where
  "demo_invited = demo_team 9 [demo_operator ''op_0'' ''a@b.c'' ''a'' ''pw''] [demo_member ''mbr_1'' ''op_0'' RoleOwner]
     [demo_invitation InvPending] (take 2 demo_log)"

definition demo_two :: workspace where
  "demo_two = demo_team 14 [demo_operator ''op_0'' ''a@b.c'' ''a'' ''pw'', demo_operator ''op_9'' ''d@b.c'' ''d'' ''12345678'']
     [demo_member ''mbr_1'' ''op_0'' RoleOwner, demo_member ''mbr_10'' ''op_9'' RoleOwner] [demo_invitation InvAccepted] demo_log"

lemmas [run_simps] = demo_actor_def demo_invite_def demo_empty_def demo_first_def demo_invited_def demo_two_def

lemma demo_installed: "\<exists>r. authenticateWithBootstrap demo_env ''a@b.c'' ''pw'' demo_empty = (r, demo_first)"
  by (simp add: run_simps truthy_def)

lemma demo_inviting: "\<exists>r. inviteMember demo_env demo_invite demo_first = (r, demo_invited)"
  by (simp add: run_simps truthy_def)

lemma demo_accepting: "\<exists>r. acceptInvitation demo_env ''5'' None ''12345678'' demo_invited = (r, demo_two)"
  by (simp add: run_simps truthy_def)

definition demo_session :: "string \<Rightarrow> session_claim" where
  "demo_session i = \<lparr>sc_operatorId = Some i, sc_credentialVersion = Some 0\<rparr>"

lemma demo_acting: "acting demo_actor demo_first"
  unfolding acting_def
  by (rule exI [of _ "Some (demo_session ''op_0'')"]) (simp add: run_simps truthy_def demo_session_def isSafeInteger_def)

lemma team_reached: "reachable team_init (team_moves env) s \<Longrightarrow> team_step env by s t \<Longrightarrow> reachable team_init (team_moves env) t"
  by (erule reachable.next_state) (auto simp: team_moves_def)

lemma demo_reached: "reachable team_init (team_moves demo_env) demo_empty"
    "reachable team_init (team_moves demo_env) demo_first"
    "reachable team_init (team_moves demo_env) demo_invited"
    "reachable team_init (team_moves demo_env) demo_two"
proof -
  show e: "reachable team_init (team_moves demo_env) demo_empty"
    by (rule reachable.start) (simp add: team_init_def demo_empty_def demo_team_def)
  show f: "reachable team_init (team_moves demo_env) demo_first"
    using demo_installed by (blast intro: team_reached [OF e] team_step.signs_in)
  have "ii_invitedBy demo_invite = demo_actor" by (simp add: demo_invite_def)
  then show i: "reachable team_init (team_moves demo_env) demo_invited"
    using demo_inviting demo_acting team_step.invites [of demo_invite demo_first demo_env]
    by (metis team_reached [OF f])
  show "reachable team_init (team_moves demo_env) demo_two"
    using demo_accepting by (blast intro: team_reached [OF i] team_step.accepts)
qed

end
