(* ===== verification/TeamProperties.thy ===== *)
theory TeamProperties
  imports TeamExamples
begin

text \<open>
  What the team component promises: the workspace keeps an owner, the guard sees every member
  as the tables describe it, and only owners make owners. Membership changes read and write
  without a lock, so two owners who demote each other at once leave none.
\<close>

subsection \<open>Owners\<close>

text \<open>C5. While team operations run one at a time the workspace never locks its people out: in
  every state reached from an empty installation by any sequence of complete sign-ins,
  invitations, acceptances, revocations, membership changes, removals and password changes, once
  there is an operator there is a member who is an owner and whose operator is active. (Two
  operations that overlap can break this: see the concurrent demotions below.)\<close>

theorem workspace_keeps_an_owner:
  assumes "reachable team_init (team_moves env) s" and "operators s \<noteq> []"
  shows "\<exists>m \<in> set (workspaceMembers s). \<exists>q \<in> set (operators s).
    wm_role m = RoleOwner \<and> op_id q = wm_operatorId m \<and> op_status q = OperatorActive"
proof -
  have "team_inv s" using assms(1) by (rule team.reachable_inv)
  then obtain m where "m \<in> set (workspaceMembers s)" "wm_role m = RoleOwner" "has_operator s m"
    using assms(2) by (auto simp: team_inv_def founded_def has_owner_def members_ok_def)
  then show ?thesis by (auto simp: has_operator_def)
qed

text \<open>C6. While team operations run one at a time the guard sees the team as it is: in every
  state reached by complete operations each member has exactly one operator, which is active, the
  membership found for that operator is this member's with its role and scope, and access rows
  are stored for exactly the restricted members. (A role change that overlaps a scope change can
  leave access rows of an unrestricted member: \<open>overlapping_changes_leave_access\<close> below.)\<close>

theorem members_are_well_formed:
  assumes "reachable team_init (team_moves env) s" and "m \<in> set (workspaceMembers s)"
  shows "\<exists>q mb. filter (\<lambda>o'. op_id o' = wm_operatorId m) (operators s) = [q] \<and> op_status q = OperatorActive
    \<and> findMembershipByOperatorId (wm_operatorId m) s = Some mb \<and> mb_memberId mb = wm_id m
    \<and> mb_role mb = wm_role m \<and> mb_applicationScope mb = wm_applicationScope m
    \<and> (mb_applicationIds mb = [] \<longleftrightarrow> wm_applicationScope m = ScopeAll)
    \<and> ((\<exists>a \<in> set (memberApplicationAccess s). aa_memberId a = wm_id m) \<longleftrightarrow> wm_applicationScope m = ScopeRestricted)"
proof -
  have inv: "team_inv s" using assms(1) by (rule team.reachable_inv)
  then have keys: "distinct (map op_id (operators s))" "distinct (map wm_operatorId (workspaceMembers s))"
    and acc: "has_access s m \<longleftrightarrow> wm_applicationScope m = ScopeRestricted"
    using assms(2) by (simp_all add: team_inv_def operators_ok_def members_ok_def access_ok_def)
  obtain q where q: "q \<in> set (operators s)" "op_id q = wm_operatorId m" "op_status q = OperatorActive"
    using inv assms(2) by (auto simp: team_inv_def members_ok_def has_operator_def)
  have "findMembershipByOperatorId (wm_operatorId m) s \<noteq> None"
    using no_membership [of _ s m q] q assms(2) by (auto simp: findMembershipByOperatorId_def)
  then obtain mb where mb: "findMembershipByOperatorId (wm_operatorId m) s = Some mb" by blast
  then obtain k p where k: "k \<in> set (workspaceMembers s)" "wm_operatorId k = wm_operatorId m"
    "mb = membership_record k p (if wm_applicationScope k = ScopeRestricted then access_of (wm_id k) s else [])"
    unfolding findMembershipByOperatorId_def by (auto dest: found_membership)
  then have "k = m" using distinct_key_eq [OF keys(2) k(1) assms(2)] by simp
  moreover have "access_of (wm_id m) s = [] \<longleftrightarrow> \<not> has_access s m"
    by (auto simp: access_of_def has_access_def filter_empty_conv)
  moreover have "wm_applicationScope m = ScopeAll \<longleftrightarrow> wm_applicationScope m \<noteq> ScopeRestricted"
    by (cases "wm_applicationScope m") simp_all
  ultimately show ?thesis
    using filter_keyed [OF keys(1) q(1,2)] q(3) mb k(3) acc by (auto simp: membership_record_def has_access_def)
qed

subsection \<open>Who can make an owner\<close>

text \<open>Members that became owners in a step, owner invitations the step made, and steps run by an
  owner.\<close>

definition new_owner :: "workspace \<Rightarrow> workspace \<Rightarrow> workspace_member \<Rightarrow> bool" where
  "new_owner s t m \<longleftrightarrow> m \<in> set (workspaceMembers t) \<and> wm_role m = RoleOwner
     \<and> \<not> (\<exists>k \<in> set (workspaceMembers s). wm_id k = wm_id m \<and> wm_role k = RoleOwner)"

definition new_owner_invitation :: "workspace \<Rightarrow> workspace \<Rightarrow> invitation \<Rightarrow> bool" where
  "new_owner_invitation s t i \<longleftrightarrow> i \<in> set (operatorInvitations t) \<and> iv_role i = RoleOwner
     \<and> \<not> (\<exists>j \<in> set (operatorInvitations s). iv_id j = iv_id i \<and> iv_role j = RoleOwner)"

definition by_owner :: "team_actor option \<Rightarrow> workspace \<Rightarrow> bool" where
  "by_owner by s \<longleftrightarrow> (\<exists>a k. by = Some a \<and> k \<in> set (workspaceMembers s) \<and> wm_operatorId k = ta_operatorId a
     \<and> wm_role k = RoleOwner)"

definition no_new_owner :: "workspace \<Rightarrow> workspace \<Rightarrow> bool" where
  "no_new_owner s t \<longleftrightarrow> (\<forall>m. \<not> new_owner s t m)"

definition no_new_owner_invitation :: "workspace \<Rightarrow> workspace \<Rightarrow> bool" where
  "no_new_owner_invitation s t \<longleftrightarrow> (\<forall>i. \<not> new_owner_invitation s t i)"

interpretation owners: frame no_new_owner
  by unfold_locales (auto simp: no_new_owner_def new_owner_def, metis)

interpretation owners: member_frame no_new_owner "\<lambda>m. wm_role m \<noteq> RoleOwner"
  by unfold_locales (auto simp: no_new_owner_def new_owner_def update_where_def)

interpretation owners: inviting_frame no_new_owner "\<lambda>_. True"
  by unfold_locales (auto simp: no_new_owner_def new_owner_def)

interpretation owner_invites: frame no_new_owner_invitation
  by unfold_locales (auto simp: no_new_owner_invitation_def new_owner_invitation_def, metis)

interpretation owner_invites: member_frame no_new_owner_invitation "\<lambda>_. True"
  by unfold_locales (auto simp: no_new_owner_invitation_def new_owner_invitation_def update_where_def)

interpretation owner_invites: inviting_frame no_new_owner_invitation "\<lambda>i. iv_role i \<noteq> RoleOwner"
  by unfold_locales (auto simp: no_new_owner_invitation_def new_owner_invitation_def)

lemma acting_owner: "acting a s \<Longrightarrow> ta_role a = RoleOwner \<Longrightarrow> by_owner (Some a) s"
  unfolding acting_def by_owner_def findMembershipByOperatorId_def
  by (force simp: findMembershipByOperatorId_def membership_record_def dest!: loaded_actor found_membership)

lemma honours_after: "m s = (Inr a, s) \<Longrightarrow> honours R (f a) \<Longrightarrow> bind m f s = (r, t) \<Longrightarrow> R s t"
  by (simp add: bind_apply honoursD)

lemma sign_in_makes_no_owner:
  assumes "authenticateWithBootstrap env email password s = (r, t)" and "operators s \<noteq> []"
  shows "no_new_owner s t"
proof (cases "findMembershipByEmail (normalizeEmail email) s")
  case None
  then have "t = s" using assms by (auto simp: authenticateWithBootstrap_def Let_def bind_apply)
  then show ?thesis by (simp add: owners.refl)
next
  case (Some m)
  then have "signInMember env m password s = (r, t)"
    using assms by (simp add: authenticateWithBootstrap_def Let_def bind_apply)
  then show ?thesis by (rule honoursD [OF owners.sign_in])
qed

lemma change_makes_no_owner:
  assumes run: "updateMember env input s = (r, t)" and "ta_role (mu_updatedBy input) \<noteq> RoleOwner"
  shows "no_new_owner s t"
proof (cases "plan_update input s")
  case (Pair x v)
  then have "v = s" using plan_update_silent [of input] by (auto simp: honours_def dest: spec [where x = s])
  show ?thesis
  proof (cases x)
    case (Inl e)
    then show ?thesis using run Pair \<open>v = s\<close> by (simp add: updateMember_def bind_apply owners.refl)
  next
    case (Inr y)
    obtain target scope ids where y: "y = (target, scope, ids)" by (cases y)
    then have plan: "plan_update input s = (Inr (target, scope, ids), s)" using Pair Inr \<open>v = s\<close> by simp
    note planned = planned_update [OF plan]
    then have role: "(case mu_role input of None \<Rightarrow> wm_role target | Some r \<Rightarrow> r) \<noteq> RoleOwner"
      using assms(2) by (auto simp: new_role_def)
    show ?thesis
      using run unfolding updateMember_def
      by (rule honours_after [where m = "plan_update input", OF plan, rotated])
        (simp only: prod.case, intro owners.steps owners.write_change owners.audit_team, simp add: role)
  qed
qed

text \<open>The invitation \<open>i\<close> to the owner role was open and is accepted now, by the operator of \<open>m\<close>.\<close>

definition accepted_as_owner :: "workspace \<Rightarrow> workspace \<Rightarrow> workspace_member \<Rightarrow> invitation \<Rightarrow> bool" where
  "accepted_as_owner s t m i \<longleftrightarrow> i \<in> set (operatorInvitations s) \<and> iv_role i = RoleOwner
     \<and> iv_status i = InvPending \<and> ws_clock s < iv_expiresAt i
     \<and> (\<exists>j \<in> set (operatorInvitations t). iv_id j = iv_id i \<and> iv_status j = InvAccepted)
     \<and> (\<exists>q \<in> set (operators t). op_id q = wm_operatorId m \<and> op_email q = iv_email i)"

text \<open>C7. Only owners make owners, while team operations run one at a time: when a step of the
  machine makes a member an owner, either the installation had no operator yet, or the step was
  run by an actor who is an owner, or the step accepted an invitation to the owner role that was
  pending and unexpired, and the new owner's operator has the invited address; and an invitation
  to the owner role is only ever made by an owner.\<close>

theorem only_owners_make_owners:
  assumes "reachable team_init (team_moves env) s" and "team_step env by s t"
  shows "(new_owner s t m \<longrightarrow> operators s = [] \<or> by_owner by s \<or> by = None \<and> (\<exists>i. accepted_as_owner s t m i))
    \<and> (new_owner_invitation s t j \<longrightarrow> by_owner by s)"
  using assms(2)
proof cases
  case (signs_in email password r)
  then show ?thesis
    using sign_in_makes_no_owner [OF signs_in(2)] honoursD [OF owner_invites.authenticate [OF TrueI] signs_in(2)]
    by (auto simp: no_new_owner_def no_new_owner_invitation_def)
next
  case (invites invite r)
  have "by_owner by s \<or> no_new_owner_invitation s t"
  proof (cases "ta_role (ii_invitedBy invite) = RoleOwner")
    case False
    show ?thesis
    proof (cases "check_invite invite s")
      case (Pair x v)
      have "ii_role invite \<noteq> RoleOwner" if "x = Inr email" for email
        using check_invite_run(2) [OF team.reachable_inv [OF assms(1)], of invite email v] Pair that False by auto
      then have "honours no_new_owner_invitation (inviteMember env invite)" if "x = Inr email" for email
        using that by (intro owner_invites.invite) auto
      moreover have "t = s" if "x = Inl e" for e
        using that Pair invites check_invite_throws [of invite s e v] by (simp add: inviteMember_def bind_apply)
      ultimately show ?thesis
        using invites owner_invites.refl by (cases x) (auto dest: honoursD)
    qed
  qed (use invites acting_owner in auto)
  then show ?thesis
    using honoursD [OF owners.invite [OF TrueI] invites(3)] by (auto simp: no_new_owner_def no_new_owner_invitation_def)
next
  case (accepts token name password r)
  have "\<exists>i. accepted_as_owner s t m i" if new: "new_owner s t m"
  proof -
    from new have m: "m \<in> set (workspaceMembers t)" "m \<notin> set (workspaceMembers s)" "wm_role m = RoleOwner"
      by (auto simp: new_owner_def)
    from team.reachable_inv [OF assms(1)] accepts(2) m(1,2) show ?thesis
      by (rule accepted_member) (use m(3) in \<open>auto simp: accepted_as_owner_def is_open_def\<close>)
  qed
  then show ?thesis
    using honoursD [OF owner_invites.accept [OF TrueI] accepts(2)] accepts(1)
    by (auto simp: no_new_owner_invitation_def)
next
  case (changes change r)
  have "by_owner by s \<or> no_new_owner s t"
    using change_makes_no_owner [OF changes(3)] acting_owner [OF changes(2)] changes(1) by auto
  then show ?thesis
    using honoursD [OF owner_invites.change [OF TrueI] changes(3)] by (auto simp: no_new_owner_def no_new_owner_invitation_def)
next
  case (elsewhere c n apps entries)
  then show ?thesis by (auto simp: new_owner_def new_owner_invitation_def)
qed (auto simp: no_new_owner_def no_new_owner_invitation_def dest: honoursD [OF owners.revoke] honoursD [OF owners.remove]
    honoursD [OF owners.rotate] honoursD [OF owner_invites.revoke] honoursD [OF owner_invites.remove]
    honoursD [OF owner_invites.rotate])

subsection \<open>Two owners who demote each other\<close>

lemma find_update_other:
  "List.find P xs = Some x \<Longrightarrow> (\<And>y. Q y \<Longrightarrow> \<not> P y) \<Longrightarrow> (\<And>y. P (f y) = P y) \<Longrightarrow>
   List.find P (update_where Q f xs) = Some x"
  by (induction xs) (auto simp: update_where_def split: if_splits)

text \<open>C15. Membership changes are checked and then written, without a lock: when two owners are the
  only ones and each demotes the other at once, both checks pass on the state they read, both
  transactions commit, and the workspace is left without an owner; one after the other, the second
  change is refused because at least one owner must remain.\<close>

theorem concurrent_demotions_lose_the_last_owner:
  assumes planA: "plan_update a s = (Inr (ta, sa, ia), s)" and planB: "plan_update b s = (Inr (tb, sb, ib), s)"
    and writeA: "write_update a ta sa ia s = (Inr (), t)" and writeB: "write_update b tb sb ib t = (Inr (), u)"
    and owners: "wm_role ta = RoleOwner" "wm_role tb = RoleOwner" "wm_id ta \<noteq> wm_id tb"
    and only: "\<And>m. m \<in> set (workspaceMembers s) \<Longrightarrow> wm_role m = RoleOwner \<Longrightarrow> wm_id m = wm_id ta \<or> wm_id m = wm_id tb"
    and demoting: "mu_role a = Some ra" "ra \<noteq> RoleOwner" "mu_role b = Some rb" "rb \<noteq> RoleOwner"
  shows "(\<forall>m \<in> set (workspaceMembers u). wm_role m \<noteq> RoleOwner) \<and> plan_update b t = (Inl last_owner, t)"
proof -
  have t: "workspaceMembers t = update_where (\<lambda>m. wm_id m = wm_id ta) (changed_member a ta sa (ws_clock s)) (workspaceMembers s)"
    and u: "workspaceMembers u = update_where (\<lambda>m. wm_id m = wm_id tb) (changed_member b tb sb (ws_clock t)) (workspaceMembers t)"
    using written_update [OF writeA] written_update [OF writeB] by simp_all
  have roles: "new_role a ta \<noteq> RoleOwner" "new_role b tb \<noteq> RoleOwner" using demoting by (simp_all add: new_role_def)
  have last: "m \<in> set (workspaceMembers t) \<Longrightarrow> wm_role m = RoleOwner \<Longrightarrow> wm_id m = wm_id tb" for m
    using only roles by (auto simp: t update_where_def split: if_splits)
  have found: "List.find (\<lambda>m. wm_id m = mu_memberId b) (workspaceMembers t) = Some tb"
  proof -
    have "List.find (\<lambda>m. wm_id m = mu_memberId b) (workspaceMembers s) = Some tb"
      using planB by (auto simp: plan_update_def Let_def bind_eq_Inr split: if_splits)
    moreover have "wm_id ta \<noteq> mu_memberId b" using planned_update(3) [OF planB] owners(3) by simp
    ultimately show ?thesis
      unfolding t by (intro find_update_other) auto
  qed
  have "countOtherOwners (wm_id tb) t = 0" using last other_owner [of "wm_id tb" t] by blast
  then have "plan_update b t = (Inl last_owner, t)"
    using found demoting owners(2) planned_update(4) [OF planB]
    by (simp add: plan_update_def bind_apply require_apply assertCanManageTarget_def check_role_change_def throw_if_apply)
  moreover have "\<forall>m \<in> set (workspaceMembers u). wm_role m \<noteq> RoleOwner"
    using last roles by (auto simp: u update_where_def split: if_splits)
  ultimately show ?thesis by blast
qed

text \<open>The same gap for the access rows: a change of the role alone writes back the scope it read, and
  leaves the rows that a change of the scope stored in between.\<close>

lemma overlapping_changes_leave_access:
  assumes planA: "plan_update a s = (Inr (ta, sa, ia), s)" and planB: "plan_update b s = (Inr (tb, sb, ib), s)"
    and one: "mu_memberId a = mu_memberId b"
    and role: "mu_applicationScope a = None" "mu_applicationIds a = None" "wm_applicationScope ta = ScopeAll"
    and scope: "mu_applicationScope b = Some ScopeRestricted"
    and writeB: "write_update b tb sb ib s = (Inr (), t)" and writeA: "write_update a ta sa ia t = (Inr (), u)"
  shows "\<exists>m \<in> set (workspaceMembers u). wm_id m = mu_memberId a \<and> wm_applicationScope m = ScopeAll
    \<and> (\<exists>x \<in> set (memberApplicationAccess u). aa_memberId x = wm_id m)"
proof -
  note a = planned_update [OF planA] and b = planned_update [OF planB]
  let ?k = "mu_memberId a"
  have ids: "wm_id ta = ?k" "wm_id tb = ?k" "sa = ScopeAll" "sb = ScopeRestricted" "ib \<noteq> []"
    using a b one role scope by auto
  have t: "workspaceMembers t = update_where (\<lambda>m. wm_id m = ?k) (changed_member b tb sb (ws_clock s)) (workspaceMembers s)"
    "memberApplicationAccess t = changed_access b tb sb ib s"
    using written_update [OF writeB] ids by simp_all
  have u: "workspaceMembers u = update_where (\<lambda>m. wm_id m = ?k) (changed_member a ta sa (ws_clock t)) (workspaceMembers t)"
    "memberApplicationAccess u = memberApplicationAccess t"
    using written_update [OF writeA] ids role by (simp_all add: changed_access_def)
  let ?m = "changed_member a ta sa (ws_clock t) (changed_member b tb sb (ws_clock s) ta)"
  have "?m \<in> set (workspaceMembers u)"
    unfolding u t using a(2) ids by (auto simp: update_where_def image_image intro!: image_eqI [of _ _ ta])
  moreover have "wm_id ?m = ?k" "wm_applicationScope ?m = ScopeAll" using ids by simp_all
  moreover have "\<exists>x \<in> set (memberApplicationAccess u). aa_memberId x = ?k"
    using ids scope by (cases ib) (auto simp: u t changed_access_def js_set_def)
  ultimately show ?thesis by metis
qed

subsection \<open>Witnesses\<close>

lemma workspace_keeps_an_owner_witness:
  "\<exists>m \<in> set (workspaceMembers demo_two). \<exists>q \<in> set (operators demo_two).
     wm_role m = RoleOwner \<and> op_id q = wm_operatorId m \<and> op_status q = OperatorActive"
  by (rule workspace_keeps_an_owner [OF demo_reached(4)]) (simp add: run_simps)

lemma members_are_well_formed_witness:
  "\<exists>q mb. filter (\<lambda>o'. op_id o' = ''op_9'') (operators demo_two) = [q] \<and> op_status q = OperatorActive
     \<and> findMembershipByOperatorId ''op_9'' demo_two = Some mb \<and> mb_memberId mb = ''mbr_10'' \<and> mb_role mb = RoleOwner"
proof -
  let ?m = "demo_member ''mbr_10'' ''op_9'' RoleOwner"
  have "?m \<in> set (workspaceMembers demo_two)" by (simp add: demo_two_def demo_team_def)
  moreover have "wm_operatorId ?m = ''op_9''" "wm_id ?m = ''mbr_10''" "wm_role ?m = RoleOwner"
    by (simp_all add: demo_member_def new_member_def)
  ultimately show ?thesis using members_are_well_formed [OF demo_reached(4), of ?m] by metis
qed

lemma only_owners_make_owners_witness:
  "new_owner_invitation demo_first demo_invited (demo_invitation InvPending) \<and> by_owner (Some demo_actor) demo_first
   \<and> (\<exists>i. accepted_as_owner demo_invited demo_two (demo_member ''mbr_10'' ''op_9'' RoleOwner) i)"
proof -
  obtain r where "inviteMember demo_env demo_invite demo_first = (r, demo_invited)" using demo_inviting by blast
  then have "team_step demo_env (Some demo_actor) demo_first demo_invited"
    using team_step.invites [of demo_invite demo_first demo_env] demo_acting by (simp add: demo_invite_def)
  moreover have new: "new_owner_invitation demo_first demo_invited (demo_invitation InvPending)"
    by (simp add: new_owner_invitation_def run_simps)
  ultimately have first: "by_owner (Some demo_actor) demo_first"
    using only_owners_make_owners [OF demo_reached(2)] by blast
  have step: "team_step demo_env None demo_invited demo_two"
    using demo_accepting by (blast intro: team_step.accepts)
  have "new_owner demo_invited demo_two (demo_member ''mbr_10'' ''op_9'' RoleOwner)"
    and "operators demo_invited \<noteq> []" "\<not> by_owner None demo_invited"
    by (simp_all add: new_owner_def by_owner_def run_simps)
  with only_owners_make_owners [OF demo_reached(3) step] first new show ?thesis by blast
qed

definition demo_demotion :: "string \<Rightarrow> string \<Rightarrow> member_update" where
  "demo_demotion memberId operatorId = \<lparr>mu_memberId = memberId, mu_role = Some RoleViewer, mu_applicationScope = None,
     mu_applicationIds = None, mu_updatedBy = demo_actor\<lparr>ta_operatorId := operatorId\<rparr>\<rparr>"

lemma concurrent_demotions_lose_the_last_owner_witness:
  "\<exists>t u. write_update (demo_demotion ''mbr_10'' ''op_0'') (demo_member ''mbr_10'' ''op_9'' RoleOwner) ScopeAll [] demo_two = (Inr (), t)
     \<and> write_update (demo_demotion ''mbr_1'' ''op_9'') (demo_member ''mbr_1'' ''op_0'' RoleOwner) ScopeAll [] t = (Inr (), u)
     \<and> (\<forall>m \<in> set (workspaceMembers u). wm_role m \<noteq> RoleOwner)
     \<and> plan_update (demo_demotion ''mbr_1'' ''op_9'') t = (Inl last_owner, t)"
proof -
  let ?a = "demo_demotion ''mbr_10'' ''op_0''" and ?b = "demo_demotion ''mbr_1'' ''op_9''"
  let ?ta = "demo_member ''mbr_10'' ''op_9'' RoleOwner" and ?tb = "demo_member ''mbr_1'' ''op_0'' RoleOwner"
  have plans: "plan_update ?a demo_two = (Inr (?ta, ScopeAll, []), demo_two)"
    "plan_update ?b demo_two = (Inr (?tb, ScopeAll, []), demo_two)"
    by (simp_all add: demo_demotion_def run_simps)
  obtain t where t: "write_update ?a ?ta ScopeAll [] demo_two = (Inr (), t)"
    by (simp add: demo_demotion_def run_simps)
  obtain u where u: "write_update ?b ?tb ScopeAll [] t = (Inr (), u)"
    by (simp add: write_update_def transaction_apply bind_apply update_members_run demo_demotion_def)
  have roles: "wm_role ?ta = RoleOwner" "wm_role ?tb = RoleOwner" "wm_id ?ta \<noteq> wm_id ?tb"
    by (simp_all add: demo_member_def new_member_def)
  have "m \<in> set (workspaceMembers demo_two) \<Longrightarrow> wm_role m = RoleOwner \<Longrightarrow> wm_id m = wm_id ?ta \<or> wm_id m = wm_id ?tb" for m
    by (auto simp: demo_two_def demo_team_def)
  from concurrent_demotions_lose_the_last_owner [OF plans t u roles this, of RoleViewer RoleViewer] t u
  show ?thesis by (simp add: demo_demotion_def)
qed

end
