(* ===== verification/WebhookStore.thy ===== *)
theory WebhookStore
  imports Webhooks Connections
begin

text \<open>
  The tables of the developer webhooks (\<open>src/src/modules/webhooks/schema.ts\<close>): the endpoints of an
  application and the deliveries to them. No other modelled operation reads or writes them, so
  they form a state of their own, with its clock, its source of random values, the ids of the
  applications, and the requests sent so far, which is what the endpoints see.
\<close>

subsection \<open>Rows\<close>

datatype endpoint_status = EndpointActive | EndpointDisabled

datatype delivery_status = DeliveryPending | DeliverySucceeded | DeliveryFailed

record webhook_endpoint =
  we_id :: string
  we_applicationId :: string
  we_mode :: environment
  we_name :: string
  we_url :: string
  we_secretCiphertext :: string
  we_secretPrefix :: string
  we_eventTypes :: "string list"
  we_status :: endpoint_status
  we_createdAt :: int
  we_updatedAt :: int
  we_disabledAt :: "int option"

record webhook_delivery =
  wd_id :: string
  wd_endpointId :: string
  wd_applicationId :: string
  wd_mode :: environment
  wd_eventId :: string
  wd_eventType :: string
  wd_providerConnectionId :: "string option"
  wd_externalCustomerId :: "string option"
  wd_orderId :: "string option"
  wd_payload :: json_object
  wd_status :: delivery_status
  wd_attemptCount :: int
  wd_responseStatus :: "int option"
  wd_errorMessage :: "string option"
  wd_createdAt :: int
  wd_lastAttemptAt :: "int option"
  wd_deliveredAt :: "int option"

record post_request =
  pq_url :: string
  pq_headers :: "(string \<times> string) list"
  pq_body :: string

record outbox =
  ob_clock :: int
  ob_random :: nat
  ob_applications :: "string list"
  webhookEndpoints :: "webhook_endpoint list"
  webhookDeliveries :: "webhook_delivery list"
  sentRequests :: "post_request list"

text \<open>A new random value.\<close>

definition random_value :: "(outbox, nat) prog" where
  "random_value = (\<lambda>s. (Inr (ob_random s), s\<lparr>ob_random := Suc (ob_random s)\<rparr>))"

lemma random_value_apply [simp, prog_simps]: "random_value s = (Inr (ob_random s), s\<lparr>ob_random := Suc (ob_random s)\<rparr>)"
  by (simp add: random_value_def)

subsection \<open>Statements\<close>

definition same_endpoint_name :: "webhook_endpoint \<Rightarrow> webhook_endpoint \<Rightarrow> bool" where
  "same_endpoint_name a b \<longleftrightarrow> we_applicationId a = we_applicationId b \<and> we_mode a = we_mode b \<and> we_name a = we_name b"

definition insert_endpoint :: "webhook_endpoint \<Rightarrow> (outbox, webhook_endpoint) prog" where
  "insert_endpoint = insert_row ''webhook_endpoints'' (\<lambda>_. True) (\<lambda>_. True)
     (\<lambda>r q. we_id r = we_id q \<or> same_endpoint_name r q)
     (\<lambda>s r. we_applicationId r \<in> set (ob_applications s)) webhookEndpoints webhookEndpoints_update"

definition update_endpoints ::
    "(webhook_endpoint \<Rightarrow> bool) \<Rightarrow> (webhook_endpoint \<Rightarrow> webhook_endpoint) \<Rightarrow> (outbox, webhook_endpoint list) prog" where
  "update_endpoints = update_rows ''webhook_endpoints'' (\<lambda>_. True) (\<lambda>_. True) webhookEndpoints webhookEndpoints_update"

definition delivery_fits :: "webhook_delivery \<Rightarrow> bool" where
  "delivery_fits d \<longleftrightarrow> fits_integer (wd_attemptCount d) \<and> null_or fits_integer (wd_responseStatus d)"

definition delivery_check :: "webhook_delivery \<Rightarrow> bool" where
  "delivery_check d \<longleftrightarrow> 0 \<le> wd_attemptCount d"

definition delivery_clash :: "webhook_delivery \<Rightarrow> webhook_delivery \<Rightarrow> bool" where
  "delivery_clash a b \<longleftrightarrow> wd_id a = wd_id b \<or> wd_endpointId a = wd_endpointId b \<and> wd_eventId a = wd_eventId b"

definition delivery_refers :: "outbox \<Rightarrow> webhook_delivery \<Rightarrow> bool" where
  "delivery_refers s d \<longleftrightarrow> (\<exists>e \<in> set (webhookEndpoints s). we_id e = wd_endpointId d)
     \<and> wd_applicationId d \<in> set (ob_applications s)"

definition insert_delivery :: "webhook_delivery \<Rightarrow> (outbox, webhook_delivery) prog" where
  "insert_delivery = insert_row ''webhook_deliveries'' delivery_fits delivery_check delivery_clash delivery_refers
     webhookDeliveries webhookDeliveries_update"

text \<open>\<open>onConflictDoNothing()\<close> without a target: a row that clashes on any unique index is dropped.\<close>

definition insert_delivery_or_ignore :: "webhook_delivery \<Rightarrow> (outbox, webhook_delivery option) prog" where
  "insert_delivery_or_ignore = insert_or_ignore ''webhook_deliveries'' delivery_fits delivery_check delivery_clash
     (\<lambda>_ _. False) delivery_refers webhookDeliveries webhookDeliveries_update"

definition update_deliveries ::
    "(webhook_delivery \<Rightarrow> bool) \<Rightarrow> (webhook_delivery \<Rightarrow> webhook_delivery) \<Rightarrow> (outbox, webhook_delivery list) prog" where
  "update_deliveries = update_rows ''webhook_deliveries'' delivery_fits delivery_check webhookDeliveries webhookDeliveries_update"

lemmas outbox_table_defs [table_defs, run_simps] = same_endpoint_name_def insert_endpoint_def update_endpoints_def
  delivery_fits_def delivery_check_def delivery_clash_def delivery_refers_def insert_delivery_def
  insert_delivery_or_ignore_def update_deliveries_def

lemmas [run_simps] = random_value_def

end
