(* ===== verification/Deliveries.thy ===== *)
theory Deliveries
  imports WebhookStore
begin

text \<open>
  Developer webhooks (\<open>src/src/modules/webhooks/service.ts\<close> and \<open>crypto.ts\<close>): endpoints, event
  dispatch, delivery, operator retries and the sweep of pending deliveries. Random tokens, the
  cipher, the keyed hash, the printing of a JSON object, the URL parser, the answer of an endpoint
  to a request and the text of a driver's error are the argument \<open>delivery_env\<close>.
\<close>

subsection \<open>What the service is given\<close>

record web_url =
  wu_protocol :: string
  wu_username :: string
  wu_password :: string
  wu_hash :: string
  wu_href :: string

record delivery_env =
  de_token :: "nat \<Rightarrow> string"
  de_encrypt :: "string \<Rightarrow> nat \<Rightarrow> err + string"
  de_decrypt :: "string \<Rightarrow> err + string"
  de_hmac :: "string \<Rightarrow> string \<Rightarrow> string"
  de_stringify :: "json_object \<Rightarrow> string"
  de_parseUrl :: "string \<Rightarrow> web_url option"
  de_fetch :: "post_request \<Rightarrow> nat \<Rightarrow> err + int"
  de_driver :: "err \<Rightarrow> string"

text \<open>A request is on its way before its answer, or its failure, is known.\<close>

definition fetchImpl :: "delivery_env \<Rightarrow> post_request \<Rightarrow> (outbox, int) prog" where
  "fetchImpl env q = (\<lambda>s. (de_fetch env q (length (sentRequests s)), s\<lparr>sentRequests := sentRequests s @ [q]\<rparr>))"

definition SECRET_PREFIX :: string where
  "SECRET_PREFIX = ''mp_whsec_''"

record webhook_secret =
  ws_secret :: string
  ws_secretPrefix :: string
  ws_secretCiphertext :: string

definition generateWebhookSecret :: "delivery_env \<Rightarrow> (outbox, webhook_secret) prog" where
  "generateWebhookSecret env =
     bind random_value (\<lambda>n.
     bind random_value (\<lambda>iv.
     let secret = SECRET_PREFIX @ de_token env n
     in bind (lift_result (de_encrypt env secret iv)) (\<lambda>ciphertext.
        return \<lparr>ws_secret = secret, ws_secretPrefix = SECRET_PREFIX @ take 8 (de_token env n),
          ws_secretCiphertext = ciphertext\<rparr>)))"

definition signWebhookPayload :: "delivery_env \<Rightarrow> string \<Rightarrow> string \<Rightarrow> string \<Rightarrow> string \<Rightarrow> string" where
  "signWebhookPayload env secret eventId timestamp rawBody =
     ''v1='' @ de_hmac env secret (timestamp @ ''.'' @ eventId @ ''.'' @ rawBody)"

subsection \<open>Endpoints\<close>

definition normalizeWebhookName :: "string \<Rightarrow> (outbox, string) prog" where
  "normalizeWebhookName value' =
     (let name = trim value'
      in bind (throw_if (name = []) (Error ''Webhook endpoint name is required'')) (\<lambda>_.
         bind (throw_if (80 < length name) (Error ''Webhook endpoint name is too long'')) (\<lambda>_.
         return name)))"

definition normalizeWebhookUrl :: "delivery_env \<Rightarrow> string \<Rightarrow> environment \<Rightarrow> (outbox, string) prog" where
  "normalizeWebhookUrl env value' mode =
     bind (require (Error ''Webhook endpoint must be a valid URL'') (de_parseUrl env (trim value'))) (\<lambda>u.
     bind (throw_if (wu_protocol u \<noteq> ''https:'' \<and> wu_protocol u \<noteq> ''http:'')
       (Error ''Webhook endpoint must use http or https'')) (\<lambda>_.
     bind (throw_if (mode = Live \<and> wu_protocol u \<noteq> ''https:'')
       (Error ''Production webhook endpoints must use https'')) (\<lambda>_.
     bind (throw_if (wu_username u \<noteq> [] \<or> wu_password u \<noteq> [])
       (Error ''Webhook endpoint URL must not contain credentials'')) (\<lambda>_.
     bind (throw_if (wu_hash u \<noteq> []) (Error ''Webhook endpoint URL must not contain a fragment'')) (\<lambda>_.
     bind (throw_if (2048 < length (wu_href u)) (Error ''Webhook endpoint URL is too long'')) (\<lambda>_.
     return (wu_href u)))))))"

definition normalizeWebhookEventTypes :: "string list option \<Rightarrow> (outbox, string list) prog" where
  "normalizeWebhookEventTypes values =
     (let candidates = (case values of Some (v # vs) \<Rightarrow> v # vs | _ \<Rightarrow> [''*'']);
          normalized = js_set (filter (\<lambda>v. v \<noteq> []) (map (\<lambda>v. toLowerCase (trim v)) candidates))
      in if normalized = [] then return [''*'']
         else
           bind (throw_if (50 < length normalized)
             (Error ''A webhook endpoint can subscribe to at most 50 event types'')) (\<lambda>_.
           bind (for_loop (\<lambda>_ v. throw_if (v \<noteq> ''*'' \<and> \<not> matches_key_pattern v)
             (Error (''Invalid webhook event type: '' @ v))) () normalized) (\<lambda>_.
           return normalized)))"

record endpoint_view =
  wv_id :: string
  wv_applicationId :: string
  wv_mode :: environment
  wv_name :: string
  wv_url :: string
  wv_secretPrefix :: string
  wv_eventTypes :: "string list"
  wv_status :: endpoint_status
  wv_createdAt :: int
  wv_updatedAt :: int
  wv_disabledAt :: "int option"

definition endpointView :: "webhook_endpoint \<Rightarrow> endpoint_view" where
  "endpointView e = \<lparr>wv_id = we_id e, wv_applicationId = we_applicationId e, wv_mode = we_mode e, wv_name = we_name e,
     wv_url = we_url e, wv_secretPrefix = we_secretPrefix e, wv_eventTypes = we_eventTypes e, wv_status = we_status e,
     wv_createdAt = we_createdAt e, wv_updatedAt = we_updatedAt e, wv_disabledAt = we_disabledAt e\<rparr>"

record endpoint_input =
  ei_name :: string
  ei_url :: string
  ei_eventTypes :: "string list option"

definition createWebhookEndpoint ::
    "delivery_env \<Rightarrow> string \<Rightarrow> environment \<Rightarrow> endpoint_input \<Rightarrow> (outbox, endpoint_view \<times> string) prog" where
  "createWebhookEndpoint env applicationId mode input =
     bind (generateWebhookSecret env) (\<lambda>generated.
     bind random_value (\<lambda>n.
     bind (normalizeWebhookName (ei_name input)) (\<lambda>name.
     bind (normalizeWebhookUrl env (ei_url input) mode) (\<lambda>u.
     bind (normalizeWebhookEventTypes (ei_eventTypes input)) (\<lambda>eventTypes.
     bind (gets ob_clock) (\<lambda>now.
     bind (insert_endpoint \<lparr>we_id = ''whep_'' @ string_of_nat n, we_applicationId = applicationId, we_mode = mode,
       we_name = name, we_url = u, we_secretCiphertext = ws_secretCiphertext generated,
       we_secretPrefix = ws_secretPrefix generated, we_eventTypes = eventTypes, we_status = EndpointActive,
       we_createdAt = now, we_updatedAt = now, we_disabledAt = None\<rparr>) (\<lambda>e.
     return (endpointView e, ws_secret generated))))))))"

definition listWebhookEndpoints :: "string \<Rightarrow> environment \<Rightarrow> outbox \<Rightarrow> endpoint_view list" where
  "listWebhookEndpoints applicationId mode s = map endpointView (rev (sort_key we_createdAt
     (filter (\<lambda>e. we_applicationId e = applicationId \<and> we_mode e = mode) (webhookEndpoints s))))"

definition owned_active :: "string \<Rightarrow> environment \<Rightarrow> string \<Rightarrow> webhook_endpoint \<Rightarrow> bool" where
  "owned_active applicationId mode endpointId e \<longleftrightarrow> we_id e = endpointId \<and> we_applicationId e = applicationId
     \<and> we_mode e = mode \<and> we_status e = EndpointActive"

definition getActiveEndpoint :: "string \<Rightarrow> environment \<Rightarrow> string \<Rightarrow> (outbox, webhook_endpoint) prog" where
  "getActiveEndpoint applicationId mode endpointId =
     bind (gets (\<lambda>s. List.find (owned_active applicationId mode endpointId) (webhookEndpoints s))) (\<lambda>found.
     require WebhookEndpointNotFoundError found)"

definition rotateWebhookEndpointSecret ::
    "delivery_env \<Rightarrow> string \<Rightarrow> environment \<Rightarrow> string \<Rightarrow> (outbox, endpoint_view \<times> string) prog" where
  "rotateWebhookEndpointSecret env applicationId mode endpointId =
     bind (getActiveEndpoint applicationId mode endpointId) (\<lambda>_.
     bind (generateWebhookSecret env) (\<lambda>generated.
     bind (gets ob_clock) (\<lambda>now.
     bind (update_endpoints (\<lambda>e. we_id e = endpointId)
       (\<lambda>e. e\<lparr>we_secretCiphertext := ws_secretCiphertext generated, we_secretPrefix := ws_secretPrefix generated,
              we_updatedAt := now\<rparr>)) (\<lambda>rows.
     bind (require WebhookEndpointNotFoundError (first_row rows)) (\<lambda>e.
     return (endpointView e, ws_secret generated))))))"

definition disableWebhookEndpoint :: "string \<Rightarrow> environment \<Rightarrow> string \<Rightarrow> (outbox, endpoint_view) prog" where
  "disableWebhookEndpoint applicationId mode endpointId =
     bind (gets ob_clock) (\<lambda>now.
     bind (update_endpoints (owned_active applicationId mode endpointId)
       (\<lambda>e. e\<lparr>we_status := EndpointDisabled, we_disabledAt := Some now, we_updatedAt := now\<rparr>)) (\<lambda>rows.
     bind (require WebhookEndpointNotFoundError (first_row rows)) (\<lambda>e.
     return (endpointView e))))"

subsection \<open>Deliveries\<close>

record delivery_view =
  dv_id :: string
  dv_endpointId :: string
  dv_endpointName :: "string option"
  dv_applicationId :: string
  dv_mode :: environment
  dv_eventId :: string
  dv_eventType :: string
  dv_providerConnectionId :: "string option"
  dv_externalCustomerId :: "string option"
  dv_orderId :: "string option"
  dv_status :: delivery_status
  dv_attemptCount :: int
  dv_responseStatus :: "int option"
  dv_errorMessage :: "string option"
  dv_createdAt :: int
  dv_lastAttemptAt :: "int option"
  dv_deliveredAt :: "int option"

definition deliveryView :: "webhook_delivery \<Rightarrow> string option \<Rightarrow> delivery_view" where
  "deliveryView d endpointName = \<lparr>dv_id = wd_id d, dv_endpointId = wd_endpointId d, dv_endpointName = endpointName,
     dv_applicationId = wd_applicationId d, dv_mode = wd_mode d, dv_eventId = wd_eventId d, dv_eventType = wd_eventType d,
     dv_providerConnectionId = wd_providerConnectionId d, dv_externalCustomerId = wd_externalCustomerId d,
     dv_orderId = wd_orderId d, dv_status = wd_status d, dv_attemptCount = wd_attemptCount d,
     dv_responseStatus = wd_responseStatus d, dv_errorMessage = wd_errorMessage d, dv_createdAt = wd_createdAt d,
     dv_lastAttemptAt = wd_lastAttemptAt d, dv_deliveredAt = wd_deliveredAt d\<rparr>"

definition joined_deliveries :: "outbox \<Rightarrow> (webhook_delivery \<times> webhook_endpoint) list" where
  "joined_deliveries s = concat (map (\<lambda>d. map (Pair d) (filter (\<lambda>e. we_id e = wd_endpointId d) (webhookEndpoints s)))
     (webhookDeliveries s))"

record delivery_filters =
  df_endpointId :: "string option"
  df_status :: "delivery_status option"
  df_providerConnectionId :: "string option"
  df_externalCustomerId :: "string option"
  df_orderId :: "string option"
  df_limit :: "int option"

definition listWebhookDeliveries :: "string \<Rightarrow> environment \<Rightarrow> delivery_filters \<Rightarrow> outbox \<Rightarrow> delivery_view list" where
  "listWebhookDeliveries applicationId mode filters s =
     take (nat (min (max (case df_limit filters of None \<Rightarrow> 50 | Some n \<Rightarrow> n) 1) 200))
       (map (\<lambda>(d, e). deliveryView d (Some (we_name e)))
         (rev (sort_key (\<lambda>(d, e). wd_createdAt d) (filter (\<lambda>(d, e). wd_applicationId d = applicationId \<and> wd_mode d = mode
            \<and> null_or (\<lambda>i. wd_endpointId d = i) (truthy (df_endpointId filters))
            \<and> null_or (\<lambda>st. wd_status d = st) (df_status filters)
            \<and> null_or (\<lambda>i. wd_providerConnectionId d = Some i) (truthy (df_providerConnectionId filters))
            \<and> null_or (\<lambda>i. wd_externalCustomerId d = Some i) (truthy (df_externalCustomerId filters))
            \<and> null_or (\<lambda>i. wd_orderId d = Some i) (truthy (df_orderId filters)))
          (joined_deliveries s)))))"

definition delivery_request :: "delivery_env \<Rightarrow> webhook_delivery \<Rightarrow> webhook_endpoint \<Rightarrow> string \<Rightarrow> int \<Rightarrow> post_request" where
  "delivery_request env d e secret now =
     (let rawBody = de_stringify env (wd_payload d); timestamp = string_of_int (now div 1000)
      in \<lparr>pq_url = we_url e,
          pq_headers = [(''content-type'', ''application/json''), (''user-agent'', ''MonetPlane-Webhooks/1.0''),
            (''x-monetplane-event-id'', wd_eventId d), (''x-monetplane-timestamp'', timestamp),
            (''x-monetplane-signature'', signWebhookPayload env secret (wd_eventId d) timestamp rawBody)],
          pq_body = rawBody\<rparr>)"

text \<open>The end of an attempt: the row is updated and answered.\<close>

definition settle_delivery :: "string \<Rightarrow> string \<Rightarrow> (webhook_delivery \<Rightarrow> webhook_delivery) \<Rightarrow> (outbox, delivery_view) prog" where
  "settle_delivery deliveryId endpointName f =
     bind (update_deliveries (\<lambda>d. wd_id d = deliveryId) f) (\<lambda>rows.
     bind (require WebhookDeliveryNotFoundError (first_row rows)) (\<lambda>updated.
     return (deliveryView updated (Some endpointName))))"

definition performWebhookDelivery ::
    "delivery_env \<Rightarrow> webhook_delivery \<times> webhook_endpoint \<Rightarrow> (outbox, delivery_view) prog" where
  "performWebhookDelivery env row = (case row of (delivery, e) \<Rightarrow>
     bind (gets ob_clock) (\<lambda>now.
     bind (lift_result (de_decrypt env (we_secretCiphertext e))) (\<lambda>secret.
     try_catch (
       bind (fetchImpl env (delivery_request env delivery e secret now)) (\<lambda>status.
       let succeeded = 200 \<le> status \<and> status \<le> 299
       in settle_delivery (wd_id delivery) (we_name e) (\<lambda>d. d\<lparr>
            wd_status := (if succeeded then DeliverySucceeded else DeliveryFailed),
            wd_responseStatus := Some status,
            wd_errorMessage := (if succeeded then None else Some (''Endpoint returned HTTP '' @ string_of_int status)),
            wd_deliveredAt := (if succeeded then Some now else None)\<rparr>)))
     (\<lambda>error. settle_delivery (wd_id delivery) (we_name e) (\<lambda>d. d\<lparr>
        wd_status := DeliveryFailed, wd_responseStatus := None,
        wd_errorMessage := Some (take 1000 (error_message (de_driver env) error))\<rparr>)))))"

definition deliverWebhookDelivery ::
    "delivery_env \<Rightarrow> string \<Rightarrow> environment \<Rightarrow> string \<Rightarrow> (outbox, delivery_view) prog" where
  "deliverWebhookDelivery env applicationId mode deliveryId =
     bind (gets (\<lambda>s. List.find (\<lambda>(d, e). wd_id d = deliveryId \<and> wd_applicationId d = applicationId \<and> wd_mode d = mode
       \<and> we_status e = EndpointActive) (joined_deliveries s))) (\<lambda>found.
     bind (require WebhookDeliveryNotFoundError found) (\<lambda>(delivery, e).
     bind (gets ob_clock) (\<lambda>now.
     bind (update_deliveries (\<lambda>d. wd_id d = deliveryId) (\<lambda>d. d\<lparr>wd_status := DeliveryPending,
       wd_attemptCount := wd_attemptCount delivery + 1, wd_responseStatus := None, wd_errorMessage := None,
       wd_lastAttemptAt := Some now\<rparr>)) (\<lambda>_.
     performWebhookDelivery env (delivery, e)))))"

subsection \<open>The sweep of pending deliveries\<close>

definition PENDING_DELIVERY_STALE_AFTER_MS :: int where
  "PENDING_DELIVERY_STALE_AFTER_MS = 60000"

definition PENDING_DELIVERY_MAX_ATTEMPTS :: int where
  "PENDING_DELIVERY_MAX_ATTEMPTS = 8"

definition PENDING_DELIVERY_MAX_BACKOFF_MS :: int where
  "PENDING_DELIVERY_MAX_BACKOFF_MS = 3600000"

definition pendingDeliveryBackoffMs :: "int \<Rightarrow> int" where
  "pendingDeliveryBackoffMs attemptCount =
     min (PENDING_DELIVERY_STALE_AFTER_MS * 2 ^ nat attemptCount) PENDING_DELIVERY_MAX_BACKOFF_MS"

text \<open>Whether a pending delivery is due: never attempted and stale, or its backoff elapsed.\<close>

definition is_due :: "int \<Rightarrow> webhook_delivery \<Rightarrow> bool" where
  "is_due now c \<longleftrightarrow> (case wd_lastAttemptAt c of
       None \<Rightarrow> wd_createdAt c \<le> now - PENDING_DELIVERY_STALE_AFTER_MS
     | Some t \<Rightarrow> t \<le> now - pendingDeliveryBackoffMs (wd_attemptCount c))"

definition parkExhausted :: "webhook_delivery \<Rightarrow> (outbox, webhook_delivery list) prog" where
  "parkExhausted c = update_deliveries (\<lambda>d. wd_id d = wd_id c \<and> wd_status d = DeliveryPending)
     (\<lambda>d. d\<lparr>wd_status := DeliveryFailed, wd_errorMessage := Some (''pending delivery exceeded ''
        @ string_of_int PENDING_DELIVERY_MAX_ATTEMPTS @ '' attempts'')\<rparr>)"

definition claimDelivery :: "int \<Rightarrow> webhook_delivery \<Rightarrow> (outbox, webhook_delivery list) prog" where
  "claimDelivery now c = update_deliveries (\<lambda>d. wd_id d = wd_id c \<and> wd_status d = DeliveryPending)
     (\<lambda>d. d\<lparr>wd_attemptCount := wd_attemptCount c + 1, wd_responseStatus := None, wd_errorMessage := None,
            wd_lastAttemptAt := Some now\<rparr>)"

text \<open>What follows a claim: the delivery to an active endpoint, or the row is parked.\<close>

definition deliverClaimed :: "delivery_env \<Rightarrow> webhook_delivery \<Rightarrow> nat \<times> nat \<Rightarrow> (outbox, nat \<times> nat) prog" where
  "deliverClaimed env c counts = (case counts of (delivered, parked) \<Rightarrow>
     bind (gets (\<lambda>s. List.find (\<lambda>(d, e). wd_id d = wd_id c \<and> we_status e = EndpointActive) (joined_deliveries s))) (\<lambda>found.
     case found of
       None \<Rightarrow>
         bind (update_deliveries (\<lambda>d. wd_id d = wd_id c)
           (\<lambda>d. d\<lparr>wd_status := DeliveryFailed, wd_errorMessage := Some ''Endpoint missing or inactive''\<rparr>)) (\<lambda>_.
         return (delivered, parked + 1))
     | Some row \<Rightarrow>
         try_catch (bind (performWebhookDelivery env row) (\<lambda>_. return (delivered + 1, parked)))
           (\<lambda>_. return (delivered, parked + 1))))"

definition sweepCandidate :: "delivery_env \<Rightarrow> int \<Rightarrow> nat \<times> nat \<Rightarrow> webhook_delivery \<Rightarrow> (outbox, nat \<times> nat) prog" where
  "sweepCandidate env now counts c = (case counts of (delivered, parked) \<Rightarrow>
     if PENDING_DELIVERY_MAX_ATTEMPTS \<le> wd_attemptCount c then
       bind (parkExhausted c) (\<lambda>rows. return (delivered, if rows \<noteq> [] then parked + 1 else parked))
     else if \<not> is_due now c then return (delivered, parked)
     else
       bind (claimDelivery now c) (\<lambda>claimed.
       if claimed = [] then return (delivered, parked) else deliverClaimed env c (delivered, parked)))"

definition sweep_candidates :: "nat \<Rightarrow> outbox \<Rightarrow> webhook_delivery list" where
  "sweep_candidates limit s =
     take limit (sort_key wd_createdAt (filter (\<lambda>d. wd_status d = DeliveryPending) (webhookDeliveries s)))"

record sweep_options =
  so_now :: "int option"
  so_limit :: "nat option"

record sweep_result =
  sw_swept :: nat
  sw_delivered :: nat
  sw_parked :: nat

definition sweepPendingWebhookDeliveries :: "delivery_env \<Rightarrow> sweep_options \<Rightarrow> (outbox, sweep_result) prog" where
  "sweepPendingWebhookDeliveries env options =
     bind (gets (\<lambda>s. case so_now options of None \<Rightarrow> ob_clock s | Some n \<Rightarrow> n)) (\<lambda>now.
     bind (gets (sweep_candidates (case so_limit options of None \<Rightarrow> 50 | Some n \<Rightarrow> n))) (\<lambda>candidates.
     bind (for_loop (sweepCandidate env now) (0, 0) candidates) (\<lambda>(delivered, parked).
     return \<lparr>sw_swept = length candidates, sw_delivered = delivered, sw_parked = parked\<rparr>)))"

subsection \<open>Test deliveries, retries and the dispatch of events\<close>

definition new_delivery :: "string \<Rightarrow> string \<Rightarrow> string \<Rightarrow> environment \<Rightarrow> string \<Rightarrow> string \<Rightarrow> json_object \<Rightarrow> int \<Rightarrow> webhook_delivery" where
  "new_delivery i endpointId applicationId mode eventId eventType payload now =
     \<lparr>wd_id = i, wd_endpointId = endpointId, wd_applicationId = applicationId, wd_mode = mode, wd_eventId = eventId,
      wd_eventType = eventType, wd_providerConnectionId = None, wd_externalCustomerId = None, wd_orderId = None,
      wd_payload = payload, wd_status = DeliveryPending, wd_attemptCount = 0, wd_responseStatus = None,
      wd_errorMessage = None, wd_createdAt = now, wd_lastAttemptAt = None, wd_deliveredAt = None\<rparr>"

definition createTestWebhookDelivery ::
    "delivery_env \<Rightarrow> string \<Rightarrow> environment \<Rightarrow> string \<Rightarrow> (outbox, delivery_view) prog" where
  "createTestWebhookDelivery env applicationId mode endpointId =
     bind (getActiveEndpoint applicationId mode endpointId) (\<lambda>e.
     bind random_value (\<lambda>k.
     bind (gets ob_clock) (\<lambda>now.
     let eventId = ''evt_test_'' @ string_of_nat k;
         payload = [(''id'', JStr eventId), (''type'', JStr ''system.test''), (''createdAt'', JStr (toISOString now)),
           (''data'', JObj [(''applicationId'', JStr applicationId),
              (''environment'', JStr (if mode = Test then ''sandbox'' else ''production'')),
              (''message'', JStr ''MonetPlane webhook test delivery'')])]
     in bind random_value (\<lambda>n.
        bind (insert_delivery (new_delivery (''whd_'' @ string_of_nat n) (we_id e) applicationId mode eventId
          ''system.test'' payload now)) (\<lambda>d.
        deliverWebhookDelivery env applicationId mode (wd_id d))))))"

definition retryWebhookDelivery ::
    "delivery_env \<Rightarrow> string \<Rightarrow> environment \<Rightarrow> string \<Rightarrow> (outbox, delivery_view) prog" where
  "retryWebhookDelivery env applicationId mode deliveryId =
     bind (gets (\<lambda>s. List.find (\<lambda>d. wd_id d = deliveryId \<and> wd_applicationId d = applicationId \<and> wd_mode d = mode)
       (webhookDeliveries s))) (\<lambda>found.
     bind (require WebhookDeliveryNotFoundError found) (\<lambda>d.
     bind (throw_if (wd_status d \<noteq> DeliveryFailed) (Error ''Only failed webhook deliveries can be retried'')) (\<lambda>_.
     deliverWebhookDelivery env applicationId mode deliveryId)))"

definition endpointAccepts :: "string list \<Rightarrow> string \<Rightarrow> bool" where
  "endpointAccepts endpointEventTypes eventType \<longleftrightarrow> ''*'' \<in> set endpointEventTypes \<or> eventType \<in> set endpointEventTypes"

record dispatch_input =
  dx_applicationId :: string
  dx_mode :: environment
  dx_eventId :: "string option"
  dx_eventType :: string
  dx_providerConnectionId :: "string option"
  dx_externalCustomerId :: "string option"
  dx_orderId :: "string option"
  dx_data :: json_object

record dispatch_result =
  dr_eventId :: string
  dr_matchedEndpoints :: nat
  dr_attemptedDeliveries :: nat
  dr_succeeded :: nat

definition matching_endpoints :: "dispatch_input \<Rightarrow> string \<Rightarrow> outbox \<Rightarrow> webhook_endpoint list" where
  "matching_endpoints input eventType s = filter (\<lambda>e. we_applicationId e = dx_applicationId input \<and> we_mode e = dx_mode input
     \<and> we_status e = EndpointActive \<and> endpointAccepts (we_eventTypes e) eventType) (webhookEndpoints s)"

text \<open>One row per endpoint that has none for this event yet: the ids of the new rows.\<close>

definition insertDeliveries ::
    "dispatch_input \<Rightarrow> string \<Rightarrow> string \<Rightarrow> json_object \<Rightarrow> webhook_endpoint list \<Rightarrow> (outbox, string list) prog" where
  "insertDeliveries input eventId eventType payload =
     for_loop (\<lambda>ids e.
       bind random_value (\<lambda>n.
       bind (gets ob_clock) (\<lambda>now.
       bind (insert_delivery_or_ignore ((new_delivery (''whd_'' @ string_of_nat n) (we_id e) (dx_applicationId input)
         (dx_mode input) eventId eventType payload now)\<lparr>wd_providerConnectionId := dx_providerConnectionId input,
           wd_externalCustomerId := dx_externalCustomerId input, wd_orderId := dx_orderId input\<rparr>)) (\<lambda>row.
       return (case row of None \<Rightarrow> ids | Some d \<Rightarrow> ids @ [wd_id d]))))) []"

text \<open>\<open>Promise.allSettled\<close> over the new deliveries, each of which touches its own row only; the
  number of those that succeeded.\<close>

definition deliverAll :: "delivery_env \<Rightarrow> string \<Rightarrow> environment \<Rightarrow> string list \<Rightarrow> (outbox, nat) prog" where
  "deliverAll env applicationId mode =
     for_loop (\<lambda>succeeded i.
       try_catch (bind (deliverWebhookDelivery env applicationId mode i)
         (\<lambda>v. return (if dv_status v = DeliverySucceeded then succeeded + 1 else succeeded)))
       (\<lambda>_. return succeeded)) 0"

definition dispatchWebhookEvent :: "delivery_env \<Rightarrow> dispatch_input \<Rightarrow> (outbox, dispatch_result) prog" where
  "dispatchWebhookEvent env input =
     (let eventType = toLowerCase (trim (dx_eventType input))
      in bind (throw_if (eventType = []) (Error ''Webhook event type is required'')) (\<lambda>_.
         bind (case truthy (map_option trim (dx_eventId input)) of
             Some i \<Rightarrow> return i
           | None \<Rightarrow> bind random_value (\<lambda>n. return (''evt_'' @ string_of_nat n))) (\<lambda>eventId.
         bind (gets (matching_endpoints input eventType)) (\<lambda>matching.
         bind (gets ob_clock) (\<lambda>now.
         let payload = [(''id'', JStr eventId), (''version'', JNum 1), (''type'', JStr eventType),
               (''createdAt'', JStr (toISOString now)), (''data'', JObj (dx_data input))]
         in bind (insertDeliveries input eventId eventType payload matching) (\<lambda>deliveryIds.
            bind (deliverAll env (dx_applicationId input) (dx_mode input) deliveryIds) (\<lambda>succeeded.
            return \<lparr>dr_eventId = eventId, dr_matchedEndpoints = length matching,
              dr_attemptedDeliveries = length deliveryIds, dr_succeeded = succeeded\<rparr>)))))))"

lemmas delivery_service_defs [run_simps] = fetchImpl_def SECRET_PREFIX_def generateWebhookSecret_def signWebhookPayload_def
  normalizeWebhookName_def normalizeWebhookUrl_def normalizeWebhookEventTypes_def endpointView_def createWebhookEndpoint_def
  owned_active_def getActiveEndpoint_def rotateWebhookEndpointSecret_def disableWebhookEndpoint_def deliveryView_def
  joined_deliveries_def delivery_request_def settle_delivery_def performWebhookDelivery_def deliverWebhookDelivery_def
  PENDING_DELIVERY_STALE_AFTER_MS_def PENDING_DELIVERY_MAX_ATTEMPTS_def PENDING_DELIVERY_MAX_BACKOFF_MS_def
  pendingDeliveryBackoffMs_def is_due_def parkExhausted_def claimDelivery_def deliverClaimed_def sweepCandidate_def
  sweep_candidates_def sweepPendingWebhookDeliveries_def new_delivery_def createTestWebhookDelivery_def
  retryWebhookDelivery_def endpointAccepts_def matching_endpoints_def insertDeliveries_def deliverAll_def
  dispatchWebhookEvent_def

end
