(* ===== verification/DeliveryFacts.thy ===== *)
theory DeliveryFacts
  imports Deliveries Frames StateMachine
begin

text \<open>
  Facts about the developer webhooks: the frames of the outbox, its invariant (one endpoint per id,
  one delivery per id and per endpoint and event, every row within its columns), the machine of its
  operations, and what one attempt and one sweep do to a delivery.
\<close>

subsection \<open>Frames of the outbox\<close>

text \<open>\<open>mine\<close> are the ids of the deliveries the program may touch.\<close>

definition row_id :: "nat \<Rightarrow> string" where
  "row_id n = ''whd_'' @ string_of_nat n"

definition same_fact :: "webhook_delivery \<Rightarrow> webhook_delivery \<Rightarrow> bool" where
  "same_fact d d' \<longleftrightarrow> wd_id d' = wd_id d \<and> wd_endpointId d' = wd_endpointId d \<and> wd_eventId d' = wd_eventId d
     \<and> wd_createdAt d' = wd_createdAt d \<and> wd_payload d' = wd_payload d"

locale outbox_frame = frame R for R :: "outbox \<Rightarrow> outbox \<Rightarrow> bool" +
  fixes mine :: "string \<Rightarrow> bool"
  assumes random: "R s (s\<lparr>ob_random := Suc (ob_random s)\<rparr>)"
    and sent: "R s (s\<lparr>sentRequests := sentRequests s @ [q]\<rparr>)"
    and delivery_set: "(\<And>d. same_fact d (f d)) \<Longrightarrow> (\<And>d. P d \<Longrightarrow> mine (wd_id d)) \<Longrightarrow>
      list_all delivery_fits (map f (filter P (webhookDeliveries s))) \<Longrightarrow>
      list_all delivery_check (map f (filter P (webhookDeliveries s))) \<Longrightarrow>
      R s (webhookDeliveries_update (update_where P f) s)"
begin

lemma try_catch: "honours R m \<Longrightarrow> (\<And>e. honours R (h e)) \<Longrightarrow> honours R (try_catch m h)"
  unfolding honours_def try_catch_def by (auto split: prod.splits sum.splits) (metis snd_conv trans)+

lemma lifted: "honours R (lift_result r)"
  by (cases r) (simp_all add: lift_result_def)

lemma draws: "honours R random_value"
  by (simp add: honours_def random)

lemma posts: "honours R (fetchImpl env q)"
  by (simp add: honours_def fetchImpl_def sent)

lemma updates: "(\<And>d. same_fact d (f d)) \<Longrightarrow> (\<And>d. P d \<Longrightarrow> mine (wd_id d)) \<Longrightarrow> honours R (update_deliveries P f)"
  by (auto simp: honours_def update_deliveries_def update_rows_def Let_def refl intro: delivery_set)

lemma prod: "(\<And>a b. honours R (f a b)) \<Longrightarrow> honours R (case x of (a, b) \<Rightarrow> f a b)"
  by (cases x) simp

lemmas steps = compose try_catch pure lifted draws posts prod

lemma settle: "(\<And>d. same_fact d (f d)) \<Longrightarrow> mine i \<Longrightarrow> honours R (settle_delivery i name f)"
  unfolding settle_delivery_def by (intro steps updates) auto

lemma perform: "mine (wd_id (fst row)) \<Longrightarrow> honours R (performWebhookDelivery env row)"
  unfolding performWebhookDelivery_def Let_def case_prod_beta
  by (intro steps settle) (simp_all add: same_fact_def)

lemma found_then:
  assumes "honours R F" and "\<And>row. wd_id (fst row) = i \<Longrightarrow> honours R (G row)"
  shows "honours R (bind (gets (\<lambda>s. List.find (\<lambda>(d, e). wd_id d = i \<and> we_status e = EndpointActive) (joined_deliveries s)))
    (\<lambda>found. case found of None \<Rightarrow> F | Some row \<Rightarrow> G row))"
  using assms by (auto simp: honours_def bind_apply split: option.split dest!: find_SomeD)

lemma deliver_claimed: "mine (wd_id c) \<Longrightarrow> honours R (deliverClaimed env c counts)"
  unfolding deliverClaimed_def by (intro found_then steps updates perform) (simp_all add: same_fact_def)

lemma claim: "mine (wd_id c) \<Longrightarrow> honours R (claimDelivery now c)"
  unfolding claimDelivery_def by (intro updates) (simp_all add: same_fact_def)

lemma park: "mine (wd_id c) \<Longrightarrow> honours R (parkExhausted c)"
  unfolding parkExhausted_def by (intro updates) (simp_all add: same_fact_def)

lemma sweep_candidate: "mine (wd_id c) \<Longrightarrow> honours R (sweepCandidate env now counts c)"
  unfolding sweepCandidate_def by (intro steps claim park deliver_claimed)

end

text \<open>A frame for programs that touch every delivery, add rows and change endpoints.\<close>

locale outbox_machine_frame = outbox_frame R "\<lambda>_. True" for R :: "outbox \<Rightarrow> outbox \<Rightarrow> bool" +
  assumes delivery_new: "wd_id r = row_id n \<Longrightarrow> n < ob_random s \<Longrightarrow> delivery_fits r \<Longrightarrow> delivery_check r \<Longrightarrow>
      \<forall>d \<in> set (webhookDeliveries s). \<not> delivery_clash r d \<Longrightarrow> R s (webhookDeliveries_update (\<lambda>ds. ds @ [r]) s)"
    and endpoint_new: "\<forall>e' \<in> set (webhookEndpoints s). we_id e' \<noteq> we_id e \<Longrightarrow> R s (webhookEndpoints_update (\<lambda>es. es @ [e]) s)"
    and endpoint_set: "(\<And>e. we_id (g e) = we_id e) \<Longrightarrow> R s (webhookEndpoints_update (update_where Q g) s)"
begin

lemma sweep: "honours R (sweepPendingWebhookDeliveries env options)"
  unfolding sweepPendingWebhookDeliveries_def by (intro steps sweep_candidate) simp

lemma deliver: "honours R (deliverWebhookDelivery env applicationId mode i)"
  unfolding deliverWebhookDelivery_def by (intro steps updates perform) (simp_all add: same_fact_def)

lemma retry: "honours R (retryWebhookDelivery env applicationId mode i)"
  unfolding retryWebhookDelivery_def by (intro steps deliver)

lemma deliver_all: "honours R (deliverAll env applicationId mode ids)"
  unfolding deliverAll_def by (intro steps deliver)

lemma new_row:
  "(\<And>n. wd_id (F n) = row_id n) \<Longrightarrow> (\<And>d. honours R (G d)) \<Longrightarrow>
   honours R (bind random_value (\<lambda>n. bind (insert_delivery (F n)) G))"
proof -
  assume F: "\<And>n. wd_id (F n) = row_id n" and G: "\<And>d. honours R (G d)"
  have "R (s\<lparr>ob_random := Suc (ob_random s)\<rparr>)
      (webhookDeliveries_update (\<lambda>ds. ds @ [F (ob_random s)]) (s\<lparr>ob_random := Suc (ob_random s)\<rparr>))"
    if "delivery_fits (F (ob_random s))" "delivery_check (F (ob_random s))"
      "\<forall>d \<in> set (webhookDeliveries s). \<not> delivery_clash (F (ob_random s)) d" for s
    using that F by (intro delivery_new [where n = "ob_random s"]) simp_all
  then have "honours R (bind random_value (\<lambda>n. insert_delivery (F n)))"
    by (auto simp: honours_def insert_delivery_def insert_row_def bind_apply intro: random trans [OF random])
  moreover have "bind random_value (\<lambda>n. bind (insert_delivery (F n)) G)
      = bind (bind random_value (\<lambda>n. insert_delivery (F n))) G"
    by (auto simp: fun_eq_iff bind_apply split: prod.splits sum.splits)
  ultimately show ?thesis using G by (metis bind)
qed

lemma new_row_or_none:
  "(\<And>n now. wd_id (F n now) = row_id n) \<Longrightarrow> (\<And>d. honours R (G d)) \<Longrightarrow>
   honours R (bind random_value (\<lambda>n. bind (gets ob_clock) (\<lambda>now. bind (insert_delivery_or_ignore (F n now)) G)))"
proof -
  assume F: "\<And>n now. wd_id (F n now) = row_id n" and G: "\<And>d. honours R (G d)"
  have "R (s\<lparr>ob_random := Suc (ob_random s)\<rparr>)
      (webhookDeliveries_update (\<lambda>ds. ds @ [F (ob_random s) (ob_clock s)]) (s\<lparr>ob_random := Suc (ob_random s)\<rparr>))"
    if "delivery_fits (F (ob_random s) (ob_clock s))" "delivery_check (F (ob_random s) (ob_clock s))"
      "\<forall>d \<in> set (webhookDeliveries s). \<not> delivery_clash (F (ob_random s) (ob_clock s)) d" for s
    using that F by (intro delivery_new [where n = "ob_random s"]) simp_all
  then have "honours R (bind random_value (\<lambda>n. bind (gets ob_clock) (\<lambda>now. insert_delivery_or_ignore (F n now))))"
    by (auto simp: honours_def insert_delivery_or_ignore_def insert_or_ignore_def bind_apply intro: random trans [OF random])
  moreover have "bind random_value (\<lambda>n. bind (gets ob_clock) (\<lambda>now. bind (insert_delivery_or_ignore (F n now)) G))
      = bind (bind random_value (\<lambda>n. bind (gets ob_clock) (\<lambda>now. insert_delivery_or_ignore (F n now)))) G"
    by (auto simp: fun_eq_iff bind_apply split: prod.splits sum.splits)
  ultimately show ?thesis using G by (metis bind)
qed

lemma insert_deliveries: "honours R (insertDeliveries input eventId eventType payload es)"
  unfolding insertDeliveries_def by (intro for_loop new_row_or_none) (simp_all add: new_delivery_def row_id_def)

lemma dispatch: "honours R (dispatchWebhookEvent env input)"
  unfolding dispatchWebhookEvent_def Let_def by (intro steps insert_deliveries deliver_all)

lemma secret: "honours R (generateWebhookSecret env)"
  unfolding generateWebhookSecret_def Let_def by (intro steps)

lemma active_endpoint: "honours R (getActiveEndpoint applicationId mode i)"
  unfolding getActiveEndpoint_def by (intro steps)

lemma test_delivery: "honours R (createTestWebhookDelivery env applicationId mode i)"
  unfolding createTestWebhookDelivery_def Let_def
  by (intro steps active_endpoint new_row deliver) (simp_all add: new_delivery_def row_id_def)

lemma update_endpoints: "(\<And>e. we_id (g e) = we_id e) \<Longrightarrow> honours R (update_endpoints Q g)"
  unfolding update_endpoints_def by (rule update_rows_kept) (simp_all add: endpoint_set refl)

lemma rotate: "honours R (rotateWebhookEndpointSecret env applicationId mode i)"
  unfolding rotateWebhookEndpointSecret_def by (intro steps secret active_endpoint update_endpoints) simp

lemma disable: "honours R (disableWebhookEndpoint applicationId mode i)"
  unfolding disableWebhookEndpoint_def by (intro steps update_endpoints) simp

lemma create: "honours R (createWebhookEndpoint env applicationId mode input)"
proof -
  have "honours R (insert_endpoint e)" for e
    by (auto simp: honours_def insert_endpoint_def insert_row_def refl intro!: endpoint_new)
  then show ?thesis
    unfolding createWebhookEndpoint_def normalizeWebhookName_def normalizeWebhookUrl_def normalizeWebhookEventTypes_def Let_def
    by (intro steps secret)
qed

end

subsection \<open>The invariant and the machine\<close>

definition outbox_inv :: "outbox \<Rightarrow> bool" where
  "outbox_inv s \<longleftrightarrow> distinct (map we_id (webhookEndpoints s)) \<and> distinct (map wd_id (webhookDeliveries s))
     \<and> distinct (map (\<lambda>d. (wd_endpointId d, wd_eventId d)) (webhookDeliveries s))
     \<and> list_all delivery_fits (webhookDeliveries s) \<and> list_all delivery_check (webhookDeliveries s)
     \<and> (\<forall>d \<in> set (webhookDeliveries s). \<exists>n < ob_random s. wd_id d = row_id n)"

definition outbox_later :: "outbox \<Rightarrow> outbox \<Rightarrow> bool" where
  "outbox_later s t \<longleftrightarrow> ob_clock s \<le> ob_clock t \<and> table_kept same_fact (webhookDeliveries s) (webhookDeliveries t)
     \<and> (\<exists>qs. sentRequests t = sentRequests s @ qs)"

lemma same_fact_refl [simp]: "same_fact d d"
  by (simp add: same_fact_def)

lemma list_all_updated: "list_all P xs \<Longrightarrow> list_all P (map f (filter Q xs)) \<Longrightarrow> list_all P (update_where Q f xs)"
  by (induction xs) (auto simp: update_where_def)

lemma same_fact_keys:
  assumes "\<And>d. same_fact d (f d)"
  shows "map wd_id (update_where P f ds) = map wd_id ds"
    and "map (\<lambda>d. (wd_endpointId d, wd_eventId d)) (update_where P f ds) = map (\<lambda>d. (wd_endpointId d, wd_eventId d)) ds"
  using assms by (simp_all add: map_update_where_same same_fact_def)

interpretation outbox_kept: frame outbox_later
  by unfold_locales (auto simp: outbox_later_def table_kept_refl intro: table_kept_trans simp: same_fact_def)

interpretation outbox_kept: outbox_frame outbox_later "\<lambda>_. True"
  by unfold_locales (auto simp: outbox_later_def intro: table_kept_refl table_kept_update)

interpretation outbox_kept: outbox_machine_frame outbox_later
  by unfold_locales (auto simp: outbox_later_def intro: table_kept_refl)

text \<open>Keeping the invariant is a frame too.\<close>

definition inv_kept :: "outbox \<Rightarrow> outbox \<Rightarrow> bool" where
  "inv_kept s t \<longleftrightarrow> (outbox_inv s \<longrightarrow> outbox_inv t)"

lemma inv_kept_rows:
  assumes same: "\<And>d. same_fact d (f d)" and "list_all delivery_fits (map f (filter P (webhookDeliveries s)))"
    and "list_all delivery_check (map f (filter P (webhookDeliveries s)))"
  shows "inv_kept s (webhookDeliveries_update (update_where P f) s)"
proof -
  have "\<exists>n < ob_random s. wd_id r = row_id n"
    if "\<forall>d \<in> set (webhookDeliveries s). \<exists>n < ob_random s. wd_id d = row_id n" "r \<in> set (update_where P f (webhookDeliveries s))" for r
    using that same by (fastforce simp: update_where_def same_fact_def)
  with assms show ?thesis
    by (simp add: inv_kept_def outbox_inv_def same_fact_keys [OF same] list_all_updated)
qed

interpretation outbox_safe: frame inv_kept
  by unfold_locales (auto simp: inv_kept_def)

interpretation outbox_safe: outbox_frame inv_kept "\<lambda>_. True"
proof unfold_locales
  fix s :: outbox show "inv_kept s (s\<lparr>ob_random := Suc (ob_random s)\<rparr>)"
    by (auto simp: inv_kept_def outbox_inv_def less_Suc_eq)
next
  fix s :: outbox and q show "inv_kept s (s\<lparr>sentRequests := sentRequests s @ [q]\<rparr>)"
    by (simp add: inv_kept_def outbox_inv_def)
qed (rule inv_kept_rows)

interpretation outbox_safe: outbox_machine_frame inv_kept
proof unfold_locales
  fix r :: webhook_delivery and n and s :: outbox assume "wd_id r = row_id n" "n < ob_random s" "delivery_fits r" "delivery_check r"
    "\<forall>d \<in> set (webhookDeliveries s). \<not> delivery_clash r d"
  then show "inv_kept s (webhookDeliveries_update (\<lambda>ds. ds @ [r]) s)"
    by (auto simp: inv_kept_def outbox_inv_def delivery_clash_def image_iff)
next
  fix s :: outbox and e :: webhook_endpoint assume "\<forall>e' \<in> set (webhookEndpoints s). we_id e' \<noteq> we_id e"
  then show "inv_kept s (webhookEndpoints_update (\<lambda>es. es @ [e]) s)"
    by (auto simp: inv_kept_def outbox_inv_def)
next
  fix s :: outbox and Q and g :: "webhook_endpoint \<Rightarrow> webhook_endpoint" assume "\<And>e. we_id (g e) = we_id e"
  then show "inv_kept s (webhookEndpoints_update (update_where Q g) s)"
    by (simp add: inv_kept_def outbox_inv_def map_update_where_same)
qed

text \<open>The machine of the service. The claim of a candidate, its delivery and its parking are steps
  too, so other operations, another sweep among them, come between them; a dispatch may die after
  it inserted its deliveries, and before it delivered them.\<close>

inductive outbox_step :: "delivery_env \<Rightarrow> outbox \<Rightarrow> outbox \<Rightarrow> bool" for env where
  creates: "createWebhookEndpoint env app mode input s = (r, t) \<Longrightarrow> outbox_step env s t"
| rotates: "rotateWebhookEndpointSecret env app mode i s = (r, t) \<Longrightarrow> outbox_step env s t"
| disables: "disableWebhookEndpoint app mode i s = (r, t) \<Longrightarrow> outbox_step env s t"
| tests: "createTestWebhookDelivery env app mode i s = (r, t) \<Longrightarrow> outbox_step env s t"
| retries: "retryWebhookDelivery env app mode i s = (r, t) \<Longrightarrow> outbox_step env s t"
| dispatches: "dispatchWebhookEvent env event s = (r, t) \<Longrightarrow> outbox_step env s t"
| dies: "insertDeliveries event i ty payload (matching_endpoints event ty s) s = (r, t) \<Longrightarrow> outbox_step env s t"
| sweeps: "sweepPendingWebhookDeliveries env options s = (r, t) \<Longrightarrow> outbox_step env s t"
| claims: "claimDelivery now c s = (r, t) \<Longrightarrow> outbox_step env s t"
| delivers: "deliverClaimed env c counts s = (r, t) \<Longrightarrow> outbox_step env s t"
| parks: "parkExhausted c s = (r, t) \<Longrightarrow> outbox_step env s t"
| elsewhere: "ob_clock s \<le> c \<Longrightarrow> outbox_step env s (s\<lparr>ob_clock := c, ob_applications := ob_applications s @ apps\<rparr>)"

definition outbox_init :: "outbox \<Rightarrow> bool" where
  "outbox_init s \<longleftrightarrow> webhookEndpoints s = [] \<and> webhookDeliveries s = [] \<and> sentRequests s = []"

context outbox_machine_frame
begin

lemmas operations = create rotate disable test_delivery retry dispatch insert_deliveries sweep claim [OF TrueI] deliver_claimed [OF TrueI] park [OF TrueI]

lemma along_steps:
  assumes "outbox_step env s t"
    and "\<And>s c apps. ob_clock s \<le> c \<Longrightarrow> R s (s\<lparr>ob_clock := c, ob_applications := ob_applications s @ apps\<rparr>)"
  shows "R s t"
  using assms by cases (blast intro: operations [THEN honoursD])+

end

interpretation outbox: invariant_system outbox_init "outbox_step env" outbox_inv outbox_later
proof unfold_locales
  fix s assume "outbox_init s"
  then show "outbox_inv s" by (simp add: outbox_init_def outbox_inv_def)
next
  fix s t assume "outbox_inv s" "outbox_step env s t"
  then show "outbox_inv t"
    using outbox_safe.along_steps [of env s t] by (auto simp: inv_kept_def outbox_inv_def)
next
  fix s t assume "outbox_step env s t"
  then show "outbox_later s t"
    by (rule outbox_kept.along_steps) (simp add: outbox_later_def table_kept_refl)
qed (rule outbox_kept.refl, rule outbox_kept.trans)

end
