(* ===== verification/DeliverySweep.thy ===== *)
theory DeliverySweep
  imports DeliveryFacts
begin

text \<open>
  What an attempt does to its delivery, and what a sweep does to the pending ones: every candidate
  that is due is settled, or its attempt is counted.
\<close>

subsection \<open>Only one delivery is touched\<close>

definition others :: "string \<Rightarrow> outbox \<Rightarrow> outbox \<Rightarrow> bool" where
  "others i s t \<longleftrightarrow> filter (\<lambda>d. wd_id d \<noteq> i) (webhookDeliveries t) = filter (\<lambda>d. wd_id d \<noteq> i) (webhookDeliveries s)
     \<and> webhookEndpoints t = webhookEndpoints s \<and> ob_clock t = ob_clock s"

lemma filter_others:
  "(\<And>d. same_fact d (f d)) \<Longrightarrow> (\<And>d. P d \<Longrightarrow> wd_id d = i) \<Longrightarrow>
   filter (\<lambda>d. wd_id d \<noteq> i) (update_where P f ds) = filter (\<lambda>d. wd_id d \<noteq> i) ds"
  by (induction ds) (auto simp: same_fact_def)

interpretation others: frame "others i"
  by unfold_locales (auto simp: others_def)

interpretation others: outbox_frame "others i" "\<lambda>j. j = i"
  by unfold_locales (auto simp: others_def intro: filter_others)

lemma others_mem: "others i s t \<Longrightarrow> wd_id d \<noteq> i \<Longrightarrow> d \<in> set (webhookDeliveries t) \<longleftrightarrow> d \<in> set (webhookDeliveries s)"
proof -
  assume o: "others i s t" and d: "wd_id d \<noteq> i"
  have "d \<in> set xs \<longleftrightarrow> d \<in> set (filter (\<lambda>d. wd_id d \<noteq> i) xs)" for xs using d by simp
  from this [of "webhookDeliveries s"] this [of "webhookDeliveries t"] show ?thesis
    using o by (simp only: others_def)
qed

subsection \<open>One attempt\<close>

definition settled :: "string \<Rightarrow> outbox \<Rightarrow> bool" where
  "settled i t \<longleftrightarrow> (\<forall>d \<in> set (webhookDeliveries t). wd_id d = i \<longrightarrow> wd_status d \<noteq> DeliveryPending)"

lemma settle_run:
  assumes "settle_delivery i name f s = (r, t)"
  shows "t = s \<and> (\<exists>e. r = Inl e) \<and> \<not> (list_all delivery_fits (map f (filter (\<lambda>d. wd_id d = i) (webhookDeliveries s)))
      \<and> list_all delivery_check (map f (filter (\<lambda>d. wd_id d = i) (webhookDeliveries s))))
    \<or> t = webhookDeliveries_update (update_where (\<lambda>d. wd_id d = i) f) s"
  using assms by (auto simp: settle_delivery_def update_deliveries_def update_rows_def Let_def bind_apply require_apply
      split: if_splits option.splits)

lemma settled_update:
  "(\<And>d. wd_id (f d) = wd_id d \<and> wd_status (f d) \<noteq> DeliveryPending) \<Longrightarrow>
   settled i (webhookDeliveries_update (update_where (\<lambda>d. wd_id d = i) f) s)"
  by (auto simp: settled_def update_where_def)

lemma inv_rows: "outbox_inv s \<Longrightarrow> d \<in> set (webhookDeliveries s) \<Longrightarrow> delivery_fits d \<and> delivery_check d"
  by (auto simp: outbox_inv_def list_all_iff)

lemma fail_settles:
  assumes "outbox_inv s"
    and "settle_delivery i name (\<lambda>d. d\<lparr>wd_status := DeliveryFailed, wd_responseStatus := None, wd_errorMessage := m\<rparr>) s = (r, t)"
  shows "settled i t"
proof -
  let ?f = "\<lambda>d. d\<lparr>wd_status := DeliveryFailed, wd_responseStatus := None, wd_errorMessage := m\<rparr>"
  have "t = webhookDeliveries_update (update_where (\<lambda>d. wd_id d = i) ?f) s"
    using settle_run [OF assms(2)] inv_rows [OF assms(1)]
    by (auto simp: list_all_iff delivery_fits_def delivery_check_def)
  then show ?thesis by (simp add: settled_update)
qed

lemma attempt_settles:
  assumes inv: "outbox_inv s" and run: "performWebhookDelivery env (d, e) s = (r, t)"
    and dec: "de_decrypt env (we_secretCiphertext e) = Inr secret"
  shows "settled (wd_id d) t"
proof -
  let ?q = "delivery_request env d e secret (ob_clock s)"
  let ?u = "s\<lparr>sentRequests := sentRequests s @ [?q]\<rparr>"
  let ?fail = "\<lambda>err. settle_delivery (wd_id d) (we_name e) (\<lambda>d. d\<lparr>wd_status := DeliveryFailed, wd_responseStatus := None,
    wd_errorMessage := Some (take 1000 (error_message (de_driver env) err))\<rparr>)"
  have u: "outbox_inv ?u" using inv by (simp add: outbox_inv_def)
  show ?thesis
  proof (cases "de_fetch env ?q (length (sentRequests s))")
    case (Inl err)
    then have "?fail err ?u = (r, t)"
      using run dec by (simp add: performWebhookDelivery_def lift_result_def bind_apply try_catch_apply fetchImpl_def)
    with u show ?thesis by (rule fail_settles)
  next
    case (Inr status)
    let ?f = "\<lambda>d. d\<lparr>wd_status := (if 200 \<le> status \<and> status \<le> 299 then DeliverySucceeded else DeliveryFailed),
      wd_responseStatus := Some status,
      wd_errorMessage := (if 200 \<le> status \<and> status \<le> 299 then None
        else Some (''Endpoint returned HTTP '' @ string_of_int status)),
      wd_deliveredAt := (if 200 \<le> status \<and> status \<le> 299 then Some (ob_clock s) else None)\<rparr>"
    obtain x v where x: "settle_delivery (wd_id d) (we_name e) ?f ?u = (x, v)" by (cases "settle_delivery (wd_id d) (we_name e) ?f ?u")
    have v: "outbox_inv v"
      using honoursD [OF outbox_safe.settle x] u by (auto simp: same_fact_def inv_kept_def)
    have run': "(case x of Inl err \<Rightarrow> ?fail err v | Inr a \<Rightarrow> (Inr a, v)) = (r, t)"
      using run dec Inr x
      by (simp add: performWebhookDelivery_def lift_result_def bind_apply try_catch_apply fetchImpl_def Let_def split: sum.splits)
    show ?thesis
    proof (cases x)
      case (Inl err)
      with run' v show ?thesis by (auto intro: fail_settles)
    next
      case (Inr a)
      then have "t = v" using run' by simp
      moreover have "settled (wd_id d) v"
        using settle_run [OF x] Inr by (auto intro: settled_update)
      ultimately show ?thesis by simp
    qed
  qed
qed

lemma attempt_undeciphered:
  "performWebhookDelivery env (d, e) s = (r, t) \<Longrightarrow> de_decrypt env (we_secretCiphertext e) = Inl err \<Longrightarrow> t = s"
  by (simp add: performWebhookDelivery_def lift_result_def bind_apply)

subsection \<open>One candidate of a sweep\<close>

definition claimed_row :: "int \<Rightarrow> webhook_delivery \<Rightarrow> webhook_delivery" where
  "claimed_row now c = c\<lparr>wd_attemptCount := wd_attemptCount c + 1, wd_responseStatus := None, wd_errorMessage := None,
     wd_lastAttemptAt := Some now\<rparr>"

lemma pending_rows:
  assumes "outbox_inv s" and "c \<in> set (webhookDeliveries s)" and "wd_status c = DeliveryPending"
  shows "filter (\<lambda>d. wd_id d = wd_id c \<and> wd_status d = DeliveryPending) (webhookDeliveries s) = [c]"
proof -
  have "filter (\<lambda>d. wd_id d = wd_id c) (webhookDeliveries s) = [c]"
    using assms by (intro filter_keyed) (simp_all add: outbox_inv_def)
  moreover have "filter (\<lambda>d. wd_id d = wd_id c \<and> wd_status d = DeliveryPending) (webhookDeliveries s)
      = filter (\<lambda>d. wd_status d = DeliveryPending) (filter (\<lambda>d. wd_id d = wd_id c) (webhookDeliveries s))"
    by simp
  ultimately show ?thesis using assms(3) by simp
qed

lemma claim_run:
  assumes "outbox_inv s" and "c \<in> set (webhookDeliveries s)" and "wd_status c = DeliveryPending"
    and "wd_attemptCount c < PENDING_DELIVERY_MAX_ATTEMPTS"
  shows "claimDelivery now c s = (Inr [claimed_row now c],
      webhookDeliveries_update (update_where (\<lambda>d. wd_id d = wd_id c \<and> wd_status d = DeliveryPending)
        (\<lambda>d. d\<lparr>wd_attemptCount := wd_attemptCount c + 1, wd_responseStatus := None, wd_errorMessage := None,
               wd_lastAttemptAt := Some now\<rparr>)) s)"
  using pending_rows [OF assms(1-3)] inv_rows [OF assms(1,2)] assms(4)
  by (simp add: claimDelivery_def update_deliveries_def update_rows_def claimed_row_def delivery_fits_def delivery_check_def
      fits_integer_def PENDING_DELIVERY_MAX_ATTEMPTS_def)

lemma claim_rows:
  assumes "outbox_inv s" and "c \<in> set (webhookDeliveries s)" and "wd_status c = DeliveryPending"
    and "claimDelivery now c s = (Inr rows, t)" and "wd_attemptCount c < PENDING_DELIVERY_MAX_ATTEMPTS"
  shows "d \<in> set (webhookDeliveries t) \<Longrightarrow> wd_id d = wd_id c \<Longrightarrow> d = claimed_row now c"
    and "claimed_row now c \<in> set (webhookDeliveries t)"
proof -
  have t: "t = webhookDeliveries_update (update_where (\<lambda>d. wd_id d = wd_id c \<and> wd_status d = DeliveryPending)
        (\<lambda>d. d\<lparr>wd_attemptCount := wd_attemptCount c + 1, wd_responseStatus := None, wd_errorMessage := None,
               wd_lastAttemptAt := Some now\<rparr>)) s"
    using claim_run [OF assms(1-3,5), of now] assms(4) by simp
  have keys: "distinct (map wd_id (webhookDeliveries s))" using assms(1) by (simp add: outbox_inv_def)
  show "d = claimed_row now c" if "d \<in> set (webhookDeliveries t)" "wd_id d = wd_id c"
    using that assms(2,3) distinct_key_eq [OF keys _ assms(2)] by (auto simp: t update_where_def claimed_row_def)
  show "claimed_row now c \<in> set (webhookDeliveries t)"
    using assms(2,3) by (auto simp: t update_where_def claimed_row_def intro!: image_eqI [where x = c])
qed

lemma sweep_one:
  assumes inv: "outbox_inv s" and c: "c \<in> set (webhookDeliveries s)" "wd_status c = DeliveryPending"
    and due: "PENDING_DELIVERY_MAX_ATTEMPTS \<le> wd_attemptCount c \<or> is_due now c"
    and run: "sweepCandidate env now counts c s = (r, t)"
  shows "(\<exists>a. r = Inr a) \<and> (settled (wd_id c) t \<or> wd_attemptCount c < PENDING_DELIVERY_MAX_ATTEMPTS
    \<and> (\<forall>d \<in> set (webhookDeliveries t). wd_id d = wd_id c \<longrightarrow> d = claimed_row now c))"
proof (cases "PENDING_DELIVERY_MAX_ATTEMPTS \<le> wd_attemptCount c")
  case True
  have keys: "distinct (map wd_id (webhookDeliveries s))" using inv by (simp add: outbox_inv_def)
  obtain x y where "counts = (x, y)" by (cases counts)
  with True run have "(\<exists>a. r = Inr a) \<and> settled (wd_id c) t"
    using pending_rows [OF inv c] inv_rows [OF inv c(1)] distinct_key_eq [OF keys _ c(1)] c(2)
    by (auto simp: sweepCandidate_def parkExhausted_def update_deliveries_def update_rows_def bind_apply
        delivery_fits_def delivery_check_def settled_def update_where_def)
  then show ?thesis by simp
next
  case False
  then have few: "wd_attemptCount c < PENDING_DELIVERY_MAX_ATTEMPTS" by simp
  obtain x y where counts: "counts = (x, y)" by (cases counts)
  obtain s1 where claim: "claimDelivery now c s = (Inr [claimed_row now c], s1)" using claim_run [OF inv c few] by blast
  then have rest: "deliverClaimed env c (x, y) s1 = (r, t)"
    using run due few counts by (simp add: sweepCandidate_def bind_apply)
  have inv1: "outbox_inv s1"
    using honoursD [OF outbox_safe.claim [OF TrueI] claim] inv by (simp add: inv_kept_def)
  let ?hit = "List.find (\<lambda>(d, e). wd_id d = wd_id c \<and> we_status e = EndpointActive) (joined_deliveries s1)"
  show ?thesis
  proof (cases ?hit)
    case None
    then have "(\<exists>a. r = Inr a) \<and> settled (wd_id c) t"
      using rest inv_rows [OF inv1]
      by (auto simp: deliverClaimed_def bind_apply update_deliveries_def update_rows_def Let_def list_all_iff
          delivery_fits_def delivery_check_def split: if_splits intro: settled_update)
    then show ?thesis by simp
  next
    case (Some row)
    then obtain d e where row: "row = (d, e)" "wd_id d = wd_id c" by (cases row) (auto dest: find_SomeD)
    obtain z v where perform: "performWebhookDelivery env (d, e) s1 = (z, v)" by (cases "performWebhookDelivery env (d, e) s1")
    then have "(\<exists>a. r = Inr a) \<and> t = v"
      using rest Some row by (auto simp: deliverClaimed_def bind_apply try_catch_apply split: sum.splits)
    moreover have "settled (wd_id c) v \<or> v = s1"
      using attempt_settles [OF inv1 perform] attempt_undeciphered [OF perform] row(2)
      by (cases "de_decrypt env (we_secretCiphertext e)") auto
    ultimately show ?thesis using claim_rows(1) [OF inv c claim few] few by blast
  qed
qed

subsection \<open>A sweep, and one sweep after another\<close>

lemma sweep_loop:
  assumes "outbox_inv s" and "distinct (map wd_id cs)"
    and "\<forall>c \<in> set cs. c \<in> set (webhookDeliveries s) \<and> wd_status c = DeliveryPending
      \<and> (PENDING_DELIVERY_MAX_ATTEMPTS \<le> wd_attemptCount c \<or> is_due now c)"
    and "for_loop (sweepCandidate env now) acc cs s = (r, t)"
  shows "(\<exists>a. r = Inr a) \<and> (\<forall>d \<in> set (webhookDeliveries t). wd_status d = DeliveryPending \<longrightarrow>
      d \<in> set (webhookDeliveries s) \<and> wd_id d \<notin> wd_id ` set cs
      \<or> (\<exists>c \<in> set cs. wd_attemptCount c < PENDING_DELIVERY_MAX_ATTEMPTS \<and> d = claimed_row now c))"
  using assms
proof (induction cs arbitrary: s acc)
  case Nil
  then show ?case by (cases acc) auto
next
  case (Cons c cs)
  obtain x s1 where one: "sweepCandidate env now acc c s = (x, s1)" by (cases "sweepCandidate env now acc c s")
  from Cons.prems have c: "c \<in> set (webhookDeliveries s)" "wd_status c = DeliveryPending"
    "PENDING_DELIVERY_MAX_ATTEMPTS \<le> wd_attemptCount c \<or> is_due now c" by simp_all
  note first = sweep_one [OF Cons.prems(1) c one]
  then obtain a where a: "x = Inr a" by blast
  have inv1: "outbox_inv s1"
    using honoursD [OF outbox_safe.sweep_candidate [OF TrueI] one] Cons.prems(1) by (simp add: inv_kept_def)
  have o: "others (wd_id c) s s1" using honoursD [OF others.sweep_candidate one] by simp
  have rest: "\<forall>d \<in> set cs. d \<in> set (webhookDeliveries s1) \<and> wd_status d = DeliveryPending
      \<and> (PENDING_DELIVERY_MAX_ATTEMPTS \<le> wd_attemptCount d \<or> is_due now d)"
    using Cons.prems(2,3) others_mem [OF o] by (auto simp: image_iff)
  have run: "for_loop (sweepCandidate env now) a cs s1 = (r, t)" using Cons.prems(4) one a by (simp add: bind_apply)
  note ih = Cons.IH [OF inv1 _ rest run]
  have "d \<in> set (webhookDeliveries s) \<and> wd_id d \<noteq> wd_id c \<or> wd_attemptCount c < PENDING_DELIVERY_MAX_ATTEMPTS \<and> d = claimed_row now c"
    if "d \<in> set (webhookDeliveries s1)" "wd_status d = DeliveryPending" for d
    using that first others_mem [OF o, of d] by (cases "wd_id d = wd_id c") (auto simp: settled_def)
  then show ?case using ih Cons.prems(2) by auto
qed

abbreviation pending :: "outbox \<Rightarrow> webhook_delivery list" where
  "pending s \<equiv> filter (\<lambda>d. wd_status d = DeliveryPending) (webhookDeliveries s)"

definition sweep_at :: "delivery_env \<Rightarrow> nat \<Rightarrow> int \<Rightarrow> (outbox, sweep_result) prog" where
  "sweep_at env limit now = sweepPendingWebhookDeliveries env \<lparr>so_now = Some now, so_limit = Some limit\<rparr>"

lemma sweep_all:
  assumes inv: "outbox_inv s" and few: "length (pending s) \<le> limit"
    and due: "\<forall>d \<in> set (pending s). PENDING_DELIVERY_MAX_ATTEMPTS \<le> wd_attemptCount d \<or> is_due now d"
  obtains a t where "sweep_at env limit now s = (Inr a, t)"
    and "\<forall>d \<in> set (pending t). \<exists>c \<in> set (pending s). wd_attemptCount c < PENDING_DELIVERY_MAX_ATTEMPTS \<and> d = claimed_row now c"
    and "outbox_inv t" and "length (pending t) \<le> length (pending s)"
proof -
  let ?cs = "sweep_candidates limit s"
  have cs: "set ?cs = set (pending s)" using few by (simp add: sweep_candidates_def)
  have "distinct (map wd_id (pending s))" using inv by (simp add: outbox_inv_def distinct_map_filter)
  then have keys: "distinct (map wd_id ?cs)" using few by (auto simp: sweep_candidates_def distinct_map)
  obtain r t where run: "for_loop (sweepCandidate env now) (0, 0) ?cs s = (r, t)"
    by (cases "for_loop (sweepCandidate env now) (0, 0) ?cs s")
  have loop: "(\<exists>a. r = Inr a) \<and> (\<forall>d \<in> set (webhookDeliveries t). wd_status d = DeliveryPending \<longrightarrow>
      d \<in> set (webhookDeliveries s) \<and> wd_id d \<notin> wd_id ` set ?cs
      \<or> (\<exists>c \<in> set ?cs. wd_attemptCount c < PENDING_DELIVERY_MAX_ATTEMPTS \<and> d = claimed_row now c))"
    using due by (intro sweep_loop [OF inv keys _ run]) (auto simp: cs)
  then obtain x y where a: "r = Inr (x, y)" by auto
  have sweep: "sweep_at env limit now s = (Inr \<lparr>sw_swept = length ?cs, sw_delivered = x, sw_parked = y\<rparr>, t)"
    using run a by (simp add: sweep_at_def sweepPendingWebhookDeliveries_def bind_apply)
  have inv_t: "outbox_inv t"
    using honoursD [OF outbox_safe.sweep sweep [unfolded sweep_at_def]] inv by (simp add: inv_kept_def)
  have kept: "table_kept same_fact (webhookDeliveries s) (webhookDeliveries t)"
    using honoursD [OF outbox_kept.sweep sweep [unfolded sweep_at_def]] by (simp add: outbox_later_def)
  have next_pending: "\<exists>c \<in> set (pending s). wd_attemptCount c < PENDING_DELIVERY_MAX_ATTEMPTS \<and> d = claimed_row now c"
    if d: "d \<in> set (pending t)" for d
  proof -
    have "\<not> (d \<in> set (webhookDeliveries s) \<and> wd_id d \<notin> wd_id ` set ?cs)"
      using d by (auto simp: cs)
    then show ?thesis using loop d cs by auto
  qed
  have "set (map wd_id (pending t)) \<subseteq> set (map wd_id (pending s))"
    using next_pending by (force simp: claimed_row_def)
  moreover have "distinct (map wd_id (pending t))" using inv_t by (simp add: outbox_inv_def distinct_map_filter)
  ultimately have "length (pending t) \<le> length (pending s)"
    using card_mono [of "set (map wd_id (pending s))" "set (map wd_id (pending t))"]
      distinct_card [of "map wd_id (pending t)"] card_length [of "map wd_id (pending s)"] by simp
  with that sweep next_pending inv_t show thesis by blast
qed

definition sweeps :: "delivery_env \<Rightarrow> nat \<Rightarrow> int list \<Rightarrow> (outbox, unit) prog" where
  "sweeps env limit ticks = for_loop (\<lambda>_ now. bind (sweep_at env limit now) (\<lambda>_. return ())) () ticks"

lemma due_again: "t + PENDING_DELIVERY_MAX_BACKOFF_MS \<le> now \<Longrightarrow> is_due now (claimed_row t c)"
  by (simp add: is_due_def claimed_row_def pendingDeliveryBackoffMs_def)

lemma sweeps_settle:
  assumes "outbox_inv s" and "length (pending s) \<le> limit"
    and "ticks \<noteq> [] \<Longrightarrow> \<forall>d \<in> set (pending s). is_due (hd ticks) d"
    and "\<forall>d \<in> set (pending s). k \<le> wd_attemptCount d" and "pending s = [] \<or> PENDING_DELIVERY_MAX_ATTEMPTS - k < int (length ticks)"
    and "sorted_wrt (\<lambda>a b. a + PENDING_DELIVERY_MAX_BACKOFF_MS \<le> b) ticks"
    and "pending s \<noteq> [] \<Longrightarrow> k \<le> PENDING_DELIVERY_MAX_ATTEMPTS"
  shows "\<exists>t. sweeps env limit ticks s = (Inr (), t) \<and> pending t = []"
  using assms
proof (induction ticks arbitrary: s k)
  case Nil
  have "pending s = []"
  proof (rule ccontr)
    assume "pending s \<noteq> []"
    then show False using Nil.prems(5,7) by simp
  qed
  then show ?case by (simp add: sweeps_def)
next
  case (Cons now ticks)
  obtain a t where run: "sweep_at env limit now s = (Inr a, t)"
    and next_pending: "\<forall>d \<in> set (pending t). \<exists>c \<in> set (pending s). wd_attemptCount c < PENDING_DELIVERY_MAX_ATTEMPTS \<and> d = claimed_row now c"
    and inv: "outbox_inv t" and fewer: "length (pending t) \<le> length (pending s)"
    using sweep_all [OF Cons.prems(1,2)] Cons.prems(3) by (metis list.distinct(1) list.sel(1))
  have less: "PENDING_DELIVERY_MAX_ATTEMPTS > k" if "pending t \<noteq> []"
    using that next_pending Cons.prems(4) by (cases "pending t") fastforce+
  have again: "ticks \<noteq> [] \<Longrightarrow> \<forall>d \<in> set (pending t). is_due (hd ticks) d"
    using next_pending Cons.prems(6) by (cases ticks) (auto intro: due_again)
  have counted: "\<forall>d \<in> set (pending t). k + 1 \<le> wd_attemptCount d"
    using next_pending Cons.prems(4) by (fastforce simp: claimed_row_def)
  have left: "pending t = [] \<or> PENDING_DELIVERY_MAX_ATTEMPTS - (k + 1) < int (length ticks)"
    using Cons.prems(5) fewer by (cases "pending s") auto
  have "\<exists>u. sweeps env limit ticks t = (Inr (), u) \<and> pending u = []"
    using Cons.IH [OF inv _ again counted left] Cons.prems(2,6) fewer less by fastforce
  then show ?case using run by (simp add: sweeps_def bind_apply)
qed

end
