(* ===== verification/DeliveryProperties.thy ===== *)
theory DeliveryProperties
  imports DeliverySweep
begin

text \<open>
  What the developer webhooks promise: no delivery stays pending for ever, an event reaches each
  endpoint as one delivery; and what they do not: two sweeps at once deliver the same event twice.
\<close>

subsection \<open>No delivery stays pending\<close>

text \<open>C21. No delivery stays pending for ever, whatever the endpoints answer: in a reachable state
  whose pending deliveries are due and fit into one sweep, nine sweeps an hour apart all return,
  and after them every delivery has succeeded or failed; none is lost.\<close>

theorem pending_deliveries_are_settled:
  assumes reach: "reachable outbox_init (outbox_step env) s" and fit: "length (pending s) \<le> limit"
    and due: "\<And>d. d \<in> set (pending s) \<Longrightarrow> is_due (hd ticks) d"
    and apart: "sorted_wrt (\<lambda>a b. a + PENDING_DELIVERY_MAX_BACKOFF_MS \<le> b) ticks" and nine: "length ticks = 9"
  shows "\<exists>t. sweeps env limit ticks s = (Inr (), t) \<and> table_kept same_fact (webhookDeliveries s) (webhookDeliveries t)
    \<and> (\<forall>d \<in> set (webhookDeliveries t). wd_status d \<noteq> DeliveryPending)"
proof -
  have inv: "outbox_inv s" using reach by (rule outbox.reachable_inv)
  have "\<forall>d \<in> set (pending s). 0 \<le> wd_attemptCount d" using inv_rows [OF inv] by (auto simp: delivery_check_def)
  moreover have "pending s = [] \<or> PENDING_DELIVERY_MAX_ATTEMPTS - 0 < int (length ticks)" "0 \<le> PENDING_DELIVERY_MAX_ATTEMPTS"
    by (simp_all add: nine PENDING_DELIVERY_MAX_ATTEMPTS_def)
  moreover have "\<forall>d \<in> set (pending s). is_due (hd ticks) d" using due by blast
  ultimately obtain t where t: "sweeps env limit ticks s = (Inr (), t)" "pending t = []"
    using sweeps_settle [OF inv fit _ _ _ apart, of 0 env] by blast
  have "honours outbox_later (sweeps env limit ticks)"
    unfolding sweeps_def sweep_at_def by (intro outbox_kept.steps outbox_kept.sweep)
  then have "table_kept same_fact (webhookDeliveries s) (webhookDeliveries t)"
    using t(1) by (auto simp: outbox_later_def dest: honoursD)
  moreover have "wd_status d \<noteq> DeliveryPending" if "d \<in> set (webhookDeliveries t)" for d
    using t(2) that by (auto simp: filter_empty_conv)
  ultimately show ?thesis using t(1) by blast
qed

subsection \<open>Two sweeps at once\<close>

lemma joined_row:
  assumes inv: "outbox_inv s" and d: "d \<in> set (webhookDeliveries s)"
    and e: "e \<in> set (webhookEndpoints s)" "we_id e = wd_endpointId d" "we_status e = EndpointActive"
  shows "List.find (\<lambda>(d', e'). wd_id d' = wd_id d \<and> we_status e' = EndpointActive) (joined_deliveries s) = Some (d, e)"
proof (rule find_unique)
  have keys: "distinct (map wd_id (webhookDeliveries s))" "distinct (map we_id (webhookEndpoints s))"
    using inv by (simp_all add: outbox_inv_def)
  show "(d, e) \<in> set (joined_deliveries s)" using d e(1,2) by (auto simp: joined_deliveries_def)
  fix y assume "y \<in> set (joined_deliveries s)" "(\<lambda>(d', e'). wd_id d' = wd_id d \<and> we_status e' = EndpointActive) y"
  then show "y = (d, e)"
    using distinct_key_eq [OF keys(1) _ d] distinct_key_eq [OF keys(2) _ e(1)] e(2)
    by (auto simp: joined_deliveries_def)
qed (use e(3) in simp)

text \<open>What a claimed delivery to an active endpoint sends, whatever its row's status.\<close>

lemma settle_sends: "settle_delivery i name f s = (r, t) \<Longrightarrow> sentRequests t = sentRequests s"
  by (drule settle_run) auto

lemma attempt_sends:
  assumes "performWebhookDelivery env (d, e) s = (r, t)" and "de_decrypt env (we_secretCiphertext e) = Inr secret"
  shows "sentRequests t = sentRequests s @ [delivery_request env d e secret (ob_clock s)]"
  using assms
  by (auto simp: performWebhookDelivery_def lift_result_def bind_apply try_catch_apply fetchImpl_def Let_def
      split: sum.splits prod.splits dest!: settle_sends)

lemma claimed_sends:
  assumes "outbox_inv s" and "d \<in> set (webhookDeliveries s)" and "wd_id d = wd_id c"
    and "e \<in> set (webhookEndpoints s)" "we_id e = wd_endpointId d" "we_status e = EndpointActive"
    and "de_decrypt env (we_secretCiphertext e) = Inr secret" and "deliverClaimed env c counts s = (r, t)"
  shows "sentRequests t = sentRequests s @ [delivery_request env d e secret (ob_clock s)]"
proof -
  obtain x y where "counts = (x, y)" by (cases counts)
  moreover obtain z v where "performWebhookDelivery env (d, e) s = (z, v)" by (cases "performWebhookDelivery env (d, e) s")
  ultimately show ?thesis
    using assms(8) joined_row [OF assms(1,2,4-6)] attempt_sends [OF _ assms(7), of d s z v] assms(3)
    by (auto simp: deliverClaimed_def bind_apply try_catch_apply split: sum.splits)
qed

text \<open>C23. The claim of a sweep does not keep another sweep away, although its comment says so: it
  leaves the row pending and does not compare the backoff, so two sweeps that read the same due
  delivery both claim it, the row counts one attempt, and both send it, the second one also when
  the first was answered with success: the endpoint gets the same request twice.\<close>

theorem concurrent_sweeps_deliver_twice:
  assumes reach: "reachable outbox_init (outbox_step env) s"
    and c: "c \<in> set (webhookDeliveries s)" "wd_status c = DeliveryPending" "wd_attemptCount c < PENDING_DELIVERY_MAX_ATTEMPTS"
    and e: "e \<in> set (webhookEndpoints s)" "we_id e = wd_endpointId c" "we_status e = EndpointActive"
      "de_decrypt env (we_secretCiphertext e) = Inr secret"
    and claimA: "claimDelivery now c s = (ra, s1)" and claimB: "claimDelivery now' c s1 = (rb, s2)"
    and sendA: "deliverClaimed env c countsA s2 = (xa, s3)" and sendB: "deliverClaimed env c countsB s3 = (xb, s4)"
  shows "ra = Inr [claimed_row now c] \<and> rb = Inr [claimed_row now' c]
    \<and> sentRequests s4 = sentRequests s @ replicate 2 (delivery_request env c e secret (ob_clock s))"
proof -
  have inv: "outbox_inv s" using reach by (rule outbox.reachable_inv)
  note keep = honoursD [OF outbox_safe.claim [OF TrueI]] honoursD [OF outbox_safe.deliver_claimed [OF TrueI]]
  have inv1: "outbox_inv s1" and inv2: "outbox_inv s2" and inv3: "outbox_inv s3"
    using inv keep(1) [OF claimA] keep(1) [OF claimB] keep(2) [OF sendA] by (simp_all add: inv_kept_def)
  note a = claim_run [OF inv c, of now]
  have ra: "ra = Inr [claimed_row now c]" using a claimA by simp
  have row1: "claimed_row now c \<in> set (webhookDeliveries s1)"
    using claim_rows(2) [OF inv c(1,2) _ c(3)] claimA ra by blast
  let ?d = "claimed_row now' c"
  let ?f = "\<lambda>d. d\<lparr>wd_attemptCount := wd_attemptCount c + 1, wd_responseStatus := None, wd_errorMessage := None,
      wd_lastAttemptAt := Some now'\<rparr>"
  have again: "?f (claimed_row now c) = ?d" by (simp add: claimed_row_def)
  have pend: "wd_status (claimed_row now c) = DeliveryPending" "wd_id (claimed_row now c) = wd_id c"
    using c(2) by (simp_all add: claimed_row_def)
  have hit: "filter (\<lambda>d. wd_id d = wd_id c \<and> wd_status d = DeliveryPending) (webhookDeliveries s1) = [claimed_row now c]"
    using pending_rows [OF inv1 row1 pend(1)] pend(2) by simp
  have ok: "delivery_fits ?d" "delivery_check ?d"
    using inv_rows [OF inv c(1)] c(3) by (simp_all add: claimed_row_def delivery_fits_def delivery_check_def fits_integer_def
        PENDING_DELIVERY_MAX_ATTEMPTS_def)
  have s2: "rb = Inr [?d]" "s2 = webhookDeliveries_update (update_where (\<lambda>d. wd_id d = wd_id c \<and> wd_status d = DeliveryPending) ?f) s1"
    using claimB hit ok again by (auto simp: claimDelivery_def update_deliveries_def update_rows_def Let_def)
  have row2: "?d \<in> set (webhookDeliveries s2)"
    using row1 pend again by (force simp: s2(2) update_where_def)
  have frames: "others (wd_id c) s s1" "others (wd_id c) s1 s2" "others (wd_id c) s2 s3"
    using honoursD [OF others.claim claimA] honoursD [OF others.claim claimB] honoursD [OF others.deliver_claimed sendA]
    by simp_all
  have same: "webhookEndpoints s2 = webhookEndpoints s" "webhookEndpoints s3 = webhookEndpoints s" "ob_clock s2 = ob_clock s"
    "ob_clock s3 = ob_clock s" using frames by (simp_all add: others_def)
  have sent2: "sentRequests s2 = sentRequests s"
    using claimA claimB a by (auto simp: s2(2))
  have d: "wd_id ?d = wd_id c" "wd_endpointId ?d = wd_endpointId c" by (simp_all add: claimed_row_def)
  have req: "delivery_request env d' e secret n = delivery_request env c e secret n"
    if "wd_payload d' = wd_payload c" "wd_eventId d' = wd_eventId c" for d' n
    using that by (simp add: delivery_request_def)
  have sentA: "sentRequests s3 = sentRequests s @ [delivery_request env c e secret (ob_clock s)]"
    using claimed_sends [OF inv2 row2 d(1) _ _ e(3,4) sendA] e(1,2) same sent2 d req [of ?d] by (simp add: claimed_row_def)
  obtain d3 where d3: "d3 \<in> set (webhookDeliveries s3)" "same_fact ?d d3"
    using honoursD [OF outbox_kept.deliver_claimed [OF TrueI] sendA] table_kept_mem [OF _ row2]
    by (auto simp: outbox_later_def)
  then have "sentRequests s4 = sentRequests s3 @ [delivery_request env c e secret (ob_clock s)]"
    using claimed_sends [OF inv3 d3(1) _ _ _ e(3,4) sendB] e(1,2) same req [of d3]
    by (simp add: same_fact_def claimed_row_def)
  with ra s2(1) sentA show ?thesis by (simp add: numeral_2_eq_2)
qed

subsection \<open>One delivery per endpoint and event\<close>

definition has_delivery :: "outbox \<Rightarrow> string \<Rightarrow> webhook_endpoint \<Rightarrow> bool" where
  "has_delivery s eventId e \<longleftrightarrow> (\<exists>d \<in> set (webhookDeliveries s). wd_endpointId d = we_id e \<and> wd_eventId d = eventId)"

lemma has_delivery_later: "outbox_later s t \<Longrightarrow> has_delivery s i e \<Longrightarrow> has_delivery t i e"
  unfolding outbox_later_def has_delivery_def same_fact_def by (fastforce dest: table_kept_mem)

definition dispatched_row :: "dispatch_input \<Rightarrow> string \<Rightarrow> string \<Rightarrow> json_object \<Rightarrow> webhook_endpoint \<Rightarrow> nat \<Rightarrow> int \<Rightarrow> webhook_delivery" where
  "dispatched_row input eventId eventType payload e n now = (new_delivery (row_id n) (we_id e) (dx_applicationId input)
     (dx_mode input) eventId eventType payload now)\<lparr>wd_providerConnectionId := dx_providerConnectionId input,
       wd_externalCustomerId := dx_externalCustomerId input, wd_orderId := dx_orderId input\<rparr>"

definition insertOne :: "dispatch_input \<Rightarrow> string \<Rightarrow> string \<Rightarrow> json_object \<Rightarrow> string list \<Rightarrow> webhook_endpoint \<Rightarrow> (outbox, string list) prog" where
  "insertOne input eventId eventType payload ids e =
     bind random_value (\<lambda>n. bind (gets ob_clock) (\<lambda>now.
     bind (insert_delivery_or_ignore (dispatched_row input eventId eventType payload e n now)) (\<lambda>row.
     return (case row of None \<Rightarrow> ids | Some d \<Rightarrow> ids @ [wd_id d]))))"

lemma insertDeliveries_loop: "insertDeliveries input eventId eventType payload es = for_loop (insertOne input eventId eventType payload) [] es"
  unfolding insertDeliveries_def insertOne_def [abs_def] dispatched_row_def row_id_def by simp

lemma row_id_inject: "row_id m = row_id n \<longleftrightarrow> m = n"
  by (simp add: row_id_def)

lemma inserted_one:
  assumes inv: "outbox_inv s" and run: "insertOne input eventId eventType payload ids e s = (Inr ids', t)"
  shows "has_delivery t eventId e" and "outbox_inv t" and "outbox_later s t"
    and "has_delivery s eventId e \<Longrightarrow> ids' = ids \<and> t = s\<lparr>ob_random := Suc (ob_random s)\<rparr>"
proof -
  let ?r = "dispatched_row input eventId eventType payload e (ob_random s) (ob_clock s)"
  have row: "wd_id ?r = row_id (ob_random s)" "wd_endpointId ?r = we_id e" "wd_eventId ?r = eventId"
    by (simp_all add: dispatched_row_def new_delivery_def)
  have other_id: "wd_id d \<noteq> row_id (ob_random s)" if "d \<in> set (webhookDeliveries s)" for d
    using inv that by (auto simp: outbox_inv_def row_id_inject)
  have "delivery_clash ?r d \<longleftrightarrow> wd_endpointId d = we_id e \<and> wd_eventId d = eventId" if "d \<in> set (webhookDeliveries s)" for d
    using row other_id [OF that] by (auto simp: delivery_clash_def)
  then have clash: "(\<exists>d \<in> set (webhookDeliveries s). delivery_clash ?r d) \<longleftrightarrow> has_delivery s eventId e"
    by (auto simp: has_delivery_def)
  have ok: "delivery_fits ?r" "delivery_check ?r"
    by (simp_all add: dispatched_row_def new_delivery_def delivery_fits_def delivery_check_def fits_integer_def)
  show "has_delivery s eventId e \<Longrightarrow> ids' = ids \<and> t = s\<lparr>ob_random := Suc (ob_random s)\<rparr>"
    using run ok clash by (auto simp: insertOne_def bind_apply insert_delivery_or_ignore_def insert_or_ignore_def)
  show "has_delivery t eventId e"
  proof (cases "has_delivery s eventId e")
    case True
    then show ?thesis using run ok clash
      by (auto simp: insertOne_def bind_apply insert_delivery_or_ignore_def insert_or_ignore_def has_delivery_def)
  next
    case False
    then show ?thesis using run ok clash row
      by (auto simp: insertOne_def bind_apply insert_delivery_or_ignore_def insert_or_ignore_def has_delivery_def split: if_splits)
  qed
  have "honours inv_kept (insertOne input eventId eventType payload ids e)"
    "honours outbox_later (insertOne input eventId eventType payload ids e)"
    unfolding insertOne_def
    by (intro outbox_safe.new_row_or_none outbox_kept.new_row_or_none outbox_safe.pure outbox_kept.pure;
        simp add: dispatched_row_def new_delivery_def)+
  then show "outbox_inv t" "outbox_later s t" using run inv by (auto simp: inv_kept_def dest: honoursD)
qed

lemma inserted_all:
  assumes "outbox_inv s" and "for_loop (insertOne input eventId eventType payload) ids es s = (Inr ids', t)"
  shows "\<forall>e \<in> set es. has_delivery t eventId e"
    and "\<forall>e \<in> set es. has_delivery s eventId e \<Longrightarrow> ids' = ids \<and> (\<exists>n. t = s\<lparr>ob_random := n\<rparr>)"
proof -
  have "(\<forall>e \<in> set es. has_delivery t eventId e) \<and> outbox_later s t
      \<and> ((\<forall>e \<in> set es. has_delivery s eventId e) \<longrightarrow> ids' = ids \<and> (\<exists>n. t = s\<lparr>ob_random := n\<rparr>))"
    using assms
  proof (induction es arbitrary: s ids)
    case Nil
    then show ?case by (auto simp: outbox_kept.refl intro: exI [of _ "ob_random s"])
  next
    case (Cons e es)
    obtain a s1 where one: "insertOne input eventId eventType payload ids e s = (Inr a, s1)"
      and rest: "for_loop (insertOne input eventId eventType payload) a es s1 = (Inr ids', t)"
      using Cons.prems(2) by (auto elim: bind_InrE)
    note i = inserted_one [OF Cons.prems(1) one]
    note ih = Cons.IH [OF i(2) rest]
    have "has_delivery t eventId e" using i(1) ih has_delivery_later by blast
    moreover have "outbox_later s t" using i(3) ih outbox_kept.trans by blast
    moreover have "ids' = ids \<and> (\<exists>n. t = s\<lparr>ob_random := n\<rparr>)" if all: "\<forall>e' \<in> set (e # es). has_delivery s eventId e'"
      using i(3,4) ih all has_delivery_later by auto
    ultimately show ?case using ih by simp
  qed
  then show "\<forall>e \<in> set es. has_delivery t eventId e"
    and "\<forall>e \<in> set es. has_delivery s eventId e \<Longrightarrow> ids' = ids \<and> (\<exists>n. t = s\<lparr>ob_random := n\<rparr>)" by blast+
qed

lemma dispatch_stages:
  assumes "dispatchWebhookEvent env input s = (Inr r, t)" and "truthy (map_option trim (dx_eventId input)) = Some i"
  obtains payload ids s1 where "for_loop (insertOne input i (toLowerCase (trim (dx_eventType input))) payload) []
      (matching_endpoints input (toLowerCase (trim (dx_eventType input))) s) s = (Inr ids, s1)"
    and "deliverAll env (dx_applicationId input) (dx_mode input) ids s1 = (Inr (dr_succeeded r), t)"
    and "dr_attemptedDeliveries r = length ids" and "dr_eventId r = i"
  using assms unfolding dispatchWebhookEvent_def insertDeliveries_loop
  by (auto simp: Let_def bind_eq_Inr)

text \<open>C34. An event reaches an endpoint as one delivery: once an event with an id was dispatched,
  every endpoint that takes it has exactly one delivery of it; and dispatching the event again at
  any later state, with no new endpoint that takes it, attempts nothing, adds no delivery and
  sends no request.\<close>

theorem event_dispatched_once:
  assumes reach: "reachable outbox_init (outbox_step env) s"
    and i: "truthy (map_option trim (dx_eventId input)) = Some i" and ty: "ty = toLowerCase (trim (dx_eventType input))"
    and first: "dispatchWebhookEvent env input s = (Inr r, t)"
    and later: "(outbox_step env)\<^sup>*\<^sup>* t u"
    and no_new: "we_id ` set (matching_endpoints input ty u) \<subseteq> we_id ` set (matching_endpoints input ty s)"
    and again: "dispatchWebhookEvent env input u = (Inr r', v)"
  shows "(\<forall>e \<in> set (matching_endpoints input ty s). \<exists>!d. d \<in> set (webhookDeliveries t) \<and> wd_endpointId d = we_id e \<and> wd_eventId d = i)
    \<and> dr_attemptedDeliveries r' = 0 \<and> webhookDeliveries v = webhookDeliveries u \<and> sentRequests v = sentRequests u"
proof -
  have inv: "outbox_inv s" using reach by (rule outbox.reachable_inv)
  obtain payload ids s1 where ins: "for_loop (insertOne input i ty payload) [] (matching_endpoints input ty s) s = (Inr ids, s1)"
    and del: "deliverAll env (dx_applicationId input) (dx_mode input) ids s1 = (Inr (dr_succeeded r), t)"
    using dispatch_stages [OF first i] ty by metis
  have has: "has_delivery t i e" if "e \<in> set (matching_endpoints input ty s)" for e
    using inserted_all(1) [OF inv ins] that has_delivery_later honoursD [OF outbox_kept.deliver_all del] by blast
  have inv_t: "outbox_inv t" using honoursD [OF outbox_safe.dispatch first] inv by (simp add: inv_kept_def)
  have "\<exists>!d. d \<in> set (webhookDeliveries t) \<and> wd_endpointId d = we_id e \<and> wd_eventId d = i"
    if "e \<in> set (matching_endpoints input ty s)" for e
    using has [OF that] distinct_key_eq [where k = "\<lambda>d. (wd_endpointId d, wd_eventId d)" and rows = "webhookDeliveries t"] inv_t
    unfolding has_delivery_def outbox_inv_def by (metis (no_types, lifting))
  moreover have "dr_attemptedDeliveries r' = 0 \<and> webhookDeliveries v = webhookDeliveries u \<and> sentRequests v = sentRequests u"
  proof -
    have "outbox_later t u" using later inv_t by (rule outbox.steps_later)
    moreover have "has_delivery t i e" if "e \<in> set (matching_endpoints input ty u)" for e
    proof -
      have "we_id e \<in> we_id ` set (matching_endpoints input ty s)"
        by (rule subsetD [OF no_new]) (rule imageI [OF that])
      then obtain e' where e': "we_id e = we_id e'" "e' \<in> set (matching_endpoints input ty s)" by (rule imageE)
      show ?thesis using has [OF e'(2)] by (simp add: has_delivery_def e'(1))
    qed
    ultimately have "has_delivery u i e" if "e \<in> set (matching_endpoints input ty u)" for e
      using that has_delivery_later by blast
    moreover obtain payload' ids' u1 where
        "for_loop (insertOne input i ty payload') [] (matching_endpoints input ty u) u = (Inr ids', u1)"
        "deliverAll env (dx_applicationId input) (dx_mode input) ids' u1 = (Inr (dr_succeeded r'), v)"
        "dr_attemptedDeliveries r' = length ids'"
      using dispatch_stages [OF again i] ty by metis
    moreover have "outbox_inv u" using later inv_t by (rule outbox.steps_inv)
    ultimately show ?thesis using inserted_all(2) [of u input i ty payload' "[]"] by (fastforce simp: deliverAll_def)
  qed
  ultimately show ?thesis by blast
qed

subsection \<open>Witnesses\<close>

definition demo_hooks :: delivery_env where
  "demo_hooks = \<lparr>de_token = string_of_nat, de_encrypt = (\<lambda>secret _. Inr secret), de_decrypt = Inr, de_hmac = (\<lambda>_ _. ''h''),
     de_stringify = (\<lambda>_. ''{}''),
     de_parseUrl = (\<lambda>u. Some \<lparr>wu_protocol = ''https:'', wu_username = [], wu_password = [], wu_hash = [], wu_href = u\<rparr>),
     de_fetch = (\<lambda>_ _. Inr 200), de_driver = (\<lambda>_. [])\<rparr>"

definition demo_endpoint :: webhook_endpoint where
  "demo_endpoint = \<lparr>we_id = ''whep_2'', we_applicationId = ''app'', we_mode = Live, we_name = ''main'', we_url = ''u'',
     we_secretCiphertext = ''mp_whsec_0'', we_secretPrefix = ''mp_whsec_0'', we_eventTypes = [''*''],
     we_status = EndpointActive, we_createdAt = 0, we_updatedAt = 0, we_disabledAt = None\<rparr>"

definition demo_outbox :: "nat \<Rightarrow> webhook_endpoint list \<Rightarrow> webhook_delivery list \<Rightarrow> outbox" where
  "demo_outbox n es ds = \<lparr>ob_clock = 0, ob_random = n, ob_applications = [''app''], webhookEndpoints = es,
     webhookDeliveries = ds, sentRequests = []\<rparr>"

definition demo_event :: dispatch_input where
  "demo_event = \<lparr>dx_applicationId = ''app'', dx_mode = Live, dx_eventId = Some ''e'', dx_eventType = ''t'',
     dx_providerConnectionId = None, dx_externalCustomerId = None, dx_orderId = None, dx_data = []\<rparr>"

definition demo_row :: webhook_delivery where
  "demo_row = dispatched_row demo_event ''e'' ''t'' [] demo_endpoint 3 0"

lemma demo_texts: "trim ''main'' = ''main''" "trim ''u'' = ''u''" "toLowerCase (trim ''*'') = ''*''" "string_of_nat 0 = ''0''"
    "string_of_nat (Suc (Suc 0)) = ''2''"
  by (simp_all add: run_simps)

lemma demo_created: "\<exists>r. createWebhookEndpoint demo_hooks ''app'' Live \<lparr>ei_name = ''main'', ei_url = ''u'', ei_eventTypes = None\<rparr>
    (demo_outbox 0 [] []) = (r, demo_outbox 3 [demo_endpoint] [])"
proof -
  have types: "normalizeWebhookEventTypes None s = (Inr [''*''], s)" for s
    by (simp add: normalizeWebhookEventTypes_def demo_texts js_set_def bind_apply throw_if_apply)
  have secret: "generateWebhookSecret demo_hooks s = (Inr \<lparr>ws_secret = ''mp_whsec_'' @ string_of_nat (ob_random s),
      ws_secretPrefix = ''mp_whsec_'' @ take 8 (string_of_nat (ob_random s)),
      ws_secretCiphertext = ''mp_whsec_'' @ string_of_nat (ob_random s)\<rparr>, s\<lparr>ob_random := Suc (Suc (ob_random s))\<rparr>)" for s
    by (simp add: generateWebhookSecret_def demo_hooks_def bind_apply SECRET_PREFIX_def lift_result_def Let_def)
  have name: "normalizeWebhookName ''main'' s = (Inr ''main'', s)" "normalizeWebhookUrl demo_hooks ''u'' Live s = (Inr ''u'', s)" for s
    by (simp_all add: normalizeWebhookName_def normalizeWebhookUrl_def demo_texts demo_hooks_def bind_apply throw_if_apply require_apply)
  show ?thesis
    by (simp add: createWebhookEndpoint_def bind_apply types secret name insert_endpoint_def insert_row_def demo_outbox_def
        demo_endpoint_def demo_texts numeral_3_eq_3)
qed

lemma demo_died: "\<exists>r. insertDeliveries demo_event ''e'' ''t'' [] (matching_endpoints demo_event ''t'' (demo_outbox 3 [demo_endpoint] []))
    (demo_outbox 3 [demo_endpoint] []) = (r, demo_outbox 4 [demo_endpoint] [demo_row])"
  by (simp add: run_simps demo_outbox_def demo_endpoint_def demo_event_def demo_row_def dispatched_row_def row_id_def)

lemma demo_hooks_reached: "reachable outbox_init (outbox_step demo_hooks) (demo_outbox 3 [demo_endpoint] [])"
    "reachable outbox_init (outbox_step demo_hooks) (demo_outbox 4 [demo_endpoint] [demo_row])"
proof -
  have "reachable outbox_init (outbox_step demo_hooks) (demo_outbox 0 [] [])"
    by (rule reachable.start) (simp add: outbox_init_def demo_outbox_def)
  then show one: "reachable outbox_init (outbox_step demo_hooks) (demo_outbox 3 [demo_endpoint] [])"
    using demo_created by (blast intro: reachable.next_state outbox_step.creates)
  show "reachable outbox_init (outbox_step demo_hooks) (demo_outbox 4 [demo_endpoint] [demo_row])"
    using demo_died by (blast intro: reachable.next_state [OF one] outbox_step.dies)
qed

lemma demo_row_columns: "wd_id demo_row = row_id 3" "wd_endpointId demo_row = ''whep_2''" "wd_status demo_row = DeliveryPending"
    "wd_attemptCount demo_row = 0" "wd_createdAt demo_row = 0" "wd_lastAttemptAt demo_row = None"
  by (simp_all add: demo_row_def dispatched_row_def new_delivery_def demo_endpoint_def)

lemma pending_deliveries_are_settled_witness:
  "\<exists>t. sweeps demo_hooks 50 (map (\<lambda>k. 60000 + 3600000 * int k) [0..<9]) (demo_outbox 4 [demo_endpoint] [demo_row]) = (Inr (), t)
     \<and> (\<forall>d \<in> set (webhookDeliveries t). wd_status d \<noteq> DeliveryPending)"
proof -
  have "sorted_wrt (\<lambda>a b. a + PENDING_DELIVERY_MAX_BACKOFF_MS \<le> b) (map (\<lambda>k. 60000 + 3600000 * int k) [0..<9])"
    by (simp add: sorted_wrt_map PENDING_DELIVERY_MAX_BACKOFF_MS_def upt_rec)
  from pending_deliveries_are_settled [OF demo_hooks_reached(2) _ _ this, of 50] show ?thesis
    by (auto simp: demo_outbox_def demo_row_columns is_due_def PENDING_DELIVERY_STALE_AFTER_MS_def upt_rec)
qed

lemma concurrent_sweeps_deliver_twice_witness:
  "\<exists>s1 s2 s3 s4 xa xb. claimDelivery 60000 demo_row (demo_outbox 4 [demo_endpoint] [demo_row]) = (Inr [claimed_row 60000 demo_row], s1)
     \<and> claimDelivery 60001 demo_row s1 = (Inr [claimed_row 60001 demo_row], s2)
     \<and> deliverClaimed demo_hooks demo_row (0, 0) s2 = (xa, s3) \<and> deliverClaimed demo_hooks demo_row (0, 0) s3 = (xb, s4)
     \<and> length (sentRequests s4) = 2"
proof -
  let ?s = "demo_outbox 4 [demo_endpoint] [demo_row]"
  obtain ra s1 rb s2 xa s3 xb s4 where run: "claimDelivery 60000 demo_row ?s = (ra, s1)" "claimDelivery 60001 demo_row s1 = (rb, s2)"
    "deliverClaimed demo_hooks demo_row (0, 0) s2 = (xa, s3)" "deliverClaimed demo_hooks demo_row (0, 0) s3 = (xb, s4)"
    by (metis surj_pair)
  have "demo_row \<in> set (webhookDeliveries ?s)" "demo_endpoint \<in> set (webhookEndpoints ?s)" "sentRequests ?s = []"
    by (simp_all add: demo_outbox_def)
  moreover have "we_id demo_endpoint = wd_endpointId demo_row" "we_status demo_endpoint = EndpointActive"
    "de_decrypt demo_hooks (we_secretCiphertext demo_endpoint) = Inr ''mp_whsec_0''"
    "wd_attemptCount demo_row < PENDING_DELIVERY_MAX_ATTEMPTS"
    by (simp_all add: demo_row_columns demo_endpoint_def demo_hooks_def PENDING_DELIVERY_MAX_ATTEMPTS_def)
  ultimately show ?thesis
    using concurrent_sweeps_deliver_twice [OF demo_hooks_reached(2) _ demo_row_columns(3) _ _ _ _ _ run] run by auto
qed

definition demo_payload :: json_object where
  "demo_payload = [(''id'', JStr ''e''), (''version'', JNum 1), (''type'', JStr ''t''), (''createdAt'', JStr (toISOString 0)),
     (''data'', JObj [])]"

definition demo_done :: webhook_delivery where
  "demo_done = demo_row\<lparr>wd_payload := demo_payload, wd_status := DeliverySucceeded, wd_attemptCount := 1,
     wd_responseStatus := Some 200, wd_lastAttemptAt := Some 0, wd_deliveredAt := Some 0\<rparr>"

definition demo_sent :: "nat \<Rightarrow> outbox" where
  "demo_sent n = (demo_outbox n [demo_endpoint] [demo_done])\<lparr>sentRequests :=
     [delivery_request demo_hooks (demo_row\<lparr>wd_payload := demo_payload\<rparr>) demo_endpoint ''mp_whsec_0'' 0]\<rparr>"

lemma demo_event_texts: "toLowerCase (trim ''t'') = ''t''" "trim ''e'' = ''e''"
  by (simp_all add: run_simps)

lemma demo_takes: "matching_endpoints demo_event ''t'' (demo_outbox n [demo_endpoint] ds) = [demo_endpoint]"
    "matching_endpoints demo_event ''t'' (demo_sent n) = [demo_endpoint]"
  by (simp_all add: matching_endpoints_def endpointAccepts_def demo_event_def demo_endpoint_def demo_outbox_def demo_sent_def)

lemma demo_inserts:
  "insertDeliveries demo_event ''e'' ''t'' demo_payload [demo_endpoint] (demo_outbox 3 [demo_endpoint] [])
     = (Inr [row_id 3], demo_outbox 4 [demo_endpoint] [demo_row\<lparr>wd_payload := demo_payload\<rparr>])"
  "insertDeliveries demo_event ''e'' ''t'' demo_payload [demo_endpoint] (demo_sent 4) = (Inr [], demo_sent 5)"
  by (simp_all add: insertDeliveries_loop insertOne_def bind_apply insert_delivery_or_ignore_def insert_or_ignore_def
      dispatched_row_def new_delivery_def demo_row_def demo_outbox_def demo_sent_def demo_done_def demo_endpoint_def demo_event_def
      delivery_fits_def delivery_check_def delivery_clash_def delivery_refers_def fits_integer_def)

lemma demo_delivers: "\<exists>view. deliverWebhookDelivery demo_hooks ''app'' Live (row_id 3)
    (demo_outbox 4 [demo_endpoint] [demo_row\<lparr>wd_payload := demo_payload\<rparr>]) = (Inr view, demo_sent 4) \<and> dv_status view = DeliverySucceeded"
  by (simp add: Let_def deliverWebhookDelivery_def performWebhookDelivery_def settle_delivery_def joined_deliveries_def bind_apply
      require_apply try_catch_apply lift_result_def fetchImpl_def update_deliveries_def update_rows_def deliveryView_def
      new_delivery_def dispatched_row_def demo_row_def demo_outbox_def demo_sent_def demo_done_def demo_endpoint_def demo_event_def
      demo_hooks_def delivery_request_def delivery_fits_def delivery_check_def fits_integer_def)

lemma demo_dispatches:
  "\<exists>r. dispatchWebhookEvent demo_hooks demo_event (demo_outbox 3 [demo_endpoint] []) = (Inr r, demo_sent 4)"
  "\<exists>r. dispatchWebhookEvent demo_hooks demo_event (demo_sent 4) = (Inr r, demo_sent 5)"
proof -
  have input: "dx_eventType demo_event = ''t''" "dx_eventId demo_event = Some ''e''" "dx_data demo_event = []"
    "dx_applicationId demo_event = ''app''" "dx_mode demo_event = Live"
    by (simp_all add: demo_event_def)
  have clock: "ob_clock (demo_outbox n es ds) = 0" "ob_clock (demo_sent n) = 0" for n es ds
    by (simp_all add: demo_outbox_def demo_sent_def)
  note run = dispatchWebhookEvent_def Let_def bind_apply throw_if_apply input clock demo_event_texts truthy_def demo_takes
    demo_payload_def [symmetric] demo_inserts deliverAll_def try_catch_apply
  obtain view where "deliverWebhookDelivery demo_hooks ''app'' Live (row_id 3)
    (demo_outbox 4 [demo_endpoint] [demo_row\<lparr>wd_payload := demo_payload\<rparr>]) = (Inr view, demo_sent 4)"
    using demo_delivers by blast
  then show "\<exists>r. dispatchWebhookEvent demo_hooks demo_event (demo_outbox 3 [demo_endpoint] []) = (Inr r, demo_sent 4)"
    by (simp add: run)
  show "\<exists>r. dispatchWebhookEvent demo_hooks demo_event (demo_sent 4) = (Inr r, demo_sent 5)"
    by (simp add: run)
qed

lemma event_dispatched_once_witness:
  "\<exists>r r'. dispatchWebhookEvent demo_hooks demo_event (demo_outbox 3 [demo_endpoint] []) = (Inr r, demo_sent 4)
     \<and> dispatchWebhookEvent demo_hooks demo_event (demo_sent 4) = (Inr r', demo_sent 5)
     \<and> length (sentRequests (demo_sent 5)) = 1 \<and> dr_attemptedDeliveries r' = 0"
proof -
  obtain r r' where runs: "dispatchWebhookEvent demo_hooks demo_event (demo_outbox 3 [demo_endpoint] []) = (Inr r, demo_sent 4)"
    "dispatchWebhookEvent demo_hooks demo_event (demo_sent 4) = (Inr r', demo_sent 5)"
    using demo_dispatches by blast
  have key: "truthy (map_option trim (dx_eventId demo_event)) = Some ''e''" "''t'' = toLowerCase (trim (dx_eventType demo_event))"
    by (simp_all add: demo_event_def demo_event_texts truthy_def)
  have "dr_attemptedDeliveries r' = 0"
    using event_dispatched_once [OF demo_hooks_reached(1) key runs(1) rtranclp.rtrancl_refl _ runs(2)]
    by (simp add: demo_takes)
  with runs show ?thesis by (simp add: demo_sent_def)
qed

end
