(* ===== verification/BillingEvents.thy ===== *)
theory BillingEvents
  imports Deliveries CatalogMapping
begin

text \<open>
  The publisher of billing events (\<open>src/src/server/control-plane/billing-events.ts\<close>): a provider
  event that was applied becomes a developer event, named after the business fact it reports, with
  the customer the application knows. It reads the commerce tables, which it does not change, and
  dispatches into the outbox. The hexadecimal SHA-256 digest of a text is the argument \<open>sha\<close>.
\<close>

fun event_type_text :: "event_type \<Rightarrow> string" where
  "event_type_text PaymentSucceeded = ''payment.succeeded''"
| "event_type_text PaymentFailed = ''payment.failed''"
| "event_type_text PaymentRefunded = ''payment.refunded''"
| "event_type_text SubscriptionCreated = ''subscription.created''"
| "event_type_text SubscriptionActivated = ''subscription.activated''"
| "event_type_text SubscriptionRenewed = ''subscription.renewed''"
| "event_type_text SubscriptionUpdated = ''subscription.updated''"
| "event_type_text SubscriptionCancelled = ''subscription.cancelled''"
| "event_type_text SubscriptionExpired = ''subscription.expired''"
| "event_type_text UnknownEvent = ''unknown''"

definition DEVELOPER_EVENT_VERSION :: int where
  "DEVELOPER_EVENT_VERSION = 1"

text \<open>The developer events of the provider events; the key \<open>subscription.recovered\<close> of the code's
  table is no type of a normalized event.\<close>

definition EVENT_TYPE_MAP :: "event_type \<Rightarrow> string option" where
  "EVENT_TYPE_MAP ty =
     (if ty \<in> {SubscriptionCreated, SubscriptionUpdated, UnknownEvent} then None else Some (event_type_text ty))"

subsection \<open>The name of a fact\<close>

fun join_parts :: "string \<Rightarrow> string list \<Rightarrow> string" where
  "join_parts sep [] = []"
| "join_parts sep [x] = x"
| "join_parts sep (x # y # xs) = x @ sep @ join_parts sep (y # xs)"

definition canonical_fact :: "string list \<Rightarrow> string" where
  "canonical_fact parts = join_parts ''|'' (map (\<lambda>part. string_of_nat (length part) @ '':'' @ part) parts)"

definition canonicalFactHash :: "(string \<Rightarrow> string) \<Rightarrow> string list \<Rightarrow> string" where
  "canonicalFactHash sha parts = take 32 (sha (canonical_fact parts))"

definition stringPart :: "string option \<Rightarrow> string option" where
  "stringPart v = truthy (map_option trim v)"

text \<open>The parts that name the fact, and the family they are hashed under; none where the event is
  not specific enough.\<close>

definition fact_parts :: "provider_event \<Rightarrow> string \<Rightarrow> (string \<times> string list) option" where
  "fact_parts normalized connection =
     (let eventType = event_type_text (ev_type normalized);
          refundId = stringPart (ev_providerRefundId normalized);
          paymentId = stringPart (ev_providerPaymentId normalized);
          subscriptionId = stringPart (ev_providerSubscriptionId normalized);
          periodStart = stringPart (ev_subscriptionPeriodStart normalized)
      in if ev_type normalized = PaymentRefunded then
           map_option (\<lambda>r. (''dev_refund_'', [connection, r])) refundId
         else if ev_type normalized = PaymentSucceeded \<or> ev_type normalized = PaymentFailed then
           map_option (\<lambda>p. (''dev_payment_'', [connection, p, eventType])) paymentId
         else if ev_type normalized \<noteq> UnknownEvent then
           (case subscriptionId of
              None \<Rightarrow> None
            | Some i \<Rightarrow>
                if ev_type normalized = SubscriptionRenewed \<and> periodStart = None then None
                else Some (''dev_subscription_'', [connection, i, eventType]
                  @ (case periodStart of None \<Rightarrow> [] | Some p \<Rightarrow> [p])))
         else None)"

definition factBasedDeveloperEventId :: "(string \<Rightarrow> string) \<Rightarrow> provider_event \<Rightarrow> string \<Rightarrow> string \<Rightarrow> string" where
  "factBasedDeveloperEventId sha normalized connection inboxEventId =
     (case fact_parts normalized connection of
        None \<Rightarrow> ''dev_'' @ inboxEventId
      | Some (family, parts) \<Rightarrow> family @ canonicalFactHash sha parts)"

subsection \<open>The customer of an event\<close>

definition customer_reference :: "db \<Rightarrow> string \<Rightarrow> string \<Rightarrow> string option" where
  "customer_reference d app customerId = map_option ac_externalCustomerId
     (List.find (\<lambda>c. ac_applicationId c = app \<and> ac_customerId c = customerId) (applicationCustomers d))"

definition order_customer :: "db \<Rightarrow> string \<Rightarrow> string \<Rightarrow> string option" where
  "order_customer d app orderId = map_option (\<lambda>(c, o'). ac_externalCustomerId c)
     (List.find (\<lambda>(c, o'). od_applicationCustomerId o' = ac_id c \<and> od_applicationId o' = app \<and> od_id o' = orderId)
        (List.product (applicationCustomers d) (orders d)))"

definition payment_customer :: "db \<Rightarrow> string \<Rightarrow> string \<Rightarrow> string \<Rightarrow> string option" where
  "payment_customer d app connection paymentId = map_option (\<lambda>(p, c). ac_externalCustomerId c)
     (List.find (\<lambda>(p, c). Some (ac_customerId c) = py_customerId p \<and> py_applicationId p = app
          \<and> py_providerConnectionId p = connection \<and> py_providerPaymentId p = paymentId \<and> ac_applicationId c = app)
        (List.product (payments d) (applicationCustomers d)))"

definition subscription_customer :: "db \<Rightarrow> string \<Rightarrow> string \<Rightarrow> string \<Rightarrow> string option" where
  "subscription_customer d app connection subscriptionId = map_option (\<lambda>(b, c). ac_externalCustomerId c)
     (List.find (\<lambda>(b, c). ac_id c = sb_applicationCustomerId b \<and> sb_applicationId b = app
          \<and> sb_providerConnectionId b = connection \<and> sb_providerSubscriptionId b = subscriptionId)
        (List.product (subscriptions d) (applicationCustomers d)))"

definition order_matches :: "db \<Rightarrow> string \<Rightarrow> string \<Rightarrow> string \<Rightarrow> bool" where
  "order_matches d app orderId customerId \<longleftrightarrow>
     list_ex (\<lambda>(o', c). ac_id c = od_applicationCustomerId o' \<and> od_applicationId o' = app \<and> od_id o' = orderId
        \<and> ac_customerId c = customerId) (List.product (orders d) (applicationCustomers d))"

text \<open>A lookup is tried while no customer is known and the event has the reference.\<close>

definition try_reference :: "string option \<Rightarrow> (string \<Rightarrow> string option) \<Rightarrow> string option \<Rightarrow> string option" where
  "try_reference reference lookup found = (case truthy found of
       Some x \<Rightarrow> found
     | None \<Rightarrow> (case truthy reference of None \<Rightarrow> found | Some r \<Rightarrow> lookup r))"

definition external_customer :: "db \<Rightarrow> string \<Rightarrow> string \<Rightarrow> provider_event \<Rightarrow> string option" where
  "external_customer d app connection normalized =
     (let found = try_reference (ev_providerSubscriptionId normalized) (subscription_customer d app connection)
            (try_reference (ev_providerPaymentId normalized) (payment_customer d app connection)
            (try_reference (ev_monetplaneOrderId normalized) (order_customer d app)
            (try_reference (ev_monetplaneCustomerId normalized) (customer_reference d app) None)))
      in case (truthy found, truthy (ev_monetplaneCustomerId normalized), truthy (ev_monetplaneOrderId normalized)) of
           (Some x, Some customerId, Some orderId) \<Rightarrow> if order_matches d app orderId customerId then found else None
         | _ \<Rightarrow> found)"

subsection \<open>Publishing\<close>

record publish_input =
  pi_applicationId :: string
  pi_webhookEventId :: string
  pi_providerConnectionId :: string

record publish_result =
  pl_published :: bool
  pl_eventType :: string
  pl_eventId :: "string option"

definition json_or_null :: "('a \<Rightarrow> json) \<Rightarrow> 'a option \<Rightarrow> json" where
  "json_or_null f v = (case v of None \<Rightarrow> JNull | Some x \<Rightarrow> f x)"

definition developer_event ::
    "(string \<Rightarrow> string) \<Rightarrow> db \<Rightarrow> publish_input \<Rightarrow> webhook_event \<Rightarrow> string \<Rightarrow> dispatch_input" where
  "developer_event sha d input event developerType =
     (let normalized = wh_normalizedEvent event;
          customer = external_customer d (pi_applicationId input) (pi_providerConnectionId input) normalized
      in \<lparr>dx_applicationId = pi_applicationId input, dx_mode = wh_environment event,
          dx_eventId = Some (factBasedDeveloperEventId sha normalized (pi_providerConnectionId input) (wh_id event)),
          dx_eventType = developerType, dx_providerConnectionId = Some (pi_providerConnectionId input),
          dx_externalCustomerId = customer, dx_orderId = ev_monetplaneOrderId normalized,
          dx_data = [(''version'', JNum DEVELOPER_EVENT_VERSION),
            (''environment'', JStr (environment_text (wh_environment event))),
            (''occurredAt'', JStr (toISOString (wh_occurredAt event))),
            (''orderId'', json_or_null JStr (ev_monetplaneOrderId normalized)),
            (''externalCustomerId'', json_or_null JStr customer),
            (''amountMinor'', json_or_null JNum (ev_amountMinor normalized)),
            (''currency'', json_or_null JStr (ev_currency normalized))]\<rparr>)"

definition publishBillingLifecycleEvent ::
    "delivery_env \<Rightarrow> (string \<Rightarrow> string) \<Rightarrow> db \<Rightarrow> publish_input \<Rightarrow> (outbox, publish_result) prog" where
  "publishBillingLifecycleEvent env sha d input =
     bind (require (Error ''Webhook event not found for developer fan-out'')
       (List.find (\<lambda>w. wh_id w = pi_webhookEventId input) (webhookEvents d))) (\<lambda>event.
     case EVENT_TYPE_MAP (wh_normalizedType event) of
       None \<Rightarrow> return \<lparr>pl_published = False, pl_eventType = event_type_text (wh_normalizedType event), pl_eventId = None\<rparr>
     | Some developerType \<Rightarrow>
         bind (dispatchWebhookEvent env (developer_event sha d input event developerType)) (\<lambda>result.
         return \<lparr>pl_published = True, pl_eventType = developerType, pl_eventId = Some (dr_eventId result)\<rparr>))"

lemmas [run_simps] = DEVELOPER_EVENT_VERSION_def EVENT_TYPE_MAP_def canonical_fact_def canonicalFactHash_def stringPart_def
  fact_parts_def factBasedDeveloperEventId_def customer_reference_def order_customer_def payment_customer_def
  subscription_customer_def order_matches_def try_reference_def external_customer_def json_or_null_def developer_event_def
  publishBillingLifecycleEvent_def

end
