(* ===== verification/BillingEventProperties.thy ===== *)
theory BillingEventProperties
  imports BillingEvents DeliveryProperties
begin

text \<open>
  What the publisher promises: the id of a developer event is the name of its business fact, so
  that the unique index of the deliveries makes a fact reach an endpoint once.
\<close>

subsection \<open>The encoding of a fact is injective\<close>

lemma digits_colon:
  "list_all is_digit ds \<Longrightarrow> list_all is_digit es \<Longrightarrow> ds @ CHR '':'' # xs = es @ CHR '':'' # ys \<Longrightarrow> ds = es \<and> xs = ys"
proof (induction ds arbitrary: es)
  case Nil
  then show ?case by (cases es) (auto simp: is_digit_def)
next
  case (Cons d ds)
  then show ?case by (cases es) (auto simp: is_digit_def)
qed

lemma part_inject:
  assumes "string_of_nat (length x) @ CHR '':'' # x @ xs = string_of_nat (length y) @ CHR '':'' # y @ ys"
  shows "x = y \<and> xs = ys"
proof -
  note same = digits_colon [OF string_of_nat_digits string_of_nat_digits assms]
  then have "length x = length y" by simp
  with same show ?thesis by simp
qed

lemma canonical_simps:
  "canonical_fact [] = []"
  "canonical_fact [x] = string_of_nat (length x) @ CHR '':'' # x @ []"
  "canonical_fact (x # y # xs) = string_of_nat (length x) @ CHR '':'' # x @ CHR ''|'' # canonical_fact (y # xs)"
  by (simp_all add: canonical_fact_def)

lemma canonical_not_empty: "canonical_fact (x # xs) \<noteq> []"
  by (cases xs) (simp_all add: canonical_simps)

lemma canonical_fact_inject: "canonical_fact xs = canonical_fact ys \<longleftrightarrow> xs = ys"
proof
  show "canonical_fact xs = canonical_fact ys \<Longrightarrow> xs = ys"
  proof (induction xs arbitrary: ys rule: induct_list012)
    case 1
    then show ?case using canonical_not_empty by (cases ys) (simp_all, metis canonical_simps(1))
  next
    case (2 x)
    then show ?case
      using canonical_not_empty [of x "[]"] part_inject [of x "[]"]
      by (cases ys rule: remdups_adj.cases) (auto simp only: canonical_simps dest!: part_inject)
  next
    case (3 x y zs)
    then show ?case
      using canonical_not_empty [of x "y # zs"]
      by (cases ys rule: remdups_adj.cases) (auto simp only: canonical_simps dest!: part_inject)
  qed
qed simp

subsection \<open>The id of an event is the name of its fact\<close>

text \<open>The business facts the publisher tells apart, and the fact an event reports.\<close>

datatype business_fact =
    RefundFact string string
  | PaymentFact string string event_type
  | SubscriptionFact string string event_type "string option"

definition fact_of :: "provider_event \<Rightarrow> string \<Rightarrow> business_fact option" where
  "fact_of n connection = (case ev_type n of
       PaymentRefunded \<Rightarrow> map_option (RefundFact connection) (stringPart (ev_providerRefundId n))
     | UnknownEvent \<Rightarrow> None
     | ty \<Rightarrow>
         if ty = PaymentSucceeded \<or> ty = PaymentFailed
         then map_option (\<lambda>p. PaymentFact connection p ty) (stringPart (ev_providerPaymentId n))
         else if ty = SubscriptionRenewed \<and> stringPart (ev_subscriptionPeriodStart n) = None then None
         else map_option (\<lambda>i. SubscriptionFact connection i ty (stringPart (ev_subscriptionPeriodStart n)))
                (stringPart (ev_providerSubscriptionId n)))"

fun named_parts :: "business_fact \<Rightarrow> string \<times> string list" where
  "named_parts (RefundFact c r) = (''dev_refund_'', [c, r])"
| "named_parts (PaymentFact c p ty) = (''dev_payment_'', [c, p, event_type_text ty])"
| "named_parts (SubscriptionFact c i ty start) =
     (''dev_subscription_'', [c, i, event_type_text ty] @ (case start of None \<Rightarrow> [] | Some p \<Rightarrow> [p]))"

text \<open>The digest, cut to 32 characters, tells two texts apart.\<close>

definition told_apart :: "(string \<Rightarrow> string) \<Rightarrow> string \<Rightarrow> string \<Rightarrow> bool" where
  "told_apart sha x y \<longleftrightarrow> (take 32 (sha x) = take 32 (sha y) \<longrightarrow> x = y)"

lemma event_type_text_inject: "event_type_text a = event_type_text b \<longleftrightarrow> a = b"
  by (cases a; cases b) simp_all

lemma fact_is_named: "fact_of n c = Some f \<Longrightarrow> fact_parts n c = Some (named_parts f)"
  by (cases "ev_type n") (auto simp: fact_of_def fact_parts_def Let_def split: option.splits if_splits)

lemma named_parts_inject: "named_parts f = named_parts g \<longleftrightarrow> f = g"
  by (cases f; cases g) (auto simp: event_type_text_inject split: option.splits)

lemma families: "fst (named_parts f) @ x = fst (named_parts g) @ y \<Longrightarrow> fst (named_parts f) = fst (named_parts g) \<and> x = y"
  by (cases f; cases g) simp_all

text \<open>C11. The id of a developer event is the name of its business fact: whatever inbox events
  report them, two facts get the same id exactly when they are the same refund, the same payment
  and outcome, or the same subscription, change and period of one provider connection; the encoding
  that is hashed never merges two facts, so only a collision of the digest could.\<close>

theorem developer_ids_name_facts:
  assumes "fact_of n c = Some f" and "fact_of n' c' = Some g"
    and "told_apart sha (canonical_fact (snd (named_parts f))) (canonical_fact (snd (named_parts g)))"
  shows "factBasedDeveloperEventId sha n c inbox = factBasedDeveloperEventId sha n' c' inbox' \<longleftrightarrow> f = g"
proof -
  have ids: "factBasedDeveloperEventId sha n c inbox = fst (named_parts f) @ canonicalFactHash sha (snd (named_parts f))"
    "factBasedDeveloperEventId sha n' c' inbox' = fst (named_parts g) @ canonicalFactHash sha (snd (named_parts g))"
    using fact_is_named [OF assms(1)] fact_is_named [OF assms(2)]
    by (simp_all add: factBasedDeveloperEventId_def split: prod.splits)
  show ?thesis
  proof
    assume "factBasedDeveloperEventId sha n c inbox = factBasedDeveloperEventId sha n' c' inbox'"
    then have same: "fst (named_parts f) = fst (named_parts g)"
        "canonicalFactHash sha (snd (named_parts f)) = canonicalFactHash sha (snd (named_parts g))"
      using families unfolding ids by blast+
    then have "snd (named_parts f) = snd (named_parts g)"
      using assms(3) by (simp add: told_apart_def canonicalFactHash_def canonical_fact_inject)
    with same(1) show "f = g" by (metis named_parts_inject prod.expand)
  qed (simp add: ids)
qed

definition demo_fact :: "string \<Rightarrow> string \<Rightarrow> provider_event" where
  "demo_fact eventId refundId = \<lparr>ev_provider = ''creem'', ev_providerConnectionId = ''con'', ev_providerEventId = eventId,
     ev_providerEventName = ''refund'', ev_type = PaymentRefunded, ev_applicationId = ''app'', ev_occurredAt = ''2026'',
     ev_providerPaymentId = Some ''pi'', ev_providerRefundId = Some refundId, ev_providerSubscriptionId = None,
     ev_monetplaneOrderId = None, ev_monetplaneCustomerId = None, ev_amountMinor = Some 5, ev_currency = Some ''USD'',
     ev_subscriptionStatus = None, ev_subscriptionPeriodStart = None, ev_subscriptionPeriodEnd = None,
     ev_cancelAtPeriodEnd = None\<rparr>"

lemma developer_ids_name_facts_witness:
  "factBasedDeveloperEventId id (demo_fact ''1'' ''a'') ''con'' ''wh_1'' = factBasedDeveloperEventId id (demo_fact ''2'' '' a'') ''con'' ''wh_2''
     \<and> factBasedDeveloperEventId id (demo_fact ''1'' ''a'') ''con'' ''wh_1'' \<noteq> factBasedDeveloperEventId id (demo_fact ''2'' ''b'') ''con'' ''wh_2''"
proof -
  have facts: "fact_of (demo_fact ''1'' ''a'') ''con'' = Some (RefundFact ''con'' ''a'')"
    "fact_of (demo_fact ''2'' '' a'') ''con'' = Some (RefundFact ''con'' ''a'')"
    "fact_of (demo_fact ''2'' ''b'') ''con'' = Some (RefundFact ''con'' ''b'')"
    by (simp_all add: fact_of_def demo_fact_def stringPart_def truthy_def trim_def is_js_space_def)
  have "told_apart id (canonical_fact [''con'', r]) (canonical_fact [''con'', r'])" if "length r = 1" "length r' = 1" for r r'
    using that by (simp add: told_apart_def canonical_simps string_of_nat.simps)
  then have apart: "told_apart id (canonical_fact (snd (named_parts (RefundFact ''con'' r)))) (canonical_fact (snd (named_parts (RefundFact ''con'' r'))))"
    if "length r = 1" "length r' = 1" for r r'
    using that by simp
  show ?thesis
    using developer_ids_name_facts [OF facts(1,2) apart] developer_ids_name_facts [OF facts(1,3) apart] by simp
qed

end
