(* ===== verification/Spec2Isabelle.thy ===== *)
theory Spec2Isabelle
  imports CreditProperties EntitlementProperties UsageProperties WebhookProperties PurchaseProperties
    MoneyProperties Catalog CatalogMapping RouterProperties CheckoutProperties ProvisioningProperties
    TeamProperties DeliveryProperties BillingEventProperties
begin

text \<open>
  \<^bold>\<open>Verification of the monetplane control plane.\<close>

  The program (\<open>src/src\<close>, TypeScript on PostgreSQL) sells the products of merchant applications
  through payment providers. An application has customers, products with prices and configured
  grants, and connections to providers. A checkout routes the requested products to a connection,
  books an order and asks the provider for a payment page. The provider's webhooks then move the
  order, its payments, refunds and subscriptions; what was bought becomes entitlements and credits,
  which the application checks, spends, reserves and meters. Applied provider events are published
  to the merchants' own webhook endpoints. Operators of the console are members of a workspace with
  roles, invitations and an audit log.

  \<^bold>\<open>How the code is modelled.\<close> A function that talks to the database is a \<open>('s, 'a) prog\<close>
  (\<open>JsRuntime\<close>): a function of the state that returns a value or a thrown error (the datatype
  \<open>err\<close>, one constructor per error class and per violated constraint) and the state it leaves. A
  table is a list of records, a text column with an \<open>IN\<close> check a datatype; \<open>Schema\<close>,
  \<open>CommerceSchema\<close>, \<open>CatalogSchema\<close>, \<open>Workspace\<close> and \<open>WebhookStore\<close> give each statement its column
  ranges (32 and 64 bit integers as ranges of \<open>int\<close>), checks, unique indexes and foreign keys. A
  transaction rolls back when its body throws. Numbers of JavaScript are \<open>int\<close> with the code's own
  safe-integer checks; where the code computes without one, in the billing of usage, the result is
  rounded to the nearest double (\<open>to_double\<close> in \<open>Usage\<close>). Dates are milliseconds, also in columns,
  which in the database have microseconds; the one place where this shows is noted at
  \<open>parkStaleInFlight\<close>. Texts are \<open>string\<close>; \<open>randomUUID\<close> prints a counter.
  Three states are kept apart because no statement touches two of them: \<open>db\<close> (commerce and
  credits), \<open>workspace\<close> (team and audit), \<open>outbox\<close> (developer webhooks); the publisher reads the
  first and writes the last.

  \<^bold>\<open>Which theory models which code\<close> (paths under \<open>src/src\<close>).
  \<^item> Credits: \<open>CreditBuckets\<close>, \<open>CreditService\<close>, \<open>CreditReservations\<close>, \<open>CreditRevocation\<close>,
    \<open>CreditCommerce\<close> for \<open>modules/credits/\<close> (\<open>buckets.ts\<close>, \<open>service.ts\<close>, \<open>revocation.ts\<close>,
    \<open>commerce.ts\<close>), tables in \<open>Schema\<close>.
  \<^item> Entitlements: \<open>Entitlements\<close> for \<open>modules/entitlements/service.ts\<close>. Usage metering: \<open>Usage\<close> for
    \<open>modules/usage/service.ts\<close>.
  \<^item> Commerce: \<open>WebhookPayments\<close>, \<open>WebhookSubscriptions\<close>, \<open>Webhooks\<close> for the webhook files of
    \<open>modules/commerce/\<close>; \<open>BillingReconcile\<close> for the transactions with which the console reconciles
    refunds and cancellations (\<open>server/control-plane/billing-operation-actions.ts\<close>); \<open>Router\<close> for \<open>router.ts\<close>; \<open>Checkout\<close> for \<open>checkout.ts\<close>; \<open>JsDate\<close> for the
    dates an event carries; \<open>Money\<close> for \<open>lib/money.ts\<close>.
  \<^item> Catalog: \<open>Catalog\<close> for \<open>modules/catalog/service.ts\<close>. Customers: \<open>Customers\<close> for
    \<open>modules/customers/service.ts\<close> and the callback origins of \<open>modules/applications/service.ts\<close>.
  \<^item> Providers: \<open>Connections\<close>, \<open>CatalogMapping\<close>, \<open>ProviderRuntime\<close>, \<open>Provisioning\<close> for
    \<open>modules/providers/\<close> (\<open>service.ts\<close>, \<open>catalog-mapping.ts\<close>, \<open>runtime.ts\<close> and \<open>registry.ts\<close>,
    \<open>catalog-provisioning.ts\<close>).
  \<^item> Team: \<open>Team\<close> for \<open>modules/team/\<close> and \<open>modules/admin/guard.ts\<close>; \<open>AuditLog\<close> for
    \<open>server/control-plane/audit.ts\<close>.
  \<^item> Developer webhooks: \<open>Deliveries\<close> for \<open>modules/webhooks/\<close>; \<open>BillingEvents\<close> for
    \<open>server/control-plane/billing-events.ts\<close>.

  \<^bold>\<open>The library.\<close> \<open>Prelude\<close> has the lemmas on rows, lookups and insertion ordered sets, and the
  collections \<open>row_simps\<close>, \<open>table_defs\<close>, \<open>prog_simps\<close> and \<open>run_simps\<close>, with which the simplifier
  evaluates a concrete run. Its interfaces are locales, each interpreted on the model's own
  operations: \<open>keyed_mutation\<close> and \<open>stored_answer\<close> (a request under an idempotency key is answered
  from its row ever after), \<open>frame\<close> and its extensions (what a program leaves alone, composed along
  the statements: \<open>credit_frame\<close>, \<open>webhook_frame\<close>, \<open>team_frame\<close>, \<open>outbox_frame\<close> and others), and
  \<open>invariant_system\<close> (a step relation, its inductive invariant and the order its steps follow).

  \<^bold>\<open>What the properties show.\<close>
  \<^item> Credits (C1 to C4, C8 to C10, C13, C14, C16 to C18): in every reachable state the balances are
    backed by buckets and explained by an append-only ledger; a grant applies once; debits, captures
    and releases move exactly their amounts, soonest expiring first; two defects of the code are
    stated as what it does (C16, C17). Reservations, captures and debits have the same contracts as
    theorems of \<open>CreditProperties\<close>.
  \<^item> Entitlements and usage (C19, C20, C24 to C27): access is exactly the window of the grants,
    revocation is exact and final, usage is counted once and billed without gap or overlap, and what
    a padded key does.
  \<^item> Provider webhooks (C28 to C33, C35, C36), over the machine of \<open>CommerceMachine\<close>: an event is
    applied once, until a late failed mark of an overlapping delivery, and all or nothing; payments
    and orders only move forward; refunds stay within the payment and close the order exactly when
    it is refunded in full; a payment delivers the purchase; a second payment of a delivered order
    with an entitlement is rejected and rolled back.
  \<^item> Checkout, money, routing, provisioning (C12, C22, C37 to C40): the booked order is the request
    priced by the catalog; printed money is read back exactly; the router refines a reference policy
    over sets; in every history of single statements, attempts overlapping or not, all attempts for
    a price make the same provider call; a superseded attempt cannot write, and a failed one can be
    retried.
  \<^item> Team (C5 to C7, C15): a workspace keeps an owner, members are what the guard sees, only owners
    make owners, all three while team operations run one at a time; and two owners who demote each
    other at once leave none (\<open>overlapping_changes_leave_access\<close> has the same for scopes).
  \<^item> Developer webhooks (C11, C21, C23, C34): the id of an event names its business fact, an event
    reaches an endpoint as one delivery, no delivery stays pending for ever; and two sweeps at once
    send a delivery twice.

  \<^bold>\<open>Interleaving.\<close> A transaction is one step, because the code takes an advisory or a row lock or
  updates conditionally. What runs outside of one is split where properties speak of interleaving:
  \<^item> an expiry sweep of credits scans and expires bucket by bucket;
  \<^item> a webhook delivery (\<open>CommerceMachine\<close>) is three steps, the inbox row, the transaction that applies
    the event and the failed mark, and the console's reconciliations are steps between them;
  \<^item> provisioning (\<open>ProvisioningFacts\<close>) is a machine of single statements; \<open>attempt\<close> lays the
    statements of \<open>beginProvision\<close> over a history of that machine, so that attempts overlap and an
    insert can be lost, while C12 and C22 take a whole \<open>beginProvision\<close> as one run between others;
  \<^item> the sweep of deliveries is its claims and deliveries, and a dispatch may die between its inserts
    and its deliveries.

  The team machine (\<open>TeamSteps\<close>) runs its operations one at a time, although the code reads outside
  the writing transaction; what overlapping can do is stated over the reads (\<open>plan_update\<close>,
  \<open>plan_removal\<close>) and the writing transactions of two operations. Usage reports and catalog changes
  are single steps. \<open>Promise.allSettled\<close> over deliveries is run in order; each touches its own row
  only.

  \<^bold>\<open>Termination and bounds.\<close> Loops run over finite lists. The one retry that has no bound of its own
  in the model is \<open>beginProvision\<close>, whose fuel counts the passes; one pass is enough without
  interference (C22), and an overlapping one may take any number (the rule \<open>again\<close> of \<open>attempt\<close>). The redaction of audit metadata stops at depth 4, which is its measure. Nine
  sweeps settle every delivery: eight attempts and the sweep that parks it (C21).

  \<^bold>\<open>Parameters\<close> stand for what the repository does not contain or only calls: the provider adapters
  and their registry, encryption, password and token hashes, random tokens, the keyed hash and the
  digest, the URL parser, the printing of JSON, the answers of merchants' endpoints, the session of
  a request, the text of a driver's error, and the one character of the audit log that has no 8-bit
  code. Theorems about them hold for every value; the only one that supposes something is C11, that
  the cut digest tells the two encodings at hand apart.

  \<^bold>\<open>Not modelled.\<close> The adapters of the payment services (HTTP and payload formats; their capability
  tables are in \<open>Connections\<close>), cryptography and session cookies, application settings other than
  callback origins, the customer portal and read tokens (links made of random secrets), the console's
  read models and forms, HTTP routes, pages, components, the SDK and translated text: they call the
  services above or present what these store. Of the console's billing operations, the journal rows
  (\<open>billing_operations\<close>), the calls to the provider and the audit entries are not modelled; what a
  reconciliation writes to payments, orders, refunds, subscriptions, entitlements and credits is.
  Rate limits, timeouts and console output have no effect on the modelled state.
\<close>

end
